(* ===== verification/Coinbase_Output.thy ===== *)
theory Coinbase_Output
  imports Prelude
begin

text \<open>
  Coinbase outputs and their configuration: the \<open>TxOut\<close> values every component passes around,
  \<open>stratum-apps/src/config_helpers/coinbase_output/\<close> (reward scripts from descriptors and from
  the legacy configuration), and \<open>stratum-apps/src/coinbase_output_constraints.rs\<close> (the space and
  sigop budget announced to the template provider).

  The descriptor and address parsers of the \<open>miniscript\<close> and \<open>bitcoin\<close> crates are parameters,
  collected in the record \<open>miniscript_lib\<close>; their errors are represented by the text they
  print, which is all the code reads of them.
\<close>

section \<open>Data\<close>

record tx_out =
  txout_value :: u64
  txout_script_pubkey :: bytes

definition TxOut :: "u64 \<Rightarrow> bytes \<Rightarrow> tx_out" where
  "TxOut v s = \<lparr>txout_value = v, txout_script_pubkey = s\<rparr>"

lemma TxOut_simps [simp]:
  "txout_value (TxOut v s) = v"
  "txout_script_pubkey (TxOut v s) = s"
  by (simp_all add: TxOut_def)

lemma TxOut_inject [simp]: "TxOut v s = TxOut v' s' \<longleftrightarrow> v = v' \<and> s = s'"
  by (simp add: TxOut_def)

definition outputs_value :: "tx_out list \<Rightarrow> nat" where
  "outputs_value outs = sum_list (map (\<lambda>x. unat (txout_value x)) outs)"

lemma outputs_value_simps [simp]:
  "outputs_value [] = 0"
  "outputs_value (t # ts) = unat (txout_value t) + outputs_value ts"
  "outputs_value (ts @ us) = outputs_value ts + outputs_value us"
  by (simp_all add: outputs_value_def)

record tx_in =
  txin_previous_output_null :: bool
  txin_script_sig :: bytes
  txin_sequence :: u32
  txin_witness :: "bytes list"

record transaction =
  tx_version :: u32
  tx_lock_time :: u32
  tx_input :: "tx_in list"
  tx_output :: "tx_out list"

section \<open>Reward scripts\<close>

datatype coinbase_output_error =
    AddressError string
  | HexError string
  | InvalidOutputScript
  | UnknownOutputScriptType
  | MiniscriptError string

definition display_coinbase_output_error :: "coinbase_output_error \<Rightarrow> string" where
  "display_coinbase_output_error e = (case e of
     AddressError s \<Rightarrow> ''Bitcoin address: '' @ s
   | HexError s \<Rightarrow> ''Decoding hex-formatted script: '' @ s
   | UnknownOutputScriptType \<Rightarrow> ''Unknown script type in config''
   | InvalidOutputScript \<Rightarrow> ''Invalid output_script_value for your script type. It must be a valid public key/script''
   | MiniscriptError s \<Rightarrow> ''Miniscript: '' @ s)"

record coinbase_reward_script =
  crs_script_pubkey :: bytes
  crs_ok_for_mainnet :: bool

text \<open>
  The functions of \<open>miniscript\<close> and \<open>bitcoin\<close> the parser calls: parsing a descriptor, parsing
  an expression tree, the name of its root, the terminal parent of the root read as an address or
  as a string, a descriptor built from a tree, hexadecimal scripts, the script of an address and
  whether it is a mainnet address.
\<close>

record ('t, 'a) miniscript_lib =
  ms_parse_descriptor :: "string \<Rightarrow> (bytes, string) result"
  ms_tree_from_str :: "string \<Rightarrow> ('t, string) result"
  ms_root_name :: "'t \<Rightarrow> string"
  ms_terminal_address :: "'t \<Rightarrow> ('a, string) result"
  ms_terminal_string :: "'t \<Rightarrow> (string, string) result"
  ms_descriptor_from_tree :: "'t \<Rightarrow> (bytes, string) result"
  ms_script_from_hex :: "string \<Rightarrow> (bytes, string) result"
  ms_address_script_pubkey :: "'a \<Rightarrow> bytes"
  ms_address_valid_for_mainnet :: "'a \<Rightarrow> bool"

definition from_descriptor ::
  "('t, 'a) miniscript_lib \<Rightarrow> string \<Rightarrow> (coinbase_reward_script, coinbase_output_error) result" where
  "from_descriptor ms s =
     (if prefix ''tr'' s then
        rbind (map_err MiniscriptError (ms_parse_descriptor ms s)) (\<lambda>spk.
          Ok \<lparr>crs_script_pubkey = spk, crs_ok_for_mainnet = True\<rparr>)
      else
        rbind (map_err MiniscriptError (ms_tree_from_str ms s)) (\<lambda>tree.
          if ms_root_name ms tree = ''addr'' then
            rbind (map_err MiniscriptError (ms_terminal_address ms tree)) (\<lambda>addr.
              Ok \<lparr>crs_script_pubkey = ms_address_script_pubkey ms addr,
                  crs_ok_for_mainnet = ms_address_valid_for_mainnet ms addr\<rparr>)
          else if ms_root_name ms tree = ''raw'' then
            rbind (map_err MiniscriptError (ms_terminal_string ms tree)) (\<lambda>script_hex.
              rbind (map_err HexError (ms_script_from_hex ms script_hex)) (\<lambda>spk.
                Ok \<lparr>crs_script_pubkey = spk, crs_ok_for_mainnet = True\<rparr>))
          else
            rbind (map_err MiniscriptError (ms_descriptor_from_tree ms tree)) (\<lambda>spk.
              Ok \<lparr>crs_script_pubkey = spk, crs_ok_for_mainnet = True\<rparr>)))"

text \<open>
  The legacy configuration form.  The key and hash parsers of the \<open>bitcoin\<close> crate are
  parameters; \<open>wpubkey_hash\<close> fails on an uncompressed key, and the source unwraps that failure:
  the panic is the outer \<^const>\<open>None\<close>.
\<close>

record legacy_coinbase_output =
  lco_output_script_type :: string
  lco_output_script_value :: string

record ('pk, 'sh, 'wsh, 'xk) script_lib =
  sl_parse_public_key :: "string \<Rightarrow> 'pk option"
  sl_parse_script_hash :: "string \<Rightarrow> 'sh option"
  sl_parse_wscript_hash :: "string \<Rightarrow> 'wsh option"
  sl_parse_xonly_key :: "string \<Rightarrow> 'xk option"
  sl_p2pk :: "'pk \<Rightarrow> bytes"
  sl_p2pkh :: "'pk \<Rightarrow> bytes"
  sl_p2wpkh :: "'pk \<Rightarrow> bytes option"
  sl_p2sh :: "'sh \<Rightarrow> bytes"
  sl_p2wsh :: "'wsh \<Rightarrow> bytes"
  sl_p2tr :: "'xk \<Rightarrow> bytes"

definition legacy_script_pubkey ::
  "('pk, 'sh, 'wsh, 'xk) script_lib \<Rightarrow> legacy_coinbase_output
    \<Rightarrow> (bytes, coinbase_output_error) result option" where
  "legacy_script_pubkey sl v =
     (let t = lco_output_script_type v; s = lco_output_script_value v;
          key = ok_or InvalidOutputScript (sl_parse_public_key sl s)
      in if t = ''TEST'' then Some (rbind key (\<lambda>k. Ok (sl_p2pkh sl k)))
         else if t = ''P2PK'' then Some (rbind key (\<lambda>k. Ok (sl_p2pk sl k)))
         else if t = ''P2PKH'' then Some (rbind key (\<lambda>k. Ok (sl_p2pkh sl k)))
         else if t = ''P2WPKH'' then
           (case key of Inl e \<Rightarrow> Some (Inl e) | Inr k \<Rightarrow> map_option Inr (sl_p2wpkh sl k))
         else if t = ''P2SH'' then
           Some (rbind (ok_or InvalidOutputScript (sl_parse_script_hash sl s)) (\<lambda>h. Ok (sl_p2sh sl h)))
         else if t = ''P2WSH'' then
           Some (rbind (ok_or InvalidOutputScript (sl_parse_wscript_hash sl s)) (\<lambda>h. Ok (sl_p2wsh sl h)))
         else if t = ''P2TR'' then
           Some (rbind (ok_or InvalidOutputScript (sl_parse_xonly_key sl s)) (\<lambda>k. Ok (sl_p2tr sl k)))
         else Some (Err UnknownOutputScriptType))"

definition try_from_legacy_output ::
  "('pk, 'sh, 'wsh, 'xk) script_lib \<Rightarrow> legacy_coinbase_output
    \<Rightarrow> (coinbase_reward_script, coinbase_output_error) result option" where
  "try_from_legacy_output sl v =
     map_option (\<lambda>r. rbind r (\<lambda>spk. Ok \<lparr>crs_script_pubkey = spk, crs_ok_for_mainnet = True\<rparr>))
       (legacy_script_pubkey sl v)"

datatype serde_coinbase_output = Legacy legacy_coinbase_output | Descriptor string

definition try_from_serde_output ::
  "('t, 'a) miniscript_lib \<Rightarrow> ('pk, 'sh, 'wsh, 'xk) script_lib \<Rightarrow> serde_coinbase_output
    \<Rightarrow> (coinbase_reward_script, coinbase_output_error) result option" where
  "try_from_serde_output ms sl v = (case v of
     Legacy l \<Rightarrow> try_from_legacy_output sl l
   | Descriptor s \<Rightarrow> Some (from_descriptor ms s))"

section \<open>Coinbase output constraints\<close>

record coinbase_output_constraints =
  coc_max_additional_size :: u32
  coc_max_additional_sigops :: u16

definition OFFSET_ADDITIONAL_SIZE :: u32 where "OFFSET_ADDITIONAL_SIZE = 43"

definition OFFSET_MAX_SIGOPS :: u16 where "OFFSET_MAX_SIGOPS = 4"

definition sum_u32 :: "u32 list \<Rightarrow> u32" where
  "sum_u32 xs = foldl (+) 0 xs"

text \<open>\<open>TxOut::size\<close> and \<open>Transaction::total_sigop_cost\<close> belong to the \<open>bitcoin\<close> crate.\<close>

record tx_metrics =
  tm_size :: "tx_out \<Rightarrow> nat"
  tm_total_sigop_cost :: "transaction \<Rightarrow> nat"

definition dummy_coinbase :: "tx_out list \<Rightarrow> transaction" where
  "dummy_coinbase outs =
     \<lparr>tx_version = 2, tx_lock_time = 0,
      tx_input = [\<lparr>txin_previous_output_null = True, txin_script_sig = [],
                   txin_sequence = - 1, txin_witness = [replicate 32 0]\<rparr>],
      tx_output = outs\<rparr>"

definition coinbase_output_constraints_message ::
  "tx_metrics \<Rightarrow> tx_out list \<Rightarrow> coinbase_output_constraints" where
  "coinbase_output_constraints_message tm outs =
     (let max_size = sum_u32 (map (\<lambda>x. word_of_nat (tm_size tm x)) outs);
          max_sigops = word_of_nat (tm_total_sigop_cost tm (dummy_coinbase outs))
      in \<lparr>coc_max_additional_size = max_size, coc_max_additional_sigops = max_sigops\<rparr>)"

definition coinbase_output_constraints_message_with_offset ::
  "tx_metrics \<Rightarrow> tx_out list \<Rightarrow> coinbase_output_constraints" where
  "coinbase_output_constraints_message_with_offset tm outs =
     (let c = coinbase_output_constraints_message tm outs
      in \<lparr>coc_max_additional_size = coc_max_additional_size c + OFFSET_ADDITIONAL_SIZE,
          coc_max_additional_sigops = coc_max_additional_sigops c + OFFSET_MAX_SIGOPS\<rparr>)"

lemma foldl_plus_word32: "foldl (+) (a::u32) xs = a + sum_list xs"
  by (induction xs arbitrary: a) (simp_all add: add.assoc)

lemma sum_u32_simps [simp]:
  "sum_u32 [] = 0"
  "sum_u32 (x # xs) = x + sum_u32 xs"
  by (simp_all add: sum_u32_def foldl_plus_word32)

lemma unat_sum_u32_of_nat:
  "sum_list (map f xs) < 2 ^ 32 \<Longrightarrow>
     unat (sum_u32 (map (\<lambda>x. word_of_nat (f x)) xs)) = sum_list (map f xs)"
  by (induction xs) (simp_all add: word_arith unat_of_nat)

text \<open>
  The announced budget leaves room for the payout address of any channel: replacing the
  configured first output by one at most 43 bytes larger keeps the outputs within the budget.
\<close>

lemma constraints_cover_replacement:
  assumes "sum_list (map (tm_size tm) (t # ts)) + 43 < 2 ^ 32"
    and "tm_size tm t' \<le> tm_size tm t + 43"
  shows "sum_list (map (tm_size tm) (t' # ts))
    \<le> unat (coc_max_additional_size (coinbase_output_constraints_message_with_offset tm (t # ts)))"
proof -
  let ?s = "sum_list (map (tm_size tm) (t # ts))"
  have s: "unat (sum_u32 (map (\<lambda>x. word_of_nat (tm_size tm x)) (t # ts))) = ?s"
    using assms(1) by (intro unat_sum_u32_of_nat) simp
  have "unat (coc_max_additional_size (coinbase_output_constraints_message_with_offset tm (t # ts)))
      = ?s + 43"
    using s assms(1)
    by (subst s [symmetric])
      (simp only: coinbase_output_constraints_message_with_offset_def
        coinbase_output_constraints_message_def Let_def OFFSET_ADDITIONAL_SIZE_def
        coinbase_output_constraints.simps unat_word_ariths, simp)
  with assms(2) show ?thesis by simp
qed

section \<open>A concrete parser\<close>

text \<open>
  An instance of the parser parameters on which the properties are exercised: it reads
  \<open>addr(...)\<close> expressions whose argument is a word of lower-case letters and digits that starts
  with \<open>bc1\<close>, and uses the bytes of the address as its script.
\<close>

definition simple_address :: "string \<Rightarrow> bool" where
  "simple_address a = (prefix ''bc1'' a \<and>
     list_all (\<lambda>c. is_digit c \<or> (97 \<le> (of_char c :: nat) \<and> (of_char c :: nat) \<le> 122)) a)"

definition simple_miniscript :: "(string, string) miniscript_lib" where
  "simple_miniscript =
     \<lparr>ms_parse_descriptor = (\<lambda>s. Err ''unsupported descriptor''),
      ms_tree_from_str = (\<lambda>s. Ok s),
      ms_root_name = takeWhile (\<lambda>c. c \<noteq> CHR ''(''),
      ms_terminal_address = (\<lambda>s. let a = takeWhile (\<lambda>c. c \<noteq> CHR '')'') (drop 5 s)
         in if simple_address a then Ok a else Err ''invalid address''),
      ms_terminal_string = (\<lambda>s. Ok (takeWhile (\<lambda>c. c \<noteq> CHR '')'') (drop 4 s))),
      ms_descriptor_from_tree = (\<lambda>s. Err ''unsupported descriptor''),
      ms_script_from_hex = (\<lambda>s. Err ''unsupported script''),
      ms_address_script_pubkey = str_bytes,
      ms_address_valid_for_mainnet = (\<lambda>a. True)\<rparr>"

end
