(* ===== verification/Payout.thy ===== *)
theory Payout
  imports Coinbase_Output
begin

text \<open>
  Payout modes (\<open>stratum-apps/src/payout.rs\<close>): parsing of a mining identity, distribution of the
  coinbase value over outputs, and the validation of the outputs of an upstream job.  The address
  parser is reached through \<open>from_descriptor\<close> and its parameter record; the test for OP_RETURN
  scripts and the decoder of a serialized output vector are parameters of the operations that use
  them.
\<close>

section \<open>Data\<close>

datatype payout_mode =
    Solo string coinbase_reward_script
  | LegacySolo string coinbase_reward_script
  | Donate u8 string coinbase_reward_script
  | FullDonation

datatype missing_miner_payout_mode = MissingFullDonation | MissingNoPayoutMode

datatype payout_mode_error =
    NoPayoutMode string
  | InvalidUserIdentity string
  | InvalidPayoutAddress string string
  | InvalidDonationPercentage string
  | MissingMinerPayout string missing_miner_payout_mode

datatype payout_validation_error =
    NoSpendableOutputs
  | PayoutMismatch string u64 u8 u64 u64
  | CoinbaseTxSuffixTooShort
  | DecodeCoinbaseOutputs string

definition MIN_LEGACY_SOLO_PAYOUT_PERCENTAGE :: u8 where
  "MIN_LEGACY_SOLO_PAYOUT_PERCENTAGE = 90"

section \<open>Distribution\<close>

definition payout_coinbase_outputs ::
  "payout_mode \<Rightarrow> u64 \<Rightarrow> coinbase_reward_script \<Rightarrow> tx_out list" where
  "payout_coinbase_outputs m total_value pool_script = (case m of
     Solo _ script \<Rightarrow> [TxOut total_value (crs_script_pubkey script)]
   | LegacySolo _ script \<Rightarrow> [TxOut total_value (crs_script_pubkey script)]
   | Donate percentage _ miner_script \<Rightarrow>
       (let pool_value = (total_value * ucast percentage) div 100;
            miner_value = saturating_sub total_value pool_value
        in [TxOut pool_value (crs_script_pubkey pool_script),
            TxOut miner_value (crs_script_pubkey miner_script)])
   | FullDonation \<Rightarrow> [TxOut total_value (crs_script_pubkey pool_script)])"

definition miner_address :: "payout_mode \<Rightarrow> string option" where
  "miner_address m = (case m of
     Solo a _ \<Rightarrow> Some a | LegacySolo a _ \<Rightarrow> Some a | Donate _ a _ \<Rightarrow> Some a
   | FullDonation \<Rightarrow> None)"

definition miner_script_pubkey :: "payout_mode \<Rightarrow> bytes option" where
  "miner_script_pubkey m = (case m of
     Solo _ s \<Rightarrow> Some (crs_script_pubkey s) | LegacySolo _ s \<Rightarrow> Some (crs_script_pubkey s)
   | Donate _ _ s \<Rightarrow> Some (crs_script_pubkey s)
   | FullDonation \<Rightarrow> None)"

definition expected_miner_percentage :: "payout_mode \<Rightarrow> u8" where
  "expected_miner_percentage m = (case m of
     Solo _ _ \<Rightarrow> 100 | LegacySolo _ _ \<Rightarrow> 100
   | Donate percentage _ _ \<Rightarrow> 100 - percentage
   | FullDonation \<Rightarrow> 0)"

definition expected_miner_sats :: "payout_mode \<Rightarrow> u64 \<Rightarrow> u64" where
  "expected_miner_sats m total_spendable_sats = (case m of
     Solo _ _ \<Rightarrow> total_spendable_sats | LegacySolo _ _ \<Rightarrow> total_spendable_sats
   | Donate percentage _ _ \<Rightarrow>
       (let pool_sats = (total_spendable_sats * ucast percentage) div 100
        in saturating_sub total_spendable_sats pool_sats)
   | FullDonation \<Rightarrow> 0)"

definition expected_legacy_solo_miner_sats :: "u64 \<Rightarrow> u64" where
  "expected_legacy_solo_miner_sats total_spendable_sats =
     word_div_ceil (total_spendable_sats * ucast MIN_LEGACY_SOLO_PAYOUT_PERCENTAGE) 100"

section \<open>Validation\<close>

definition spendable :: "(bytes \<Rightarrow> bool) \<Rightarrow> tx_out list \<Rightarrow> tx_out list" where
  "spendable is_op_return outputs =
     filter (\<lambda>t. \<not> is_op_return (txout_script_pubkey t)) outputs"

definition validate_coinbase_outputs ::
  "(bytes \<Rightarrow> bool) \<Rightarrow> payout_mode \<Rightarrow> tx_out list \<Rightarrow> (unit, payout_validation_error) result" where
  "validate_coinbase_outputs is_op_return m outputs = (case miner_script_pubkey m of
     None \<Rightarrow> Ok ()
   | Some spk \<Rightarrow>
      (let total = sum_u64 (map txout_value (spendable is_op_return outputs));
           actual = sum_u64 (map txout_value
             (filter (\<lambda>t. txout_script_pubkey t = spk) (spendable is_op_return outputs)));
           address = (case miner_address m of None \<Rightarrow> [] | Some a \<Rightarrow> a)
       in if total = 0 then Err NoSpendableOutputs
          else (case m of
             LegacySolo _ _ \<Rightarrow>
               (let expected = expected_legacy_solo_miner_sats total
                in if actual < expected
                   then Err (PayoutMismatch address expected MIN_LEGACY_SOLO_PAYOUT_PERCENTAGE
                               total actual)
                   else Ok ())
           | _ \<Rightarrow>
               (let expected = expected_miner_sats m total
                in if actual \<noteq> expected
                   then Err (PayoutMismatch address expected (expected_miner_percentage m)
                               total actual)
                   else Ok ()))))"

definition validate_coinbase_tx_suffix ::
  "(bytes \<Rightarrow> bool) \<Rightarrow> (bytes \<Rightarrow> (tx_out list, string) result) \<Rightarrow> payout_mode \<Rightarrow> bytes
    \<Rightarrow> (unit, payout_validation_error) result" where
  "validate_coinbase_tx_suffix is_op_return decode_outputs m coinbase_tx_suffix =
     (if length coinbase_tx_suffix < 4 then Err CoinbaseTxSuffixTooShort
      else rbind (map_err DecodeCoinbaseOutputs (decode_outputs (drop 4 coinbase_tx_suffix)))
             (validate_coinbase_outputs is_op_return m))"

section \<open>Parsing\<close>

definition script_from_address ::
  "('t, 'a) miniscript_lib \<Rightarrow> string \<Rightarrow> (coinbase_reward_script, payout_mode_error) result" where
  "script_from_address ms address =
     map_err (\<lambda>e. InvalidPayoutAddress address (display_coinbase_output_error e))
       (from_descriptor ms (''addr('' @ address @ '')''))"

definition address_part_from_user_identity :: "string \<Rightarrow> string" where
  "address_part_from_user_identity user_identity =
     (case split_once (CHR ''.'') user_identity of
        None \<Rightarrow> user_identity | Some (address, _) \<Rightarrow> address)"

text \<open>The match on the first four segments of the identity, once the legacy form has failed.\<close>

definition payout_mode_of_parts ::
  "('t, 'a) miniscript_lib \<Rightarrow> string \<Rightarrow> string list \<Rightarrow> (payout_mode, payout_mode_error) result" where
  "payout_mode_of_parts ms user_identity parts = (case parts of
     (p0 # p1 # rest) \<Rightarrow>
       (if p0 = ''sri'' \<and> p1 = ''solo'' \<and> rest \<noteq> [] then
          rbind (script_from_address ms (rest ! 0)) (\<lambda>script. Ok (Solo (rest ! 0) script))
        else if p0 = ''sri'' \<and> p1 = ''donate'' \<and> length rest < 2 then Ok FullDonation
        else if p0 = ''sri'' \<and> p1 = ''donate'' then
          rbind (ok_or (InvalidDonationPercentage (rest ! 0)) (parse_unsigned 8 (rest ! 0)))
            (\<lambda>p. if \<not> (1 \<le> p \<and> p < 100) then Err (InvalidDonationPercentage (dec_nat p))
                 else rbind (script_from_address ms (rest ! 1))
                   (\<lambda>script. Ok (Donate (word_of_nat p) (rest ! 1) script)))
        else if p0 = ''sri'' then Err (InvalidUserIdentity user_identity)
        else Err (NoPayoutMode user_identity))
   | _ \<Rightarrow> Err (NoPayoutMode user_identity))"

definition payout_mode_try_from ::
  "('t, 'a) miniscript_lib \<Rightarrow> string \<Rightarrow> (payout_mode, payout_mode_error) result" where
  "payout_mode_try_from ms user_identity =
     (if user_identity = [] then Err (NoPayoutMode user_identity)
      else (let addr = address_part_from_user_identity user_identity in
        case script_from_address ms addr of
          Inr script \<Rightarrow> Ok (LegacySolo addr script)
        | Inl _ \<Rightarrow> payout_mode_of_parts ms user_identity (split_char (CHR ''/'') user_identity)))"

section \<open>Printing\<close>

definition display_payout_mode :: "payout_mode \<Rightarrow> string" where
  "display_payout_mode m = (case m of
     Solo address _ \<Rightarrow> ''100% miner payout to '' @ address
   | LegacySolo address _ \<Rightarrow>
       ''at least '' @ dec_nat (unat MIN_LEGACY_SOLO_PAYOUT_PERCENTAGE) @ ''% miner payout to '' @ address
   | Donate percentage address _ \<Rightarrow>
       dec_nat (unat (100 - percentage)) @ ''% miner payout to '' @ address @ '' ('' @
       dec_nat (unat percentage) @ ''% pool donation)''
   | FullDonation \<Rightarrow> ''100% pool payout'')"

definition display_payout_validation_error :: "payout_validation_error \<Rightarrow> string" where
  "display_payout_validation_error e = (case e of
     NoSpendableOutputs \<Rightarrow> ''coinbase has no spendable outputs''
   | PayoutMismatch address expected_sats expected_percentage total_spendable_sats actual_sats \<Rightarrow>
       ''coinbase payout mismatch for '' @ address @ '': expected '' @ dec_nat (unat expected_sats) @
       '' sats ('' @ dec_nat (unat expected_percentage) @ ''% of '' @
       dec_nat (unat total_spendable_sats) @ '' spendable sats), found '' @
       dec_nat (unat actual_sats) @ '' sats''
   | CoinbaseTxSuffixTooShort \<Rightarrow> ''coinbase_tx_suffix is too short to contain an input sequence''
   | DecodeCoinbaseOutputs s \<Rightarrow> ''failed to decode coinbase outputs: '' @ s)"

section \<open>Lemmas\<close>

lemma spendable_simps [simp]:
  "spendable P [] = []"
  "spendable P (t # ts) =
     (if P (txout_script_pubkey t) then spendable P ts else t # spendable P ts)"
  "spendable P (ts @ us) = spendable P ts @ spendable P us"
  by (simp_all add: spendable_def)

lemma spendable_op_returns:
  "\<forall>t \<in> set ts. P (txout_script_pubkey t) \<Longrightarrow> spendable P ts = []"
  by (simp add: spendable_def)

lemma unat_ucast_u8_u64 [simp]: "unat (ucast (p :: u8) :: u64) = unat p"
proof -
  have "unat p < 2 ^ 8" using unat_bound [of p] by simp
  then show ?thesis by (simp add: unsigned_ucast_eq take_bit_eq_mod)
qed

text \<open>The pool's share never exceeds the total, whether or not the product wraps.\<close>

lemma donation_le_total:
  fixes total :: u64 and p :: u8
  assumes "p \<le> 100"
  shows "(total * ucast p) div 100 \<le> total"
proof -
  have p: "unat p \<le> 100" using assms by (simp add: word_le_nat_alt)
  have "unat (total * ucast p) \<le> unat total * unat p"
    by (simp add: unat_word_ariths)
  also have "\<dots> \<le> unat total * 100" using p by simp
  finally have "unat (total * ucast p) div 100 \<le> unat total"
    by (metis div_le_mono nonzero_mult_div_cancel_right zero_neq_numeral)
  then show ?thesis by (simp add: word_le_nat_alt unat_div)
qed

lemma unat_donation:
  fixes total :: u64 and p :: u8
  assumes "unat total * 100 < 2 ^ 64" and "p \<le> 100"
  shows "unat ((total * ucast p) div 100) = unat total * unat p div 100"
proof -
  have p: "unat p \<le> 100" using assms by (simp add: word_le_nat_alt)
  have "unat total * unat p \<le> unat total * 100" using p by simp
  also note assms(1)
  finally have "unat (total * ucast p) = unat total * unat p"
    by (simp add: unat_mult_no_wrap)
  then show ?thesis by (simp add: unat_div)
qed

lemma word_div_ceil_100:
  fixes a :: u64
  shows "word_div_ceil a 100 \<le> b \<longleftrightarrow> unat a \<le> 100 * unat b"
proof -
  let ?d = "unat a div 100" and ?m = "unat a mod 100"
  have d: "unat (a div 100) = ?d" and m: "unat (a mod 100) = ?m"
    by (simp_all add: unat_div unat_mod)
  have s: "unat a = 100 * ?d + ?m" by simp
  have "unat a < 2 ^ 64" using unat_bound [of a] by simp
  then have suc: "unat (a div 100 + 1) = ?d + 1"
    using d by (subst unat_add_no_wrap) simp_all
  show ?thesis
  proof (cases "?m = 0")
    case True
    then have "a mod 100 = 0" using m by (simp add: unat_eq_0)
    with d s True show ?thesis by (auto simp: word_div_ceil_def word_le_nat_alt)
  next
    case False
    then have "a mod 100 \<noteq> 0" using m by (metis unsigned_0)
    moreover have "?d + 1 \<le> unat b \<longleftrightarrow> unat a \<le> 100 * unat b" 
      using div_less_iff_less_mult [of 100 "unat a" "unat b"] False
      by (auto simp: Suc_le_eq mult.commute le_less)
    ultimately show ?thesis using suc by (simp add: word_div_ceil_def word_le_nat_alt)
  qed
qed


text \<open>The branches of the validation, over the sums of spendable outputs.\<close>

lemma validate_unfold:
  fixes total actual :: u64
  assumes "miner_script_pubkey m = Some spk"
    and "total = sum_u64 (map txout_value (spendable P outs))"
    and "actual = sum_u64 (map txout_value
           (filter (\<lambda>t. txout_script_pubkey t = spk) (spendable P outs)))"
  shows "validate_coinbase_outputs P m outs = Ok () \<longleftrightarrow>
    total \<noteq> 0 \<and>
    (case m of LegacySolo _ _ \<Rightarrow> expected_legacy_solo_miner_sats total \<le> actual
     | _ \<Rightarrow> actual = expected_miner_sats m total)"
  unfolding validate_coinbase_outputs_def assms(2,3)
  using assms(1) by (cases m) (auto simp: Let_def not_less)

lemma legacy_expected_le_iff:
  fixes total actual :: u64
  assumes "unat total * 100 < 2 ^ 64"
  shows "expected_legacy_solo_miner_sats total \<le> actual \<longleftrightarrow> 90 * unat total \<le> 100 * unat actual"
proof -
  have "unat (total * ucast MIN_LEGACY_SOLO_PAYOUT_PERCENTAGE) = unat total * 90"
    using assms by (subst unat_mult_no_wrap) (simp_all add: MIN_LEGACY_SOLO_PAYOUT_PERCENTAGE_def)
  then show ?thesis
    unfolding expected_legacy_solo_miner_sats_def word_div_ceil_100 by (simp add: mult.commute)
qed

lemma donate_expected_eq:
  fixes total :: u64
  assumes "p \<le> 100"
  shows "expected_miner_sats (Donate p a s) total = total - (total * ucast p) div 100"
  using donation_le_total [OF assms, of total]
  by (simp add: expected_miner_sats_def saturating_sub_def)

section \<open>Parsed modes\<close>

text \<open>What every parsed mode satisfies, and the identity a mode is written as.\<close>

definition payout_mode_wf :: "('t, 'a) miniscript_lib \<Rightarrow> payout_mode \<Rightarrow> bool" where
  "payout_mode_wf ms m = (case m of
     Solo a s \<Rightarrow> CHR ''/'' \<notin> set a \<and> script_from_address ms a = Ok s
   | LegacySolo a s \<Rightarrow> CHR ''.'' \<notin> set a \<and> script_from_address ms a = Ok s
   | Donate p a s \<Rightarrow> 1 \<le> p \<and> p < 100 \<and> CHR ''/'' \<notin> set a \<and> script_from_address ms a = Ok s
   | FullDonation \<Rightarrow> True)"

definition identity_of :: "payout_mode \<Rightarrow> string \<Rightarrow> string" where
  "identity_of m worker = (case m of
     Solo a _ \<Rightarrow> ''sri/solo/'' @ a @ ''/'' @ worker
   | LegacySolo a _ \<Rightarrow> a @ ''.'' @ worker
   | Donate p a _ \<Rightarrow> ''sri/donate/'' @ dec_nat (unat p) @ ''/'' @ a @ ''/'' @ worker
   | FullDonation \<Rightarrow> ''sri/donate/'' @ worker)"

lemma of_nat_u8_bounds:
  "1 \<le> n \<Longrightarrow> n < 100 \<Longrightarrow> (1 :: u8) \<le> word_of_nat n \<and> (word_of_nat n :: u8) < 100"
  by (simp add: word_le_nat_alt word_less_nat_alt unat_of_nat)

lemma parse_unsigned_bound: "parse_unsigned w s = Some n \<Longrightarrow> n < 2 ^ w"
  by (auto simp: parse_unsigned_def Let_def split: option.splits if_splits)

lemma payout_mode_of_parts_Ok:
  assumes "payout_mode_of_parts ms u parts = Ok m"
  shows "(\<exists>a s. m = Solo a s \<and> a \<in> set parts \<and> script_from_address ms a = Ok s) \<or>
    m = FullDonation \<or>
    (\<exists>n a s. m = Donate (word_of_nat n) a s \<and> a \<in> set parts \<and> script_from_address ms a = Ok s \<and>
       1 \<le> n \<and> n < 100)"
proof -
  obtain p0 p1 rest where parts: "parts = p0 # p1 # rest"
    using assms by (auto simp: payout_mode_of_parts_def split: list.splits)
  note eq = assms [unfolded parts payout_mode_of_parts_def list.case]
  consider "p0 = ''sri'' \<and> p1 = ''solo'' \<and> rest \<noteq> []"
    | "\<not> (p0 = ''sri'' \<and> p1 = ''solo'' \<and> rest \<noteq> [])" "p0 = ''sri'' \<and> p1 = ''donate'' \<and> length rest < 2"
    | "\<not> (p0 = ''sri'' \<and> p1 = ''solo'' \<and> rest \<noteq> [])" "\<not> (p0 = ''sri'' \<and> p1 = ''donate'' \<and> length rest < 2)"
      "p0 = ''sri'' \<and> p1 = ''donate''" "\<not> length rest < 2"
    | "\<not> (p0 = ''sri'' \<and> p1 = ''solo'' \<and> rest \<noteq> [])" "\<not> (p0 = ''sri'' \<and> p1 = ''donate'')"
    by blast
  then show ?thesis
  proof cases
    case 1
    then have "rest ! 0 \<in> set parts" by (simp add: parts)
    with eq 1 show ?thesis by (simp only: if_True) (auto simp: rbind_eq_Inr_iff)
  next
    case 2
    with eq show ?thesis by (simp only: if_True if_False) auto
  next
    case 3
    then have "rest ! 1 \<in> set parts" by (simp add: parts)
    with eq [unfolded if_not_P [OF 3(1)] if_not_P [OF 3(2)] if_P [OF 3(3)]] show ?thesis
      by (auto simp: rbind_eq_Inr_iff ok_or_def split: if_splits option.splits)
  next
    case 4
    have "\<not> (p0 = ''sri'' \<and> p1 = ''donate'' \<and> length rest < 2)" using 4 by blast
    from eq [unfolded if_not_P [OF 4(1)] if_not_P [OF this] if_not_P [OF 4(2)]]
    show ?thesis by (simp split: if_splits)
  qed
qed

lemma payout_mode_of_parts_wf:
  assumes "payout_mode_of_parts ms u (split_char (CHR ''/'') u) = Ok m"
  shows "payout_mode_wf ms m"
  using payout_mode_of_parts_Ok [OF assms] split_char_no_sep [of _ "CHR ''/''" u]
  by (auto simp: payout_mode_wf_def of_nat_u8_bounds)

lemma payout_mode_try_from_wf:
  assumes "payout_mode_try_from ms u = Ok m"
  shows "payout_mode_wf ms m"
  using assms payout_mode_of_parts_wf [of ms u m]
  by (auto simp: payout_mode_try_from_def Let_def payout_mode_wf_def split_once_Some_iff
      split_once_None_iff address_part_from_user_identity_def
      split: if_splits sum.splits option.splits)

lemma sep_not_digit [simp]: "CHR ''/'' \<notin> set (dec_nat n)" "CHR ''.'' \<notin> set (dec_nat n)"
  using dec_nat_digits [of "CHR ''/''" n] dec_nat_digits [of "CHR ''.''" n]
  by (auto simp: is_digit_def)

lemma split_sri:
  "split_char (CHR ''/'') (''sri/'' @ s) = ''sri'' # split_char (CHR ''/'') s"
  "split_char (CHR ''/'') (''solo/'' @ s) = ''solo'' # split_char (CHR ''/'') s"
  "split_char (CHR ''/'') (''donate/'' @ s) = ''donate'' # split_char (CHR ''/'') s"
  by simp_all

section \<open>Properties\<close>

text \<open>
  C1. Whatever identity a miner sends, the outputs built for the parsed payout mode distribute
  exactly the coinbase value, also when the 64-bit product of value and percentage wraps: no
  satoshi is lost or created.
\<close>

theorem payout_outputs_conserve:
  fixes total :: u64
  assumes "payout_mode_try_from ms user_identity = Ok m"
  shows "outputs_value (payout_coinbase_outputs m total pool) = unat total"
proof (cases m)
  case (Donate p a s)
  then have "p \<le> 100" using payout_mode_try_from_wf [OF assms]
    by (simp add: payout_mode_wf_def less_imp_le)
  then have "(total * ucast p) div 100 \<le> total" by (rule donation_le_total)
  with Donate show ?thesis
    by (simp add: payout_coinbase_outputs_def Let_def saturating_sub_def word_arith word_le_nat_alt)
qed (simp_all add: payout_coinbase_outputs_def)

theorem payout_outputs_conserve_witness:
  "outputs_value (payout_coinbase_outputs
     (Donate 10 ''bc1q'' \<lparr>crs_script_pubkey = str_bytes ''bc1q'', crs_ok_for_mainnet = True\<rparr>)
     5000000001 \<lparr>crs_script_pubkey = [2], crs_ok_for_mainnet = True\<rparr>) = 5000000001"
proof -
  have "payout_mode_try_from simple_miniscript ''sri/donate/10/bc1q/w'' =
    Ok (Donate 10 ''bc1q'' \<lparr>crs_script_pubkey = str_bytes ''bc1q'', crs_ok_for_mainnet = True\<rparr>)"
    by code_simp
  from payout_outputs_conserve [OF this, of 5000000001] show ?thesis by simp
qed

text \<open>
  What the pool builds, the client-side check accepts: for every mode, the outputs built by
  \<open>coinbase_outputs\<close> followed by any OP_RETURN outputs pass \<open>validate_coinbase_outputs\<close>.
\<close>

theorem built_outputs_validate:
  fixes total :: u64
  assumes "total \<noteq> 0" and "unat total * 100 < 2 ^ 64"
    and "case m of Donate p _ s \<Rightarrow> p \<le> 100 \<and> crs_script_pubkey s \<noteq> crs_script_pubkey pool
         | _ \<Rightarrow> True"
    and "\<not> P (crs_script_pubkey pool)" "\<forall>spk. miner_script_pubkey m = Some spk \<longrightarrow> \<not> P spk"
    and "\<forall>t \<in> set commitments. P (txout_script_pubkey t)"
  shows "validate_coinbase_outputs P m (payout_coinbase_outputs m total pool @ commitments) = Ok ()"
proof (cases m)
  case (Solo a s)
  with assms show ?thesis
    by (simp add: validate_coinbase_outputs_def miner_script_pubkey_def payout_coinbase_outputs_def
        spendable_op_returns expected_miner_sats_def Let_def)
next
  case (LegacySolo a s)
  moreover have "expected_legacy_solo_miner_sats total \<le> total"
    using assms(2) by (simp add: legacy_expected_le_iff)
  ultimately show ?thesis using assms
    by (simp add: validate_coinbase_outputs_def miner_script_pubkey_def payout_coinbase_outputs_def
        spendable_op_returns Let_def not_less)
next
  case (Donate p a s)
  then have "(total * ucast p) div 100 \<le> total" using assms(3) by (simp add: donation_le_total)
  with Donate assms show ?thesis
    by (simp add: validate_coinbase_outputs_def miner_script_pubkey_def payout_coinbase_outputs_def
        spendable_op_returns donate_expected_eq saturating_sub_def Let_def
        eq_commute [of "crs_script_pubkey pool"])
next
  case FullDonation
  then show ?thesis by (simp add: validate_coinbase_outputs_def miner_script_pubkey_def)
qed

theorem built_outputs_validate_witness:
  "validate_coinbase_outputs (\<lambda>s. take 1 s = [0x6a])
     (Donate 10 ''a'' \<lparr>crs_script_pubkey = [1], crs_ok_for_mainnet = True\<rparr>)
     (payout_coinbase_outputs (Donate 10 ''a'' \<lparr>crs_script_pubkey = [1], crs_ok_for_mainnet = True\<rparr>)
        5000000001 \<lparr>crs_script_pubkey = [2], crs_ok_for_mainnet = True\<rparr> @ [TxOut 0 [0x6a, 1]]) = Ok ()"
  by (rule built_outputs_validate) (simp_all add: miner_script_pubkey_def)

text \<open>
  Legacy solo validation accepts a coinbase exactly when it has spendable value and the miner's
  script receives at least 90 percent of it; the ceiling division neither lets a smaller payout
  pass nor rejects a sufficient one.
\<close>

theorem legacy_solo_accepts_iff_90_percent:
  fixes outs :: "tx_out list"
  assumes "outputs_value (spendable P outs) * 100 < 2 ^ 64"
  shows "validate_coinbase_outputs P (LegacySolo a s) outs = Ok () \<longleftrightarrow>
    0 < outputs_value (spendable P outs) \<and>
    90 * outputs_value (spendable P outs) \<le> 100 * outputs_value
      (filter (\<lambda>t. txout_script_pubkey t = crs_script_pubkey s) (spendable P outs))"
proof -
  let ?sp = "spendable P outs"
  let ?mine = "filter (\<lambda>t. txout_script_pubkey t = crs_script_pubkey s) ?sp"
  have le: "outputs_value ?mine \<le> outputs_value ?sp"
    unfolding outputs_value_def by (rule sum_list_filter_le)
  have sp: "unat (sum_u64 (map txout_value ?sp)) = outputs_value ?sp"
    using assms by (subst unat_sum_u64) (simp_all add: outputs_value_def comp_def)
  have mine: "unat (sum_u64 (map txout_value ?mine)) = outputs_value ?mine"
    using assms le by (subst unat_sum_u64) (simp_all add: outputs_value_def comp_def)
  have spk: "miner_script_pubkey (LegacySolo a s) = Some (crs_script_pubkey s)"
    by (simp add: miner_script_pubkey_def)
  have "sum_u64 (map txout_value ?sp) \<noteq> 0 \<longleftrightarrow> 0 < outputs_value ?sp"
    unfolding sp [symmetric] by (simp add: unat_gt_0)
  with legacy_expected_le_iff [of "sum_u64 (map txout_value ?sp)" "sum_u64 (map txout_value ?mine)"]
    assms show ?thesis
    unfolding validate_unfold [OF spk refl refl] sp mine by simp
qed

theorem legacy_solo_accepts_iff_90_percent_witness:
  "validate_coinbase_outputs (\<lambda>_. False) (LegacySolo ''a'' \<lparr>crs_script_pubkey = [1], crs_ok_for_mainnet = True\<rparr>)
     [TxOut 91 [1], TxOut 10 [2]] = Ok () \<and>
   validate_coinbase_outputs (\<lambda>_. False) (LegacySolo ''a'' \<lparr>crs_script_pubkey = [1], crs_ok_for_mainnet = True\<rparr>)
     [TxOut 90 [1], TxOut 11 [2]] \<noteq> Ok ()"
  using legacy_solo_accepts_iff_90_percent
      [of "\<lambda>_. False" "[TxOut 91 [1], TxOut 10 [2]]" "''a''" "\<lparr>crs_script_pubkey = [1], crs_ok_for_mainnet = True\<rparr>"]
    legacy_solo_accepts_iff_90_percent
      [of "\<lambda>_. False" "[TxOut 90 [1], TxOut 11 [2]]" "''a''" "\<lparr>crs_script_pubkey = [1], crs_ok_for_mainnet = True\<rparr>"]
  by simp



end
