(* ===== verification/Merkle.thy ===== *)
theory Merkle
  imports Prelude
begin

text \<open>
  The merkle computations of the pool's RPC template provider
  (\<open>pool-apps/pool/src/lib/template_receiver/bitcoin_rpc.rs\<close>) and of the job declaration server
  (\<open>get_merkle_path\<close> in \<open>pool-apps/jd-server/.../bitcoin_core_ipc.rs\<close>).  The double SHA-256 of the
  \<open>bitcoin\<close> crate is the parameter \<open>sha256d\<close>.
\<close>

section \<open>Levels\<close>

definition hash_pair :: "(bytes \<Rightarrow> bytes) \<Rightarrow> bytes \<Rightarrow> bytes \<Rightarrow> bytes" where
  "hash_pair sha256d left right = sha256d (left @ right)"

fun chunks2 :: "'a list \<Rightarrow> ('a \<times> 'a) list" where
  "chunks2 (a # b # xs) = (a, b) # chunks2 xs"
| "chunks2 _ = []"

definition pad_level :: "bytes list \<Rightarrow> bytes list" where
  "pad_level level = (if length level mod 2 = 1 then level @ [last level] else level)"

definition next_level :: "(bytes \<Rightarrow> bytes) \<Rightarrow> bytes list \<Rightarrow> bytes list" where
  "next_level sha256d level = map (\<lambda>(l, r). hash_pair sha256d l r) (chunks2 (pad_level level))"

lemma length_chunks2 [simp]: "length (chunks2 xs) = length xs div 2"
  by (induction xs rule: chunks2.induct) auto

lemma length_pad_level: "length (pad_level xs) = (length xs + 1) div 2 * 2"
  by (auto simp: pad_level_def) presburger+

lemma length_next_level [simp]: "length (next_level h xs) = (length xs + 1) div 2"
  by (simp add: next_level_def length_pad_level)

lemma next_level_shorter: "1 < length xs \<Longrightarrow> length (next_level h xs) < length xs"
  by simp

section \<open>The loops of the RPC provider\<close>

function merkle_path_for_first_leaf :: "(bytes \<Rightarrow> bytes) \<Rightarrow> bytes list \<Rightarrow> bytes list" where
  "merkle_path_for_first_leaf sha256d level =
     (if length level > 1
      then pad_level level ! 1 # merkle_path_for_first_leaf sha256d (next_level sha256d level)
      else [])"
  by pat_completeness auto
termination
  by (relation "measure (\<lambda>(h, level). length level)") auto

declare merkle_path_for_first_leaf.simps [simp del]

definition coinbase_merkle_path :: "(bytes \<Rightarrow> bytes) \<Rightarrow> bytes list \<Rightarrow> bytes list" where
  "coinbase_merkle_path sha256d txids =
     merkle_path_for_first_leaf sha256d (replicate 32 0 # txids)"

definition apply_merkle_path :: "(bytes \<Rightarrow> bytes) \<Rightarrow> bytes \<Rightarrow> bytes list \<Rightarrow> bytes" where
  "apply_merkle_path sha256d hash path = foldl (hash_pair sha256d) hash path"

function merkle_root_loop :: "(bytes \<Rightarrow> bytes) \<Rightarrow> bytes list \<Rightarrow> bytes list" where
  "merkle_root_loop sha256d level =
     (if length level > 1 then merkle_root_loop sha256d (next_level sha256d level) else level)"
  by pat_completeness auto
termination
  by (relation "measure (\<lambda>(h, level). length level)") auto

declare merkle_root_loop.simps [simp del]

definition merkle_root :: "(bytes \<Rightarrow> bytes) \<Rightarrow> bytes list \<Rightarrow> bytes" where
  "merkle_root sha256d level =
     (if level = [] then replicate 32 0 else merkle_root_loop sha256d level ! 0)"

section \<open>The loop of the job declaration server\<close>

definition jd_next_level :: "(bytes \<Rightarrow> bytes) \<Rightarrow> bytes list \<Rightarrow> bytes list" where
  "jd_next_level sha256d hashes =
     map (\<lambda>idx. hash_pair sha256d (hashes ! (2 * idx))
                  (hashes ! min (2 * idx + 1) (length hashes - 1)))
       [0..<(length hashes + 1) div 2]"

function jd_merkle_branch :: "(bytes \<Rightarrow> bytes) \<Rightarrow> bytes list \<Rightarrow> bytes list" where
  "jd_merkle_branch sha256d hashes =
     (if length hashes > 1
      then hashes ! 1 # jd_merkle_branch sha256d (jd_next_level sha256d hashes)
      else [])"
  by pat_completeness auto
termination
  by (relation "measure (\<lambda>(h, hashes). length hashes)") (auto simp: jd_next_level_def)

declare jd_merkle_branch.simps [simp del]

section \<open>Lemmas\<close>

lemma nth_chunks2: "i < length xs div 2 \<Longrightarrow> chunks2 xs ! i = (xs ! (2 * i), xs ! (2 * i + 1))"
proof (induction xs arbitrary: i rule: chunks2.induct)
  case (1 a b xs)
  then show ?case by (cases i) auto
qed auto

lemma nth_pad_level:
  "xs \<noteq> [] \<Longrightarrow> i < length (pad_level xs) \<Longrightarrow> pad_level xs ! i = xs ! min i (length xs - 1)"
  by (auto simp: pad_level_def nth_append last_conv_nth min_def split: if_splits)

text \<open>The two implementations compute the same level.\<close>

lemma jd_next_level_eq: "jd_next_level h xs = next_level h xs"
proof (rule nth_equalityI)
  show "length (jd_next_level h xs) = length (next_level h xs)" by (simp add: jd_next_level_def)
next
  fix i assume "i < length (jd_next_level h xs)"
  then have i: "i < (length xs + 1) div 2" by (simp add: jd_next_level_def)
  then have ne: "xs \<noteq> []" by auto
  have i2: "2 * i + 1 < length (pad_level xs)" using i by (simp add: length_pad_level)
  have "next_level h xs ! i = hash_pair h (pad_level xs ! (2 * i)) (pad_level xs ! (2 * i + 1))"
    using i by (simp add: next_level_def nth_chunks2 length_pad_level)
  also have "\<dots> = hash_pair h (xs ! min (2 * i) (length xs - 1)) (xs ! min (2 * i + 1) (length xs - 1))"
    using ne i2 by (simp add: nth_pad_level)
  also have "min (2 * i) (length xs - 1) = 2 * i" using i by simp
  finally show "jd_next_level h xs ! i = next_level h xs ! i"
    using i by (simp add: jd_next_level_def)
qed

lemma next_level_Cons2:
  assumes "xs \<noteq> []"
  shows "\<exists>ys. \<forall>a. next_level h (a # xs) = hash_pair h a (pad_level (a # xs) ! 1) # ys"
proof -
  obtain b bs where xs: "xs = b # bs" using assms by (cases xs) auto
  have "pad_level (a # b # bs) = a # b # (if odd (length bs) then bs @ [last (b # bs)] else bs)" for a
    by (cases bs) (auto simp: pad_level_def odd_iff_mod_2_eq_one)
  then show ?thesis by (auto simp: xs next_level_def)
qed

lemma pad_level_nth1:
  "xs \<noteq> [] \<Longrightarrow> pad_level (a # xs) ! Suc 0 = hd xs"
  by (cases xs) (auto simp: pad_level_def)

text \<open>The path does not depend on the first leaf.\<close>

lemma path_first_leaf_irrelevant:
  "merkle_path_for_first_leaf h (a # xs) = merkle_path_for_first_leaf h (b # xs)"
proof (induction "length xs" arbitrary: a b xs rule: less_induct)
  case less
  show ?case
  proof (cases "xs = []")
    case False
    obtain ys where ys: "\<And>c. next_level h (c # xs) = hash_pair h c (pad_level (c # xs) ! 1) # ys"
      using next_level_Cons2 [OF False] by blast
    have "length (next_level h (a # xs)) < length (a # xs)" using False by (cases xs) simp_all
    then have "length ys < length xs" by (simp add: ys)
    then show ?thesis
      using less [of ys] False
      by (simp add: merkle_path_for_first_leaf.simps [of h "_ # xs"] ys pad_level_nth1)
  qed (simp add: merkle_path_for_first_leaf.simps)
qed

text \<open>Folding a leaf along the path climbs one level per step.\<close>

lemma apply_path_eq_root_loop:
  "[apply_merkle_path h a (merkle_path_for_first_leaf h (a # xs))] = merkle_root_loop h (a # xs)"
proof (induction "length xs" arbitrary: a xs rule: less_induct)
  case less
  show ?case
  proof (cases "xs = []")
    case False
    let ?a = "hash_pair h a (pad_level (a # xs) ! 1)"
    obtain ys where ys: "next_level h (a # xs) = ?a # ys"
      using next_level_Cons2 [OF False] by blast
    have "length (next_level h (a # xs)) < length (a # xs)" using False by (cases xs) simp_all
    then have "length ys < length xs" by (simp add: ys)
    with less [of ys ?a] show ?thesis using False
      by (simp add: merkle_path_for_first_leaf.simps [of h "a # xs"]
          merkle_root_loop.simps [of h "a # xs"] ys apply_merkle_path_def)
  qed (simp add: merkle_path_for_first_leaf.simps merkle_root_loop.simps apply_merkle_path_def)
qed

lemma jd_branch_eq_path: "jd_merkle_branch h xs = merkle_path_for_first_leaf h xs"
proof (induction h xs rule: jd_merkle_branch.induct)
  case (1 h xs)
  show ?case
  proof (cases "length xs > 1")
    case True
    then obtain a ys where xs: "xs = a # ys" "ys \<noteq> []" by (cases xs) auto
    then have "pad_level xs ! 1 = xs ! 1" by (simp add: pad_level_nth1 hd_conv_nth)
    then show ?thesis
      using 1 True jd_merkle_branch.simps [of h xs] merkle_path_for_first_leaf.simps [of h xs]
      by (simp add: jd_next_level_eq)
  qed (simp add: jd_merkle_branch.simps merkle_path_for_first_leaf.simps)
qed

text \<open>A path has one sibling per halving: at most \<open>k\<close> siblings just for at most \<open>2 ^ k\<close> leaves.\<close>

lemma path_length_le_iff:
  "xs \<noteq> [] \<Longrightarrow> length (merkle_path_for_first_leaf h xs) \<le> k \<longleftrightarrow> length xs \<le> 2 ^ k"
proof (induction k arbitrary: xs)
  case 0
  then show ?case by (subst merkle_path_for_first_leaf.simps) (cases xs, auto)
next
  case (Suc k)
  have "next_level h xs \<noteq> []" using Suc.prems by (cases xs) (auto simp flip: length_0_conv)
  moreover have "length xs \<le> 2 * 2 ^ k" if "\<not> 1 < length xs"
  proof -
    have "1 \<le> (2 :: nat) ^ k" by simp
    with that show ?thesis by linarith
  qed
  ultimately show ?case using Suc.IH [of "next_level h xs"] by (subst merkle_path_for_first_leaf.simps) auto
qed

section \<open>Properties\<close>

text \<open>
  C3. The sibling path published with an RPC template is right for every coinbase the miners
  build: folding the coinbase txid along it gives the merkle root of the block that contains the
  coinbase and the template's transactions.
\<close>

theorem coinbase_path_yields_root:
  "apply_merkle_path sha256d coinbase_txid (coinbase_merkle_path sha256d txids) =
     merkle_root sha256d (coinbase_txid # txids)"
proof -
  have "coinbase_merkle_path sha256d txids = merkle_path_for_first_leaf sha256d (coinbase_txid # txids)"
    unfolding coinbase_merkle_path_def by (rule path_first_leaf_irrelevant)
  then show ?thesis by (simp add: merkle_root_def flip: apply_path_eq_root_loop)
qed

text \<open>
  The job declaration server's index-based branch computation and the pool's chunk-based path
  computation agree on every transaction list, whatever the coinbase is.
\<close>

theorem jd_branch_eq_coinbase_path:
  "jd_merkle_branch sha256d (coinbase_txid # txids) = coinbase_merkle_path sha256d txids"
  unfolding jd_branch_eq_path coinbase_merkle_path_def by (rule path_first_leaf_irrelevant)

text \<open>
  C35. The loop over the tree levels ends, and after exactly as many rounds as the tree is high: the
  published path has at most \<open>k\<close> siblings just when the coinbase and the transactions are at most
  \<open>2 ^ k\<close> leaves.
\<close>

theorem merkle_loop_rounds:
  "length (coinbase_merkle_path sha256d txids) \<le> k \<longleftrightarrow> Suc (length txids) \<le> 2 ^ k"
  unfolding coinbase_merkle_path_def by (simp add: path_length_le_iff)

end
