(* ===== verification/Shared_Map.thy ===== *)
theory Shared_Map
  imports Prelude "HOL-Library.AList"
begin

text \<open>
  The shared containers of \<open>stratum-apps/src/sync.rs\<close>.  A \<open>SharedMap\<close> (and a \<open>HashMap\<close>) is an
  association list with distinct keys.  The list order stands for the iteration order of the hash
  table, which is unspecified: the operations that iterate are stated for every list, so for every
  order.  Closures that mutate an entry and a captured state take and return both.

  The locale \<open>keyed_store\<close> is the contract the clients rely on; it is interpreted on the
  operations of \<open>SharedMap\<close> at the end of the theory.
\<close>

section \<open>Locks\<close>

text \<open>\<open>SharedLock\<close> and \<open>SharedRw\<close>: a value and the poison flag a panicking closure sets.\<close>

record 'a shared_lock =
  lock_value :: 'a
  lock_poisoned :: bool

datatype poison_error = PoisonError

definition lock_new :: "'a \<Rightarrow> 'a shared_lock" where
  "lock_new v = \<lparr>lock_value = v, lock_poisoned = False\<rparr>"

text \<open>A closure that panics (\<^const>\<open>None\<close>) poisons the lock; the panic itself is the outer \<^const>\<open>None\<close>.\<close>

definition lock_with ::
  "'a shared_lock \<Rightarrow> ('a \<Rightarrow> ('r \<times> 'a) option)
    \<Rightarrow> ('r, poison_error) result option \<times> 'a shared_lock" where
  "lock_with l f =
     (if lock_poisoned l then (Some (Err PoisonError), l)
      else (case f (lock_value l) of
              None \<Rightarrow> (None, l\<lparr>lock_poisoned := True\<rparr>)
            | Some (r, v) \<Rightarrow> (Some (Ok r), l\<lparr>lock_value := v\<rparr>)))"

definition lock_get :: "'a shared_lock \<Rightarrow> ('a, poison_error) result" where
  "lock_get l = (if lock_poisoned l then Err PoisonError else Ok (lock_value l))"

definition lock_set :: "'a \<Rightarrow> 'a shared_lock \<Rightarrow> (unit, poison_error) result option \<times> 'a shared_lock" where
  "lock_set v l = lock_with l (\<lambda>_. Some ((), v))"

lemma lock_get_set:
  "\<not> lock_poisoned l \<Longrightarrow> lock_get (snd (lock_set v l)) = Ok v"
  by (simp add: lock_get_def lock_set_def lock_with_def)

lemma lock_never_unpoisoned: "lock_poisoned l \<Longrightarrow> snd (lock_with l f) = l"
  by (simp add: lock_with_def)

section \<open>Maps\<close>

type_synonym ('k, 'v) shared_map = "('k \<times> 'v) list"

definition sm_invar :: "('k, 'v) shared_map \<Rightarrow> bool" where
  "sm_invar m = distinct (map fst m)"

definition sm_new :: "('k, 'v) shared_map" where
  "sm_new = []"

definition sm_get_cloned :: "('k, 'v) shared_map \<Rightarrow> 'k \<Rightarrow> 'v option" where
  "sm_get_cloned m k = map_of m k"

definition sm_with :: "('k, 'v) shared_map \<Rightarrow> 'k \<Rightarrow> ('v \<Rightarrow> 'r) \<Rightarrow> 'r option" where
  "sm_with m k f = map_option f (map_of m k)"

definition sm_with_mut ::
  "('k, 'v) shared_map \<Rightarrow> 'k \<Rightarrow> ('v \<Rightarrow> 'r \<times> 'v) \<Rightarrow> 'r option \<times> ('k, 'v) shared_map" where
  "sm_with_mut m k f = (case map_of m k of
     None \<Rightarrow> (None, m)
   | Some v \<Rightarrow> (let (r, v') = f v in (Some r, AList.update k v' m)))"

definition sm_with_mut_or_insert_with ::
  "('k, 'v) shared_map \<Rightarrow> 'k \<Rightarrow> 'v \<Rightarrow> ('v \<Rightarrow> 'r \<times> 'v) \<Rightarrow> 'r \<times> ('k, 'v) shared_map" where
  "sm_with_mut_or_insert_with m k d f =
     (let (r, v') = f (case map_of m k of None \<Rightarrow> d | Some v \<Rightarrow> v) in (r, AList.update k v' m))"

fun sm_for_each :: "('s \<Rightarrow> 'k \<Rightarrow> 'v \<Rightarrow> 's) \<Rightarrow> 's \<Rightarrow> ('k, 'v) shared_map \<Rightarrow> 's" where
  "sm_for_each f s [] = s"
| "sm_for_each f s ((k, v) # m) = sm_for_each f (f s k v) m"

fun sm_for_each_mut ::
  "('s \<Rightarrow> 'k \<Rightarrow> 'v \<Rightarrow> 's \<times> 'v) \<Rightarrow> 's \<Rightarrow> ('k, 'v) shared_map \<Rightarrow> 's \<times> ('k, 'v) shared_map" where
  "sm_for_each_mut f s [] = (s, [])"
| "sm_for_each_mut f s ((k, v) # m) =
     (let (s', v') = f s k v; (s'', m') = sm_for_each_mut f s' m in (s'', (k, v') # m'))"

text \<open>
  Fallible iteration stops at the first error; what the closure changed before, in this entry
  and in earlier ones, stays changed.
\<close>

fun sm_try_for_each_mut ::
  "('s \<Rightarrow> 'k \<Rightarrow> 'v \<Rightarrow> (unit, 'e) result \<times> 's \<times> 'v) \<Rightarrow> 's \<Rightarrow> ('k, 'v) shared_map
    \<Rightarrow> (unit, 'e) result \<times> 's \<times> ('k, 'v) shared_map" where
  "sm_try_for_each_mut f s [] = (Ok (), s, [])"
| "sm_try_for_each_mut f s ((k, v) # m) = (case f s k v of
     (Inl e, s', v') \<Rightarrow> (Inl e, s', (k, v') # m)
   | (Inr _, s', v') \<Rightarrow>
       (let (r, s'', m') = sm_try_for_each_mut f s' m in (r, s'', (k, v') # m')))"

fun sm_try_for_each ::
  "('s \<Rightarrow> 'k \<Rightarrow> 'v \<Rightarrow> (unit, 'e) result \<times> 's) \<Rightarrow> 's \<Rightarrow> ('k, 'v) shared_map
    \<Rightarrow> (unit, 'e) result \<times> 's" where
  "sm_try_for_each f s [] = (Ok (), s)"
| "sm_try_for_each f s ((k, v) # m) = (case f s k v of
     (Inl e, s') \<Rightarrow> (Inl e, s')
   | (Inr _, s') \<Rightarrow> sm_try_for_each f s' m)"

definition sm_insert :: "'k \<Rightarrow> 'v \<Rightarrow> ('k, 'v) shared_map \<Rightarrow> 'v option \<times> ('k, 'v) shared_map" where
  "sm_insert k v m = (map_of m k, AList.update k v m)"

definition sm_remove :: "'k \<Rightarrow> ('k, 'v) shared_map \<Rightarrow> ('k \<times> 'v) option \<times> ('k, 'v) shared_map" where
  "sm_remove k m = (map_option (Pair k) (map_of m k), AList.delete k m)"

definition sm_contains_key :: "('k, 'v) shared_map \<Rightarrow> 'k \<Rightarrow> bool" where
  "sm_contains_key m k = (map_of m k \<noteq> None)"

definition sm_retain :: "('k \<Rightarrow> 'v \<Rightarrow> bool) \<Rightarrow> ('k, 'v) shared_map \<Rightarrow> ('k, 'v) shared_map" where
  "sm_retain P m = filter (\<lambda>(k, v). P k v) m"

definition sm_keys :: "('k, 'v) shared_map \<Rightarrow> 'k list" where
  "sm_keys m = map fst m"

definition sm_len :: "('k, 'v) shared_map \<Rightarrow> nat" where
  "sm_len m = length m"

definition sm_is_empty :: "('k, 'v) shared_map \<Rightarrow> bool" where
  "sm_is_empty m = (m = [])"

definition sm_clear :: "('k, 'v) shared_map \<Rightarrow> ('k, 'v) shared_map" where
  "sm_clear m = []"

section \<open>Lookup after each operation\<close>

lemma sm_insert_snd [simp]: "snd (sm_insert k v m) = AList.update k v m"
  by (simp add: sm_insert_def)

lemma sm_remove_snd [simp]: "snd (sm_remove k m) = AList.delete k m"
  by (simp add: sm_remove_def)

lemma map_of_update [simp]: "map_of (AList.update k v m) = (map_of m)(k \<mapsto> v)"
  by (simp add: update_conv')

lemma map_of_delete [simp]: "map_of (AList.delete k m) = (map_of m)(k := None)"
  by (simp add: delete_conv')

lemma map_of_retain:
  "sm_invar m \<Longrightarrow> map_of (sm_retain P m) k = (case map_of m k of
     None \<Rightarrow> None | Some v \<Rightarrow> (if P k v then Some v else None))"
proof (induction m)
  case (Cons a m)
  obtain k' v' where a: "a = (k', v')" by (cases a)
  have "map_of m k' = None" using Cons.prems a by (simp add: sm_invar_def map_of_eq_None_iff)
  with Cons a show ?case by (auto simp: sm_retain_def sm_invar_def)
qed (simp add: sm_retain_def)

lemma sm_invar_simps [simp, inv_rules]:
  "sm_invar sm_new" "sm_invar []"
  by (simp_all add: sm_invar_def sm_new_def)

lemma sm_invar_update [simp, inv_rules]: "sm_invar m \<Longrightarrow> sm_invar (AList.update k v m)"
  by (simp add: sm_invar_def distinct_update)

lemma sm_invar_delete [simp, inv_rules]: "sm_invar m \<Longrightarrow> sm_invar (AList.delete k m)"
  by (simp add: sm_invar_def distinct_delete)

lemma sm_invar_retain [simp, inv_rules]: "sm_invar m \<Longrightarrow> sm_invar (sm_retain P m)"
  by (auto simp: sm_invar_def sm_retain_def distinct_map intro: inj_on_subset)

lemma for_each_mut_keys: "map fst (snd (sm_for_each_mut f s m)) = map fst m"
  by (induction f s m rule: sm_for_each_mut.induct) (auto simp: Let_def split: prod.splits)

lemma try_for_each_mut_keys: "map fst (snd (snd (sm_try_for_each_mut f s m))) = map fst m"
  by (induction f s m rule: sm_try_for_each_mut.induct)
    (auto simp: Let_def split: prod.splits sum.splits)

lemma sm_invar_for_each_mut [simp, inv_rules]:
  "sm_invar m \<Longrightarrow> sm_invar (snd (sm_for_each_mut f s m))"
  by (simp add: sm_invar_def for_each_mut_keys)

lemma sm_invar_try_for_each_mut [simp, inv_rules]:
  "sm_invar m \<Longrightarrow> sm_invar (snd (snd (sm_try_for_each_mut f s m)))"
  by (simp add: sm_invar_def try_for_each_mut_keys)

lemma sm_with_mut_keys: "map fst (snd (sm_with_mut m k f)) = map fst m"
  by (cases "map_of m k")
    (force simp: sm_with_mut_def update_keys split: prod.splits dest: map_of_SomeD)+

lemma sm_invar_with_mut [simp, inv_rules]: "sm_invar m \<Longrightarrow> sm_invar (snd (sm_with_mut m k f))"
  by (simp add: sm_invar_def sm_with_mut_keys)

lemma map_of_with_mut:
  "map_of (snd (sm_with_mut m k f)) k' =
     (if k' = k then map_option (\<lambda>v. snd (f v)) (map_of m k) else map_of m k')"
  by (auto simp: sm_with_mut_def split: option.splits prod.splits)

lemma set_retain: "set (sm_retain P m) = {(k, v). (k, v) \<in> set m \<and> P k v}"
  by (auto simp: sm_retain_def)

text \<open>The key set.\<close>

definition sm_dom :: "('k, 'v) shared_map \<Rightarrow> 'k set" where
  "sm_dom m = set (sm_keys m)"

lemma sm_dom_iff: "k \<in> sm_dom m \<longleftrightarrow> map_of m k \<noteq> None"
  by (simp add: sm_dom_def sm_keys_def map_of_eq_None_iff)

lemma sm_dom_simps [simp]:
  "sm_dom [] = {}"
  "sm_dom (AList.update k v m) = insert k (sm_dom m)"
  "sm_dom (AList.delete k m) = sm_dom m - {k}"
  by (auto simp: sm_dom_iff split: if_splits)

lemma sm_dom_retain: "sm_dom (sm_retain P m) \<subseteq> sm_dom m"
  by (auto simp: sm_retain_def sm_dom_def sm_keys_def)

section \<open>The contract\<close>

text \<open>
  What a client of a keyed store relies on: lookups after an insertion and after a removal, that a
  conditional removal keeps exactly the entries the predicate accepts, and that every operation
  keeps the store well formed.
\<close>

locale keyed_store =
  fixes empty :: 'm
    and look :: "'m \<Rightarrow> 'k \<Rightarrow> 'v option"
    and put :: "'k \<Rightarrow> 'v \<Rightarrow> 'm \<Rightarrow> 'm"
    and drop_key :: "'k \<Rightarrow> 'm \<Rightarrow> 'm"
    and keep :: "('k \<Rightarrow> 'v \<Rightarrow> bool) \<Rightarrow> 'm \<Rightarrow> 'm"
    and wf :: "'m \<Rightarrow> bool"
  assumes wf_empty: "wf empty"
    and look_empty: "look empty k = None"
    and wf_put: "wf m \<Longrightarrow> wf (put k v m)"
    and look_put: "wf m \<Longrightarrow> look (put k v m) k' = (if k' = k then Some v else look m k')"
    and wf_drop_key: "wf m \<Longrightarrow> wf (drop_key k m)"
    and look_drop_key: "wf m \<Longrightarrow> look (drop_key k m) k' = (if k' = k then None else look m k')"
    and wf_keep: "wf m \<Longrightarrow> wf (keep P m)"
    and look_keep: "wf m \<Longrightarrow> look (keep P m) k =
          (case look m k of None \<Rightarrow> None | Some v \<Rightarrow> if P k v then Some v else None)"
begin

lemma put_then_drop: "wf m \<Longrightarrow> look m k = None \<Longrightarrow> look (drop_key k (put k v m)) = look m"
  by (rule ext) (simp add: look_drop_key look_put wf_put)

lemma move_look:
  "wf m \<Longrightarrow> look (put k' v (drop_key k m)) j =
     (if j = k' then Some v else if j = k then None else look m j)"
  by (simp add: look_put look_drop_key wf_drop_key)

text \<open>Removing every entry of one owner leaves none of them and touches no other.\<close>

lemma keep_other_owner:
  assumes "wf m"
  shows "look (keep (\<lambda>k v. owner v \<noteq> c) m) k = Some v \<longleftrightarrow> look m k = Some v \<and> owner v \<noteq> c"
  using assms by (auto simp: look_keep split: option.splits)

lemma keep_keep:
  "wf m \<Longrightarrow> look (keep P (keep Q m)) = look (keep (\<lambda>k v. Q k v \<and> P k v) m)"
  by (rule ext) (auto simp: look_keep wf_keep split: option.splits)

end

interpretation sm: keyed_store sm_new sm_get_cloned "\<lambda>k v m. snd (sm_insert k v m)"
  "\<lambda>k m. snd (sm_remove k m)" sm_retain sm_invar
  by unfold_locales (auto simp: sm_get_cloned_def sm_new_def map_of_retain)

text \<open>
  \<open>for_each_mut\<close> visits every entry exactly once and keeps the key set: after it, each key
  holds the value the closure left for it when the closure does not read the captured state.
\<close>

lemma for_each_mut_lookup:
  assumes "\<And>s s' k v. snd (f s k v) = snd (f s' k v)"
  shows "sm_get_cloned (snd (sm_for_each_mut f s m)) k =
     map_option (\<lambda>v. snd (f s k v)) (sm_get_cloned m k)"
proof (induction m arbitrary: s)
  case (Cons a m)
  obtain k' v' where a: "a = (k', v')" by (cases a)
  show ?case
    using Cons [of "fst (f s k' v')"] assms [of s k]
    by (auto simp: a sm_get_cloned_def Let_def split: prod.splits) (metis snd_conv assms)+
qed (simp add: sm_get_cloned_def)

end
