(* ===== verification/Sv2_Messages.thy ===== *)
theory Sv2_Messages
  imports Coinbase_Output
begin

text \<open>
  The Stratum V2 messages the components exchange, with the fields the code reads and writes, and
  the named error codes.  The codes are constants of the protocol crates; they are the
  constructors of \<open>error_code\<close>, so that the model does not depend on their spelling; a code that
  a library hands to the program is \<open>EC_OTHER\<close> with its text.
  The length limits of the SV2 byte strings and sequences belong to the \<open>binary_sv2\<close> crate and
  are the parameter record \<open>sv2_limits\<close>.
\<close>

section \<open>Length limits\<close>

record sv2_limits =
  fits_b0255 :: "nat \<Rightarrow> bool"
  fits_b064k :: "nat \<Rightarrow> bool"
  fits_b016m :: "nat \<Rightarrow> bool"
  fits_seq0255 :: "nat \<Rightarrow> bool"
  fits_seq064k :: "nat \<Rightarrow> bool"

definition wire_limits :: sv2_limits where
  "wire_limits = \<lparr>fits_b0255 = (\<lambda>n. n < 256), fits_b064k = (\<lambda>n. n < 65536),
     fits_b016m = (\<lambda>n. n < 16777216), fits_seq0255 = (\<lambda>n. n < 256), fits_seq064k = (\<lambda>n. n < 65536)\<rparr>"

section \<open>Error codes\<close>

datatype (plugins only: code) error_code =
    EC_REQUEST_TRANSACTION_DATA_STALE_TEMPLATE_ID
  | EC_REQUEST_TRANSACTION_DATA_TEMPLATE_ID_NOT_FOUND
  | EC_OPEN_MINING_CHANNEL_INVALID_USER_IDENTITY
  | EC_OPEN_MINING_CHANNEL_MIN_EXTRANONCE_SIZE_TOO_LARGE
  | EC_OPEN_MINING_CHANNEL_STANDARD_CHANNELS_NOT_SUPPORTED_FOR_CUSTOM_WORK
  | EC_OPEN_MINING_CHANNEL_EXTENDED_CHANNELS_NOT_SUPPORTED_FOR_STANDARD_JOBS
  | EC_UPDATE_CHANNEL_INVALID_CHANNEL_ID
  | EC_SUBMIT_SHARES_INVALID_CHANNEL_ID
  | EC_SET_CUSTOM_MINING_JOB_INVALID_CHANNEL_ID
  | EC_SET_CUSTOM_MINING_JOB_INVALID_MINING_JOB_TOKEN
  | EC_SET_CUSTOM_MINING_JOB_JD_NOT_SUPPORTED
  | EC_SETUP_CONNECTION_UNSUPPORTED_PROTOCOL
  | EC_DECLARE_MINING_JOB_INVALID_MINING_JOB_TOKEN
  | EC_DECLARE_MINING_JOB_INVALID_COINBASE_TX
  | EC_DECLARE_MINING_JOB_INVALID_COINBASE_TX_INPUT
  | EC_DECLARE_MINING_JOB_INTERNAL_ERROR
  | EC_DECLARE_MINING_JOB_INVALID_JOB
  | EC_DECLARE_MINING_JOB_STALE_CHAIN_TIP
  | EC_DECLARE_MINING_JOB_MISSING_TXS
  | EC_SET_CUSTOM_MINING_JOB_JOB_NOT_YET_VALIDATED
  | EC_SET_CUSTOM_MINING_JOB_STALE_CHAIN_TIP
  | EC_SET_CUSTOM_MINING_JOB_INVALID_NBITS
  | EC_SET_CUSTOM_MINING_JOB_INVALID_VERSION
  | EC_SET_CUSTOM_MINING_JOB_INVALID_COINBASE_TX
  | EC_SET_CUSTOM_MINING_JOB_INVALID_COINBASE_TX_VERSION
  | EC_SET_CUSTOM_MINING_JOB_INVALID_COINBASE_PREFIX
  | EC_SET_CUSTOM_MINING_JOB_INVALID_COINBASE_TX_INPUT_N_SEQUENCE
  | EC_SET_CUSTOM_MINING_JOB_INVALID_COINBASE_TX_OUTPUTS
  | EC_SET_CUSTOM_MINING_JOB_INVALID_COINBASE_TX_LOCKTIME
  | EC_SET_CUSTOM_MINING_JOB_INVALID_MERKLE_PATH
  | EC_OTHER string

section \<open>Template distribution\<close>

record new_template =
  nt_template_id :: u64
  nt_future_template :: bool
  nt_version :: u32
  nt_coinbase_tx_version :: u32
  nt_coinbase_prefix :: bytes
  nt_coinbase_tx_input_sequence :: u32
  nt_coinbase_tx_value_remaining :: u64
  nt_coinbase_tx_outputs_count :: u32
  nt_coinbase_tx_outputs :: bytes
  nt_coinbase_tx_locktime :: u32
  nt_merkle_path :: "bytes list"

record tdp_set_new_prev_hash =
  tph_template_id :: u64
  tph_prev_hash :: bytes
  tph_header_timestamp :: u32
  tph_n_bits :: u32
  tph_target :: bytes

record submit_solution =
  sol_template_id :: u64
  sol_version :: u32
  sol_header_timestamp :: u32
  sol_header_nonce :: u32
  sol_coinbase_tx :: bytes

datatype tdp_message =
    CoinbaseOutputConstraints coinbase_output_constraints
  | NewTemplate new_template
  | TdpSetNewPrevHash tdp_set_new_prev_hash
  | RequestTransactionData u64
  | RequestTransactionDataSuccess u64 bytes "bytes list"
  | RequestTransactionDataError u64 error_code
  | SubmitSolution submit_solution

section \<open>Job declaration\<close>

record declare_mining_job =
  dmj_request_id :: u32
  dmj_mining_job_token :: bytes
  dmj_version :: u32
  dmj_coinbase_tx_prefix :: bytes
  dmj_coinbase_tx_suffix :: bytes
  dmj_wtxid_list :: "bytes list"
  dmj_excess_data :: bytes

record provide_missing_transactions_success =
  pmt_request_id :: u32
  pmt_transaction_list :: "bytes list"

record push_solution =
  ps_extranonce :: bytes
  ps_prev_hash :: bytes
  ps_nonce :: u32
  ps_ntime :: u32
  ps_nbits :: u32
  ps_version :: u32

datatype jdp_message =
    AllocateMiningJobTokenSuccess u32 bytes bytes
  | DeclareMiningJobSuccess u32 bytes
  | DeclareMiningJobError u32 error_code bytes
  | ProvideMissingTransactions u32 "u16 list"

record set_custom_mining_job =
  scm_channel_id :: u32
  scm_request_id :: u32
  scm_token :: bytes
  scm_version :: u32
  scm_prev_hash :: bytes
  scm_min_ntime :: u32
  scm_nbits :: u32
  scm_coinbase_tx_version :: u32
  scm_coinbase_prefix :: bytes
  scm_coinbase_tx_input_n_sequence :: u32
  scm_coinbase_tx_outputs :: bytes
  scm_coinbase_tx_locktime :: u32
  scm_merkle_path :: "bytes list"

text \<open>Reading a token: the byte string must have exactly eight bytes, little endian.\<close>

definition token_of_bytes :: "bytes \<Rightarrow> u64 option" where
  "token_of_bytes b = (if length b = 8 then Some (word_of_nat (le_value b)) else None)"

definition token_bytes :: "u64 \<Rightarrow> bytes" where
  "token_bytes t = le_bytes 8 (unat t)"

lemma token_of_token_bytes [simp]: "token_of_bytes (token_bytes t) = Some t"
proof -
  have "unat t < 256 ^ 8" using unat_bound [of t] by simp
  then show ?thesis by (simp add: token_of_bytes_def token_bytes_def le_value_le_bytes)
qed

end
