(* ===== verification/Rpc_Template.thy ===== *)
theory Rpc_Template
  imports Merkle Shared_Map Sv2_Messages
begin

text \<open>
  The Bitcoin JSON-RPC template provider
  (\<open>pool-apps/pool/src/lib/template_receiver/bitcoin_rpc.rs\<close>): building a template from a
  \<open>getblocktemplate\<close> reply, publishing it, retention of published templates, answering
  transaction-data requests, assembling a solved block, and the provider's main loop.

  The \<open>bitcoin\<close> crate's parsers, serializers and hashes and the \<open>hex\<close> crate are the parameter record
  \<open>rpc_lib\<close>; a transaction is a value of type \<^typ>\<open>'tx\<close>, a target a value of type \<^typ>\<open>'tg\<close>.  The
  HTTP replies, the clock and the success of channel sends are inputs of each step.
\<close>

section \<open>Data\<close>

record gbt_transaction =
  gt_data :: string
  gt_txid :: string
  gt_hash :: string
  gt_weight :: "u64 option"

record get_block_template =
  gbt_version :: u32
  gbt_previousblockhash :: string
  gbt_transactions :: "gbt_transaction list"
  gbt_coinbaseaux_flags :: string
  gbt_coinbasevalue :: u64
  gbt_longpollid :: "string option"
  gbt_mintime :: u32
  gbt_curtime :: u32
  gbt_bits :: string
  gbt_height :: u64

record ('tx, 'tg) rpc_template =
  rt_id :: u64
  rt_prev_hash :: bytes
  rt_version :: u32
  rt_curtime :: u32
  rt_mintime :: u32
  rt_bits :: u32
  rt_target :: 'tg
  rt_coinbase_prefix :: bytes
  rt_coinbase_value :: u64
  rt_required_outputs :: "tx_out list"
  rt_transactions :: "'tx list"
  rt_transaction_bytes :: "bytes list"
  rt_merkle_path :: "bytes list"

record block_header =
  bh_version :: u32
  bh_prev_blockhash :: bytes
  bh_merkle_root :: bytes
  bh_time :: u32
  bh_bits :: u32
  bh_nonce :: u32

record ('tx, 'tg) rpc_lib =
  rl_sha256d :: "bytes \<Rightarrow> bytes"
  rl_block_hash_from_str :: "string \<Rightarrow> (bytes, string) result"
  rl_txid_from_str :: "string \<Rightarrow> (bytes, string) result"
  rl_wtxid_from_str :: "string \<Rightarrow> (bytes, string) result"
  rl_hex_decode :: "string \<Rightarrow> (bytes, string) result"
  rl_deserialize_tx :: "bytes \<Rightarrow> ('tx, string) result"
  rl_compute_txid :: "'tx \<Rightarrow> bytes"
  rl_compute_wtxid :: "'tx \<Rightarrow> bytes"
  rl_push_int :: "u64 \<Rightarrow> bytes"
  rl_target_of_bits :: "u32 \<Rightarrow> 'tg"
  rl_target_le_bytes :: "'tg \<Rightarrow> bytes"
  rl_serialize_txout :: "tx_out \<Rightarrow> bytes"
  rl_validate_pow :: "block_header \<Rightarrow> 'tg \<Rightarrow> (unit, string) result"
  rl_limits :: sv2_limits

definition MAX_BLOCK_WEIGHT :: u64 where "MAX_BLOCK_WEIGHT = 4000000"

definition MIN_BLOCK_RESERVED_WEIGHT :: u64 where "MIN_BLOCK_RESERVED_WEIGHT = 2000"

definition MAX_RETAINED_TEMPLATES :: nat where "MAX_RETAINED_TEMPLATES = 32"

section \<open>Building a template\<close>

definition tx_weight :: "('tx, 'tg) rpc_lib \<Rightarrow> gbt_transaction \<Rightarrow> u64" where
  "tx_weight lib tx = (case gt_weight tx of
     Some w \<Rightarrow> w
   | None \<Rightarrow> (case rl_hex_decode lib (gt_data tx) of
        Inl _ \<Rightarrow> 0 | Inr bytes \<Rightarrow> word_of_nat (length bytes) * 4))"

fun select_prefix_loop ::
  "('tx, 'tg) rpc_lib \<Rightarrow> u64 \<Rightarrow> u64 \<Rightarrow> nat \<Rightarrow> gbt_transaction list \<Rightarrow> nat" where
  "select_prefix_loop lib budget used index [] = index"
| "select_prefix_loop lib budget used index (tx # txs) =
     (if saturating_add used (tx_weight lib tx) > budget then index
      else select_prefix_loop lib budget (saturating_add used (tx_weight lib tx)) (index + 1) txs)"

definition select_transaction_prefix ::
  "('tx, 'tg) rpc_lib \<Rightarrow> gbt_transaction list \<Rightarrow> u64 \<Rightarrow> nat" where
  "select_transaction_prefix lib transactions budget =
     select_prefix_loop lib budget 320 0 transactions"

definition witness_commitment_output :: "(bytes \<Rightarrow> bytes) \<Rightarrow> bytes list \<Rightarrow> tx_out" where
  "witness_commitment_output sha256d wtxids =
     (let witness_root = merkle_root sha256d (replicate 32 0 # wtxids);
          commitment = sha256d (witness_root @ replicate 32 0)
      in TxOut 0 ([0x6a, 0x24, 0xaa, 0x21, 0xa9, 0xed] @ commitment))"

text \<open>One iteration of the loop over the selected transactions: bytes, transaction, txid, wtxid.\<close>

definition check_gbt_transaction ::
  "('tx, 'tg) rpc_lib \<Rightarrow> gbt_transaction \<Rightarrow> (bytes \<times> 'tx \<times> bytes \<times> bytes, string) result" where
  "check_gbt_transaction lib tx =
     rbind (map_err (\<lambda>e. ''invalid GBT transaction hex: '' @ e) (rl_hex_decode lib (gt_data tx))) (\<lambda>bytes.
     rbind (map_err (\<lambda>e. ''invalid GBT transaction: '' @ e) (rl_deserialize_tx lib bytes)) (\<lambda>transaction.
     rbind (map_err (\<lambda>e. ''invalid GBT txid: '' @ e) (rl_txid_from_str lib (gt_txid tx))) (\<lambda>declared_txid.
     rbind (map_err (\<lambda>e. ''invalid GBT wtxid: '' @ e) (rl_wtxid_from_str lib (gt_hash tx))) (\<lambda>declared_wtxid.
       if rl_compute_txid lib transaction \<noteq> declared_txid
          \<or> rl_compute_wtxid lib transaction \<noteq> declared_wtxid
       then Err (''GBT transaction '' @ gt_txid tx @ '' hash mismatch'')
       else Ok (bytes, transaction, declared_txid, declared_wtxid)))))"

definition gbt_coinbase_prefix ::
  "('tx, 'tg) rpc_lib \<Rightarrow> u64 \<Rightarrow> get_block_template \<Rightarrow> (bytes, string) result" where
  "gbt_coinbase_prefix lib tid gbt =
     (let height = rl_push_int lib (gbt_height gbt);
          flags = (if gbt_coinbaseaux_flags gbt = [] then Ok []
                   else map_err (\<lambda>e. ''invalid GBT coinbaseaux.flags: '' @ e)
                          (rl_hex_decode lib (gbt_coinbaseaux_flags gbt)))
      in rbind flags (\<lambda>fl.
           let p = height @ fl @ [8] @ le_bytes 8 (unat tid)
           in if length p > 100 then Err ''GBT coinbase script prefix exceeds consensus limit''
              else Ok p))"

definition reserved_weight :: "coinbase_output_constraints \<Rightarrow> u64" where
  "reserved_weight constraints =
     max (ucast (coc_max_additional_size constraints) * 4) MIN_BLOCK_RESERVED_WEIGHT"

definition from_gbt ::
  "('tx, 'tg) rpc_lib \<Rightarrow> u64 \<Rightarrow> get_block_template \<Rightarrow> coinbase_output_constraints
    \<Rightarrow> (('tx, 'tg) rpc_template, string) result" where
  "from_gbt lib tid gbt constraints =
     rbind (map_err (\<lambda>e. ''invalid GBT previousblockhash: '' @ e)
              (rl_block_hash_from_str lib (gbt_previousblockhash gbt))) (\<lambda>prev_hash.
     rbind (map_err (\<lambda>e. ''invalid GBT bits: '' @ e) (from_str_radix 32 16 (gbt_bits gbt))) (\<lambda>bits_value.
       let bits = word_of_nat bits_value :: u32;
           target = rl_target_of_bits lib bits;
           transaction_budget = saturating_sub MAX_BLOCK_WEIGHT (reserved_weight constraints);
           selected_count = select_transaction_prefix lib (gbt_transactions gbt) transaction_budget;
           selected = take selected_count (gbt_transactions gbt)
       in rbind (try_map (check_gbt_transaction lib) selected) (\<lambda>checked.
          let transaction_bytes = map fst checked;
              transactions = map (\<lambda>(_, t, _, _). t) checked;
              txids = map (\<lambda>(_, _, i, _). i) checked;
              wtxids = map (\<lambda>(_, _, _, w). w) checked;
              witness_commitment = witness_commitment_output (rl_sha256d lib) wtxids
          in rbind (gbt_coinbase_prefix lib tid gbt) (\<lambda>coinbase_prefix.
             Ok \<lparr>rt_id = tid, rt_prev_hash = prev_hash, rt_version = gbt_version gbt,
                 rt_curtime = gbt_curtime gbt, rt_mintime = gbt_mintime gbt, rt_bits = bits,
                 rt_target = target, rt_coinbase_prefix = coinbase_prefix,
                 rt_coinbase_value = gbt_coinbasevalue gbt,
                 rt_required_outputs = [witness_commitment], rt_transactions = transactions,
                 rt_transaction_bytes = transaction_bytes,
                 rt_merkle_path = coinbase_merkle_path (rl_sha256d lib) txids\<rparr>))))"

definition template_new_template ::
  "('tx, 'tg) rpc_lib \<Rightarrow> ('tx, 'tg) rpc_template \<Rightarrow> bool \<Rightarrow> (new_template, string) result" where
  "template_new_template lib t future_template =
     (let outputs = concat (map (rl_serialize_txout lib) (rt_required_outputs t)); l = rl_limits lib
      in if \<not> fits_b0255 l (length (rt_coinbase_prefix t)) then Err ''coinbase prefix exceeds SV2 B0255''
         else if \<not> fits_b064k l (length outputs) then Err ''required coinbase outputs exceed SV2 B064K''
         else if \<not> fits_seq0255 l (length (rt_merkle_path t))
              then Err ''coinbase merkle path exceeds SV2 Seq0255''
         else Ok \<lparr>nt_template_id = rt_id t, nt_future_template = future_template,
                  nt_version = rt_version t, nt_coinbase_tx_version = 2,
                  nt_coinbase_prefix = rt_coinbase_prefix t,
                  nt_coinbase_tx_input_sequence = - 1,
                  nt_coinbase_tx_value_remaining = rt_coinbase_value t,
                  nt_coinbase_tx_outputs_count = word_of_nat (length (rt_required_outputs t)),
                  nt_coinbase_tx_outputs = outputs, nt_coinbase_tx_locktime = 0,
                  nt_merkle_path = rt_merkle_path t\<rparr>)"

definition template_set_new_prev_hash ::
  "('tx, 'tg) rpc_lib \<Rightarrow> ('tx, 'tg) rpc_template \<Rightarrow> tdp_set_new_prev_hash" where
  "template_set_new_prev_hash lib t =
     \<lparr>tph_template_id = rt_id t, tph_prev_hash = rt_prev_hash t,
      tph_header_timestamp = max (rt_curtime t) (rt_mintime t), tph_n_bits = rt_bits t,
      tph_target = rl_target_le_bytes lib (rt_target t)\<rparr>"

definition solution_block ::
  "('tx, 'tg) rpc_lib \<Rightarrow> ('tx, 'tg) rpc_template \<Rightarrow> submit_solution
    \<Rightarrow> (block_header \<times> 'tx list, string) result" where
  "solution_block lib t solution =
     rbind (map_err (\<lambda>e. ''invalid solved coinbase transaction: '' @ e)
              (rl_deserialize_tx lib (sol_coinbase_tx solution))) (\<lambda>coinbase.
       let root = apply_merkle_path (rl_sha256d lib) (rl_compute_txid lib coinbase) (rt_merkle_path t);
           header = \<lparr>bh_version = sol_version solution, bh_prev_blockhash = rt_prev_hash t,
                     bh_merkle_root = root, bh_time = sol_header_timestamp solution,
                     bh_bits = rt_bits t, bh_nonce = sol_header_nonce solution\<rparr>
       in rbind (map_err (\<lambda>e. ''SV2 solution does not meet network target: '' @ e)
                   (rl_validate_pow lib header (rt_target t)))
            (\<lambda>_. Ok (header, coinbase # rt_transactions t)))"

section \<open>The provider\<close>

text \<open>
  The state of \<open>BitcoinRpcTemplateProvider\<close> together with the local variables of its \<open>run\<close> loop.
\<close>

record ('tx, 'tg) rpc_provider =
  rp_next_template_id :: u64
  rp_templates :: "(u64, ('tx, 'tg) rpc_template) shared_map"
  rp_constraints :: "coinbase_output_constraints option"
  rp_longpollid :: "string option"
  rp_current_prev_hash :: "bytes option"
  rp_last_non_tip_publish :: "nat option"

definition rpc_provider_new :: "('tx, 'tg) rpc_provider" where
  "rpc_provider_new =
     \<lparr>rp_next_template_id = 1, rp_templates = [], rp_constraints = None, rp_longpollid = None,
      rp_current_prev_hash = None, rp_last_non_tip_publish = None\<rparr>"

text \<open>What the provider does to the outside: channel sends, RPC calls and sleeps.\<close>

datatype 'tx rpc_effect =
    Publish tdp_message
  | CallGetBlockTemplate "string option"
  | CallSubmitBlock block_header "'tx list"
  | SleepRetryDelay

text \<open>
  The environment of one step: the replies to \<open>getblocktemplate\<close> and \<open>submitblock\<close>, whether the
  first and the second send of the step succeed and the text of a failed send, the clock in milliseconds, and the configured
  minimum interval between non-tip publications.
\<close>

record rpc_env =
  re_gbt_reply :: "(get_block_template, string) result"
  re_submit_reply :: "(string option, string) result"
  re_send1_ok :: bool
  re_send2_ok :: bool
  re_send_error :: string
  re_now :: nat
  re_min_interval :: nat

definition retain_newest :: "(u64, 'v) shared_map \<Rightarrow> (u64, 'v) shared_map" where
  "retain_newest templates =
     (if sm_len templates > MAX_RETAINED_TEMPLATES
      then fold (\<lambda>i m. snd (sm_remove i m))
             (take (sm_len templates - MAX_RETAINED_TEMPLATES) (sort (sm_keys templates))) templates
      else templates)"

definition publish_gbt ::
  "('tx, 'tg) rpc_lib \<Rightarrow> rpc_env \<Rightarrow> coinbase_output_constraints \<Rightarrow> get_block_template \<Rightarrow> bool \<Rightarrow> bool
    \<Rightarrow> ('tx, 'tg) rpc_provider
    \<Rightarrow> (bytes \<times> string option, string) result \<times> ('tx, 'tg) rpc_provider \<times> 'tx rpc_effect list" where
  "publish_gbt lib env constraints gbt future_template send_prev_hash st =
     (let longpollid = gbt_longpollid gbt;
          tid = rp_next_template_id st;
          st = st\<lparr>rp_next_template_id := tid + 1\<rparr>
      in case from_gbt lib tid gbt constraints of
           Inl e \<Rightarrow> (Inl e, st, [])
         | Inr template \<Rightarrow>
           (case template_new_template lib template future_template of
              Inl e \<Rightarrow> (Inl e, st, [])
            | Inr nt \<Rightarrow>
              (let prev = template_set_new_prev_hash lib template;
                   st = st\<lparr>rp_templates :=
                     retain_newest (snd (sm_insert (rt_id template) template (rp_templates st)))\<rparr>
               in if \<not> re_send1_ok env
                  then (Inl (''failed to publish RPC NewTemplate: '' @ re_send_error env), st, [])
                  else if send_prev_hash \<and> \<not> re_send2_ok env
                  then (Inl (''failed to publish RPC SetNewPrevHash: '' @ re_send_error env), st, [Publish (NewTemplate nt)])
                  else (Inr (rt_prev_hash template, longpollid), st,
                        Publish (NewTemplate nt) #
                        (if send_prev_hash then [Publish (TdpSetNewPrevHash prev)] else [])))))"

definition refresh_template ::
  "('tx, 'tg) rpc_lib \<Rightarrow> rpc_env \<Rightarrow> coinbase_output_constraints \<Rightarrow> string option \<Rightarrow> bool \<Rightarrow> bool
    \<Rightarrow> ('tx, 'tg) rpc_provider
    \<Rightarrow> (bytes \<times> string option, string) result \<times> ('tx, 'tg) rpc_provider \<times> 'tx rpc_effect list" where
  "refresh_template lib env constraints longpollid future_template send_prev_hash st =
     (case re_gbt_reply env of
        Inl e \<Rightarrow> (Inl e, st, [CallGetBlockTemplate longpollid])
      | Inr gbt \<Rightarrow>
        (let (r, st', eff) = publish_gbt lib env constraints gbt future_template send_prev_hash st
         in (r, st', CallGetBlockTemplate longpollid # eff)))"

definition request_transaction_data_response ::
  "sv2_limits \<Rightarrow> (u64, ('tx, 'tg) rpc_template) shared_map \<Rightarrow> u64 \<Rightarrow> (tdp_message, string) result" where
  "request_transaction_data_response l templates template_id =
     (case sm_get_cloned templates template_id of
        Some template \<Rightarrow>
          (if \<not> list_all (\<lambda>b. fits_b016m l (length b)) (rt_transaction_bytes template)
           then Err ''transaction is too large for SV2 B016M''
           else if \<not> fits_seq064k l (length (rt_transaction_bytes template))
           then Err ''too many transactions for SV2 Seq064K''
           else Ok (RequestTransactionDataSuccess template_id [] (rt_transaction_bytes template)))
      | None \<Rightarrow>
          (let stale = (sm_keys templates \<noteq> [] \<and> template_id < Max (set (sm_keys templates)))
           in Ok (RequestTransactionDataError template_id
                (if stale then EC_REQUEST_TRANSACTION_DATA_STALE_TEMPLATE_ID
                 else EC_REQUEST_TRANSACTION_DATA_TEMPLATE_ID_NOT_FOUND))))"

definition handle_request_transaction_data ::
  "('tx, 'tg) rpc_lib \<Rightarrow> rpc_env \<Rightarrow> u64 \<Rightarrow> ('tx, 'tg) rpc_provider
    \<Rightarrow> (unit, string) result \<times> 'tx rpc_effect list" where
  "handle_request_transaction_data lib env template_id st =
     (case request_transaction_data_response (rl_limits lib) (rp_templates st) template_id of
        Inl e \<Rightarrow> (Inl e, [])
      | Inr response \<Rightarrow>
          (if re_send1_ok env then (Ok (), [Publish response])
           else (Err (''failed to send RPC transaction data response: '' @ re_send_error env), [])))"

definition submit_block ::
  "rpc_env \<Rightarrow> block_header \<Rightarrow> 'tx list \<Rightarrow> (unit, string) result \<times> 'tx rpc_effect list" where
  "submit_block env header txdata =
     ((case re_submit_reply env of
         Inl e \<Rightarrow> Inl e
       | Inr None \<Rightarrow> Ok ()
       | Inr (Some reason) \<Rightarrow> Err (''Bitcoin node rejected solved block: '' @ reason)),
      [CallSubmitBlock header txdata])"

definition handle_submit_solution ::
  "('tx, 'tg) rpc_lib \<Rightarrow> rpc_env \<Rightarrow> submit_solution \<Rightarrow> ('tx, 'tg) rpc_provider
    \<Rightarrow> (unit, string) result \<times> 'tx rpc_effect list" where
  "handle_submit_solution lib env solution st =
     (case sm_get_cloned (rp_templates st) (sol_template_id solution) of
        None \<Rightarrow> (Err (''solution references unknown template '' @ dec_nat (unat (sol_template_id solution))), [])
      | Some template \<Rightarrow>
        (case solution_block lib template solution of
           Inl e \<Rightarrow> (Inl e, [])
         | Inr (header, txdata) \<Rightarrow> submit_block env header txdata))"

section \<open>The main loop\<close>

text \<open>
  One iteration of \<open>run\<close>: the branch of the \<open>select!\<close> that is ready is the event.  While the
  constraints are missing the loop only waits for an incoming message; \<^const>\<open>None\<close> as the message is
  the closed channel.  The result is \<^const>\<open>None\<close> when the loop breaks.
\<close>

datatype rpc_event =
    Cancelled
  | Incoming "tdp_message option"
  | TemplateReply

definition run_waiting ::
  "('tx, 'tg) rpc_lib \<Rightarrow> rpc_env \<Rightarrow> tdp_message option \<Rightarrow> ('tx, 'tg) rpc_provider
    \<Rightarrow> ('tx, 'tg) rpc_provider option \<times> 'tx rpc_effect list" where
  "run_waiting lib env msg st = (case msg of
     None \<Rightarrow> (None, [])
   | Some (CoinbaseOutputConstraints c) \<Rightarrow>
       (let (r, st', eff) = refresh_template lib env c None True True (st\<lparr>rp_constraints := Some c\<rparr>)
        in case r of
             Inr (prev_hash, longpollid) \<Rightarrow>
               (Some (st'\<lparr>rp_current_prev_hash := Some prev_hash, rp_longpollid := longpollid\<rparr>), eff)
           | Inl e \<Rightarrow> (Some (st'\<lparr>rp_constraints := None\<rparr>), eff @ [SleepRetryDelay]))
   | Some _ \<Rightarrow> (Some st, []))"

definition run_incoming ::
  "('tx, 'tg) rpc_lib \<Rightarrow> rpc_env \<Rightarrow> tdp_message option \<Rightarrow> ('tx, 'tg) rpc_provider
    \<Rightarrow> ('tx, 'tg) rpc_provider option \<times> 'tx rpc_effect list" where
  "run_incoming lib env msg st = (case msg of
     None \<Rightarrow> (None, [])
   | Some (CoinbaseOutputConstraints c) \<Rightarrow>
       (let (r, st', eff) = refresh_template lib env c None True True (st\<lparr>rp_constraints := Some c\<rparr>)
        in case r of
             Inr (prev_hash, longpollid) \<Rightarrow>
               (Some (st'\<lparr>rp_current_prev_hash := Some prev_hash, rp_longpollid := longpollid\<rparr>), eff)
           | Inl e \<Rightarrow> (Some st', eff))
   | Some (RequestTransactionData template_id) \<Rightarrow>
       (Some st, snd (handle_request_transaction_data lib env template_id st))
   | Some (SubmitSolution solution) \<Rightarrow>
       (Some st, snd (handle_submit_solution lib env solution st))
   | Some _ \<Rightarrow> (Some st, []))"

definition run_template_reply ::
  "('tx, 'tg) rpc_lib \<Rightarrow> rpc_env \<Rightarrow> coinbase_output_constraints \<Rightarrow> ('tx, 'tg) rpc_provider
    \<Rightarrow> ('tx, 'tg) rpc_provider option \<times> 'tx rpc_effect list" where
  "run_template_reply lib env constraints st =
     (let call = CallGetBlockTemplate (rp_longpollid st) in
      case re_gbt_reply env of
        Inl e \<Rightarrow> (Some st, [call, SleepRetryDelay])
      | Inr gbt \<Rightarrow>
        (case rl_block_hash_from_str lib (gbt_previousblockhash gbt) of
           Inl e \<Rightarrow> (Some st, [call])
         | Inr prev_hash \<Rightarrow>
           (let tip_changed = (rp_current_prev_hash st \<noteq> Some prev_hash);
                throttled = (\<not> tip_changed \<and> (case rp_last_non_tip_publish st of
                   None \<Rightarrow> False | Some published \<Rightarrow> re_now env - published < re_min_interval env));
                st = st\<lparr>rp_longpollid := gbt_longpollid gbt\<rparr>
            in if throttled then (Some st, [call])
               else (let (r, st', eff) = publish_gbt lib env constraints gbt tip_changed tip_changed st
                     in case r of
                          Inr (prev_hash', _) \<Rightarrow>
                            (Some (st'\<lparr>rp_current_prev_hash := Some prev_hash',
                                      rp_last_non_tip_publish :=
                                        (if tip_changed then rp_last_non_tip_publish st'
                                         else Some (re_now env))\<rparr>), call # eff)
                        | Inl e \<Rightarrow> (Some st', call # eff)))))"

text \<open>
  In the waiting phase the only await is \<open>incoming.recv()\<close>, so no other event is possible there.
\<close>

definition rpc_run_step ::
  "('tx, 'tg) rpc_lib \<Rightarrow> rpc_env \<Rightarrow> rpc_event \<Rightarrow> ('tx, 'tg) rpc_provider
    \<Rightarrow> ('tx, 'tg) rpc_provider option \<times> 'tx rpc_effect list" where
  "rpc_run_step lib env ev st = (case ev of
     Cancelled \<Rightarrow> (None, [])
   | Incoming msg \<Rightarrow>
       (if rp_constraints st = None then run_waiting lib env msg st else run_incoming lib env msg st)
   | TemplateReply \<Rightarrow>
       (case rp_constraints st of
          None \<Rightarrow> (Some st, [])
        | Some c \<Rightarrow> run_template_reply lib env c st))"

fun rpc_run ::
  "('tx, 'tg) rpc_lib \<Rightarrow> (rpc_env \<times> rpc_event) list \<Rightarrow> ('tx, 'tg) rpc_provider
    \<Rightarrow> ('tx, 'tg) rpc_provider option \<times> 'tx rpc_effect list" where
  "rpc_run lib [] st = (Some st, [])"
| "rpc_run lib ((env, ev) # evs) st = (case rpc_run_step lib env ev st of
     (None, eff) \<Rightarrow> (None, eff)
   | (Some st', eff) \<Rightarrow> (let (r, eff') = rpc_run lib evs st' in (r, eff @ eff')))"

section \<open>Lemmas\<close>

lemma select_prefix_loop_shift:
  "select_prefix_loop lib budget used (k + i) txs = k + select_prefix_loop lib budget used i txs"
proof (induction txs arbitrary: used i)
  case (Cons tx txs)
  from Cons [of _ "i + 1"] show ?case by (simp add: add.assoc)
qed simp

lemma saturating_add_le_iff:
  fixes a b c :: u64
  assumes "c \<noteq> - 1"
  shows "saturating_add a b \<le> c \<longleftrightarrow> unat a + unat b \<le> unat c"
proof (cases "unat a + unat b < 2 ^ 64")
  case True
  then show ?thesis by (simp add: saturating_add_def word_le_nat_alt word_arith)
next
  case False
  have "\<not> (- 1 :: u64) \<le> c" using assms by (simp add: word_order.extremum_unique)
  moreover have "unat c < 2 ^ 64" using unat_bound [of c] by simp
  ultimately show ?thesis using False by (simp add: saturating_add_def)
qed

lemma unat_saturating_add_fits:
  fixes a b :: u64
  shows "unat a + unat b < 2 ^ 64 \<Longrightarrow> unat (saturating_add a b) = unat a + unat b"
  by (simp add: saturating_add_def word_arith)

text \<open>The loop selects the longest prefix whose weight, added to what is used, fits the budget.\<close>

lemma select_prefix_loop_spec:
  assumes "budget \<noteq> - 1"
  shows "select_prefix_loop lib budget used 0 txs = n \<Longrightarrow>
    n \<le> length txs \<and>
    (n > 0 \<longrightarrow> unat used + sum_list (map (\<lambda>t. unat (tx_weight lib t)) (take n txs)) \<le> unat budget) \<and>
    (n < length txs \<longrightarrow>
       unat used + sum_list (map (\<lambda>t. unat (tx_weight lib t)) (take (Suc n) txs)) > unat budget)"
proof (induction txs arbitrary: used n)
  case (Cons tx txs)
  let ?w = "tx_weight lib tx" let ?s = "saturating_add used ?w"
  show ?case
  proof (cases "?s \<le> budget")
    case True
    then have le: "unat used + unat ?w \<le> unat budget" using assms by (simp add: saturating_add_le_iff)
    then have s: "unat ?s = unat used + unat ?w"
      using unat_bound [of budget] by (intro unat_saturating_add_fits) simp
    obtain n' where n': "select_prefix_loop lib budget ?s 0 txs = n'" by blast
    moreover have "\<not> budget < ?s" using True by simp
    ultimately have n: "n = Suc n'"
      using Cons.prems select_prefix_loop_shift [of lib budget ?s 1 0 txs] by simp
    from Cons.IH [OF n'] le s show ?thesis
      by (cases n') (auto simp: n)
  next
    case False
    then have "unat used + unat ?w > unat budget" using assms by (simp add: saturating_add_le_iff)
    with Cons.prems False show ?thesis by (auto simp: not_le)
  qed
qed simp

lemma fold_delete: "fold AList.delete ks m = filter (\<lambda>(k, _). k \<notin> set ks) m"
  by (induction ks arbitrary: m) (auto simp: AList.delete_eq split_def intro!: filter_cong)

lemma retain_newest_subset: "set (retain_newest m) \<subseteq> set m"
  by (auto simp: retain_newest_def fold_delete)

lemma sm_invar_retain_newest [simp, inv_rules]: "sm_invar m \<Longrightarrow> sm_invar (retain_newest m)"
  by (auto simp: retain_newest_def fold_delete sm_invar_def distinct_map intro: inj_on_subset)

lemma length_filter_keys:
  assumes "sm_invar m" and "distinct ks" and "set ks \<subseteq> fst ` set m"
  shows "length (filter (\<lambda>(k, _). k \<notin> set ks) m) = length m - length ks"
proof -
  let ?f = "filter (\<lambda>(k, _). k \<notin> set ks) m"
  have d: "distinct (map fst ?f)"
    using assms(1) by (auto simp: sm_invar_def distinct_map intro: inj_on_subset)
  have "length ?f = card (fst ` set ?f)" using distinct_card [OF d] by simp
  also have "fst ` set ?f = fst ` set m - set ks" by force
  also have "card \<dots> = card (fst ` set m) - card (set ks)" using assms(3) by (simp add: card_Diff_subset)
  also have "\<dots> = length m - length ks"
    using assms(1,2) distinct_card [of "map fst m"] by (simp add: sm_invar_def distinct_card)
  finally show ?thesis .
qed

lemma length_retain_newest:
  assumes "sm_invar m"
  shows "length (retain_newest m) = min (length m) MAX_RETAINED_TEMPLATES"
proof -
  let ?ks = "take (length m - MAX_RETAINED_TEMPLATES) (sort (map fst m))"
  have "distinct ?ks" "set ?ks \<subseteq> fst ` set m"
    using assms by (auto simp: sm_invar_def dest: in_set_takeD)
  from length_filter_keys [OF assms this] show ?thesis
    by (auto simp: retain_newest_def fold_delete sm_len_def sm_keys_def)
qed

text \<open>Every evicted key is below every retained one.\<close>

lemma retain_newest_keeps_larger:
  assumes "sm_invar m" and "k \<in> fst ` set m" and "k \<notin> fst ` set (retain_newest m)"
    and "j \<in> fst ` set (retain_newest m)"
  shows "k < j"
proof -
  let ?n = "length m - MAX_RETAINED_TEMPLATES" and ?s = "sort (map fst m)"
  have big: "sm_len m > MAX_RETAINED_TEMPLATES" using assms(2,3) by (auto simp: retain_newest_def)
  have r: "retain_newest m = filter (\<lambda>(k, _). k \<notin> set (take ?n ?s)) m"
    using big by (simp add: retain_newest_def fold_delete sm_len_def sm_keys_def)
  have k: "k \<in> set (take ?n ?s)" using assms(2,3) by (force simp: r)
  have j: "j \<notin> set (take ?n ?s)" "j \<in> set ?s" using assms(4) by (auto simp: r)
  then have "j \<in> set (drop ?n ?s)" by (metis Un_iff append_take_drop_id set_append)
  moreover have "sorted (take ?n ?s @ drop ?n ?s)" by simp
  ultimately have "k \<le> j" using k by (simp only: sorted_append)
  with k j show ?thesis by (metis order_le_less)
qed

lemma map_of_retain_newest:
  assumes "sm_invar m" and "k \<in> fst ` set (retain_newest m)"
  shows "map_of (retain_newest m) k = map_of m k"
proof -
  obtain v where v: "(k, v) \<in> set (retain_newest m)" using assms(2) by auto
  then have "(k, v) \<in> set m" using retain_newest_subset by auto
  with v assms(1) show ?thesis
    using sm_invar_retain_newest [OF assms(1)] by (simp add: sm_invar_def map_of_is_SomeI)
qed

section \<open>The provider invariant\<close>

text \<open>
  A template is consistent when its sibling path is that of its own transactions, its target is
  that of its compact bits and its coinbase prefix respects the consensus limit.
\<close>

definition template_ok :: "('tx, 'tg) rpc_lib \<Rightarrow> ('tx, 'tg) rpc_template \<Rightarrow> bool" where
  "template_ok lib t =
     (rt_merkle_path t = coinbase_merkle_path (rl_sha256d lib) (map (rl_compute_txid lib) (rt_transactions t)) \<and>
      rt_required_outputs t =
        [witness_commitment_output (rl_sha256d lib) (map (rl_compute_wtxid lib) (rt_transactions t))] \<and>
      rt_target t = rl_target_of_bits lib (rt_bits t) \<and>
      length (rt_coinbase_prefix t) \<le> 100)"

definition rpc_inv :: "('tx, 'tg) rpc_lib \<Rightarrow> ('tx, 'tg) rpc_provider \<Rightarrow> bool" where
  "rpc_inv lib st =
     (sm_invar (rp_templates st) \<and> length (rp_templates st) \<le> MAX_RETAINED_TEMPLATES \<and>
      (\<forall>(k, t) \<in> set (rp_templates st). rt_id t = k \<and> template_ok lib t))"

definition block_consistent :: "('tx, 'tg) rpc_lib \<Rightarrow> 'tx rpc_effect \<Rightarrow> bool" where
  "block_consistent lib e = (case e of
     CallSubmitBlock h txs \<Rightarrow>
       bh_merkle_root h = merkle_root (rl_sha256d lib) (map (rl_compute_txid lib) txs) \<and>
       rl_validate_pow lib h (rl_target_of_bits lib (bh_bits h)) = Ok ()
   | _ \<Rightarrow> True)"

lemma block_consistent_simps [simp]:
  "block_consistent lib (Publish m)"
  "block_consistent lib (CallGetBlockTemplate l)"
  "block_consistent lib SleepRetryDelay"
  by (simp_all add: block_consistent_def)

lemma checked_transactions_ids:
  assumes "try_map (check_gbt_transaction lib) selected = Ok checked"
  shows "map (\<lambda>(_, _, i, _). i) checked = map (rl_compute_txid lib) (map (\<lambda>(_, t, _, _). t) checked)"
    and "map (\<lambda>(_, _, _, w). w) checked = map (rl_compute_wtxid lib) (map (\<lambda>(_, t, _, _). t) checked)"
proof -
  have "list_all2 (\<lambda>x y. check_gbt_transaction lib x = Ok y) selected checked"
    using assms by (simp add: try_map_eq_Inr_iff)
  then have "\<forall>(b, t, i, w) \<in> set checked. rl_compute_txid lib t = i \<and> rl_compute_wtxid lib t = w"
    by (induction rule: list_all2_induct)
      (auto simp: check_gbt_transaction_def rbind_eq_Inr_iff split: if_splits)
  then show "map (\<lambda>(_, _, i, _). i) checked = map (rl_compute_txid lib) (map (\<lambda>(_, t, _, _). t) checked)"
    and "map (\<lambda>(_, _, _, w). w) checked = map (rl_compute_wtxid lib) (map (\<lambda>(_, t, _, _). t) checked)"
    by auto
qed

lemma gbt_coinbase_prefix_Ok:
  "gbt_coinbase_prefix lib tid gbt = Ok p \<Longrightarrow>
     drop (length p - 8) p = le_bytes 8 (unat tid) \<and> length p \<le> 100"
  by (auto simp: gbt_coinbase_prefix_def Let_def rbind_eq_Inr_iff split: if_splits)

lemma from_gbt_Ok:
  assumes "from_gbt lib tid gbt c = Ok t"
  shows "rt_id t = tid" and "template_ok lib t"
    and "gbt_coinbase_prefix lib tid gbt = Ok (rt_coinbase_prefix t)"
    and "rt_coinbase_value t = gbt_coinbasevalue gbt"
    and "rl_block_hash_from_str lib (gbt_previousblockhash gbt) = Ok (rt_prev_hash t)"
proof -
  from assms show "rt_id t = tid" "gbt_coinbase_prefix lib tid gbt = Ok (rt_coinbase_prefix t)"
    "rt_coinbase_value t = gbt_coinbasevalue gbt"
    "rl_block_hash_from_str lib (gbt_previousblockhash gbt) = Ok (rt_prev_hash t)"
    by (auto simp: from_gbt_def rbind_eq_Inr_iff Let_def)
  from assms show "template_ok lib t"
    by (auto simp: from_gbt_def rbind_eq_Inr_iff Let_def template_ok_def checked_transactions_ids
        gbt_coinbase_prefix_def split: if_splits)
qed

lemma template_store_inv:
  assumes "sm_invar m" "\<forall>(k, t) \<in> set m. Q k t" "Q k t"
  shows "sm_invar (retain_newest (AList.update k t m))"
    and "length (retain_newest (AList.update k t m)) \<le> MAX_RETAINED_TEMPLATES"
    and "\<forall>(k, t) \<in> set (retain_newest (AList.update k t m)). Q k t"
proof -
  have inv: "sm_invar (AList.update k t m)" using assms(1) by simp
  then show "sm_invar (retain_newest (AList.update k t m))" by simp
  show "length (retain_newest (AList.update k t m)) \<le> MAX_RETAINED_TEMPLATES"
    using length_retain_newest [OF inv] by simp
  have "(k', t') \<in> set (AList.update k t m) \<Longrightarrow> Q k' t'" for k' t'
    using inv assms by (auto simp: sm_invar_def split: if_splits
        dest!: map_of_is_SomeI [OF inv [unfolded sm_invar_def]] dest: map_of_SomeD)
  then show "\<forall>(k, t) \<in> set (retain_newest (AList.update k t m)). Q k t"
    using retain_newest_subset by fastforce
qed

lemma publish_gbt_inv [inv_rules]:
  assumes "publish_gbt lib env c gbt fut snd_prev st = (r, st', eff)" and "rpc_inv lib st"
  shows "rpc_inv lib st'" and "list_all (block_consistent lib) eff"
proof -
  let ?Q = "\<lambda>k t. rt_id t = k \<and> template_ok lib t"
  let ?tid = "rp_next_template_id st"
  have inv: "sm_invar (rp_templates st)" "\<forall>(k, t) \<in> set (rp_templates st). ?Q k t"
    using assms(2) by (simp_all add: rpc_inv_def)
  have new: "sm_invar (retain_newest (AList.update (rt_id t) t (rp_templates st))) \<and>
      length (retain_newest (AList.update (rt_id t) t (rp_templates st))) \<le> MAX_RETAINED_TEMPLATES \<and>
      (\<forall>(k, t) \<in> set (retain_newest (AList.update (rt_id t) t (rp_templates st))). ?Q k t)"
    if "from_gbt lib ?tid gbt c = Ok t" for t
    using template_store_inv [where Q = ?Q and k = "rt_id t" and t = t, OF inv] from_gbt_Ok [OF that] by blast
  show "rpc_inv lib st'"
    using assms new by (auto simp: publish_gbt_def Let_def rpc_inv_def split: sum.splits if_splits)
  show "list_all (block_consistent lib) eff"
    using assms(1) by (auto simp: publish_gbt_def Let_def split: sum.splits if_splits)
qed

lemma refresh_template_inv [inv_rules]:
  assumes "refresh_template lib env c lp fut snd_prev st = (r, st', eff)" and "rpc_inv lib st"
  shows "rpc_inv lib st'" and "list_all (block_consistent lib) eff"
proof -
  show "rpc_inv lib st'" "list_all (block_consistent lib) eff"
    using assms publish_gbt_inv [of lib env c _ fut snd_prev st]
    by (auto simp: refresh_template_def split: sum.splits prod.splits)
qed

lemma solution_block_consistent:
  assumes "solution_block lib t sol = Ok (h, txs)" and "template_ok lib t"
  shows "block_consistent lib (CallSubmitBlock h txs)"
proof -
  obtain coinbase where
    h: "bh_merkle_root h = apply_merkle_path (rl_sha256d lib) (rl_compute_txid lib coinbase) (rt_merkle_path t)"
      "bh_bits h = rt_bits t" "rl_validate_pow lib h (rt_target t) = Ok ()"
    and txs: "txs = coinbase # rt_transactions t"
    using assms(1) by (auto simp: solution_block_def rbind_eq_Inr_iff Let_def)
  have path: "apply_merkle_path (rl_sha256d lib) c (coinbase_merkle_path (rl_sha256d lib) ids) =
      merkle_root (rl_sha256d lib) (c # ids)" for c ids
    using apply_path_eq_root_loop [of "rl_sha256d lib" c ids]
      path_first_leaf_irrelevant [of "rl_sha256d lib" "replicate 32 0" ids c]
    by (simp add: coinbase_merkle_path_def merkle_root_def flip: apply_path_eq_root_loop)
  show ?thesis using assms(2) h path by (simp add: block_consistent_def template_ok_def txs)
qed

lemma submit_solution_consistent:
  assumes "rpc_inv lib st"
  shows "list_all (block_consistent lib) (snd (handle_submit_solution lib env sol st))"
proof -
  have "template_ok lib t" if "map_of (rp_templates st) k = Some t" for k t
    using assms map_of_SomeD [OF that] by (auto simp: rpc_inv_def)
  then show ?thesis
    by (auto simp: handle_submit_solution_def sm_get_cloned_def submit_block_def
        intro: solution_block_consistent split: option.splits sum.splits)
qed

lemma request_data_consistent:
  "list_all (block_consistent lib) (snd (handle_request_transaction_data lib env i st))"
  by (simp add: handle_request_transaction_data_def split: sum.splits)

lemma rpc_inv_other_fields [simp]:
  "rpc_inv lib (st\<lparr>rp_constraints := c\<rparr>) = rpc_inv lib st"
  "rpc_inv lib (st\<lparr>rp_longpollid := l\<rparr>) = rpc_inv lib st"
  "rpc_inv lib (st\<lparr>rp_current_prev_hash := p\<rparr>) = rpc_inv lib st"
  "rpc_inv lib (st\<lparr>rp_last_non_tip_publish := n\<rparr>) = rpc_inv lib st"
  by (simp_all add: rpc_inv_def)

lemma run_waiting_inv:
  assumes "run_waiting lib env msg st = (r, eff)" and "rpc_inv lib st"
  shows "(\<forall>st'. r = Some st' \<longrightarrow> rpc_inv lib st') \<and> list_all (block_consistent lib) eff"
proof -
  have "rpc_inv lib (st\<lparr>rp_constraints := Some c\<rparr>)" for c using assms(2) by simp
  note ref = refresh_template_inv [OF _ this]
  show ?thesis using assms(1,2) ref [of env _ None True True]
    by (auto simp: run_waiting_def split: option.splits tdp_message.splits sum.splits prod.splits)
qed

lemma run_incoming_inv:
  assumes "run_incoming lib env msg st = (r, eff)" and "rpc_inv lib st"
  shows "(\<forall>st'. r = Some st' \<longrightarrow> rpc_inv lib st') \<and> list_all (block_consistent lib) eff"
proof -
  have "rpc_inv lib (st\<lparr>rp_constraints := Some c\<rparr>)" for c using assms(2) by simp
  note ref = refresh_template_inv [OF _ this]
  show ?thesis
    using assms ref [of env _ None True True] submit_solution_consistent [OF assms(2), of env]
      request_data_consistent [of lib env _ st]
    by (auto simp: run_incoming_def split: option.splits tdp_message.splits sum.splits prod.splits)
qed

lemma run_template_reply_inv:
  assumes "run_template_reply lib env c st = (r, eff)" and "rpc_inv lib st"
  shows "(\<forall>st'. r = Some st' \<longrightarrow> rpc_inv lib st') \<and> list_all (block_consistent lib) eff"
proof -
  have "rpc_inv lib (st\<lparr>rp_longpollid := l\<rparr>)" for l using assms(2) by simp
  note pub = publish_gbt_inv [OF _ this]
  show ?thesis using assms pub [of env c]
    by (auto simp: run_template_reply_def Let_def split: option.splits sum.splits prod.splits if_splits)
qed

lemma rpc_run_step_inv:
  assumes "rpc_run_step lib env ev st = (r, eff)" and "rpc_inv lib st"
  shows "(\<forall>st'. r = Some st' \<longrightarrow> rpc_inv lib st') \<and> list_all (block_consistent lib) eff"
  using assms run_waiting_inv [of lib env _ st] run_incoming_inv [of lib env _ st]
    run_template_reply_inv [of lib env _ st]
  by (cases ev) (auto simp: rpc_run_step_def split: if_splits option.splits)

lemma rpc_run_inv:
  assumes "rpc_inv lib st" and "rpc_run lib evs st = (r, eff)"
  shows "(\<forall>st'. r = Some st' \<longrightarrow> rpc_inv lib st') \<and> list_all (block_consistent lib) eff"
  using assms
proof (induction lib evs st arbitrary: r eff rule: rpc_run.induct)
  case (2 lib env ev evs st)
  obtain s e where se: "rpc_run_step lib env ev st = (s, e)" by fastforce
  note step = rpc_run_step_inv [OF se "2.prems"(1)]
  show ?case
  proof (cases s)
    case (Some st1)
    obtain r1 e1 where r1: "rpc_run lib evs st1 = (r1, e1)" by fastforce
    with step Some have "(\<forall>st'. r1 = Some st' \<longrightarrow> rpc_inv lib st') \<and> list_all (block_consistent lib) e1"
      using "2.IH" [OF se [symmetric] Some _ r1] by blast
    with step r1 se Some "2.prems" show ?thesis by auto
  qed (use step se "2.prems" in auto)
qed auto

lemma rpc_inv_new [simp]: "rpc_inv lib rpc_provider_new"
  by (simp add: rpc_inv_def rpc_provider_new_def)

definition brings_constraints :: "rpc_event \<Rightarrow> bool" where
  "brings_constraints ev = (case ev of
     Incoming (Some (CoinbaseOutputConstraints _)) \<Rightarrow> True | _ \<Rightarrow> False)"

lemma rpc_stalled_step:
  assumes "rp_constraints st = None" and "\<not> brings_constraints ev"
  shows "snd (rpc_run_step lib env ev st) = [] \<and>
    (fst (rpc_run_step lib env ev st) = None \<or> fst (rpc_run_step lib env ev st) = Some st)"
  using assms
  by (auto simp: rpc_run_step_def run_waiting_def brings_constraints_def
      split: rpc_event.splits option.splits tdp_message.splits)

lemma rpc_stalled_run:
  assumes "rp_constraints st = None"
    and "\<not> list_ex (\<lambda>(_, ev). brings_constraints ev) evs"
  shows "snd (rpc_run lib evs st) = []"
  using assms
proof (induction lib evs st rule: rpc_run.induct)
  case (2 lib env ev evs st)
  obtain s e where se: "rpc_run_step lib env ev st = (s, e)" by fastforce
  have "e = []" "s = None \<or> s = Some st"
    using rpc_stalled_step [OF "2.prems"(1), of ev lib env] "2.prems"(2) se by auto
  moreover have "snd (rpc_run lib evs st) = []" if "s = Some st"
    using "2.IH" [OF se [symmetric] that "2.prems"(1)] "2.prems"(2) by simp
  ultimately show ?case using se by (auto split: prod.splits)
qed simp

section \<open>A concrete library\<close>

text \<open>
  An instance of the parameters on which the properties are exercised: transactions are their own
  bytes, identifiers are their texts, and the hash keeps the length and a prefix of its input.
\<close>

definition plain_rpc_lib :: "(bytes, u32) rpc_lib" where
  "plain_rpc_lib =
     \<lparr>rl_sha256d = (\<lambda>b. word_of_nat (length b) # take 31 b),
      rl_block_hash_from_str = (\<lambda>s. Ok (str_bytes s)), rl_txid_from_str = (\<lambda>s. Ok (str_bytes s)),
      rl_wtxid_from_str = (\<lambda>s. Ok (str_bytes s)), rl_hex_decode = (\<lambda>s. Ok (str_bytes s)),
      rl_deserialize_tx = (\<lambda>b. Ok b), rl_compute_txid = (\<lambda>b. b), rl_compute_wtxid = (\<lambda>b. b),
      rl_push_int = (\<lambda>h. [3] @ le_bytes 3 (unat h)), rl_target_of_bits = (\<lambda>b. b),
      rl_target_le_bytes = (\<lambda>t. le_bytes 4 (unat t)),
      rl_serialize_txout = (\<lambda>t. txout_script_pubkey t), rl_validate_pow = (\<lambda>h t. Ok ()),
      rl_limits = wire_limits\<rparr>"

definition sample_gbt :: get_block_template where
  "sample_gbt = \<lparr>gbt_version = 2, gbt_previousblockhash = ''aa'',
     gbt_transactions = [\<lparr>gt_data = ''t1'', gt_txid = ''t1'', gt_hash = ''t1'', gt_weight = Some 400\<rparr>],
     gbt_coinbaseaux_flags = [], gbt_coinbasevalue = 5000, gbt_longpollid = None,
     gbt_mintime = 5, gbt_curtime = 7, gbt_bits = ''1d00ffff'', gbt_height = 100\<rparr>"

definition sample_env :: rpc_env where
  "sample_env = \<lparr>re_gbt_reply = Err ''connection refused'', re_submit_reply = Ok None,
     re_send1_ok = True, re_send2_ok = True, re_send_error = [], re_now = 0, re_min_interval = 5\<rparr>"

section \<open>Properties\<close>

text \<open>
  C5. Over every run of the provider, with any replies of the node, any messages and any
  cancellation, each block it submits carries the merkle root of exactly the transactions it
  contains and meets the target of its own compact bits.
\<close>

theorem submitted_blocks_consistent:
  "list_all (block_consistent lib) (snd (rpc_run lib evs rpc_provider_new))"
  using rpc_run_inv [OF rpc_inv_new, of lib evs] by (metis prod.collapse)

text \<open>
  The transaction prefix taken from a block template fits the weight budget together with the
  320 weight units of the header, and it is the longest prefix that does.
\<close>

theorem select_transaction_prefix_fits_and_maximal:
  fixes budget :: u64
  assumes "budget \<noteq> - 1"
    and "n = select_transaction_prefix lib txs budget"
  shows "n \<le> length txs \<and>
    (n > 0 \<longrightarrow> 320 + (\<Sum>t \<leftarrow> take n txs. unat (tx_weight lib t)) \<le> unat budget) \<and>
    (n < length txs \<longrightarrow> 320 + (\<Sum>t \<leftarrow> take (Suc n) txs. unat (tx_weight lib t)) > unat budget)"
  using select_prefix_loop_spec [OF assms(1), of lib 320 txs n] assms(2)
  by (simp add: select_transaction_prefix_def)

theorem select_transaction_prefix_fits_and_maximal_witness:
  "select_transaction_prefix plain_rpc_lib
     [\<lparr>gt_data = ''a'', gt_txid = [], gt_hash = [], gt_weight = Some 400\<rparr>,
      \<lparr>gt_data = ''abc'', gt_txid = [], gt_hash = [], gt_weight = None\<rparr>,
      \<lparr>gt_data = ''a'', gt_txid = [], gt_hash = [], gt_weight = Some 400\<rparr>] 1000 = 2 \<and>
   320 + (400 + 12) \<le> unat (1000 :: u64)"
proof -
  let ?txs = "[\<lparr>gt_data = ''a'', gt_txid = [], gt_hash = [], gt_weight = Some 400\<rparr>,
      \<lparr>gt_data = ''abc'', gt_txid = [], gt_hash = [], gt_weight = None\<rparr>,
      \<lparr>gt_data = ''a'', gt_txid = [], gt_hash = [], gt_weight = Some 400\<rparr>]"
  have n: "select_transaction_prefix plain_rpc_lib ?txs 1000 = 2"
    by (simp add: select_transaction_prefix_def tx_weight_def plain_rpc_lib_def saturating_add_def)
  have "(1000 :: u64) \<noteq> - 1" by simp
  from select_transaction_prefix_fits_and_maximal [OF this n [symmetric]]
  have "320 + (\<Sum>t \<leftarrow> take 2 ?txs. unat (tx_weight plain_rpc_lib t)) \<le> unat (1000 :: u64)" by simp
  then show ?thesis using n by (simp add: tx_weight_def plain_rpc_lib_def)
qed

text \<open>
  Every published template has its own work: templates with different identifiers have
  different coinbase prefixes, even when they are built from the same reply of the node, and no
  prefix exceeds the consensus limit of 100 bytes.
\<close>

theorem template_prefixes_distinct:
  assumes "from_gbt lib i gbt c = Ok t" and "from_gbt lib j gbt' c' = Ok t'" and "i \<noteq> j"
  shows "rt_coinbase_prefix t \<noteq> rt_coinbase_prefix t' \<and> length (rt_coinbase_prefix t) \<le> 100"
proof -
  have "unat i \<noteq> unat j" using assms(3) by (simp add: word_unat_eq_iff)
  moreover have "unat k < 256 ^ 8" for k :: u64 using unat_bound [of k] by simp
  ultimately have "le_bytes 8 (unat i) \<noteq> le_bytes 8 (unat j)" by (simp add: le_bytes_inj)
  then have "rt_coinbase_prefix t \<noteq> rt_coinbase_prefix t'"
    using gbt_coinbase_prefix_Ok [OF from_gbt_Ok(3) [OF assms(1)]]
      gbt_coinbase_prefix_Ok [OF from_gbt_Ok(3) [OF assms(2)]] by metis
  then show ?thesis using from_gbt_Ok(2) [OF assms(1)] by (simp add: template_ok_def)
qed

theorem template_prefixes_distinct_witness:
  "\<exists>t t'. from_gbt plain_rpc_lib 1 sample_gbt \<lparr>coc_max_additional_size = 100, coc_max_additional_sigops = 4\<rparr> = Ok t \<and>
      from_gbt plain_rpc_lib 2 sample_gbt \<lparr>coc_max_additional_size = 100, coc_max_additional_sigops = 4\<rparr> = Ok t' \<and>
      rt_coinbase_prefix t \<noteq> rt_coinbase_prefix t'"
proof -
  let ?c = "\<lparr>coc_max_additional_size = 100, coc_max_additional_sigops = 4\<rparr>"
  have ok: "is_ok (from_gbt plain_rpc_lib 1 sample_gbt ?c)" "is_ok (from_gbt plain_rpc_lib 2 sample_gbt ?c)"
    by (simp_all add: from_gbt_def sample_gbt_def plain_rpc_lib_def from_str_radix_def radix_digit_def
        gbt_coinbase_prefix_def select_transaction_prefix_def tx_weight_def saturating_add_def
        saturating_sub_def reserved_weight_def MAX_BLOCK_WEIGHT_def MIN_BLOCK_RESERVED_WEIGHT_def
        check_gbt_transaction_def Let_def)
  then obtain t t' where "from_gbt plain_rpc_lib 1 sample_gbt ?c = Ok t"
    "from_gbt plain_rpc_lib 2 sample_gbt ?c = Ok t'"
    by (auto simp: is_ok_def split: sum.splits)
  with template_prefixes_distinct [of plain_rpc_lib 1 sample_gbt ?c t 2 sample_gbt ?c t']
  show ?thesis by auto
qed

text \<open>
  Retention: storing a template whose identifier is larger than all stored ones keeps it
  available for solutions, leaves at most 32 templates, and evicts only identifiers that are
  smaller than every retained one.
\<close>

theorem template_retention:
  fixes m :: "(u64, 'v) shared_map"
  assumes "sm_invar m" and "\<forall>j \<in> set (sm_keys m). j < k"
    and "m' = retain_newest (snd (sm_insert k t m))"
  shows "sm_get_cloned m' k = Some t \<and> sm_len m' \<le> 32 \<and>
    (\<forall>i j. i \<in> set (sm_keys m) \<and> i \<notin> set (sm_keys m') \<and> j \<in> set (sm_keys m') \<longrightarrow> i < j)"
proof -
  let ?m = "AList.update k t m"
  have inv: "sm_invar ?m" using assms(1) by simp
  have keys: "fst ` set ?m = insert k (fst ` set m)" by (simp add: dom_update flip: dom_map_of_conv_image_fst)
  have m': "m' = retain_newest ?m" using assms(3) by simp
  have larger: "i < j" if "i \<in> fst ` set ?m" "i \<notin> fst ` set m'" "j \<in> fst ` set m'" for i j
    using retain_newest_keeps_larger [OF inv] that m' by blast
  have "length m' \<le> 32" "length m' > 0"
    using length_retain_newest [OF inv] keys m' by (auto simp: MAX_RETAINED_TEMPLATES_def)
  moreover have "k \<in> fst ` set m'"
  proof (rule ccontr)
    assume k: "k \<notin> fst ` set m'"
    obtain j v where "(j, v) \<in> set m'" using \<open>length m' > 0\<close> by (cases m') auto
    then have j: "j \<in> fst ` set m'" by force
    then have "j \<in> fst ` set ?m" using m' retain_newest_subset by blast
    with keys j k have "j \<in> set (sm_keys m)" by (auto simp: sm_keys_def)
    with assms(2) have "j < k" by blast
    with larger [OF _ k j] keys show False by auto
  qed
  ultimately show ?thesis
    using larger keys map_of_retain_newest [OF inv] m' by (auto simp: sm_get_cloned_def sm_len_def sm_keys_def)
qed

theorem template_retention_witness:
  "sm_get_cloned (retain_newest (snd (sm_insert 40 ''new'' (map (\<lambda>i. (word_of_nat i, ''old'')) [1..<40])))) (40 :: u64)
     = Some ''new''"
proof -
  let ?m = "map (\<lambda>i. (word_of_nat i :: u64, ''old'')) [1..<40]"
  have "sm_invar ?m" by code_simp
  moreover have "\<forall>j \<in> set (sm_keys ?m). j < 40" by code_simp
  ultimately show ?thesis using template_retention [of ?m 40 _ "''new''"] by blast
qed

text \<open>
  C40. A provider whose first \<open>getblocktemplate\<close> fails drops the coinbase constraints it was
  given and then only waits: until new constraints arrive it makes no further call and publishes
  nothing, although its log announces a retry.
\<close>

theorem first_failure_stalls_provider:
  assumes "re_gbt_reply env = Err e"
    and "\<not> list_ex (\<lambda>(_, ev). brings_constraints ev) evs"
  shows "snd (rpc_run lib ((env, Incoming (Some (CoinbaseOutputConstraints c))) # evs) rpc_provider_new) =
    [CallGetBlockTemplate None, SleepRetryDelay]"
proof -
  obtain st where st: "rpc_run_step lib env (Incoming (Some (CoinbaseOutputConstraints c))) rpc_provider_new =
      (Some st, [CallGetBlockTemplate None, SleepRetryDelay])" and none: "rp_constraints st = None"
    using assms(1)
    by (simp add: rpc_run_step_def run_waiting_def refresh_template_def rpc_provider_new_def)
  have "snd (rpc_run lib evs st) = []" using rpc_stalled_run [OF none assms(2)] .
  with st show ?thesis by (auto split: prod.splits)
qed

theorem first_failure_stalls_provider_witness:
  "snd (rpc_run plain_rpc_lib
     [(sample_env, Incoming (Some (CoinbaseOutputConstraints \<lparr>coc_max_additional_size = 100, coc_max_additional_sigops = 4\<rparr>))),
      (sample_env\<lparr>re_gbt_reply := Ok sample_gbt\<rparr>, TemplateReply),
      (sample_env\<lparr>re_gbt_reply := Ok sample_gbt\<rparr>, Incoming (Some (RequestTransactionData 1)))]
     rpc_provider_new) = [CallGetBlockTemplate None, SleepRetryDelay]"
  by (rule first_failure_stalls_provider [where e = "''connection refused''"]) (simp_all add: sample_env_def brings_constraints_def)

end
