(* ===== verification/Float64.thy ===== *)
theory Float64
  imports Complex_Main Prelude
begin

text \<open>
  IEEE-754 binary64 numbers as the code uses them: a finite value is the rational it denotes, and
  every operation rounds the exact result to the nearest representable value, ties to even.  The
  sign of zero is not kept; no operation of the code observes it.
\<close>

datatype f64 = FNaN | FInf bool | Fin rat

text \<open>\<open>ilog2 n\<close> is the exponent of the leading bit of \<open>n\<close>.\<close>

fun ilog2 :: "nat \<Rightarrow> nat" where
  "ilog2 n = (if n < 2 then 0 else Suc (ilog2 (n div 2)))"

declare ilog2.simps [simp del]

text \<open>The binary exponent of a positive rational \<open>a / b\<close>.\<close>

definition rat_exponent :: "nat \<Rightarrow> nat \<Rightarrow> int" where
  "rat_exponent a b =
     (let e = int (ilog2 a) - int (ilog2 b) in
      if (if e \<ge> 0 then a < b * 2 ^ nat e else a * 2 ^ nat (- e) < b) then e - 1 else e)"

definition round_half_even :: "rat \<Rightarrow> int" where
  "round_half_even q = (let f = \<lfloor>q\<rfloor>; d = q - of_int f in
     if d < 1 / 2 then f else if d > 1 / 2 then f + 1 else if even f then f else f + 1)"

definition pow2 :: "int \<Rightarrow> rat" where
  "pow2 e = (if e \<ge> 0 then 2 ^ nat e else 1 / 2 ^ nat (- e))"

definition round_pos :: "rat \<Rightarrow> f64" where
  "round_pos q =
     (let (a, b) = quotient_of q;
          e = max (rat_exponent (nat a) (nat b) - 52) (- 1074);
          n = round_half_even (q / pow2 e);
          v = of_int n * pow2 e
      in if v \<ge> pow2 1024 then FInf False else Fin v)"

definition f64_neg :: "f64 \<Rightarrow> f64" where
  "f64_neg x = (case x of FNaN \<Rightarrow> FNaN | FInf s \<Rightarrow> FInf (\<not> s) | Fin q \<Rightarrow> Fin (- q))"

definition f64_round :: "rat \<Rightarrow> f64" where
  "f64_round q = (if q = 0 then Fin 0 else if q > 0 then round_pos q else f64_neg (round_pos (- q)))"

definition f64_of_nat :: "nat \<Rightarrow> f64" where
  "f64_of_nat n = f64_round (of_nat n)"

definition f64_add :: "f64 \<Rightarrow> f64 \<Rightarrow> f64" where
  "f64_add x y = (case (x, y) of
     (Fin a, Fin b) \<Rightarrow> f64_round (a + b)
   | (FInf s, Fin _) \<Rightarrow> FInf s | (Fin _, FInf s) \<Rightarrow> FInf s
   | (FInf s, FInf t) \<Rightarrow> (if s = t then FInf s else FNaN)
   | _ \<Rightarrow> FNaN)"

definition f64_mul :: "f64 \<Rightarrow> f64 \<Rightarrow> f64" where
  "f64_mul x y = (case (x, y) of
     (Fin a, Fin b) \<Rightarrow> f64_round (a * b)
   | (FInf s, Fin b) \<Rightarrow> (if b = 0 then FNaN else FInf (s \<noteq> (b < 0)))
   | (Fin a, FInf s) \<Rightarrow> (if a = 0 then FNaN else FInf (s \<noteq> (a < 0)))
   | (FInf s, FInf t) \<Rightarrow> FInf (s \<noteq> t)
   | _ \<Rightarrow> FNaN)"

text \<open>Division by a finite nonzero constant, the only division the code performs.\<close>

definition f64_div_const :: "f64 \<Rightarrow> rat \<Rightarrow> f64" where
  "f64_div_const x c = (case x of
     FNaN \<Rightarrow> FNaN | FInf s \<Rightarrow> FInf (s \<noteq> (c < 0)) | Fin a \<Rightarrow> f64_round (a / c))"

text \<open>Comparisons are false when an operand is not a number.\<close>

definition f64_le :: "f64 \<Rightarrow> f64 \<Rightarrow> bool" where
  "f64_le x y = (case (x, y) of
     (FNaN, _) \<Rightarrow> False | (_, FNaN) \<Rightarrow> False
   | (FInf True, _) \<Rightarrow> True | (_, FInf False) \<Rightarrow> True
   | (FInf False, _) \<Rightarrow> False | (_, FInf True) \<Rightarrow> False
   | (Fin a, Fin b) \<Rightarrow> a \<le> b)"

definition f64_lt :: "f64 \<Rightarrow> f64 \<Rightarrow> bool" where
  "f64_lt x y = (case (x, y) of
     (FNaN, _) \<Rightarrow> False | (_, FNaN) \<Rightarrow> False
   | _ \<Rightarrow> \<not> f64_le y x)"

text \<open>\<open>f64::max\<close> ignores an operand that is not a number.\<close>

definition f64_max :: "f64 \<Rightarrow> f64 \<Rightarrow> f64" where
  "f64_max x y = (if x = FNaN then y else if y = FNaN then x else if f64_le x y then y else x)"

text \<open>\<open>f64::round\<close>: to the nearest integer, halves away from zero.\<close>

definition f64_round_int :: "f64 \<Rightarrow> f64" where
  "f64_round_int x = (case x of
     Fin q \<Rightarrow> Fin (if q \<ge> 0 then of_int \<lfloor>q + 1 / 2\<rfloor> else of_int \<lceil>q - 1 / 2\<rceil>)
   | _ \<Rightarrow> x)"

text \<open>The cast \<open>as u64\<close> saturates and maps a value that is not a number to zero.\<close>

definition f64_to_u64 :: "f64 \<Rightarrow> u64" where
  "f64_to_u64 x = (case x of
     FNaN \<Rightarrow> 0 | FInf s \<Rightarrow> (if s then 0 else - 1)
   | Fin q \<Rightarrow> (let t = (if q \<ge> 0 then \<lfloor>q\<rfloor> else \<lceil>q\<rceil>) in
              if t \<le> 0 then 0 else if t \<ge> 2 ^ 64 then - 1 else word_of_int t))"

section \<open>Lemmas\<close>

lemma f64_le_refl_iff: "f64_le x x \<longleftrightarrow> x \<noteq> FNaN"
proof (cases x)
  case (FInf s)
  then show ?thesis by (cases s) (auto simp: f64_le_def)
qed (auto simp: f64_le_def)

lemma f64_max_zero_not_nan [simp]: "f64_max x (Fin 0) \<noteq> FNaN"
  by (simp add: f64_max_def)

lemma f64_le_zero_max [simp]: "f64_le (Fin 0) (f64_max x (Fin 0))"
proof (cases x)
  case (FInf s)
  then show ?thesis by (cases s) (auto simp: f64_max_def f64_le_def)
qed (auto simp: f64_max_def f64_le_def)

lemma ilog2_bounds: "0 < n \<Longrightarrow> 2 ^ ilog2 n \<le> n \<and> n < 2 ^ Suc (ilog2 n)"
proof (induction n rule: ilog2.induct)
  case (1 n)
  show ?case
  proof (cases "n < 2")
    case False
    with 1 have "2 ^ ilog2 (n div 2) \<le> n div 2 \<and> n div 2 < 2 ^ Suc (ilog2 (n div 2))" by simp
    moreover have "ilog2 n = Suc (ilog2 (n div 2))" using False by (simp add: ilog2.simps [of n])
    ultimately show ?thesis by auto
  qed (use 1 in \<open>simp add: ilog2.simps\<close>)
qed

lemma round_half_even_int [simp]: "round_half_even (of_int k) = k"
  by (simp add: round_half_even_def)

text \<open>Integers below \<open>2 ^ 53\<close> are represented exactly.\<close>

lemma f64_of_nat_exact:
  assumes "n < 2 ^ 53"
  shows "f64_of_nat n = Fin (of_nat n)"
proof (cases "n = 0")
  case False
  let ?e = "int (ilog2 n) - 52"
  have b: "2 ^ ilog2 n \<le> n" using ilog2_bounds False by simp
  then have "2 ^ ilog2 n < (2 :: nat) ^ 53" using assms by (rule le_less_trans)
  then have l: "ilog2 n < 53" by (simp only: power_strict_increasing_iff)
  have q: "quotient_of (of_nat n) = (int n, 1)"
    using quotient_of_int [of "int n"] by simp
  have "ilog2 1 = 0" by (simp add: ilog2.simps)
  then have e: "rat_exponent n 1 = int (ilog2 n)"
    using b by (simp add: rat_exponent_def Let_def not_less)
  have p: "pow2 ?e = 1 / 2 ^ nat (52 - int (ilog2 n))"
    using l by (cases "ilog2 n = 52") (simp_all add: pow2_def)
  have "(of_nat n :: rat) / pow2 ?e = of_int (int n * 2 ^ nat (52 - int (ilog2 n)))"
    by (simp add: p)
  then have r: "round_half_even (of_nat n / pow2 ?e) = int n * 2 ^ nat (52 - int (ilog2 n))"
    by (simp only: round_half_even_int)
  have v: "of_int (int n * 2 ^ nat (52 - int (ilog2 n))) * pow2 ?e = (of_nat n :: rat)"
    by (simp add: p)
  have "(of_nat n :: rat) < 2 ^ 53" using assms
    by (metis of_nat_less_iff of_nat_numeral of_nat_power)
  also have "(2 :: rat) ^ 53 \<le> 2 ^ 1024" by (rule power_increasing) simp_all
  finally have "\<not> pow2 1024 \<le> (of_nat n :: rat)" by (simp add: pow2_def)
  moreover have "max (int (ilog2 n) - 52) (- 1074) = ?e" by simp
  ultimately show ?thesis
    using False q e r v by (simp add: f64_of_nat_def f64_round_def round_pos_def Let_def mult.assoc)
qed (simp add: f64_of_nat_def f64_round_def)

end
