(* ===== verification/Gridpool.thy ===== *)
theory Gridpool
  imports Float64 Shared_Map Coinbase_Output "HOL-Library.Signed_Division"
begin

text \<open>
  The GridPool client of the pool (\<open>pool-apps/pool/src/lib/gridpool.rs\<close>): configuration check and
  connection, the polling of work and advice, the chain-tip refresh, the resolution of a channel's
  payout identity, the operator fee window, the coinbase outputs, telemetry and the proof spool.

  Address parsing, hexadecimal decoding and SHA-256 belong to other crates and are the parameter
  record \<open>gridpool_lib\<close>; the HTTP replies, the file system and the clock are arguments.
\<close>

section \<open>Data\<close>

datatype network = Bitcoin | Testnet | Testnet4 | Signet | Regtest

type_synonym path = "string list"

record gridpool_config =
  gc_node_url :: string
  gc_fallback_payout_address :: string
  gc_operator_fee_address :: "string option"
  gc_operator_fee_percent :: f64
  gc_adapter_token_file :: path
  gc_proof_spool_dir :: "path option"
  gc_refresh_seconds :: u64
  gc_telemetry_flush_seconds :: u64
  gc_fee_cycle_seconds :: u64

record gridpool_output =
  go_value :: u64
  go_script_pub_key_hex :: string

record work_selection =
  ws_bitcoin_network :: string
  ws_active_snapshot_id :: string
  ws_current_tip_block_hash :: "string option"
  ws_minimum_difficulty_to_enter_reserve :: f64
  ws_coinbase_outputs :: "gridpool_output list"

record share_advice =
  sa_pulse_proofs_enabled :: bool
  sa_minimum_pulse_difficulty :: f64
  sa_pulse_target_interval_seconds :: u64

record channel_payout =
  cp_payout_address :: string
  cp_username :: string

record share_submission =
  sub_miner_address :: string
  sub_username :: string
  sub_header_hex :: string
  sub_coinbase_hex :: string
  sub_merkle_path :: "string list"
  sub_payout_snapshot_id :: "string option"
  sub_prev_block_hash :: "string option"
  sub_difficulty :: f64

record telemetry_delta =
  td_channel_id :: u32
  td_payout_address :: string
  td_username :: string
  td_accepted :: bool
  td_work_difficulty :: f64
  td_achieved_difficulty :: f64
  td_fee_work :: bool

record telemetry_aggregate =
  ta_channel_id :: u32
  ta_payout_address :: string
  ta_username :: string
  ta_window_start_ms :: nat
  ta_window_end_ms :: nat
  ta_accepted_share_count :: u64
  ta_rejected_share_count :: u64
  ta_accepted_work_difficulty :: f64
  ta_fee_work_difficulty :: f64
  ta_best_difficulty :: f64

record telemetry_entry =
  te_channel_id :: string
  te_payout_address :: string
  te_username :: string
  te_window_start_utc :: string
  te_window_end_utc :: string
  te_accepted_share_count :: u64
  te_rejected_share_count :: u64
  te_accepted_work_difficulty :: f64
  te_fee_work_difficulty :: f64
  te_best_difficulty :: f64

record gridpool_client =
  gp_config :: gridpool_config
  gp_token :: string
  gp_work :: work_selection
  gp_last_template_tip :: "string option"
  gp_telemetry :: "(string, telemetry_aggregate) shared_map"
  gp_advice :: share_advice
  gp_last_pulse :: "(u64, u64) shared_map"

record 'a gridpool_lib =
  gl_address_from_str :: "string \<Rightarrow> ('a, string) result"
  gl_require_network :: "'a \<Rightarrow> network \<Rightarrow> ('a, string) result"
  gl_script_pubkey :: "'a \<Rightarrow> bytes"
  gl_hex_decode :: "string \<Rightarrow> (bytes, string) result"
  gl_sha256 :: "bytes \<Rightarrow> bytes"

definition CHAIN_TIP_REFRESH_ATTEMPTS :: nat where "CHAIN_TIP_REFRESH_ATTEMPTS = 600"

section \<open>Helpers\<close>

definition parse_network :: "string \<Rightarrow> (network, string) result" where
  "parse_network s =
     (let l = to_ascii_lowercase s in
      if l = ''mainnet'' \<or> l = ''bitcoin'' then Ok Bitcoin
      else if l = ''testnet'' \<or> l = ''testnet3'' then Ok Testnet
      else if l = ''testnet4'' then Ok Testnet4
      else if l = ''signet'' then Ok Signet
      else if l = ''regtest'' then Ok Regtest
      else Err (''unsupported Bitcoin network '' @ [CHR 0x27] @ s @ [CHR 0x27]))"

definition parse_address :: "'a gridpool_lib \<Rightarrow> string \<Rightarrow> string \<Rightarrow> (bytes, string) result" where
  "parse_address lib addr network =
     rbind (parse_network network) (\<lambda>net.
     rbind (map_err (\<lambda>e. ''invalid payout address '' @ [CHR 0x27] @ addr @ [CHR 0x27] @ '': '' @ e)
              (gl_address_from_str lib addr)) (\<lambda>unchecked.
     rbind (map_err (\<lambda>e. ''wrong-network payout address '' @ [CHR 0x27] @ addr @ [CHR 0x27] @ '': '' @ e)
              (gl_require_network lib unchecked net)) (\<lambda>checked.
       Ok (gl_script_pubkey lib checked))))"

definition looks_like_address :: "string \<Rightarrow> bool" where
  "looks_like_address s =
     (let lower = to_ascii_lowercase s in
      prefix ''bc1'' lower \<or> prefix ''tb1'' lower \<or> prefix ''bcrt1'' lower \<or>
      (case s of [] \<Rightarrow> False | c # _ \<Rightarrow> c \<in> set ''13mn2''))"

definition endpoint :: "string \<Rightarrow> string \<Rightarrow> string" where
  "endpoint base path = trim_end_matches (CHR ''/'') base @ ''/'' @ trim_start_matches (CHR ''/'') path"

text \<open>A path is the list of its components; the parent of the empty path is \<^const>\<open>None\<close>.\<close>

definition path_parent :: "path \<Rightarrow> path option" where
  "path_parent p = (if p = [] then None else Some (butlast p))"

definition proof_spool_dir :: "gridpool_config \<Rightarrow> path" where
  "proof_spool_dir config = (case gc_proof_spool_dir config of
     Some d \<Rightarrow> d
   | None \<Rightarrow> (case path_parent (gc_adapter_token_file config) of None \<Rightarrow> [''.''] | Some d \<Rightarrow> d)
             @ [''sv2-proof-spool''])"

definition validate_config :: "gridpool_config \<Rightarrow> (unit, string) result" where
  "validate_config config =
     (if \<not> (f64_le (Fin 0) (gc_operator_fee_percent config) \<and> f64_le (gc_operator_fee_percent config) (Fin 100))
      then Err ''GridPool operator_fee_percent must be between 0 and 100''
      else if f64_lt (Fin 0) (gc_operator_fee_percent config) \<and> gc_operator_fee_address config = None
      then Err ''GridPool operator_fee_address is required when the operator fee is enabled''
      else if gc_refresh_seconds config = 0 \<or> gc_telemetry_flush_seconds config = 0
              \<or> gc_fee_cycle_seconds config = 0
      then Err ''GridPool intervals must be positive''
      else Ok ())"

definition fetch_work ::
  "(string \<Rightarrow> (work_selection, string) result) \<Rightarrow> string \<Rightarrow> (work_selection, string) result" where
  "fetch_work http_get base = http_get (endpoint base ''api/mining/sv2-work-selection'')"

definition fetch_advice ::
  "(string \<Rightarrow> (share_advice, string) result) \<Rightarrow> string \<Rightarrow> (share_advice, string) result" where
  "fetch_advice http_get base = http_get (endpoint base ''api/mining/share-advice'')"

section \<open>Connection and polling\<close>

text \<open>The environment of \<open>connect\<close>: token file, spool directory, HTTP client and replies.\<close>

record connect_env =
  ce_token_file :: "(string, string) result"
  ce_create_spool :: "(unit, string) result"
  ce_build_http :: "(unit, string) result"
  ce_get_work :: "string \<Rightarrow> (work_selection, string) result"
  ce_get_advice :: "string \<Rightarrow> (share_advice, string) result"

definition gridpool_connect ::
  "'a gridpool_lib \<Rightarrow> connect_env \<Rightarrow> gridpool_config \<Rightarrow> (gridpool_client, string) result" where
  "gridpool_connect lib env config =
     rbind (validate_config config) (\<lambda>_.
     rbind (map_err (\<lambda>e. ''failed to read GridPool adapter token: '' @ e) (ce_token_file env)) (\<lambda>file.
     let token = trim file in
     if length token < 32 then Err ''GridPool adapter token must contain at least 32 characters''
     else
     rbind (map_err (\<lambda>e. ''failed to create GridPool proof spool: '' @ e) (ce_create_spool env)) (\<lambda>_.
     rbind (ce_build_http env) (\<lambda>_.
     rbind (fetch_work (ce_get_work env) (gc_node_url config)) (\<lambda>work.
     rbind (fetch_advice (ce_get_advice env) (gc_node_url config)) (\<lambda>advice.
     rbind (parse_network (ws_bitcoin_network work)) (\<lambda>_.
     rbind (parse_address lib (gc_fallback_payout_address config) (ws_bitcoin_network work)) (\<lambda>_.
     rbind (case gc_operator_fee_address config of
              None \<Rightarrow> Ok []
            | Some address \<Rightarrow> parse_address lib address (ws_bitcoin_network work)) (\<lambda>_.
       Ok \<lparr>gp_config = config, gp_token = token, gp_work = work,
           gp_last_template_tip = ws_current_tip_block_hash work, gp_telemetry = sm_new,
           gp_advice = advice, gp_last_pulse = sm_new\<rparr>)))))))))"

definition refresh_tick ::
  "(work_selection, string) result \<Rightarrow> (share_advice, string) result \<Rightarrow> gridpool_client \<Rightarrow> gridpool_client" where
  "refresh_tick work_reply advice_reply c =
     (let c = (case work_reply of Inl _ \<Rightarrow> c | Inr w \<Rightarrow> c\<lparr>gp_work := w\<rparr>)
      in case advice_reply of Inl _ \<Rightarrow> c | Inr a \<Rightarrow> c\<lparr>gp_advice := a\<rparr>)"

text \<open>
  The chain-tip refresh: the replies of the node to the successive attempts are given by a
  function; the loop state is the last work selection and the last error.
\<close>

fun refresh_loop ::
  "(nat \<Rightarrow> (work_selection, string) result) \<Rightarrow> string option \<Rightarrow> nat \<Rightarrow> nat
    \<Rightarrow> work_selection option \<Rightarrow> string option \<Rightarrow> work_selection option \<times> string option" where
  "refresh_loop fetch previous_tip attempt 0 latest last_error = (latest, last_error)"
| "refresh_loop fetch previous_tip attempt (Suc remaining) latest last_error =
     (case fetch attempt of
        Inr work \<Rightarrow>
          (if previous_tip = None \<or> ws_current_tip_block_hash work \<noteq> previous_tip
           then (Some work, last_error)
           else refresh_loop fetch previous_tip (attempt + 1) remaining (Some work) last_error)
      | Inl e \<Rightarrow> refresh_loop fetch previous_tip (attempt + 1) remaining latest (Some e))"

definition refresh_for_chain_tip ::
  "(nat \<Rightarrow> (work_selection, string) result) \<Rightarrow> gridpool_client \<Rightarrow> (unit, string) result \<times> gridpool_client" where
  "refresh_for_chain_tip fetch c =
     (let previous_tip = gp_last_template_tip c;
          (latest, last_error) = refresh_loop fetch previous_tip 0 CHAIN_TIP_REFRESH_ATTEMPTS None None
      in case latest of
           None \<Rightarrow>
             (Err (''GridPool returned no work selection after chain-tip refresh: '' @
                (case last_error of None \<Rightarrow> ''no response'' | Some e \<Rightarrow> e)), c)
         | Some work \<Rightarrow>
             (if previous_tip \<noteq> None \<and> ws_current_tip_block_hash work = previous_tip
              then (Err ''GridPool work selection did not advance to the new chain tip'', c)
              else (Ok (), c\<lparr>gp_last_template_tip := ws_current_tip_block_hash work, gp_work := work\<rparr>)))"

section \<open>Identities, fee window and outputs\<close>

definition explicit_address :: "string \<Rightarrow> string" where
  "explicit_address trimmed = (case strip_prefix_str ''sri/solo/'' trimmed of
     Some rest \<Rightarrow> hd (split_char (CHR ''/'') rest)
   | None \<Rightarrow> hd (split_char (CHR ''.'') trimmed))"

definition resolve_channel ::
  "'a gridpool_lib \<Rightarrow> gridpool_client \<Rightarrow> string \<Rightarrow> (channel_payout, string) result" where
  "resolve_channel lib c identity =
     (let trimmed = trim identity; explicit = explicit_address trimmed in
      case parse_address lib explicit (ws_bitcoin_network (gp_work c)) of
        Inr _ \<Rightarrow> Ok \<lparr>cp_payout_address = explicit, cp_username = trimmed\<rparr>
      | Inl e \<Rightarrow>
          (if looks_like_address explicit then Err e
           else Ok \<lparr>cp_payout_address = gc_fallback_payout_address (gp_config c),
                    cp_username = (if trimmed = [] then ''sv2'' else trimmed)\<rparr>))"

definition fee_cycle :: "gridpool_client \<Rightarrow> u64" where
  "fee_cycle c = max (gc_fee_cycle_seconds (gp_config c)) 1"

definition fee_duration :: "gridpool_client \<Rightarrow> u64" where
  "fee_duration c =
     (let cycle = fee_cycle c;
          raw = f64_to_u64 (f64_round_int (f64_div_const
                  (f64_mul (f64_of_nat (unat cycle)) (gc_operator_fee_percent (gp_config c))) 100))
      in min (max raw 1) cycle)"

definition fee_offset :: "'a gridpool_lib \<Rightarrow> gridpool_client \<Rightarrow> string \<Rightarrow> u64" where
  "fee_offset lib c payout_address =
     (let digest = gl_sha256 lib (str_bytes (gp_token c) @ str_bytes payout_address)
      in word_of_nat (be_value (take 8 digest)) mod fee_cycle c)"

definition fee_active :: "'a gridpool_lib \<Rightarrow> gridpool_client \<Rightarrow> string \<Rightarrow> u64 \<Rightarrow> bool" where
  "fee_active lib c payout_address unix_seconds =
     (if f64_le (gc_operator_fee_percent (gp_config c)) (Fin 0)
         \<or> gc_operator_fee_address (gp_config c) = None then False
      else (unix_seconds + fee_cycle c - fee_offset lib c payout_address) mod fee_cycle c
             < fee_duration c)"

definition slot_zero_address :: "'a gridpool_lib \<Rightarrow> gridpool_client \<Rightarrow> u64 \<Rightarrow> channel_payout \<Rightarrow> string" where
  "slot_zero_address lib c now payout =
     (if fee_active lib c (cp_payout_address payout) now
      then (case gc_operator_fee_address (gp_config c) of
              None \<Rightarrow> cp_payout_address payout | Some a \<Rightarrow> a)
      else cp_payout_address payout)"

definition gridpool_coinbase_outputs ::
  "'a gridpool_lib \<Rightarrow> gridpool_client \<Rightarrow> u64 \<Rightarrow> channel_payout \<Rightarrow> u64 \<Rightarrow> (tx_out list, string) result" where
  "gridpool_coinbase_outputs lib c now payout total_value =
     (let work = gp_work c in
      rbind (checked_sum ''GridPool payout suffix overflow'' (map go_value (ws_coinbase_outputs work)))
        (\<lambda>suffix_value.
      rbind (ok_or ''GridPool payout suffix exceeds available coinbase value''
               (checked_sub total_value suffix_value)) (\<lambda>slot_zero_value.
      rbind (parse_address lib (slot_zero_address lib c now payout) (ws_bitcoin_network work)) (\<lambda>script.
      rbind (try_map (\<lambda>out. rbind (map_err (\<lambda>e. ''invalid GridPool payout script: '' @ e)
                                   (gl_hex_decode lib (go_script_pub_key_hex out)))
                            (\<lambda>s. Ok (TxOut (go_value out) s))) (ws_coinbase_outputs work)) (\<lambda>outs.
        Ok (TxOut slot_zero_value script # outs))))))"

definition constraint_outputs ::
  "'a gridpool_lib \<Rightarrow> gridpool_client \<Rightarrow> u64 \<Rightarrow> (tx_out list, string) result" where
  "constraint_outputs lib c now =
     gridpool_coinbase_outputs lib c now
       \<lparr>cp_payout_address = gc_fallback_payout_address (gp_config c), cp_username = ''constraints''\<rparr>
       (sum_u64 (map go_value (ws_coinbase_outputs (gp_work c))) + 1)"

definition is_fee_job :: "'a gridpool_lib \<Rightarrow> gridpool_client \<Rightarrow> tx_out list \<Rightarrow> channel_payout \<Rightarrow> bool" where
  "is_fee_job lib c outputs payout = (case gc_operator_fee_address (gp_config c) of
     None \<Rightarrow> False
   | Some operator \<Rightarrow>
      (if operator = cp_payout_address payout then False
       else (case outputs of
          [] \<Rightarrow> False
        | first # _ \<Rightarrow>
           (case parse_address lib operator (ws_bitcoin_network (gp_work c)) of
              Inl _ \<Rightarrow> False | Inr script \<Rightarrow> txout_script_pubkey first = script))))"

section \<open>Proof admission and telemetry\<close>

definition should_submit_proof ::
  "gridpool_client \<Rightarrow> u64 \<Rightarrow> u64 \<Rightarrow> f64 \<Rightarrow> bool \<Rightarrow> bool \<times> gridpool_client" where
  "should_submit_proof c now channel_key achieved_difficulty is_block =
     (if is_block \<or> f64_le (ws_minimum_difficulty_to_enter_reserve (gp_work c)) achieved_difficulty
      then (True, c)
      else let advice = gp_advice c in
        if \<not> sa_pulse_proofs_enabled advice
           \<or> f64_lt achieved_difficulty (sa_minimum_pulse_difficulty advice) then (False, c)
        else let previous = (case sm_get_cloned (gp_last_pulse c) channel_key of None \<Rightarrow> 0 | Some p \<Rightarrow> p) in
          if saturating_sub now previous < max (sa_pulse_target_interval_seconds advice) 1 then (False, c)
          else (True, c\<lparr>gp_last_pulse := snd (sm_insert channel_key now (gp_last_pulse c))\<rparr>))"

definition telemetry_key :: "u32 \<Rightarrow> string \<Rightarrow> string" where
  "telemetry_key channel_id payout_address = dec_nat (unat channel_id) @ '':'' @ payout_address"

definition new_aggregate :: "nat \<Rightarrow> telemetry_delta \<Rightarrow> telemetry_aggregate" where
  "new_aggregate now delta =
     \<lparr>ta_channel_id = td_channel_id delta, ta_payout_address = td_payout_address delta,
      ta_username = td_username delta, ta_window_start_ms = now, ta_window_end_ms = 0,
      ta_accepted_share_count = 0, ta_rejected_share_count = 0, ta_accepted_work_difficulty = Fin 0,
      ta_fee_work_difficulty = Fin 0, ta_best_difficulty = Fin 0\<rparr>"

definition update_aggregate :: "nat \<Rightarrow> telemetry_delta \<Rightarrow> telemetry_aggregate \<Rightarrow> telemetry_aggregate" where
  "update_aggregate now delta a =
     (let a = a\<lparr>ta_window_end_ms := now, ta_username := td_username delta\<rparr>;
          work = f64_max (td_work_difficulty delta) (Fin 0)
      in if td_accepted delta
         then a\<lparr>ta_accepted_share_count := ta_accepted_share_count a + 1,
                ta_accepted_work_difficulty := f64_add (ta_accepted_work_difficulty a) work,
                ta_fee_work_difficulty :=
                  (if td_fee_work delta then f64_add (ta_fee_work_difficulty a) work
                   else ta_fee_work_difficulty a),
                ta_best_difficulty := f64_max (ta_best_difficulty a) (td_achieved_difficulty delta)\<rparr>
         else a\<lparr>ta_rejected_share_count := ta_rejected_share_count a + 1\<rparr>)"

definition record_telemetry :: "nat \<Rightarrow> telemetry_delta \<Rightarrow> gridpool_client \<Rightarrow> gridpool_client" where
  "record_telemetry now delta c =
     c\<lparr>gp_telemetry := snd (sm_with_mut_or_insert_with (gp_telemetry c)
        (telemetry_key (td_channel_id delta) (td_payout_address delta)) (new_aggregate now delta)
        (\<lambda>a. ((), update_aggregate now delta a)))\<rparr>"

text \<open>
  Timestamps.  Division truncates toward zero in Rust; \<open>div_euclid\<close> and \<open>rem_euclid\<close> by a positive
  number are the division and remainder of \<^typ>\<open>int\<close>.  The millisecond count is cast to \<open>i64\<close>.
\<close>

definition civil_from_days :: "int \<Rightarrow> int \<times> int \<times> int" where
  "civil_from_days days =
     (let z = days + 719468;
          era = (if z \<ge> 0 then z else z - 146096) sdiv 146097;
          doe = z - era * 146097;
          yoe = (doe - doe sdiv 1460 + doe sdiv 36524 - doe sdiv 146096) sdiv 365;
          year = yoe + era * 400;
          doy = doe - (365 * yoe + yoe sdiv 4 - yoe sdiv 100);
          mp = (5 * doy + 2) sdiv 153;
          day = doy - (153 * mp + 2) sdiv 5 + 1;
          month = mp + (if mp < 10 then 3 else - 9);
          year = year + (if month \<le> 2 then 1 else 0)
      in (year, month, day))"

definition pad_zero :: "nat \<Rightarrow> string \<Rightarrow> string" where
  "pad_zero w s = replicate (w - length s) (CHR ''0'') @ s"

definition fmt_int :: "nat \<Rightarrow> int \<Rightarrow> string" where
  "fmt_int w i = (if i < 0 then ''-'' @ pad_zero (w - 1) (dec_nat (nat (- i))) else pad_zero w (dec_nat (nat i)))"

definition iso8601_millis :: "nat \<Rightarrow> string" where
  "iso8601_millis ms =
     (let seconds = sint (word_of_nat (ms div 1000) :: 64 word);
          millis = ms mod 1000;
          days = seconds div 86400;
          sod = seconds mod 86400;
          (year, month, day) = civil_from_days days
      in fmt_int 4 year @ ''-'' @ fmt_int 2 month @ ''-'' @ fmt_int 2 day @ ''T'' @
         fmt_int 2 (sod div 3600) @ '':'' @ fmt_int 2 (sod mod 3600 div 60) @ '':'' @
         fmt_int 2 (sod mod 60) @ ''.'' @ fmt_int 3 (int millis) @ ''Z'')"

definition telemetry_entry_of :: "telemetry_aggregate \<Rightarrow> telemetry_entry" where
  "telemetry_entry_of item =
     \<lparr>te_channel_id = dec_nat (unat (ta_channel_id item)), te_payout_address = ta_payout_address item,
      te_username = ta_username item, te_window_start_utc = iso8601_millis (ta_window_start_ms item),
      te_window_end_utc = iso8601_millis (max (ta_window_end_ms item) (ta_window_start_ms item)),
      te_accepted_share_count = ta_accepted_share_count item,
      te_rejected_share_count = ta_rejected_share_count item,
      te_accepted_work_difficulty = ta_accepted_work_difficulty item,
      te_fee_work_difficulty = ta_fee_work_difficulty item,
      te_best_difficulty = ta_best_difficulty item\<rparr>"

text \<open>
  Flushing drains the map before the batch is sent; the result is the client and the request
  posted, if any.  The reply of the node is only logged.
\<close>

record http_post =
  hp_url :: string
  hp_token :: string
  hp_entries :: "telemetry_entry list"

definition flush_telemetry :: "gridpool_client \<Rightarrow> gridpool_client \<times> http_post option" where
  "flush_telemetry c =
     (let drained = map snd (gp_telemetry c); c' = c\<lparr>gp_telemetry := sm_clear (gp_telemetry c)\<rparr>
      in if drained = [] then (c', None)
         else (c', Some \<lparr>hp_url = endpoint (gc_node_url (gp_config c)) ''api/mining/local/share-telemetry'',
                         hp_token = gp_token c, hp_entries = map telemetry_entry_of drained\<rparr>))"

section \<open>The proof spool\<close>

text \<open>
  The spool directory maps file names to contents.  The JSON codec, the outcome of file writes and
  reads and the reply of the node to each posted proof are parameters.
\<close>

datatype http_reply = Replied bool | SendFailed

type_synonym spool = "(string, bytes) shared_map"

record spool_env =
  se_encode :: "share_submission \<Rightarrow> bytes option"
  se_decode :: "bytes \<Rightarrow> share_submission option"
  se_write_ok :: "string \<Rightarrow> bool"
  se_read_ok :: "string \<Rightarrow> bool"
  se_remove_ok :: "string \<Rightarrow> bool"
  se_reply :: "share_submission \<Rightarrow> http_reply"

definition submit_spooled_proof ::
  "spool_env \<Rightarrow> string \<Rightarrow> share_submission \<Rightarrow> spool \<Rightarrow> spool" where
  "submit_spooled_proof env name pf sp = (case se_reply env pf of
     Replied True \<Rightarrow> (if se_remove_ok env name then snd (sm_remove name sp) else sp)
   | Replied False \<Rightarrow> sp
   | SendFailed \<Rightarrow> sp)"

definition submit_proof :: "spool_env \<Rightarrow> share_submission \<Rightarrow> spool \<Rightarrow> spool \<times> share_submission list" where
  "submit_proof env pf sp =
     (let name = sub_header_hex pf @ ''.json'' in
      case se_encode env pf of
        None \<Rightarrow> (sp, [])
      | Some encoded \<Rightarrow>
          (if \<not> se_write_ok env name then (sp, [])
           else (submit_spooled_proof env name pf (snd (sm_insert name encoded sp)), [pf])))"

text \<open>\<open>Path::extension\<close>: what follows the last dot, unless the name starts with its only dot.\<close>

definition file_extension :: "string \<Rightarrow> string option" where
  "file_extension name =
     (let parts = split_char (CHR ''.'') name in
      if length parts < 2 \<or> (length parts = 2 \<and> hd parts = []) then None else Some (last parts))"

fun retry_loop :: "spool_env \<Rightarrow> (string \<times> bytes) list \<Rightarrow> spool \<Rightarrow> spool \<times> share_submission list" where
  "retry_loop env [] sp = (sp, [])"
| "retry_loop env ((name, content) # entries) sp =
     (if file_extension name \<noteq> Some ''json'' \<or> \<not> se_read_ok env name then retry_loop env entries sp
      else (case se_decode env content of
              None \<Rightarrow> retry_loop env entries sp
            | Some pf \<Rightarrow>
                (let (sp', posted) = retry_loop env entries (submit_spooled_proof env name pf sp)
                 in (sp', pf # posted))))"

definition retry_spooled_proofs :: "spool_env \<Rightarrow> spool \<Rightarrow> spool \<times> share_submission list" where
  "retry_spooled_proofs env sp = retry_loop env sp sp"

section \<open>Lemmas\<close>

lemma fee_cycle_pos [simp]: "fee_cycle c \<noteq> 0" "0 < unat (fee_cycle c)"
proof -
  have "1 \<le> fee_cycle c" by (simp add: fee_cycle_def)
  then show "fee_cycle c \<noteq> 0" "0 < unat (fee_cycle c)" by (auto simp: word_le_nat_alt unat_gt_0)
qed

lemma fee_duration_bounds: "1 \<le> fee_duration c" "fee_duration c \<le> fee_cycle c"
  by (auto simp: fee_duration_def Let_def fee_cycle_def min_def max_def)

lemma fee_offset_less: "fee_offset lib c a < fee_cycle c"
  by (simp add: fee_offset_def Let_def word_mod_less_divisor word_less_nat_alt unat_mod)

text \<open>In a window of \<open>c\<close> consecutive seconds, exactly \<open>d\<close> have a phase below \<open>d\<close>.\<close>

lemma card_phase_window:
  fixes c d t k :: nat
  assumes "0 < c" and "d \<le> c"
  shows "card {s \<in> {t..<t + c}. (s + k) mod c < d} = d"
proof -
  have inj: "inj_on (\<lambda>s. (s + k) mod c) {t..<t + c}"
  proof (rule inj_onI)
    fix x y assume xy: "x \<in> {t..<t + c}" "y \<in> {t..<t + c}" and eq: "(x + k) mod c = (y + k) mod c"
    have aux: "x = y" if "x \<le> y" "x \<in> {t..<t + c}" "y \<in> {t..<t + c}" "(x + k) mod c = (y + k) mod c" for x y
    proof -
      have "c dvd (y + k) - (x + k)" using that(1,4) by (metis add_le_mono1 mod_eq_dvd_iff_nat)
      moreover have "(y + k) - (x + k) < c" using that by auto
      ultimately have "(y + k) - (x + k) = 0" using nat_dvd_not_less by fastforce
      then show "x = y" using that(1) by simp
    qed
    show "x = y" using aux [of x y] aux [of y x] xy eq by (metis nat_le_linear)
  qed
  have "(\<lambda>s. (s + k) mod c) ` {t..<t + c} \<subseteq> {..<c}" using assms(1) by auto
  moreover have "card ((\<lambda>s. (s + k) mod c) ` {t..<t + c}) = c" using card_image [OF inj] by simp
  ultimately have img: "(\<lambda>s. (s + k) mod c) ` {t..<t + c} = {..<c}"
    by (intro card_subset_eq) simp_all
  have "(\<lambda>s. (s + k) mod c) ` {s \<in> {t..<t + c}. (s + k) mod c < d} =
      (\<lambda>s. (s + k) mod c) ` {t..<t + c} \<inter> {..<d}" by blast
  also have "\<dots> = {..<d}" unfolding img using assms(2) by auto
  finally have "(\<lambda>s. (s + k) mod c) ` {s \<in> {t..<t + c}. (s + k) mod c < d} = {..<d}" .
  moreover have "card ((\<lambda>s. (s + k) mod c) ` {s \<in> {t..<t + c}. (s + k) mod c < d}) =
      card {s \<in> {t..<t + c}. (s + k) mod c < d}"
    by (rule card_image, rule inj_on_subset [OF inj]) blast
  ultimately show ?thesis by simp
qed

lemma fee_active_phase:
  assumes "\<not> f64_le (gc_operator_fee_percent (gp_config c)) (Fin 0)"
    and "gc_operator_fee_address (gp_config c) \<noteq> None"
    and "s + unat (fee_cycle c) < 2 ^ 64"
  shows "fee_active lib c a (word_of_nat s) \<longleftrightarrow>
    (s + (unat (fee_cycle c) - unat (fee_offset lib c a))) mod unat (fee_cycle c) < unat (fee_duration c)"
proof -
  let ?c = "fee_cycle c" and ?o = "fee_offset lib c a"
  have o: "unat ?o < unat ?c" using fee_offset_less [of lib c a] by (simp add: word_less_nat_alt)
  have s: "unat (word_of_nat s :: u64) = s" using assms(3) by (simp add: unat_of_nat)
  have sum: "unat (word_of_nat s + ?c) = s + unat ?c" using s assms(3) by (subst unat_add_no_wrap) simp_all
  then have "?o \<le> word_of_nat s + ?c" using o by (simp add: word_le_nat_alt)
  then have "unat (word_of_nat s + ?c - ?o) = s + (unat ?c - unat ?o)"
    using sum o by (simp add: unat_sub_no_wrap)
  with assms(1,2) show ?thesis by (auto simp: fee_active_def word_less_nat_alt unat_mod)
qed

lemma refresh_loop_changed:
  assumes "k < n" and "fetch (a + k) = Ok w"
    and "prev = None \<or> ws_current_tip_block_hash w \<noteq> prev"
    and "\<And>j v. j < k \<Longrightarrow> fetch (a + j) = Ok v \<Longrightarrow> \<not> (prev = None \<or> ws_current_tip_block_hash v \<noteq> prev)"
  shows "fst (refresh_loop fetch prev a n latest err) = Some w"
  using assms
proof (induction n arbitrary: a k latest err)
  case (Suc n)
  show ?case
  proof (cases k)
    case 0
    with Suc.prems show ?thesis by simp
  next
    case (Suc j)
    have IH: "fst (refresh_loop fetch prev (a + 1) n l e) = Some w" for l e
      using Suc.prems Suc.IH [of j "a + 1" l e] Suc by (fastforce simp: less_Suc_eq_le)
    show ?thesis
      using IH Suc.prems(4) [of 0] Suc by (auto split: sum.splits)
  qed
qed simp

lemma refresh_loop_unchanged:
  assumes "\<And>j v. j < n \<Longrightarrow> fetch (a + j) = Ok v \<Longrightarrow> prev \<noteq> None \<and> ws_current_tip_block_hash v = prev"
    and "\<And>l. latest = Some l \<Longrightarrow> prev \<noteq> None \<and> ws_current_tip_block_hash l = prev"
    and "fst (refresh_loop fetch prev a n latest err) = Some w"
  shows "prev \<noteq> None \<and> ws_current_tip_block_hash w = prev"
  using assms
proof (induction n arbitrary: a latest err)
  case (Suc n)
  have step: "j < n \<Longrightarrow> fetch (a + 1 + j) = Ok v \<Longrightarrow> prev \<noteq> None \<and> ws_current_tip_block_hash v = prev" for j v
    using Suc.prems(1) [of "Suc j" v] by simp
  show ?case
  proof (cases "fetch a")
    case (Inl e)
    show ?thesis using Suc.IH [of "a + 1" latest "Some e"] step Suc.prems(2,3) Inl by simp
  next
    case (Inr v)
    then have v: "prev \<noteq> None \<and> ws_current_tip_block_hash v = prev" using Suc.prems(1) [of 0 v] by simp
    show ?thesis
      using Suc.IH [of "a + 1" "Some v" err] step Suc.prems(3) Inr v by auto
  qed
qed auto

lemma list_sum_update:
  fixes f :: "'v \<Rightarrow> nat"
  shows "sum_list (map (\<lambda>e. f (snd e)) (AList.update k v m)) + (case map_of m k of None \<Rightarrow> 0 | Some w \<Rightarrow> f w) =
    sum_list (map (\<lambda>e. f (snd e)) m) + f v"
  by (induction m) auto

text \<open>Removing files: what a retry keeps of the spool.\<close>

lemma submit_spooled_lookup:
  "map_of (submit_spooled_proof env name pf sp) n =
     (if n = name \<and> se_reply env pf = Replied True \<and> se_remove_ok env name then None else map_of sp n)"
  by (auto simp: submit_spooled_proof_def split: http_reply.splits bool.splits)

lemma retry_loop_lookup:
  "map_of sp n = Some b \<Longrightarrow> map_of (fst (retry_loop env entries sp)) n = None \<Longrightarrow>
     \<exists>content pf. (n, content) \<in> set entries \<and> file_extension n = Some ''json'' \<and>
       se_decode env content = Some pf \<and> se_reply env pf = Replied True"
proof (induction env entries sp rule: retry_loop.induct)
  case (2 env name content entries sp)
  show ?case
  proof (cases "file_extension name \<noteq> Some ''json'' \<or> \<not> se_read_ok env name \<or> se_decode env content = None")
    case True
    then have "fst (retry_loop env ((name, content) # entries) sp) = fst (retry_loop env entries sp)"
      by auto
    then show ?thesis using 2 True by auto
  next
    case False
    then obtain pf where pf: "se_decode env content = Some pf" by auto
    let ?sp = "submit_spooled_proof env name pf sp"
    have loop: "fst (retry_loop env ((name, content) # entries) sp) = fst (retry_loop env entries ?sp)"
      using False pf by (auto split: prod.splits)
    show ?thesis
    proof (cases "map_of ?sp n")
      case None
      then have "n = name" "se_reply env pf = Replied True"
        using "2.prems"(1) by (auto simp: submit_spooled_lookup split: if_splits)
      with False pf show ?thesis by auto
    next
      case (Some b')
      then have "map_of ?sp n = Some b" using "2.prems"(1) by (auto simp: submit_spooled_lookup split: if_splits)
      with "2.IH"(3) [OF _ pf] False "2.prems"(2) loop show ?thesis by auto
    qed
  qed
qed simp

text \<open>The suffix of the coinbase, and the conditions under which the outputs exist.\<close>

definition suffix_output :: "'a gridpool_lib \<Rightarrow> gridpool_output \<Rightarrow> tx_out \<Rightarrow> bool" where
  "suffix_output lib g t = (txout_value t = go_value g \<and>
     gl_hex_decode lib (go_script_pub_key_hex g) = Ok (txout_script_pubkey t))"

lemma suffix_outputs_value:
  "list_all2 (suffix_output lib) gs ts \<Longrightarrow> outputs_value ts = (\<Sum>g \<leftarrow> gs. unat (go_value g))"
  by (induction rule: list_all2_induct) (auto simp: suffix_output_def)

lemma suffix_output_iff:
  "rbind (map_err f (gl_hex_decode lib (go_script_pub_key_hex g))) (\<lambda>s. Ok (TxOut (go_value g) s)) = Ok t
     \<longleftrightarrow> suffix_output lib g t"
  by (cases t) (auto simp: rbind_eq_Inr_iff TxOut_def suffix_output_def)

lemma suffix_try_map:
  "try_map (\<lambda>out. rbind (map_err f (gl_hex_decode lib (go_script_pub_key_hex out)))
     (\<lambda>s. Ok (TxOut (go_value out) s))) gs = Ok ts \<longleftrightarrow> list_all2 (suffix_output lib) gs ts"
  unfolding try_map_eq_Inr_iff suffix_output_iff ..

lemma checked_sum_sub_iff:
  "rbind (checked_sum e vs) (\<lambda>s. rbind (ok_or e' (checked_sub a s)) f) = Ok r \<longleftrightarrow>
     (\<exists>v. sum_list (map unat vs) < 2 ^ 64 \<and> unat v + sum_list (map unat vs) = unat a \<and> f v = Ok r)"
proof (cases "sum_list (map unat vs) < 2 ^ 64")
  case True
  then have s: "unat (sum_u64 vs) = sum_list (map unat vs)" by (rule unat_sum_u64)
  have "checked_sub a (sum_u64 vs) = Some v \<longleftrightarrow> unat v + sum_list (map unat vs) = unat a" for v
    by (auto simp: checked_sub_eq_Some_iff word_le_nat_alt s)
  then show ?thesis using True
    by (cases "checked_sub a (sum_u64 vs)") (auto simp: checked_sum_eq, metis)
qed (simp add: checked_sum_eq)

lemma gridpool_outputs_Ok_iff:
  "gridpool_coinbase_outputs lib c now payout total_value = Ok outs \<longleftrightarrow>
    (let gs = ws_coinbase_outputs (gp_work c); due = (\<Sum>g \<leftarrow> gs. unat (go_value g)) in
     due < 2 ^ 64 \<and> (\<exists>v script rest. unat v + due = unat total_value \<and>
       parse_address lib (slot_zero_address lib c now payout) (ws_bitcoin_network (gp_work c)) = Ok script \<and>
       list_all2 (suffix_output lib) gs rest \<and> outs = TxOut v script # rest))"
  unfolding gridpool_coinbase_outputs_def Let_def checked_sum_sub_iff
  by (auto simp: rbind_eq_Inr_iff suffix_try_map comp_def)

section \<open>A concrete client\<close>

text \<open>
  An instance of the parameters and a client with the default fee configuration, on which the
  properties are exercised.
\<close>

definition plain_gridpool_lib :: "string gridpool_lib" where
  "plain_gridpool_lib =
     \<lparr>gl_address_from_str = (\<lambda>s. if prefix ''bc1'' s then Ok s else Err ''bad address''),
      gl_require_network = (\<lambda>a n. if n = Bitcoin then Ok a else Err ''wrong network''),
      gl_script_pubkey = str_bytes, gl_hex_decode = (\<lambda>s. Ok (str_bytes s)),
      gl_sha256 = (\<lambda>b. replicate 32 (word_of_nat (length b)))\<rparr>"

definition sample_client :: gridpool_client where
  "sample_client =
     \<lparr>gp_config = \<lparr>gc_node_url = ''http://n'', gc_fallback_payout_address = ''bc1f'',
        gc_operator_fee_address = Some ''bc1op'', gc_operator_fee_percent = Fin 2,
        gc_adapter_token_file = [''t''], gc_proof_spool_dir = None, gc_refresh_seconds = 10,
        gc_telemetry_flush_seconds = 5, gc_fee_cycle_seconds = 1500\<rparr>,
      gp_token = ''token'',
      gp_work = \<lparr>ws_bitcoin_network = ''mainnet'', ws_active_snapshot_id = ''s'',
        ws_current_tip_block_hash = Some ''a'', ws_minimum_difficulty_to_enter_reserve = Fin 100,
        ws_coinbase_outputs = [\<lparr>go_value = 10, go_script_pub_key_hex = ''x''\<rparr>]\<rparr>,
      gp_last_template_tip = Some ''a'', gp_telemetry = [],
      gp_advice = \<lparr>sa_pulse_proofs_enabled = True, sa_minimum_pulse_difficulty = Fin 1,
        sa_pulse_target_interval_seconds = 60\<rparr>,
      gp_last_pulse = []\<rparr>"

section \<open>Properties\<close>

text \<open>
  C4. The operator fee takes exactly its share of time: in any \<open>fee_cycle_seconds\<close> consecutive
  seconds, for every payout address, the fee window is open for exactly \<open>fee_duration\<close> of them,
  and that duration is at least one second and at most the cycle.
\<close>

theorem fee_window_exact:
  assumes "\<not> f64_le (gc_operator_fee_percent (gp_config c)) (Fin 0)"
    and "gc_operator_fee_address (gp_config c) \<noteq> None"
    and "t + 2 * unat (fee_cycle c) \<le> 2 ^ 64"
  shows "card {s \<in> {t..<t + unat (fee_cycle c)}. fee_active lib c addr (word_of_nat s)} =
      unat (fee_duration c) \<and>
    1 \<le> unat (fee_duration c) \<and> unat (fee_duration c) \<le> unat (fee_cycle c)"
proof -
  let ?c = "unat (fee_cycle c)" and ?d = "unat (fee_duration c)"
  let ?k = "?c - unat (fee_offset lib c addr)"
  have d: "1 \<le> ?d" "?d \<le> ?c" using fee_duration_bounds [of c] by (simp_all add: word_le_nat_alt)
  have "{s \<in> {t..<t + ?c}. fee_active lib c addr (word_of_nat s)} = {s \<in> {t..<t + ?c}. (s + ?k) mod ?c < ?d}"
    using assms(3) by (auto simp: fee_active_phase [OF assms(1,2)])
  then show ?thesis using card_phase_window [of ?c ?d t ?k] d by simp
qed

theorem fee_window_exact_witness:
  "card {s \<in> {1700000000..<1700001500}. fee_active plain_gridpool_lib sample_client ''bc1m'' (word_of_nat s)} = 30"
proof -
  have c: "unat (fee_cycle sample_client) = 1500" by (simp add: fee_cycle_def sample_client_def)
  have "f64_of_nat 1500 = Fin 1500" using f64_of_nat_exact [of 1500] by simp
  moreover have "f64_round 3000 = Fin 3000" using f64_of_nat_exact [of 3000] by (simp add: f64_of_nat_def)
  moreover have "f64_round 30 = Fin 30" using f64_of_nat_exact [of 30] by (simp add: f64_of_nat_def)
  moreover have "\<lfloor>61 / 2 :: rat\<rfloor> = 30" by (simp add: floor_eq_iff)
  ultimately have d: "unat (fee_duration sample_client) = 30"
    using c by (simp add: fee_duration_def fee_cycle_def sample_client_def Let_def f64_mul_def
        f64_div_const_def f64_round_int_def f64_to_u64_def)
  have "\<not> f64_le (gc_operator_fee_percent (gp_config sample_client)) (Fin 0)"
    by (simp add: sample_client_def f64_le_def)
  moreover have "gc_operator_fee_address (gp_config sample_client) \<noteq> None" by (simp add: sample_client_def)
  ultimately show ?thesis
    using fee_window_exact [of sample_client 1700000000 plain_gridpool_lib "''bc1m''"] c d by simp
qed

text \<open>
  C2. The coinbase of a GridPool channel: the outputs exist exactly when the payout suffix fits in
  64 bits and in the coinbase value, the slot-zero address parses for the current network and the
  suffix scripts decode; then they distribute exactly the coinbase value, the suffix is paid in
  full and in order, and slot zero gets the remainder.
\<close>

theorem gridpool_outputs_exact:
  fixes total :: u64
  shows "gridpool_coinbase_outputs lib c now payout total = Ok outs \<longleftrightarrow>
    (let gs = ws_coinbase_outputs (gp_work c); due = (\<Sum>g \<leftarrow> gs. unat (go_value g)) in
     due \<le> unat total \<and> outputs_value outs = unat total \<and>
     (\<exists>v script rest. outs = TxOut v script # rest \<and>
        parse_address lib (slot_zero_address lib c now payout) (ws_bitcoin_network (gp_work c)) = Ok script \<and>
        list_all2 (suffix_output lib) gs rest))"
proof -
  let ?sf = "ws_coinbase_outputs (gp_work c)"
  let ?due = "\<Sum>g \<leftarrow> ?sf. unat (go_value g)"
  have "unat total < 2 ^ 64" using unat_bound [of total] by simp
  then show ?thesis
    unfolding gridpool_outputs_Ok_iff Let_def
    by (auto simp: suffix_outputs_value)
qed

text \<open>
  Identities fail closed: on a connected client a resolved channel always pays an address
  that parses for the node's network, namely the one the miner named or, when what the miner
  named does not look like an address at all, the configured fallback; a mistyped address is
  refused.
\<close>

theorem resolve_channel_fail_closed:
  assumes "gridpool_connect lib env config = Ok c"
  shows "case resolve_channel lib c identity of
      Inr p \<Rightarrow> is_ok (parse_address lib (cp_payout_address p) (ws_bitcoin_network (gp_work c))) \<and>
        (cp_payout_address p = explicit_address (trim identity) \<or>
         cp_payout_address p = gc_fallback_payout_address config \<and>
           \<not> looks_like_address (explicit_address (trim identity)))
    | Inl e \<Rightarrow> looks_like_address (explicit_address (trim identity)) \<and>
        parse_address lib (explicit_address (trim identity)) (ws_bitcoin_network (gp_work c)) = Err e"
proof -
  have "gp_config c = config"
    "is_ok (parse_address lib (gc_fallback_payout_address config) (ws_bitcoin_network (gp_work c)))"
    using assms by (auto simp: gridpool_connect_def rbind_eq_Inr_iff Let_def split: if_splits)
  then show ?thesis by (auto simp: resolve_channel_def Let_def split: sum.splits)
qed

definition sample_connect_env :: connect_env where
  "sample_connect_env = \<lparr>ce_token_file = Ok (replicate 40 (CHR ''a'')), ce_create_spool = Ok (),
     ce_build_http = Ok (), ce_get_work = (\<lambda>_. Ok (gp_work sample_client)),
     ce_get_advice = (\<lambda>_. Ok (gp_advice sample_client))\<rparr>"

theorem resolve_channel_fail_closed_witness:
  "\<exists>c. gridpool_connect plain_gridpool_lib sample_connect_env (gp_config sample_client) = Ok c \<and>
     (case resolve_channel plain_gridpool_lib c ''bc1mistyped'' of
        Inr p \<Rightarrow> is_ok (parse_address plain_gridpool_lib (cp_payout_address p) (ws_bitcoin_network (gp_work c)))
      | Inl e \<Rightarrow> looks_like_address (explicit_address (trim ''bc1mistyped'')))"
proof -
  have "trim (replicate 40 (CHR ''a'')) = replicate 40 (CHR ''a'')" by code_simp
  then have "is_ok (gridpool_connect plain_gridpool_lib sample_connect_env (gp_config sample_client))"
    by (simp add: gridpool_connect_def sample_connect_env_def sample_client_def plain_gridpool_lib_def
        validate_config_def fetch_work_def fetch_advice_def parse_network_def parse_address_def
        to_ascii_lowercase_def f64_le_def f64_lt_def Let_def)
  then obtain c where "gridpool_connect plain_gridpool_lib sample_connect_env (gp_config sample_client) = Ok c"
    by (auto simp: is_ok_def split: sum.splits)
  with resolve_channel_fail_closed [OF this, of "''bc1mistyped''"] show ?thesis
    by (auto split: sum.splits)
qed

text \<open>
  The chain-tip refresh succeeds exactly when one of its 600 attempts yields a work selection
  with a new tip; it then installs the first such selection and its tip, and otherwise it leaves
  the client untouched.
\<close>

theorem refresh_for_chain_tip_spec:
  "(let prev = gp_last_template_tip c;
        fresh = (\<lambda>k. case fetch k of Inl _ \<Rightarrow> False
           | Inr w \<Rightarrow> prev = None \<or> ws_current_tip_block_hash w \<noteq> prev) in
    if \<exists>k < 600. fresh k
    then \<exists>k w. k < 600 \<and> fetch k = Ok w \<and> fresh k \<and> (\<forall>j < k. \<not> fresh j) \<and>
       refresh_for_chain_tip fetch c =
         (Ok (), c\<lparr>gp_last_template_tip := ws_current_tip_block_hash w, gp_work := w\<rparr>)
    else \<exists>e. refresh_for_chain_tip fetch c = (Err e, c))"
proof -
  let ?prev = "gp_last_template_tip c"
  let ?fresh = "\<lambda>k. case fetch k of Inl _ \<Rightarrow> False
     | Inr w \<Rightarrow> ?prev = None \<or> ws_current_tip_block_hash w \<noteq> ?prev"
  let ?loop = "refresh_loop fetch ?prev 0 600 None None"
  show ?thesis
  proof (cases "\<exists>k < 600. ?fresh k")
    case True
    then obtain k where k: "k < 600" "?fresh k" and least: "\<forall>j < k. \<not> ?fresh j"
      by (rule first_below)
    obtain w where w: "fetch k = Ok w" "?prev = None \<or> ws_current_tip_block_hash w \<noteq> ?prev"
      using k(2) by (auto split: sum.splits)
    have "fst ?loop = Some w"
      by (rule refresh_loop_changed [of k]) (use k w least in auto)
    then have "refresh_for_chain_tip fetch c =
        (Ok (), c\<lparr>gp_last_template_tip := ws_current_tip_block_hash w, gp_work := w\<rparr>)"
      using w(2) by (cases ?loop) (auto simp: refresh_for_chain_tip_def CHAIN_TIP_REFRESH_ATTEMPTS_def)
    with True k w least show ?thesis by (auto simp: Let_def)
  next
    case False
    then have old: "\<And>j v. j < 600 \<Longrightarrow> fetch (0 + j) = Ok v \<Longrightarrow> ?prev \<noteq> None \<and> ws_current_tip_block_hash v = ?prev"
      by (auto split: sum.splits)
    have "\<exists>e. refresh_for_chain_tip fetch c = (Err e, c)"
    proof (cases "fst ?loop")
      case None
      then show ?thesis
        by (cases ?loop) (auto simp: refresh_for_chain_tip_def CHAIN_TIP_REFRESH_ATTEMPTS_def)
    next
      case (Some w)
      have "?prev \<noteq> None \<and> ws_current_tip_block_hash w = ?prev"
        using refresh_loop_unchanged [OF old _ Some] by simp
      with Some show ?thesis
        by (cases ?loop) (auto simp: refresh_for_chain_tip_def CHAIN_TIP_REFRESH_ATTEMPTS_def)
    qed
    with False show ?thesis unfolding Let_def by (simp only: if_False)
  qed
qed

theorem refresh_for_chain_tip_spec_witness:
  "\<exists>w. refresh_for_chain_tip (\<lambda>k :: nat. if k < 3 then Err ''busy''
      else Ok ((gp_work sample_client)\<lparr>ws_current_tip_block_hash := Some ''b''\<rparr>)) sample_client =
    (Ok (), sample_client\<lparr>gp_last_template_tip := ws_current_tip_block_hash w, gp_work := w\<rparr>)"
proof -
  let ?f = "\<lambda>k :: nat. if k < 3 then Err ''busy''
      else Ok ((gp_work sample_client)\<lparr>ws_current_tip_block_hash := Some ''b''\<rparr>)"
  have "\<exists>k < 600. (case ?f k of Inl _ \<Rightarrow> False
      | Inr w \<Rightarrow> gp_last_template_tip sample_client = None \<or>
          ws_current_tip_block_hash w \<noteq> gp_last_template_tip sample_client)"
    by (rule exI [of _ 3]) (simp add: sample_client_def)
  with refresh_for_chain_tip_spec [of sample_client ?f] show ?thesis
    unfolding Let_def by (metis (no_types, lifting))
qed

text \<open>The last pulse of a channel, and how calls change it.\<close>

definition last_pulse_of :: "gridpool_client \<Rightarrow> u64 \<Rightarrow> u64" where
  "last_pulse_of c k = (case sm_get_cloned (gp_last_pulse c) k of None \<Rightarrow> 0 | Some p \<Rightarrow> p)"

definition pulse_calls :: "(u64 \<times> u64 \<times> f64 \<times> bool) list \<Rightarrow> gridpool_client \<Rightarrow> gridpool_client" where
  "pulse_calls calls c = fold (\<lambda>(now, k, d, b) c. snd (should_submit_proof c now k d b)) calls c"

definition pulse_interval :: "gridpool_client \<Rightarrow> u64" where
  "pulse_interval c = max (sa_pulse_target_interval_seconds (gp_advice c)) 1"

lemma should_submit_frame:
  assumes "should_submit_proof c now k d b = (r, c')"
  shows "gp_advice c' = gp_advice c" "gp_work c' = gp_work c"
    and "last_pulse_of c j \<le> last_pulse_of c' j"
proof -
  show "gp_advice c' = gp_advice c" "gp_work c' = gp_work c"
    using assms by (auto simp: should_submit_proof_def Let_def split: if_splits)
  show "last_pulse_of c j \<le> last_pulse_of c' j"
  proof (cases "c' = c")
    case False
    then have c': "c' = c\<lparr>gp_last_pulse := AList.update k now (gp_last_pulse c)\<rparr>"
      and late: "\<not> saturating_sub now (last_pulse_of c k) < max (sa_pulse_target_interval_seconds (gp_advice c)) 1"
      using assms by (auto simp: should_submit_proof_def Let_def last_pulse_of_def split: if_splits)
    have "1 \<le> max (sa_pulse_target_interval_seconds (gp_advice c)) 1" by simp
    also have "\<dots> \<le> saturating_sub now (last_pulse_of c k)" using late by (rule leI)
    finally have "1 \<le> unat (saturating_sub now (last_pulse_of c k))" by (simp add: word_le_nat_alt)
    then have "last_pulse_of c k \<le> now" by (simp add: word_le_nat_alt)
    then show ?thesis by (simp add: c' last_pulse_of_def sm_get_cloned_def)
  qed simp
qed

lemma pulse_calls_mono:
  "last_pulse_of c j \<le> last_pulse_of (pulse_calls calls c) j \<and>
   gp_advice (pulse_calls calls c) = gp_advice c \<and> gp_work (pulse_calls calls c) = gp_work c"
proof (induction calls arbitrary: c)
  case (Cons a calls)
  obtain now k d b where a: "a = (now, k, d, b)" by (cases a)
  obtain r c1 where c1: "should_submit_proof c now k d b = (r, c1)" by fastforce
  have "pulse_calls (a # calls) c = pulse_calls calls c1" by (simp add: pulse_calls_def a c1)
  with Cons [of c1] should_submit_frame [OF c1] show ?case by (auto intro: order_trans)
qed (simp add: pulse_calls_def)

lemma pulse_accepted:
  assumes "should_submit_proof c now k d False = (True, c')"
    and "\<not> f64_le (ws_minimum_difficulty_to_enter_reserve (gp_work c)) d"
  shows "last_pulse_of c' k = now" "unat (last_pulse_of c k) + unat (pulse_interval c) \<le> unat now"
proof -
  have c': "c' = c\<lparr>gp_last_pulse := AList.update k now (gp_last_pulse c)\<rparr>"
    and late: "\<not> saturating_sub now (last_pulse_of c k) < pulse_interval c"
    using assms
    by (auto simp: should_submit_proof_def Let_def last_pulse_of_def pulse_interval_def split: if_splits)
  show "last_pulse_of c' k = now" by (simp add: c' last_pulse_of_def sm_get_cloned_def)
  have "0 < unat (pulse_interval c)"
    by (metis max.cobounded2 pulse_interval_def unat_gt_0 word_le_0_iff zero_neq_one)
  moreover have "unat (pulse_interval c) \<le> unat now - unat (last_pulse_of c k)"
    using late by (simp add: word_less_nat_alt)
  ultimately show "unat (last_pulse_of c k) + unat (pulse_interval c) \<le> unat now" by linarith
qed

text \<open>
  Pulse proofs are throttled per channel: between two pulses of one channel, with any calls
  for any channels in between, at least the advised interval (and at least one second) passes,
  whatever the clock does in between.
\<close>

theorem pulse_proofs_spaced:
  assumes "should_submit_proof c now k d False = (True, c1)"
    and "should_submit_proof (pulse_calls calls c1) now' k d' False = (True, c2)"
    and "\<not> f64_le (ws_minimum_difficulty_to_enter_reserve (gp_work c)) d"
    and "\<not> f64_le (ws_minimum_difficulty_to_enter_reserve (gp_work c)) d'"
  shows "unat now + max (unat (sa_pulse_target_interval_seconds (gp_advice c))) 1 \<le> unat now'"
proof -
  have c1: "last_pulse_of c1 k = now" "gp_advice c1 = gp_advice c" "gp_work c1 = gp_work c"
    using pulse_accepted(1) [OF assms(1,3)] should_submit_frame [OF assms(1)] by auto
  note mono = pulse_calls_mono [of c1 k calls]
  have "unat (last_pulse_of (pulse_calls calls c1) k) + unat (pulse_interval (pulse_calls calls c1)) \<le> unat now'"
    using pulse_accepted(2) [OF assms(2)] assms(4) mono c1 by simp
  moreover have "pulse_interval (pulse_calls calls c1) = pulse_interval c" using mono c1 by (simp add: pulse_interval_def)
  moreover have "unat now \<le> unat (last_pulse_of (pulse_calls calls c1) k)" using mono c1 by (simp add: word_le_nat_alt)
  moreover have "unat (pulse_interval c) = max (unat (sa_pulse_target_interval_seconds (gp_advice c))) 1"
    by (auto simp: pulse_interval_def max_def word_le_nat_alt)
  ultimately show ?thesis by simp
qed

theorem pulse_proofs_spaced_witness:
  "fst (should_submit_proof sample_client 1000 7 (Fin 5) False) \<and>
   unat (1000 :: u64) + max (unat (60 :: u64)) 1 \<le> unat (1060 :: u64)"
proof -
  let ?c1 = "sample_client\<lparr>gp_last_pulse := [(7, 1000)]\<rparr>"
  have 1: "should_submit_proof sample_client 1000 7 (Fin 5) False = (True, ?c1)"
    by (simp add: should_submit_proof_def sample_client_def f64_le_def f64_lt_def saturating_sub_def
        sm_get_cloned_def Let_def)
  have 2: "should_submit_proof (pulse_calls [] ?c1) 1060 7 (Fin 5) False =
      (True, sample_client\<lparr>gp_last_pulse := [(7, 1060)]\<rparr>)"
    by (simp add: pulse_calls_def should_submit_proof_def sample_client_def f64_le_def f64_lt_def
        saturating_sub_def sm_get_cloned_def Let_def)
  have 3: "\<not> f64_le (ws_minimum_difficulty_to_enter_reserve (gp_work sample_client)) (Fin 5)"
    by (simp add: sample_client_def f64_le_def)
  from pulse_proofs_spaced [OF 1 2 3 3] 1 show ?thesis by (simp add: sample_client_def)
qed

text \<open>Share counts over the telemetry map.\<close>

definition record_all :: "(nat \<times> telemetry_delta) list \<Rightarrow> gridpool_client \<Rightarrow> gridpool_client" where
  "record_all ds c = fold (\<lambda>(now, d). record_telemetry now d) ds c"

definition accepted_total :: "(string, telemetry_aggregate) shared_map \<Rightarrow> nat" where
  "accepted_total m = sum_list (map (\<lambda>e. unat (ta_accepted_share_count (snd e))) m)"

definition rejected_total :: "(string, telemetry_aggregate) shared_map \<Rightarrow> nat" where
  "rejected_total m = sum_list (map (\<lambda>e. unat (ta_rejected_share_count (snd e))) m)"

lemma total_update:
  fixes f :: "'v \<Rightarrow> nat"
  assumes "f v = (case map_of m k of None \<Rightarrow> 0 | Some w \<Rightarrow> f w) + n"
  shows "sum_list (map (\<lambda>e. f (snd e)) (AList.update k v m)) = sum_list (map (\<lambda>e. f (snd e)) m) + n"
  using list_sum_update [of f k v m] assms by simp

lemma member_le_total:
  fixes f :: "'v \<Rightarrow> nat"
  shows "map_of m k = Some w \<Longrightarrow> f w \<le> sum_list (map (\<lambda>e. f (snd e)) m)"
  by (induction m) (auto split: if_splits)

lemma record_telemetry_totals:
  assumes "accepted_total (gp_telemetry c) + 1 < 2 ^ 64" "rejected_total (gp_telemetry c) + 1 < 2 ^ 64"
  shows "accepted_total (gp_telemetry (record_telemetry now d c)) =
      accepted_total (gp_telemetry c) + (if td_accepted d then 1 else 0)"
    and "rejected_total (gp_telemetry (record_telemetry now d c)) =
      rejected_total (gp_telemetry c) + (if td_accepted d then 0 else 1)"
proof -
  let ?m = "gp_telemetry c" and ?k = "telemetry_key (td_channel_id d) (td_payout_address d)"
  let ?a = "case map_of ?m ?k of None \<Rightarrow> new_aggregate now d | Some v \<Rightarrow> v"
  have m': "gp_telemetry (record_telemetry now d c) = AList.update ?k (update_aggregate now d ?a) ?m"
    by (simp add: record_telemetry_def sm_with_mut_or_insert_with_def Let_def)
  have suc: "unat (x + 1) = Suc (unat x)" if "unat x + 1 < 2 ^ 64" for x :: u64
    using that by (subst unat_add_no_wrap) simp_all
  have acc: "unat (ta_accepted_share_count w + 1) = Suc (unat (ta_accepted_share_count w))"
    if "map_of ?m ?k = Some w" for w
    using member_le_total [OF that, of "\<lambda>a. unat (ta_accepted_share_count a)"] assms(1)
    by (intro suc) (simp add: accepted_total_def)
  have rej: "unat (ta_rejected_share_count w + 1) = Suc (unat (ta_rejected_share_count w))"
    if "map_of ?m ?k = Some w" for w
    using member_le_total [OF that, of "\<lambda>a. unat (ta_rejected_share_count a)"] assms(2)
    by (intro suc) (simp add: rejected_total_def)
  show "accepted_total (gp_telemetry (record_telemetry now d c)) = accepted_total ?m + (if td_accepted d then 1 else 0)"
    unfolding accepted_total_def m'
    by (rule total_update)
      (auto simp: update_aggregate_def new_aggregate_def Let_def acc split: option.splits)
  show "rejected_total (gp_telemetry (record_telemetry now d c)) = rejected_total ?m + (if td_accepted d then 0 else 1)"
    unfolding rejected_total_def m'
    by (rule total_update)
      (auto simp: update_aggregate_def new_aggregate_def Let_def rej split: option.splits)
qed

lemma record_all_totals:
  assumes "accepted_total (gp_telemetry c) + length ds < 2 ^ 64" "rejected_total (gp_telemetry c) + length ds < 2 ^ 64"
  shows "accepted_total (gp_telemetry (record_all ds c)) =
      accepted_total (gp_telemetry c) + length (filter (\<lambda>(_, d). td_accepted d) ds) \<and>
    rejected_total (gp_telemetry (record_all ds c)) =
      rejected_total (gp_telemetry c) + length (filter (\<lambda>(_, d). \<not> td_accepted d) ds)"
  using assms
proof (induction ds arbitrary: c)
  case (Cons e ds)
  obtain now d where e: "e = (now, d)" by (cases e)
  let ?c = "record_telemetry now d c"
  have t: "accepted_total (gp_telemetry ?c) = accepted_total (gp_telemetry c) + (if td_accepted d then 1 else 0)"
    "rejected_total (gp_telemetry ?c) = rejected_total (gp_telemetry c) + (if td_accepted d then 0 else 1)"
    using record_telemetry_totals [of c now d] Cons.prems by simp_all
  have r: "record_all ((now, d) # ds) c = record_all ds ?c" by (simp add: record_all_def)
  show ?case using Cons.IH [of ?c] Cons.prems t by (simp add: r e split: if_splits)
qed (simp add: record_all_def)

text \<open>
  Telemetry counts every share once: after any sequence of recorded shares, the flushed batch
  accounts for exactly the accepted and the rejected ones, and the flush leaves nothing behind to
  be reported twice.
\<close>

theorem telemetry_flush_accounts_for_all_shares:
  assumes "gp_telemetry c = []" and "length ds < 2 ^ 64"
    and "flush_telemetry (record_all ds c) = (c', post)"
    and "entries = (case post of None \<Rightarrow> [] | Some p \<Rightarrow> hp_entries p)"
  shows "(\<Sum>e \<leftarrow> entries. unat (te_accepted_share_count e)) = length (filter (\<lambda>(_, d). td_accepted d) ds) \<and>
    (\<Sum>e \<leftarrow> entries. unat (te_rejected_share_count e)) = length (filter (\<lambda>(_, d). \<not> td_accepted d) ds) \<and>
    gp_telemetry c' = []"
proof -
  have z: "accepted_total (gp_telemetry c) = 0" "rejected_total (gp_telemetry c) = 0"
    using assms(1) by (simp_all add: accepted_total_def rejected_total_def)
  have entries: "entries = map (\<lambda>e. telemetry_entry_of (snd e)) (gp_telemetry (record_all ds c))"
    and c': "gp_telemetry c' = []"
    using assms(3,4) by (auto simp: flush_telemetry_def Let_def sm_clear_def split: if_splits)
  have "accepted_total (gp_telemetry (record_all ds c)) = length (filter (\<lambda>(_, d). td_accepted d) ds) \<and>
      rejected_total (gp_telemetry (record_all ds c)) = length (filter (\<lambda>(_, d). \<not> td_accepted d) ds)"
    using record_all_totals [of c ds] z assms(2) by simp
  then show ?thesis
    using c' by (simp add: entries telemetry_entry_of_def comp_def accepted_total_def rejected_total_def)
qed

definition sample_delta :: telemetry_delta where
  "sample_delta = \<lparr>td_channel_id = 3, td_payout_address = ''bc1m'', td_username = ''u'', td_accepted = True,
     td_work_difficulty = Fin 1, td_achieved_difficulty = Fin 2, td_fee_work = False\<rparr>"

theorem telemetry_flush_accounts_for_all_shares_witness:
  "(case snd (flush_telemetry (record_all
       [(5, sample_delta), (6, sample_delta\<lparr>td_accepted := False\<rparr>), (7, sample_delta)] sample_client)) of
      None \<Rightarrow> False
    | Some p \<Rightarrow> (\<Sum>e \<leftarrow> hp_entries p. unat (te_accepted_share_count e)) = 2)"
proof -
  let ?ds = "[(5, sample_delta), (6, sample_delta\<lparr>td_accepted := False\<rparr>), (7, sample_delta)]"
  obtain c' post where f: "flush_telemetry (record_all ?ds sample_client) = (c', post)" by fastforce
  have "gp_telemetry sample_client = []" by (simp add: sample_client_def)
  from telemetry_flush_accounts_for_all_shares [OF this _ f refl]
  have "(\<Sum>e \<leftarrow> (case post of None \<Rightarrow> [] | Some p \<Rightarrow> hp_entries p). unat (te_accepted_share_count e)) = 2"
    by (simp add: sample_delta_def)
  with f show ?thesis by (cases post) auto
qed


definition sample_proof :: share_submission where
  "sample_proof = \<lparr>sub_miner_address = ''bc1m'', sub_username = ''u'', sub_header_hex = ''00'',
     sub_coinbase_hex = [], sub_merkle_path = [], sub_payout_snapshot_id = None,
     sub_prev_block_hash = None, sub_difficulty = Fin 1\<rparr>"


end
