(* ===== verification/Token_Manager.thy ===== *)
theory Token_Manager
  imports Shared_Map
begin

text \<open>
  The token manager of the job declaration server
  (\<open>pool-apps/jd-server/src/lib/job_declarator/token_management/mod.rs\<close>): allocated tokens, active
  tokens, their owners and their expiry.  Instants are milliseconds of a monotonic clock.

  The locale \<open>token_lifecycle\<close> is the contract the job declarator relies on; it is interpreted on
  the operations of \<open>TokenManager\<close>.
\<close>

section \<open>Data\<close>

type_synonym jd_token = u64
type_synonym downstream_id = nat

record token_manager =
  tk_token_factory :: u64
  tk_allocated_tokens :: "(jd_token, nat \<times> downstream_id) shared_map"
  tk_active_tokens :: "(jd_token, jd_token \<times> nat \<times> downstream_id) shared_map"

definition ALLOCATED_TOKEN_TIMEOUT_SECS :: nat where "ALLOCATED_TOKEN_TIMEOUT_SECS = 144 * 60 * 10"

definition ACTIVE_TOKEN_TIMEOUT_SECS :: nat where "ACTIVE_TOKEN_TIMEOUT_SECS = 10"

section \<open>Operations\<close>

definition token_manager_new :: token_manager where
  "token_manager_new = \<lparr>tk_token_factory = 0, tk_allocated_tokens = sm_new, tk_active_tokens = sm_new\<rparr>"

definition token_allocate :: "nat \<Rightarrow> downstream_id \<Rightarrow> token_manager \<Rightarrow> jd_token \<times> token_manager" where
  "token_allocate now downstream_id tk =
     (let token = tk_token_factory tk
      in (token, tk\<lparr>tk_token_factory := token + 1,
                    tk_allocated_tokens := snd (sm_insert token (now, downstream_id) (tk_allocated_tokens tk))\<rparr>))"

definition token_deallocate :: "jd_token \<Rightarrow> token_manager \<Rightarrow> token_manager" where
  "token_deallocate token tk = tk\<lparr>tk_allocated_tokens := snd (sm_remove token (tk_allocated_tokens tk))\<rparr>"

definition token_is_allocated :: "token_manager \<Rightarrow> jd_token \<Rightarrow> downstream_id \<Rightarrow> bool" where
  "token_is_allocated tk token downstream_id =
     (case sm_get_cloned (tk_allocated_tokens tk) token of
        Some allocation_info \<Rightarrow> snd allocation_info = downstream_id
      | None \<Rightarrow> False)"

definition token_activate ::
  "nat \<Rightarrow> jd_token \<Rightarrow> downstream_id \<Rightarrow> token_manager \<Rightarrow> jd_token \<times> token_manager" where
  "token_activate now allocated_token downstream_id tk =
     (let allocated = snd (sm_remove allocated_token (tk_allocated_tokens tk));
          activated_token = tk_token_factory tk
      in (activated_token,
          tk\<lparr>tk_token_factory := activated_token + 1, tk_allocated_tokens := allocated,
             tk_active_tokens := snd (sm_insert activated_token (allocated_token, now, downstream_id)
                                       (tk_active_tokens tk))\<rparr>))"

definition token_deactivate :: "jd_token \<Rightarrow> token_manager \<Rightarrow> token_manager" where
  "token_deactivate active_token tk =
     tk\<lparr>tk_active_tokens := snd (sm_remove active_token (tk_active_tokens tk))\<rparr>"

definition token_allocated_from_active :: "token_manager \<Rightarrow> jd_token \<Rightarrow> jd_token option" where
  "token_allocated_from_active tk active_token = sm_with (tk_active_tokens tk) active_token fst"

definition token_clear :: "token_manager \<Rightarrow> token_manager" where
  "token_clear tk = tk\<lparr>tk_allocated_tokens := sm_clear (tk_allocated_tokens tk),
                      tk_active_tokens := sm_clear (tk_active_tokens tk)\<rparr>"

definition token_remove_downstream :: "downstream_id \<Rightarrow> token_manager \<Rightarrow> token_manager" where
  "token_remove_downstream downstream_id tk =
     tk\<lparr>tk_allocated_tokens := sm_retain (\<lambda>_ (_, owner). owner \<noteq> downstream_id) (tk_allocated_tokens tk)\<rparr>"

text \<open>One pass of the janitor at time \<open>now\<close>; \<open>duration_since\<close> saturates at zero.\<close>

definition token_janitor :: "nat \<Rightarrow> token_manager \<Rightarrow> token_manager" where
  "token_janitor now tk =
     tk\<lparr>tk_allocated_tokens :=
          sm_retain (\<lambda>_ (timestamp, _). now - timestamp \<le> ALLOCATED_TOKEN_TIMEOUT_SECS * 1000) (tk_allocated_tokens tk),
        tk_active_tokens :=
          sm_retain (\<lambda>_ (_, timestamp, _). now - timestamp \<le> ACTIVE_TOKEN_TIMEOUT_SECS * 1000) (tk_active_tokens tk)\<rparr>"

section \<open>Invariant\<close>

text \<open>
  No token is allocated and active at once, and every token ever handed out is below the
  factory, so that the next one is fresh.  The counter has room for \<open>n\<close> more tokens.
\<close>

definition token_inv :: "token_manager \<Rightarrow> bool" where
  "token_inv tk =
     (sm_invar (tk_allocated_tokens tk) \<and> sm_invar (tk_active_tokens tk) \<and>
      (\<forall>t \<in> sm_dom (tk_allocated_tokens tk) \<union> sm_dom (tk_active_tokens tk). t < tk_token_factory tk) \<and>
      sm_dom (tk_allocated_tokens tk) \<inter> sm_dom (tk_active_tokens tk) = {})"

definition factory_room :: "token_manager \<Rightarrow> bool" where
  "factory_room tk = (tk_token_factory tk \<noteq> - 1)"

lemma unat_factory_Suc:
  fixes f :: u64
  assumes "f \<noteq> - 1"
  shows "unat (f + 1) = Suc (unat f)"
proof -
  have "f < - 1" using assms by (simp add: word_order.not_eq_extremum)
  then have "unat f < unat (- 1 :: u64)" by (simp add: word_less_nat_alt)
  then have "unat f + 1 < 2 ^ 64" using unat_bound [of "- 1 :: u64"] by simp
  then show ?thesis by (subst unat_add_no_wrap) simp_all
qed

lemma u64_less_Suc:
  fixes t f :: u64
  assumes "f \<noteq> - 1"
  shows "t < f + 1 \<longleftrightarrow> t \<le> f"
  using unat_factory_Suc [OF assms] by (simp add: word_less_nat_alt word_le_nat_alt less_Suc_eq_le)

lemma token_inv_new [simp, inv_rules]: "token_inv token_manager_new"
  by (simp add: token_inv_def token_manager_new_def sm_new_def)

lemma token_inv_allocate [inv_rules]:
  assumes "token_inv tk" and "factory_room tk" and "token_allocate now d tk = (t, tk')"
  shows "token_inv tk'"
  using assms
  by (auto simp: token_inv_def token_allocate_def Let_def factory_room_def u64_less_Suc less_imp_le)

lemma token_inv_deallocate [inv_rules]: "token_inv tk \<Longrightarrow> token_inv (token_deallocate t tk)"
  by (auto simp: token_inv_def token_deallocate_def)

lemma token_inv_activate [inv_rules]:
  assumes "token_inv tk" and "factory_room tk" and "token_activate now a d tk = (t, tk')"
  shows "token_inv tk'"
  using assms
  by (auto simp: token_inv_def token_activate_def Let_def factory_room_def u64_less_Suc less_imp_le)

lemma token_inv_deactivate [inv_rules]: "token_inv tk \<Longrightarrow> token_inv (token_deactivate t tk)"
  by (auto simp: token_inv_def token_deactivate_def)

lemma token_inv_subset:
  assumes "token_inv tk" and "sm_invar al" and "sm_invar ac"
    and "sm_dom al \<subseteq> sm_dom (tk_allocated_tokens tk)" and "sm_dom ac \<subseteq> sm_dom (tk_active_tokens tk)"
  shows "token_inv (tk\<lparr>tk_allocated_tokens := al, tk_active_tokens := ac\<rparr>)"
  using assms by (auto simp: token_inv_def)

lemma token_inv_remove_downstream [inv_rules]:
  assumes "token_inv tk" shows "token_inv (token_remove_downstream d tk)"
proof -
  have "sm_invar (tk_allocated_tokens tk)" "sm_invar (tk_active_tokens tk)"
    using assms by (simp_all add: token_inv_def)
  from token_inv_subset [OF assms sm_invar_retain [OF this(1)] this(2) sm_dom_retain subset_refl]
  show ?thesis by (simp add: token_remove_downstream_def)
qed

lemma token_inv_janitor [inv_rules]:
  assumes "token_inv tk" shows "token_inv (token_janitor now tk)"
proof -
  have "sm_invar (tk_allocated_tokens tk)" "sm_invar (tk_active_tokens tk)"
    using assms by (simp_all add: token_inv_def)
  from token_inv_subset [OF assms sm_invar_retain [OF this(1)] sm_invar_retain [OF this(2)] sm_dom_retain sm_dom_retain]
  show ?thesis by (simp add: token_janitor_def)
qed

lemma token_inv_clear [inv_rules]: "token_inv tk \<Longrightarrow> token_inv (token_clear tk)"
  by (simp add: token_inv_def token_clear_def sm_clear_def)

section \<open>The contract of the job declarator\<close>

text \<open>
  What the protocol handlers rely on: a token belongs to the client it was allocated to, activating
  it consumes it and yields a fresh token that remembers it, and consuming an active token removes
  exactly that one.
\<close>

locale token_lifecycle =
  fixes wf :: "'s \<Rightarrow> bool"
    and room :: "'s \<Rightarrow> bool"
    and allocate :: "'o \<Rightarrow> 's \<Rightarrow> 't \<times> 's"
    and owned :: "'s \<Rightarrow> 't \<Rightarrow> 'o \<Rightarrow> bool"
    and activate :: "'t \<Rightarrow> 'o \<Rightarrow> 's \<Rightarrow> 't \<times> 's"
    and origin :: "'s \<Rightarrow> 't \<Rightarrow> 't option"
    and consume :: "'t \<Rightarrow> 's \<Rightarrow> 's"
  assumes allocate_wf: "wf s \<Longrightarrow> room s \<Longrightarrow> allocate c s = (t, s') \<Longrightarrow> wf s'"
    and allocate_fresh: "wf s \<Longrightarrow> allocate c s = (t, s') \<Longrightarrow> \<not> owned s t d \<and> origin s t = None"
    and allocate_owned: "wf s \<Longrightarrow> allocate c s = (t, s') \<Longrightarrow>
          owned s' u d \<longleftrightarrow> (if u = t then d = c else owned s u d)"
    and allocate_origin: "allocate c s = (t, s') \<Longrightarrow> origin s' = origin s"
    and activate_wf: "wf s \<Longrightarrow> room s \<Longrightarrow> activate a c s = (t, s') \<Longrightarrow> wf s'"
    and activate_fresh: "wf s \<Longrightarrow> activate a c s = (t, s') \<Longrightarrow> \<not> owned s t d \<and> origin s t = None"
    and activate_owned: "wf s \<Longrightarrow> activate a c s = (t, s') \<Longrightarrow> owned s' u d \<longleftrightarrow> u \<noteq> a \<and> owned s u d"
    and activate_origin: "wf s \<Longrightarrow> activate a c s = (t, s') \<Longrightarrow>
          origin s' u = (if u = t then Some a else origin s u)"
    and consume_wf: "wf s \<Longrightarrow> wf (consume t s)"
    and consume_owned: "owned (consume t s) = owned s"
    and consume_origin: "wf s \<Longrightarrow> origin (consume t s) u = (if u = t then None else origin s u)"
begin

text \<open>The life of one token: allocated to one client only, activated once, consumed once.\<close>

lemma token_life:
  assumes "wf s" "room s" "allocate c s = (a, s1)" "room s1" "activate a c s1 = (t, s2)"
  shows "owned s1 a d \<longleftrightarrow> d = c"
    and "\<not> owned s2 a d" and "origin s2 t = Some a"
    and "origin (consume t s2) t = None" and "\<not> owned (consume t s2) a d"
proof -
  have wf1: "wf s1" using allocate_wf assms by blast
  have wf2: "wf s2" using activate_wf wf1 assms by blast
  show "owned s1 a d \<longleftrightarrow> d = c" using allocate_owned [OF assms(1,3)] by simp
  show "\<not> owned s2 a d" using activate_owned [OF wf1 assms(5)] by simp
  then show "\<not> owned (consume t s2) a d" by (simp add: consume_owned)
  show "origin s2 t = Some a" using activate_origin [OF wf1 assms(5)] by simp
  show "origin (consume t s2) t = None" using consume_origin [OF wf2] by simp
qed

text \<open>The operations of one client never touch the tokens of another.\<close>

lemma other_tokens_kept:
  assumes "wf s" "activate a c s = (t, s')" "owned s u d" "u \<noteq> a"
  shows "owned s' u d" and "u \<noteq> t"
  using activate_owned [OF assms(1,2)] activate_fresh [OF assms(1,2)] assms(3,4) by blast+

end

lemma map_of_none_if_not_dom: "k \<notin> sm_dom m \<longleftrightarrow> map_of m k = None"
  by (simp add: sm_dom_iff)

lemma factory_fresh:
  assumes "token_inv tk"
  shows "map_of (tk_allocated_tokens tk) (tk_token_factory tk) = None"
    and "map_of (tk_active_tokens tk) (tk_token_factory tk) = None"
  using assms unfolding token_inv_def map_of_none_if_not_dom [symmetric] by blast+

lemmas token_op_defs = token_allocate_def token_activate_def token_deactivate_def
  token_is_allocated_def token_allocated_from_active_def sm_with_def sm_get_cloned_def Let_def

interpretation tokens: token_lifecycle token_inv factory_room "token_allocate now" token_is_allocated
  "token_activate now" token_allocated_from_active token_deactivate for now
proof unfold_locales
  show "token_inv s \<Longrightarrow> factory_room s \<Longrightarrow> token_allocate now c s = (t, s') \<Longrightarrow> token_inv s'" for s c t s'
    by (rule token_inv_allocate)
  show "token_inv s \<Longrightarrow> factory_room s \<Longrightarrow> token_activate now a c s = (t, s') \<Longrightarrow> token_inv s'" for s a c t s'
    by (rule token_inv_activate)
  show "token_inv s \<Longrightarrow> token_inv (token_deactivate t s)" for s t
    by (rule token_inv_deactivate)
  show "token_is_allocated (token_deactivate t s) = token_is_allocated s" for s t
    by (rule ext)+ (simp add: token_op_defs)
qed (auto simp: token_op_defs factory_fresh split: option.splits)

section \<open>Reachable states\<close>

text \<open>Every interleaving of the operations, from the manager's initial state.\<close>

inductive token_reach :: "token_manager \<Rightarrow> bool" where
  start: "token_reach token_manager_new"
| alloc: "token_reach tk \<Longrightarrow> factory_room tk \<Longrightarrow> token_allocate now d tk = (t, tk') \<Longrightarrow> token_reach tk'"
| dealloc: "token_reach tk \<Longrightarrow> token_reach (token_deallocate t tk)"
| activation: "token_reach tk \<Longrightarrow> factory_room tk \<Longrightarrow> token_activate now a d tk = (t, tk') \<Longrightarrow> token_reach tk'"
| deactivation: "token_reach tk \<Longrightarrow> token_reach (token_deactivate t tk)"
| gone: "token_reach tk \<Longrightarrow> token_reach (token_remove_downstream d tk)"
| janitor: "token_reach tk \<Longrightarrow> token_reach (token_janitor now tk)"
| cleared: "token_reach tk \<Longrightarrow> token_reach (token_clear tk)"

inductive_cases token_reach_E: "token_reach tk"

lemma token_reach_inv: "token_reach tk \<Longrightarrow> token_inv tk"
  by (induction rule: token_reach.induct) (auto intro: inv_rules)

section \<open>Properties\<close>

text \<open>
  C36. In every reachable state of the token manager no token is at once allocated and active, and
  the token handed out next is neither, so no two clients ever hold the same token.
\<close>

theorem tokens_unique_and_disjoint:
  assumes "token_reach tk"
  shows "sm_dom (tk_allocated_tokens tk) \<inter> sm_dom (tk_active_tokens tk) = {} \<and>
    fst (token_allocate now d tk) \<notin> sm_dom (tk_allocated_tokens tk) \<union> sm_dom (tk_active_tokens tk) \<and>
    fst (token_activate now a d tk) \<notin> sm_dom (tk_allocated_tokens tk) \<union> sm_dom (tk_active_tokens tk)"
  using token_reach_inv [OF assms] by (auto simp: token_inv_def token_allocate_def token_activate_def Let_def)

theorem tokens_unique_and_disjoint_witness:
  "fst (token_allocate 0 2 (snd (token_allocate 0 1 token_manager_new))) \<notin>
     sm_dom (tk_allocated_tokens (snd (token_allocate 0 1 token_manager_new)))"
proof -
  have "factory_room token_manager_new" by (simp add: factory_room_def token_manager_new_def)
  then have "token_reach (snd (token_allocate 0 1 token_manager_new))"
    by (rule token_reach.alloc [OF token_reach.start _ prod.collapse [symmetric]])
  from tokens_unique_and_disjoint [OF this, of 0 2] show ?thesis by blast
qed

text \<open>
  The life of a token: it is accepted only from the client it was allocated to; activation
  consumes it and yields an active token that maps back to it; consuming the active token leaves
  neither usable.
\<close>

theorem token_single_use:
  assumes "token_reach tk" "factory_room tk" "token_allocate now c tk = (a, tk1)"
    and "factory_room tk1" "token_activate now a c tk1 = (t, tk2)"
  shows "(token_is_allocated tk1 a d \<longleftrightarrow> d = c) \<and> \<not> token_is_allocated tk2 a d \<and>
    token_allocated_from_active tk2 t = Some a \<and>
    token_allocated_from_active (token_deactivate t tk2) t = None \<and>
    \<not> token_is_allocated (token_deactivate t tk2) a d"
  using tokens.token_life [OF token_reach_inv [OF assms(1)] assms(2-5)] by blast

theorem token_single_use_witness:
  "token_allocated_from_active
     (snd (token_activate 5 0 7 (snd (token_allocate 5 7 token_manager_new)))) 1 = Some 0"
proof -
  let ?tk1 = "snd (token_allocate 5 7 token_manager_new)"
  have 1: "token_allocate 5 7 token_manager_new = (0, ?tk1)"
    by (simp add: token_allocate_def token_manager_new_def)
  have 2: "token_activate 5 0 7 ?tk1 = (1, snd (token_activate 5 0 7 ?tk1))"
    by (simp add: token_activate_def token_allocate_def token_manager_new_def)
  have "factory_room token_manager_new" "factory_room ?tk1"
    by (simp_all add: factory_room_def token_manager_new_def token_allocate_def)
  from token_single_use [OF token_reach.start this(1) 1 this(2) 2] show ?thesis by simp
qed

text \<open>
  The janitor is exact: after a pass, an allocated token survives just when it is at most 24
  hours old and an active token just when it is at most 10 seconds old; nothing else changes.
\<close>

theorem token_janitor_exact:
  assumes "token_reach tk"
  shows "sm_get_cloned (tk_allocated_tokens (token_janitor now tk)) t =
      (case sm_get_cloned (tk_allocated_tokens tk) t of
         None \<Rightarrow> None
       | Some (ts, d) \<Rightarrow> if now - ts \<le> 86400000 then Some (ts, d) else None) \<and>
    sm_get_cloned (tk_active_tokens (token_janitor now tk)) t =
      (case sm_get_cloned (tk_active_tokens tk) t of
         None \<Rightarrow> None
       | Some (a, ts, d) \<Rightarrow> if now - ts \<le> 10000 then Some (a, ts, d) else None)"
proof -
  have "sm_invar (tk_allocated_tokens tk)" "sm_invar (tk_active_tokens tk)"
    using token_reach_inv [OF assms] by (simp_all add: token_inv_def)
  then show ?thesis
    by (auto simp: token_janitor_def sm.look_keep ALLOCATED_TOKEN_TIMEOUT_SECS_def
        ACTIVE_TOKEN_TIMEOUT_SECS_def split: option.splits prod.splits)
qed

theorem token_janitor_exact_witness:
  "sm_get_cloned (tk_allocated_tokens (token_janitor 86400001 (snd (token_allocate 0 1 token_manager_new)))) 0 = None"
proof -
  have "factory_room token_manager_new" by (simp add: factory_room_def token_manager_new_def)
  then have "token_reach (snd (token_allocate 0 1 token_manager_new))"
    by (rule token_reach.alloc [OF token_reach.start _ prod.collapse [symmetric]])
  from token_janitor_exact [OF this, of 86400001 0] show ?thesis
    by (simp add: token_allocate_def token_manager_new_def sm_get_cloned_def sm_new_def)
qed

section \<open>Refinement\<close>

text \<open>
  The specification: one map from tokens to what they stand for, and a counter without bound.  The
  implementation keeps two concurrent maps and a 64-bit counter.
\<close>

datatype token_state =
    AllocatedTo nat downstream_id
  | ActivatedFrom jd_token nat downstream_id

type_synonym token_spec = "nat \<times> (jd_token \<rightharpoonup> token_state)"

datatype token_op =
    OpAllocate nat downstream_id
  | OpDeallocate jd_token
  | OpActivate nat jd_token downstream_id
  | OpDeactivate jd_token
  | OpRemoveDownstream downstream_id
  | OpJanitor nat
  | OpClear

definition keep_tokens :: "(jd_token \<Rightarrow> token_state \<Rightarrow> bool) \<Rightarrow> (jd_token \<rightharpoonup> token_state) \<Rightarrow> (jd_token \<rightharpoonup> token_state)" where
  "keep_tokens P m t = (case m t of None \<Rightarrow> None | Some s \<Rightarrow> if P t s then Some s else None)"

fun is_allocated_state :: "token_state \<Rightarrow> bool" where
  "is_allocated_state (AllocatedTo _ _) = True"
| "is_allocated_state (ActivatedFrom _ _ _) = False"

fun young :: "nat \<Rightarrow> token_state \<Rightarrow> bool" where
  "young now (AllocatedTo ts _) = (now - ts \<le> 86400000)"
| "young now (ActivatedFrom _ ts _) = (now - ts \<le> 10000)"

fun spec_step :: "token_op \<Rightarrow> token_spec \<Rightarrow> token_spec" where
  "spec_step (OpAllocate now d) (n, m) = (Suc n, m(word_of_nat n \<mapsto> AllocatedTo now d))"
| "spec_step (OpDeallocate t) (n, m) = (n, keep_tokens (\<lambda>u s. \<not> (u = t \<and> is_allocated_state s)) m)"
| "spec_step (OpActivate now a d) (n, m) =
     (Suc n, (keep_tokens (\<lambda>u s. \<not> (u = a \<and> is_allocated_state s)) m)(word_of_nat n \<mapsto> ActivatedFrom a now d))"
| "spec_step (OpDeactivate t) (n, m) = (n, keep_tokens (\<lambda>u s. \<not> (u = t \<and> \<not> is_allocated_state s)) m)"
| "spec_step (OpRemoveDownstream d) (n, m) = (n, keep_tokens (\<lambda>u s. \<forall>ts. s \<noteq> AllocatedTo ts d) m)"
| "spec_step (OpJanitor now) (n, m) = (n, keep_tokens (\<lambda>u. young now) m)"
| "spec_step OpClear (n, m) = (n, Map.empty)"

fun token_step :: "token_op \<Rightarrow> token_manager \<Rightarrow> token_manager" where
  "token_step (OpAllocate now d) tk = snd (token_allocate now d tk)"
| "token_step (OpDeallocate t) tk = token_deallocate t tk"
| "token_step (OpActivate now a d) tk = snd (token_activate now a d tk)"
| "token_step (OpDeactivate t) tk = token_deactivate t tk"
| "token_step (OpRemoveDownstream d) tk = token_remove_downstream d tk"
| "token_step (OpJanitor now) tk = token_janitor now tk"
| "token_step OpClear tk = token_clear tk"

definition token_abs :: "token_manager \<Rightarrow> token_spec" where
  "token_abs tk = (unat (tk_token_factory tk), (\<lambda>t. case map_of (tk_allocated_tokens tk) t of
     Some (ts, d) \<Rightarrow> Some (AllocatedTo ts d)
   | None \<Rightarrow> map_option (\<lambda>(a, ts, d). ActivatedFrom a ts d) (map_of (tk_active_tokens tk) t)))"

lemma token_step_refines:
  assumes "token_inv tk" and "factory_room tk"
  shows "token_abs (token_step op tk) = spec_step op (token_abs tk)" and "token_inv (token_step op tk)"
proof -
  have inv: "sm_invar (tk_allocated_tokens tk)" "sm_invar (tk_active_tokens tk)"
    and disj: "map_of (tk_allocated_tokens tk) t = None \<or> map_of (tk_active_tokens tk) t = None" for t
    using assms(1) by (auto simp: token_inv_def disjoint_iff sm_dom_iff)
  have disj': "map_of (tk_active_tokens tk) t = None" if "map_of (tk_allocated_tokens tk) t = Some v" for t v
    using disj [of t] that by simp
  have fresh: "map_of (tk_allocated_tokens tk) (tk_token_factory tk) = None"
    using assms(1) by (auto simp: token_inv_def sm_dom_iff)
  have suc: "unat (tk_token_factory tk + 1) = Suc (unat (tk_token_factory tk))"
    using assms(2) by (simp add: factory_room_def unat_factory_Suc)
  note defs = token_abs_def keep_tokens_def fun_eq_iff token_allocate_def token_deallocate_def token_activate_def
    token_deactivate_def token_remove_downstream_def token_janitor_def token_clear_def Let_def
  show "token_abs (token_step op tk) = spec_step op (token_abs tk)"
    using suc fresh
    by (cases op) (auto simp: defs map_of_retain inv disj' sm_clear_def ALLOCATED_TOKEN_TIMEOUT_SECS_def
        ACTIVE_TOKEN_TIMEOUT_SECS_def split: option.splits)
  show "token_inv (token_step op tk)"
    using assms by (cases op) (auto intro: inv_rules prod.collapse [symmetric])
qed

lemma spec_counter: "fst (spec_step op s) \<le> Suc (fst s)"
  by (cases s; cases op) simp_all

lemma token_run_refines:
  "length ops < 2 ^ 64 \<Longrightarrow> token_inv (fold token_step ops token_manager_new) \<and>
     token_abs (fold token_step ops token_manager_new) = fold spec_step ops (0, Map.empty) \<and>
     fst (fold spec_step ops (0, Map.empty)) \<le> length ops"
proof (induction ops rule: rev_induct)
  case Nil
  have "token_abs token_manager_new = (0, Map.empty)"
    by (simp add: token_abs_def token_manager_new_def sm_new_def fun_eq_iff)
  then show ?case by simp
next
  case (snoc op ops)
  let ?tk = "fold token_step ops token_manager_new"
  have IH: "token_inv ?tk" "token_abs ?tk = fold spec_step ops (0, Map.empty)"
    and n: "fst (fold spec_step ops (0, Map.empty)) \<le> length ops"
    using snoc by simp_all
  have "unat (tk_token_factory ?tk) \<le> length ops"
    using n unfolding IH(2) [symmetric] by (simp add: token_abs_def)
  moreover have "unat (- 1 :: u64) = 2 ^ 64 - 1" by (simp add: unsigned_minus_1_eq_mask mask_eq_exp_minus_1)
  ultimately have "factory_room ?tk" using snoc.prems by (auto simp: factory_room_def)
  from token_step_refines [OF IH(1) this, of op] IH(2) n spec_counter [of op "fold spec_step ops (0, Map.empty)"]
  show ?case by simp
qed

text \<open>
  C11. The token manager implements its specification: after any sequence of fewer than \<open>2 ^ 64\<close>
  allocations, deallocations, activations, deactivations, removals of clients, janitor passes and
  clearings, the two maps and the wrapping counter stand for exactly the single map and the unbounded
  counter of the specification.
\<close>

theorem token_manager_refines_spec:
  assumes "length ops < 2 ^ 64"
  shows "token_abs (fold token_step ops token_manager_new) = fold spec_step ops (0, Map.empty)"
  using token_run_refines [OF assms] by blast

theorem token_manager_refines_spec_witness:
  "snd (token_abs (fold token_step [OpAllocate 5 1, OpActivate 6 0 1, OpJanitor 20000] token_manager_new)) 1 = None"
proof -
  have "length [OpAllocate 5 1, OpActivate 6 0 1, OpJanitor 20000] < 2 ^ 64" by simp
  from token_manager_refines_spec [OF this] show ?thesis by (simp add: keep_tokens_def)
qed

end
