(* ===== verification/Job_Validation.thy ===== *)
theory Job_Validation
  imports Merkle Shared_Map Sv2_Messages
begin

text \<open>
  Custom-job validation of the job declaration server: the trait \<open>JobValidationEngine\<close>
  (\<open>pool-apps/jd-server/src/lib/job_declarator/job_validation/mod.rs\<close>) and its Bitcoin Core engine
  (\<open>bitcoin_core_ipc.rs\<close>).

  The decoders and hashes of the \<open>bitcoin\<close> crate are the parameter record \<open>jd_lib\<close>.  The reply of
  the node to a declaration and the clock are inputs.  A panic of the source (a slice out of range, a
  capacity overflow, a failed \<open>expect\<close>) is the outer \<^const>\<open>None\<close>.  Index arithmetic is on 64-bit
  words and wraps, as \<open>usize\<close> does in the release profile.
\<close>

section \<open>Data\<close>

record validation_context =
  vc_prev_hash :: bytes
  vc_nbits :: u32
  vc_min_ntime :: u32

record declared_custom_job =
  dcj_declare_mining_job :: declare_mining_job
  dcj_validation_context :: validation_context
  dcj_txid_list :: "bytes list option"
  dcj_validated :: bool

record jd_lib =
  jl_decode_varint :: "bytes \<Rightarrow> (u64, string) result"
  jl_varint_size :: "u64 \<Rightarrow> nat"
  jl_decode_tx :: "bytes \<Rightarrow> (transaction, string) result"
  jl_compute_txid :: "transaction \<Rightarrow> bytes"
  jl_serialize_outputs :: "tx_out list \<Rightarrow> bytes"
  jl_sha256d :: "bytes \<Rightarrow> bytes"

datatype declare_mining_job_result =
    DeclareSuccess
  | DeclareError error_code
  | DeclareMissingTransactions "bytes list"

datatype set_custom_mining_job_result =
    CustomSuccess
  | CustomError error_code

datatype jd_response =
    JdSuccess bytes u32 u32 "bytes list"
  | JdError error_code validation_context
  | JdMissingTransactions "bytes list" validation_context

record ipc_engine =
  ie_allocated_token_entries :: "(u64, u32 \<times> nat) shared_map"
  ie_declared_custom_jobs :: "(u32, declared_custom_job) shared_map"

definition COINBASE_PREFIX_LEN :: nat where "COINBASE_PREFIX_LEN = 43"

section \<open>The declared job\<close>

definition get_version :: "declared_custom_job \<Rightarrow> u32" where
  "get_version j = dmj_version (dcj_declare_mining_job j)"

definition get_nbits :: "declared_custom_job \<Rightarrow> u32" where
  "get_nbits j = vc_nbits (dcj_validation_context j)"

definition get_prev_hash :: "declared_custom_job \<Rightarrow> bytes" where
  "get_prev_hash j = vc_prev_hash (dcj_validation_context j)"

text \<open>
  The reconstruction of the coinbase.  The slice \<open>[43..]\<close> panics when the prefix is shorter; the
  two subtractions wrap; a vector of more than \<open>isize::MAX\<close> bytes is a capacity-overflow panic.
\<close>

definition get_coinbase_tx :: "jd_lib \<Rightarrow> declare_mining_job \<Rightarrow> (transaction, unit) result option" where
  "get_coinbase_tx lib msg =
     (let pre = dmj_coinbase_tx_prefix msg; suf = dmj_coinbase_tx_suffix msg in
      if length pre < COINBASE_PREFIX_LEN then None
      else case jl_decode_varint lib (drop COINBASE_PREFIX_LEN pre) of
        Inl _ \<Rightarrow> Some (Err ())
      | Inr script_sig_size \<Rightarrow>
          (let varint_size = jl_varint_size lib script_sig_size;
               script_sig_offset = word_of_nat (COINBASE_PREFIX_LEN + varint_size) :: u64;
               script_sig_bytes_in_prefix = word_of_nat (length pre) - script_sig_offset;
               full_extranonce_size = script_sig_size - script_sig_bytes_in_prefix
           in if 2 ^ 63 \<le> unat full_extranonce_size then None
              else case jl_decode_tx lib (pre @ replicate (unat full_extranonce_size) 0 @ suf) of
                     Inl _ \<Rightarrow> Some (Err ()) | Inr tx \<Rightarrow> Some (Ok tx)))"

definition get_merkle_path :: "jd_lib \<Rightarrow> declared_custom_job \<Rightarrow> (bytes list, unit) result option" where
  "get_merkle_path lib j =
     (if \<not> dcj_validated j then Some (Err ())
      else case dcj_txid_list j of
        None \<Rightarrow> Some (Err ())
      | Some txid_list \<Rightarrow>
          (case get_coinbase_tx lib (dcj_declare_mining_job j) of
             Some (Inr coinbase_tx) \<Rightarrow>
               (let hashes = jl_compute_txid lib coinbase_tx # txid_list in
                if length hashes = 1 then Some (Ok [])
                else Some (Ok (jd_merkle_branch (jl_sha256d lib) hashes)))
           | _ \<Rightarrow> None))"

section \<open>The engine\<close>

definition ipc_engine_new :: ipc_engine where
  "ipc_engine_new = \<lparr>ie_allocated_token_entries = sm_new, ie_declared_custom_jobs = sm_new\<rparr>"

definition validation_context_drifted :: "validation_context \<Rightarrow> validation_context \<Rightarrow> bool" where
  "validation_context_drifted p c =
     (vc_prev_hash p \<noteq> vc_prev_hash c \<or> vc_nbits p \<noteq> vc_nbits c \<or> vc_min_ntime p \<noteq> vc_min_ntime c)"

text \<open>One janitor pass over the expired tokens, in iteration order.\<close>

definition engine_janitor :: "nat \<Rightarrow> nat \<Rightarrow> ipc_engine \<Rightarrow> ipc_engine" where
  "engine_janitor now timeout e =
     (let expired = map fst (filter (\<lambda>(_, (_, inserted_at)). now - inserted_at > timeout)
                              (ie_allocated_token_entries e))
      in fold (\<lambda>token e. case sm_get_cloned (ie_allocated_token_entries e) token of
             None \<Rightarrow> e
           | Some (request_id, _) \<Rightarrow>
               e\<lparr>ie_allocated_token_entries := snd (sm_remove token (ie_allocated_token_entries e)),
                 ie_declared_custom_jobs := snd (sm_remove request_id (ie_declared_custom_jobs e))\<rparr>)
           expired e)"

definition store_declared_job ::
  "nat \<Rightarrow> u64 \<Rightarrow> u32 \<Rightarrow> declared_custom_job \<Rightarrow> ipc_engine \<Rightarrow> ipc_engine" where
  "store_declared_job now token request_id job e =
     e\<lparr>ie_declared_custom_jobs := snd (sm_insert request_id job (ie_declared_custom_jobs e)),
       ie_allocated_token_entries := snd (sm_insert token (request_id, now) (ie_allocated_token_entries e))\<rparr>"

definition drop_declared_job :: "u64 \<Rightarrow> u32 \<Rightarrow> ipc_engine \<Rightarrow> ipc_engine" where
  "drop_declared_job token request_id e =
     e\<lparr>ie_declared_custom_jobs := snd (sm_remove request_id (ie_declared_custom_jobs e)),
       ie_allocated_token_entries := snd (sm_remove token (ie_allocated_token_entries e))\<rparr>"

text \<open>What the engine does with the node's reply to a declaration.\<close>

definition apply_jd_response ::
  "nat \<Rightarrow> u64 \<Rightarrow> declare_mining_job \<Rightarrow> bool \<Rightarrow> validation_context option \<Rightarrow> jd_response \<Rightarrow> ipc_engine
    \<Rightarrow> declare_mining_job_result \<times> ipc_engine" where
  "apply_jd_response now token msg retry previous response e =
     (let request_id = dmj_request_id msg;
          drifted = (\<lambda>ctx. case previous of None \<Rightarrow> False | Some p \<Rightarrow> validation_context_drifted p ctx)
      in case response of
        JdSuccess prev_hash nbits min_ntime txid_list \<Rightarrow>
          (DeclareSuccess,
           store_declared_job now token request_id
             \<lparr>dcj_declare_mining_job = msg,
              dcj_validation_context = \<lparr>vc_prev_hash = prev_hash, vc_nbits = nbits, vc_min_ntime = min_ntime\<rparr>,
              dcj_txid_list = Some txid_list, dcj_validated = True\<rparr> e)
      | JdError error_code ctx \<Rightarrow>
          (DeclareError (if drifted ctx then EC_DECLARE_MINING_JOB_STALE_CHAIN_TIP else error_code),
           drop_declared_job token request_id e)
      | JdMissingTransactions missing ctx \<Rightarrow>
          (if retry \<and> drifted ctx
           then (DeclareError EC_DECLARE_MINING_JOB_STALE_CHAIN_TIP, drop_declared_job token request_id e)
           else (DeclareMissingTransactions missing,
                 store_declared_job now token request_id
                   \<lparr>dcj_declare_mining_job = msg, dcj_validation_context = ctx,
                    dcj_txid_list = None, dcj_validated = False\<rparr> e)))"

text \<open>
  \<open>response\<close> is \<^const>\<open>None\<close> when the request cannot be sent or its reply channel is dropped.
  Undecodable provided transactions are skipped; the request forwarded to the node is the third
  component of the result.
\<close>

record jd_request =
  jr_version :: u32
  jr_coinbase_tx :: transaction
  jr_wtxid_list :: "bytes list"
  jr_missing_txs :: "transaction list"

definition provided_transactions :: "jd_lib \<Rightarrow> provide_missing_transactions_success option \<Rightarrow> transaction list" where
  "provided_transactions lib provided = (case provided of
     None \<Rightarrow> []
   | Some p \<Rightarrow> List.map_filter (\<lambda>b. case jl_decode_tx lib b of Inl _ \<Rightarrow> None | Inr tx \<Rightarrow> Some tx)
                (pmt_transaction_list p))"

definition engine_declare ::
  "jd_lib \<Rightarrow> nat \<Rightarrow> jd_response option \<Rightarrow> declare_mining_job \<Rightarrow> provide_missing_transactions_success option
    \<Rightarrow> ipc_engine \<Rightarrow> (declare_mining_job_result \<times> ipc_engine \<times> jd_request option) option" where
  "engine_declare lib now response msg provided e =
     (case token_of_bytes (dmj_mining_job_token msg) of
        None \<Rightarrow> Some (DeclareError EC_DECLARE_MINING_JOB_INVALID_MINING_JOB_TOKEN, e, None)
      | Some token \<Rightarrow>
        (case get_coinbase_tx lib msg of
           None \<Rightarrow> None
         | Some (Inl _) \<Rightarrow> Some (DeclareError EC_DECLARE_MINING_JOB_INVALID_COINBASE_TX, e, None)
         | Some (Inr tx) \<Rightarrow>
           (if length (tx_input tx) \<noteq> 1
            then Some (DeclareError EC_DECLARE_MINING_JOB_INVALID_COINBASE_TX_INPUT, e, None)
            else
             (let previous = (case provided of None \<Rightarrow> None
                | Some _ \<Rightarrow> map_option dcj_validation_context
                             (sm_get_cloned (ie_declared_custom_jobs e) (dmj_request_id msg)));
                  request = \<lparr>jr_version = dmj_version msg, jr_coinbase_tx = tx,
                             jr_wtxid_list = dmj_wtxid_list msg,
                             jr_missing_txs = provided_transactions lib provided\<rparr>
              in case response of
                   None \<Rightarrow> Some (DeclareError EC_DECLARE_MINING_JOB_INTERNAL_ERROR, e, Some request)
                 | Some r \<Rightarrow>
                     (let (res, e') = apply_jd_response now token msg (provided \<noteq> None) previous r e
                      in Some (res, e', Some request))))))"

text \<open>The field-by-field comparison of a custom job with the declared one.\<close>

definition check_custom_coinbase ::
  "jd_lib \<Rightarrow> set_custom_mining_job \<Rightarrow> transaction \<Rightarrow> error_code option" where
  "check_custom_coinbase lib scm tx =
     (if tx_version tx \<noteq> scm_coinbase_tx_version scm
      then Some EC_SET_CUSTOM_MINING_JOB_INVALID_COINBASE_TX_VERSION
      else if \<not> prefix (scm_coinbase_prefix scm) (txin_script_sig (tx_input tx ! 0))
      then Some EC_SET_CUSTOM_MINING_JOB_INVALID_COINBASE_PREFIX
      else if txin_sequence (tx_input tx ! 0) \<noteq> scm_coinbase_tx_input_n_sequence scm
      then Some EC_SET_CUSTOM_MINING_JOB_INVALID_COINBASE_TX_INPUT_N_SEQUENCE
      else if jl_serialize_outputs lib (tx_output tx) \<noteq> scm_coinbase_tx_outputs scm
      then Some EC_SET_CUSTOM_MINING_JOB_INVALID_COINBASE_TX_OUTPUTS
      else if tx_lock_time tx \<noteq> scm_coinbase_tx_locktime scm
      then Some EC_SET_CUSTOM_MINING_JOB_INVALID_COINBASE_TX_LOCKTIME
      else None)"

definition check_custom_job ::
  "jd_lib \<Rightarrow> set_custom_mining_job \<Rightarrow> declared_custom_job \<Rightarrow> set_custom_mining_job_result option" where
  "check_custom_job lib scm j =
     (if \<not> dcj_validated j then Some (CustomError EC_SET_CUSTOM_MINING_JOB_JOB_NOT_YET_VALIDATED)
      else if scm_prev_hash scm \<noteq> get_prev_hash j
      then Some (CustomError EC_SET_CUSTOM_MINING_JOB_STALE_CHAIN_TIP)
      else if scm_nbits scm \<noteq> get_nbits j then Some (CustomError EC_SET_CUSTOM_MINING_JOB_INVALID_NBITS)
      else if scm_version scm \<noteq> get_version j
      then Some (CustomError EC_SET_CUSTOM_MINING_JOB_INVALID_VERSION)
      else case get_coinbase_tx lib (dcj_declare_mining_job j) of
        None \<Rightarrow> None
      | Some (Inl _) \<Rightarrow> Some (CustomError EC_SET_CUSTOM_MINING_JOB_INVALID_COINBASE_TX)
      | Some (Inr tx) \<Rightarrow>
          (case check_custom_coinbase lib scm tx of
             Some code \<Rightarrow> Some (CustomError code)
           | None \<Rightarrow>
             (case get_merkle_path lib j of
                None \<Rightarrow> None
              | Some (Inl _) \<Rightarrow> Some (CustomError EC_SET_CUSTOM_MINING_JOB_JOB_NOT_YET_VALIDATED)
              | Some (Inr path) \<Rightarrow>
                  (if path \<noteq> scm_merkle_path scm
                   then Some (CustomError EC_SET_CUSTOM_MINING_JOB_INVALID_MERKLE_PATH)
                   else Some CustomSuccess))))"

definition engine_set_custom ::
  "jd_lib \<Rightarrow> set_custom_mining_job \<Rightarrow> u64 \<Rightarrow> ipc_engine \<Rightarrow> (set_custom_mining_job_result \<times> ipc_engine) option" where
  "engine_set_custom lib scm token e =
     (case sm_get_cloned (ie_allocated_token_entries e) token of
        None \<Rightarrow> Some (CustomError EC_SET_CUSTOM_MINING_JOB_INVALID_MINING_JOB_TOKEN, e)
      | Some (request_id, _) \<Rightarrow>
        (let e = e\<lparr>ie_allocated_token_entries := snd (sm_remove token (ie_allocated_token_entries e))\<rparr> in
         case sm_get_cloned (ie_declared_custom_jobs e) request_id of
           None \<Rightarrow> Some (CustomError EC_SET_CUSTOM_MINING_JOB_INVALID_MINING_JOB_TOKEN, e)
         | Some job \<Rightarrow>
           (let e = e\<lparr>ie_declared_custom_jobs := snd (sm_remove request_id (ie_declared_custom_jobs e))\<rparr>
            in map_option (\<lambda>r. (r, e)) (check_custom_job lib scm job))))"

section \<open>Lemmas\<close>

lemma check_custom_coinbase_None_iff:
  "check_custom_coinbase lib scm tx = None \<longleftrightarrow>
     tx_version tx = scm_coinbase_tx_version scm \<and>
     prefix (scm_coinbase_prefix scm) (txin_script_sig (tx_input tx ! 0)) \<and>
     txin_sequence (tx_input tx ! 0) = scm_coinbase_tx_input_n_sequence scm \<and>
     jl_serialize_outputs lib (tx_output tx) = scm_coinbase_tx_outputs scm \<and>
     tx_lock_time tx = scm_coinbase_tx_locktime scm"
  by (auto simp: check_custom_coinbase_def)

lemma get_merkle_path_eq:
  assumes "dcj_validated j" and "dcj_txid_list j = Some txids"
    and "get_coinbase_tx lib (dcj_declare_mining_job j) = Some (Ok tx)"
  shows "get_merkle_path lib j = Some (Ok (coinbase_merkle_path (jl_sha256d lib) txids))"
proof -
  have path: "jd_merkle_branch h (c # ids) = coinbase_merkle_path h ids" for h c ids
    unfolding jd_branch_eq_path coinbase_merkle_path_def by (rule path_first_leaf_irrelevant)
  have "coinbase_merkle_path h [] = []" for h
    by (simp add: coinbase_merkle_path_def merkle_path_for_first_leaf.simps)
  with assms path show ?thesis by (auto simp: get_merkle_path_def Let_def)
qed

lemma check_custom_job_Success:
  assumes "check_custom_job lib scm j = Some CustomSuccess"
  obtains tx txids where "dcj_validated j" "scm_prev_hash scm = vc_prev_hash (dcj_validation_context j)"
    "scm_nbits scm = vc_nbits (dcj_validation_context j)"
    "scm_version scm = dmj_version (dcj_declare_mining_job j)"
    "get_coinbase_tx lib (dcj_declare_mining_job j) = Some (Ok tx)"
    "check_custom_coinbase lib scm tx = None" "dcj_txid_list j = Some txids"
    "scm_merkle_path scm = coinbase_merkle_path (jl_sha256d lib) txids"
proof -
  from assms obtain tx where *: "dcj_validated j" "scm_prev_hash scm = get_prev_hash j"
    "scm_nbits scm = get_nbits j" "scm_version scm = get_version j"
    "get_coinbase_tx lib (dcj_declare_mining_job j) = Some (Ok tx)"
    "check_custom_coinbase lib scm tx = None" "get_merkle_path lib j = Some (Ok (scm_merkle_path scm))"
    by (auto simp: check_custom_job_def split: if_splits option.splits sum.splits)
  from *(1,7) obtain txids where txids: "dcj_txid_list j = Some txids"
    by (auto simp: get_merkle_path_def split: option.splits)
  show thesis
    by (rule that [of tx txids])
      (use * txids get_merkle_path_eq [OF *(1) txids *(5)] in
        \<open>simp_all add: get_prev_hash_def get_nbits_def get_version_def\<close>)
qed

text \<open>The job a token stands for.\<close>

definition job_of_token :: "ipc_engine \<Rightarrow> u64 \<Rightarrow> declared_custom_job option" where
  "job_of_token e token = (case sm_get_cloned (ie_allocated_token_entries e) token of
     None \<Rightarrow> None | Some (request_id, _) \<Rightarrow> sm_get_cloned (ie_declared_custom_jobs e) request_id)"

lemma job_of_token_None: "job_of_token e token = None \<Longrightarrow>
  \<exists>e'. engine_set_custom lib scm token e = Some (CustomError EC_SET_CUSTOM_MINING_JOB_INVALID_MINING_JOB_TOKEN, e')"
  by (auto simp: job_of_token_def engine_set_custom_def Let_def split: option.splits prod.splits)

lemma engine_set_custom_consumes:
  assumes "engine_set_custom lib scm token e = Some (r, e')"
  shows "job_of_token e' token = None"
  using assms
  by (auto simp: job_of_token_def engine_set_custom_def sm_get_cloned_def Let_def
      split: option.splits prod.splits)

section \<open>A concrete library\<close>

text \<open>
  An instance of the parameters on which the properties are exercised: the length byte is the
  first byte, and a transaction has the given bytes as the script of its only input.
\<close>

definition plain_jd_lib :: jd_lib where
  "plain_jd_lib =
     \<lparr>jl_decode_varint = (\<lambda>b. case b of [] \<Rightarrow> Err ''empty'' | x # _ \<Rightarrow> Ok (ucast x)),
      jl_varint_size = (\<lambda>_. 1),
      jl_decode_tx = (\<lambda>b. Ok \<lparr>tx_version = 2, tx_lock_time = 0,
         tx_input = [\<lparr>txin_previous_output_null = True, txin_script_sig = drop 44 b,
                      txin_sequence = - 1, txin_witness = []\<rparr>], tx_output = []\<rparr>),
      jl_compute_txid = (\<lambda>t. concat (map txin_script_sig (tx_input t))),
      jl_serialize_outputs = (\<lambda>os. concat (map txout_script_pubkey os)),
      jl_sha256d = (\<lambda>b. word_of_nat (length b) # take 31 b)\<rparr>"

definition sample_declare :: declare_mining_job where
  "sample_declare = \<lparr>dmj_request_id = 9, dmj_mining_job_token = token_bytes 4, dmj_version = 7,
     dmj_coinbase_tx_prefix = replicate 43 0 @ [2, 5], dmj_coinbase_tx_suffix = [],
     dmj_wtxid_list = [], dmj_excess_data = []\<rparr>"

definition sample_custom :: set_custom_mining_job where
  "sample_custom = \<lparr>scm_channel_id = 1, scm_request_id = 2, scm_token = token_bytes 5, scm_version = 7,
     scm_prev_hash = [9], scm_min_ntime = 0, scm_nbits = 3, scm_coinbase_tx_version = 2,
     scm_coinbase_prefix = [5], scm_coinbase_tx_input_n_sequence = - 1, scm_coinbase_tx_outputs = [],
     scm_coinbase_tx_locktime = 0, scm_merkle_path = []\<rparr>"

definition sample_engine :: ipc_engine where
  "sample_engine = snd (apply_jd_response 0 4 sample_declare False None (JdSuccess [9] 3 0 []) ipc_engine_new)"

lemma sample_coinbase:
  "get_coinbase_tx plain_jd_lib sample_declare = Some (Ok
     \<lparr>tx_version = 2, tx_lock_time = 0,
      tx_input = [\<lparr>txin_previous_output_null = True, txin_script_sig = [5, 0], txin_sequence = - 1, txin_witness = []\<rparr>],
      tx_output = []\<rparr>)"
  by (simp add: get_coinbase_tx_def sample_declare_def plain_jd_lib_def COINBASE_PREFIX_LEN_def Let_def)

section \<open>Properties\<close>

text \<open>
  C6. A custom job is accepted only if it is the declared one: when the engine answers success,
  the token stands for a job the node has validated, and the custom job agrees with it on previous
  hash, compact bits, version, coinbase version, script prefix, sequence, outputs and lock time,
  and its merkle path is the coinbase path of the validated transactions.  Whatever the answer,
  the token is consumed.
\<close>

theorem custom_job_matches_declared:
  assumes "engine_set_custom lib scm token e = Some (r, e')"
  shows "job_of_token e' token = None \<and>
    (r = CustomSuccess \<longrightarrow>
      (\<exists>j tx txids. job_of_token e token = Some j \<and> dcj_validated j \<and>
        scm_prev_hash scm = vc_prev_hash (dcj_validation_context j) \<and>
        scm_nbits scm = vc_nbits (dcj_validation_context j) \<and>
        scm_version scm = dmj_version (dcj_declare_mining_job j) \<and>
        get_coinbase_tx lib (dcj_declare_mining_job j) = Some (Ok tx) \<and>
        scm_coinbase_tx_version scm = tx_version tx \<and>
        prefix (scm_coinbase_prefix scm) (txin_script_sig (tx_input tx ! 0)) \<and>
        scm_coinbase_tx_input_n_sequence scm = txin_sequence (tx_input tx ! 0) \<and>
        scm_coinbase_tx_outputs scm = jl_serialize_outputs lib (tx_output tx) \<and>
        scm_coinbase_tx_locktime scm = tx_lock_time tx \<and>
        dcj_txid_list j = Some txids \<and>
        scm_merkle_path scm = coinbase_merkle_path (jl_sha256d lib) txids))"
proof -
  have "\<exists>j. job_of_token e token = Some j \<and> check_custom_job lib scm j = Some CustomSuccess" if "r = CustomSuccess"
    using assms that
    by (auto simp: engine_set_custom_def job_of_token_def sm_get_cloned_def Let_def split: option.splits prod.splits)
  then show ?thesis
    using engine_set_custom_consumes [OF assms]
    by (auto elim!: check_custom_job_Success simp: check_custom_coinbase_None_iff)
qed

theorem custom_job_matches_declared_witness:
  "\<exists>e'. engine_set_custom plain_jd_lib sample_custom 4 sample_engine = Some (CustomSuccess, e') \<and>
     job_of_token e' 4 = None \<and>
     (\<exists>j. job_of_token sample_engine 4 = Some j \<and> scm_version sample_custom = dmj_version (dcj_declare_mining_job j))"
proof -
  let ?j = "\<lparr>dcj_declare_mining_job = sample_declare,
      dcj_validation_context = \<lparr>vc_prev_hash = [9], vc_nbits = 3, vc_min_ntime = 0\<rparr>,
      dcj_txid_list = Some [], dcj_validated = True\<rparr>"
  have e: "sample_engine = \<lparr>ie_allocated_token_entries = [(4, (9, 0))], ie_declared_custom_jobs = [(9, ?j)]\<rparr>"
    by (simp add: sample_engine_def apply_jd_response_def store_declared_job_def ipc_engine_new_def sm_new_def
        sample_declare_def)
  have "check_custom_job plain_jd_lib sample_custom ?j = Some CustomSuccess"
    by (simp add: check_custom_job_def sample_coinbase get_prev_hash_def get_nbits_def get_version_def
        check_custom_coinbase_def get_merkle_path_def sample_custom_def)
      (simp add: sample_declare_def plain_jd_lib_def)
  then obtain e' where "engine_set_custom plain_jd_lib sample_custom 4 sample_engine = Some (CustomSuccess, e')"
    by (auto simp: engine_set_custom_def e sm_get_cloned_def)
  from custom_job_matches_declared [OF this] this show ?thesis by blast
qed

text \<open>
  A declaration can stop the server: a coinbase prefix of fewer than 43 bytes, or one that
  already holds more script bytes than its own length field announces, makes the reconstruction of
  the coinbase panic instead of answering with an error.
\<close>

theorem short_coinbase_prefix_panics:
  assumes "token_of_bytes (dmj_mining_job_token msg) = Some token"
    and "length (dmj_coinbase_tx_prefix msg) < 43 \<or>
      (\<exists>n. jl_decode_varint lib (drop 43 (dmj_coinbase_tx_prefix msg)) = Ok n \<and> unat n < 2 ^ 62 \<and>
         43 + jl_varint_size lib n + unat n < length (dmj_coinbase_tx_prefix msg) \<and>
         length (dmj_coinbase_tx_prefix msg) < 2 ^ 62)"
  shows "engine_declare lib now response msg provided e = None"
proof -
  let ?pre = "dmj_coinbase_tx_prefix msg"
  have "get_coinbase_tx lib msg = None"
  proof (cases "length ?pre < 43")
    case False
    then obtain n where n: "jl_decode_varint lib (drop 43 ?pre) = Ok n" "unat n < 2 ^ 62"
      "43 + jl_varint_size lib n + unat n < length ?pre" "length ?pre < 2 ^ 62" using assms(2) by blast
    let ?o = "43 + jl_varint_size lib n"
    let ?k = "word_of_nat (length ?pre) - word_of_nat ?o :: u64"
    have k: "?k = word_of_nat (length ?pre - ?o)" using n(3) by (simp add: of_nat_diff)
    have uk: "unat ?k = length ?pre - ?o" unfolding k using n(4) by (simp add: unat_of_nat)
    have nk: "unat n < unat ?k" "unat ?k < 2 ^ 62" using n uk by linarith+
    then have "unat (n - ?k) = unat n + 2 ^ 64 - unat ?k" by (simp add: unat_sub_if')
    then have "2 ^ 63 \<le> unat (n - ?k)" using nk by simp
    with False n show ?thesis by (simp add: get_coinbase_tx_def COINBASE_PREFIX_LEN_def Let_def)
  qed (simp add: get_coinbase_tx_def COINBASE_PREFIX_LEN_def)
  with assms(1) show ?thesis by (simp add: engine_declare_def)
qed

theorem short_coinbase_prefix_panics_witness:
  "engine_declare plain_jd_lib 0 None (sample_declare\<lparr>dmj_coinbase_tx_prefix := []\<rparr>) None ipc_engine_new = None"
  by (rule short_coinbase_prefix_panics [where token = 4]) (simp_all add: sample_declare_def)

text \<open>
  Declared jobs are keyed by the request id the client chose: when two clients declare jobs
  with the same request id, the second declaration replaces the job of the first client's token,
  and using either token makes the other one invalid.
\<close>

theorem request_id_collision_overwrites:
  assumes "dmj_request_id msg2 = dmj_request_id msg1" and "tok1 \<noteq> tok2"
    and "apply_jd_response now1 tok1 msg1 retry1 prev1 (JdSuccess h1 b1 t1 ids1) e = (r1, e1)"
    and "apply_jd_response now2 tok2 msg2 retry2 prev2 (JdSuccess h2 b2 t2 ids2) e1 = (r2, e2)"
  shows "r1 = DeclareSuccess \<and> r2 = DeclareSuccess \<and>
    map_option dcj_declare_mining_job (job_of_token e2 tok1) = Some msg2 \<and>
    (\<forall>lib scm r e3. engine_set_custom lib scm tok2 e2 = Some (r, e3) \<longrightarrow> job_of_token e3 tok1 = None)"
proof -
  note defs = apply_jd_response_def store_declared_job_def job_of_token_def sm_get_cloned_def Let_def
  have "map_option dcj_declare_mining_job (job_of_token e2 tok1) = Some msg2"
    using assms by (auto simp: defs)
  moreover have "job_of_token e3 tok1 = None" if "engine_set_custom lib scm tok2 e2 = Some (r, e3)" for lib scm r e3
    using that assms by (auto simp: defs engine_set_custom_def)
  ultimately show ?thesis using assms(3,4) by (auto simp: apply_jd_response_def Let_def)
qed

theorem request_id_collision_overwrites_witness:
  "map_option dcj_declare_mining_job (job_of_token
     (snd (apply_jd_response 0 6 (sample_declare\<lparr>dmj_version := 8\<rparr>) False None (JdSuccess [9] 3 0 []) sample_engine)) 4)
   = Some (sample_declare\<lparr>dmj_version := 8\<rparr>)"
proof -
  have 1: "apply_jd_response 0 4 sample_declare False None (JdSuccess [9] 3 0 []) ipc_engine_new =
      (DeclareSuccess, sample_engine)"
    by (simp add: sample_engine_def apply_jd_response_def Let_def)
  have "(4 :: u64) \<noteq> 6" by simp
  from request_id_collision_overwrites [OF _ this 1 prod.collapse [symmetric]] show ?thesis by simp
qed

end
