(* ===== verification/Job_Declarator.thy ===== *)
theory Job_Declarator
  imports Token_Manager Job_Validation
begin

text \<open>
  The job declarator (\<open>pool-apps/jd-server/src/lib/job_declarator/mod.rs\<close> and
  \<open>job_declaration_message_handler.rs\<close>): the handlers of the Job Declaration Protocol, the
  validation of custom jobs for the pool, error actions, and the clean-up of a client.

  The validation backend is a trait object in the source; here it is a record of operations on an
  engine state, instantiated with the Bitcoin Core engine at the end.  Messages sent to clients
  are the output list of a handler.  A panic inside the backend is the outer \<^const>\<open>None\<close>.
\<close>

section \<open>Errors\<close>

datatype jds_action = JdsLog | JdsDisconnect downstream_id | JdsShutdown

datatype jds_error_kind =
    JdsChannelSend
  | JdsChannelRecv
  | JdsBinarySv2
  | JdsParser
  | JdsUnexpectedMessage u16 u8
  | JdsClientNotFound downstream_id
  | JdsClientSenderNotFound downstream_id
  | JdsPendingDeclareMiningJobNotFound u32
  | JdsUnsupportedProtocol
  | JdsUnsupportedConnectionFlags

record jds_error =
  je_kind :: jds_error_kind
  je_action :: jds_action

definition jds_shutdown :: "jds_error_kind \<Rightarrow> jds_error" where
  "jds_shutdown k = \<lparr>je_kind = k, je_action = JdsShutdown\<rparr>"

definition jds_disconnect :: "jds_error_kind \<Rightarrow> downstream_id \<Rightarrow> jds_error" where
  "jds_disconnect k d = \<lparr>je_kind = k, je_action = JdsDisconnect d\<rparr>"

definition jds_log :: "jds_error_kind \<Rightarrow> jds_error" where
  "jds_log k = \<lparr>je_kind = k, je_action = JdsLog\<rparr>"

datatype loop_control = LoopContinue | LoopBreak

section \<open>State\<close>

record 'e validation_engine =
  ve_declare :: "'e \<Rightarrow> declare_mining_job \<Rightarrow> provide_missing_transactions_success option
    \<Rightarrow> (declare_mining_job_result \<times> 'e) option"
  ve_set_custom :: "'e \<Rightarrow> set_custom_mining_job \<Rightarrow> u64 \<Rightarrow> (set_custom_mining_job_result \<times> 'e) option"
  ve_push :: "'e \<Rightarrow> push_solution \<Rightarrow> 'e"

record jd_downstream =
  jdd_pending_declare_mining_jobs :: "(u32, nat \<times> declare_mining_job) shared_map"
  jdd_negotiated_extensions :: "u16 list"
  jdd_cancelled :: bool

record 'e job_declarator =
  jd_token_manager :: token_manager
  jd_engine :: 'e
  jd_client_senders :: "(downstream_id, unit) shared_map"
  jd_downstream_clients :: "(downstream_id, jd_downstream) shared_map"
  jd_downstream_id_factory :: nat
  jd_coinbase_reward_script :: coinbase_reward_script

record jd_env =
  jv_now :: nat
  jv_send_ok :: "downstream_id \<Rightarrow> bool"
  jv_serialize_outputs :: "tx_out list \<Rightarrow> bytes"
  jv_limits :: sv2_limits

type_synonym jd_out = "(downstream_id \<times> jdp_message) list"
type_synonym 'e jd_result = "((unit, jds_error) result \<times> 'e job_declarator \<times> jd_out) option"

definition job_declarator_new :: "'e \<Rightarrow> coinbase_reward_script \<Rightarrow> 'e job_declarator" where
  "job_declarator_new engine script =
     \<lparr>jd_token_manager = token_manager_new, jd_engine = engine, jd_client_senders = sm_new,
      jd_downstream_clients = sm_new, jd_downstream_id_factory = 0, jd_coinbase_reward_script = script\<rparr>"

text \<open>The body of the accept loop, once the Noise handshake succeeded.\<close>

definition jd_accept_downstream :: "'e job_declarator \<Rightarrow> downstream_id \<times> 'e job_declarator" where
  "jd_accept_downstream jd =
     (let d = jd_downstream_id_factory jd;
          client = \<lparr>jdd_pending_declare_mining_jobs = sm_new, jdd_negotiated_extensions = [], jdd_cancelled = False\<rparr>
      in (d, jd\<lparr>jd_downstream_id_factory := d + 1,
                jd_downstream_clients := snd (sm_insert d client (jd_downstream_clients jd)),
                jd_client_senders := snd (sm_insert d () (jd_client_senders jd))\<rparr>))"

definition cleanup_downstream :: "downstream_id \<Rightarrow> 'e job_declarator \<Rightarrow> 'e job_declarator" where
  "cleanup_downstream d jd =
     jd\<lparr>jd_downstream_clients := snd (sm_remove d (jd_downstream_clients jd)),
        jd_client_senders := snd (sm_remove d (jd_client_senders jd)),
        jd_token_manager := token_remove_downstream d (jd_token_manager jd)\<rparr>"

definition jd_handle_error_action :: "jds_error \<Rightarrow> 'e job_declarator \<Rightarrow> loop_control \<times> 'e job_declarator" where
  "jd_handle_error_action e jd = (case je_action e of
     JdsLog \<Rightarrow> (LoopContinue, jd)
   | JdsDisconnect d \<Rightarrow> (LoopContinue, cleanup_downstream d jd)
   | JdsShutdown \<Rightarrow> (LoopBreak, jd))"

definition jd_shutdown :: "'e job_declarator \<Rightarrow> 'e job_declarator" where
  "jd_shutdown jd = jd\<lparr>jd_client_senders := sm_clear (jd_client_senders jd),
                      jd_downstream_clients := sm_clear (jd_downstream_clients jd)\<rparr>"

section \<open>Handlers\<close>

definition jd_send :: "jd_env \<Rightarrow> downstream_id \<Rightarrow> jdp_message \<Rightarrow> 'e job_declarator \<Rightarrow> 'e jd_result" where
  "jd_send env client_id m jd =
     (if jv_send_ok env client_id then Some (Ok (), jd, [(client_id, m)])
      else Some (Err (jds_disconnect JdsChannelSend client_id), jd, []))"

definition jd_get_negotiated_extensions ::
  "downstream_id option \<Rightarrow> 'e job_declarator \<Rightarrow> (u16 list, jds_error) result" where
  "jd_get_negotiated_extensions client_id jd =
     rbind (ok_or (jds_shutdown (JdsClientNotFound 0)) client_id) (\<lambda>client_id.
     rbind (ok_or (jds_disconnect (JdsClientNotFound client_id) client_id)
              (sm_get_cloned (jd_downstream_clients jd) client_id)) (\<lambda>d. Ok (jdd_negotiated_extensions d)))"

definition handle_allocate_mining_job_token ::
  "jd_env \<Rightarrow> downstream_id option \<Rightarrow> u32 \<Rightarrow> 'e job_declarator \<Rightarrow> 'e jd_result" where
  "handle_allocate_mining_job_token env client_id request_id jd = (case client_id of
     None \<Rightarrow> Some (Err (jds_shutdown (JdsClientNotFound 0)), jd, [])
   | Some client_id \<Rightarrow>
      (let (token, tk) = token_allocate (jv_now env) client_id (jd_token_manager jd);
           jd = jd\<lparr>jd_token_manager := tk\<rparr>;
           outputs = jv_serialize_outputs env [TxOut 0 (crs_script_pubkey (jd_coinbase_reward_script jd))];
           m = AllocateMiningJobTokenSuccess request_id (token_bytes token) outputs
       in if \<not> sm_contains_key (jd_client_senders jd) client_id
          then Some (Err (jds_disconnect (JdsClientSenderNotFound client_id) client_id), jd, [])
          else jd_send env client_id m jd))"

definition unknown_tx_position_list :: "bytes list \<Rightarrow> bytes list \<Rightarrow> u16 list" where
  "unknown_tx_position_list missing wtxids =
     List.map_filter (\<lambda>w. case find (\<lambda>i. wtxids ! i = w) [0..<length wtxids] of
        None \<Rightarrow> None | Some pos \<Rightarrow> Some (word_of_nat pos)) missing"

text \<open>The reply to the backend's verdict on a fresh declaration.\<close>

definition declare_response ::
  "jd_env \<Rightarrow> downstream_id \<Rightarrow> u64 \<Rightarrow> declare_mining_job \<Rightarrow> declare_mining_job_result \<Rightarrow> 'e job_declarator
    \<Rightarrow> 'e jd_result" where
  "declare_response env client_id token msg verdict jd = (case verdict of
     DeclareSuccess \<Rightarrow>
       (let (activated, tk) = token_activate (jv_now env) token client_id (jd_token_manager jd)
        in jd_send env client_id (DeclareMiningJobSuccess (dmj_request_id msg) (token_bytes activated))
             (jd\<lparr>jd_token_manager := tk\<rparr>))
   | DeclareError code \<Rightarrow>
       jd_send env client_id (DeclareMiningJobError (dmj_request_id msg) code [])
         (jd\<lparr>jd_token_manager := token_deallocate token (jd_token_manager jd)\<rparr>)
   | DeclareMissingTransactions missing \<Rightarrow>
       (case sm_get_cloned (jd_downstream_clients jd) client_id of
          None \<Rightarrow> Some (Err (jds_disconnect (JdsClientNotFound client_id) client_id), jd, [])
        | Some d \<Rightarrow>
           (let d' = d\<lparr>jdd_pending_declare_mining_jobs :=
                  snd (sm_insert (dmj_request_id msg) (jv_now env, msg) (jdd_pending_declare_mining_jobs d))\<rparr>;
                jd = jd\<lparr>jd_downstream_clients := snd (sm_insert client_id d' (jd_downstream_clients jd))\<rparr>;
                positions = unknown_tx_position_list missing (dmj_wtxid_list msg)
            in if \<not> fits_seq064k (jv_limits env) (length positions)
               then Some (Err (jds_shutdown JdsBinarySv2), jd, [])
               else jd_send env client_id (ProvideMissingTransactions (dmj_request_id msg) positions) jd)))"

definition handle_declare_mining_job ::
  "'e validation_engine \<Rightarrow> jd_env \<Rightarrow> downstream_id option \<Rightarrow> declare_mining_job \<Rightarrow> 'e job_declarator
    \<Rightarrow> 'e jd_result" where
  "handle_declare_mining_job ve env client_id msg jd = (case client_id of
     None \<Rightarrow> Some (Err (jds_shutdown (JdsClientNotFound 0)), jd, [])
   | Some client_id \<Rightarrow>
      (if \<not> sm_contains_key (jd_client_senders jd) client_id
       then Some (Err (jds_disconnect (JdsClientSenderNotFound client_id) client_id), jd, [])
       else
        (let bad_token = DeclareMiningJobError (dmj_request_id msg) EC_DECLARE_MINING_JOB_INVALID_MINING_JOB_TOKEN []
         in case token_of_bytes (dmj_mining_job_token msg) of
              None \<Rightarrow> jd_send env client_id bad_token jd
            | Some token \<Rightarrow>
               (if \<not> token_is_allocated (jd_token_manager jd) token client_id
                then jd_send env client_id bad_token jd
                else case ve_declare ve (jd_engine jd) msg None of
                       None \<Rightarrow> None
                     | Some (verdict, e) \<Rightarrow>
                         declare_response env client_id token msg verdict (jd\<lparr>jd_engine := e\<rparr>)))))"

definition retry_response ::
  "jd_env \<Rightarrow> downstream_id \<Rightarrow> u64 \<Rightarrow> u32 \<Rightarrow> declare_mining_job_result \<Rightarrow> 'e job_declarator \<Rightarrow> 'e jd_result" where
  "retry_response env client_id token request_id verdict jd =
     (let dealloc = jd\<lparr>jd_token_manager := token_deallocate token (jd_token_manager jd)\<rparr> in
      case verdict of
        DeclareSuccess \<Rightarrow>
          (let (activated, tk) = token_activate (jv_now env) token client_id (jd_token_manager jd)
           in jd_send env client_id (DeclareMiningJobSuccess request_id (token_bytes activated))
                (jd\<lparr>jd_token_manager := tk\<rparr>))
      | DeclareError code \<Rightarrow> jd_send env client_id (DeclareMiningJobError request_id code []) dealloc
      | DeclareMissingTransactions _ \<Rightarrow>
          jd_send env client_id (DeclareMiningJobError request_id EC_DECLARE_MINING_JOB_MISSING_TXS []) dealloc)"

definition handle_provide_missing_transactions_success ::
  "'e validation_engine \<Rightarrow> jd_env \<Rightarrow> downstream_id option \<Rightarrow> provide_missing_transactions_success
    \<Rightarrow> 'e job_declarator \<Rightarrow> 'e jd_result" where
  "handle_provide_missing_transactions_success ve env client_id msg jd = (case client_id of
     None \<Rightarrow> Some (Err (jds_shutdown (JdsClientNotFound 0)), jd, [])
   | Some client_id \<Rightarrow>
      (if \<not> sm_contains_key (jd_client_senders jd) client_id
       then Some (Err (jds_disconnect (JdsClientSenderNotFound client_id) client_id), jd, [])
       else case sm_get_cloned (jd_downstream_clients jd) client_id of
         None \<Rightarrow> Some (Err (jds_disconnect (JdsClientNotFound client_id) client_id), jd, [])
       | Some d \<Rightarrow>
         (let (removed, pending) = sm_remove (pmt_request_id msg) (jdd_pending_declare_mining_jobs d);
              jd = jd\<lparr>jd_downstream_clients :=
                 snd (sm_insert client_id (d\<lparr>jdd_pending_declare_mining_jobs := pending\<rparr>) (jd_downstream_clients jd))\<rparr>
          in case removed of
               None \<Rightarrow> Some (Err (jds_log (JdsPendingDeclareMiningJobNotFound (pmt_request_id msg))), jd, [])
             | Some (_, (_, pending_job)) \<Rightarrow>
               (case token_of_bytes (dmj_mining_job_token pending_job) of
                  None \<Rightarrow> None
                | Some token \<Rightarrow>
                  (case ve_declare ve (jd_engine jd) pending_job (Some msg) of
                     None \<Rightarrow> None
                   | Some (verdict, e) \<Rightarrow>
                       retry_response env client_id token (pmt_request_id msg) verdict
                         (jd\<lparr>jd_engine := e\<rparr>))))))"

definition handle_push_solution ::
  "'e validation_engine \<Rightarrow> push_solution \<Rightarrow> 'e job_declarator \<Rightarrow> 'e jd_result" where
  "handle_push_solution ve msg jd = Some (Ok (), jd\<lparr>jd_engine := ve_push ve (jd_engine jd) msg\<rparr>, [])"

datatype jd_client_message =
    AllocateMiningJobToken u32
  | DeclareMiningJob declare_mining_job
  | ProvideMissingTransactionsSuccess provide_missing_transactions_success
  | PushSolution push_solution

definition handle_jdp_message ::
  "'e validation_engine \<Rightarrow> jd_env \<Rightarrow> (downstream_id \<times> jd_client_message) option \<Rightarrow> 'e job_declarator
    \<Rightarrow> 'e jd_result" where
  "handle_jdp_message ve env received jd = (case received of
     None \<Rightarrow> Some (Err (jds_shutdown JdsChannelRecv), jd, [])
   | Some (d, AllocateMiningJobToken request_id) \<Rightarrow> handle_allocate_mining_job_token env (Some d) request_id jd
   | Some (d, DeclareMiningJob m) \<Rightarrow> handle_declare_mining_job ve env (Some d) m jd
   | Some (d, ProvideMissingTransactionsSuccess m) \<Rightarrow>
       handle_provide_missing_transactions_success ve env (Some d) m jd
   | Some (d, PushSolution m) \<Rightarrow> handle_push_solution ve m jd)"

text \<open>One turn of the message loop: the handler, then the action of its error.\<close>

definition jd_loop_step ::
  "'e validation_engine \<Rightarrow> jd_env \<Rightarrow> (downstream_id \<times> jd_client_message) option \<Rightarrow> 'e job_declarator
    \<Rightarrow> (loop_control \<times> 'e job_declarator \<times> jd_out) option" where
  "jd_loop_step ve env received jd = (case handle_jdp_message ve env received jd of
     None \<Rightarrow> None
   | Some (Inr _, jd', out) \<Rightarrow> Some (LoopContinue, jd', out)
   | Some (Inl e, jd', out) \<Rightarrow> (let (c, jd'') = jd_handle_error_action e jd' in Some (c, jd'', out)))"

section \<open>Custom jobs for the pool\<close>

datatype set_custom_mining_job_response =
    ScmOk u32 u32 u32
  | ScmError u32 u32 error_code

definition jd_handle_set_custom_mining_job ::
  "'e validation_engine \<Rightarrow> set_custom_mining_job \<Rightarrow> 'e job_declarator
    \<Rightarrow> (set_custom_mining_job_response \<times> 'e job_declarator) option" where
  "jd_handle_set_custom_mining_job ve scm jd =
     (let request_id = scm_request_id scm; channel_id = scm_channel_id scm;
          invalid = ScmError request_id channel_id EC_SET_CUSTOM_MINING_JOB_INVALID_MINING_JOB_TOKEN
      in case token_of_bytes (scm_token scm) of
        None \<Rightarrow> Some (invalid, jd)
      | Some active_token \<Rightarrow>
        (case token_allocated_from_active (jd_token_manager jd) active_token of
           None \<Rightarrow> Some (invalid, jd)
         | Some allocated_token \<Rightarrow>
           (let jd = jd\<lparr>jd_token_manager := token_deactivate active_token (jd_token_manager jd)\<rparr>
            in case ve_set_custom ve (jd_engine jd) scm allocated_token of
                 None \<Rightarrow> None
               | Some (CustomSuccess, e) \<Rightarrow> Some (ScmOk channel_id request_id 0, jd\<lparr>jd_engine := e\<rparr>)
               | Some (CustomError code, e) \<Rightarrow>
                   Some (ScmError request_id channel_id code, jd\<lparr>jd_engine := e\<rparr>))))"

text \<open>One pass of a client's janitor over its pending declarations.\<close>

definition pending_jobs_janitor :: "nat \<Rightarrow> jd_downstream \<Rightarrow> jd_downstream" where
  "pending_jobs_janitor now d =
     d\<lparr>jdd_pending_declare_mining_jobs :=
        sm_retain (\<lambda>_ (inserted_at, _). \<not> now - inserted_at > ALLOCATED_TOKEN_TIMEOUT_SECS * 1000)
          (jdd_pending_declare_mining_jobs d)\<rparr>"

text \<open>The Bitcoin Core engine as a backend, for one reply of the node.\<close>

definition ipc_validation_engine :: "jd_lib \<Rightarrow> nat \<Rightarrow> jd_response option \<Rightarrow> ipc_engine validation_engine" where
  "ipc_validation_engine lib now response =
     \<lparr>ve_declare = (\<lambda>e msg provided. map_option (\<lambda>(r, e', _). (r, e')) (engine_declare lib now response msg provided e)),
      ve_set_custom = (\<lambda>e scm token. engine_set_custom lib scm token e),
      ve_push = (\<lambda>e _. e)\<rparr>"

section \<open>Invariant\<close>

text \<open>
  The token manager is consistent, and a client has a sender exactly when it is registered.
\<close>

definition jd_inv :: "'e job_declarator \<Rightarrow> bool" where
  "jd_inv jd = (token_inv (jd_token_manager jd) \<and> sm_invar (jd_client_senders jd) \<and>
     sm_invar (jd_downstream_clients jd) \<and>
     sm_dom (jd_client_senders jd) = sm_dom (jd_downstream_clients jd))"

abbreviation jd_room :: "'e job_declarator \<Rightarrow> bool" where
  "jd_room jd \<equiv> factory_room (jd_token_manager jd)"

lemma jd_inv_new [simp]: "jd_inv (job_declarator_new e s)"
  by (simp add: jd_inv_def job_declarator_new_def sm_new_def)

lemma jd_inv_accept [inv_rules]: "jd_inv jd \<Longrightarrow> jd_accept_downstream jd = (d, jd') \<Longrightarrow> jd_inv jd'"
  by (auto simp: jd_inv_def jd_accept_downstream_def Let_def)

lemma jd_inv_cleanup [inv_rules]: "jd_inv jd \<Longrightarrow> jd_inv (cleanup_downstream d jd)"
  by (auto simp: jd_inv_def cleanup_downstream_def token_inv_remove_downstream)

lemma jd_inv_shutdown [inv_rules]: "jd_inv jd \<Longrightarrow> jd_inv (jd_shutdown jd)"
  by (simp add: jd_inv_def jd_shutdown_def sm_clear_def)

lemma jd_inv_tokens:
  "jd_inv jd \<Longrightarrow> token_inv tk \<Longrightarrow> jd_inv (jd\<lparr>jd_token_manager := tk\<rparr>)"
  by (simp add: jd_inv_def)

lemma jd_inv_engine [simp]: "jd_inv (jd\<lparr>jd_engine := e\<rparr>) = jd_inv jd"
  by (simp add: jd_inv_def)

lemma jd_inv_client:
  assumes "jd_inv jd" and "sm_get_cloned (jd_downstream_clients jd) c = Some d"
  shows "jd_inv (jd\<lparr>jd_downstream_clients := AList.update c d' (jd_downstream_clients jd)\<rparr>)"
proof -
  have "c \<in> sm_dom (jd_downstream_clients jd)" using assms(2) by (simp add: sm_dom_iff sm_get_cloned_def)
  with assms(1) show ?thesis by (auto simp: jd_inv_def)
qed

lemma jd_send_state: "jd_send env c m jd = Some (r, jd', out) \<Longrightarrow> jd' = jd"
  by (auto simp: jd_send_def split: if_splits)

lemma token_activate_jd_inv:
  "jd_inv jd \<Longrightarrow> jd_room jd \<Longrightarrow> token_activate now a c (jd_token_manager jd) = (t, tk) \<Longrightarrow>
     jd_inv (jd\<lparr>jd_token_manager := tk\<rparr>)"
  using token_inv_activate [of "jd_token_manager jd"] by (auto simp: jd_inv_def)

lemma jd_inv_allocate:
  assumes "handle_allocate_mining_job_token env c rid jd = Some (r, jd', out)" "jd_inv jd" "jd_room jd"
  shows "jd_inv jd'"
  using assms token_inv_allocate [of "jd_token_manager jd"]
  by (auto simp: handle_allocate_mining_job_token_def Let_def jd_inv_def dest!: jd_send_state
      split: option.splits prod.splits if_splits)

lemma jd_inv_declare_response:
  assumes "declare_response env c token msg verdict jd = Some (r, jd', out)" "jd_inv jd" "jd_room jd"
  shows "jd_inv jd'"
proof (cases verdict)
  case DeclareSuccess
  then show ?thesis using assms token_activate_jd_inv [OF assms(2,3)]
    by (auto simp: declare_response_def split: prod.splits dest!: jd_send_state)
next
  case (DeclareError code)
  then show ?thesis using assms
    by (auto simp: declare_response_def jd_inv_def token_inv_deallocate dest!: jd_send_state)
next
  case (DeclareMissingTransactions missing)
  then show ?thesis using assms jd_inv_client [OF assms(2)]
    by (auto simp: declare_response_def Let_def dest!: jd_send_state split: option.splits if_splits)
qed

lemma jd_inv_retry_response:
  assumes "retry_response env c token rid verdict jd = Some (r, jd', out)" "jd_inv jd" "jd_room jd"
  shows "jd_inv jd'"
proof (cases verdict)
  case DeclareSuccess
  then show ?thesis using assms token_activate_jd_inv [OF assms(2,3)]
    by (auto simp: retry_response_def split: prod.splits dest!: jd_send_state)
qed (use assms in \<open>auto simp: retry_response_def jd_inv_def token_inv_deallocate dest!: jd_send_state\<close>)

lemma jd_inv_declare:
  assumes "handle_declare_mining_job ve env c msg jd = Some (r, jd', out)" "jd_inv jd" "jd_room jd"
  shows "jd_inv jd'"
  using assms jd_inv_declare_response [of env _ _ msg _ "jd\<lparr>jd_engine := _\<rparr>" r jd' out]
  by (auto simp: handle_declare_mining_job_def Let_def dest!: jd_send_state
      split: option.splits if_splits prod.splits)

lemma jd_inv_provide:
  assumes "handle_provide_missing_transactions_success ve env c msg jd = Some (r, jd', out)"
    "jd_inv jd" "jd_room jd"
  shows "jd_inv jd'"
proof (cases "\<exists>cid d. c = Some cid \<and> sm_contains_key (jd_client_senders jd) cid \<and>
    sm_get_cloned (jd_downstream_clients jd) cid = Some d")
  case True
  then obtain cid d where c: "c = Some cid" "sm_contains_key (jd_client_senders jd) cid"
    "sm_get_cloned (jd_downstream_clients jd) cid = Some d" by blast
  define pend where "pend = jdd_pending_declare_mining_jobs d"
  define jd1 where "jd1 = jd\<lparr>jd_downstream_clients := AList.update cid
      (d\<lparr>jdd_pending_declare_mining_jobs := AList.delete (pmt_request_id msg) pend\<rparr>) (jd_downstream_clients jd)\<rparr>"
  have jd1: "jd_inv jd1" "jd_room jd1"
    using jd_inv_client [OF assms(2) c(3)] assms(3) by (simp_all add: jd1_def)
  have eq: "handle_provide_missing_transactions_success ve env c msg jd =
     (case map_of pend (pmt_request_id msg) of
        None \<Rightarrow> Some (Err (jds_log (JdsPendingDeclareMiningJobNotFound (pmt_request_id msg))), jd1, [])
      | Some (_, pj) \<Rightarrow> (case token_of_bytes (dmj_mining_job_token pj) of None \<Rightarrow> None
        | Some token \<Rightarrow> (case ve_declare ve (jd_engine jd1) pj (Some msg) of None \<Rightarrow> None
          | Some (verdict, e) \<Rightarrow> retry_response env cid token (pmt_request_id msg) verdict (jd1\<lparr>jd_engine := e\<rparr>))))"
    unfolding jd1_def pend_def handle_provide_missing_transactions_success_def using c
    by (cases "map_of (jdd_pending_declare_mining_jobs d) (pmt_request_id msg)")
      (auto simp: sm_remove_def Let_def)
  show ?thesis
    using assms(1) jd1 unfolding eq
    by (auto split: option.splits prod.splits dest!: jd_inv_retry_response)
next
  case False
  then show ?thesis using assms(1,2)
    by (auto simp: handle_provide_missing_transactions_success_def split: option.splits if_splits)
qed

lemma jd_inv_handle:
  assumes "handle_jdp_message ve env received jd = Some (r, jd', out)" "jd_inv jd" "jd_room jd"
  shows "jd_inv jd'"
proof (cases received)
  case (Some rm)
  obtain d m where rm: "rm = (d, m)" by (cases rm)
  show ?thesis
  proof (cases m)
    case (PushSolution p)
    then show ?thesis using assms Some rm by (auto simp: handle_jdp_message_def handle_push_solution_def)
  qed (use assms Some rm jd_inv_allocate jd_inv_declare jd_inv_provide in
      \<open>auto simp: handle_jdp_message_def\<close>)
qed (use assms in \<open>simp add: handle_jdp_message_def\<close>)

lemma jd_inv_loop_step [inv_rules]:
  assumes "jd_loop_step ve env received jd = Some (c, jd', out)" "jd_inv jd" "jd_room jd"
  shows "jd_inv jd'"
  using assms jd_inv_handle [OF _ assms(2,3)]
  by (auto simp: jd_loop_step_def jd_handle_error_action_def jd_inv_cleanup
      split: option.splits sum.splits prod.splits jds_action.splits)

lemma jd_inv_set_custom [inv_rules]:
  assumes "jd_handle_set_custom_mining_job ve scm jd = Some (resp, jd')" "jd_inv jd"
  shows "jd_inv jd'"
  using assms
  by (auto simp: jd_handle_set_custom_mining_job_def Let_def jd_inv_def token_inv_deactivate
      split: option.splits prod.splits set_custom_mining_job_result.splits)

text \<open>
  Every interleaving of connections, protocol messages with any verdicts of any backend, custom
  jobs from the pool, expiry and disconnections.
\<close>

inductive jd_reach :: "'e job_declarator \<Rightarrow> bool" where
  jd_start: "jd_reach (job_declarator_new e s)"
| jd_connect: "jd_reach jd \<Longrightarrow> jd_accept_downstream jd = (d, jd') \<Longrightarrow> jd_reach jd'"
| jd_message: "jd_reach jd \<Longrightarrow> jd_room jd \<Longrightarrow> jd_loop_step ve env received jd = Some (c, jd', out) \<Longrightarrow> jd_reach jd'"
| jd_custom: "jd_reach jd \<Longrightarrow> jd_handle_set_custom_mining_job ve scm jd = Some (resp, jd') \<Longrightarrow> jd_reach jd'"
| jd_expire: "jd_reach jd \<Longrightarrow> jd_reach (jd\<lparr>jd_token_manager := token_janitor now (jd_token_manager jd)\<rparr>)"
| jd_gone: "jd_reach jd \<Longrightarrow> jd_reach (cleanup_downstream d jd)"
| jd_stop: "jd_reach jd \<Longrightarrow> jd_reach (jd_shutdown jd)"

lemma jd_reach_inv: "jd_reach jd \<Longrightarrow> jd_inv jd"
proof (induction rule: jd_reach.induct)
  case (jd_expire jd now)
  then show ?case by (simp add: jd_inv_def token_inv_janitor)
qed (auto intro: inv_rules)

section \<open>Properties\<close>

text \<open>
  C39. In every reachable state of the server, whatever the backend answers, no token is both
  allocated and active and exactly the registered clients have a sender.
\<close>

theorem jd_reachable_consistent:
  assumes "jd_reach jd"
  shows "sm_dom (tk_allocated_tokens (jd_token_manager jd)) \<inter> sm_dom (tk_active_tokens (jd_token_manager jd)) = {} \<and>
    sm_dom (jd_client_senders jd) = sm_dom (jd_downstream_clients jd)"
  using jd_reach_inv [OF assms] by (simp add: jd_inv_def token_inv_def)

theorem jd_reachable_consistent_witness:
  "sm_dom (jd_client_senders (snd (jd_accept_downstream (job_declarator_new () \<lparr>crs_script_pubkey = [], crs_ok_for_mainnet = True\<rparr>)))) =
   sm_dom (jd_downstream_clients (snd (jd_accept_downstream (job_declarator_new () \<lparr>crs_script_pubkey = [], crs_ok_for_mainnet = True\<rparr>))))"
  by (rule jd_reachable_consistent [OF jd_connect [OF jd_start prod.collapse [symmetric]], THEN conjunct2])

text \<open>
  A declaration is honoured only for a token allocated to the sender: otherwise the client
  gets one error with the invalid-token code, the backend is not consulted and no state changes.
\<close>

theorem declare_requires_own_token:
  assumes "sm_contains_key (jd_client_senders jd) c" and "jv_send_ok env c"
    and "case token_of_bytes (dmj_mining_job_token msg) of
           None \<Rightarrow> True | Some token \<Rightarrow> \<not> token_is_allocated (jd_token_manager jd) token c"
  shows "handle_declare_mining_job ve env (Some c) msg jd =
    Some (Ok (), jd, [(c, DeclareMiningJobError (dmj_request_id msg) EC_DECLARE_MINING_JOB_INVALID_MINING_JOB_TOKEN [])])"
  using assms by (auto simp: handle_declare_mining_job_def jd_send_def split: option.splits)

definition sample_jd_env :: jd_env where
  "sample_jd_env = \<lparr>jv_now = 0, jv_send_ok = (\<lambda>_. True), jv_serialize_outputs = (\<lambda>_. []), jv_limits = wire_limits\<rparr>"

definition sample_jd :: "ipc_engine job_declarator" where
  "sample_jd = snd (jd_accept_downstream (job_declarator_new ipc_engine_new
     \<lparr>crs_script_pubkey = [], crs_ok_for_mainnet = True\<rparr>))"

lemma sample_jd_eq:
  "sample_jd = \<lparr>jd_token_manager = token_manager_new, jd_engine = ipc_engine_new, jd_client_senders = [(0, ())],
     jd_downstream_clients = [(0, \<lparr>jdd_pending_declare_mining_jobs = [], jdd_negotiated_extensions = [], jdd_cancelled = False\<rparr>)],
     jd_downstream_id_factory = 1, jd_coinbase_reward_script = \<lparr>crs_script_pubkey = [], crs_ok_for_mainnet = True\<rparr>\<rparr>"
  by (simp add: sample_jd_def jd_accept_downstream_def job_declarator_new_def sm_new_def)

theorem declare_requires_own_token_witness:
  "handle_declare_mining_job (ipc_validation_engine plain_jd_lib 0 None) sample_jd_env (Some 0) sample_declare sample_jd =
    Some (Ok (), sample_jd, [(0, DeclareMiningJobError 9 EC_DECLARE_MINING_JOB_INVALID_MINING_JOB_TOKEN [])])"
  using declare_requires_own_token [of sample_jd 0 sample_jd_env sample_declare
      "ipc_validation_engine plain_jd_lib 0 None"]
  by (simp add: sample_jd_eq sample_jd_env_def sample_declare_def sm_contains_key_def token_is_allocated_def
      token_manager_new_def sm_new_def sm_get_cloned_def)

text \<open>
  The second half of the declaration does not repeat that check: when missing transactions
  arrive for a pending job and the backend accepts it, the client gets a fresh active token even
  if the job's token is no longer allocated to it, so one allocated token yields as many active
  tokens as declarations were left pending on it.
\<close>

theorem pending_job_activates_consumed_token:
  assumes "sm_contains_key (jd_client_senders jd) c" and "jv_send_ok env c"
    and "sm_get_cloned (jd_downstream_clients jd) c = Some d"
    and "sm_get_cloned (jdd_pending_declare_mining_jobs d) (pmt_request_id msg) = Some (ts, job)"
    and "token_of_bytes (dmj_mining_job_token job) = Some token"
    and "\<not> token_is_allocated (jd_token_manager jd) token c"
    and "ve_declare ve (jd_engine jd) job (Some msg) = Some (DeclareSuccess, e)"
    and "handle_provide_missing_transactions_success ve env (Some c) msg jd = Some (r, jd', out)"
  shows "r = Ok () \<and>
    (\<exists>activated. out = [(c, DeclareMiningJobSuccess (pmt_request_id msg) (token_bytes activated))] \<and>
       token_allocated_from_active (jd_token_manager jd') activated = Some token)"
  using assms
  by (auto simp: handle_provide_missing_transactions_success_def sm_remove_def sm_get_cloned_def Let_def
      retry_response_def jd_send_def token_activate_def token_allocated_from_active_def sm_with_def
      split: prod.splits)

theorem pending_job_activates_consumed_token_witness:
  "\<exists>jd' out. handle_provide_missing_transactions_success
      (ipc_validation_engine plain_jd_lib 0 (Some (JdSuccess [9] 3 0 []))) sample_jd_env (Some 0)
      \<lparr>pmt_request_id = 9, pmt_transaction_list = []\<rparr>
      (sample_jd\<lparr>jd_downstream_clients :=
         [(0, \<lparr>jdd_pending_declare_mining_jobs = [(9, (0, sample_declare))], jdd_negotiated_extensions = [], jdd_cancelled = False\<rparr>)]\<rparr>)
     = Some (Ok (), jd', out) \<and> length out = 1"
proof -
  let ?d = "\<lparr>jdd_pending_declare_mining_jobs = [(9, (0, sample_declare))], jdd_negotiated_extensions = [], jdd_cancelled = False\<rparr>"
  let ?jd = "sample_jd\<lparr>jd_downstream_clients := [(0, ?d)]\<rparr>"
  let ?ve = "ipc_validation_engine plain_jd_lib 0 (Some (JdSuccess [9] 3 0 []))"
  let ?msg = "\<lparr>pmt_request_id = 9, pmt_transaction_list = []\<rparr>"
  have tok: "token_of_bytes (dmj_mining_job_token sample_declare) = Some 4" by (simp add: sample_declare_def)
  have "\<exists>e. engine_declare plain_jd_lib 0 (Some (JdSuccess [9] 3 0 [])) sample_declare (Some ?msg) ipc_engine_new =
      Some (DeclareSuccess, e)"
    by (simp add: engine_declare_def tok sample_coinbase apply_jd_response_def Let_def)
  then obtain e where ve: "ve_declare ?ve (jd_engine ?jd) sample_declare (Some ?msg) = Some (DeclareSuccess, e)"
    by (auto simp: ipc_validation_engine_def sample_jd_eq)
  have "\<exists>r jd' out. handle_provide_missing_transactions_success ?ve sample_jd_env (Some 0) ?msg ?jd = Some (r, jd', out)"
    using ve by (simp add: handle_provide_missing_transactions_success_def sm_remove_def sm_get_cloned_def
        sm_contains_key_def sample_jd_eq tok retry_response_def jd_send_def sample_jd_env_def token_activate_def Let_def)
  then obtain r jd' out where h: "handle_provide_missing_transactions_success ?ve sample_jd_env (Some 0) ?msg ?jd = Some (r, jd', out)"
    by blast
  have "sm_contains_key (jd_client_senders ?jd) 0" "jv_send_ok sample_jd_env 0"
    "sm_get_cloned (jd_downstream_clients ?jd) 0 = Some ?d"
    "sm_get_cloned (jdd_pending_declare_mining_jobs ?d) (pmt_request_id ?msg) = Some (0, sample_declare)"
    "\<not> token_is_allocated (jd_token_manager ?jd) 4 0"
    by (simp_all add: sample_jd_eq sm_contains_key_def sample_jd_env_def sm_get_cloned_def token_is_allocated_def
        token_manager_new_def sm_new_def)
  from pending_job_activates_consumed_token [OF this(1-4) tok this(5) ve h] h show ?thesis by auto
qed

text \<open>
  C7. A custom job can be installed at most once per active token: whatever the backend answers
  to the first request, a second request with the same token is refused as an invalid token and
  changes nothing.
\<close>

theorem custom_job_token_not_replayable:
  assumes "jd_handle_set_custom_mining_job ve scm jd = Some (resp, jd')"
    and "scm_token scm' = scm_token scm"
  shows "jd_handle_set_custom_mining_job ve' scm' jd' =
    Some (ScmError (scm_request_id scm') (scm_channel_id scm') EC_SET_CUSTOM_MINING_JOB_INVALID_MINING_JOB_TOKEN, jd')"
proof (cases "token_of_bytes (scm_token scm)")
  case None
  with assms(2) show ?thesis by (simp add: jd_handle_set_custom_mining_job_def Let_def)
next
  case (Some t)
  have "token_allocated_from_active (jd_token_manager jd') t = None"
    using assms(1) Some
    by (auto simp: jd_handle_set_custom_mining_job_def Let_def token_deactivate_def token_allocated_from_active_def
        sm_with_def split: option.splits prod.splits set_custom_mining_job_result.splits)
  with Some assms(2) show ?thesis by (simp add: jd_handle_set_custom_mining_job_def Let_def)
qed

theorem custom_job_token_not_replayable_witness:
  "jd_handle_set_custom_mining_job (ipc_validation_engine plain_jd_lib 0 None) sample_custom sample_jd =
    Some (ScmError 2 1 EC_SET_CUSTOM_MINING_JOB_INVALID_MINING_JOB_TOKEN, sample_jd)"
proof -
  have "\<exists>resp. jd_handle_set_custom_mining_job (ipc_validation_engine plain_jd_lib 0 None) sample_custom sample_jd =
      Some (resp, sample_jd)"
    by (simp add: jd_handle_set_custom_mining_job_def Let_def sample_custom_def token_allocated_from_active_def
        sample_jd_eq token_manager_new_def sm_new_def sm_with_def)
  then obtain resp where "jd_handle_set_custom_mining_job (ipc_validation_engine plain_jd_lib 0 None) sample_custom sample_jd =
      Some (resp, sample_jd)" by blast
  from custom_job_token_not_replayable [OF this refl] show ?thesis by (simp add: sample_custom_def)
qed

text \<open>
  Cleaning up a client leaves no trace of it in the maps and none of its allocated tokens,
  and touches neither the active tokens nor anything of another client.
\<close>

theorem cleanup_leaves_no_residue:
  assumes "jd_reach jd" and "jd' = cleanup_downstream d jd"
  shows "d \<notin> sm_dom (jd_downstream_clients jd') \<and> d \<notin> sm_dom (jd_client_senders jd') \<and>
    \<not> token_is_allocated (jd_token_manager jd') t d \<and>
    (c \<noteq> d \<longrightarrow> token_is_allocated (jd_token_manager jd') t c = token_is_allocated (jd_token_manager jd) t c \<and>
       sm_get_cloned (jd_downstream_clients jd') c = sm_get_cloned (jd_downstream_clients jd) c) \<and>
    tk_active_tokens (jd_token_manager jd') = tk_active_tokens (jd_token_manager jd)"
proof -
  have "sm_invar (tk_allocated_tokens (jd_token_manager jd))"
    using jd_reach_inv [OF assms(1)] by (simp add: jd_inv_def token_inv_def)
  note look = sm.keep_other_owner [OF this, where owner = snd and c = d]
  have "token_is_allocated (jd_token_manager jd') t x \<longleftrightarrow> x \<noteq> d \<and> token_is_allocated (jd_token_manager jd) t x" for x
    using look
    by (auto simp: assms(2) cleanup_downstream_def token_remove_downstream_def token_is_allocated_def split_def
        split: option.splits) (metis option.distinct(1) prod.collapse)+
  then show ?thesis
    by (auto simp: assms(2) cleanup_downstream_def token_remove_downstream_def sm_get_cloned_def)
qed

theorem cleanup_leaves_no_residue_witness:
  "0 \<notin> sm_dom (jd_downstream_clients (cleanup_downstream 0 sample_jd))"
  unfolding sample_jd_def
  by (rule cleanup_leaves_no_residue [OF jd_connect [OF jd_start prod.collapse [symmetric]] refl, THEN conjunct1])

end
