(* ===== verification/Computation.thy ===== *)
theory Computation
  imports Prelude
begin

text \<open>
  The computations in which the asynchronous components are written.  A handler or a closure it
  passes is a function on a state (a manager, a connection, or a channel) that returns a result
  and the new state; the state keeps what was changed before an error, as it does in the source.
  The type of the faults is a parameter: each program has its own errors.

  \<open>c_wp\<close> is the weakest precondition of a computation, with one postcondition for returned values
  and one for faults.
\<close>

type_synonym ('c, 'r, 'f) computation = "'c \<Rightarrow> ('r, 'f) result \<times> 'c"

definition c_return :: "'r \<Rightarrow> ('c, 'r, 'f) computation" where
  "c_return x s = (Ok x, s)"

definition c_fail :: "'f \<Rightarrow> ('c, 'r, 'f) computation" where
  "c_fail e s = (Err e, s)"

definition c_bind ::
  "('c, 'r, 'f) computation \<Rightarrow> ('r \<Rightarrow> ('c, 'q, 'f) computation) \<Rightarrow> ('c, 'q, 'f) computation" where
  "c_bind m f s = (case m s of (Inl e, s') \<Rightarrow> (Err e, s') | (Inr x, s') \<Rightarrow> f x s')"

definition c_get :: "('c \<Rightarrow> 'r) \<Rightarrow> ('c, 'r, 'f) computation" where
  "c_get f s = (Ok (f s), s)"

definition c_modify :: "('c \<Rightarrow> 'c) \<Rightarrow> ('c, unit, 'f) computation" where
  "c_modify f s = (Ok (), f s)"

definition c_result :: "('r, 'f) result \<Rightarrow> ('c, 'r, 'f) computation" where
  "c_result r s = (r, s)"

definition c_wp ::
  "('c, 'r, 'f) computation \<Rightarrow> ('r \<Rightarrow> 'c \<Rightarrow> bool) \<Rightarrow> ('f \<Rightarrow> 'c \<Rightarrow> bool) \<Rightarrow> 'c \<Rightarrow> bool" where
  "c_wp m Q E s = (case m s of (Inl e, s') \<Rightarrow> E e s' | (Inr x, s') \<Rightarrow> Q x s')"

named_theorems wp_rules \<open>weakest preconditions of the basic computations\<close>

lemma wp_generic [wp_rules]:
  "c_wp (c_return x) Q E s = Q x s"
  "c_wp (c_fail e) Q E s = E e s"
  "c_wp (c_get f) Q E s = Q (f s) s"
  "c_wp (c_result q) Q E s = (case q of Inl e \<Rightarrow> E e s | Inr x \<Rightarrow> Q x s)"
  by (simp_all add: c_wp_def c_return_def c_fail_def c_get_def c_result_def)

lemma wp_modify [wp_rules]: "c_wp (c_modify g) Q E s = Q () (g s)"
  by (simp add: c_wp_def c_modify_def)

lemma wp_bind [wp_rules]: "c_wp (c_bind m f) Q E s = c_wp m (\<lambda>x. c_wp (f x) Q E) E s"
  by (auto simp: c_wp_def c_bind_def split: prod.splits sum.splits)

lemma wp_mono:
  assumes "c_wp m Q E s" "\<And>x t. Q x t \<Longrightarrow> Q' x t" "\<And>e t. E e t \<Longrightarrow> E' e t"
  shows "c_wp m Q' E' s"
  using assms by (auto simp: c_wp_def split: prod.splits sum.splits)

lemma wp_if [wp_rules]: "c_wp (if b then m else n) Q E s = (if b then c_wp m Q E s else c_wp n Q E s)"
  by simp

lemma wp_result: "c_wp m Q E s \<Longrightarrow> m s = (Ok x, t) \<Longrightarrow> Q x t"
  by (simp add: c_wp_def)

lemma wp_fault: "c_wp m Q E s \<Longrightarrow> m s = (Err e, t) \<Longrightarrow> E e t"
  by (simp add: c_wp_def)

lemma bind_eq_Ok_iff:
  "c_bind m f s = (Ok y, t) \<longleftrightarrow> (\<exists>x u. m s = (Ok x, u) \<and> f x u = (Ok y, t))"
  by (auto simp: c_bind_def split: prod.splits sum.splits)

end
