(* ===== verification/Float32.thy ===== *)
theory Float32
  imports Float64
begin

text \<open>
  IEEE-754 binary32 numbers as bit patterns, for the components that compute with hash rates.  A
  pattern is decoded to the number it denotes (in the type of \<^theory_text>\<open>Float64\<close>), the exact result is
  rounded to 24 significant bits, ties to even, and encoded again.  The sign of a zero result and
  the payload of a result that is not a number are not kept; the code observes neither.
\<close>

type_synonym f32 = "32 word"

definition f32_decode :: "f32 \<Rightarrow> f64" where
  "f32_decode w =
     (let n = uint w; s = (n div 2 ^ 31 = 1); e = n div 2 ^ 23 mod 256; m = n mod 2 ^ 23;
          v = (if e = 0 then of_int m * pow2 (- 149) else of_int (2 ^ 23 + m) * pow2 (e - 150))
      in if e = 255 then (if m = 0 then FInf s else FNaN) else Fin (if s then - v else v))"

definition f32_round_pos :: "rat \<Rightarrow> f64" where
  "f32_round_pos q =
     (let (a, b) = quotient_of q;
          e = max (rat_exponent (nat a) (nat b) - 23) (- 149);
          v = of_int (round_half_even (q / pow2 e)) * pow2 e
      in if v \<ge> pow2 128 then FInf False else Fin v)"

definition f32_round :: "f64 \<Rightarrow> f64" where
  "f32_round x = (case x of
     Fin q \<Rightarrow> (if q = 0 then Fin 0 else if q > 0 then f32_round_pos q
               else f64_neg (f32_round_pos (- q)))
   | _ \<Rightarrow> x)"

definition f32_encode_pos :: "rat \<Rightarrow> int" where
  "f32_encode_pos q =
     (let (a, b) = quotient_of q;
          e = max (rat_exponent (nat a) (nat b)) (- 126);
          m = \<lfloor>q / pow2 (e - 23)\<rfloor>
      in if m < 2 ^ 23 then m else (e + 127) * 2 ^ 23 + (m - 2 ^ 23))"

definition f32_encode :: "f64 \<Rightarrow> f32" where
  "f32_encode x = (case x of
     FNaN \<Rightarrow> 0x7FC00000
   | FInf s \<Rightarrow> (if s then 0xFF800000 else 0x7F800000)
   | Fin q \<Rightarrow> (if q = 0 then 0
               else if q > 0 then word_of_int (f32_encode_pos q)
               else word_of_int (2 ^ 31 + f32_encode_pos (- q))))"

text \<open>Addition of two \<open>f32\<close>, and the casts between the widths.\<close>

definition f32_add :: "f32 \<Rightarrow> f32 \<Rightarrow> f32" where
  "f32_add a b = f32_encode (f32_round (case (f32_decode a, f32_decode b) of
     (Fin p, Fin q) \<Rightarrow> Fin (p + q)
   | (FInf s, Fin _) \<Rightarrow> FInf s | (Fin _, FInf s) \<Rightarrow> FInf s
   | (FInf s, FInf t) \<Rightarrow> (if s = t then FInf s else FNaN)
   | _ \<Rightarrow> FNaN))"

definition f32_as_f64 :: "f32 \<Rightarrow> f64" where
  "f32_as_f64 = f32_decode"

definition f64_as_f32 :: "f64 \<Rightarrow> f32" where
  "f64_as_f32 x = f32_encode (f32_round x)"

end
