(* ===== verification/Pool_Types.thy ===== *)
theory Pool_Types
  imports Computation Float32 Payout Gridpool Rpc_Template Job_Declarator
begin

text \<open>
  The data of the pool's channel manager (\<open>pool-apps/pool/src/lib\<close>): the mining messages, the
  errors and their actions, the state of a connection and of the manager, and the computations in
  which the handlers are written.

  The channels themselves (\<open>StandardChannel\<close>, \<open>ExtendedChannel\<close>, \<open>GroupChannel\<close>, \<open>VardiffState\<close>)
  belong to the \<open>channels_sv2\<close> crate.  Their types are type variables and the methods the pool
  calls are the fields of the records \<open>standard_api\<close>, \<open>extended_api\<close>, \<open>group_api\<close> and
  \<open>vardiff_api\<close>; a method that takes \<open>&mut self\<close> returns the new value next to its result.
\<close>

section \<open>Mining messages\<close>

type_synonym channel_id = u32

record open_standard_mining_channel =
  osm_request_id :: u32
  osm_user_identity :: string
  osm_nominal_hash_rate :: f32
  osm_max_target :: bytes

record open_extended_mining_channel =
  oem_request_id :: u32
  oem_user_identity :: string
  oem_nominal_hash_rate :: f32
  oem_max_target :: bytes
  oem_min_extranonce_size :: u16

record submit_shares_standard =
  sss_channel_id :: channel_id
  sss_sequence_number :: u32
  sss_job_id :: u32
  sss_nonce :: u32
  sss_ntime :: u32
  sss_version :: u32

record submit_shares_extended =
  sse_channel_id :: channel_id
  sse_sequence_number :: u32
  sse_job_id :: u32
  sse_nonce :: u32
  sse_ntime :: u32
  sse_version :: u32
  sse_extranonce :: bytes

record update_channel =
  uc_channel_id :: channel_id
  uc_nominal_hash_rate :: f32
  uc_maximum_target :: bytes

record new_mining_job =
  nmj_channel_id :: channel_id
  nmj_job_id :: u32
  nmj_min_ntime :: "u32 option"
  nmj_version :: u32
  nmj_merkle_root :: bytes

record new_extended_mining_job =
  nxj_channel_id :: channel_id
  nxj_job_id :: u32
  nxj_min_ntime :: "u32 option"
  nxj_version :: u32
  nxj_version_rolling_allowed :: bool
  nxj_merkle_path :: "bytes list"
  nxj_coinbase_tx_prefix :: bytes
  nxj_coinbase_tx_suffix :: bytes

record set_new_prev_hash =
  snp_channel_id :: channel_id
  snp_job_id :: u32
  snp_prev_hash :: bytes
  snp_min_ntime :: u32
  snp_nbits :: u32

record open_channel_success =
  ocs_request_id :: u32
  ocs_channel_id :: channel_id
  ocs_target :: bytes
  ocs_extranonce_prefix :: bytes
  ocs_group_channel_id :: channel_id

record submit_shares_success =
  ssu_channel_id :: channel_id
  ssu_last_sequence_number :: u32
  ssu_new_submits_accepted_count :: u32
  ssu_new_shares_sum :: u64

datatype mining =
    OpenStandardMiningChannelSuccess open_channel_success
  | OpenExtendedMiningChannelSuccess open_channel_success u16
  | OpenMiningChannelError u32 error_code
  | NewMiningJob new_mining_job
  | NewExtendedMiningJob new_extended_mining_job
  | SetNewPrevHash set_new_prev_hash
  | SetTarget channel_id bytes
  | UpdateChannelError channel_id error_code
  | CloseChannel channel_id error_code
  | SubmitSharesSuccess submit_shares_success
  | SubmitSharesError channel_id u32 error_code
  | SetCustomMiningJobSuccess channel_id u32 u32
  | SetCustomMiningJobError u32 channel_id error_code
  | SetExtranoncePrefix channel_id bytes
  | SetGroupChannel channel_id "channel_id list"

datatype mining_from_client =
    CloseChannelRequest channel_id string
  | OpenStandardMiningChannel open_standard_mining_channel
  | OpenExtendedMiningChannel open_extended_mining_channel
  | SubmitSharesStandard submit_shares_standard
  | SubmitSharesExtended submit_shares_extended
  | UpdateChannel update_channel
  | SetCustomMiningJob set_custom_mining_job

section \<open>Errors\<close>

text \<open>
  Errors of the channel crate.  The constructors are the ones the handlers distinguish; all other
  errors are the last constructor with their text.
\<close>

datatype standard_channel_error =
    StdOpenChannelInvalidNominalHashrate error_code
  | StdUpdateChannelInvalidNominalHashrate error_code
  | StdChannelOther string

datatype extended_channel_error =
    ExtOpenChannelInvalidNominalHashrate error_code
  | ExtRequestedMinExtranonceSizeTooLarge error_code
  | ExtUpdateChannelInvalidNominalHashrate error_code
  | ExtChannelOther string

datatype share_validation_error =
    ShareInvalid error_code
  | ShareStale error_code
  | ShareInvalidJobId error_code
  | ShareDoesNotMeetTarget error_code
  | ShareDuplicate error_code
  | ShareVersionRollingNotAllowed error_code
  | ShareBadExtranonceSize error_code
  | ShareOther string

datatype share_validation_result =
    ShareValid bytes
  | BlockFound bytes "u64 option" bytes

datatype channel_sv2_error =
    ExtendedChannelServerSide extended_channel_error
  | StandardChannelServerSide standard_channel_error
  | GroupChannelServerSide string
  | ExtranonceError string
  | ShareValidationError share_validation_error

datatype pool_error_kind =
    PkChannelSv2 channel_sv2_error
  | PkChannelSend
  | PkChannelRecv
  | PkBinarySv2
  | PkFraming
  | PkPoisonLock
  | PkVardiff string
  | PkParser
  | PkUnexpectedMessage u16 u8
  | PkChannelErrorSender
  | PkDownstreamNotFound downstream_id
  | PkFutureTemplateNotPresent
  | PkLastNewPrevhashNotFound
  | PkInvalidUnsupportedExtensionsSequence
  | PkClientDoesNotSupportRequiredExtensions "u16 list"
  | PkUnsupportedProtocol
  | PkConfiguration string
  | PkJobNotFound
  | PkJds jds_error_kind

datatype pool_action = PoolLog | PoolDisconnect downstream_id | PoolShutdown

record pool_error =
  pe_kind :: pool_error_kind
  pe_action :: pool_action

definition pool_log :: "pool_error_kind \<Rightarrow> pool_error" where
  "pool_log k = \<lparr>pe_kind = k, pe_action = PoolLog\<rparr>"

definition pool_disconnect :: "pool_error_kind \<Rightarrow> downstream_id \<Rightarrow> pool_error" where
  "pool_disconnect k d = \<lparr>pe_kind = k, pe_action = PoolDisconnect d\<rparr>"

definition pool_shutdown :: "pool_error_kind \<Rightarrow> pool_error" where
  "pool_shutdown k = \<lparr>pe_kind = k, pe_action = PoolShutdown\<rparr>"

lemma pool_error_action [simp]:
  "pe_action (pool_log k) = PoolLog"
  "pe_action (pool_disconnect k d) = PoolDisconnect d"
  "pe_action (pool_shutdown k) = PoolShutdown"
  by (simp_all add: pool_log_def pool_disconnect_def pool_shutdown_def)

text \<open>A handler stops early by raising an error or by a panic (\<open>expect\<close>, \<open>unreachable!\<close>).\<close>

datatype fault = Panic | Raised pool_error

section \<open>Channels\<close>

record standard_job =
  sj_job_id :: u32
  sj_job_message :: new_mining_job
  sj_coinbase_outputs :: "tx_out list"
  sj_template :: new_template
  sj_extranonce_prefix :: bytes
  sj_merkle_root :: bytes

record extended_job =
  xj_job_id :: u32
  xj_job_message :: new_extended_mining_job
  xj_coinbase_outputs :: "tx_out list"
  xj_extranonce_prefix :: bytes
  xj_coinbase_tx_prefix_without_bip141 :: bytes
  xj_coinbase_tx_suffix_without_bip141 :: bytes
  xj_merkle_path :: "bytes list"

record chain_tip =
  ct_prev_hash :: bytes
  ct_nbits :: u32

record share_accounting =
  sacc_should_acknowledge :: bool
  sacc_last_share_sequence_number :: u32
  sacc_last_batch_accepted :: u32
  sacc_last_batch_work_sum :: u64

record ('s, 'p) standard_api =
  sc_new_for_pool :: "channel_id \<Rightarrow> string \<Rightarrow> 'p \<Rightarrow> bytes \<Rightarrow> f32 \<Rightarrow> nat \<Rightarrow> f32 \<Rightarrow> string
    \<Rightarrow> ('s, standard_channel_error) result"
  sc_get_target :: "'s \<Rightarrow> bytes"
  sc_get_extranonce_prefix :: "'s \<Rightarrow> bytes"
  sc_get_nominal_hashrate :: "'s \<Rightarrow> f32"
  sc_get_shares_per_minute :: "'s \<Rightarrow> f32"
  sc_set_stable_hashrate :: "bool \<Rightarrow> 's \<Rightarrow> 's"
  sc_on_new_template :: "new_template \<Rightarrow> tx_out list \<Rightarrow> 's \<Rightarrow> (unit, standard_channel_error) result \<times> 's"
  sc_on_set_new_prev_hash :: "tdp_set_new_prev_hash \<Rightarrow> 's \<Rightarrow> (unit, standard_channel_error) result \<times> 's"
  sc_on_group_channel_job :: "extended_job \<Rightarrow> 's \<Rightarrow> (unit, standard_channel_error) result \<times> 's"
  sc_get_future_job_id_from_template_id :: "'s \<Rightarrow> u64 \<Rightarrow> u32 option"
  sc_get_future_job :: "'s \<Rightarrow> u32 \<Rightarrow> standard_job option"
  sc_get_active_job :: "'s \<Rightarrow> standard_job option"
  sc_get_past_job :: "'s \<Rightarrow> u32 \<Rightarrow> standard_job option"
  sc_get_chain_tip :: "'s \<Rightarrow> chain_tip option"
  sc_update_channel :: "f32 \<Rightarrow> bytes option \<Rightarrow> 's \<Rightarrow> (unit, standard_channel_error) result \<times> 's"
  sc_validate_share :: "submit_shares_standard \<Rightarrow> 's
    \<Rightarrow> (share_validation_result, share_validation_error) result \<times> 's"
  sc_get_share_accounting :: "'s \<Rightarrow> share_accounting"

record ('x, 'p) extended_api =
  xc_new_for_pool :: "channel_id \<Rightarrow> string \<Rightarrow> 'p \<Rightarrow> bytes \<Rightarrow> f32 \<Rightarrow> bool \<Rightarrow> u16 \<Rightarrow> nat \<Rightarrow> f32 \<Rightarrow> string
    \<Rightarrow> ('x, extended_channel_error) result"
  xc_get_target :: "'x \<Rightarrow> bytes"
  xc_get_extranonce_prefix :: "'x \<Rightarrow> bytes"
  xc_get_rollable_extranonce_size :: "'x \<Rightarrow> u16"
  xc_get_full_extranonce_size :: "'x \<Rightarrow> nat"
  xc_get_nominal_hashrate :: "'x \<Rightarrow> f32"
  xc_get_shares_per_minute :: "'x \<Rightarrow> f32"
  xc_set_stable_hashrate :: "bool \<Rightarrow> 'x \<Rightarrow> 'x"
  xc_on_new_template :: "new_template \<Rightarrow> tx_out list \<Rightarrow> 'x \<Rightarrow> (unit, extended_channel_error) result \<times> 'x"
  xc_on_set_new_prev_hash :: "tdp_set_new_prev_hash \<Rightarrow> 'x \<Rightarrow> (unit, extended_channel_error) result \<times> 'x"
  xc_on_group_channel_job :: "extended_job \<Rightarrow> 'x \<Rightarrow> (unit, extended_channel_error) result \<times> 'x"
  xc_on_set_custom_mining_job :: "set_custom_mining_job \<Rightarrow> 'x \<Rightarrow> (u32, extended_channel_error) result \<times> 'x"
  xc_get_future_job_id_from_template_id :: "'x \<Rightarrow> u64 \<Rightarrow> u32 option"
  xc_get_future_job :: "'x \<Rightarrow> u32 \<Rightarrow> extended_job option"
  xc_get_active_job :: "'x \<Rightarrow> extended_job option"
  xc_get_past_job :: "'x \<Rightarrow> u32 \<Rightarrow> extended_job option"
  xc_get_chain_tip :: "'x \<Rightarrow> chain_tip option"
  xc_update_channel :: "f32 \<Rightarrow> bytes option \<Rightarrow> 'x \<Rightarrow> (unit, extended_channel_error) result \<times> 'x"
  xc_validate_share :: "submit_shares_extended \<Rightarrow> 'x
    \<Rightarrow> (share_validation_result, share_validation_error) result \<times> 'x"
  xc_get_share_accounting :: "'x \<Rightarrow> share_accounting"

record 'g group_api =
  grp_new_for_pool :: "channel_id \<Rightarrow> nat \<Rightarrow> string \<Rightarrow> ('g, string) result"
  grp_get_group_channel_id :: "'g \<Rightarrow> channel_id"
  grp_has_channel_id :: "'g \<Rightarrow> channel_id \<Rightarrow> bool"
  grp_add_channel_id :: "channel_id \<Rightarrow> nat \<Rightarrow> 'g \<Rightarrow> (unit, string) result \<times> 'g"
  grp_remove_channel_id :: "channel_id \<Rightarrow> 'g \<Rightarrow> 'g"
  grp_is_empty :: "'g \<Rightarrow> bool"
  grp_on_new_template :: "new_template \<Rightarrow> tx_out list \<Rightarrow> 'g \<Rightarrow> (unit, string) result \<times> 'g"
  grp_on_set_new_prev_hash :: "tdp_set_new_prev_hash \<Rightarrow> 'g \<Rightarrow> (unit, string) result \<times> 'g"
  grp_get_future_job_id_from_template_id :: "'g \<Rightarrow> u64 \<Rightarrow> u32 option"
  grp_get_future_job :: "'g \<Rightarrow> u32 \<Rightarrow> extended_job option"
  grp_get_active_job :: "'g \<Rightarrow> extended_job option"

record 'v vardiff_api =
  vd_try_vardiff :: "f32 \<Rightarrow> bytes \<Rightarrow> f32 \<Rightarrow> 'v \<Rightarrow> (f32 option, string) result \<times> 'v"
  vd_increment_shares_since_last_update :: "'v \<Rightarrow> 'v"

section \<open>Computations\<close>

text \<open>The handlers of the pool are computations whose faults are the ones above.\<close>

type_synonym ('c, 'r) comp = "('c, 'r, fault) computation"

definition c_raise :: "pool_error \<Rightarrow> ('c, 'r) comp" where
  "c_raise e s = (Err (Raised e), s)"

definition c_panic :: "('c, 'r) comp" where
  "c_panic s = (Err Panic, s)"

text \<open>\<open>?\<close> on a result, \<open>expect\<close> on an option, and a library call whose error is converted.\<close>

definition c_try :: "('r, pool_error) result \<Rightarrow> ('c, 'r) comp" where
  "c_try r s = (map_err Raised r, s)"

definition c_expect :: "'r option \<Rightarrow> ('c, 'r) comp" where
  "c_expect x = (case x of None \<Rightarrow> c_panic | Some y \<Rightarrow> c_return y)"

definition c_lock_get :: "'a shared_lock \<Rightarrow> ('c, 'a) comp" where
  "c_lock_get l = c_try (map_err (\<lambda>_. pool_shutdown PkPoisonLock) (lock_get l))"

definition c_call :: "('err \<Rightarrow> pool_error) \<Rightarrow> ('c \<Rightarrow> ('r, 'err) result \<times> 'c) \<Rightarrow> ('c, 'r) comp" where
  "c_call f op s = (let (r, s') = op s in (map_err (\<lambda>e. Raised (f e)) r, s'))"

text \<open>
  A closure run under a \<open>SharedLock\<close> whose poisoning is reported as a shutdown: a panic in the
  closure poisons the lock.
\<close>

definition lock_run :: "('a, 'r) comp \<Rightarrow> ('a shared_lock, 'r) comp" where
  "lock_run f l =
     (if lock_poisoned l then (Err (Raised (pool_shutdown PkPoisonLock)), l)
      else (let (r, v) = f (lock_value l) in
            (r, l\<lparr>lock_value := v, lock_poisoned := (r = Err Panic)\<rparr>)))"

lemma wp_pool_basic [wp_rules]:
  "c_wp (c_raise e) Q E s = E (Raised e) s"
  "c_wp c_panic Q E s = E Panic s"
  "c_wp (c_try r) Q E s = (case r of Inl e \<Rightarrow> E (Raised e) s | Inr x \<Rightarrow> Q x s)"
  "c_wp (c_expect y) Q E s = (case y of None \<Rightarrow> E Panic s | Some x \<Rightarrow> Q x s)"
  by (simp_all add: c_wp_def c_return_def c_raise_def c_panic_def c_fail_def c_try_def
      c_expect_def split: sum.splits option.splits)

lemmas wp_basic = wp_generic wp_pool_basic

lemma wp_call [wp_rules]:
  "c_wp (c_call f op) Q E s =
     (case op s of (Inl e, s') \<Rightarrow> E (Raised (f e)) s' | (Inr x, s') \<Rightarrow> Q x s')"
  by (auto simp: c_wp_def c_call_def split: prod.splits sum.splits)

section \<open>State\<close>

record ('s, 'x, 'g) downstream =
  ds_group_channel :: "'g shared_lock"
  ds_extended_channels :: "(channel_id, 'x) shared_map"
  ds_standard_channels :: "(channel_id, 's) shared_map"
  ds_channel_id_factory :: u32
  ds_negotiated_extensions :: "u16 list shared_lock"
  ds_payout_mode :: "payout_mode option shared_lock"
  ds_downstream_id :: downstream_id
  ds_requires_standard_jobs :: bool
  ds_requires_custom_work :: bool
  ds_supported_extensions :: "u16 list"
  ds_required_extensions :: "u16 list"
  ds_cancelled :: bool

datatype route_message_to =
    RouteTemplateProvider tdp_message
  | RouteDownstream downstream_id mining

text \<open>
  \<open>cm_sent\<close> and \<open>cm_proofs\<close> are the messages handed to the output channels and the proofs handed
  to the GridPool client's background task, in order.
\<close>

record ('s, 'x, 'g, 'v, 'e) channel_manager =
  cm_downstreams :: "(downstream_id, ('s, 'x, 'g) downstream) shared_map"
  cm_downstream_id_factory :: nat
  cm_vardiff :: "(downstream_id \<times> channel_id, 'v) shared_map"
  cm_coinbase_outputs :: bytes
  cm_last_new_prev_hash :: "tdp_set_new_prev_hash option shared_lock"
  cm_last_future_template :: "new_template option shared_lock"
  cm_downstream_sender :: "(downstream_id, unit) shared_map"
  cm_pool_tag_string :: string
  cm_share_batch_size :: nat
  cm_shares_per_minute :: f32
  cm_coinbase_reward_script :: coinbase_reward_script
  cm_supported_extensions :: "u16 list"
  cm_required_extensions :: "u16 list"
  cm_job_declarator :: "'e job_declarator option"
  cm_gridpool :: "gridpool_client option"
  cm_gridpool_channels :: "(downstream_id \<times> channel_id, channel_payout) shared_map"
  cm_sent :: "route_message_to list"
  cm_proofs :: "share_submission list"

section \<open>Libraries and environment\<close>

text \<open>
  What the handlers use of other crates: the channel methods, the address and script parsers, the
  validation backend of the embedded job declarator, and the consensus encodings.
\<close>

record ('s, 'x, 'g, 'v, 'p, 't, 'a, 'b, 'e) pool_lib =
  pl_standard :: "('s, 'p) standard_api"
  pl_extended :: "('x, 'p) extended_api"
  pl_group :: "'g group_api"
  pl_vardiff :: "'v vardiff_api"
  pl_miniscript :: "('t, 'a) miniscript_lib"
  pl_gridpool :: "'b gridpool_lib"
  pl_engine :: "'e validation_engine"
  pl_difficulty_float :: "bytes \<Rightarrow> f64"
  pl_serialize_header :: "block_header \<Rightarrow> bytes"
  pl_serialize_transaction :: "transaction \<Rightarrow> bytes"
  pl_deserialize_transaction :: "bytes \<Rightarrow> transaction option"
  pl_compute_txid :: "transaction \<Rightarrow> bytes"
  pl_sha256d :: "bytes \<Rightarrow> bytes"
  pl_hex_encode :: "bytes \<Rightarrow> string"
  pl_block_hash_display :: "bytes \<Rightarrow> string"
  pl_deserialize_outputs :: "bytes \<Rightarrow> tx_out list option"
  pl_tx_metrics :: tx_metrics
  pl_limits :: sv2_limits
  pl_fits_b032 :: "nat \<Rightarrow> bool"

text \<open>
  The inputs of one event: the clock, the answers of the shared extranonce allocator (whose slots
  are freed whenever some channel is dropped), the outcome of creating a vardiff state, which
  output channels still have a receiver, and the replies to the attempts of a chain-tip refresh.
\<close>

record ('v, 'p) pool_env =
  pv_now :: u64
  pv_now_ms :: nat
  pv_allocate_standard :: "('p, string) result"
  pv_allocate_extended :: "nat \<Rightarrow> ('p, string) result"
  pv_vardiff_new :: "('v, string) result"
  pv_send_ok :: "downstream_id \<Rightarrow> bool"
  pv_tp_send_ok :: bool
  pv_fetch_work :: "nat \<Rightarrow> (work_selection, string) result"

lemma wp_lock_get [wp_rules]:
  "c_wp (c_lock_get l) Q E s =
     (if lock_poisoned l then E (Raised (pool_shutdown PkPoisonLock)) s else Q (lock_value l) s)"
  by (simp add: c_lock_get_def wp_rules lock_get_def)

lemma lock_run_ok:
  "\<not> lock_poisoned l \<Longrightarrow> f (lock_value l) = (Ok x, v) \<Longrightarrow> lock_run f l = (Ok x, l\<lparr>lock_value := v\<rparr>)"
  by (cases l) (simp add: lock_run_def)

end
