(* ===== verification/Pool_Instance.thy ===== *)
theory Pool_Instance
  imports Pool_Types
begin

text \<open>
  A small instance of the libraries and the environment of the pool, on which the hypotheses of
  the properties are shown to be satisfiable: a channel is its current job, every operation
  succeeds, and job messages carry the identifiers they are asked for.
\<close>

definition plain_template :: new_template where
  "plain_template = \<lparr>nt_template_id = 5, nt_future_template = True, nt_version = 2,
     nt_coinbase_tx_version = 2, nt_coinbase_prefix = [3, 1, 2, 3], nt_coinbase_tx_input_sequence = 0,
     nt_coinbase_tx_value_remaining = 100, nt_coinbase_tx_outputs_count = 0, nt_coinbase_tx_outputs = [],
     nt_coinbase_tx_locktime = 0, nt_merkle_path = []\<rparr>"

definition plain_prev_hash :: tdp_set_new_prev_hash where
  "plain_prev_hash = \<lparr>tph_template_id = 5, tph_prev_hash = replicate 32 0, tph_header_timestamp = 9,
     tph_n_bits = 1, tph_target = []\<rparr>"

definition plain_standard_job :: "u32 \<Rightarrow> new_template \<Rightarrow> tx_out list \<Rightarrow> standard_job" where
  "plain_standard_job c t outs =
     \<lparr>sj_job_id = 1, sj_job_message = \<lparr>nmj_channel_id = c, nmj_job_id = 1, nmj_min_ntime = None,
        nmj_version = nt_version t, nmj_merkle_root = []\<rparr>, sj_coinbase_outputs = outs, sj_template = t,
      sj_extranonce_prefix = [7], sj_merkle_root = []\<rparr>"

definition plain_extended_job :: "u32 \<Rightarrow> new_template \<Rightarrow> tx_out list \<Rightarrow> extended_job" where
  "plain_extended_job c t outs =
     \<lparr>xj_job_id = 1, xj_job_message = \<lparr>nxj_channel_id = c, nxj_job_id = 1, nxj_min_ntime = None,
        nxj_version = nt_version t, nxj_version_rolling_allowed = True, nxj_merkle_path = [],
        nxj_coinbase_tx_prefix = [], nxj_coinbase_tx_suffix = []\<rparr>, xj_coinbase_outputs = outs,
      xj_extranonce_prefix = [7], xj_coinbase_tx_prefix_without_bip141 = [],
      xj_coinbase_tx_suffix_without_bip141 = [], xj_merkle_path = []\<rparr>"

type_synonym plain_standard = "u32 \<times> standard_job option"
type_synonym plain_extended = "u32 \<times> extended_job option"

definition plain_accounting :: share_accounting where
  "plain_accounting = \<lparr>sacc_should_acknowledge = True, sacc_last_share_sequence_number = 4,
     sacc_last_batch_accepted = 1, sacc_last_batch_work_sum = 1\<rparr>"

definition plain_standard_api :: "(plain_standard, unit) standard_api" where
  "plain_standard_api =
     \<lparr>sc_new_for_pool = (\<lambda>c _ _ _ _ _ _ _. Ok (c, None)), sc_get_target = (\<lambda>_. [1]),
      sc_get_extranonce_prefix = (\<lambda>_. [7]), sc_get_nominal_hashrate = (\<lambda>_. 0),
      sc_get_shares_per_minute = (\<lambda>_. 0), sc_set_stable_hashrate = (\<lambda>_ ch. ch),
      sc_on_new_template = (\<lambda>t outs ch. (Ok (), (fst ch, Some (plain_standard_job (fst ch) t outs)))),
      sc_on_set_new_prev_hash = (\<lambda>_ ch. (Ok (), ch)), sc_on_group_channel_job = (\<lambda>_ ch. (Ok (), ch)),
      sc_get_future_job_id_from_template_id = (\<lambda>ch _. map_option sj_job_id (snd ch)),
      sc_get_future_job = (\<lambda>ch _. snd ch), sc_get_active_job = snd, sc_get_past_job = (\<lambda>_ _. None),
      sc_get_chain_tip = (\<lambda>_. Some \<lparr>ct_prev_hash = replicate 32 0, ct_nbits = 1\<rparr>),
      sc_update_channel = (\<lambda>_ _ ch. (Ok (), ch)),
      sc_validate_share = (\<lambda>m ch. (if sss_nonce m = 0 then Err (ShareStale (EC_OTHER ''stale''))
         else if sss_nonce m = 1 then Ok (ShareValid [1]) else Ok (BlockFound [1] (Some 5) [9]), ch)),
      sc_get_share_accounting = (\<lambda>_. plain_accounting)\<rparr>"

definition plain_extended_api :: "(plain_extended, unit) extended_api" where
  "plain_extended_api =
     \<lparr>xc_new_for_pool = (\<lambda>c _ _ _ _ _ _ _ _ _. Ok (c, None)), xc_get_target = (\<lambda>_. [1]),
      xc_get_extranonce_prefix = (\<lambda>_. [7]), xc_get_rollable_extranonce_size = (\<lambda>_. 16),
      xc_get_full_extranonce_size = (\<lambda>_. 17), xc_get_nominal_hashrate = (\<lambda>_. 0),
      xc_get_shares_per_minute = (\<lambda>_. 0), xc_set_stable_hashrate = (\<lambda>_ ch. ch),
      xc_on_new_template = (\<lambda>t outs ch. (Ok (), (fst ch, Some (plain_extended_job (fst ch) t outs)))),
      xc_on_set_new_prev_hash = (\<lambda>_ ch. (Ok (), ch)),
      xc_on_group_channel_job = (\<lambda>j ch. (Ok (), (fst ch, Some j))),
      xc_on_set_custom_mining_job = (\<lambda>m ch. (Ok 3, (fst ch, Some (plain_extended_job (fst ch) plain_template [])))),
      xc_get_future_job_id_from_template_id = (\<lambda>ch _. map_option xj_job_id (snd ch)),
      xc_get_future_job = (\<lambda>ch _. snd ch), xc_get_active_job = snd, xc_get_past_job = (\<lambda>_ _. None),
      xc_get_chain_tip = (\<lambda>_. Some \<lparr>ct_prev_hash = replicate 32 0, ct_nbits = 1\<rparr>),
      xc_update_channel = (\<lambda>_ _ ch. (Ok (), ch)),
      xc_validate_share = (\<lambda>m ch. (if sse_nonce m = 0 then Err (ShareStale (EC_OTHER ''stale''))
         else if sse_nonce m = 1 then Ok (ShareValid [1]) else Ok (BlockFound [1] (Some 5) [9]), ch)),
      xc_get_share_accounting = (\<lambda>_. plain_accounting)\<rparr>"

text \<open>The group's job counter is ahead of the channels' counters, as it is for a late channel.\<close>

definition plain_group_api :: "(bool \<times> extended_job option) group_api" where
  "plain_group_api =
     \<lparr>grp_new_for_pool = (\<lambda>_ _ _. Ok (True, None)), grp_get_group_channel_id = (\<lambda>_. 1),
      grp_has_channel_id = (\<lambda>_ _. True), grp_add_channel_id = (\<lambda>_ _ g. (Ok (), (False, snd g))),
      grp_remove_channel_id = (\<lambda>_ g. g), grp_is_empty = fst,
      grp_on_new_template = (\<lambda>t outs g. (Ok (), (fst g, Some ((plain_extended_job 1 t outs)\<lparr>xj_job_id := 8\<rparr>)))),
      grp_on_set_new_prev_hash = (\<lambda>_ g. (Ok (), g)),
      grp_get_future_job_id_from_template_id = (\<lambda>g _. map_option xj_job_id (snd g)),
      grp_get_future_job = (\<lambda>g _. snd g), grp_get_active_job = snd\<rparr>"

definition plain_pool_lib ::
  "(plain_standard, plain_extended, bool \<times> extended_job option, unit, unit, string, string, string, ipc_engine) pool_lib" where
  "plain_pool_lib =
     \<lparr>pl_standard = plain_standard_api, pl_extended = plain_extended_api, pl_group = plain_group_api,
      pl_vardiff = \<lparr>vd_try_vardiff = (\<lambda>_ _ _ v. (Ok None, v)), vd_increment_shares_since_last_update = id\<rparr>,
      pl_miniscript = simple_miniscript, pl_gridpool = plain_gridpool_lib,
      pl_engine = ipc_validation_engine plain_jd_lib 0 None, pl_difficulty_float = (\<lambda>_. Fin 1),
      pl_serialize_header = bh_prev_blockhash, pl_serialize_transaction = (\<lambda>_. []),
      pl_deserialize_transaction = (\<lambda>_. None), pl_compute_txid = (\<lambda>_. []), pl_sha256d = id,
      pl_hex_encode = (\<lambda>_. []), pl_block_hash_display = (\<lambda>_. []),
      pl_deserialize_outputs = (\<lambda>_. Some [TxOut 0 [1]]),
      pl_tx_metrics = \<lparr>tm_size = (\<lambda>_. 34), tm_total_sigop_cost = (\<lambda>_. 0)\<rparr>, pl_limits = wire_limits,
      pl_fits_b032 = (\<lambda>n. n < 33)\<rparr>"

definition plain_pool_env :: "(unit, unit) pool_env" where
  "plain_pool_env = \<lparr>pv_now = 100, pv_now_ms = 0, pv_allocate_standard = Ok (), pv_allocate_extended = (\<lambda>_. Ok ()),
     pv_vardiff_new = Ok (), pv_send_ok = (\<lambda>_. True), pv_tp_send_ok = True, pv_fetch_work = (\<lambda>_. Err [])\<rparr>"

lemmas plain_defs = plain_pool_lib_def plain_pool_env_def plain_standard_api_def plain_extended_api_def
  plain_group_api_def plain_template_def plain_prev_hash_def plain_standard_job_def plain_extended_job_def
  plain_accounting_def

text \<open>A manager with connection 1, which has the channels given.\<close>

definition plain_downstream where
  "plain_downstream custom std channels xchannels =
     \<lparr>ds_group_channel = lock_new (False, Some ((plain_extended_job 1 plain_template [])\<lparr>xj_job_id := 8\<rparr>)),
      ds_extended_channels = xchannels, ds_standard_channels = channels, ds_channel_id_factory = 2,
      ds_negotiated_extensions = lock_new [], ds_payout_mode = lock_new None, ds_downstream_id = 1,
      ds_requires_standard_jobs = std, ds_requires_custom_work = custom,
      ds_supported_extensions = [2], ds_required_extensions = [], ds_cancelled = False\<rparr>"

definition plain_manager where
  "plain_manager gridpool ds keys =
     \<lparr>cm_downstreams = [(1, ds)], cm_downstream_id_factory = 2, cm_vardiff = map (\<lambda>c. ((1, c), ())) keys,
      cm_coinbase_outputs = [], cm_last_new_prev_hash = lock_new (Some plain_prev_hash),
      cm_last_future_template = lock_new (Some plain_template), cm_downstream_sender = [(1, ())],
      cm_pool_tag_string = ''p'', cm_share_batch_size = 1, cm_shares_per_minute = 0,
      cm_coinbase_reward_script = \<lparr>crs_script_pubkey = [1], crs_ok_for_mainnet = True\<rparr>,
      cm_supported_extensions = [2], cm_required_extensions = [],
      cm_job_declarator = None, cm_gridpool = gridpool,
      cm_gridpool_channels = (case gridpool of None \<Rightarrow> []
        | Some _ \<Rightarrow> map (\<lambda>c. ((1, c), \<lparr>cp_payout_address = ''bc1m'', cp_username = ''u''\<rparr>)) keys),
      cm_sent = [], cm_proofs = []\<rparr>"

end
