(* ===== verification/Channel_Manager.thy ===== *)
theory Channel_Manager
  imports Pool_Instance
begin

text \<open>
  The channel manager (\<open>pool-apps/pool/src/lib/channel_manager/mod.rs\<close>): construction, accepting
  and removing connections, error actions, message routing, the vardiff cycle, the refresh of
  GridPool fee jobs, and the coinbase constraints sent to the template provider.
\<close>

section \<open>Constants\<close>

definition POOL_SERVER_BYTES :: u8 where "POOL_SERVER_BYTES = 1"
definition POOL_MAX_CHANNELS :: u32 where "POOL_MAX_CHANNELS = 16777216"

text \<open>
  \<open>bytes_needed\<close> is a function of the channel crate: the number of bytes that hold the indices
  below its argument.
\<close>

definition POOL_ALLOCATION_BYTES :: "(u32 \<Rightarrow> u8) \<Rightarrow> u8" where
  "POOL_ALLOCATION_BYTES bytes_needed = POOL_SERVER_BYTES + bytes_needed POOL_MAX_CHANNELS"

definition CLIENT_SEARCH_SPACE_BYTES :: u8 where "CLIENT_SEARCH_SPACE_BYTES = 16"

definition FULL_EXTRANONCE_SIZE :: "(u32 \<Rightarrow> u8) \<Rightarrow> u8" where
  "FULL_EXTRANONCE_SIZE bytes_needed = POOL_ALLOCATION_BYTES bytes_needed + CLIENT_SEARCH_SPACE_BYTES"

section \<open>Construction\<close>

record pool_config =
  pc_share_batch_size :: nat
  pc_shares_per_minute :: f32
  pc_pool_signature :: string
  pc_coinbase_reward_script :: coinbase_reward_script
  pc_supported_extensions :: "u16 list"
  pc_required_extensions :: "u16 list"
  pc_gridpool :: "gridpool_config option"

definition channel_manager_new ::
  "'b gridpool_lib \<Rightarrow> (unit, string) result \<Rightarrow> connect_env \<Rightarrow> pool_config \<Rightarrow> bytes \<Rightarrow> 'e job_declarator option
    \<Rightarrow> (('s, 'x, 'g, 'v, 'e) channel_manager, pool_error) result" where
  "channel_manager_new gl allocator_new env config coinbase_outputs job_declarator =
     rbind (map_err (\<lambda>e. pool_shutdown (PkChannelSv2 (ExtranonceError e))) allocator_new) (\<lambda>_.
     rbind (case pc_gridpool config of
              Some gridpool_config \<Rightarrow>
                rbind (map_err (\<lambda>e. pool_shutdown (PkConfiguration e)) (gridpool_connect gl env gridpool_config))
                  (\<lambda>client. Ok (Some client))
            | None \<Rightarrow> Ok None) (\<lambda>gridpool.
     Ok \<lparr>cm_downstreams = sm_new, cm_downstream_id_factory = 1, cm_vardiff = sm_new,
         cm_coinbase_outputs = coinbase_outputs, cm_last_new_prev_hash = lock_new None,
         cm_last_future_template = lock_new None, cm_downstream_sender = sm_new,
         cm_pool_tag_string = pc_pool_signature config, cm_share_batch_size = pc_share_batch_size config,
         cm_shares_per_minute = pc_shares_per_minute config,
         cm_coinbase_reward_script = pc_coinbase_reward_script config,
         cm_supported_extensions = pc_supported_extensions config,
         cm_required_extensions = pc_required_extensions config, cm_job_declarator = job_declarator,
         cm_gridpool = gridpool, cm_gridpool_channels = sm_new, cm_sent = [], cm_proofs = []\<rparr>))"

section \<open>Routing\<close>

text \<open>
  A message for a connection that is gone is dropped without an error; a closed receiver is one.
\<close>

definition forward ::
  "('v, 'p) pool_env \<Rightarrow> route_message_to \<Rightarrow> ('s, 'x, 'g, 'w, 'e) channel_manager
    \<Rightarrow> (unit, pool_error_kind) result \<times> ('s, 'x, 'g, 'w, 'e) channel_manager" where
  "forward env m cm = (case m of
     RouteDownstream downstream_id _ \<Rightarrow>
       if \<not> sm_contains_key (cm_downstream_sender cm) downstream_id then (Ok (), cm)
       else if pv_send_ok env downstream_id then (Ok (), cm\<lparr>cm_sent := cm_sent cm @ [m]\<rparr>)
       else (Err PkChannelSend, cm)
   | RouteTemplateProvider _ \<Rightarrow>
       if pv_tp_send_ok env then (Ok (), cm\<lparr>cm_sent := cm_sent cm @ [m]\<rparr>) else (Err PkChannelSend, cm))"

text \<open>The loop at the end of most handlers, which only logs a failed send.\<close>

fun forward_each ::
  "('v, 'p) pool_env \<Rightarrow> route_message_to list \<Rightarrow> ('s, 'x, 'g, 'w, 'e) channel_manager
    \<Rightarrow> ('s, 'x, 'g, 'w, 'e) channel_manager" where
  "forward_each env [] cm = cm"
| "forward_each env (m # ms) cm = forward_each env ms (snd (forward env m cm))"

definition cm_close :: "('s, 'x, 'g, 'v, 'e) channel_manager \<Rightarrow> ('s, 'x, 'g, 'v, 'e) channel_manager" where
  "cm_close cm = cm\<lparr>cm_downstream_sender := sm_clear (cm_downstream_sender cm)\<rparr>"

section \<open>Connections\<close>

definition with_registered_downstream ::
  "downstream_id \<Rightarrow> (('s, 'x, 'g) downstream \<Rightarrow> (('s, 'x, 'g, 'v, 'e) channel_manager, 'r) comp)
    \<Rightarrow> (('s, 'x, 'g, 'v, 'e) channel_manager, 'r) comp" where
  "with_registered_downstream downstream_id f cm = (case sm_get_cloned (cm_downstreams cm) downstream_id of
     Some downstream \<Rightarrow> f downstream cm
   | None \<Rightarrow> c_raise (pool_disconnect (PkDownstreamNotFound downstream_id) downstream_id) cm)"

text \<open>An access to the interior of a registered connection, whose entry guard is held.\<close>

definition on_downstream ::
  "downstream_id \<Rightarrow> (('s, 'x, 'g) downstream, 'r) comp \<Rightarrow> (('s, 'x, 'g, 'v, 'e) channel_manager, 'r) comp" where
  "on_downstream d f cm = (case sm_get_cloned (cm_downstreams cm) d of
     Some ds \<Rightarrow> (let (r, ds') = f ds in (r, cm\<lparr>cm_downstreams := snd (sm_insert d ds' (cm_downstreams cm))\<rparr>))
   | None \<Rightarrow> c_raise (pool_disconnect (PkDownstreamNotFound d) d) cm)"

definition on_group_channel :: "('g, 'r) comp \<Rightarrow> (('s, 'x, 'g) downstream, 'r) comp" where
  "on_group_channel f ds = (let (r, l) = lock_run f (ds_group_channel ds) in (r, ds\<lparr>ds_group_channel := l\<rparr>))"

definition remove_downstream ::
  "downstream_id \<Rightarrow> ('s, 'x, 'g, 'v, 'e) channel_manager \<Rightarrow> ('s, 'x, 'g, 'v, 'e) channel_manager" where
  "remove_downstream d cm =
     cm\<lparr>cm_downstreams := snd (sm_remove d (cm_downstreams cm)),
        cm_vardiff := sm_retain (\<lambda>key _. fst key \<noteq> d) (cm_vardiff cm),
        cm_gridpool_channels := sm_retain (\<lambda>key _. fst key \<noteq> d) (cm_gridpool_channels cm),
        cm_downstream_sender := snd (sm_remove d (cm_downstream_sender cm))\<rparr>"

text \<open>
  The reaction to an error: the control of the loop, whether the global token is now cancelled,
  and the manager.
\<close>

definition handle_error_action ::
  "bool \<Rightarrow> pool_error \<Rightarrow> ('s, 'x, 'g, 'v, 'e) channel_manager
    \<Rightarrow> loop_control \<times> bool \<times> ('s, 'x, 'g, 'v, 'e) channel_manager" where
  "handle_error_action cancelled e cm =
     (if cancelled then (LoopContinue, cancelled, cm)
      else (case pe_action e of
              PoolLog \<Rightarrow> (LoopContinue, cancelled, cm)
            | PoolDisconnect d \<Rightarrow> (LoopContinue, cancelled, remove_downstream d cm)
            | PoolShutdown \<Rightarrow> (LoopBreak, True, cm)))"

definition bootstrap_group_channel ::
  "'g group_api \<Rightarrow> nat \<Rightarrow> channel_id \<Rightarrow> (('s, 'x, 'g, 'v, 'e) channel_manager, 'g option) comp" where
  "bootstrap_group_channel api full_extranonce_size channel_id =
     c_bind (c_get cm_last_future_template) (\<lambda>l.
     c_bind (c_lock_get l) (\<lambda>t.
     c_bind (c_expect t) (\<lambda>last_future_template.
     c_bind (c_get cm_last_new_prev_hash) (\<lambda>l.
     c_bind (c_lock_get l) (\<lambda>p.
     c_bind (c_expect p) (\<lambda>last_set_new_prev_hash.
     c_get (\<lambda>cm. case grp_new_for_pool api channel_id full_extranonce_size (cm_pool_tag_string cm) of
         Inl _ \<Rightarrow> None
       | Inr group_channel \<Rightarrow>
         (let coinbase_output = TxOut (nt_coinbase_tx_value_remaining last_future_template)
                (crs_script_pubkey (cm_coinbase_reward_script cm))
          in case grp_on_new_template api last_future_template [coinbase_output] group_channel of
               (Inl _, _) \<Rightarrow> None
             | (Inr _, group_channel) \<Rightarrow>
               (case grp_on_set_new_prev_hash api last_set_new_prev_hash group_channel of
                  (Inl _, _) \<Rightarrow> None
                | (Inr _, group_channel) \<Rightarrow> Some group_channel)))))))))"

definition downstream_new ::
  "downstream_id \<Rightarrow> u32 \<Rightarrow> 'g \<Rightarrow> u16 list \<Rightarrow> u16 list \<Rightarrow> ('s, 'x, 'g) downstream" where
  "downstream_new d channel_id_factory group_channel supported required =
     \<lparr>ds_group_channel = lock_new group_channel, ds_extended_channels = sm_new,
      ds_standard_channels = sm_new, ds_channel_id_factory = channel_id_factory,
      ds_negotiated_extensions = lock_new [], ds_payout_mode = lock_new None, ds_downstream_id = d,
      ds_requires_standard_jobs = False, ds_requires_custom_work = False,
      ds_supported_extensions = supported, ds_required_extensions = required, ds_cancelled = False\<rparr>"

text \<open>
  The task of an accepted connection up to the point where its own loop starts.  \<^const>\<open>None\<close>
  stands for a group channel that could not be set up, which cancels the global token; the
  identifier is consumed all the same.
\<close>

definition cm_accept_downstream ::
  "'g group_api \<Rightarrow> nat \<Rightarrow> (('s, 'x, 'g, 'v, 'e) channel_manager, downstream_id option) comp" where
  "cm_accept_downstream api full_extranonce_size =
     c_bind (c_get cm_downstream_id_factory) (\<lambda>d.
     c_bind (c_modify (\<lambda>cm. cm\<lparr>cm_downstream_id_factory := d + 1\<rparr>)) (\<lambda>_.
     c_bind (bootstrap_group_channel api full_extranonce_size 1) (\<lambda>g. case g of
       None \<Rightarrow> c_return None
     | Some group_channel \<Rightarrow>
       c_bind (c_modify (\<lambda>cm. cm\<lparr>
           cm_downstream_sender := snd (sm_insert d () (cm_downstream_sender cm)),
           cm_downstreams := snd (sm_insert d
             (downstream_new d 2 group_channel (cm_supported_extensions cm) (cm_required_extensions cm))
             (cm_downstreams cm))\<rparr>)) (\<lambda>_. c_return (Some d)))))"

section \<open>Vardiff\<close>

text \<open>One channel: the new target is announced only when the channel accepted the new hash rate.\<close>

definition run_vardiff_on_extended_channel ::
  "('x, 'p) extended_api \<Rightarrow> 'v vardiff_api \<Rightarrow> downstream_id \<Rightarrow> channel_id \<Rightarrow> 'x \<Rightarrow> 'v
    \<Rightarrow> route_message_to list \<Rightarrow> 'x \<times> 'v \<times> route_message_to list" where
  "run_vardiff_on_extended_channel api vd d channel_id channel_state vardiff_state updates =
     (case vd_try_vardiff vd (xc_get_nominal_hashrate api channel_state) (xc_get_target api channel_state)
             (xc_get_shares_per_minute api channel_state) vardiff_state of
        (Inl _, vardiff_state) \<Rightarrow> (channel_state, vardiff_state, updates)
      | (Inr None, vardiff_state) \<Rightarrow> (xc_set_stable_hashrate api True channel_state, vardiff_state, updates)
      | (Inr (Some new_hashrate), vardiff_state) \<Rightarrow>
        (case xc_update_channel api new_hashrate None (xc_set_stable_hashrate api False channel_state) of
           (Inl _, channel_state) \<Rightarrow> (channel_state, vardiff_state, updates)
         | (Inr _, channel_state) \<Rightarrow> (channel_state, vardiff_state,
             updates @ [RouteDownstream d (SetTarget channel_id (xc_get_target api channel_state))])))"

definition run_vardiff_on_standard_channel ::
  "('s, 'p) standard_api \<Rightarrow> 'v vardiff_api \<Rightarrow> downstream_id \<Rightarrow> channel_id \<Rightarrow> 's \<Rightarrow> 'v
    \<Rightarrow> route_message_to list \<Rightarrow> 's \<times> 'v \<times> route_message_to list" where
  "run_vardiff_on_standard_channel api vd d channel_id channel vardiff_state updates =
     (case vd_try_vardiff vd (sc_get_nominal_hashrate api channel) (sc_get_target api channel)
             (sc_get_shares_per_minute api channel) vardiff_state of
        (Inl _, vardiff_state) \<Rightarrow> (channel, vardiff_state, updates)
      | (Inr None, vardiff_state) \<Rightarrow> (sc_set_stable_hashrate api True channel, vardiff_state, updates)
      | (Inr (Some new_hashrate), vardiff_state) \<Rightarrow>
        (case sc_update_channel api new_hashrate None (sc_set_stable_hashrate api False channel) of
           (Inl _, channel) \<Rightarrow> (channel, vardiff_state, updates)
         | (Inr _, channel) \<Rightarrow> (channel, vardiff_state,
             updates @ [RouteDownstream d (SetTarget channel_id (sc_get_target api channel))])))"

text \<open>
  One key of the vardiff map: the connection's standard channel, then its extended channel, of
  that identifier; the key is dropped when the connection is gone.
\<close>

definition run_vardiff_key ::
  "('s, 'x, 'g, 'v, 'p, 't, 'a, 'b, 'e) pool_lib \<Rightarrow> downstream_id \<times> channel_id
    \<Rightarrow> route_message_to list \<times> ('s, 'x, 'g, 'v, 'e) channel_manager
    \<Rightarrow> route_message_to list \<times> ('s, 'x, 'g, 'v, 'e) channel_manager" where
  "run_vardiff_key lib key = (\<lambda>(messages, cm). (let d = fst key; channel_id = snd key in
     case sm_get_cloned (cm_downstreams cm) d of
       None \<Rightarrow> (messages, cm\<lparr>cm_vardiff := snd (sm_remove key (cm_vardiff cm))\<rparr>)
     | Some ds \<Rightarrow>
       (case sm_get_cloned (cm_vardiff cm) key of
          None \<Rightarrow> (messages, cm)
        | Some v \<Rightarrow>
          (let (r, standard) = sm_with_mut (ds_standard_channels ds) channel_id (\<lambda>c.
                 let (c, v, messages) = run_vardiff_on_standard_channel (pl_standard lib) (pl_vardiff lib)
                       d channel_id c v messages in ((v, messages), c));
               (v, messages) = (case r of None \<Rightarrow> (v, messages) | Some w \<Rightarrow> w);
               (r, extended) = sm_with_mut (ds_extended_channels ds) channel_id (\<lambda>c.
                 let (c, v, messages) = run_vardiff_on_extended_channel (pl_extended lib) (pl_vardiff lib)
                       d channel_id c v messages in ((v, messages), c));
               (v, messages) = (case r of None \<Rightarrow> (v, messages) | Some w \<Rightarrow> w);
               ds = ds\<lparr>ds_standard_channels := standard, ds_extended_channels := extended\<rparr>
           in (messages, cm\<lparr>cm_downstreams := snd (sm_insert d ds (cm_downstreams cm)),
                            cm_vardiff := snd (sm_insert key v (cm_vardiff cm))\<rparr>)))))"

definition run_vardiff ::
  "('s, 'x, 'g, 'v, 'p, 't, 'a, 'b, 'e) pool_lib \<Rightarrow> ('v, 'p) pool_env
    \<Rightarrow> ('s, 'x, 'g, 'v, 'e) channel_manager \<Rightarrow> ('s, 'x, 'g, 'v, 'e) channel_manager" where
  "run_vardiff lib env cm =
     (let (messages, cm) = fold (run_vardiff_key lib) (sm_keys (cm_vardiff cm)) ([], cm)
      in forward_each env messages cm)"

section \<open>GridPool fee jobs\<close>

definition commit_gridpool_job_refresh ::
  "sv2_limits \<Rightarrow> new_template \<Rightarrow> u64 \<Rightarrow> (new_template, pool_error_kind) result" where
  "commit_gridpool_job_refresh limits template refresh_id =
     (let prefix = nt_coinbase_prefix template @ [8] @ le_bytes 8 (unat refresh_id)
      in if length prefix > 100
         then Err (PkConfiguration ''GridPool fee job coinbase prefix exceeds consensus limit'')
         else if \<not> fits_b0255 limits (length prefix)
         then Err (PkConfiguration ''GridPool fee job coinbase prefix exceeds B0255'')
         else Ok (template\<lparr>nt_coinbase_prefix := prefix\<rparr>))"

text \<open>
  The closures over the channels of a connection: a channel whose active job already pays the
  wanted outputs is left alone, every other one gets a job from the refreshed template.
\<close>

definition refresh_standard_channel ::
  "('s, 'x, 'g, 'v, 'p, 't, 'a, 'b, 'e) pool_lib \<Rightarrow> u64 \<Rightarrow> gridpool_client
    \<Rightarrow> (downstream_id \<times> channel_id, channel_payout) shared_map \<Rightarrow> new_template \<Rightarrow> downstream_id
    \<Rightarrow> route_message_to list \<Rightarrow> channel_id \<Rightarrow> 's \<Rightarrow> (unit, fault) result \<times> route_message_to list \<times> 's" where
  "refresh_standard_channel lib now gridpool payouts template d messages channel_id channel =
     (case sm_get_cloned payouts (d, channel_id) of
        None \<Rightarrow> (Ok (), messages, channel)
      | Some payout \<Rightarrow>
        (case gridpool_coinbase_outputs (pl_gridpool lib) gridpool now payout
                (nt_coinbase_tx_value_remaining template) of
           Inl e \<Rightarrow> (Err (Raised (pool_shutdown (PkConfiguration e))), messages, channel)
         | Inr outputs \<Rightarrow>
           if (case sc_get_active_job (pl_standard lib) channel of
                 None \<Rightarrow> False | Some job \<Rightarrow> prefix outputs (sj_coinbase_outputs job))
           then (Ok (), messages, channel)
           else (case sc_on_new_template (pl_standard lib) template outputs channel of
                   (Inl e, channel) \<Rightarrow>
                     (Err (Raised (pool_shutdown (PkChannelSv2 (StandardChannelServerSide e)))), messages, channel)
                 | (Inr _, channel) \<Rightarrow>
                   (case sc_get_active_job (pl_standard lib) channel of
                      None \<Rightarrow> (Err (Raised (pool_shutdown PkJobNotFound)), messages, channel)
                    | Some job \<Rightarrow>
                        (Ok (), messages @ [RouteDownstream d (NewMiningJob (sj_job_message job))], channel)))))"

definition refresh_extended_channel ::
  "('s, 'x, 'g, 'v, 'p, 't, 'a, 'b, 'e) pool_lib \<Rightarrow> u64 \<Rightarrow> gridpool_client
    \<Rightarrow> (downstream_id \<times> channel_id, channel_payout) shared_map \<Rightarrow> new_template \<Rightarrow> downstream_id
    \<Rightarrow> route_message_to list \<Rightarrow> channel_id \<Rightarrow> 'x \<Rightarrow> (unit, fault) result \<times> route_message_to list \<times> 'x" where
  "refresh_extended_channel lib now gridpool payouts template d messages channel_id channel =
     (case sm_get_cloned payouts (d, channel_id) of
        None \<Rightarrow> (Ok (), messages, channel)
      | Some payout \<Rightarrow>
        (case gridpool_coinbase_outputs (pl_gridpool lib) gridpool now payout
                (nt_coinbase_tx_value_remaining template) of
           Inl e \<Rightarrow> (Err (Raised (pool_shutdown (PkConfiguration e))), messages, channel)
         | Inr outputs \<Rightarrow>
           if (case xc_get_active_job (pl_extended lib) channel of
                 None \<Rightarrow> False | Some job \<Rightarrow> prefix outputs (xj_coinbase_outputs job))
           then (Ok (), messages, channel)
           else (case xc_on_new_template (pl_extended lib) template outputs channel of
                   (Inl e, channel) \<Rightarrow>
                     (Err (Raised (pool_shutdown (PkChannelSv2 (ExtendedChannelServerSide e)))), messages, channel)
                 | (Inr _, channel) \<Rightarrow>
                   (case xc_get_active_job (pl_extended lib) channel of
                      None \<Rightarrow> (Err (Raised (pool_shutdown PkJobNotFound)), messages, channel)
                    | Some job \<Rightarrow>
                        (Ok (), messages @ [RouteDownstream d (NewExtendedMiningJob (xj_job_message job))], channel)))))"

text \<open>
  The channels of one connection, standard before extended; the maps keep what was changed before
  an error.
\<close>

definition each_channel ::
  "('m \<Rightarrow> channel_id \<Rightarrow> 's \<Rightarrow> (unit, fault) result \<times> 'm \<times> 's)
    \<Rightarrow> ('m \<Rightarrow> channel_id \<Rightarrow> 'x \<Rightarrow> (unit, fault) result \<times> 'm \<times> 'x)
    \<Rightarrow> 'm \<Rightarrow> ('s, 'x, 'g) downstream \<Rightarrow> (unit, fault) result \<times> 'm \<times> ('s, 'x, 'g) downstream" where
  "each_channel f g messages ds = (case sm_try_for_each_mut f messages (ds_standard_channels ds) of
     (Inl e, messages, m) \<Rightarrow> (Inl e, messages, ds\<lparr>ds_standard_channels := m\<rparr>)
   | (Inr _, messages, m) \<Rightarrow>
     (case sm_try_for_each_mut g messages (ds_extended_channels ds) of
        (r, messages, m') \<Rightarrow> (r, messages, ds\<lparr>ds_standard_channels := m, ds_extended_channels := m'\<rparr>)))"

text \<open>The sends at the end, where the first closed receiver ends the refresh.\<close>

fun forward_all ::
  "('v, 'p) pool_env \<Rightarrow> route_message_to list \<Rightarrow> (('s, 'x, 'g, 'w, 'e) channel_manager, unit) comp" where
  "forward_all env [] = c_return ()"
| "forward_all env (m # ms) =
     c_bind (c_call (\<lambda>_. pool_shutdown PkChannelErrorSender) (forward env m)) (\<lambda>_. forward_all env ms)"

definition each_downstream ::
  "('m \<Rightarrow> downstream_id \<Rightarrow> ('s, 'x, 'g) downstream \<Rightarrow> (unit, fault) result \<times> 'm \<times> ('s, 'x, 'g) downstream)
    \<Rightarrow> 'm \<Rightarrow> (('s, 'x, 'g, 'v, 'e) channel_manager, 'm) comp" where
  "each_downstream f messages cm = (case sm_try_for_each_mut f messages (cm_downstreams cm) of
     (Inl e, _, m) \<Rightarrow> (Inl e, cm\<lparr>cm_downstreams := m\<rparr>)
   | (Inr _, messages, m) \<Rightarrow> (Inr messages, cm\<lparr>cm_downstreams := m\<rparr>))"

definition refresh_gridpool_fee_jobs ::
  "('s, 'x, 'g, 'v, 'p, 't, 'a, 'b, 'e) pool_lib \<Rightarrow> ('v, 'p) pool_env
    \<Rightarrow> (('s, 'x, 'g, 'v, 'e) channel_manager, unit) comp" where
  "refresh_gridpool_fee_jobs lib env cm = (case cm_gridpool cm of
     None \<Rightarrow> c_return () cm
   | Some gridpool \<Rightarrow>
     c_bind (c_lock_get (cm_last_future_template cm)) (\<lambda>t.
       case t of
         None \<Rightarrow> c_return ()
       | Some template \<Rightarrow>
         (let now = pv_now env in
          c_bind (c_try (map_err pool_shutdown
             (commit_gridpool_job_refresh (pl_limits lib) (template\<lparr>nt_future_template := False\<rparr>) now))) (\<lambda>template.
          c_bind (each_downstream (\<lambda>messages d. each_channel
                (refresh_standard_channel lib now gridpool (cm_gridpool_channels cm) template d)
                (refresh_extended_channel lib now gridpool (cm_gridpool_channels cm) template d) messages) [])
            (forward_all env)))) cm)"

section \<open>Start\<close>

definition cm_coinbase_output_constraints ::
  "tx_metrics \<Rightarrow> ('v, 'p) pool_env \<Rightarrow> tx_out list \<Rightarrow> (('s, 'x, 'g, 'w, 'e) channel_manager, unit) comp" where
  "cm_coinbase_output_constraints tm env outputs =
     c_call (\<lambda>_. pool_shutdown PkChannelErrorSender)
       (forward env (RouteTemplateProvider (CoinbaseOutputConstraints
          (coinbase_output_constraints_message_with_offset tm outputs))))"

text \<open>What \<open>start\<close> does before it enters the event loop.\<close>

definition cm_start ::
  "('s, 'x, 'g, 'v, 'p, 't, 'a, 'b, 'e) pool_lib \<Rightarrow> ('v, 'p) pool_env \<Rightarrow> tx_out list
    \<Rightarrow> (('s, 'x, 'g, 'v, 'e) channel_manager, unit) comp" where
  "cm_start lib env coinbase_outputs cm =
     c_bind (case cm_gridpool cm of
         Some gridpool \<Rightarrow> c_try (map_err (\<lambda>e. pool_shutdown (PkConfiguration e))
           (constraint_outputs (pl_gridpool lib) gridpool (pv_now env)))
       | None \<Rightarrow> c_return coinbase_outputs)
       (cm_coinbase_output_constraints (pl_tx_metrics lib) env) cm"

section \<open>Weakest preconditions of the accesses\<close>

lemma wp_on_downstream [wp_rules]:
  "c_wp (on_downstream d f) Q E cm = (case map_of (cm_downstreams cm) d of
     None \<Rightarrow> E (Raised (pool_disconnect (PkDownstreamNotFound d) d)) cm
   | Some ds \<Rightarrow> c_wp f (\<lambda>x ds'. Q x (cm\<lparr>cm_downstreams := AList.update d ds' (cm_downstreams cm)\<rparr>))
       (\<lambda>e ds'. E e (cm\<lparr>cm_downstreams := AList.update d ds' (cm_downstreams cm)\<rparr>)) ds)"
  by (auto simp: c_wp_def on_downstream_def sm_get_cloned_def c_raise_def split: option.splits prod.splits sum.splits)

lemma wp_with_registered [wp_rules]:
  "c_wp (with_registered_downstream d f) Q E cm = (case map_of (cm_downstreams cm) d of
     None \<Rightarrow> E (Raised (pool_disconnect (PkDownstreamNotFound d) d)) cm
   | Some ds \<Rightarrow> c_wp (f ds) Q E cm)"
  by (auto simp: c_wp_def with_registered_downstream_def sm_get_cloned_def c_raise_def split: option.splits)

lemma wp_on_group [wp_rules]:
  "c_wp (on_group_channel f) Q E ds = (if lock_poisoned (ds_group_channel ds)
     then E (Raised (pool_shutdown PkPoisonLock)) ds
     else c_wp f (\<lambda>x g. Q x (ds\<lparr>ds_group_channel := (ds_group_channel ds)\<lparr>lock_value := g, lock_poisoned := False\<rparr>\<rparr>))
       (\<lambda>e g. E e (ds\<lparr>ds_group_channel := (ds_group_channel ds)\<lparr>lock_value := g, lock_poisoned := (e = Panic)\<rparr>\<rparr>))
       (lock_value (ds_group_channel ds)))"
  by (auto simp: c_wp_def on_group_channel_def lock_run_def split: prod.splits sum.splits)

lemma wp_return_fun [wp_rules]: "c_wp (c_return x) Q E = Q x"
  by (rule ext) (simp add: wp_basic)

lemma bind_return: "c_bind (c_return x) f = f x"
  by (rule ext) (simp add: c_bind_def c_return_def)

lemma wp_modify_downstream:
  "map_of (cm_downstreams cm) d = Some ds \<Longrightarrow> c_wp (c_bind (on_downstream d (c_modify g)) k) Q E cm =
     c_wp (k ()) Q E (cm\<lparr>cm_downstreams := AList.update d (g ds) (cm_downstreams cm)\<rparr>)"
  by (simp add: wp_rules)

lemma wp_check: "c_wp (c_bind (if b then c_return () else m) k) Q E cm =
    (if b then c_wp (k ()) Q E cm else c_wp (c_bind m k) Q E cm)"
  by (simp add: bind_return)

lemma wp_bind_result: "c_wp (c_bind (c_result r) k) Q E cm =
    (case r of Inl e \<Rightarrow> E e cm | Inr x \<Rightarrow> c_wp (k x) Q E cm)"
  by (simp add: wp_bind wp_basic)

lemma wp_bind_get: "c_wp (c_bind (c_get f) k) Q E cm = c_wp (k (f cm)) Q E cm"
  by (simp add: wp_bind wp_basic)

lemma wp_bind_try: "c_wp (c_bind (c_try r) k) Q E cm =
    (case r of Inl e \<Rightarrow> E (Raised e) cm | Inr x \<Rightarrow> c_wp (k x) Q E cm)"
  by (simp add: wp_bind wp_basic)

lemma wp_bind_lock_get: "c_wp (c_bind (c_lock_get l) k) Q E cm =
    (if lock_poisoned l then E (Raised (pool_shutdown PkPoisonLock)) cm else c_wp (k (lock_value l)) Q E cm)"
  by (simp add: wp_bind wp_lock_get)

lemmas wp_steps = wp_bind_get wp_bind_try wp_bind_lock_get wp_bind_result wp_check wp_basic

section \<open>Fee jobs never repeat work\<close>

text \<open>
  A refreshed GridPool job has a search space of its own: committing the refresh time keeps
  everything but the coinbase prefix, the new prefix differs from the template's and from the one of
  every other refresh time, and it respects the consensus limit of 100 bytes.
\<close>

theorem fee_refresh_prefixes_distinct:
  assumes "commit_gridpool_job_refresh limits t i = Ok t1" and "commit_gridpool_job_refresh limits t j = Ok t2"
  shows "t1 = t\<lparr>nt_coinbase_prefix := nt_coinbase_prefix t1\<rparr> \<and>
    nt_coinbase_prefix t1 \<noteq> nt_coinbase_prefix t \<and>
    (nt_coinbase_prefix t1 = nt_coinbase_prefix t2 \<longleftrightarrow> i = j) \<and>
    prefix (nt_coinbase_prefix t) (nt_coinbase_prefix t1) \<and> length (nt_coinbase_prefix t1) \<le> 100"
proof -
  have e: "t1 = t\<lparr>nt_coinbase_prefix := nt_coinbase_prefix t @ [8] @ le_bytes 8 (unat i)\<rparr>"
      "t2 = t\<lparr>nt_coinbase_prefix := nt_coinbase_prefix t @ [8] @ le_bytes 8 (unat j)\<rparr>"
      "length (nt_coinbase_prefix t @ [8] @ le_bytes 8 (unat i)) \<le> 100"
    using assms by (auto simp: commit_gridpool_job_refresh_def Let_def split: if_splits)
  have "le_bytes 8 (unat i) = le_bytes 8 (unat j) \<longleftrightarrow> i = j"
    using le_bytes_inj [of "unat i" 8 "unat j"] unat_bound [of i] unat_bound [of j] by (simp add: word_unat_eq_iff)
  with e show ?thesis by simp
qed

theorem fee_refresh_prefixes_distinct_witness:
  "nt_coinbase_prefix (plain_template\<lparr>nt_coinbase_prefix := [3, 1, 2, 3, 8, 100, 0, 0, 0, 0, 0, 0, 0]\<rparr>) \<noteq>
   nt_coinbase_prefix (plain_template\<lparr>nt_coinbase_prefix := [3, 1, 2, 3, 8, 101, 0, 0, 0, 0, 0, 0, 0]\<rparr>)"
proof -
  have b: "le_bytes 8 100 = [100, 0, 0, 0, 0, 0, 0, 0]" "le_bytes 8 101 = [101, 0, 0, 0, 0, 0, 0, 0]"
    by code_simp+
  have "commit_gridpool_job_refresh wire_limits plain_template 100 =
      Ok (plain_template\<lparr>nt_coinbase_prefix := [3, 1, 2, 3, 8, 100, 0, 0, 0, 0, 0, 0, 0]\<rparr>)"
    "commit_gridpool_job_refresh wire_limits plain_template 101 =
      Ok (plain_template\<lparr>nt_coinbase_prefix := [3, 1, 2, 3, 8, 101, 0, 0, 0, 0, 0, 0, 0]\<rparr>)"
    by (simp_all add: commit_gridpool_job_refresh_def plain_template_def wire_limits_def b)
  from fee_refresh_prefixes_distinct [OF this] show ?thesis by simp
qed

end
