(* ===== verification/Mining_Handler.thy ===== *)
theory Mining_Handler
  imports Channel_Manager
begin

text \<open>
  The mining protocol handlers of the channel manager
  (\<open>channel_manager/mining_message_handler.rs\<close>): opening, updating and closing channels, shares,
  and custom jobs.  Standard and extended channels have handlers of their own in the source and
  here.  The identity of an open request is the string \<open>as_utf8_or_hex\<close> gives; the identity in a
  share's extension fields is read and not used by the code, and left out.
\<close>

section \<open>GridPool proofs\<close>

definition build_standard_gridpool_proof ::
  "('s, 'x, 'g, 'v, 'p, 't, 'a, 'b, 'e) pool_lib \<Rightarrow> string \<Rightarrow> 's \<Rightarrow> submit_shares_standard \<Rightarrow> channel_payout
    \<Rightarrow> f64 \<Rightarrow> share_submission option" where
  "build_standard_gridpool_proof lib pool_tag channel msg payout achieved_difficulty =
     (let api = pl_standard lib;
          active = (case sc_get_active_job api channel of
             None \<Rightarrow> None | Some job \<Rightarrow> if sj_job_id job = sss_job_id msg then Some job else None)
      in case (case active of None \<Rightarrow> sc_get_past_job api channel (sss_job_id msg) | Some job \<Rightarrow> Some job) of
           None \<Rightarrow> None
         | Some job \<Rightarrow>
         (case sc_get_chain_tip api channel of
            None \<Rightarrow> None
          | Some tip \<Rightarrow>
            (let tag = str_bytes (''/'' @ pool_tag @ ''//''); t = sj_template job in
             if length tag > 61 then None
             else if length (ct_prev_hash tip) \<noteq> 32 then None
             else
             (let script_sig = nt_coinbase_prefix t @ [word_of_nat (length tag)] @ tag
                    @ [word_of_nat (length (sj_extranonce_prefix job))] @ sj_extranonce_prefix job;
                  coinbase = \<lparr>tx_version = nt_coinbase_tx_version t, tx_lock_time = nt_coinbase_tx_locktime t,
                    tx_input = [\<lparr>txin_previous_output_null = True, txin_script_sig = script_sig,
                      txin_sequence = nt_coinbase_tx_input_sequence t, txin_witness = [replicate 32 0]\<rparr>],
                    tx_output = sj_coinbase_outputs job\<rparr>;
                  header = \<lparr>bh_version = sss_version msg, bh_prev_blockhash = ct_prev_hash tip,
                    bh_merkle_root = sj_merkle_root job, bh_time = sss_ntime msg, bh_bits = ct_nbits tip,
                    bh_nonce = sss_nonce msg\<rparr>
              in Some \<lparr>sub_miner_address = cp_payout_address payout, sub_username = cp_username payout,
                   sub_header_hex = pl_hex_encode lib (pl_serialize_header lib header),
                   sub_coinbase_hex = pl_hex_encode lib (pl_serialize_transaction lib coinbase),
                   sub_merkle_path = map (pl_hex_encode lib) (nt_merkle_path t),
                   sub_payout_snapshot_id = None,
                   sub_prev_block_hash = Some (pl_block_hash_display lib (ct_prev_hash tip)),
                   sub_difficulty = achieved_difficulty\<rparr>))))"

definition build_extended_gridpool_proof ::
  "('s, 'x, 'g, 'v, 'p, 't, 'a, 'b, 'e) pool_lib \<Rightarrow> 'x \<Rightarrow> submit_shares_extended \<Rightarrow> channel_payout
    \<Rightarrow> f64 \<Rightarrow> share_submission option" where
  "build_extended_gridpool_proof lib channel msg payout achieved_difficulty =
     (let api = pl_extended lib;
          active = (case xc_get_active_job api channel of
             None \<Rightarrow> None | Some job \<Rightarrow> if xj_job_id job = sse_job_id msg then Some job else None)
      in case (case active of None \<Rightarrow> xc_get_past_job api channel (sse_job_id msg) | Some job \<Rightarrow> Some job) of
           None \<Rightarrow> None
         | Some job \<Rightarrow>
         (case xc_get_chain_tip api channel of
            None \<Rightarrow> None
          | Some tip \<Rightarrow>
            (let full_extranonce = xj_extranonce_prefix job @ sse_extranonce msg;
                 coinbase = xj_coinbase_tx_prefix_without_bip141 job @ full_extranonce
                   @ xj_coinbase_tx_suffix_without_bip141 job
             in case pl_deserialize_transaction lib coinbase of
                  None \<Rightarrow> None
                | Some coinbase_tx \<Rightarrow>
                  if length (ct_prev_hash tip) \<noteq> 32 then None
                  else
                  (let merkle_root = foldl (\<lambda>root node. pl_sha256d lib (root @ node))
                         (pl_compute_txid lib coinbase_tx) (xj_merkle_path job);
                       header = \<lparr>bh_version = sse_version msg, bh_prev_blockhash = ct_prev_hash tip,
                         bh_merkle_root = merkle_root, bh_time = sse_ntime msg, bh_bits = ct_nbits tip,
                         bh_nonce = sse_nonce msg\<rparr>
                   in Some \<lparr>sub_miner_address = cp_payout_address payout, sub_username = cp_username payout,
                        sub_header_hex = pl_hex_encode lib (pl_serialize_header lib header),
                        sub_coinbase_hex = pl_hex_encode lib coinbase,
                        sub_merkle_path = map (pl_hex_encode lib) (xj_merkle_path job),
                        sub_payout_snapshot_id = None,
                        sub_prev_block_hash = Some (pl_block_hash_display lib (ct_prev_hash tip)),
                        sub_difficulty = achieved_difficulty\<rparr>))))"

section \<open>Closing a channel\<close>

definition get_negotiated_extensions_with_client ::
  "downstream_id \<Rightarrow> (('s, 'x, 'g, 'v, 'e) channel_manager, u16 list) comp" where
  "get_negotiated_extensions_with_client d =
     with_registered_downstream d (\<lambda>ds. c_lock_get (ds_negotiated_extensions ds))"

definition handle_close_channel ::
  "'g group_api \<Rightarrow> downstream_id \<Rightarrow> channel_id \<Rightarrow> (('s, 'x, 'g, 'v, 'e) channel_manager, unit) comp" where
  "handle_close_channel api d channel_id =
     c_bind (with_registered_downstream d (\<lambda>_.
       on_downstream d (c_bind
         (on_group_channel (c_modify (\<lambda>group_channel.
            if grp_has_channel_id api group_channel channel_id
            then grp_remove_channel_id api channel_id group_channel else group_channel)))
         (\<lambda>_. c_modify (\<lambda>ds. ds\<lparr>
            ds_standard_channels := snd (sm_remove channel_id (ds_standard_channels ds)),
            ds_extended_channels := snd (sm_remove channel_id (ds_extended_channels ds))\<rparr>)))))
     (\<lambda>_. c_modify (\<lambda>cm. cm\<lparr>
        cm_vardiff := snd (sm_remove (d, channel_id) (cm_vardiff cm)),
        cm_gridpool_channels := snd (sm_remove (d, channel_id) (cm_gridpool_channels cm))\<rparr>))"

section \<open>Opening a channel\<close>

definition open_error :: "downstream_id \<Rightarrow> u32 \<Rightarrow> error_code \<Rightarrow> route_message_to list" where
  "open_error d request_id code = [RouteDownstream d (OpenMiningChannelError request_id code)]"

text \<open>The payout of a GridPool channel; outside GridPool mode there is none.\<close>

definition resolve_payout ::
  "'b gridpool_lib \<Rightarrow> gridpool_client option \<Rightarrow> string \<Rightarrow> (channel_payout option, string) result" where
  "resolve_payout gl gridpool user_identity = (case gridpool of
     Some g \<Rightarrow> rbind (resolve_channel gl g user_identity) (\<lambda>payout. Ok (Some payout))
   | None \<Rightarrow> Ok None)"

text \<open>An identity without a payout mode donates everything; a malformed one is refused.\<close>

definition payout_mode_of_identity :: "('t, 'a) miniscript_lib \<Rightarrow> string \<Rightarrow> payout_mode option" where
  "payout_mode_of_identity ms user_identity = (case payout_mode_try_from ms user_identity of
     Inr mode \<Rightarrow> Some mode
   | Inl (NoPayoutMode _) \<Rightarrow> Some FullDonation
   | Inl _ \<Rightarrow> None)"

definition channel_coinbase_outputs ::
  "'b gridpool_lib \<Rightarrow> u64 \<Rightarrow> gridpool_client option \<Rightarrow> channel_payout option \<Rightarrow> payout_mode
    \<Rightarrow> coinbase_reward_script \<Rightarrow> u64 \<Rightarrow> (tx_out list, string) result" where
  "channel_coinbase_outputs gl now gridpool payout mode pool_script total_value = (case (gridpool, payout) of
     (Some g, Some p) \<Rightarrow> gridpool_coinbase_outputs gl g now p total_value
   | _ \<Rightarrow> Ok (payout_coinbase_outputs mode total_value pool_script))"

definition set_payout_mode :: "payout_mode \<Rightarrow> (('s, 'x, 'g) downstream, unit) comp" where
  "set_payout_mode mode ds =
     (let (r, l) = lock_run (\<lambda>_. (Ok (), Some mode)) (ds_payout_mode ds) in (r, ds\<lparr>ds_payout_mode := l\<rparr>))"

definition next_channel_id :: "(('s, 'x, 'g) downstream, channel_id) comp" where
  "next_channel_id ds = (Ok (ds_channel_id_factory ds), ds\<lparr>ds_channel_id_factory := ds_channel_id_factory ds + 1\<rparr>)"

definition insert_channel_payout ::
  "downstream_id \<Rightarrow> channel_id \<Rightarrow> channel_payout option \<Rightarrow> (('s, 'x, 'g, 'v, 'e) channel_manager, unit) comp" where
  "insert_channel_payout d channel_id payout = c_modify (\<lambda>cm. case payout of
     None \<Rightarrow> cm
   | Some p \<Rightarrow> cm\<lparr>cm_gridpool_channels := snd (sm_insert (d, channel_id) p (cm_gridpool_channels cm))\<rparr>)"

definition insert_vardiff ::
  "('v, 'p) pool_env \<Rightarrow> downstream_id \<Rightarrow> channel_id \<Rightarrow> (('s, 'x, 'g, 'v, 'e) channel_manager, unit) comp" where
  "insert_vardiff env d channel_id =
     c_bind (c_try (map_err (\<lambda>e. pool_shutdown (PkVardiff e)) (pv_vardiff_new env))) (\<lambda>v.
     c_modify (\<lambda>cm. cm\<lparr>cm_vardiff := snd (sm_insert (d, channel_id) v (cm_vardiff cm))\<rparr>))"

definition prev_hash_message :: "channel_id \<Rightarrow> u32 \<Rightarrow> tdp_set_new_prev_hash \<Rightarrow> mining" where
  "prev_hash_message channel_id job_id p = SetNewPrevHash
     \<lparr>snp_channel_id = channel_id, snp_job_id = job_id, snp_prev_hash = tph_prev_hash p,
      snp_min_ntime = tph_header_timestamp p, snp_nbits = tph_n_bits p\<rparr>"

text \<open>The first job of a new standard channel, and its activation by the current previous hash.\<close>

definition open_standard_jobs ::
  "('s, 'p) standard_api \<Rightarrow> downstream_id \<Rightarrow> channel_id \<Rightarrow> new_template \<Rightarrow> tdp_set_new_prev_hash \<Rightarrow> tx_out list
    \<Rightarrow> ('s, route_message_to list) comp" where
  "open_standard_jobs api d channel_id template prev_hash outputs =
     c_bind (c_call (\<lambda>e. pool_shutdown (PkChannelSv2 (StandardChannelServerSide e)))
               (sc_on_new_template api template outputs)) (\<lambda>_.
     c_bind (c_get (\<lambda>c. sc_get_future_job_id_from_template_id api c (nt_template_id template))) (\<lambda>i.
     c_bind (c_expect i) (\<lambda>job_id.
     c_bind (c_get (\<lambda>c. sc_get_future_job api c job_id)) (\<lambda>j.
     c_bind (c_expect j) (\<lambda>job.
     c_bind (c_call (\<lambda>e. pool_shutdown (PkChannelSv2 (StandardChannelServerSide e)))
               (sc_on_set_new_prev_hash api prev_hash)) (\<lambda>_.
     c_return [RouteDownstream d (NewMiningJob (sj_job_message job)),
               RouteDownstream d (prev_hash_message channel_id job_id prev_hash)]))))))"

text \<open>What happens once the standard channel exists.\<close>

definition open_standard_register ::
  "('s, 'x, 'g, 'v, 'p, 't, 'a, 'b, 'e) pool_lib \<Rightarrow> ('v, 'p) pool_env \<Rightarrow> downstream_id \<Rightarrow> bool \<Rightarrow> u32
    \<Rightarrow> new_template \<Rightarrow> tdp_set_new_prev_hash \<Rightarrow> tx_out list \<Rightarrow> channel_payout option \<Rightarrow> channel_id \<Rightarrow> 's
    \<Rightarrow> (('s, 'x, 'g, 'v, 'e) channel_manager, route_message_to list) comp" where
  "open_standard_register lib env d requires_standard_jobs request_id template prev_hash outputs payout channel_id channel =
     (let api = pl_standard lib; extranonce_prefix = sc_get_extranonce_prefix api channel in
      c_bind (insert_channel_payout d channel_id payout) (\<lambda>_.
      c_bind (on_downstream d (on_group_channel (c_get (grp_get_group_channel_id (pl_group lib))))) (\<lambda>group_channel_id.
      c_bind (if pl_fits_b032 lib (length extranonce_prefix) then c_return () else c_panic) (\<lambda>_.
      (let success = RouteDownstream d (OpenStandardMiningChannelSuccess
             \<lparr>ocs_request_id = request_id, ocs_channel_id = channel_id, ocs_target = sc_get_target api channel,
              ocs_extranonce_prefix = extranonce_prefix, ocs_group_channel_id = group_channel_id\<rparr>);
           (r, channel) = open_standard_jobs api d channel_id template prev_hash outputs channel
       in c_bind (c_result r) (\<lambda>jobs.
          c_bind (on_downstream d (c_modify (\<lambda>ds.
             ds\<lparr>ds_standard_channels := snd (sm_insert channel_id channel (ds_standard_channels ds))\<rparr>))) (\<lambda>_.
          c_bind (if requires_standard_jobs then c_return ()
                  else on_downstream d (on_group_channel
                    (c_call (\<lambda>e. pool_shutdown (PkChannelSv2 (GroupChannelServerSide e)))
                       (grp_add_channel_id (pl_group lib) channel_id (length extranonce_prefix))))) (\<lambda>_.
          c_bind (insert_vardiff env d channel_id) (\<lambda>_. c_return (success # jobs))))))))))"

text \<open>The steps from the resolved identity to the channel.\<close>

definition open_standard_create ::
  "('s, 'x, 'g, 'v, 'p, 't, 'a, 'b, 'e) pool_lib \<Rightarrow> ('v, 'p) pool_env \<Rightarrow> downstream_id \<Rightarrow> bool
    \<Rightarrow> open_standard_mining_channel \<Rightarrow> new_template \<Rightarrow> tdp_set_new_prev_hash \<Rightarrow> channel_payout option \<Rightarrow> payout_mode
    \<Rightarrow> (('s, 'x, 'g, 'v, 'e) channel_manager, route_message_to list) comp" where
  "open_standard_create lib env d requires_standard_jobs msg template prev_hash payout mode =
     c_bind (c_get (\<lambda>cm. channel_coinbase_outputs (pl_gridpool lib) (pv_now env) (cm_gridpool cm) payout mode
               (cm_coinbase_reward_script cm) (nt_coinbase_tx_value_remaining template))) (\<lambda>r.
     c_bind (c_try (map_err (\<lambda>e. pool_disconnect (PkConfiguration e) d) r)) (\<lambda>outputs.
     c_bind (on_downstream d (set_payout_mode mode)) (\<lambda>_.
     c_bind (c_try (map_err (\<lambda>e. pool_shutdown (PkChannelSv2 (ExtranonceError e)))
               (pv_allocate_standard env))) (\<lambda>extranonce_prefix.
     c_bind (on_downstream d next_channel_id) (\<lambda>channel_id.
     c_bind (c_get (\<lambda>cm. sc_new_for_pool (pl_standard lib) channel_id (osm_user_identity msg) extranonce_prefix
               (osm_max_target msg) (osm_nominal_hash_rate msg) (cm_share_batch_size cm)
               (cm_shares_per_minute cm) (cm_pool_tag_string cm))) (\<lambda>new. case new of
       Inl (StdOpenChannelInvalidNominalHashrate code) \<Rightarrow> c_return (open_error d (osm_request_id msg) code)
     | Inl _ \<Rightarrow> c_raise (pool_disconnect PkChannelErrorSender d)
     | Inr channel \<Rightarrow> open_standard_register lib env d requires_standard_jobs (osm_request_id msg)
         template prev_hash outputs payout channel_id channel))))))"

definition open_standard ::
  "('s, 'x, 'g, 'v, 'p, 't, 'a, 'b, 'e) pool_lib \<Rightarrow> ('v, 'p) pool_env \<Rightarrow> downstream_id
    \<Rightarrow> open_standard_mining_channel \<Rightarrow> ('s, 'x, 'g) downstream
    \<Rightarrow> (('s, 'x, 'g, 'v, 'e) channel_manager, route_message_to list) comp" where
  "open_standard lib env d msg downstream =
     (if ds_requires_custom_work downstream
      then c_return (open_error d (osm_request_id msg)
             EC_OPEN_MINING_CHANNEL_STANDARD_CHANNELS_NOT_SUPPORTED_FOR_CUSTOM_WORK)
      else
      c_bind (c_get cm_last_future_template) (\<lambda>l. c_bind (c_lock_get l) (\<lambda>t. case t of
        None \<Rightarrow> c_raise (pool_disconnect PkFutureTemplateNotPresent d)
      | Some template \<Rightarrow>
      c_bind (c_get cm_last_new_prev_hash) (\<lambda>l. c_bind (c_lock_get l) (\<lambda>p. case p of
        None \<Rightarrow> c_raise (pool_disconnect PkLastNewPrevhashNotFound d)
      | Some prev_hash \<Rightarrow>
      c_bind (c_get cm_gridpool) (\<lambda>gridpool.
        case resolve_payout (pl_gridpool lib) gridpool (osm_user_identity msg) of
          Inl _ \<Rightarrow> c_return (open_error d (osm_request_id msg) EC_OPEN_MINING_CHANNEL_INVALID_USER_IDENTITY)
        | Inr payout \<Rightarrow>
          (case payout_mode_of_identity (pl_miniscript lib) (osm_user_identity msg) of
             None \<Rightarrow> c_return (open_error d (osm_request_id msg) EC_OPEN_MINING_CHANNEL_INVALID_USER_IDENTITY)
           | Some mode \<Rightarrow> open_standard_create lib env d (ds_requires_standard_jobs downstream) msg
               template prev_hash payout mode)))))))"

definition handle_open_standard_mining_channel ::
  "('s, 'x, 'g, 'v, 'p, 't, 'a, 'b, 'e) pool_lib \<Rightarrow> ('v, 'p) pool_env \<Rightarrow> downstream_id
    \<Rightarrow> open_standard_mining_channel \<Rightarrow> (('s, 'x, 'g, 'v, 'e) channel_manager, unit) comp" where
  "handle_open_standard_mining_channel lib env d msg =
     c_bind (with_registered_downstream d (open_standard lib env d msg))
       (\<lambda>messages. c_modify (forward_each env messages))"

text \<open>The first job of a new extended channel.\<close>

definition open_extended_jobs ::
  "('x, 'p) extended_api \<Rightarrow> downstream_id \<Rightarrow> channel_id \<Rightarrow> new_template \<Rightarrow> tdp_set_new_prev_hash \<Rightarrow> tx_out list
    \<Rightarrow> ('x, route_message_to list) comp" where
  "open_extended_jobs api d channel_id template prev_hash outputs =
     c_bind (c_call (\<lambda>e. pool_shutdown (PkChannelSv2 (ExtendedChannelServerSide e)))
               (xc_on_new_template api template outputs)) (\<lambda>_.
     c_bind (c_get (\<lambda>c. xc_get_future_job_id_from_template_id api c (nt_template_id template))) (\<lambda>i.
     c_bind (c_expect i) (\<lambda>job_id.
     c_bind (c_get (\<lambda>c. xc_get_future_job api c job_id)) (\<lambda>j.
     c_bind (c_expect j) (\<lambda>job.
     c_bind (c_call (\<lambda>e. pool_shutdown (PkChannelSv2 (ExtendedChannelServerSide e)))
               (xc_on_set_new_prev_hash api prev_hash)) (\<lambda>_.
     c_return [RouteDownstream d (NewExtendedMiningJob (xj_job_message job)),
               RouteDownstream d (prev_hash_message channel_id job_id prev_hash)]))))))"

text \<open>
  The work of a new extended channel: a connection that brings its own jobs only learns the
  previous hash, every other one gets a job and joins the group.
\<close>

definition open_extended_work ::
  "('s, 'x, 'g, 'v, 'p, 't, 'a, 'b, 'e) pool_lib \<Rightarrow> ('v, 'p) pool_env \<Rightarrow> downstream_id \<Rightarrow> bool
    \<Rightarrow> new_template \<Rightarrow> tdp_set_new_prev_hash \<Rightarrow> channel_payout option \<Rightarrow> payout_mode \<Rightarrow> channel_id \<Rightarrow> 'x
    \<Rightarrow> (('s, 'x, 'g, 'v, 'e) channel_manager, route_message_to list \<times> 'x) comp" where
  "open_extended_work lib env d requires_custom_work template prev_hash payout mode channel_id channel =
     (if requires_custom_work
      then (let (r, channel) = c_call (\<lambda>e. pool_shutdown (PkChannelSv2 (ExtendedChannelServerSide e)))
                 (xc_on_set_new_prev_hash (pl_extended lib) prev_hash) channel
            in c_bind (c_result r) (\<lambda>_. c_return ([], channel)))
      else
      c_bind (c_get (\<lambda>cm. channel_coinbase_outputs (pl_gridpool lib) (pv_now env) (cm_gridpool cm) payout mode
                (cm_coinbase_reward_script cm) (nt_coinbase_tx_value_remaining template))) (\<lambda>outs.
      c_bind (c_try (map_err (\<lambda>e. pool_disconnect (PkConfiguration e) d) outs)) (\<lambda>outputs.
      (let (r, channel) = open_extended_jobs (pl_extended lib) d channel_id template prev_hash outputs channel
       in c_bind (c_result r) (\<lambda>jobs.
          c_bind (on_downstream d (on_group_channel
             (c_call (\<lambda>e. pool_shutdown (PkChannelSv2 (GroupChannelServerSide e)))
                (grp_add_channel_id (pl_group lib) channel_id
                   (xc_get_full_extranonce_size (pl_extended lib) channel))))) (\<lambda>_.
          c_return (jobs, channel)))))))"

definition open_extended_register ::
  "('s, 'x, 'g, 'v, 'p, 't, 'a, 'b, 'e) pool_lib \<Rightarrow> ('v, 'p) pool_env \<Rightarrow> downstream_id \<Rightarrow> bool \<Rightarrow> u32
    \<Rightarrow> channel_payout option \<Rightarrow> payout_mode \<Rightarrow> channel_id \<Rightarrow> 'x
    \<Rightarrow> (('s, 'x, 'g, 'v, 'e) channel_manager, route_message_to list) comp" where
  "open_extended_register lib env d requires_custom_work request_id payout mode channel_id channel =
     (let api = pl_extended lib; extranonce_prefix = xc_get_extranonce_prefix api channel in
      c_bind (insert_channel_payout d channel_id payout) (\<lambda>_.
      c_bind (on_downstream d (on_group_channel (c_get (grp_get_group_channel_id (pl_group lib))))) (\<lambda>group_channel_id.
      c_bind (if pl_fits_b032 lib (length extranonce_prefix) then c_return ()
              else c_raise (pool_shutdown PkBinarySv2)) (\<lambda>_.
      (let success = RouteDownstream d (OpenExtendedMiningChannelSuccess
             \<lparr>ocs_request_id = request_id, ocs_channel_id = channel_id, ocs_target = xc_get_target api channel,
              ocs_extranonce_prefix = extranonce_prefix, ocs_group_channel_id = group_channel_id\<rparr>
             (xc_get_rollable_extranonce_size api channel))
       in c_bind (c_get cm_last_new_prev_hash) (\<lambda>l. c_bind (c_lock_get l) (\<lambda>p. case p of
            None \<Rightarrow> c_raise (pool_disconnect PkLastNewPrevhashNotFound d)
          | Some prev_hash \<Rightarrow>
          c_bind (c_get cm_last_future_template) (\<lambda>l. c_bind (c_lock_get l) (\<lambda>t. case t of
            None \<Rightarrow> c_raise (pool_disconnect PkFutureTemplateNotPresent d)
          | Some template \<Rightarrow>
          c_bind (open_extended_work lib env d requires_custom_work template prev_hash payout mode channel_id channel)
            (\<lambda>(jobs, channel).
          c_bind (on_downstream d (c_modify (\<lambda>ds.
             ds\<lparr>ds_extended_channels := snd (sm_insert channel_id channel (ds_extended_channels ds))\<rparr>))) (\<lambda>_.
          c_bind (insert_vardiff env d channel_id) (\<lambda>_. c_return (success # jobs)))))))))))))"

definition open_extended_create ::
  "('s, 'x, 'g, 'v, 'p, 't, 'a, 'b, 'e) pool_lib \<Rightarrow> ('v, 'p) pool_env \<Rightarrow> downstream_id \<Rightarrow> bool
    \<Rightarrow> open_extended_mining_channel \<Rightarrow> 'p \<Rightarrow> channel_payout option \<Rightarrow> payout_mode
    \<Rightarrow> (('s, 'x, 'g, 'v, 'e) channel_manager, route_message_to list) comp" where
  "open_extended_create lib env d requires_custom_work msg extranonce_prefix payout mode =
     c_bind (on_downstream d (set_payout_mode mode)) (\<lambda>_.
     c_bind (on_downstream d next_channel_id) (\<lambda>channel_id.
     c_bind (c_get (\<lambda>cm. xc_new_for_pool (pl_extended lib) channel_id (oem_user_identity msg) extranonce_prefix
               (oem_max_target msg) (oem_nominal_hash_rate msg) True (ucast CLIENT_SEARCH_SPACE_BYTES)
               (cm_share_batch_size cm) (cm_shares_per_minute cm) (cm_pool_tag_string cm))) (\<lambda>new. case new of
       Inl (ExtOpenChannelInvalidNominalHashrate code) \<Rightarrow> c_return (open_error d (oem_request_id msg) code)
     | Inl (ExtRequestedMinExtranonceSizeTooLarge code) \<Rightarrow> c_return (open_error d (oem_request_id msg) code)
     | Inl e \<Rightarrow> c_raise (pool_disconnect (PkChannelSv2 (ExtendedChannelServerSide e)) d)
     | Inr channel \<Rightarrow> open_extended_register lib env d requires_custom_work (oem_request_id msg)
         payout mode channel_id channel)))"

definition open_extended ::
  "('s, 'x, 'g, 'v, 'p, 't, 'a, 'b, 'e) pool_lib \<Rightarrow> ('v, 'p) pool_env \<Rightarrow> downstream_id
    \<Rightarrow> open_extended_mining_channel \<Rightarrow> ('s, 'x, 'g) downstream
    \<Rightarrow> (('s, 'x, 'g, 'v, 'e) channel_manager, route_message_to list) comp" where
  "open_extended lib env d msg downstream =
     (if ds_requires_standard_jobs downstream
      then c_return (open_error d (oem_request_id msg)
             EC_OPEN_MINING_CHANNEL_EXTENDED_CHANNELS_NOT_SUPPORTED_FOR_STANDARD_JOBS)
      else case pv_allocate_extended env (unat (oem_min_extranonce_size msg)) of
        Inl _ \<Rightarrow> c_return (open_error d (oem_request_id msg) EC_OPEN_MINING_CHANNEL_MIN_EXTRANONCE_SIZE_TOO_LARGE)
      | Inr extranonce_prefix \<Rightarrow>
      c_bind (c_get cm_gridpool) (\<lambda>gridpool.
        case resolve_payout (pl_gridpool lib) gridpool (oem_user_identity msg) of
          Inl _ \<Rightarrow> c_return (open_error d (oem_request_id msg) EC_OPEN_MINING_CHANNEL_INVALID_USER_IDENTITY)
        | Inr payout \<Rightarrow>
          (case payout_mode_of_identity (pl_miniscript lib) (oem_user_identity msg) of
             None \<Rightarrow> c_return (open_error d (oem_request_id msg) EC_OPEN_MINING_CHANNEL_INVALID_USER_IDENTITY)
           | Some mode \<Rightarrow> open_extended_create lib env d (ds_requires_custom_work downstream) msg
               extranonce_prefix payout mode)))"

definition handle_open_extended_mining_channel ::
  "('s, 'x, 'g, 'v, 'p, 't, 'a, 'b, 'e) pool_lib \<Rightarrow> ('v, 'p) pool_env \<Rightarrow> downstream_id
    \<Rightarrow> open_extended_mining_channel \<Rightarrow> (('s, 'x, 'g, 'v, 'e) channel_manager, unit) comp" where
  "handle_open_extended_mining_channel lib env d msg =
     c_bind (with_registered_downstream d (open_extended lib env d msg))
       (\<lambda>messages. c_modify (forward_each env messages))"

section \<open>Shares\<close>

definition channel_key :: "downstream_id \<Rightarrow> channel_id \<Rightarrow> u64" where
  "channel_key d channel_id = or (push_bit 32 (word_of_nat d)) (ucast channel_id)"

text \<open>Telemetry of a rejected share: all other fields have their defaults.\<close>

definition reject_telemetry ::
  "('v, 'p) pool_env \<Rightarrow> channel_id \<Rightarrow> channel_payout option \<Rightarrow> gridpool_client option \<Rightarrow> gridpool_client option" where
  "reject_telemetry env channel_id payout gridpool = (case (gridpool, payout) of
     (Some g, Some p) \<Rightarrow> Some (record_telemetry (pv_now_ms env)
        \<lparr>td_channel_id = channel_id, td_payout_address = cp_payout_address p, td_username = cp_username p,
         td_accepted = False, td_work_difficulty = Fin 0, td_achieved_difficulty = Fin 0, td_fee_work = False\<rparr> g)
   | _ \<Rightarrow> gridpool)"

text \<open>
  Telemetry and proof of an accepted share.  The proof of a block is always sent, the one of any
  other share when the client asks for it; whether the share was fee work is read off the active
  job.
\<close>

definition accept_share ::
  "('s, 'x, 'g, 'v, 'p, 't, 'a, 'b, 'e) pool_lib \<Rightarrow> ('v, 'p) pool_env \<Rightarrow> downstream_id \<Rightarrow> channel_id
    \<Rightarrow> bytes \<Rightarrow> tx_out list option \<Rightarrow> bytes \<Rightarrow> bool \<Rightarrow> (channel_payout \<Rightarrow> f64 \<Rightarrow> share_submission option)
    \<Rightarrow> channel_payout option \<Rightarrow> gridpool_client option \<Rightarrow> gridpool_client option \<times> share_submission list" where
  "accept_share lib env d channel_id target active_outputs share_hash is_block build payout gridpool =
     (case (gridpool, payout) of
        (Some g, Some p) \<Rightarrow>
          (let achieved = pl_difficulty_float lib share_hash;
               fee_work = (case active_outputs of None \<Rightarrow> False | Some outs \<Rightarrow> is_fee_job (pl_gridpool lib) g outs p);
               g = record_telemetry (pv_now_ms env)
                 \<lparr>td_channel_id = channel_id, td_payout_address = cp_payout_address p, td_username = cp_username p,
                  td_accepted = True, td_work_difficulty = pl_difficulty_float lib target,
                  td_achieved_difficulty = achieved, td_fee_work = fee_work\<rparr> g;
               (wanted, g) = (if is_block then (True, g)
                 else should_submit_proof g (pv_now env) (channel_key d channel_id) achieved False)
           in (Some g, if wanted then (case build p achieved of None \<Rightarrow> [] | Some pf \<Rightarrow> [pf]) else []))
      | _ \<Rightarrow> (gridpool, []))"

definition share_success :: "channel_id \<Rightarrow> share_accounting \<Rightarrow> mining" where
  "share_success channel_id a = SubmitSharesSuccess
     \<lparr>ssu_channel_id = channel_id, ssu_last_sequence_number = sacc_last_share_sequence_number a,
      ssu_new_submits_accepted_count = sacc_last_batch_accepted a, ssu_new_shares_sum = sacc_last_batch_work_sum a\<rparr>"

text \<open>A block of a template the provider knows is handed to it before the share is acknowledged.\<close>

definition block_messages ::
  "sv2_limits \<Rightarrow> downstream_id \<Rightarrow> mining \<Rightarrow> (u64 \<Rightarrow> bytes \<Rightarrow> submit_solution) \<Rightarrow> u64 option \<Rightarrow> bytes
    \<Rightarrow> (route_message_to list, fault) result" where
  "block_messages limits d success solution template_id coinbase = (case template_id of
     None \<Rightarrow> Ok [RouteDownstream d success]
   | Some t \<Rightarrow>
       if fits_b064k limits (length coinbase)
       then Ok [RouteTemplateProvider (SubmitSolution (solution t coinbase)), RouteDownstream d success]
       else Err (Raised (pool_shutdown PkBinarySv2)))"

definition standard_share_error_code :: "share_validation_error \<Rightarrow> error_code option" where
  "standard_share_error_code e = (case e of
     ShareInvalid code \<Rightarrow> Some code
   | ShareStale code \<Rightarrow> Some code
   | ShareInvalidJobId code \<Rightarrow> Some code
   | ShareDoesNotMeetTarget code \<Rightarrow> Some code
   | ShareDuplicate code \<Rightarrow> Some code
   | ShareVersionRollingNotAllowed code \<Rightarrow> Some code
   | _ \<Rightarrow> None)"

definition extended_share_error_code :: "share_validation_error \<Rightarrow> error_code option" where
  "extended_share_error_code e = (case e of
     ShareInvalid code \<Rightarrow> Some code
   | ShareStale code \<Rightarrow> Some code
   | ShareInvalidJobId code \<Rightarrow> Some code
   | ShareDoesNotMeetTarget code \<Rightarrow> Some code
   | ShareDuplicate code \<Rightarrow> Some code
   | ShareBadExtranonceSize code \<Rightarrow> Some code
   | ShareVersionRollingNotAllowed code \<Rightarrow> Some code
   | _ \<Rightarrow> None)"

text \<open>
  The closure run on the channel of a share: the reply, the client's telemetry, the proofs to
  send, and the channel.
\<close>

definition submit_standard_share ::
  "('s, 'x, 'g, 'v, 'p, 't, 'a, 'b, 'e) pool_lib \<Rightarrow> ('v, 'p) pool_env \<Rightarrow> string \<Rightarrow> downstream_id
    \<Rightarrow> submit_shares_standard \<Rightarrow> channel_payout option \<Rightarrow> gridpool_client option \<Rightarrow> 's
    \<Rightarrow> (route_message_to list, fault) result \<times> gridpool_client option \<times> share_submission list \<times> 's" where
  "submit_standard_share lib env pool_tag d msg payout gridpool channel =
     (let api = pl_standard lib; channel_id = sss_channel_id msg;
          (res, channel) = sc_validate_share api msg channel;
          success = share_success channel_id (sc_get_share_accounting api channel);
          accept = (\<lambda>share_hash is_block. accept_share lib env d channel_id (sc_get_target api channel)
             (map_option sj_coinbase_outputs (sc_get_active_job api channel)) share_hash is_block
             (build_standard_gridpool_proof lib pool_tag channel msg) payout gridpool)
      in case res of
           Inl e \<Rightarrow>
             (case standard_share_error_code e of
                Some code \<Rightarrow> Ok [RouteDownstream d (SubmitSharesError channel_id (sss_sequence_number msg) code)]
              | None \<Rightarrow> Err (Raised (pool_disconnect (PkChannelSv2 (ShareValidationError e)) d)),
              reject_telemetry env channel_id payout gridpool, [], channel)
         | Inr (ShareValid share_hash) \<Rightarrow>
             (let (g, proofs) = accept share_hash False in
              (Ok (if sacc_should_acknowledge (sc_get_share_accounting api channel)
                   then [RouteDownstream d success] else []), g, proofs, channel))
         | Inr (BlockFound share_hash template_id coinbase) \<Rightarrow>
             (let (g, proofs) = accept share_hash True in
              (block_messages (pl_limits lib) d success (\<lambda>t c. \<lparr>sol_template_id = t, sol_version = sss_version msg,
                 sol_header_timestamp = sss_ntime msg, sol_header_nonce = sss_nonce msg, sol_coinbase_tx = c\<rparr>)
                 template_id coinbase, g, proofs, channel)))"

definition submit_extended_share ::
  "('s, 'x, 'g, 'v, 'p, 't, 'a, 'b, 'e) pool_lib \<Rightarrow> ('v, 'p) pool_env \<Rightarrow> downstream_id
    \<Rightarrow> submit_shares_extended \<Rightarrow> channel_payout option \<Rightarrow> gridpool_client option \<Rightarrow> 'x
    \<Rightarrow> (route_message_to list, fault) result \<times> gridpool_client option \<times> share_submission list \<times> 'x" where
  "submit_extended_share lib env d msg payout gridpool channel =
     (let api = pl_extended lib; channel_id = sse_channel_id msg;
          (res, channel) = xc_validate_share api msg channel;
          success = share_success channel_id (xc_get_share_accounting api channel);
          accept = (\<lambda>share_hash is_block. accept_share lib env d channel_id (xc_get_target api channel)
             (map_option xj_coinbase_outputs (xc_get_active_job api channel)) share_hash is_block
             (build_extended_gridpool_proof lib channel msg) payout gridpool)
      in case res of
           Inl e \<Rightarrow>
             (case extended_share_error_code e of
                Some code \<Rightarrow> Ok [RouteDownstream d (SubmitSharesError channel_id (sse_sequence_number msg) code)]
              | None \<Rightarrow> Err (Raised (pool_disconnect (PkChannelSv2 (ShareValidationError e)) d)),
              reject_telemetry env channel_id payout gridpool, [], channel)
         | Inr (ShareValid share_hash) \<Rightarrow>
             (let (g, proofs) = accept share_hash False in
              (Ok (if sacc_should_acknowledge (xc_get_share_accounting api channel)
                   then [RouteDownstream d success] else []), g, proofs, channel))
         | Inr (BlockFound share_hash template_id coinbase) \<Rightarrow>
             (let (g, proofs) = accept share_hash True in
              (block_messages (pl_limits lib) d success (\<lambda>t c. \<lparr>sol_template_id = t, sol_version = sse_version msg,
                 sol_header_timestamp = sse_ntime msg, sol_header_nonce = sse_nonce msg, sol_coinbase_tx = c\<rparr>)
                 template_id coinbase, g, proofs, channel)))"

text \<open>
  The part both share handlers have around that closure: the share counts for vardiff whatever
  its verdict is.
\<close>

definition commit_share ::
  "'v vardiff_api \<Rightarrow> downstream_id \<Rightarrow> channel_id \<Rightarrow> gridpool_client option \<Rightarrow> share_submission list
    \<Rightarrow> ('s, 'x, 'g) downstream \<Rightarrow> ('s, 'x, 'g, 'v, 'e) channel_manager \<Rightarrow> ('s, 'x, 'g, 'v, 'e) channel_manager" where
  "commit_share vd d channel_id gridpool proofs ds cm =
     cm\<lparr>cm_downstreams := snd (sm_insert d ds (cm_downstreams cm)), cm_gridpool := gridpool,
        cm_proofs := cm_proofs cm @ proofs,
        cm_vardiff := snd (sm_with_mut (cm_vardiff cm) (d, channel_id)
          (\<lambda>v. ((), vd_increment_shares_since_last_update vd v)))\<rparr>"

definition submit_standard ::
  "('s, 'x, 'g, 'v, 'p, 't, 'a, 'b, 'e) pool_lib \<Rightarrow> ('v, 'p) pool_env \<Rightarrow> downstream_id \<Rightarrow> submit_shares_standard
    \<Rightarrow> ('s, 'x, 'g) downstream \<Rightarrow> (('s, 'x, 'g, 'v, 'e) channel_manager, route_message_to list) comp" where
  "submit_standard lib env d msg ds cm =
     (let channel_id = sss_channel_id msg in
      case sm_get_cloned (ds_standard_channels ds) channel_id of
        None \<Rightarrow> (Ok [RouteDownstream d (SubmitSharesError channel_id (sss_sequence_number msg)
                  EC_SUBMIT_SHARES_INVALID_CHANNEL_ID)], cm)
      | Some channel \<Rightarrow>
        if \<not> sm_contains_key (cm_vardiff cm) (d, channel_id)
        then (Ok [RouteDownstream d (CloseChannel channel_id EC_SUBMIT_SHARES_INVALID_CHANNEL_ID)], cm)
        else (let (r, g, proofs, channel) = submit_standard_share lib env (cm_pool_tag_string cm) d msg
                    (sm_get_cloned (cm_gridpool_channels cm) (d, channel_id)) (cm_gridpool cm) channel;
                  ds = ds\<lparr>ds_standard_channels := snd (sm_insert channel_id channel (ds_standard_channels ds))\<rparr>
              in (r, commit_share (pl_vardiff lib) d channel_id g proofs ds cm)))"

definition handle_submit_shares_standard ::
  "('s, 'x, 'g, 'v, 'p, 't, 'a, 'b, 'e) pool_lib \<Rightarrow> ('v, 'p) pool_env \<Rightarrow> downstream_id \<Rightarrow> submit_shares_standard
    \<Rightarrow> (('s, 'x, 'g, 'v, 'e) channel_manager, unit) comp" where
  "handle_submit_shares_standard lib env d msg =
     c_bind (with_registered_downstream d (submit_standard lib env d msg))
       (\<lambda>messages. c_modify (forward_each env messages))"

definition submit_extended ::
  "('s, 'x, 'g, 'v, 'p, 't, 'a, 'b, 'e) pool_lib \<Rightarrow> ('v, 'p) pool_env \<Rightarrow> downstream_id \<Rightarrow> submit_shares_extended
    \<Rightarrow> ('s, 'x, 'g) downstream \<Rightarrow> (('s, 'x, 'g, 'v, 'e) channel_manager, route_message_to list) comp" where
  "submit_extended lib env d msg ds cm =
     (let channel_id = sse_channel_id msg in
      case sm_get_cloned (ds_extended_channels ds) channel_id of
        None \<Rightarrow> (Ok [RouteDownstream d (SubmitSharesError channel_id (sse_sequence_number msg)
                  EC_SUBMIT_SHARES_INVALID_CHANNEL_ID)], cm)
      | Some channel \<Rightarrow>
        if \<not> sm_contains_key (cm_vardiff cm) (d, channel_id)
        then (Ok [RouteDownstream d (CloseChannel channel_id EC_SUBMIT_SHARES_INVALID_CHANNEL_ID)], cm)
        else (let (r, g, proofs, channel) = submit_extended_share lib env d msg
                    (sm_get_cloned (cm_gridpool_channels cm) (d, channel_id)) (cm_gridpool cm) channel;
                  ds = ds\<lparr>ds_extended_channels := snd (sm_insert channel_id channel (ds_extended_channels ds))\<rparr>
              in (r, commit_share (pl_vardiff lib) d channel_id g proofs ds cm)))"

definition handle_submit_shares_extended ::
  "('s, 'x, 'g, 'v, 'p, 't, 'a, 'b, 'e) pool_lib \<Rightarrow> ('v, 'p) pool_env \<Rightarrow> downstream_id \<Rightarrow> submit_shares_extended
    \<Rightarrow> (('s, 'x, 'g, 'v, 'e) channel_manager, unit) comp" where
  "handle_submit_shares_extended lib env d msg =
     c_bind (with_registered_downstream d (submit_extended lib env d msg))
       (\<lambda>messages. c_modify (forward_each env messages))"

section \<open>Updating a channel\<close>

text \<open>Only one error of the channel is expected; any other one reaches \<open>unreachable!\<close>.\<close>

definition update_standard ::
  "('s, 'p) standard_api \<Rightarrow> downstream_id \<Rightarrow> update_channel \<Rightarrow> ('s, route_message_to list) comp" where
  "update_standard api d msg channel =
     (let channel_id = uc_channel_id msg in
      case sc_update_channel api (uc_nominal_hash_rate msg) (Some (uc_maximum_target msg)) channel of
        (Inr _, channel) \<Rightarrow> (Ok [RouteDownstream d (SetTarget channel_id (sc_get_target api channel))], channel)
      | (Inl (StdUpdateChannelInvalidNominalHashrate code), channel) \<Rightarrow>
          (Ok [RouteDownstream d (UpdateChannelError channel_id code),
               RouteDownstream d (SetTarget channel_id (sc_get_target api channel))], channel)
      | (Inl _, channel) \<Rightarrow> (Err Panic, channel))"

definition update_extended ::
  "('x, 'p) extended_api \<Rightarrow> downstream_id \<Rightarrow> update_channel \<Rightarrow> ('x, route_message_to list) comp" where
  "update_extended api d msg channel =
     (let channel_id = uc_channel_id msg in
      case xc_update_channel api (uc_nominal_hash_rate msg) (Some (uc_maximum_target msg)) channel of
        (Inr _, channel) \<Rightarrow> (Ok [RouteDownstream d (SetTarget channel_id (xc_get_target api channel))], channel)
      | (Inl (ExtUpdateChannelInvalidNominalHashrate code), channel) \<Rightarrow>
          (Ok [RouteDownstream d (UpdateChannelError channel_id code),
               RouteDownstream d (SetTarget channel_id (xc_get_target api channel))], channel)
      | (Inl _, channel) \<Rightarrow> (Err Panic, channel))"

definition update_on_downstream ::
  "('s, 'p) standard_api \<Rightarrow> ('x, 'p) extended_api \<Rightarrow> downstream_id \<Rightarrow> update_channel
    \<Rightarrow> (('s, 'x, 'g) downstream, route_message_to list) comp" where
  "update_on_downstream sapi xapi d msg ds =
     (let channel_id = uc_channel_id msg in
      case sm_get_cloned (ds_standard_channels ds) channel_id of
        Some channel \<Rightarrow> (let (r, channel) = update_standard sapi d msg channel in
          (r, ds\<lparr>ds_standard_channels := snd (sm_insert channel_id channel (ds_standard_channels ds))\<rparr>))
      | None \<Rightarrow>
        (case sm_get_cloned (ds_extended_channels ds) channel_id of
           Some channel \<Rightarrow> (let (r, channel) = update_extended xapi d msg channel in
             (r, ds\<lparr>ds_extended_channels := snd (sm_insert channel_id channel (ds_extended_channels ds))\<rparr>))
         | None \<Rightarrow> (Ok [RouteDownstream d (UpdateChannelError channel_id EC_UPDATE_CHANNEL_INVALID_CHANNEL_ID)], ds)))"

definition handle_update_channel ::
  "('s, 'x, 'g, 'v, 'p, 't, 'a, 'b, 'e) pool_lib \<Rightarrow> ('v, 'p) pool_env \<Rightarrow> downstream_id \<Rightarrow> update_channel
    \<Rightarrow> (('s, 'x, 'g, 'v, 'e) channel_manager, unit) comp" where
  "handle_update_channel lib env d msg =
     c_bind (with_registered_downstream d (\<lambda>_.
        on_downstream d (update_on_downstream (pl_standard lib) (pl_extended lib) d msg)))
       (\<lambda>messages. c_modify (forward_each env messages))"

section \<open>Custom jobs\<close>

text \<open>A validated job is committed to the extended channel it names.\<close>

definition commit_custom_job ::
  "('x, 'p) extended_api \<Rightarrow> downstream_id \<Rightarrow> set_custom_mining_job
    \<Rightarrow> (('s, 'x, 'g) downstream, route_message_to) comp" where
  "commit_custom_job api d msg ds =
     (case sm_get_cloned (ds_extended_channels ds) (scm_channel_id msg) of
        None \<Rightarrow> (Ok (RouteDownstream d (SetCustomMiningJobError (scm_request_id msg) (scm_channel_id msg)
                  EC_SET_CUSTOM_MINING_JOB_INVALID_CHANNEL_ID)), ds)
      | Some channel \<Rightarrow>
        (let (r, channel) = xc_on_set_custom_mining_job api msg channel in
         (case r of
            Inl e \<Rightarrow> Err (Raised (pool_disconnect (PkChannelSv2 (ExtendedChannelServerSide e)) d))
          | Inr job_id \<Rightarrow> Ok (RouteDownstream d (SetCustomMiningJobSuccess (scm_channel_id msg) (scm_request_id msg) job_id)),
          ds\<lparr>ds_extended_channels := snd (sm_insert (scm_channel_id msg) channel (ds_extended_channels ds))\<rparr>)))"

definition handle_set_custom_mining_job ::
  "('s, 'x, 'g, 'v, 'p, 't, 'a, 'b, 'e) pool_lib \<Rightarrow> ('v, 'p) pool_env \<Rightarrow> downstream_id \<Rightarrow> set_custom_mining_job
    \<Rightarrow> (('s, 'x, 'g, 'v, 'e) channel_manager, unit) comp" where
  "handle_set_custom_mining_job lib env d msg =
     (let reply = (\<lambda>m. c_call (\<lambda>e. pool_disconnect e d) (forward env m)) in
      c_bind (c_get cm_job_declarator) (\<lambda>job_declarator. case job_declarator of
        None \<Rightarrow> reply (RouteDownstream d (SetCustomMiningJobError (scm_request_id msg) (scm_channel_id msg)
                  EC_SET_CUSTOM_MINING_JOB_JD_NOT_SUPPORTED))
      | Some jd \<Rightarrow>
        (case jd_handle_set_custom_mining_job (pl_engine lib) msg jd of
           None \<Rightarrow> c_panic
         | Some (response, jd) \<Rightarrow>
           c_bind (c_modify (\<lambda>cm. cm\<lparr>cm_job_declarator := Some jd\<rparr>)) (\<lambda>_. case response of
             ScmError request_id channel_id code \<Rightarrow>
               reply (RouteDownstream d (SetCustomMiningJobError request_id channel_id code))
           | ScmOk _ _ _ \<Rightarrow>
               c_bind (with_registered_downstream d (\<lambda>_. on_downstream d (commit_custom_job (pl_extended lib) d msg)))
                 reply))))"

section \<open>Dispatch\<close>

definition handle_mining_message ::
  "('s, 'x, 'g, 'v, 'p, 't, 'a, 'b, 'e) pool_lib \<Rightarrow> ('v, 'p) pool_env \<Rightarrow> downstream_id \<Rightarrow> mining_from_client
    \<Rightarrow> (('s, 'x, 'g, 'v, 'e) channel_manager, unit) comp" where
  "handle_mining_message lib env d m = (case m of
     CloseChannelRequest channel_id _ \<Rightarrow> handle_close_channel (pl_group lib) d channel_id
   | OpenStandardMiningChannel msg \<Rightarrow> handle_open_standard_mining_channel lib env d msg
   | OpenExtendedMiningChannel msg \<Rightarrow> handle_open_extended_mining_channel lib env d msg
   | SubmitSharesStandard msg \<Rightarrow> handle_submit_shares_standard lib env d msg
   | SubmitSharesExtended msg \<Rightarrow> handle_submit_shares_extended lib env d msg
   | UpdateChannel msg \<Rightarrow> handle_update_channel lib env d msg
   | SetCustomMiningJob msg \<Rightarrow> handle_set_custom_mining_job lib env d msg)"

section \<open>Answers to an open request\<close>

lemma wp_returns:
  assumes "c_wp m Q (\<lambda>_ _. False) s"
  shows "\<exists>x t. m s = (Ok x, t) \<and> Q x t"
  using assms by (auto simp: c_wp_def split: prod.splits sum.splits)

text \<open>
  What the miner is told about a channel that was opened: success, its first job, and the previous
  hash that activates it, in this order.
\<close>

definition standard_opened ::
  "downstream_id \<Rightarrow> open_standard_mining_channel \<Rightarrow> channel_id \<Rightarrow> tdp_set_new_prev_hash \<Rightarrow> route_message_to list \<Rightarrow> bool" where
  "standard_opened d msg channel_id prev_hash ms = (\<exists>s job job_id.
     ms = [RouteDownstream d (OpenStandardMiningChannelSuccess s), RouteDownstream d (NewMiningJob job),
           RouteDownstream d (prev_hash_message channel_id job_id prev_hash)] \<and>
     ocs_request_id s = osm_request_id msg \<and> ocs_channel_id s = channel_id)"

definition answered_standard ::
  "downstream_id \<Rightarrow> open_standard_mining_channel \<Rightarrow> payout_mode option \<Rightarrow> ('s, 'x, 'g) downstream
    \<Rightarrow> tdp_set_new_prev_hash option \<Rightarrow> route_message_to list \<Rightarrow> ('s, 'x, 'g, 'v, 'e) channel_manager \<Rightarrow> bool" where
  "answered_standard d msg mode ds prev_hash ms cm =
     ((\<exists>code. ms = open_error d (osm_request_id msg) code) \<or>
      (\<exists>p ds'. prev_hash = Some p \<and> \<not> ds_requires_custom_work ds \<and>
        standard_opened d msg (ds_channel_id_factory ds) p ms \<and>
        map_of (cm_downstreams cm) d = Some ds' \<and> ds_channel_id_factory ds' = ds_channel_id_factory ds + 1 \<and>
        lock_value (ds_payout_mode ds') = mode \<and> ds_channel_id_factory ds \<in> sm_dom (ds_standard_channels ds') \<and>
        (d, ds_channel_id_factory ds) \<in> sm_dom (cm_vardiff cm)))"

lemma wp_open_standard_jobs:
  assumes "open_standard_jobs api d channel_id template prev_hash outputs c = (Ok jobs, c')"
  shows "\<exists>job job_id. jobs = [RouteDownstream d (NewMiningJob job),
      RouteDownstream d (prev_hash_message channel_id job_id prev_hash)]"
proof -
  have "c_wp (open_standard_jobs api d channel_id template prev_hash outputs) (\<lambda>jobs _. \<exists>job job_id.
      jobs = [RouteDownstream d (NewMiningJob job), RouteDownstream d (prev_hash_message channel_id job_id prev_hash)])
      (\<lambda>_ _. True) c"
    by (auto simp: open_standard_jobs_def wp_rules split: prod.split sum.split option.split)
  from wp_result [OF this assms] show ?thesis .
qed

lemma wp_open_standard_register_answer:
  assumes "map_of (cm_downstreams cm) d = Some ds" and "ds_channel_id_factory ds = channel_id + 1"
  shows "c_wp (open_standard_register lib env d b (osm_request_id msg) template p outputs payout channel_id channel)
    (\<lambda>ms cm'. \<exists>ds'. standard_opened d msg channel_id p ms \<and> map_of (cm_downstreams cm') d = Some ds' \<and>
        ds_channel_id_factory ds' = channel_id + 1 \<and> ds_payout_mode ds' = ds_payout_mode ds \<and>
        channel_id \<in> sm_dom (ds_standard_channels ds') \<and>
        (d, channel_id) \<in> sm_dom (cm_vardiff cm')) (\<lambda>_ _. True) cm"
  using assms
  by (auto simp: open_standard_register_def insert_channel_payout_def insert_vardiff_def wp_rules standard_opened_def Let_def
      dest!: wp_open_standard_jobs split: option.split prod.split sum.split)

lemma wp_open_standard_create_answer:
  assumes "map_of (cm_downstreams cm) d = Some ds" and "\<not> ds_requires_custom_work ds"
  shows "c_wp (open_standard_create lib env d b msg template p payout mode)
    (answered_standard d msg (Some mode) ds (Some p)) (\<lambda>_ _. True) cm"
  using assms
  by (auto simp: open_standard_create_def wp_rules set_payout_mode_def next_channel_id_def answered_standard_def
      c_wp_def [of "set_payout_mode _"] c_wp_def [of next_channel_id] lock_run_def Let_def
      intro!: wp_mono [OF wp_open_standard_register_answer] split: sum.split prod.split standard_channel_error.split)

lemma open_standard_answered:
  assumes "map_of (cm_downstreams cm) d = Some ds" and "open_standard lib env d msg ds cm = (Ok ms, cm')"
  shows "answered_standard d msg (payout_mode_of_identity (pl_miniscript lib) (osm_user_identity msg)) ds
    (lock_value (cm_last_new_prev_hash cm)) ms cm'"
proof -
  let ?mode = "payout_mode_of_identity (pl_miniscript lib) (osm_user_identity msg)"
  have "c_wp (open_standard lib env d msg ds) (answered_standard d msg ?mode ds (lock_value (cm_last_new_prev_hash cm)))
      (\<lambda>_ _. True) cm"
    unfolding open_standard_def
    using assms(1) wp_open_standard_create_answer [OF assms(1)]
    by (auto simp: wp_steps answered_standard_def [of _ _ _ _ _ "open_error _ _ _"] split: option.splits sum.splits)
  from wp_result [OF this assms(2)] show ?thesis .
qed

text \<open>
  C10. Every open request for a standard channel that does not end the connection is answered once:
  either by a single error that carries its request identifier, or by the success message, the
  channel's first job and the current previous hash, in this order; the channel then has the
  identifier announced, which was next on the connection's counter and is used up, and it is
  registered with the connection and with vardiff, and the connection's payout mode is the one of
  the request's identity.
\<close>

theorem open_standard_answers:
  assumes "map_of (cm_downstreams cm) d = Some ds" and "open_standard lib env d msg ds cm = (Ok ms, cm')"
  shows "answered_standard d msg (payout_mode_of_identity (pl_miniscript lib) (osm_user_identity msg)) ds
    (lock_value (cm_last_new_prev_hash cm)) ms cm'"
  by (rule open_standard_answered [OF assms])

definition sample_open :: open_standard_mining_channel where
  "sample_open = \<lparr>osm_request_id = 42, osm_user_identity = [], osm_nominal_hash_rate = 0, osm_max_target = []\<rparr>"

lemma sample_open_result:
  "\<exists>ms cm'. open_standard plain_pool_lib plain_pool_env 1 sample_open (plain_downstream False True [] [])
     (plain_manager None (plain_downstream False True [] []) []) = (Ok ms, cm') \<and> length ms = 3"
proof -
  let ?ds = "plain_downstream False True [] []" and ?cm = "plain_manager None (plain_downstream False True [] []) []"
  have api: "sc_new_for_pool plain_standard_api = (\<lambda>c _ _ _ _ _ _ _. Ok (c, None))"
      "sc_get_extranonce_prefix plain_standard_api = (\<lambda>_. [7])"
    by (simp_all add: plain_standard_api_def)
  have "open_standard_jobs plain_standard_api 1 2 plain_template plain_prev_hash outs (2, None) =
      (Ok [RouteDownstream 1 (NewMiningJob (sj_job_message (plain_standard_job 2 plain_template outs))),
           RouteDownstream 1 (prev_hash_message 2 1 plain_prev_hash)], (2, Some (plain_standard_job 2 plain_template outs)))" for outs
    by (simp add: open_standard_jobs_def c_bind_def c_call_def c_get_def c_expect_def c_return_def plain_standard_api_def
        plain_standard_job_def)
  then have "c_wp (open_standard plain_pool_lib plain_pool_env 1 sample_open ?ds) (\<lambda>ms _. length ms = 3) (\<lambda>_ _. False) ?cm"
    by (simp add: open_standard_def open_standard_create_def open_standard_register_def
        insert_channel_payout_def insert_vardiff_def wp_rules set_payout_mode_def next_channel_id_def c_wp_def [of "set_payout_mode _"]
        c_wp_def [of next_channel_id] lock_run_def resolve_payout_def payout_mode_of_identity_def payout_mode_try_from_def
        channel_coinbase_outputs_def sample_open_def plain_downstream_def plain_manager_def plain_pool_lib_def plain_pool_env_def
        plain_group_api_def lock_new_def Let_def api)
  from wp_returns [OF this] show ?thesis .
qed

lemma sample_open_mode:
  "payout_mode_of_identity (pl_miniscript plain_pool_lib) (osm_user_identity sample_open) = Some FullDonation"
  by (simp add: payout_mode_of_identity_def payout_mode_try_from_def sample_open_def plain_pool_lib_def)

theorem open_standard_answers_witness:
  "\<exists>ms cm'. answered_standard 1 sample_open (Some FullDonation) (plain_downstream False True [] []) (Some plain_prev_hash) ms
     (cm' :: (plain_standard, plain_extended, bool \<times> extended_job option, unit, ipc_engine) channel_manager) \<and> length ms = 3"
proof -
  obtain ms cm' where e: "open_standard plain_pool_lib plain_pool_env 1 sample_open (plain_downstream False True [] [])
     (plain_manager None (plain_downstream False True [] []) []) = (Ok ms, cm')" and l: "length ms = 3"
    using sample_open_result by blast
  show ?thesis
    using open_standard_answers [OF _ e] l sample_open_mode
    by (intro exI [of _ ms] exI [of _ cm']) (simp add: plain_manager_def lock_new_def)
qed

section \<open>Answers to a share\<close>

text \<open>The miner's part of a list of messages, and the solutions in it.\<close>

definition to_miner :: "downstream_id \<Rightarrow> route_message_to list \<Rightarrow> mining list" where
  "to_miner d ms = List.map_filter (\<lambda>m. case m of
     RouteDownstream d' x \<Rightarrow> if d' = d then Some x else None | RouteTemplateProvider _ \<Rightarrow> None) ms"

definition to_provider :: "route_message_to list \<Rightarrow> tdp_message list" where
  "to_provider ms = List.map_filter (\<lambda>m. case m of RouteTemplateProvider x \<Rightarrow> Some x | RouteDownstream _ _ \<Rightarrow> None) ms"

lemma to_simps [simp]:
  "to_miner d [] = []" "to_provider [] = []"
  "to_miner d (RouteDownstream d' x # ms) = (if d' = d then x # to_miner d ms else to_miner d ms)"
  "to_miner d (RouteTemplateProvider y # ms) = to_miner d ms"
  "to_provider (RouteDownstream d' x # ms) = to_provider ms"
  "to_provider (RouteTemplateProvider y # ms) = y # to_provider ms"
  by (simp_all add: to_miner_def to_provider_def List.map_filter_simps)


definition sample_share :: "u32 \<Rightarrow> submit_shares_standard" where
  "sample_share nonce = \<lparr>sss_channel_id = 2, sss_sequence_number = 4, sss_job_id = 1, sss_nonce = nonce, sss_ntime = 3,
     sss_version = 2\<rparr>"


section \<open>Custom jobs need a declarator\<close>

lemma snd_bind: "snd (c_bind m f s) = (case fst (m s) of Inl e \<Rightarrow> snd (m s) | Inr a \<Rightarrow> snd (f a (snd (m s))))"
  by (auto simp: c_bind_def split: prod.split sum.split)

lemma declarator_kept [simp]:
  "cm_job_declarator (snd (on_downstream d f cm)) = cm_job_declarator cm"
  "cm_job_declarator (snd (with_registered_downstream d (\<lambda>_. on_downstream d f) cm)) = cm_job_declarator cm"
  "cm_job_declarator (snd (c_call h (forward env m) cm)) = cm_job_declarator cm"
  by (auto simp: on_downstream_def with_registered_downstream_def c_raise_def c_call_def forward_def
      split: option.split prod.split sum.split route_message_to.split)

text \<open>
  C16. A custom job reaches a channel only after the job declarator accepted it: if handling the
  request changes the connections at all, the declarator answered success for this very request,
  consuming its token; and a request without a declarator or with a refused job is answered with one
  error that carries its identifiers.
\<close>

theorem custom_job_needs_declarator:
  assumes "handle_set_custom_mining_job lib env d msg cm = (r, cm')"
    and "sm_contains_key (cm_downstream_sender cm) d" and "pv_send_ok env d"
  shows "(cm_downstreams cm' \<noteq> cm_downstreams cm \<longrightarrow> (\<exists>jd jd' c i j.
      cm_job_declarator cm = Some jd \<and> jd_handle_set_custom_mining_job (pl_engine lib) msg jd = Some (ScmOk c i j, jd') \<and>
      cm_job_declarator cm' = Some jd')) \<and>
    (cm_job_declarator cm = None \<longrightarrow> r = Ok () \<and> cm_sent cm' = cm_sent cm @
      [RouteDownstream d (SetCustomMiningJobError (scm_request_id msg) (scm_channel_id msg) EC_SET_CUSTOM_MINING_JOB_JD_NOT_SUPPORTED)]) \<and>
    (\<forall>jd jd' code. cm_job_declarator cm = Some jd \<and>
      jd_handle_set_custom_mining_job (pl_engine lib) msg jd = Some (ScmError (scm_request_id msg) (scm_channel_id msg) code, jd') \<longrightarrow>
      r = Ok () \<and> cm_sent cm' = cm_sent cm @
        [RouteDownstream d (SetCustomMiningJobError (scm_request_id msg) (scm_channel_id msg) code)])"
proof -
  have fwd: "forward env (RouteDownstream d m) s = (Ok (), s\<lparr>cm_sent := cm_sent s @ [RouteDownstream d m]\<rparr>)"
    if "cm_downstream_sender s = cm_downstream_sender cm" for m s
    using assms(2,3) that by (simp add: forward_def)
  show ?thesis
  proof (cases "cm_job_declarator cm")
    case None
    then show ?thesis
      using assms(1) by (auto simp: handle_set_custom_mining_job_def c_bind_def c_get_def c_call_def fwd)
  next
    case (Some jd)
    show ?thesis
    proof (cases "jd_handle_set_custom_mining_job (pl_engine lib) msg jd")
      case None
      then show ?thesis
        using assms(1) Some by (auto simp: handle_set_custom_mining_job_def c_bind_def c_get_def c_panic_def)
    next
      case j: (Some p)
      obtain resp jd' where p: "p = (resp, jd')" by (cases p)
      show ?thesis
      proof (cases resp)
        case (ScmError i c code)
        then show ?thesis
          using assms(1) Some j p
          by (auto simp: handle_set_custom_mining_job_def c_bind_def c_get_def c_modify_def c_call_def fwd)
      next
        case (ScmOk c i k)
        have "cm_job_declarator (snd (handle_set_custom_mining_job lib env d msg cm)) = Some jd'"
          using Some j p ScmOk
          by (simp add: handle_set_custom_mining_job_def snd_bind c_get_def c_modify_def split: sum.split)
        then have "cm_job_declarator cm' = Some jd'"
          by (simp add: assms(1))
        then show ?thesis using Some j p ScmOk by auto
      qed
    qed
  qed
qed

theorem custom_job_needs_declarator_witness:
  "cm_sent (snd (handle_set_custom_mining_job plain_pool_lib plain_pool_env 1 sample_custom
      (plain_manager None (plain_downstream True False [] []) []))) =
    [RouteDownstream 1 (SetCustomMiningJobError (scm_request_id sample_custom) (scm_channel_id sample_custom)
       EC_SET_CUSTOM_MINING_JOB_JD_NOT_SUPPORTED)]"
proof -
  let ?cm = "plain_manager None (plain_downstream True False [] []) []"
  obtain r cm' where e: "handle_set_custom_mining_job plain_pool_lib plain_pool_env 1 sample_custom ?cm = (r, cm')"
    by (metis prod.collapse)
  have f: "sm_contains_key (cm_downstream_sender ?cm) 1" "pv_send_ok plain_pool_env 1" "cm_job_declarator ?cm = None"
    "cm_sent ?cm = []"
    by (simp_all add: plain_manager_def plain_pool_env_def sm_contains_key_def)
  show ?thesis
    unfolding e snd_conv using custom_job_needs_declarator [OF e f(1,2)] by (simp add: f(3,4))
qed

end
