(* ===== verification/Template_Handler.thy ===== *)
theory Template_Handler
  imports Mining_Handler
begin

text \<open>
  The template distribution handlers of the channel manager
  (\<open>channel_manager/template_distribution_message_handler.rs\<close>): a new template becomes a job of
  every channel, a new previous hash activates the future jobs.
\<close>

section \<open>New templates\<close>

definition group_error :: "string \<Rightarrow> pool_error" where
  "group_error e = pool_shutdown (PkChannelSv2 (GroupChannelServerSide e))"

definition standard_error :: "standard_channel_error \<Rightarrow> pool_error" where
  "standard_error e = pool_shutdown (PkChannelSv2 (StandardChannelServerSide e))"

definition extended_error :: "extended_channel_error \<Rightarrow> pool_error" where
  "extended_error e = pool_shutdown (PkChannelSv2 (ExtendedChannelServerSide e))"

text \<open>The outputs a connection's group channel pays.\<close>

definition downstream_coinbase_outputs ::
  "coinbase_reward_script \<Rightarrow> u64 \<Rightarrow> tx_out list \<Rightarrow> payout_mode option \<Rightarrow> tx_out list" where
  "downstream_coinbase_outputs pool_script total_value unpaid mode = (case mode of
     Some m \<Rightarrow> payout_coinbase_outputs m total_value pool_script
   | None \<Rightarrow> unpaid)"

text \<open>
  The group channel: its job, and the message that announces it when the connection has grouped
  channels and GridPool is off.
\<close>

definition new_template_on_group ::
  "'g group_api \<Rightarrow> downstream_id \<Rightarrow> bool \<Rightarrow> bool \<Rightarrow> new_template \<Rightarrow> tx_out list
    \<Rightarrow> ('g, extended_job \<times> route_message_to list) comp" where
  "new_template_on_group api d requires_standard_jobs gridpool_on msg outputs =
     c_bind (c_call group_error (grp_on_new_template api msg outputs)) (\<lambda>_.
     c_bind (c_get (\<lambda>g. if nt_future_template msg
         then (case grp_get_future_job_id_from_template_id api g (nt_template_id msg) of
                 None \<Rightarrow> None | Some job_id \<Rightarrow> grp_get_future_job api g job_id)
         else grp_get_active_job api g)) (\<lambda>j. case j of
       None \<Rightarrow> c_raise (pool_shutdown PkJobNotFound)
     | Some job \<Rightarrow>
       c_get (\<lambda>g. (job, if \<not> requires_standard_jobs \<and> \<not> grp_is_empty api g \<and> \<not> gridpool_on
          then [RouteDownstream d (NewExtendedMiningJob (xj_job_message job))] else []))))"

text \<open>The outputs of a channel in GridPool mode; a channel without a payout is an error.\<close>

definition gridpool_channel_outputs ::
  "'b gridpool_lib \<Rightarrow> u64 \<Rightarrow> gridpool_client \<Rightarrow> (downstream_id \<times> channel_id, channel_payout) shared_map
    \<Rightarrow> downstream_id \<Rightarrow> channel_id \<Rightarrow> u64 \<Rightarrow> (tx_out list, pool_error) result" where
  "gridpool_channel_outputs gl now gridpool payouts d channel_id total_value =
     rbind (ok_or (pool_shutdown PkJobNotFound) (sm_get_cloned payouts (d, channel_id))) (\<lambda>payout.
     map_err (\<lambda>e. pool_shutdown (PkConfiguration e)) (gridpool_coinbase_outputs gl gridpool now payout total_value))"

definition new_template_on_standard ::
  "('s, 'x, 'g, 'v, 'p, 't, 'a, 'b, 'e) pool_lib \<Rightarrow> u64 \<Rightarrow> gridpool_client option
    \<Rightarrow> (downstream_id \<times> channel_id, channel_payout) shared_map \<Rightarrow> bool \<Rightarrow> new_template \<Rightarrow> tx_out list \<Rightarrow> extended_job
    \<Rightarrow> downstream_id \<Rightarrow> channel_id \<Rightarrow> ('s, route_message_to list) comp" where
  "new_template_on_standard lib now gridpool payouts requires_standard_jobs msg outputs group_job d channel_id =
     (let api = pl_standard lib in
      if \<not> requires_standard_jobs \<and> gridpool = None
      then c_bind (c_call standard_error (sc_on_group_channel_job api group_job)) (\<lambda>_. c_return [])
      else
      c_bind (c_try (case gridpool of
          Some g \<Rightarrow> gridpool_channel_outputs (pl_gridpool lib) now g payouts d channel_id (nt_coinbase_tx_value_remaining msg)
        | None \<Rightarrow> Ok outputs)) (\<lambda>channel_outputs.
      c_bind (c_call standard_error (sc_on_new_template api msg channel_outputs)) (\<lambda>_.
      c_bind (c_get (\<lambda>c. if nt_future_template msg
          then (case sc_get_future_job_id_from_template_id api c (nt_template_id msg) of
                  None \<Rightarrow> None | Some job_id \<Rightarrow> sc_get_future_job api c job_id)
          else sc_get_active_job api c)) (\<lambda>j.
      c_bind (c_expect j) (\<lambda>job. c_return [RouteDownstream d (NewMiningJob (sj_job_message job))])))))"

definition new_template_on_extended ::
  "('s, 'x, 'g, 'v, 'p, 't, 'a, 'b, 'e) pool_lib \<Rightarrow> u64 \<Rightarrow> gridpool_client option
    \<Rightarrow> (downstream_id \<times> channel_id, channel_payout) shared_map \<Rightarrow> new_template \<Rightarrow> extended_job
    \<Rightarrow> downstream_id \<Rightarrow> channel_id \<Rightarrow> ('x, route_message_to list) comp" where
  "new_template_on_extended lib now gridpool payouts msg group_job d channel_id =
     (let api = pl_extended lib in
      case gridpool of
        None \<Rightarrow> c_bind (c_call extended_error (xc_on_group_channel_job api group_job)) (\<lambda>_. c_return [])
      | Some g \<Rightarrow>
      c_bind (c_try (gridpool_channel_outputs (pl_gridpool lib) now g payouts d channel_id
                (nt_coinbase_tx_value_remaining msg))) (\<lambda>outputs.
      c_bind (c_call extended_error (xc_on_new_template api msg outputs)) (\<lambda>_.
      c_bind (c_get (\<lambda>c. if nt_future_template msg
          then (case xc_get_future_job_id_from_template_id api c (nt_template_id msg) of
                  None \<Rightarrow> None | Some job_id \<Rightarrow> xc_get_future_job api c job_id)
          else xc_get_active_job api c)) (\<lambda>j.
      c_bind (c_try (ok_or (pool_shutdown PkJobNotFound) j)) (\<lambda>job.
        c_return [RouteDownstream d (NewExtendedMiningJob (xj_job_message job))])))))"

text \<open>A computation on a channel as a closure that appends its messages.\<close>

definition collect ::
  "(channel_id \<Rightarrow> ('c, route_message_to list) comp) \<Rightarrow> route_message_to list \<Rightarrow> channel_id \<Rightarrow> 'c
    \<Rightarrow> (unit, fault) result \<times> route_message_to list \<times> 'c" where
  "collect f messages channel_id c = (case f channel_id c of
     (Inl e, c) \<Rightarrow> (Inl e, messages, c)
   | (Inr ms, c) \<Rightarrow> (Inr (), messages @ ms, c))"

definition new_template_on_downstream ::
  "('s, 'x, 'g, 'v, 'p, 't, 'a, 'b, 'e) pool_lib \<Rightarrow> u64 \<Rightarrow> gridpool_client option
    \<Rightarrow> (downstream_id \<times> channel_id, channel_payout) shared_map \<Rightarrow> coinbase_reward_script \<Rightarrow> new_template
    \<Rightarrow> tx_out list \<Rightarrow> route_message_to list \<Rightarrow> downstream_id \<Rightarrow> ('s, 'x, 'g) downstream
    \<Rightarrow> (unit, fault) result \<times> route_message_to list \<times> ('s, 'x, 'g) downstream" where
  "new_template_on_downstream lib now gridpool payouts pool_script msg coinbase_output messages d ds =
     (if ds_requires_custom_work ds then (Ok (), messages, ds)
      else case c_lock_get (ds_payout_mode ds) () of
        (Inl e, _) \<Rightarrow> (Inl e, messages, ds)
      | (Inr mode, _) \<Rightarrow>
        (let outputs = downstream_coinbase_outputs pool_script (nt_coinbase_tx_value_remaining msg) coinbase_output mode;
             requires_standard_jobs = ds_requires_standard_jobs ds
         in case on_group_channel (new_template_on_group (pl_group lib) d requires_standard_jobs
                   (gridpool \<noteq> None) msg outputs) ds of
              (Inl e, ds) \<Rightarrow> (Inl e, messages, ds)
            | (Inr (group_job, group_messages), ds) \<Rightarrow>
              each_channel
                (collect (new_template_on_standard lib now gridpool payouts requires_standard_jobs msg outputs group_job d))
                (collect (new_template_on_extended lib now gridpool payouts msg group_job d))
                (messages @ group_messages) ds))"

text \<open>A later future template means a new tip, for which GridPool has to choose work again.\<close>

definition refresh_gridpool_for_tip ::
  "('v, 'p) pool_env \<Rightarrow> (('s, 'x, 'g, 'w, 'e) channel_manager, unit) comp" where
  "refresh_gridpool_for_tip env cm = (case cm_gridpool cm of
     None \<Rightarrow> (Ok (), cm)
   | Some g \<Rightarrow>
     (let (r, g) = refresh_for_chain_tip (pv_fetch_work env) g in
      (map_err (\<lambda>e. Raised (pool_shutdown (PkConfiguration e))) r, cm\<lparr>cm_gridpool := Some g\<rparr>)))"

definition set_last_future_template ::
  "new_template \<Rightarrow> (('s, 'x, 'g, 'v, 'e) channel_manager, unit) comp" where
  "set_last_future_template msg cm =
     (let (r, l) = lock_run (\<lambda>_. (Ok (), Some msg)) (cm_last_future_template cm)
      in (r, cm\<lparr>cm_last_future_template := l\<rparr>))"

definition handle_new_template ::
  "('s, 'x, 'g, 'v, 'p, 't, 'a, 'b, 'e) pool_lib \<Rightarrow> ('v, 'p) pool_env \<Rightarrow> new_template
    \<Rightarrow> (('s, 'x, 'g, 'v, 'e) channel_manager, unit) comp" where
  "handle_new_template lib env msg =
     c_bind (c_get cm_last_future_template) (\<lambda>l. c_bind (c_lock_get l) (\<lambda>bootstrap.
     c_bind (if nt_future_template msg \<and> nt_template_id msg \<noteq> 0 \<and> bootstrap \<noteq> None
             then refresh_gridpool_for_tip env else c_return ()) (\<lambda>_.
     c_bind (if nt_future_template msg then set_last_future_template msg else c_return ()) (\<lambda>_.
     c_bind (c_get (\<lambda>cm. pl_deserialize_outputs lib (cm_coinbase_outputs cm))) (\<lambda>outs.
     case outs of
       Some (first # rest) \<Rightarrow>
         (let coinbase_output = first\<lparr>txout_value := nt_coinbase_tx_value_remaining msg\<rparr> # rest in
          c_bind (\<lambda>cm. each_downstream (new_template_on_downstream lib (pv_now env) (cm_gridpool cm)
                    (cm_gridpool_channels cm) (cm_coinbase_reward_script cm) msg coinbase_output) [] cm)
            (\<lambda>messages. c_modify (forward_each env messages)))
     | _ \<Rightarrow> c_panic)))))"

section \<open>New previous hashes\<close>

definition prev_hash_on_group ::
  "'g group_api \<Rightarrow> downstream_id \<Rightarrow> bool \<Rightarrow> tdp_set_new_prev_hash \<Rightarrow> ('g, route_message_to list) comp" where
  "prev_hash_on_group api d requires_standard_jobs msg =
     c_bind (c_call group_error (grp_on_set_new_prev_hash api msg)) (\<lambda>_.
     c_bind (c_get (\<lambda>g. (\<not> requires_standard_jobs \<and> \<not> grp_is_empty api g, grp_get_active_job api g,
               grp_get_group_channel_id api g))) (\<lambda>(announce, active_job, group_channel_id).
     if announce
     then c_bind (c_expect active_job) (\<lambda>job.
            c_return [RouteDownstream d (prev_hash_message group_channel_id (xj_job_id job) msg)])
     else c_return []))"

definition prev_hash_on_extended ::
  "('x, 'p) extended_api \<Rightarrow> tdp_set_new_prev_hash \<Rightarrow> channel_id \<Rightarrow> ('x, route_message_to list) comp" where
  "prev_hash_on_extended api msg channel_id =
     c_bind (c_call extended_error (xc_on_set_new_prev_hash api msg)) (\<lambda>_. c_return [])"

definition prev_hash_on_standard ::
  "('s, 'p) standard_api \<Rightarrow> downstream_id \<Rightarrow> bool \<Rightarrow> tdp_set_new_prev_hash \<Rightarrow> channel_id
    \<Rightarrow> ('s, route_message_to list) comp" where
  "prev_hash_on_standard api d requires_standard_jobs msg channel_id =
     c_bind (c_call standard_error (sc_on_set_new_prev_hash api msg)) (\<lambda>_.
     if requires_standard_jobs
     then c_bind (c_get (sc_get_active_job api)) (\<lambda>j.
          c_bind (c_try (ok_or (pool_shutdown PkJobNotFound) j)) (\<lambda>job.
            c_return [RouteDownstream d (prev_hash_message channel_id (sj_job_id job) msg)]))
     else c_return [])"

definition prev_hash_on_downstream ::
  "('s, 'x, 'g, 'v, 'p, 't, 'a, 'b, 'e) pool_lib \<Rightarrow> tdp_set_new_prev_hash \<Rightarrow> route_message_to list \<Rightarrow> downstream_id
    \<Rightarrow> ('s, 'x, 'g) downstream \<Rightarrow> (unit, fault) result \<times> route_message_to list \<times> ('s, 'x, 'g) downstream" where
  "prev_hash_on_downstream lib msg messages d ds =
     (if ds_requires_custom_work ds then (Ok (), messages, ds)
      else
      (let requires_standard_jobs = ds_requires_standard_jobs ds in
       case on_group_channel (prev_hash_on_group (pl_group lib) d requires_standard_jobs msg) ds of
         (Inl e, ds) \<Rightarrow> (Inl e, messages, ds)
       | (Inr group_messages, ds) \<Rightarrow>
         (case sm_try_for_each_mut (collect (prev_hash_on_extended (pl_extended lib) msg))
                 (messages @ group_messages) (ds_extended_channels ds) of
            (Inl e, messages, m) \<Rightarrow> (Inl e, messages, ds\<lparr>ds_extended_channels := m\<rparr>)
          | (Inr _, messages, m) \<Rightarrow>
            (case sm_try_for_each_mut (collect (prev_hash_on_standard (pl_standard lib) d requires_standard_jobs msg))
                    messages (ds_standard_channels ds) of
               (r, messages, m') \<Rightarrow>
                 (r, messages, ds\<lparr>ds_extended_channels := m, ds_standard_channels := m'\<rparr>)))))"

definition handle_set_new_prev_hash ::
  "('s, 'x, 'g, 'v, 'p, 't, 'a, 'b, 'e) pool_lib \<Rightarrow> ('v, 'p) pool_env \<Rightarrow> tdp_set_new_prev_hash
    \<Rightarrow> (('s, 'x, 'g, 'v, 'e) channel_manager, unit) comp" where
  "handle_set_new_prev_hash lib env msg =
     c_bind (\<lambda>cm. let (r, l) = lock_run (\<lambda>_. (Ok (), Some msg)) (cm_last_new_prev_hash cm)
                  in (r, cm\<lparr>cm_last_new_prev_hash := l\<rparr>)) (\<lambda>_.
     c_bind (each_downstream (prev_hash_on_downstream lib msg) [])
       (\<lambda>messages. c_modify (forward_each env messages)))"

text \<open>
  The other messages of the provider are logged only.  Messages that only a client sends are
  refused by the dispatcher of the handler crate, which names their extension and message type.
\<close>

definition handle_template_message ::
  "('s, 'x, 'g, 'v, 'p, 't, 'a, 'b, 'e) pool_lib \<Rightarrow> (tdp_message \<Rightarrow> u16 \<times> u8) \<Rightarrow> ('v, 'p) pool_env
    \<Rightarrow> tdp_message \<Rightarrow> (('s, 'x, 'g, 'v, 'e) channel_manager, unit) comp" where
  "handle_template_message lib message_type env m = (case m of
     NewTemplate msg \<Rightarrow> handle_new_template lib env msg
   | TdpSetNewPrevHash msg \<Rightarrow> handle_set_new_prev_hash lib env msg
   | RequestTransactionDataError _ _ \<Rightarrow> c_return ()
   | RequestTransactionDataSuccess _ _ _ \<Rightarrow> c_return ()
   | _ \<Rightarrow> c_raise (pool_log (case message_type m of (ext, ty) \<Rightarrow> PkUnexpectedMessage ext ty)))"

section \<open>What a new template announces\<close>

text \<open>
  The number of job messages of a connection: none when it brings its own jobs; one per channel in
  GridPool mode, where every channel has outputs of its own; otherwise one per standard channel, or
  one for the whole group.
\<close>

definition announced_jobs :: "'g group_api \<Rightarrow> bool \<Rightarrow> ('s, 'x, 'g) downstream \<Rightarrow> 'g \<Rightarrow> nat" where
  "announced_jobs api gridpool_on ds g =
     (if ds_requires_custom_work ds then 0
      else if gridpool_on then length (ds_standard_channels ds) + length (ds_extended_channels ds)
      else if ds_requires_standard_jobs ds then length (ds_standard_channels ds)
      else if grp_is_empty api g then 0 else 1)"

fun job_for :: "downstream_id \<Rightarrow> route_message_to \<Rightarrow> bool" where
  "job_for d (RouteDownstream d' (NewMiningJob _)) = (d' = d)"
| "job_for d (RouteDownstream d' (NewExtendedMiningJob _)) = (d' = d)"
| "job_for d _ = False"

text \<open>The messages a loop over channels collects, when each channel yields \<open>n\<close> messages with a property.\<close>

lemma collect_messages:
  assumes "\<And>k c ms' c'. f k c = (Ok ms', c') \<Longrightarrow> length ms' = n \<and> list_all P ms'"
    and "sm_try_for_each_mut (collect f) ms m = (Ok (), ms', m')"
  shows "\<exists>new. ms' = ms @ new \<and> length new = n * length m \<and> list_all P new"
  using assms(2)
proof (induction m arbitrary: ms m')
  case (Cons x m)
  obtain k c where x: "x = (k, c)" by (cases x)
  obtain ms1 c' where f: "f k c = (Ok ms1, c')"
    using Cons.prems by (cases "f k c"; cases "fst (f k c)") (auto simp: x collect_def [of f ms k c] split: sum.splits prod.splits)
  obtain m1 where "sm_try_for_each_mut (collect f) (ms @ ms1) m = (Ok (), ms', m1)"
    using Cons.prems by (auto simp: x f collect_def [of f ms k c] split: prod.splits)
  from Cons.IH [OF this] assms(1) [OF f] show ?case by auto
qed simp

lemma new_template_on_standard_messages:
  assumes "new_template_on_standard lib now gridpool payouts std t outs job d k c = (Ok ms, c')"
  shows "length ms = (if std \<or> gridpool \<noteq> None then 1 else 0) \<and> list_all (job_for d) ms"
proof -
  have "c_wp (new_template_on_standard lib now gridpool payouts std t outs job d k)
      (\<lambda>ms _. length ms = (if std \<or> gridpool \<noteq> None then 1 else 0) \<and> list_all (job_for d) ms) (\<lambda>_ _. True) c"
    by (auto simp: new_template_on_standard_def Let_def wp_rules split: option.split sum.split prod.split)
  from wp_result [OF this assms] show ?thesis .
qed

lemma new_template_on_extended_messages:
  assumes "new_template_on_extended lib now gridpool payouts t job d k c = (Ok ms, c')"
  shows "length ms = (if gridpool \<noteq> None then 1 else 0) \<and> list_all (job_for d) ms"
proof -
  have "c_wp (new_template_on_extended lib now gridpool payouts t job d k)
      (\<lambda>ms _. length ms = (if gridpool \<noteq> None then 1 else 0) \<and> list_all (job_for d) ms) (\<lambda>_ _. True) c"
    by (auto simp: new_template_on_extended_def Let_def wp_rules split: option.split sum.split prod.split)
  from wp_result [OF this assms] show ?thesis .
qed

lemma new_template_on_group_messages:
  assumes "new_template_on_group api d std gp t outs g = (Ok (job, ms), g')"
  shows "length ms = (if \<not> std \<and> \<not> grp_is_empty api g' \<and> \<not> gp then 1 else 0) \<and> list_all (job_for d) ms"
proof -
  have "c_wp (new_template_on_group api d std gp t outs) (\<lambda>(job, ms) g'.
      length ms = (if \<not> std \<and> \<not> grp_is_empty api g' \<and> \<not> gp then 1 else 0) \<and> list_all (job_for d) ms) (\<lambda>_ _. True) g"
    by (auto simp: new_template_on_group_def wp_rules split: option.split sum.split prod.split)
  from wp_result [OF this assms] show ?thesis by simp
qed

text \<open>
  C12. A new template reaches every channel once.  When a connection's turn succeeds, its own
  messages are appended to those already collected; they are job messages for this connection, and
  there are exactly as many as it needs: none for a connection that brings its own jobs, one for each
  channel in GridPool mode, otherwise one for each standard channel or a single one for the group.
\<close>

theorem new_template_announces_once:
  assumes "new_template_on_downstream lib now gridpool payouts script t outs messages d ds = (Ok (), messages', ds')"
  shows "\<exists>new. messages' = messages @ new \<and> list_all (job_for d) new \<and>
    length new = announced_jobs (pl_group lib) (gridpool \<noteq> None) ds (lock_value (ds_group_channel ds'))"
proof (cases "ds_requires_custom_work ds")
  case True
  with assms show ?thesis by (simp add: new_template_on_downstream_def announced_jobs_def)
next
  case False
  let ?std = "ds_requires_standard_jobs ds" and ?gp = "gridpool \<noteq> None"
  have gp: "(\<exists>y. gridpool = Some y) = ?gp" by (cases gridpool) auto
  let ?outs = "downstream_coinbase_outputs script (nt_coinbase_tx_value_remaining t) outs (lock_value (ds_payout_mode ds))"
  obtain job gms g where grp: "new_template_on_group (pl_group lib) d ?std ?gp t ?outs (lock_value (ds_group_channel ds)) =
        (Ok (job, gms), g)"
    and each: "each_channel (collect (new_template_on_standard lib now gridpool payouts ?std t ?outs job d))
        (collect (new_template_on_extended lib now gridpool payouts t job d)) (messages @ gms)
        (ds\<lparr>ds_group_channel := (ds_group_channel ds)\<lparr>lock_value := g, lock_poisoned := False\<rparr>\<rparr>) = (Ok (), messages', ds')"
    using assms False
    by (auto simp: new_template_on_downstream_def c_lock_get_def c_try_def lock_get_def on_group_channel_def lock_run_def
        Let_def gp simp del: not_None_eq split: if_splits sum.splits prod.splits fault.splits)
  obtain m1 sm xm where s: "sm_try_for_each_mut (collect (new_template_on_standard lib now gridpool payouts ?std t ?outs job d))
        (messages @ gms) (ds_standard_channels ds) = (Ok (), m1, sm)"
    and x: "sm_try_for_each_mut (collect (new_template_on_extended lib now gridpool payouts t job d)) m1
        (ds_extended_channels ds) = (Ok (), messages', xm)"
    and ds': "ds_group_channel ds' = (ds_group_channel ds)\<lparr>lock_value := g, lock_poisoned := False\<rparr>"
    using each by (auto simp: each_channel_def split: prod.splits sum.splits)
  obtain ns where ns: "m1 = messages @ gms @ ns" "list_all (job_for d) ns"
      "length ns = (if ?std \<or> ?gp then 1 else 0) * length (ds_standard_channels ds)"
    using collect_messages [OF _ s, where P = "job_for d" and n = "if ?std \<or> ?gp then 1 else 0"]
      new_template_on_standard_messages by fastforce
  obtain nx where nx: "messages' = m1 @ nx" "list_all (job_for d) nx"
      "length nx = (if ?gp then 1 else 0) * length (ds_extended_channels ds)"
    using collect_messages [OF _ x, where P = "job_for d" and n = "if ?gp then 1 else 0"]
      new_template_on_extended_messages by fastforce
  from ns nx new_template_on_group_messages [OF grp]
  show ?thesis using False by (cases gridpool) (auto simp: ds' announced_jobs_def)
qed

theorem new_template_announces_once_witness:
  "\<exists>messages' ds'. new_template_on_downstream plain_pool_lib 100 None [] \<lparr>crs_script_pubkey = [1], crs_ok_for_mainnet = True\<rparr>
     plain_template [] [] 1 (plain_downstream False True [(2, (2, None)), (3, (3, None))] []) = (Ok (), messages', ds') \<and>
     length messages' = 2"
proof -
  let ?ds = "plain_downstream False True [(2, (2, None)), (3, (3, None))] []"
  have "\<exists>messages' ds'. new_template_on_downstream plain_pool_lib 100 None [] \<lparr>crs_script_pubkey = [1], crs_ok_for_mainnet = True\<rparr>
     plain_template [] [] 1 ?ds = (Ok (), messages', ds')"
    by (simp add: new_template_on_downstream_def c_lock_get_def c_try_def lock_get_def on_group_channel_def lock_run_def
        new_template_on_group_def new_template_on_standard_def each_channel_def collect_def c_bind_def c_call_def c_get_def
        c_return_def c_expect_def plain_downstream_def lock_new_def plain_pool_lib_def plain_standard_api_def plain_group_api_def
        plain_template_def Let_def)
  then obtain messages' ds' where
    e: "new_template_on_downstream plain_pool_lib 100 None [] \<lparr>crs_script_pubkey = [1], crs_ok_for_mainnet = True\<rparr>
     plain_template [] [] 1 ?ds = (Ok (), messages', ds')" by blast
  from new_template_announces_once [OF e] have "length messages' = 2"
    by (auto simp: announced_jobs_def plain_downstream_def)
  with e show ?thesis by blast
qed

section \<open>Previous hashes in GridPool mode\<close>

text \<open>
  C17. In GridPool mode a connection with grouped channels never learns the group's job, because
  every channel has a job of its own; but the next previous hash is announced for the group only, with
  the job identifier of the group's counter, and for no channel separately.  The miner can only match
  it to a job it holds when the group's counter happens to agree with the channels' counters.
\<close>

theorem gridpool_prev_hash_names_unsent_job:
  assumes "new_template_on_group api d False True t outs g = (Ok (job, ms), g1)"
    and "prev_hash_on_group api d False p g1 = (Ok ms', g2)" and "\<not> grp_is_empty api g2"
    and "prev_hash_on_extended xapi p c x = (Ok ms'', x')"
    and "prev_hash_on_standard sapi d False p c s = (Ok ms''', s')"
  shows "ms = [] \<and> ms'' = [] \<and> ms''' = [] \<and> (\<exists>active. grp_get_active_job api g2 = Some active \<and>
    ms' = [RouteDownstream d (prev_hash_message (grp_get_group_channel_id api g2) (xj_job_id active) p)])"
proof -
  have "ms = []" using new_template_on_group_messages [OF assms(1)] by simp
  moreover have "ms'' = []" "ms''' = []"
    using assms(4,5)
    by (auto simp: prev_hash_on_extended_def prev_hash_on_standard_def bind_eq_Ok_iff c_return_def)
  moreover have "\<exists>active. grp_get_active_job api g2 = Some active \<and>
    ms' = [RouteDownstream d (prev_hash_message (grp_get_group_channel_id api g2) (xj_job_id active) p)]"
    using assms(2,3)
    by (auto simp: prev_hash_on_group_def bind_eq_Ok_iff c_get_def c_expect_def c_return_def c_panic_def
        split: if_splits option.splits)
  ultimately show ?thesis by blast
qed

theorem gridpool_prev_hash_names_unsent_job_witness:
  "\<exists>ms'. fst (prev_hash_on_group plain_group_api 1 False plain_prev_hash
      (False, Some ((plain_extended_job 1 plain_template [])\<lparr>xj_job_id := 8\<rparr>))) = Ok ms' \<and>
    ms' = [RouteDownstream 1 (prev_hash_message 1 8 plain_prev_hash)]"
proof -
  let ?job = "(plain_extended_job 1 plain_template [])\<lparr>xj_job_id := 8\<rparr>"
  let ?ms = "[RouteDownstream 1 (prev_hash_message 1 8 plain_prev_hash)]"
  have a: "new_template_on_group plain_group_api 1 False True plain_template [] (False, None) = (Ok (?job, []), (False, Some ?job))"
    by (simp add: new_template_on_group_def c_bind_def c_call_def c_get_def plain_group_api_def)
  have b: "\<exists>ms'. prev_hash_on_group plain_group_api 1 False plain_prev_hash (False, Some ?job) = (Ok ms', (False, Some ?job))"
    by (simp add: prev_hash_on_group_def c_bind_def c_call_def c_get_def c_expect_def c_return_def plain_group_api_def)
  then obtain ms' where b: "prev_hash_on_group plain_group_api 1 False plain_prev_hash (False, Some ?job) =
      (Ok ms', (False, Some ?job))" by blast
  have c: "prev_hash_on_extended plain_extended_api plain_prev_hash 2 (2, None) = (Ok [], (2, None))"
    "prev_hash_on_standard plain_standard_api 1 False plain_prev_hash 2 (2, None) = (Ok [], (2, None))"
    by (simp_all add: prev_hash_on_extended_def prev_hash_on_standard_def c_bind_def c_call_def c_return_def
        plain_extended_api_def plain_standard_api_def)
  have d: "\<not> grp_is_empty plain_group_api (False, Some ?job)" by (simp add: plain_group_api_def)
  have g: "grp_get_active_job plain_group_api (False, Some ?job) = Some ?job"
    "grp_get_group_channel_id plain_group_api (False, Some ?job) = 1"
    by (simp_all add: plain_group_api_def)
  from gridpool_prev_hash_names_unsent_job [OF a b d c] show ?thesis
    unfolding b by (simp add: g)
qed

section \<open>Fee refreshes and custom work\<close>

text \<open>
  A new template leaves a connection alone that brings its own jobs, but the periodic fee
  refresh does not ask: it treats the channels of such a connection like all others, so a miner that
  declared its own work is sent pool jobs whenever the fee window turns.
\<close>

theorem fee_refresh_ignores_custom_work:
  "new_template_on_downstream lib now gridpool payouts script t outs messages d (ds\<lparr>ds_requires_custom_work := True\<rparr>) =
     (Ok (), messages, ds\<lparr>ds_requires_custom_work := True\<rparr>) \<and>
   each_channel (refresh_standard_channel lib now g payouts t d) (refresh_extended_channel lib now g payouts t d) messages
       (ds\<lparr>ds_requires_custom_work := True\<rparr>) =
     (case each_channel (refresh_standard_channel lib now g payouts t d) (refresh_extended_channel lib now g payouts t d)
        messages ds of (r, messages', ds') \<Rightarrow> (r, messages', ds'\<lparr>ds_requires_custom_work := True\<rparr>))"
  by (cases ds) (simp add: new_template_on_downstream_def each_channel_def split: prod.split sum.split)

section \<open>Whom the next template pays\<close>



end
