(* ===== verification/Message_Types.thy ===== *)
theory Message_Types
  imports Prelude
begin

text \<open>
  The classification of frames (\<open>stratum-apps/src/utils/protocol_message_type.rs\<close>): which
  subprotocol a frame belongs to, from its extension type and its message type.  The numbers of the
  messages are constants of the protocol crates; they are a parameter, one number for each name.
\<close>

section \<open>Names\<close>

datatype message_name =
    M_SETUP_CONNECTION
  | M_SETUP_CONNECTION_SUCCESS
  | M_SETUP_CONNECTION_ERROR
  | M_CHANNEL_ENDPOINT_CHANGED
  | M_RECONNECT
  | M_OPEN_STANDARD_MINING_CHANNEL
  | M_OPEN_STANDARD_MINING_CHANNEL_SUCCESS
  | M_OPEN_MINING_CHANNEL_ERROR
  | M_OPEN_EXTENDED_MINING_CHANNEL
  | M_OPEN_EXTENDED_MINING_CHANNEL_SUCCESS
  | M_NEW_MINING_JOB
  | M_UPDATE_CHANNEL
  | M_UPDATE_CHANNEL_ERROR
  | M_CLOSE_CHANNEL
  | M_SET_EXTRANONCE_PREFIX
  | M_SUBMIT_SHARES_STANDARD
  | M_SUBMIT_SHARES_EXTENDED
  | M_SUBMIT_SHARES_SUCCESS
  | M_SUBMIT_SHARES_ERROR
  | M_NEW_EXTENDED_MINING_JOB
  | M_MINING_SET_NEW_PREV_HASH
  | M_SET_TARGET
  | M_SET_CUSTOM_MINING_JOB
  | M_SET_CUSTOM_MINING_JOB_SUCCESS
  | M_SET_CUSTOM_MINING_JOB_ERROR
  | M_SET_GROUP_CHANNEL
  | M_ALLOCATE_MINING_JOB_TOKEN
  | M_ALLOCATE_MINING_JOB_TOKEN_SUCCESS
  | M_PROVIDE_MISSING_TRANSACTIONS
  | M_PROVIDE_MISSING_TRANSACTIONS_SUCCESS
  | M_DECLARE_MINING_JOB
  | M_DECLARE_MINING_JOB_SUCCESS
  | M_DECLARE_MINING_JOB_ERROR
  | M_PUSH_SOLUTION
  | M_COINBASE_OUTPUT_CONSTRAINTS
  | M_NEW_TEMPLATE
  | M_SET_NEW_PREV_HASH
  | M_REQUEST_TRANSACTION_DATA
  | M_REQUEST_TRANSACTION_DATA_SUCCESS
  | M_REQUEST_TRANSACTION_DATA_ERROR
  | M_SUBMIT_SOLUTION
  | M_REQUEST_EXTENSIONS
  | M_REQUEST_EXTENSIONS_ERROR
  | M_REQUEST_EXTENSIONS_SUCCESS

record message_types =
  mt_number :: "message_name \<Rightarrow> u8"
  mt_extension_type_extensions_negotiation :: u16

datatype message_type =
    TypeCommon | TypeMining | TypeJobDeclaration | TypeTemplateDistribution | TypeExtensions | TypeUnknown

section \<open>Classification\<close>

definition common_names :: "message_name list" where
  "common_names = [
     M_SETUP_CONNECTION, M_SETUP_CONNECTION_SUCCESS, M_SETUP_CONNECTION_ERROR, M_CHANNEL_ENDPOINT_CHANGED,
     M_RECONNECT]"

definition mining_names :: "message_name list" where
  "mining_names = [
     M_OPEN_STANDARD_MINING_CHANNEL, M_OPEN_STANDARD_MINING_CHANNEL_SUCCESS, M_OPEN_MINING_CHANNEL_ERROR,
     M_OPEN_EXTENDED_MINING_CHANNEL, M_OPEN_EXTENDED_MINING_CHANNEL_SUCCESS, M_NEW_MINING_JOB,
     M_UPDATE_CHANNEL, M_UPDATE_CHANNEL_ERROR, M_CLOSE_CHANNEL, M_SET_EXTRANONCE_PREFIX,
     M_SUBMIT_SHARES_STANDARD, M_SUBMIT_SHARES_EXTENDED, M_SUBMIT_SHARES_SUCCESS, M_SUBMIT_SHARES_ERROR,
     M_NEW_EXTENDED_MINING_JOB, M_MINING_SET_NEW_PREV_HASH, M_SET_TARGET, M_SET_CUSTOM_MINING_JOB,
     M_SET_CUSTOM_MINING_JOB_SUCCESS, M_SET_CUSTOM_MINING_JOB_ERROR, M_SET_GROUP_CHANNEL]"

definition job_declaration_names :: "message_name list" where
  "job_declaration_names = [
     M_ALLOCATE_MINING_JOB_TOKEN, M_ALLOCATE_MINING_JOB_TOKEN_SUCCESS, M_PROVIDE_MISSING_TRANSACTIONS,
     M_PROVIDE_MISSING_TRANSACTIONS_SUCCESS, M_DECLARE_MINING_JOB, M_DECLARE_MINING_JOB_SUCCESS,
     M_DECLARE_MINING_JOB_ERROR, M_PUSH_SOLUTION]"

definition template_distribution_names :: "message_name list" where
  "template_distribution_names = [
     M_COINBASE_OUTPUT_CONSTRAINTS, M_NEW_TEMPLATE, M_SET_NEW_PREV_HASH, M_REQUEST_TRANSACTION_DATA,
     M_REQUEST_TRANSACTION_DATA_SUCCESS, M_REQUEST_TRANSACTION_DATA_ERROR, M_SUBMIT_SOLUTION]"

definition extensions_names :: "message_name list" where
  "extensions_names = [
     M_REQUEST_EXTENSIONS, M_REQUEST_EXTENSIONS_ERROR, M_REQUEST_EXTENSIONS_SUCCESS]"

definition is_common_message :: "message_types \<Rightarrow> u16 \<Rightarrow> u8 \<Rightarrow> bool" where
  "is_common_message mt ext ty = (ext = 0 \<and> ty \<in> set (map (mt_number mt) common_names))"

text \<open>The reserved type \<open>0x1e\<close> counts as a mining message.\<close>

definition is_mining_message :: "message_types \<Rightarrow> u16 \<Rightarrow> u8 \<Rightarrow> bool" where
  "is_mining_message mt ext ty = (ext = 0 \<and> (ty \<in> set (map (mt_number mt) mining_names) \<or> ty = 0x1e))"

definition is_job_declaration_message :: "message_types \<Rightarrow> u16 \<Rightarrow> u8 \<Rightarrow> bool" where
  "is_job_declaration_message mt ext ty = (ext = 0 \<and> ty \<in> set (map (mt_number mt) job_declaration_names))"

definition is_template_distribution_message :: "message_types \<Rightarrow> u16 \<Rightarrow> u8 \<Rightarrow> bool" where
  "is_template_distribution_message mt ext ty = (ext = 0 \<and> ty \<in> set (map (mt_number mt) template_distribution_names))"

definition is_extensions_message :: "message_types \<Rightarrow> u16 \<Rightarrow> u8 \<Rightarrow> bool" where
  "is_extensions_message mt ext ty =
     (ext = mt_extension_type_extensions_negotiation mt \<and> ty \<in> set (map (mt_number mt) extensions_names))"

definition protocol_message_type :: "message_types \<Rightarrow> u16 \<Rightarrow> u8 \<Rightarrow> message_type" where
  "protocol_message_type mt extension_type ty =
     (let ext = and extension_type (not 0x8000) in
      if is_common_message mt ext ty then TypeCommon
      else if is_mining_message mt ext ty then TypeMining
      else if is_job_declaration_message mt ext ty then TypeJobDeclaration
      else if is_template_distribution_message mt ext ty then TypeTemplateDistribution
      else if is_extensions_message mt ext ty then TypeExtensions
      else TypeUnknown)"

section \<open>The classes are what the protocol says\<close>

definition name_class :: "message_name \<Rightarrow> message_type" where
  "name_class n =
     (if n \<in> set common_names then TypeCommon else if n \<in> set mining_names then TypeMining
      else if n \<in> set job_declaration_names then TypeJobDeclaration
      else if n \<in> set template_distribution_names then TypeTemplateDistribution else TypeExtensions)"

text \<open>
  What the protocol crates promise about the numbers: messages without an extension have distinct
  numbers, none of them is the reserved one, and the negotiation of extensions has an extension type
  of its own, below the channel bit.
\<close>

definition numbers_ok :: "message_types \<Rightarrow> bool" where
  "numbers_ok mt = (inj_on (mt_number mt) {n. name_class n \<noteq> TypeExtensions} \<and>
     (\<forall>n. name_class n \<noteq> TypeExtensions \<longrightarrow> mt_number mt n \<noteq> 0x1e) \<and>
     mt_extension_type_extensions_negotiation mt \<noteq> 0 \<and> \<not> bit (mt_extension_type_extensions_negotiation mt) 15)"

definition name_extension :: "message_types \<Rightarrow> message_name \<Rightarrow> u16" where
  "name_extension mt n = (if name_class n = TypeExtensions then mt_extension_type_extensions_negotiation mt else 0)"

lemmas name_lists = common_names_def mining_names_def job_declaration_names_def template_distribution_names_def
  extensions_names_def

lemma base_names:
  "set common_names \<union> set mining_names \<union> set job_declaration_names \<union> set template_distribution_names
     \<subseteq> {n. name_class n \<noteq> TypeExtensions}"
  by (auto simp: name_class_def)

lemma name_class_extensions: "name_class n = TypeExtensions \<longleftrightarrow> n \<in> set extensions_names"
  by (cases n) (simp_all add: name_class_def name_lists)

lemma number_mem:
  assumes "numbers_ok mt" and "name_class n \<noteq> TypeExtensions" and "set names \<subseteq> {n. name_class n \<noteq> TypeExtensions}"
  shows "mt_number mt n \<in> set (map (mt_number mt) names) \<longleftrightarrow> n \<in> set names"
  using assms inj_on_image_mem_iff [of "mt_number mt" "{n. name_class n \<noteq> TypeExtensions}" n "set names"]
  by (simp add: numbers_ok_def)

text \<open>The channel bit is cleared before the comparison.\<close>

lemma clear_channel_bit:
  fixes ext :: u16
  assumes "ext = e \<or> ext = or e 0x8000" and "\<not> bit e 15"
  shows "and ext (not 0x8000) = e"
proof -
  have "bit (2 ^ 15 :: int) i \<longleftrightarrow> i = 15" for i by (subst bit_exp_iff) auto
  then have bits: "bit (0x8000 :: int) i \<longleftrightarrow> i = 15" for i by simp
  show ?thesis
    using assms by (intro bit_word_eqI) (auto simp: bit_simps bits)
qed


text \<open>The numbers of the Stratum V2 specification.\<close>

fun sv2_number :: "message_name \<Rightarrow> u8" where
  "sv2_number M_SETUP_CONNECTION = 0x0"
| "sv2_number M_SETUP_CONNECTION_SUCCESS = 0x1"
| "sv2_number M_SETUP_CONNECTION_ERROR = 0x2"
| "sv2_number M_CHANNEL_ENDPOINT_CHANGED = 0x3"
| "sv2_number M_RECONNECT = 0x4"
| "sv2_number M_OPEN_STANDARD_MINING_CHANNEL = 0x10"
| "sv2_number M_OPEN_STANDARD_MINING_CHANNEL_SUCCESS = 0x11"
| "sv2_number M_OPEN_MINING_CHANNEL_ERROR = 0x12"
| "sv2_number M_OPEN_EXTENDED_MINING_CHANNEL = 0x13"
| "sv2_number M_OPEN_EXTENDED_MINING_CHANNEL_SUCCESS = 0x14"
| "sv2_number M_NEW_MINING_JOB = 0x15"
| "sv2_number M_UPDATE_CHANNEL = 0x16"
| "sv2_number M_UPDATE_CHANNEL_ERROR = 0x17"
| "sv2_number M_CLOSE_CHANNEL = 0x18"
| "sv2_number M_SET_EXTRANONCE_PREFIX = 0x19"
| "sv2_number M_SUBMIT_SHARES_STANDARD = 0x1a"
| "sv2_number M_SUBMIT_SHARES_EXTENDED = 0x1b"
| "sv2_number M_SUBMIT_SHARES_SUCCESS = 0x1c"
| "sv2_number M_SUBMIT_SHARES_ERROR = 0x1d"
| "sv2_number M_NEW_EXTENDED_MINING_JOB = 0x1f"
| "sv2_number M_MINING_SET_NEW_PREV_HASH = 0x20"
| "sv2_number M_SET_TARGET = 0x21"
| "sv2_number M_SET_CUSTOM_MINING_JOB = 0x22"
| "sv2_number M_SET_CUSTOM_MINING_JOB_SUCCESS = 0x23"
| "sv2_number M_SET_CUSTOM_MINING_JOB_ERROR = 0x24"
| "sv2_number M_SET_GROUP_CHANNEL = 0x25"
| "sv2_number M_ALLOCATE_MINING_JOB_TOKEN = 0x50"
| "sv2_number M_ALLOCATE_MINING_JOB_TOKEN_SUCCESS = 0x51"
| "sv2_number M_PROVIDE_MISSING_TRANSACTIONS = 0x55"
| "sv2_number M_PROVIDE_MISSING_TRANSACTIONS_SUCCESS = 0x56"
| "sv2_number M_DECLARE_MINING_JOB = 0x57"
| "sv2_number M_DECLARE_MINING_JOB_SUCCESS = 0x58"
| "sv2_number M_DECLARE_MINING_JOB_ERROR = 0x59"
| "sv2_number M_PUSH_SOLUTION = 0x60"
| "sv2_number M_COINBASE_OUTPUT_CONSTRAINTS = 0x70"
| "sv2_number M_NEW_TEMPLATE = 0x71"
| "sv2_number M_SET_NEW_PREV_HASH = 0x72"
| "sv2_number M_REQUEST_TRANSACTION_DATA = 0x73"
| "sv2_number M_REQUEST_TRANSACTION_DATA_SUCCESS = 0x74"
| "sv2_number M_REQUEST_TRANSACTION_DATA_ERROR = 0x75"
| "sv2_number M_SUBMIT_SOLUTION = 0x76"
| "sv2_number M_REQUEST_EXTENSIONS = 0x0"
| "sv2_number M_REQUEST_EXTENSIONS_ERROR = 0x2"
| "sv2_number M_REQUEST_EXTENSIONS_SUCCESS = 0x1"

definition sv2_message_types :: message_types where
  "sv2_message_types = \<lparr>mt_number = sv2_number, mt_extension_type_extensions_negotiation = 1\<rparr>"

lemma sv2_numbers_ok: "numbers_ok sv2_message_types"
proof -
  let ?base = "common_names @ mining_names @ job_declaration_names @ template_distribution_names"
  have "distinct (map sv2_number ?base)" by (simp add: name_lists)
  then have "inj_on sv2_number (set ?base)" by (simp only: distinct_map)
  moreover have "{n. name_class n \<noteq> TypeExtensions} \<subseteq> set ?base" by (auto simp: name_class_def split: if_splits)
  ultimately have "inj_on sv2_number {n. name_class n \<noteq> TypeExtensions}" by (rule inj_on_subset)
  moreover have "sv2_number n \<noteq> 0x1e" for n by (cases n) simp_all
  ultimately show ?thesis by (simp add: numbers_ok_def sv2_message_types_def)
qed


end
