(* ===== verification/Pool_Downstream.thy ===== *)
theory Pool_Downstream
  imports Pool_Types Message_Types
begin

text \<open>
  A connection of the pool (\<open>pool-apps/pool/src/lib/downstream\<close>): the connection setup, the
  negotiation of extensions, the routing of frames between the miner and the channel manager, and
  the reaction to errors.
\<close>

section \<open>Frames\<close>

datatype protocol = MiningProtocol | JobDeclarationProtocol | TemplateDistributionProtocol

record setup_connection =
  scn_protocol :: protocol
  scn_min_version :: u16
  scn_flags :: u32

record request_extensions =
  rex_request_id :: u16
  rex_requested_extensions :: "u16 list"

datatype out_frame =
    SetupConnectionSuccess u16 u32
  | SetupConnectionError u32 error_code
  | RequestExtensionsSuccess u16 "u16 list"
  | RequestExtensionsError u16 "u16 list" "u16 list"
  | MiningFrame mining

text \<open>
  A received frame: its header, absent when the frame has none, and what the parsers of the
  protocol crates make of its payload.
\<close>

datatype parsed_frame =
    ParsedSetupConnection setup_connection
  | ParsedRequestExtensions request_extensions
  | ParsedMining mining_from_client
  | ParsedOther

record in_frame =
  fr_header :: "(u16 \<times> u8) option"
  fr_parse :: "u16 list \<Rightarrow> (parsed_frame, pool_error_kind) result"

text \<open>
  The connection's tasks work on the connection, the frames sent to the miner and the messages
  sent to the channel manager.  The flag tests are functions of the protocol crate.
\<close>

record ('s, 'x, 'g) connection =
  cn_downstream :: "('s, 'x, 'g) downstream"
  cn_frames :: "out_frame list"
  cn_to_manager :: "(downstream_id \<times> mining_from_client) list"

record connection_env =
  cv_message_types :: message_types
  cv_has_work_selection :: "u32 \<Rightarrow> bool"
  cv_has_requires_std_job :: "u32 \<Rightarrow> bool"
  cv_encode_ok :: "out_frame \<Rightarrow> bool"
  cv_send_ok :: bool
  cv_manager_send_ok :: bool
  cv_limits :: sv2_limits

definition send_frame :: "connection_env \<Rightarrow> out_frame \<Rightarrow> (('s, 'x, 'g) connection, unit) comp" where
  "send_frame env frame c =
     (if \<not> cv_encode_ok env frame then c_raise (pool_shutdown PkParser) c
      else if \<not> cv_send_ok env
      then c_raise (pool_disconnect PkChannelErrorSender (ds_downstream_id (cn_downstream c))) c
      else (Ok (), c\<lparr>cn_frames := cn_frames c @ [frame]\<rparr>))"

section \<open>Setup and extensions\<close>

definition handle_setup_connection ::
  "connection_env \<Rightarrow> setup_connection \<Rightarrow> (('s, 'x, 'g) connection, unit) comp" where
  "handle_setup_connection env msg =
     (if scn_protocol msg \<noteq> MiningProtocol
      then c_bind (send_frame env (SetupConnectionError 0 EC_SETUP_CONNECTION_UNSUPPORTED_PROTOCOL)) (\<lambda>_.
           c_bind (c_get (\<lambda>c. ds_downstream_id (cn_downstream c))) (\<lambda>d.
           c_raise (pool_disconnect PkUnsupportedProtocol d)))
      else
      c_bind (c_modify (\<lambda>c. c\<lparr>cn_downstream := (cn_downstream c)\<lparr>
           ds_requires_custom_work := cv_has_work_selection env (scn_flags msg),
           ds_requires_standard_jobs := cv_has_requires_std_job env (scn_flags msg)\<rparr>\<rparr>)) (\<lambda>_.
      send_frame env (SetupConnectionSuccess 2 (if cv_has_work_selection env (scn_flags msg) then 2 else 0))))"

definition handle_request_extensions ::
  "connection_env \<Rightarrow> request_extensions \<Rightarrow> (('s, 'x, 'g) connection, unit) comp" where
  "handle_request_extensions env msg =
     c_bind (c_get cn_downstream) (\<lambda>ds.
     (let requested = rex_requested_extensions msg;
          supported = filter (\<lambda>ext. ext \<in> set (ds_supported_extensions ds)) requested;
          unsupported = filter (\<lambda>ext. ext \<notin> set (ds_supported_extensions ds)) requested;
          missing_required = filter (\<lambda>ext. ext \<notin> set requested) (ds_required_extensions ds)
      in if supported = [] \<or> missing_required \<noteq> []
         then
         c_bind (if fits_seq064k (cv_limits env) (length unsupported) \<and> fits_seq064k (cv_limits env) (length missing_required)
                 then c_return () else c_raise (pool_shutdown PkBinarySv2)) (\<lambda>_.
         c_bind (send_frame env (RequestExtensionsError (rex_request_id msg) unsupported missing_required)) (\<lambda>_.
         if missing_required \<noteq> []
         then c_raise (pool_disconnect (PkClientDoesNotSupportRequiredExtensions missing_required) (ds_downstream_id ds))
         else c_return ()))
         else
         c_bind (\<lambda>c. let (r, l) = lock_run (\<lambda>_. (Ok (), supported)) (ds_negotiated_extensions (cn_downstream c))
                     in (r, c\<lparr>cn_downstream := (cn_downstream c)\<lparr>ds_negotiated_extensions := l\<rparr>\<rparr>)) (\<lambda>_.
         c_bind (if fits_seq064k (cv_limits env) (length supported)
                 then c_return () else c_raise (pool_shutdown PkBinarySv2)) (\<lambda>_.
         send_frame env (RequestExtensionsSuccess (rex_request_id msg) supported)))))"

section \<open>The message loop\<close>

text \<open>The first frame of a connection; \<^const>\<open>None\<close> is a closed receiver.\<close>

definition setup_connection_with_downstream ::
  "connection_env \<Rightarrow> in_frame option \<Rightarrow> (('s, 'x, 'g) connection, unit) comp" where
  "setup_connection_with_downstream env frame =
     c_bind (c_get (\<lambda>c. ds_downstream_id (cn_downstream c))) (\<lambda>d. case frame of
       None \<Rightarrow> c_raise (pool_disconnect PkChannelRecv d)
     | Some fr \<Rightarrow> (case fr_header fr of
         None \<Rightarrow> c_raise (pool_disconnect PkFraming d)
       | Some (ext, ty) \<Rightarrow>
         if ty = mt_number (cv_message_types env) M_SETUP_CONNECTION
         then (case fr_parse fr [] of
                 Inl k \<Rightarrow> c_raise (pool_log k)
               | Inr (ParsedSetupConnection msg) \<Rightarrow> handle_setup_connection env msg
               | Inr _ \<Rightarrow> c_raise (pool_log (PkUnexpectedMessage (and ext (not 0x8000)) ty)))
         else c_raise (pool_disconnect (PkUnexpectedMessage (and ext (not 0x8000)) ty) d)))"

definition handle_channel_manager_message ::
  "connection_env \<Rightarrow> mining option \<Rightarrow> (('s, 'x, 'g) connection, unit) comp" where
  "handle_channel_manager_message env msg = (case msg of
     None \<Rightarrow> c_bind (c_get (\<lambda>c. ds_downstream_id (cn_downstream c))) (\<lambda>d. c_raise (pool_disconnect PkChannelRecv d))
   | Some m \<Rightarrow> send_frame env (MiningFrame m))"

definition handle_downstream_message ::
  "connection_env \<Rightarrow> in_frame option \<Rightarrow> (('s, 'x, 'g) connection, unit) comp" where
  "handle_downstream_message env frame =
     c_bind (c_get cn_downstream) (\<lambda>ds. let d = ds_downstream_id ds in case frame of
       None \<Rightarrow> c_raise (pool_disconnect PkChannelRecv d)
     | Some fr \<Rightarrow> (case fr_header fr of
         None \<Rightarrow> c_raise (pool_disconnect PkFraming d)
       | Some (ext, ty) \<Rightarrow> (case protocol_message_type (cv_message_types env) ext ty of
           TypeMining \<Rightarrow>
             c_bind (c_lock_get (ds_negotiated_extensions ds)) (\<lambda>negotiated.
               case fr_parse fr negotiated of
                 Inl k \<Rightarrow> c_raise (pool_disconnect k d)
               | Inr (ParsedMining m) \<Rightarrow>
                   if cv_manager_send_ok env
                   then c_modify (\<lambda>c. c\<lparr>cn_to_manager := cn_to_manager c @ [(d, m)]\<rparr>)
                   else c_raise (pool_shutdown PkChannelSend)
               | Inr _ \<Rightarrow> c_raise (pool_disconnect (PkUnexpectedMessage (and ext (not 0x8000)) ty) d))
         | TypeExtensions \<Rightarrow>
             (case fr_parse fr [] of
                Inl k \<Rightarrow> c_raise (pool_log k)
              | Inr (ParsedRequestExtensions msg) \<Rightarrow> handle_request_extensions env msg
              | Inr _ \<Rightarrow> c_raise (pool_log (PkUnexpectedMessage (and ext (not 0x8000)) ty)))
         | _ \<Rightarrow> c_return ())))"

text \<open>
  The reaction to an error: the control of the connection's loop and whether the global token is
  now cancelled.
\<close>

definition ds_handle_error_action ::
  "bool \<Rightarrow> pool_error \<Rightarrow> ('s, 'x, 'g) downstream \<Rightarrow> loop_control \<times> bool \<times> ('s, 'x, 'g) downstream" where
  "ds_handle_error_action cancelled e ds =
     (if cancelled then (LoopContinue, cancelled, ds)
      else (case pe_action e of
              PoolLog \<Rightarrow> (LoopContinue, cancelled, ds)
            | PoolDisconnect _ \<Rightarrow> (LoopBreak, cancelled, ds\<lparr>ds_cancelled := True\<rparr>)
            | PoolShutdown \<Rightarrow> (LoopBreak, True, ds)))"

section \<open>Negotiation of extensions\<close>

text \<open>
  The contract: a request is accepted when it names something the pool supports and everything the
  pool requires; what is then in force is the part of the request the pool supports.
\<close>

definition request_acceptable :: "('s, 'x, 'g) downstream \<Rightarrow> request_extensions \<Rightarrow> bool" where
  "request_acceptable ds msg =
     (set (rex_requested_extensions msg) \<inter> set (ds_supported_extensions ds) \<noteq> {} \<and>
      set (ds_required_extensions ds) \<subseteq> set (rex_requested_extensions msg))"

text \<open>
  A request for extensions is answered with exactly one frame.  An acceptable one puts the
  supported part of the request in force, in the order of the request, and the answer lists it.  Any
  other one changes nothing: the answer names what is unsupported and what is missing, and the
  connection is dropped just when a required extension is missing.
\<close>

theorem extension_negotiation:
  assumes "cv_send_ok env" and "\<forall>frame. cv_encode_ok env frame"
    and "\<forall>n. n \<le> max (length (rex_requested_extensions msg)) (length (ds_required_extensions (cn_downstream c)))
      \<longrightarrow> fits_seq064k (cv_limits env) n"
    and "\<not> lock_poisoned (ds_negotiated_extensions (cn_downstream c))"
    and "handle_request_extensions env msg c = (r, c')"
  shows "\<exists>frame. cn_frames c' = cn_frames c @ [frame] \<and>
    (if request_acceptable (cn_downstream c) msg
     then r = Ok () \<and> frame = RequestExtensionsSuccess (rex_request_id msg) (lock_value (ds_negotiated_extensions (cn_downstream c'))) \<and>
       lock_value (ds_negotiated_extensions (cn_downstream c')) =
         filter (\<lambda>ext. ext \<in> set (ds_supported_extensions (cn_downstream c))) (rex_requested_extensions msg)
     else cn_downstream c' = cn_downstream c \<and>
       (\<exists>unsupported missing. frame = RequestExtensionsError (rex_request_id msg) unsupported missing \<and>
          unsupported = filter (\<lambda>ext. ext \<notin> set (ds_supported_extensions (cn_downstream c))) (rex_requested_extensions msg) \<and>
          missing = filter (\<lambda>ext. ext \<notin> set (rex_requested_extensions msg)) (ds_required_extensions (cn_downstream c)) \<and>
          r = (if missing = [] then Ok () else Err (Raised (pool_disconnect
             (PkClientDoesNotSupportRequiredExtensions missing) (ds_downstream_id (cn_downstream c)))))))"
proof -
  let ?ds = "cn_downstream c"
  have acc: "(filter (\<lambda>ext. ext \<in> set (ds_supported_extensions ?ds)) (rex_requested_extensions msg) = [] \<or>
      filter (\<lambda>ext. ext \<notin> set (rex_requested_extensions msg)) (ds_required_extensions ?ds) \<noteq> []) =
      (\<not> request_acceptable ?ds msg)"
    by (auto simp: request_acceptable_def filter_empty_conv)
  have fits: "fits_seq064k (cv_limits env) (length (filter P (rex_requested_extensions msg)))"
    "fits_seq064k (cv_limits env) (length (filter P (ds_required_extensions ?ds)))" for P
    using assms(3) length_filter_le [of P] by (auto simp: le_max_iff_disj)
  show ?thesis
    using assms(1,2,4,5)
    by (auto simp: handle_request_extensions_def Let_def acc fits c_bind_def c_get_def c_return_def c_raise_def send_frame_def
        lock_run_def simp del: filter_empty_conv split: if_splits)
qed

definition sample_connection :: "(unit, unit, unit) connection" where
  "sample_connection = \<lparr>cn_downstream = \<lparr>ds_group_channel = lock_new (), ds_extended_channels = sm_new,
      ds_standard_channels = sm_new, ds_channel_id_factory = 2, ds_negotiated_extensions = lock_new [],
      ds_payout_mode = lock_new None, ds_downstream_id = 1, ds_requires_standard_jobs = False,
      ds_requires_custom_work = False, ds_supported_extensions = [2, 3], ds_required_extensions = [3],
      ds_cancelled = False\<rparr>, cn_frames = [], cn_to_manager = []\<rparr>"

definition sample_connection_env :: connection_env where
  "sample_connection_env = \<lparr>cv_message_types = sv2_message_types,
      cv_has_work_selection = (\<lambda>f. bit f 1), cv_has_requires_std_job = (\<lambda>f. bit f 0),
      cv_encode_ok = (\<lambda>_. True), cv_send_ok = True, cv_manager_send_ok = True, cv_limits = wire_limits\<rparr>"

theorem extension_negotiation_witness:
  "\<exists>c'. snd (handle_request_extensions sample_connection_env \<lparr>rex_request_id = 7, rex_requested_extensions = [9, 3]\<rparr>
      sample_connection) = c' \<and> cn_frames c' = [RequestExtensionsSuccess 7 [3]]"
proof -
  let ?msg = "\<lparr>rex_request_id = 7, rex_requested_extensions = [9, 3]\<rparr>"
  obtain r c' where e: "handle_request_extensions sample_connection_env ?msg sample_connection = (r, c')"
    by (metis prod.collapse)
  have s: "cv_send_ok sample_connection_env" "\<forall>frame. cv_encode_ok sample_connection_env frame"
    "\<forall>n. n \<le> max (length (rex_requested_extensions ?msg)) (length (ds_required_extensions (cn_downstream sample_connection)))
      \<longrightarrow> fits_seq064k (cv_limits sample_connection_env) n"
    "\<not> lock_poisoned (ds_negotiated_extensions (cn_downstream sample_connection))"
    by (simp_all add: sample_connection_env_def sample_connection_def wire_limits_def lock_new_def)
  have a: "request_acceptable (cn_downstream sample_connection) ?msg" "cn_frames sample_connection = []"
    "ds_supported_extensions (cn_downstream sample_connection) = [2, 3]"
    by (simp_all add: request_acceptable_def sample_connection_def)
  from extension_negotiation [OF s e] show ?thesis by (simp add: e a)
qed

end
