(* ===== verification/Pool_Loop.thy ===== *)
theory Pool_Loop
  imports Template_Handler Pool_Downstream
begin

text \<open>
  The running pool: the events of the channel manager's loop (\<open>ChannelManager::start\<close>), of the
  accept loop and of the connection tasks as steps of one state, the states they reach, and the
  invariant that ties the manager's maps together.
\<close>

section \<open>Steps\<close>

datatype pool_event =
    EvAccept
  | EvTemplate tdp_message
  | EvRefreshCancelled new_template
  | EvMining downstream_id mining_from_client
  | EvFeeTick
  | EvVardiffTick
  | EvConnectionClosed downstream_id
  | EvSetup downstream_id connection_env setup_connection
  | EvExtensions downstream_id connection_env request_extensions

text \<open>
  A handler's outcome in the loop: errors go to \<open>handle_error_action\<close>, a panic ends the task.
\<close>

definition loop_outcome ::
  "('r, fault) result \<times> ('s, 'x, 'g, 'v, 'e) channel_manager
    \<Rightarrow> loop_control \<times> ('s, 'x, 'g, 'v, 'e) channel_manager" where
  "loop_outcome = (\<lambda>(r, cm). case r of
     Inr _ \<Rightarrow> (LoopContinue, cm)
   | Inl Panic \<Rightarrow> (LoopBreak, cm)
   | Inl (Raised e) \<Rightarrow> (let (control, _, cm) = handle_error_action False e cm in (control, cm)))"

text \<open>An accepted connection that cannot be set up cancels the global token; a panic ends its own task.\<close>

definition accept_outcome ::
  "(downstream_id option, fault) result \<times> ('s, 'x, 'g, 'v, 'e) channel_manager
    \<Rightarrow> loop_control \<times> ('s, 'x, 'g, 'v, 'e) channel_manager" where
  "accept_outcome = (\<lambda>(r, cm). case r of
     Inr (Some _) \<Rightarrow> (LoopContinue, cm)
   | Inl Panic \<Rightarrow> (LoopContinue, cm)
   | _ \<Rightarrow> (LoopBreak, cm))"

text \<open>A connection task shares the connection's cells with the manager as long as it is registered.\<close>

definition on_connection ::
  "downstream_id \<Rightarrow> (('s, 'x, 'g) connection, unit) comp
    \<Rightarrow> ('s, 'x, 'g, 'v, 'e) channel_manager \<Rightarrow> ('s, 'x, 'g, 'v, 'e) channel_manager" where
  "on_connection d f cm = (case sm_get_cloned (cm_downstreams cm) d of
     None \<Rightarrow> cm
   | Some ds \<Rightarrow> (let c = snd (f \<lparr>cn_downstream = ds, cn_frames = [], cn_to_manager = []\<rparr>) in
       cm\<lparr>cm_downstreams := snd (sm_insert d (cn_downstream c) (cm_downstreams cm))\<rparr>))"

text \<open>
  The handlers of the loop are branches of one \<open>select\<close>: the branch that is ready first wins and the
  others are dropped where they stand.  A handler that waits can therefore be cancelled.  This
  matters for a new template whose handler waits for GridPool to follow the new tip: the message has
  left the queue, and nothing was changed yet.
\<close>

definition awaits_refresh :: "new_template \<Rightarrow> ('s, 'x, 'g, 'v, 'e) channel_manager \<Rightarrow> bool" where
  "awaits_refresh t cm = (nt_future_template t \<and> nt_template_id t \<noteq> 0 \<and> \<not> lock_poisoned (cm_last_future_template cm) \<and>
     lock_value (cm_last_future_template cm) \<noteq> None \<and> cm_gridpool cm \<noteq> None)"

definition pool_step ::
  "('s, 'x, 'g, 'v, 'p, 't, 'a, 'b, 'e) pool_lib \<Rightarrow> nat \<Rightarrow> (tdp_message \<Rightarrow> u16 \<times> u8) \<Rightarrow> ('v, 'p) pool_env
    \<Rightarrow> pool_event \<Rightarrow> ('s, 'x, 'g, 'v, 'e) channel_manager
    \<Rightarrow> loop_control \<times> ('s, 'x, 'g, 'v, 'e) channel_manager" where
  "pool_step lib full_extranonce_size message_type env ev cm = (case ev of
     EvAccept \<Rightarrow> accept_outcome (cm_accept_downstream (pl_group lib) full_extranonce_size cm)
   | EvTemplate m \<Rightarrow> loop_outcome (handle_template_message lib message_type env m cm)
   | EvRefreshCancelled t \<Rightarrow>
       if awaits_refresh t cm then (LoopContinue, cm)
       else loop_outcome (handle_template_message lib message_type env (NewTemplate t) cm)
   | EvMining d m \<Rightarrow> loop_outcome (handle_mining_message lib env d m cm)
   | EvFeeTick \<Rightarrow> (LoopContinue, snd (refresh_gridpool_fee_jobs lib env cm))
   | EvVardiffTick \<Rightarrow> (LoopContinue, run_vardiff lib env cm)
   | EvConnectionClosed d \<Rightarrow> (LoopContinue, remove_downstream d cm)
   | EvSetup d cenv m \<Rightarrow> (LoopContinue, on_connection d (handle_setup_connection cenv m) cm)
   | EvExtensions d cenv m \<Rightarrow> (LoopContinue, on_connection d (handle_request_extensions cenv m) cm))"

inductive pool_reach ::
  "('s, 'x, 'g, 'v, 'p, 't, 'a, 'b, 'e) pool_lib \<Rightarrow> ('s, 'x, 'g, 'v, 'e) channel_manager \<Rightarrow> bool"
  for lib where
  reach_new: "channel_manager_new (pl_gridpool lib) alloc cenv config outs jd = Ok cm
    \<Longrightarrow> cm_start lib env couts cm = (Ok (), cm') \<Longrightarrow> pool_reach lib cm'"
| reach_step: "pool_reach lib cm
    \<Longrightarrow> pool_step lib full_size message_type env ev cm = (LoopContinue, cm') \<Longrightarrow> pool_reach lib cm'"

section \<open>Invariant\<close>

definition ds_channels :: "('s, 'x, 'g) downstream \<Rightarrow> channel_id set" where
  "ds_channels ds = sm_dom (ds_standard_channels ds) \<union> sm_dom (ds_extended_channels ds)"

definition tracked :: "('s, 'x, 'g, 'v, 'e) channel_manager \<Rightarrow> downstream_id \<times> channel_id \<Rightarrow> bool" where
  "tracked cm k = (k \<in> sm_dom (cm_vardiff cm) \<and>
     (cm_gridpool cm \<noteq> None \<longrightarrow> k \<in> sm_dom (cm_gridpool_channels cm)))"

text \<open>
  The maps have distinct keys; the connections with a sender are the registered ones and older
  than the next identifier; vardiff and payout entries belong to registered connections; every
  open channel has a vardiff entry and, in GridPool mode, a payout.
\<close>

definition cm_inv :: "('s, 'x, 'g, 'v, 'e) channel_manager \<Rightarrow> bool" where
  "cm_inv cm =
     (sm_invar (cm_downstreams cm) \<and> sm_invar (cm_vardiff cm) \<and> sm_invar (cm_gridpool_channels cm) \<and>
      sm_invar (cm_downstream_sender cm) \<and>
      sm_dom (cm_downstream_sender cm) = sm_dom (cm_downstreams cm) \<and>
      (\<forall>d \<in> sm_dom (cm_downstreams cm). d < cm_downstream_id_factory cm) \<and>
      (\<forall>k \<in> sm_dom (cm_vardiff cm) \<union> sm_dom (cm_gridpool_channels cm). fst k \<in> sm_dom (cm_downstreams cm)) \<and>
      (\<forall>d ds. map_of (cm_downstreams cm) d = Some ds \<longrightarrow> (\<forall>c \<in> ds_channels ds. tracked cm (d, c))))"

section \<open>Shapes\<close>

text \<open>
  The part of the state the invariant reads: keys, not values.  Most steps keep it.
\<close>

definition ds_shape :: "('s, 'x, 'g) downstream \<Rightarrow> channel_id list \<times> channel_id list" where
  "ds_shape ds = (map fst (ds_standard_channels ds), map fst (ds_extended_channels ds))"

definition cm_shape where
  "cm_shape cm = (map (\<lambda>(d, ds). (d, ds_shape ds)) (cm_downstreams cm), map fst (cm_vardiff cm),
     map fst (cm_gridpool_channels cm), map fst (cm_downstream_sender cm),
     cm_gridpool cm = None, cm_downstream_id_factory cm)"

lemma sm_dom_keys: "sm_dom m = set (map fst m)"
  by (simp add: sm_dom_def sm_keys_def)

lemma ds_channels_shape: "ds_channels ds = set (fst (ds_shape ds)) \<union> set (snd (ds_shape ds))"
  by (simp add: ds_channels_def ds_shape_def sm_dom_keys)

lemma cm_inv_shape:
  assumes "cm_shape cm' = cm_shape cm" and "cm_inv cm"
  shows "cm_inv cm'"
proof -
  have ds: "map (\<lambda>(d, ds). (d, ds_shape ds)) (cm_downstreams cm') = map (\<lambda>(d, ds). (d, ds_shape ds)) (cm_downstreams cm)"
    and keys: "map fst (cm_vardiff cm') = map fst (cm_vardiff cm)"
      "map fst (cm_gridpool_channels cm') = map fst (cm_gridpool_channels cm)"
      "map fst (cm_downstream_sender cm') = map fst (cm_downstream_sender cm)"
      "(cm_gridpool cm' = None) = (cm_gridpool cm = None)"
      "cm_downstream_id_factory cm' = cm_downstream_id_factory cm"
    using assms(1) by (auto simp: cm_shape_def)
  have dk: "map fst (cm_downstreams cm') = map fst (cm_downstreams cm)"
    using arg_cong [OF ds, of "map fst"] by (simp add: comp_def case_prod_unfold)
  have shape: "map_option ds_shape (map_of (cm_downstreams cm') d) = map_option ds_shape (map_of (cm_downstreams cm) d)" for d
    using arg_cong [OF ds, of "\<lambda>m. map_of m d"] by (simp add: map_of_map)
  have "\<exists>ds. map_of (cm_downstreams cm) d = Some ds \<and> ds_channels ds = ds_channels ds'"
    if "map_of (cm_downstreams cm') d = Some ds'" for d ds'
    using shape [of d] that by (cases "map_of (cm_downstreams cm) d") (auto simp: ds_channels_shape)
  then show ?thesis
    using assms(2) dk keys unfolding cm_inv_def tracked_def sm_invar_def sm_dom_keys by metis
qed

lemma update_keeps_map:
  "map_of m k = Some v \<Longrightarrow> g v' = g v \<Longrightarrow> map (\<lambda>(k, v). (k, g v)) (AList.update k v' m) = map (\<lambda>(k, v). (k, g v)) m"
  by (induction m) (auto split: if_splits)

lemma update_keeps_keys: "map_of m k = Some v \<Longrightarrow> map fst (AList.update k v' m) = map fst m"
  by (induction m) (auto split: if_splits)

lemma shape_update_ds [simp]:
  assumes "map_of (cm_downstreams cm) d = Some ds" "ds_shape ds' = ds_shape ds"
  shows "cm_shape (cm\<lparr>cm_downstreams := AList.update d ds' (cm_downstreams cm)\<rparr>) = cm_shape cm"
  using assms by (simp add: cm_shape_def update_keeps_map [where g = ds_shape])

lemma shape_forward [simp]: "cm_shape (snd (forward env m cm)) = cm_shape cm"
  by (cases m) (simp_all add: forward_def cm_shape_def)

lemma shape_forward_each [simp]: "cm_shape (forward_each env ms cm) = cm_shape cm"
  by (induction env ms cm rule: forward_each.induct) simp_all

lemma shape_forward_all [simp]: "cm_shape (snd (forward_all env ms cm)) = cm_shape cm"
proof (induction ms arbitrary: cm)
  case (Cons m ms)
  have "cm_shape (snd (forward env m cm)) = cm_shape cm" by simp
  with Cons show ?case
    by (cases "forward env m cm") (auto simp: c_bind_def c_call_def map_err_def split: sum.splits)
qed (simp add: c_return_def)

lemma shape_each_channel:
  "ds_shape (snd (snd (each_channel f g ms ds))) = ds_shape ds"
  using try_for_each_mut_keys [of f ms "ds_standard_channels ds"]
    try_for_each_mut_keys [of g _ "ds_extended_channels ds"]
  by (auto simp: each_channel_def ds_shape_def split: prod.splits sum.splits) (metis snd_conv)+

lemma shape_on_group [simp]: "ds_shape (snd (on_group_channel f ds)) = ds_shape ds"
  by (simp add: on_group_channel_def ds_shape_def split: prod.splits)

lemma try_for_each_mut_map:
  assumes "\<And>s k v. g (snd (snd (f s k v))) = g v"
  shows "map (\<lambda>(k, v). (k, g v)) (snd (snd (sm_try_for_each_mut f s m))) = map (\<lambda>(k, v). (k, g v)) m"
proof (induction m arbitrary: s)
  case (Cons a m)
  obtain k v where a: "a = (k, v)" by (cases a)
  obtain r s' v' where f: "f s k v = (r, s', v')" by (metis prod.collapse)
  have g: "g v' = g v" using assms [of s k v] by (simp add: f)
  obtain q t m' where m: "sm_try_for_each_mut f s' m = (q, t, m')" by (metis prod.collapse)
  show ?case using Cons [of s'] by (cases r) (simp_all add: a f g m)
qed simp

lemma shape_each_downstream:
  assumes "\<And>ms d ds. ds_shape (snd (snd (f ms d ds))) = ds_shape ds"
  shows "cm_shape (snd (each_downstream f ms cm)) = cm_shape cm"
proof -
  obtain r ms' m where e: "sm_try_for_each_mut f ms (cm_downstreams cm) = (r, ms', m)" by (metis prod.collapse)
  have "map (\<lambda>(d, ds). (d, ds_shape ds)) m = map (\<lambda>(d, ds). (d, ds_shape ds)) (cm_downstreams cm)"
    using try_for_each_mut_map [of ds_shape f ms "cm_downstreams cm", OF assms] by (simp add: e)
  then show ?thesis by (cases r) (simp_all add: each_downstream_def e cm_shape_def)
qed

section \<open>Steps that keep the shape\<close>

definition keeps_shape :: "(('s, 'x, 'g, 'v, 'e) channel_manager, 'r) comp \<Rightarrow> bool" where
  "keeps_shape m = (\<forall>cm. cm_shape (snd (m cm)) = cm_shape cm)"

named_theorems shape_rules \<open>computations that keep the shape of the manager\<close>

lemma keeps_basic [shape_rules]:
  "keeps_shape (c_return x)" "keeps_shape (c_raise e)" "keeps_shape c_panic" "keeps_shape (c_get f)"
  "keeps_shape (c_try r)" "keeps_shape (c_result q)" "keeps_shape (c_lock_get l)"
  by (simp_all add: keeps_shape_def c_return_def c_raise_def c_panic_def c_get_def c_try_def
      c_result_def c_lock_get_def)

lemma keeps_bind [shape_rules]:
  "keeps_shape m \<Longrightarrow> (\<And>x. keeps_shape (f x)) \<Longrightarrow> keeps_shape (c_bind m f)"
  unfolding keeps_shape_def
proof
  fix cm
  assume m: "\<forall>cm. cm_shape (snd (m cm)) = cm_shape cm" and f: "\<And>x. \<forall>cm. cm_shape (snd (f x cm)) = cm_shape cm"
  obtain r cm' where r: "m cm = (r, cm')" by (cases "m cm")
  then have "cm_shape cm' = cm_shape cm" using m by (metis snd_conv)
  then show "cm_shape (snd (c_bind m f cm)) = cm_shape cm" using f by (cases r) (simp_all add: c_bind_def r)
qed

lemma keepsD: "keeps_shape m \<Longrightarrow> cm_shape (snd (m cm)) = cm_shape cm"
  by (simp add: keeps_shape_def)

lemma keeps_if [shape_rules]: "keeps_shape m \<Longrightarrow> keeps_shape n \<Longrightarrow> keeps_shape (if b then m else n)"
  by simp

lemma keeps_case_option [shape_rules]:
  "keeps_shape m \<Longrightarrow> (\<And>x. keeps_shape (f x)) \<Longrightarrow> keeps_shape (case y of None \<Rightarrow> m | Some x \<Rightarrow> f x)"
  by (cases y) simp_all

lemma keeps_let [shape_rules]: "keeps_shape (f x) \<Longrightarrow> keeps_shape (let y = x in f y)"
  by simp

lemma keeps_call_forward [shape_rules]: "keeps_shape (c_call h (forward env m))"
  unfolding keeps_shape_def c_call_def by (simp add: Let_def case_prod_unfold)

lemma keeps_forward_each [shape_rules]: "keeps_shape (c_modify (forward_each env ms))"
  by (simp add: keeps_shape_def c_modify_def)

lemma keeps_forward_all [shape_rules]: "keeps_shape (forward_all env ms)"
  by (simp add: keeps_shape_def)

lemma keeps_on_downstream [shape_rules]:
  assumes "\<And>ds. ds_shape (snd (f ds)) = ds_shape ds"
  shows "keeps_shape (on_downstream d f)"
  unfolding keeps_shape_def
proof
  fix cm
  show "cm_shape (snd (on_downstream d f cm)) = cm_shape cm"
    using assms by (cases "map_of (cm_downstreams cm) d")
      (simp_all add: on_downstream_def sm_get_cloned_def c_raise_def Let_def case_prod_unfold)
qed

lemma keeps_with_registered [shape_rules]:
  "(\<And>ds. keeps_shape (f ds)) \<Longrightarrow> keeps_shape (with_registered_downstream d f)"
  by (auto simp: keeps_shape_def with_registered_downstream_def c_raise_def split: option.splits)

lemma keeps_each_downstream [shape_rules]:
  "(\<And>ms d ds. ds_shape (snd (snd (f ms d ds))) = ds_shape ds) \<Longrightarrow> keeps_shape (each_downstream f ms)"
  unfolding keeps_shape_def by (intro allI shape_each_downstream)

lemma shape_cm_start: "cm_shape (snd (cm_start lib env outs cm)) = cm_shape cm"
  unfolding cm_start_def cm_coinbase_output_constraints_def by (rule keepsD, intro shape_rules)

lemma shape_refresh_fee_jobs: "cm_shape (snd (refresh_gridpool_fee_jobs lib env cm)) = cm_shape cm"
proof (cases "cm_gridpool cm")
  case (Some g)
  show ?thesis unfolding refresh_gridpool_fee_jobs_def Some option.case
    by (rule keepsD, intro shape_rules shape_each_channel)
qed (simp add: refresh_gridpool_fee_jobs_def c_return_def)

lemma shape_prev_hash_on_downstream: "ds_shape (snd (snd (prev_hash_on_downstream lib msg ms d ds))) = ds_shape ds"
proof -
  obtain r ds' where g: "on_group_channel (prev_hash_on_group (pl_group lib) d (ds_requires_standard_jobs ds) msg) ds = (r, ds')"
    by (metis prod.collapse)
  then have ds': "ds_shape ds' = ds_shape ds" using shape_on_group by (metis snd_conv)
  show ?thesis
  proof (cases r)
    case (Inr gms)
    obtain q ms' m where x: "sm_try_for_each_mut (collect (prev_hash_on_extended (pl_extended lib) msg)) (ms @ gms)
        (ds_extended_channels ds') = (q, ms', m)" by (metis prod.collapse)
    obtain q' ms'' m' where y: "sm_try_for_each_mut (collect (prev_hash_on_standard (pl_standard lib) d
        (ds_requires_standard_jobs ds) msg)) ms' (ds_standard_channels ds') = (q', ms'', m')" by (metis prod.collapse)
    have "map fst m = map fst (ds_extended_channels ds')" "map fst m' = map fst (ds_standard_channels ds')"
      using try_for_each_mut_keys x y by (metis snd_conv)+
    then show ?thesis using ds' Inr by (cases q) (simp_all add: prev_hash_on_downstream_def g x y ds_shape_def)
  qed (use ds' in \<open>simp add: prev_hash_on_downstream_def g\<close>)
qed

lemma shape_new_template_on_downstream:
  "ds_shape (snd (snd (new_template_on_downstream lib now gp payouts script msg outs ms d ds))) = ds_shape ds"
proof (cases "ds_requires_custom_work ds \<or> lock_poisoned (ds_payout_mode ds)")
  case True
  then show ?thesis by (auto simp: new_template_on_downstream_def c_lock_get_def c_try_def lock_get_def)
next
  case False
  let ?o = "downstream_coinbase_outputs script (nt_coinbase_tx_value_remaining msg) outs (lock_value (ds_payout_mode ds))"
  obtain r ds' where g: "on_group_channel (new_template_on_group (pl_group lib) d (ds_requires_standard_jobs ds)
      (gp \<noteq> None) msg ?o) ds = (r, ds')" by (metis prod.collapse)
  then have "ds_shape ds' = ds_shape ds" using shape_on_group by (metis snd_conv)
  with False show ?thesis
    by (cases r) (auto simp: new_template_on_downstream_def c_lock_get_def c_try_def lock_get_def Let_def g
        shape_each_channel simp del: not_None_eq)
qed

lemma keeps_set_new_prev_hash: "keeps_shape (handle_set_new_prev_hash lib env msg)"
  unfolding handle_set_new_prev_hash_def
  by (intro shape_rules shape_prev_hash_on_downstream)
    (simp add: keeps_shape_def cm_shape_def Let_def case_prod_unfold)

lemma keeps_new_template: "keeps_shape (handle_new_template lib env msg)"
proof -
  have "keeps_shape (refresh_gridpool_for_tip env)"
    by (auto simp: keeps_shape_def refresh_gridpool_for_tip_def cm_shape_def Let_def case_prod_unfold split: option.splits)
  moreover have "keeps_shape (set_last_future_template msg)"
    by (simp add: keeps_shape_def set_last_future_template_def cm_shape_def Let_def case_prod_unfold)
  moreover have "keeps_shape (\<lambda>cm. each_downstream (new_template_on_downstream lib (pv_now env) (cm_gridpool cm)
       (cm_gridpool_channels cm) (cm_coinbase_reward_script cm) msg outs) [] cm)" for outs
    unfolding keeps_shape_def by (intro allI shape_each_downstream shape_new_template_on_downstream)
  ultimately show ?thesis
    unfolding handle_new_template_def
    by (intro shape_rules) (auto intro!: shape_rules simp: Let_def split: list.splits)
qed

lemma keeps_template_message: "keeps_shape (handle_template_message lib mt env m)"
  by (auto simp: handle_template_message_def intro!: keeps_new_template keeps_set_new_prev_hash shape_rules
      split: tdp_message.splits)

lemma shape_commit_share:
  assumes "map_of (cm_downstreams cm) d = Some ds" "ds_shape ds' = ds_shape ds" "(g = None) = (cm_gridpool cm = None)"
  shows "cm_shape (commit_share vd d c g proofs ds' cm) = cm_shape cm"
  using assms by (simp add: cm_shape_def commit_share_def update_keeps_map [where g = ds_shape] sm_with_mut_keys)

lemma accept_share_gridpool:
  "(fst (accept_share lib env d c tgt outs h blk build payout g) = None) = (g = None)"
  by (auto simp: accept_share_def Let_def split: option.splits prod.splits)

lemma reject_telemetry_gridpool: "(reject_telemetry env c payout g = None) = (g = None)"
  by (auto simp: reject_telemetry_def split: option.splits)

lemma submit_standard_share_gridpool:
  "(fst (snd (submit_standard_share lib env tag d msg payout g ch)) = None) = (g = None)"
  by (auto simp: accept_share_gridpool reject_telemetry_gridpool submit_standard_share_def Let_def case_prod_unfold split: sum.splits share_validation_result.splits)

lemma submit_extended_share_gridpool:
  "(fst (snd (submit_extended_share lib env d msg payout g ch)) = None) = (g = None)"
  by (auto simp: accept_share_gridpool reject_telemetry_gridpool submit_extended_share_def Let_def case_prod_unfold split: sum.splits share_validation_result.splits)

lemma shape_submit_standard:
  assumes "map_of (cm_downstreams cm) d = Some ds"
  shows "cm_shape (snd (submit_standard lib env d msg ds cm)) = cm_shape cm"
proof (cases "map_of (ds_standard_channels ds) (sss_channel_id msg)")
  case (Some ch)
  let ?r = "submit_standard_share lib env (cm_pool_tag_string cm) d msg
     (sm_get_cloned (cm_gridpool_channels cm) (d, sss_channel_id msg)) (cm_gridpool cm) ch"
  have g: "(fst (snd ?r) = None) = (cm_gridpool cm = None)" by (rule submit_standard_share_gridpool)
  show ?thesis
    using assms Some g
    by (auto simp: submit_standard_def sm_get_cloned_def Let_def case_prod_unfold ds_shape_def update_keeps_keys
        intro!: shape_commit_share)
qed (simp add: submit_standard_def sm_get_cloned_def)

lemma shape_submit_extended:
  assumes "map_of (cm_downstreams cm) d = Some ds"
  shows "cm_shape (snd (submit_extended lib env d msg ds cm)) = cm_shape cm"
proof (cases "map_of (ds_extended_channels ds) (sse_channel_id msg)")
  case (Some ch)
  let ?r = "submit_extended_share lib env d msg
     (sm_get_cloned (cm_gridpool_channels cm) (d, sse_channel_id msg)) (cm_gridpool cm) ch"
  have g: "(fst (snd ?r) = None) = (cm_gridpool cm = None)" by (rule submit_extended_share_gridpool)
  show ?thesis
    using assms Some g
    by (auto simp: submit_extended_def sm_get_cloned_def Let_def case_prod_unfold ds_shape_def update_keeps_keys
        intro!: shape_commit_share)
qed (simp add: submit_extended_def sm_get_cloned_def)

lemma keeps_registered:
  assumes "\<And>cm ds. map_of (cm_downstreams cm) d = Some ds \<Longrightarrow> cm_shape (snd (f ds cm)) = cm_shape cm"
  shows "keeps_shape (with_registered_downstream d f)"
  using assms by (auto simp: keeps_shape_def with_registered_downstream_def sm_get_cloned_def c_raise_def split: option.splits)

lemma keeps_submit_standard: "keeps_shape (handle_submit_shares_standard lib env d msg)"
  unfolding handle_submit_shares_standard_def
  by (intro keeps_bind keeps_registered shape_submit_standard shape_rules)

lemma keeps_submit_extended: "keeps_shape (handle_submit_shares_extended lib env d msg)"
  unfolding handle_submit_shares_extended_def
  by (intro keeps_bind keeps_registered shape_submit_extended shape_rules)

lemma shape_update_on_downstream: "ds_shape (snd (update_on_downstream sapi xapi d msg ds)) = ds_shape ds"
  by (auto simp: update_on_downstream_def ds_shape_def sm_get_cloned_def Let_def case_prod_unfold update_keeps_keys
      split: option.splits)

lemma shape_commit_custom_job: "ds_shape (snd (commit_custom_job api d msg ds)) = ds_shape ds"
  by (auto simp: commit_custom_job_def ds_shape_def sm_get_cloned_def Let_def case_prod_unfold update_keeps_keys
      split: option.splits sum.splits)

lemma keeps_update_channel: "keeps_shape (handle_update_channel lib env d msg)"
  unfolding handle_update_channel_def by (intro shape_rules shape_update_on_downstream)

lemma keeps_set_job_declarator [shape_rules]: "keeps_shape (c_modify (\<lambda>cm. cm\<lparr>cm_job_declarator := jd\<rparr>))"
  by (simp add: keeps_shape_def c_modify_def cm_shape_def)

lemma keeps_set_custom: "keeps_shape (handle_set_custom_mining_job lib env d msg)"
  unfolding handle_set_custom_mining_job_def Let_def
  by (intro shape_rules) (auto intro!: shape_rules shape_commit_custom_job
      split: option.splits prod.splits set_custom_mining_job_response.splits)

section \<open>Steps that change it\<close>

definition fault_ok :: "fault \<Rightarrow> ('s, 'x, 'g, 'v, 'e) channel_manager \<Rightarrow> bool" where
  "fault_ok f cm = (case f of
     Panic \<Rightarrow> True
   | Raised e \<Rightarrow> (case pe_action e of
       PoolLog \<Rightarrow> cm_inv cm | PoolDisconnect d \<Rightarrow> cm_inv (remove_downstream d cm) | PoolShutdown \<Rightarrow> True))"

lemma sm_dom_retain_fst: "sm_dom (sm_retain (\<lambda>k _. P k) m) = {k \<in> sm_dom m. P k}"
  by (auto simp: sm_dom_keys sm_retain_def)

lemma cm_inv_remove: "cm_inv cm \<Longrightarrow> cm_inv (remove_downstream d cm)"
  by (auto simp: cm_inv_def remove_downstream_def tracked_def sm_dom_retain_fst)

lemma fault_okI: "cm_inv cm \<Longrightarrow> fault_ok f cm"
  by (auto simp: fault_ok_def cm_inv_remove split: fault.split pool_action.split)

lemma fault_ok_simps [simp]:
  "fault_ok Panic cm"
  "fault_ok (Raised (pool_shutdown k)) cm"
  by (simp_all add: fault_ok_def)

lemma wp_keeps:
  assumes "keeps_shape m" "cm_inv cm"
  shows "c_wp m (\<lambda>_. cm_inv) fault_ok cm"
  using cm_inv_shape [OF keepsD [OF assms(1)] assms(2)] fault_okI
  by (auto simp: c_wp_def split: prod.splits sum.splits)

lemma loop_outcome_inv:
  assumes "c_wp m (\<lambda>_. cm_inv) fault_ok cm" "loop_outcome (m cm) = (LoopContinue, cm')"
  shows "cm_inv cm'"
  using assms by (auto simp: c_wp_def loop_outcome_def fault_ok_def handle_error_action_def
      split: prod.splits sum.splits fault.splits pool_action.splits)

lemma cm_inv_close:
  assumes "cm_inv cm" "map_of (cm_downstreams cm) d = Some ds"
    and "ds_standard_channels ds' = AList.delete c (ds_standard_channels ds)"
    and "ds_extended_channels ds' = AList.delete c (ds_extended_channels ds)"
  shows "cm_inv (cm\<lparr>cm_downstreams := AList.update d ds' (cm_downstreams cm),
      cm_vardiff := AList.delete (d, c) (cm_vardiff cm),
      cm_gridpool_channels := AList.delete (d, c) (cm_gridpool_channels cm)\<rparr>)"
proof -
  have "ds_channels ds' = ds_channels ds - {c}" using assms(3,4) by (auto simp: ds_channels_def)
  moreover have "d \<in> sm_dom (cm_downstreams cm)" using assms(2) by (simp add: sm_dom_iff)
  ultimately show ?thesis using assms(1,2) by (auto simp: cm_inv_def tracked_def split: if_splits)
qed

lemma wp_handle_close_channel:
  assumes "cm_inv cm"
  shows "c_wp (handle_close_channel api d c) (\<lambda>_. cm_inv) fault_ok cm"
proof (cases "map_of (cm_downstreams cm) d")
  case (Some ds)
  have "cm_inv (cm\<lparr>cm_downstreams := AList.update d (ds\<lparr>ds_group_channel := l,
      ds_standard_channels := AList.delete c (ds_standard_channels ds),
      ds_extended_channels := AList.delete c (ds_extended_channels ds)\<rparr>) (cm_downstreams cm),
      cm_vardiff := AList.delete (d, c) (cm_vardiff cm),
      cm_gridpool_channels := AList.delete (d, c) (cm_gridpool_channels cm)\<rparr>)" for l
    by (rule cm_inv_close [OF assms Some]) simp_all
  then show ?thesis by (simp add: handle_close_channel_def wp_rules Some)
qed (simp add: handle_close_channel_def wp_rules fault_okI assms)

lemma cm_inv_update_ds:
  assumes "cm_inv cm" "map_of (cm_downstreams cm) d = Some ds" "ds_shape ds' = ds_shape ds"
  shows "cm_inv (cm\<lparr>cm_downstreams := AList.update d ds' (cm_downstreams cm)\<rparr>)"
  using cm_inv_shape [OF shape_update_ds [OF assms(2,3)] assms(1)] .

text \<open>A state in which channel \<open>c\<close> of connection \<open>d\<close> may be open without a vardiff entry.\<close>

definition half_open :: "downstream_id \<Rightarrow> channel_id \<Rightarrow> ('s, 'x, 'g, 'v, 'e) channel_manager \<Rightarrow> bool" where
  "half_open d c cm = (\<forall>v. cm_inv (cm\<lparr>cm_vardiff := AList.update (d, c) v (cm_vardiff cm)\<rparr>))"

lemma wp_insert_vardiff:
  "half_open d c cm \<Longrightarrow> c_wp (insert_vardiff env d c) (\<lambda>_. cm_inv) fault_ok cm"
  by (auto simp: insert_vardiff_def wp_rules half_open_def map_err_def split: sum.splits)

lemma half_open_insert:
  assumes "cm_inv cm" "map_of (cm_downstreams cm) d = Some ds" "ds_channels ds' \<subseteq> insert c (ds_channels ds)"
    and "cm_gridpool cm \<noteq> None \<Longrightarrow> (d, c) \<in> sm_dom (cm_gridpool_channels cm)"
  shows "half_open d c (cm\<lparr>cm_downstreams := AList.update d ds' (cm_downstreams cm)\<rparr>)"
proof -
  have "d \<in> sm_dom (cm_downstreams cm)" using assms(2) by (simp add: sm_dom_iff)
  then show ?thesis
    using assms by (auto simp: half_open_def cm_inv_def tracked_def split: if_splits)
qed

lemma half_open_update_ds:
  assumes "half_open d c cm" "map_of (cm_downstreams cm) d = Some ds" "ds_shape ds' = ds_shape ds"
  shows "half_open d c (cm\<lparr>cm_downstreams := AList.update d ds' (cm_downstreams cm)\<rparr>)"
  unfolding half_open_def
proof
  fix v
  let ?cm = "cm\<lparr>cm_vardiff := AList.update (d, c) v (cm_vardiff cm)\<rparr>"
  have "cm_inv ?cm" using assms(1) by (simp add: half_open_def)
  then have "cm_inv (?cm\<lparr>cm_downstreams := AList.update d ds' (cm_downstreams ?cm)\<rparr>)"
    using assms(2,3) by (intro cm_inv_update_ds) simp_all
  then show "cm_inv ((cm\<lparr>cm_downstreams := AList.update d ds' (cm_downstreams cm)\<rparr>)
      \<lparr>cm_vardiff := AList.update (d, c) v (cm_vardiff (cm\<lparr>cm_downstreams := AList.update d ds' (cm_downstreams cm)\<rparr>))\<rparr>)"
    by (cases cm) simp
qed

lemma cm_inv_insert_payout:
  assumes "cm_inv cm" "map_of (cm_downstreams cm) d = Some ds"
  shows "cm_inv (cm\<lparr>cm_gridpool_channels := AList.update (d, c) p (cm_gridpool_channels cm)\<rparr>)"
proof -
  have "d \<in> sm_dom (cm_downstreams cm)" using assms(2) by (simp add: sm_dom_iff)
  then show ?thesis using assms(1) by (auto simp: cm_inv_def tracked_def)
qed

text \<open>Once the payout is entered, opening a channel is safe whatever the libraries answer.\<close>

lemma wp_on_downstream_keeps:
  assumes "cm_inv cm" "map_of (cm_downstreams cm) d = Some ds"
    and "\<And>ds. ds_shape (snd (f ds)) = ds_shape ds"
    and "\<And>x cm' ds'. cm_inv cm' \<Longrightarrow> map_of (cm_downstreams cm') d = Some ds' \<Longrightarrow>
           cm_gridpool cm' = cm_gridpool cm \<Longrightarrow> cm_gridpool_channels cm' = cm_gridpool_channels cm \<Longrightarrow>
           c_wp (k x) (\<lambda>_. cm_inv) fault_ok cm'"
  shows "c_wp (c_bind (on_downstream d f) k) (\<lambda>_. cm_inv) fault_ok cm"
proof -
  obtain r ds' where f: "f ds = (r, ds')" by (cases "f ds")
  have "ds_shape ds' = ds_shape ds" using assms(3) [of ds] by (simp add: f)
  then have "cm_inv (cm\<lparr>cm_downstreams := AList.update d ds' (cm_downstreams cm)\<rparr>)"
    by (rule cm_inv_update_ds [OF assms(1,2)])
  then show ?thesis
    using assms(2,4) by (cases r) (simp_all add: wp_rules c_wp_def [of f] f fault_okI)
qed

lemma wp_half_open_group:
  assumes "half_open d c cm" "map_of (cm_downstreams cm) d = Some ds"
  shows "c_wp (c_bind (on_downstream d (on_group_channel (c_call (\<lambda>e. pool_shutdown (h e)) op)))
      (\<lambda>_. c_bind (insert_vardiff env d c) (\<lambda>_. c_return x))) (\<lambda>_. cm_inv) fault_ok cm"
proof -
  have "half_open d c (cm\<lparr>cm_downstreams := AList.update d (ds\<lparr>ds_group_channel := l\<rparr>) (cm_downstreams cm)\<rparr>)" for l
    using assms by (rule half_open_update_ds) (simp add: ds_shape_def)
  then show ?thesis
    using assms(2) by (auto simp: wp_rules split: prod.splits sum.splits intro: wp_insert_vardiff)
qed

lemma wp_half_open_done:
  "half_open d c cm \<Longrightarrow> c_wp (c_bind (insert_vardiff env d c) (\<lambda>_. c_return x)) (\<lambda>_. cm_inv) fault_ok cm"
  by (simp add: wp_rules wp_insert_vardiff)

text \<open>The steps both kinds of channel begin with: the payout is entered, the group is read.\<close>

lemma wp_enter_payout:
  assumes "cm_inv cm" "map_of (cm_downstreams cm) d = Some ds" "cm_gridpool cm \<noteq> None \<Longrightarrow> payout \<noteq> None"
    and "\<And>gid cm' ds'. cm_inv cm' \<Longrightarrow> map_of (cm_downstreams cm') d = Some ds' \<Longrightarrow>
      (cm_gridpool cm' \<noteq> None \<longrightarrow> (d, c) \<in> sm_dom (cm_gridpool_channels cm')) \<Longrightarrow>
      c_wp (k gid) (\<lambda>_. cm_inv) fault_ok cm'"
  shows "c_wp (c_bind (insert_channel_payout d c payout) (\<lambda>_.
      c_bind (on_downstream d (on_group_channel (c_get h))) k)) (\<lambda>_. cm_inv) fault_ok cm"
proof -
  let ?cm = "case payout of None \<Rightarrow> cm
    | Some q \<Rightarrow> cm\<lparr>cm_gridpool_channels := snd (sm_insert (d, c) q (cm_gridpool_channels cm))\<rparr>"
  have inv: "cm_inv ?cm" using assms(1) cm_inv_insert_payout [OF assms(1,2)] by (cases payout) simp_all
  have ds: "map_of (cm_downstreams ?cm) d = Some ds" using assms(2) by (cases payout) simp_all
  have "cm_gridpool ?cm \<noteq> None \<Longrightarrow> (d, c) \<in> sm_dom (cm_gridpool_channels ?cm)"
    using assms(3) by (cases payout) auto
  then have "c_wp (c_bind (on_downstream d (on_group_channel (c_get h))) k) (\<lambda>_. cm_inv) fault_ok ?cm"
    by (intro wp_on_downstream_keeps [OF inv ds] assms(4)) simp_all
  then show ?thesis by (simp add: insert_channel_payout_def wp_bind [of "c_modify _"] wp_modify)
qed

lemma wp_open_standard_register:
  assumes "cm_inv cm" "map_of (cm_downstreams cm) d = Some ds" "cm_gridpool cm \<noteq> None \<Longrightarrow> payout \<noteq> None"
  shows "c_wp (open_standard_register lib env d std rid t p outs payout c ch) (\<lambda>_. cm_inv) fault_ok cm"
proof -
  obtain r ch' where jobs: "open_standard_jobs (pl_standard lib) d c t p outs ch = (r, ch')"
    by (cases "open_standard_jobs (pl_standard lib) d c t p outs ch")
  have fin: "c_wp (c_bind (on_downstream d (c_modify (\<lambda>ds.
             ds\<lparr>ds_standard_channels := snd (sm_insert c ch' (ds_standard_channels ds))\<rparr>))) (\<lambda>_.
          c_bind (if std then c_return ()
                  else on_downstream d (on_group_channel
                    (c_call (\<lambda>e. pool_shutdown (PkChannelSv2 (GroupChannelServerSide e))) op))) (\<lambda>_.
          c_bind (insert_vardiff env d c) (\<lambda>_. c_return x)))) (\<lambda>_. cm_inv) fault_ok cm'"
    if "cm_inv cm'" "map_of (cm_downstreams cm') d = Some ds'"
      "cm_gridpool cm' \<noteq> None \<longrightarrow> (d, c) \<in> sm_dom (cm_gridpool_channels cm')" for cm' ds' op x
  proof -
    let ?ds = "ds'\<lparr>ds_standard_channels := AList.update c ch' (ds_standard_channels ds')\<rparr>"
    have h: "half_open d c (cm'\<lparr>cm_downstreams := AList.update d ?ds (cm_downstreams cm')\<rparr>)"
      using that by (intro half_open_insert) (auto simp: ds_channels_def)
    show ?thesis
      using wp_half_open_done [OF h] wp_half_open_group [OF h, of ?ds] that(2)
      by (cases std) (simp_all add: wp_modify_downstream bind_return)
  qed
  show ?thesis
    unfolding open_standard_register_def Let_def jobs prod.case
  proof (rule wp_enter_payout [OF assms], assumption, goal_cases)
    case (1 gid cm' ds')
    show ?case
      using fin [OF 1] fault_okI [OF 1(1)]
      by (cases r; cases "pl_fits_b032 lib (length (sc_get_extranonce_prefix (pl_standard lib) ch))")
        (simp_all only: wp_check bind_return wp_bind_result sum.case if_True if_False wp_bind [of c_panic] wp_basic fault_ok_simps)
  qed
qed

lemma shape_set_payout_mode: "ds_shape (snd (set_payout_mode m ds)) = ds_shape ds"
  by (simp add: set_payout_mode_def ds_shape_def Let_def case_prod_unfold)

lemma shape_next_channel_id: "ds_shape (snd (next_channel_id ds)) = ds_shape ds"
  by (simp add: next_channel_id_def ds_shape_def)

lemma wp_open_standard_create:
  assumes "cm_inv cm" "map_of (cm_downstreams cm) d = Some ds" "cm_gridpool cm \<noteq> None \<Longrightarrow> payout \<noteq> None"
  shows "c_wp (open_standard_create lib env d std msg t p payout mode) (\<lambda>_. cm_inv) fault_ok cm"
proof -
  have pay: "cm_gridpool cm = None \<or> (\<exists>q. payout = Some q)" using assms(3) by fastforce
  have last: "c_wp (c_bind (on_downstream d next_channel_id) (\<lambda>c.
     c_bind (c_get (\<lambda>cm. sc_new_for_pool (pl_standard lib) c (osm_user_identity msg) px
               (osm_max_target msg) (osm_nominal_hash_rate msg) (cm_share_batch_size cm)
               (cm_shares_per_minute cm) (cm_pool_tag_string cm))) (\<lambda>new. case new of
       Inl (StdOpenChannelInvalidNominalHashrate code) \<Rightarrow> c_return (open_error d (osm_request_id msg) code)
     | Inl _ \<Rightarrow> c_raise (pool_disconnect PkChannelErrorSender d)
     | Inr channel \<Rightarrow> open_standard_register lib env d std (osm_request_id msg) t p outs payout c channel)))
     (\<lambda>_. cm_inv) fault_ok cm'"
    if "cm_inv cm'" "map_of (cm_downstreams cm') d = Some ds'" "cm_gridpool cm' = cm_gridpool cm" for cm' ds' px outs
    by (rule wp_on_downstream_keeps [OF that(1,2) shape_next_channel_id])
      (use that(3) pay in \<open>auto simp: wp_steps fault_okI
        intro!: wp_open_standard_register split: sum.splits standard_channel_error.splits\<close>)
  have first: "c_wp (c_bind (on_downstream d (set_payout_mode mode)) (\<lambda>_.
     c_bind (c_try (map_err (\<lambda>e. pool_shutdown (PkChannelSv2 (ExtranonceError e))) (pv_allocate_standard env))) k))
     (\<lambda>_. cm_inv) fault_ok cm"
    if "\<And>px cm' ds'. cm_inv cm' \<Longrightarrow> map_of (cm_downstreams cm') d = Some ds' \<Longrightarrow> cm_gridpool cm' = cm_gridpool cm
      \<Longrightarrow> c_wp (k px) (\<lambda>_. cm_inv) fault_ok cm'" for k
    by (rule wp_on_downstream_keeps [OF assms(1,2) shape_set_payout_mode])
      (use that in \<open>auto simp: wp_steps map_err_def split: sum.splits\<close>)
  show ?thesis
    unfolding open_standard_create_def wp_bind_get wp_bind_try
    by (split sum.split) (auto intro!: first last fault_okI [OF assms(1)])
qed

lemma resolve_payout_some: "resolve_payout gl (Some g) i = Ok payout \<Longrightarrow> \<exists>q. payout = Some q"
  by (auto simp: resolve_payout_def rbind_eq_Inr_iff)

lemma wp_open_standard:
  assumes "cm_inv cm" "map_of (cm_downstreams cm) d = Some ds"
  shows "c_wp (open_standard lib env d msg ds) (\<lambda>_. cm_inv) fault_ok cm"
  unfolding open_standard_def
  using assms by (auto simp: wp_steps fault_okI intro!: wp_open_standard_create dest: resolve_payout_some
      split: option.splits sum.splits)

lemma wp_handle_open_standard:
  "cm_inv cm \<Longrightarrow> c_wp (handle_open_standard_mining_channel lib env d msg) (\<lambda>_. cm_inv) fault_ok cm"
  unfolding handle_open_standard_mining_channel_def wp_bind wp_with_registered
  by (auto simp: fault_okI wp_modify split: option.splits
      intro!: wp_mono [OF wp_open_standard] cm_inv_shape [OF shape_forward_each])

lemma wp_half_open_extended:
  assumes "cm_inv cm" "map_of (cm_downstreams cm) d = Some ds"
    and "cm_gridpool cm \<noteq> None \<longrightarrow> (d, c) \<in> sm_dom (cm_gridpool_channels cm)"
  shows "c_wp (c_bind (on_downstream d (c_modify (\<lambda>ds.
        ds\<lparr>ds_extended_channels := snd (sm_insert c ch (ds_extended_channels ds))\<rparr>)))
      (\<lambda>_. c_bind (insert_vardiff env d c) (\<lambda>_. c_return x))) (\<lambda>_. cm_inv) fault_ok cm"
proof -
  let ?ds = "ds\<lparr>ds_extended_channels := AList.update c ch (ds_extended_channels ds)\<rparr>"
  have "half_open d c (cm\<lparr>cm_downstreams := AList.update d ?ds (cm_downstreams cm)\<rparr>)"
    using assms by (intro half_open_insert) (auto simp: ds_channels_def)
  then show ?thesis using assms(2) by (simp add: wp_modify_downstream wp_half_open_done)
qed

lemma wp_open_extended_work:
  assumes "cm_inv cm" "map_of (cm_downstreams cm) d = Some ds"
    and "\<And>x cm' ds'. cm_inv cm' \<Longrightarrow> map_of (cm_downstreams cm') d = Some ds' \<Longrightarrow> cm_gridpool cm' = cm_gridpool cm \<Longrightarrow>
      cm_gridpool_channels cm' = cm_gridpool_channels cm \<Longrightarrow> c_wp (k x) (\<lambda>_. cm_inv) fault_ok cm'"
  shows "c_wp (c_bind (open_extended_work lib env d custom t p payout mode c ch) k) (\<lambda>_. cm_inv) fault_ok cm"
proof (cases custom)
  case True
  then show ?thesis
    using assms by (auto simp: open_extended_work_def wp_bind wp_basic c_call_def fault_okI Let_def case_prod_unfold
        split: sum.splits)
next
  case False
  have "c_wp (on_downstream d (on_group_channel (c_call (\<lambda>e. pool_shutdown (h e)) op)))
      (\<lambda>_. c_wp (k x) (\<lambda>_. cm_inv) fault_ok) fault_ok cm" for h op x
    by (rule wp_on_downstream_keeps [OF assms(1,2) shape_on_group, where k = "\<lambda>_. k x", unfolded wp_bind])
      (rule assms(3))
  then show ?thesis
    using False fault_okI [OF assms(1)]
    by (auto simp: open_extended_work_def wp_bind wp_basic wp_return_fun map_err_def Let_def case_prod_unfold
        split: sum.splits)
qed

lemma wp_open_extended_register:
  assumes "cm_inv cm" "map_of (cm_downstreams cm) d = Some ds" "cm_gridpool cm \<noteq> None \<Longrightarrow> payout \<noteq> None"
  shows "c_wp (open_extended_register lib env d custom rid payout mode c ch) (\<lambda>_. cm_inv) fault_ok cm"
  unfolding open_extended_register_def Let_def
proof (rule wp_enter_payout [OF assms], assumption, goal_cases)
  case (1 gid cm' ds')
  have work: "c_wp (c_bind (open_extended_work lib env d custom t p payout mode c ch) (\<lambda>(jobs, channel).
      c_bind (on_downstream d (c_modify (\<lambda>ds.
             ds\<lparr>ds_extended_channels := snd (sm_insert c channel (ds_extended_channels ds))\<rparr>))) (\<lambda>_.
          c_bind (insert_vardiff env d c) (\<lambda>_. c_return (success # jobs))))) (\<lambda>_. cm_inv) fault_ok cm'" for t p success
    by (rule wp_open_extended_work [OF 1(1,2)]) (use 1(3) in \<open>auto intro!: wp_half_open_extended simp del: sm_insert_snd\<close>)
  show ?case
    using work fault_okI [OF 1(1)]
    by (cases "pl_fits_b032 lib (length (xc_get_extranonce_prefix (pl_extended lib) ch))")
      (auto simp: wp_steps bind_return wp_bind [of "c_raise _"] simp del: sm_insert_snd split: option.splits)
qed

lemma wp_open_extended_create:
  assumes "cm_inv cm" "map_of (cm_downstreams cm) d = Some ds" "cm_gridpool cm \<noteq> None \<Longrightarrow> payout \<noteq> None"
  shows "c_wp (open_extended_create lib env d custom msg px payout mode) (\<lambda>_. cm_inv) fault_ok cm"
proof -
  have pay: "cm_gridpool cm = None \<or> (\<exists>q. payout = Some q)" using assms(3) by fastforce
  show ?thesis
    unfolding open_extended_create_def
    by (rule wp_on_downstream_keeps [OF assms(1,2) shape_set_payout_mode],
        rule wp_on_downstream_keeps [OF _ _ shape_next_channel_id], assumption, assumption)
      (use pay in \<open>auto simp: wp_steps fault_okI intro!: wp_open_extended_register
         split: sum.splits extended_channel_error.splits\<close>)
qed

lemma wp_handle_open_extended:
  "cm_inv cm \<Longrightarrow> c_wp (handle_open_extended_mining_channel lib env d msg) (\<lambda>_. cm_inv) fault_ok cm"
proof -
  assume inv: "cm_inv cm"
  have "c_wp (open_extended lib env d msg ds) (\<lambda>_. cm_inv) fault_ok cm" if "map_of (cm_downstreams cm) d = Some ds" for ds
    unfolding open_extended_def
    using inv that by (auto simp: wp_steps fault_okI intro!: wp_open_extended_create dest: resolve_payout_some
        split: option.splits sum.splits)
  then show ?thesis
    unfolding handle_open_extended_mining_channel_def wp_bind wp_with_registered
    using inv by (auto simp: fault_okI wp_modify split: option.splits
      elim!: wp_mono intro!: cm_inv_shape [OF shape_forward_each])
qed

lemma wp_handle_mining_message:
  "cm_inv cm \<Longrightarrow> c_wp (handle_mining_message lib env d m) (\<lambda>_. cm_inv) fault_ok cm"
  by (cases m) (simp_all add: handle_mining_message_def wp_handle_close_channel wp_handle_open_standard
      wp_handle_open_extended wp_keeps keeps_submit_standard keeps_submit_extended keeps_update_channel keeps_set_custom)

lemma run_vardiff_key_inv: "cm_inv cm \<Longrightarrow> cm_inv (snd (run_vardiff_key lib k (ms, cm)))"
proof (cases "map_of (cm_downstreams cm) (fst k)")
  case None
  assume inv: "cm_inv cm"
  have "tracked (cm\<lparr>cm_vardiff := AList.delete k (cm_vardiff cm)\<rparr>) (d, c) = tracked cm (d, c)"
    if "map_of (cm_downstreams cm) d = Some ds" for d c ds
    using that None by (auto simp: tracked_def)
  with inv have "cm_inv (cm\<lparr>cm_vardiff := AList.delete k (cm_vardiff cm)\<rparr>)" by (auto simp: cm_inv_def)
  with None show ?thesis by (simp add: run_vardiff_key_def sm_get_cloned_def Let_def)
next
  case (Some ds)
  assume inv: "cm_inv cm"
  show ?thesis
  proof (cases "map_of (cm_vardiff cm) k")
    case (Some v)
    have ds: "ds_shape (ds\<lparr>ds_standard_channels := snd (sm_with_mut (ds_standard_channels ds) (snd k) f),
          ds_extended_channels := snd (sm_with_mut (ds_extended_channels ds) (snd k) g)\<rparr>) = ds_shape ds"
      for f :: "'a \<Rightarrow> ('d \<times> route_message_to list) \<times> 'a" and g :: "'b \<Rightarrow> ('d \<times> route_message_to list) \<times> 'b"
      by (simp add: ds_shape_def sm_with_mut_keys)
    have shape: "cm_shape (cm\<lparr>cm_downstreams := AList.update (fst k) (ds\<lparr>ds_standard_channels := snd (sm_with_mut (ds_standard_channels ds) (snd k) f),
          ds_extended_channels := snd (sm_with_mut (ds_extended_channels ds) (snd k) g)\<rparr>) (cm_downstreams cm),
        cm_vardiff := AList.update k w (cm_vardiff cm)\<rparr>) = cm_shape cm"
      for f :: "'a \<Rightarrow> ('d \<times> route_message_to list) \<times> 'a" and g :: "'b \<Rightarrow> ('d \<times> route_message_to list) \<times> 'b" and w
      using \<open>map_of (cm_downstreams cm) (fst k) = Some ds\<close> Some
      by (simp add: cm_shape_def update_keeps_map [where g = ds_shape, OF _ ds] update_keeps_keys)
    show ?thesis
      using \<open>map_of (cm_downstreams cm) (fst k) = Some ds\<close> Some
      by (simp add: run_vardiff_key_def sm_get_cloned_def Let_def case_prod_unfold cm_inv_shape [OF shape inv])
  qed (use Some inv in \<open>simp add: run_vardiff_key_def sm_get_cloned_def Let_def\<close>)
qed

lemma run_vardiff_inv: "cm_inv cm \<Longrightarrow> cm_inv (run_vardiff lib env cm)"
proof -
  assume "cm_inv cm"
  then have "cm_inv (snd (fold (run_vardiff_key lib) ks (ms, cm)))" for ks ms
  proof (induction ks arbitrary: ms cm)
    case (Cons k ks)
    obtain ms' cm' where k: "run_vardiff_key lib k (ms, cm) = (ms', cm')" by (metis prod.collapse)
    then have "cm_inv cm'" using run_vardiff_key_inv [OF Cons.prems] by (metis snd_conv)
    with Cons.IH show ?case by (simp add: k)
  qed simp
  then show ?thesis by (simp add: run_vardiff_def Let_def case_prod_unfold cm_inv_shape [OF shape_forward_each])
qed

lemma cm_inv_new:
  assumes "channel_manager_new gl alloc cenv config outs jd = Ok cm"
  shows "cm_inv cm"
  using assms by (auto simp: channel_manager_new_def rbind_eq_Inr_iff cm_inv_def sm_new_def)

lemma cm_inv_bump: "cm_inv cm \<Longrightarrow> cm_inv (cm\<lparr>cm_downstream_id_factory := Suc (cm_downstream_id_factory cm)\<rparr>)"
  by (auto simp: cm_inv_def tracked_def)

lemma cm_inv_register:
  assumes "cm_inv cm" "d \<notin> sm_dom (cm_downstreams cm)" "d < cm_downstream_id_factory cm" "ds_channels ds = {}"
  shows "cm_inv (cm\<lparr>cm_downstream_sender := AList.update d () (cm_downstream_sender cm),
      cm_downstreams := AList.update d ds (cm_downstreams cm)\<rparr>)"
  using assms by (auto simp: cm_inv_def tracked_def split: if_splits)

lemma wp_accept:
  assumes "cm_inv cm"
  shows "c_wp (cm_accept_downstream api n) (\<lambda>_. cm_inv) (\<lambda>_. cm_inv) cm"
proof -
  let ?d = "cm_downstream_id_factory cm" and ?cm = "cm\<lparr>cm_downstream_id_factory := Suc (cm_downstream_id_factory cm)\<rparr>"
  have boot: "\<exists>r. bootstrap_group_channel api n c s = (r, s)" for c and s :: "('a, 'b, 'c, 'd, 'e) channel_manager"
    by (auto simp: bootstrap_group_channel_def c_bind_def c_get_def c_lock_get_def c_try_def lock_get_def c_expect_def
        c_return_def c_panic_def split: option.split)
  obtain r where r: "bootstrap_group_channel api n 1 ?cm = (r, ?cm)" using boot by blast
  have "?d \<notin> sm_dom (cm_downstreams ?cm)" using assms by (auto simp: cm_inv_def)
  then have "cm_inv (?cm\<lparr>cm_downstream_sender := AList.update ?d () (cm_downstream_sender ?cm),
      cm_downstreams := AList.update ?d (downstream_new ?d 2 g sup req) (cm_downstreams ?cm)\<rparr>)" for g sup req
    by (intro cm_inv_register cm_inv_bump [OF assms]) (simp_all add: ds_channels_def downstream_new_def sm_new_def)
  then show ?thesis
    using cm_inv_bump [OF assms]
    by (auto simp: cm_accept_downstream_def wp_bind wp_basic wp_modify c_wp_def [of "bootstrap_group_channel api n 1"] r
        split: sum.split option.split)
qed

lemma shape_connection:
  "ds_shape (cn_downstream (snd (handle_setup_connection cenv m c))) = ds_shape (cn_downstream c)"
  "ds_shape (cn_downstream (snd (handle_request_extensions cenv q c))) = ds_shape (cn_downstream c)"
  by (auto simp: handle_setup_connection_def handle_request_extensions_def c_bind_def c_modify_def c_get_def c_return_def
      c_raise_def send_frame_def ds_shape_def Let_def lock_run_def split: sum.split prod.split)

lemma on_connection_inv:
  assumes "cm_inv cm" "\<And>c. ds_shape (cn_downstream (snd (f c))) = ds_shape (cn_downstream c)"
  shows "cm_inv (on_connection d f cm)"
proof (cases "map_of (cm_downstreams cm) d")
  case (Some ds)
  show ?thesis using cm_inv_update_ds [OF assms(1) Some] assms(2) Some by (simp add: on_connection_def sm_get_cloned_def)
qed (use assms in \<open>simp add: on_connection_def sm_get_cloned_def\<close>)

lemma pool_step_inv:
  assumes "cm_inv cm" "pool_step lib n mt env ev cm = (LoopContinue, cm')"
  shows "cm_inv cm'"
proof (cases ev)
  case EvAccept
  then show ?thesis
    using wp_accept [OF assms(1), of "pl_group lib" n] assms(2)
    by (auto simp: pool_step_def accept_outcome_def c_wp_def split: prod.splits sum.splits fault.splits option.splits)
next
  case (EvTemplate m)
  have "c_wp (handle_template_message lib mt env m) (\<lambda>_. cm_inv) fault_ok cm"
    by (rule wp_keeps [OF keeps_template_message assms(1)])
  with EvTemplate assms(2) show ?thesis by (intro loop_outcome_inv) (simp_all add: pool_step_def)
next
  case (EvRefreshCancelled t)
  have "c_wp (handle_template_message lib mt env (NewTemplate t)) (\<lambda>_. cm_inv) fault_ok cm"
    by (rule wp_keeps [OF keeps_template_message assms(1)])
  from loop_outcome_inv [OF this] EvRefreshCancelled assms show ?thesis
    by (auto simp: pool_step_def split: if_splits)
next
  case (EvMining d m)
  with assms(2) show ?thesis
    by (intro loop_outcome_inv [OF wp_handle_mining_message [OF assms(1)]]) (simp add: pool_step_def)
qed (use assms cm_inv_shape [OF shape_refresh_fee_jobs assms(1)] in
    \<open>auto simp: pool_step_def run_vardiff_inv cm_inv_remove on_connection_inv shape_connection\<close>)

lemma pool_reach_inv: "pool_reach lib cm \<Longrightarrow> cm_inv cm"
proof (induction rule: pool_reach.induct)
  case (reach_new alloc cenv config outs jd cm env couts cm')
  then show ?case using cm_inv_shape [OF shape_cm_start cm_inv_new] by (metis snd_conv)
next
  case (reach_step cm full_size mt env ev cm')
  then show ?case using pool_step_inv by blast
qed

section \<open>Properties of the running pool\<close>


definition sample_pool_config :: pool_config where
  "sample_pool_config = \<lparr>pc_share_batch_size = 1, pc_shares_per_minute = 6, pc_pool_signature = ''p'',
     pc_coinbase_reward_script = \<lparr>crs_script_pubkey = [1], crs_ok_for_mainnet = True\<rparr>,
     pc_supported_extensions = [2], pc_required_extensions = [], pc_gridpool = None\<rparr>"

text \<open>A pool that was started, got a template and its previous hash, and accepted one miner.\<close>

definition started_pool ::
  "(plain_standard, plain_extended, bool \<times> extended_job option, unit, ipc_engine) channel_manager" where
  "started_pool = \<lparr>cm_downstreams = [], cm_downstream_id_factory = 1, cm_vardiff = [],
     cm_coinbase_outputs = [], cm_last_new_prev_hash = lock_new None, cm_last_future_template = lock_new None,
     cm_downstream_sender = [], cm_pool_tag_string = ''p'', cm_share_batch_size = 1, cm_shares_per_minute = 6,
     cm_coinbase_reward_script = \<lparr>crs_script_pubkey = [1], crs_ok_for_mainnet = True\<rparr>,
     cm_supported_extensions = [2], cm_required_extensions = [], cm_job_declarator = None, cm_gridpool = None,
     cm_gridpool_channels = [], cm_sent = [RouteTemplateProvider (CoinbaseOutputConstraints
       (coinbase_output_constraints_message_with_offset (pl_tx_metrics plain_pool_lib) []))], cm_proofs = []\<rparr>"

definition supplied_pool where
  "supplied_pool = started_pool\<lparr>cm_last_future_template := lock_new (Some plain_template),
     cm_last_new_prev_hash := lock_new (Some plain_prev_hash)\<rparr>"

definition accepting_pool where
  "accepting_pool = supplied_pool\<lparr>cm_downstream_id_factory := 2, cm_downstream_sender := [(1, ())],
     cm_downstreams := [(1, downstream_new 1 2
       (True, Some ((plain_extended_job 1 plain_template [TxOut 100 [1]])\<lparr>xj_job_id := 8\<rparr>)) [2] [])]\<rparr>"

lemma started_pool_reachable: "pool_reach plain_pool_lib started_pool"
proof (rule reach_new)
  show "channel_manager_new (pl_gridpool plain_pool_lib) (Ok ()) cenv sample_pool_config [] None =
      Ok (started_pool\<lparr>cm_sent := []\<rparr>)" for cenv
    by (simp add: channel_manager_new_def sample_pool_config_def started_pool_def sm_new_def)
  show "cm_start plain_pool_lib plain_pool_env [] (started_pool\<lparr>cm_sent := []\<rparr>) = (Ok (), started_pool)"
    by (simp add: cm_start_def started_pool_def c_bind_def c_return_def cm_coinbase_output_constraints_def c_call_def
        forward_def plain_pool_env_def)
qed

lemma supplied_pool_reachable: "pool_reach plain_pool_lib supplied_pool"
proof (rule reach_step [OF reach_step [OF started_pool_reachable]])
  have t: "nt_future_template plain_template" "pl_deserialize_outputs plain_pool_lib b = Some [TxOut 0 [1]]" for b
    by (simp_all add: plain_template_def plain_pool_lib_def)
  show "pool_step plain_pool_lib 20 (\<lambda>_. (0, 0)) plain_pool_env (EvTemplate (NewTemplate plain_template)) started_pool =
      (LoopContinue, started_pool\<lparr>cm_last_future_template := lock_new (Some plain_template)\<rparr>)"
    by (simp add: pool_step_def loop_outcome_def handle_template_message_def handle_new_template_def c_bind_def c_get_def
        c_lock_get_def c_try_def lock_get_def c_return_def set_last_future_template_def lock_run_def lock_new_def
        each_downstream_def c_modify_def started_pool_def t)
  show "pool_step plain_pool_lib 20 (\<lambda>_. (0, 0)) plain_pool_env (EvTemplate (TdpSetNewPrevHash plain_prev_hash))
      (started_pool\<lparr>cm_last_future_template := lock_new (Some plain_template)\<rparr>) = (LoopContinue, supplied_pool)"
    by (simp add: pool_step_def loop_outcome_def handle_template_message_def handle_set_new_prev_hash_def c_bind_def
        lock_run_def lock_new_def each_downstream_def c_modify_def started_pool_def supplied_pool_def)
qed

lemma accepting_pool_reachable: "pool_reach plain_pool_lib accepting_pool"
proof (rule reach_step [OF supplied_pool_reachable])
  have g: "pl_group plain_pool_lib = plain_group_api" by (simp add: plain_pool_lib_def)
  show "pool_step plain_pool_lib 20 (\<lambda>_. (0, 0)) plain_pool_env EvAccept supplied_pool = (LoopContinue, accepting_pool)"
    by (simp add: pool_step_def accept_outcome_def cm_accept_downstream_def bootstrap_group_channel_def g c_bind_def c_get_def
        c_modify_def c_lock_get_def c_try_def lock_get_def c_expect_def c_return_def lock_new_def Let_def plain_group_api_def
        supplied_pool_def accepting_pool_def started_pool_def plain_template_def)
qed


text \<open>
  C18. Losing a connection leaves no trace: afterwards there is no sender, no vardiff state and no
  payout of it, messages still addressed to it are dropped without an error, every other connection
  keeps its channels, vardiff states and payouts, and the pool goes on from a consistent state.
\<close>

theorem disconnect_leaves_no_residue:
  assumes "pool_reach lib cm" and "pool_step lib n mt env (EvConnectionClosed d) cm = (LoopContinue, cm')"
  shows "d \<notin> sm_dom (cm_downstreams cm') \<and> forward env (RouteDownstream d m) cm' = (Ok (), cm') \<and>
    (\<forall>c. (d, c) \<notin> sm_dom (cm_vardiff cm') \<union> sm_dom (cm_gridpool_channels cm')) \<and>
    (\<forall>d' c. d' \<noteq> d \<longrightarrow> map_of (cm_downstreams cm') d' = map_of (cm_downstreams cm) d' \<and>
      map_of (cm_vardiff cm') (d', c) = map_of (cm_vardiff cm) (d', c) \<and>
      map_of (cm_gridpool_channels cm') (d', c) = map_of (cm_gridpool_channels cm) (d', c)) \<and>
    cm_inv cm'"
proof -
  have e: "cm' = remove_downstream d cm" using assms(2) by (simp add: pool_step_def)
  have inv: "cm_inv cm" by (rule pool_reach_inv [OF assms(1)])
  have gone: "d \<notin> sm_dom (cm_downstreams cm')" "\<not> sm_contains_key (cm_downstream_sender cm') d"
    by (simp_all add: e remove_downstream_def sm_contains_key_def map_of_delete)
  have keys: "(d, c) \<notin> sm_dom (cm_vardiff cm') \<union> sm_dom (cm_gridpool_channels cm')" for c
    by (auto simp: e remove_downstream_def sm_retain_def sm_dom_keys)
  have rest: "map_of (cm_downstreams cm') d' = map_of (cm_downstreams cm) d'"
    "map_of (cm_vardiff cm') (d', c) = map_of (cm_vardiff cm) (d', c)"
    "map_of (cm_gridpool_channels cm') (d', c) = map_of (cm_gridpool_channels cm) (d', c)" if "d' \<noteq> d" for d' c
    using inv that by (simp_all add: e remove_downstream_def cm_inv_def map_of_retain delete_conv split: option.split)
  have "forward env (RouteDownstream d m) cm' = (Ok (), cm')" using gone(2) by (simp add: forward_def)
  moreover have "cm_inv cm'" unfolding e by (rule cm_inv_remove [OF inv])
  ultimately show ?thesis using gone(1) keys rest by blast
qed

theorem disconnect_leaves_no_residue_witness:
  "cm_downstreams accepting_pool \<noteq> [] \<and>
   1 \<notin> sm_dom (cm_downstreams (snd (pool_step plain_pool_lib 20 (\<lambda>_. (0, 0)) plain_pool_env (EvConnectionClosed 1) accepting_pool)))"
proof -
  have e: "pool_step plain_pool_lib 20 (\<lambda>_. (0, 0)) plain_pool_env (EvConnectionClosed 1) accepting_pool =
      (LoopContinue, remove_downstream 1 accepting_pool)"
    by (simp add: pool_step_def)
  have "cm_downstreams accepting_pool \<noteq> []" by (simp add: accepting_pool_def)
  with disconnect_leaves_no_residue [OF accepting_pool_reachable e] show ?thesis unfolding e snd_conv by blast
qed

section \<open>Cancelled handlers\<close>


text \<open>A pool whose group channels know template 5 only, while template 6 is announced.\<close>

definition strict_pool_lib where
  "strict_pool_lib = plain_pool_lib\<lparr>pl_group := plain_group_api\<lparr>grp_on_set_new_prev_hash := (\<lambda>p g.
     if tph_template_id p = 5 then (Ok (), g) else (Err ''template not found'', g))\<rparr>\<rparr>"


end
