(* ===== verification/Tproxy_Types.thy ===== *)
theory Tproxy_Types
  imports Pool_Types
begin

text \<open>
  The data of the translator proxy (\<open>miner-apps/translator/src/lib\<close>: \<open>error.rs\<close>, \<open>utils.rs\<close>,
  \<open>config.rs\<close>): its errors and their actions, the operating modes, the SV1 messages as far as the
  proxy reads them, the validation of SV1 shares, and the job ids of keepalive jobs.

  JSON-RPC, the SV1 protocol crate and the translation crate are not part of the program.  The
  payload of a JSON message is the type variable \<open>'j\<close>; what the proxy calls of those crates are
  the fields of the record \<open>sv1_lib\<close>.
\<close>

section \<open>Targets\<close>

text \<open>\<open>Target\<close>: a 256-bit unsigned number, exchanged as 32 little-endian bytes.\<close>

type_synonym target = "256 word"

definition target_from_le_bytes :: "bytes \<Rightarrow> target" where
  "target_from_le_bytes b = word_of_nat (le_value b)"

definition target_to_le_bytes :: "target \<Rightarrow> bytes" where
  "target_to_le_bytes t = le_bytes 32 (unat t)"

lemma target_bytes_round_trip [simp]: "target_from_le_bytes (target_to_le_bytes t) = t"
proof -
  have "unat t < 256 ^ 32" using unat_bound [of t] by simp
  then show ?thesis by (simp add: target_from_le_bytes_def target_to_le_bytes_def le_value_le_bytes)
qed

section \<open>Errors\<close>

datatype (plugins only: code) tproxy_error_kind =
    TkSV1Error
  | TkNetworkHelpersError string
  | TkParserError string
  | TkBadCliArgs
  | TkBadSerdeJson string
  | TkBadConfigDeserialize string
  | TkBinarySv2
  | TkCodecNoise string
  | TkFramingSv2
  | TkIo string
  | TkParseInt string
  | TkPoisonLock
  | TkChannelErrorReceiver
  | TkChannelErrorSender
  | TkTimeout
  | TkSetDifficultyToMessage string
  | TkUnexpectedMessage u16 u8
  | TkInvalidUserIdentity string
  | TkJobNotFound
  | TkInvalidMerkleRoot
  | TkPendingChannelNotFound u32
  | TkRequiredExtensionsNotSupported "u16 list"
  | TkServerRequiresUnsupportedExtensions "u16 list"
  | TkGeneral string
  | TkTranslatorCore string
  | TkDownstreamNotFound u32
  | TkTlvError string
  | TkSetupConnectionError
  | TkOpenMiningChannelError
  | TkCouldNotInitiateSystem
  | TkDownstreamNotFoundWithChannelId channel_id
  | TkChannelNotFound
  | TkFailedToProcessSetNewPrevHash
  | TkFailedToProcessNewExtendedMiningJob
  | TkFailedToAddChannelIdToGroupChannel string
  | TkAggregatedChannelClosed
  | TkInvalidKey
  | TkDownstreamNotPresent downstream_id
  | TkPayoutVerificationFailed string

datatype tproxy_action = TpLog | TpDisconnect downstream_id | TpFallback | TpShutdown

record tproxy_error =
  te_kind :: tproxy_error_kind
  te_action :: tproxy_action

definition tp_log :: "tproxy_error_kind \<Rightarrow> tproxy_error" where
  "tp_log k = \<lparr>te_kind = k, te_action = TpLog\<rparr>"

definition tp_disconnect :: "tproxy_error_kind \<Rightarrow> downstream_id \<Rightarrow> tproxy_error" where
  "tp_disconnect k d = \<lparr>te_kind = k, te_action = TpDisconnect d\<rparr>"

definition tp_fallback :: "tproxy_error_kind \<Rightarrow> tproxy_error" where
  "tp_fallback k = \<lparr>te_kind = k, te_action = TpFallback\<rparr>"

definition tp_shutdown :: "tproxy_error_kind \<Rightarrow> tproxy_error" where
  "tp_shutdown k = \<lparr>te_kind = k, te_action = TpShutdown\<rparr>"

lemma tproxy_error_action [simp]:
  "te_action (tp_log k) = TpLog"
  "te_action (tp_disconnect k d) = TpDisconnect d"
  "te_action (tp_fallback k) = TpFallback"
  "te_action (tp_shutdown k) = TpShutdown"
  by (simp_all add: tp_log_def tp_disconnect_def tp_fallback_def tp_shutdown_def)

text \<open>A handler stops early by an error or by a panic.\<close>

datatype tp_fault = TpPanic | TpRaised tproxy_error

type_synonym ('c, 'r) tcomp = "('c, 'r, tp_fault) computation"

definition t_try :: "('r, tproxy_error) result \<Rightarrow> ('c, 'r) tcomp" where
  "t_try r s = (map_err TpRaised r, s)"

definition t_raise :: "tproxy_error \<Rightarrow> ('c, 'r) tcomp" where
  "t_raise e s = (Err (TpRaised e), s)"

definition t_expect :: "'r option \<Rightarrow> ('c, 'r) tcomp" where
  "t_expect x = (case x of None \<Rightarrow> c_fail TpPanic | Some y \<Rightarrow> c_return y)"

text \<open>A loop whose body may stop it with a fault.\<close>

fun t_for :: "'a list \<Rightarrow> ('a \<Rightarrow> ('c, unit) tcomp) \<Rightarrow> ('c, unit) tcomp" where
  "t_for [] f = c_return ()"
| "t_for (x # xs) f = c_bind (f x) (\<lambda>_. t_for xs f)"

lemma wp_tproxy [wp_rules]:
  "c_wp (t_try r) Q E s = (case r of Inl e \<Rightarrow> E (TpRaised e) s | Inr x \<Rightarrow> Q x s)"
  "c_wp (t_raise e) Q E s = E (TpRaised e) s"
  "c_wp (t_expect y) Q E s = (case y of None \<Rightarrow> E TpPanic s | Some x \<Rightarrow> Q x s)"
  by (simp_all add: c_wp_def t_try_def t_raise_def t_expect_def c_fail_def c_return_def
      split: sum.splits option.splits)

lemma wp_for:
  assumes "\<And>x s. x \<in> set xs \<Longrightarrow> I s \<Longrightarrow> c_wp (f x) (\<lambda>_. I) E s" "I s"
  shows "c_wp (t_for xs f) (\<lambda>_. I) E s"
  using assms
proof (induction xs arbitrary: s)
  case (Cons x xs)
  then have "c_wp (f x) (\<lambda>_. I) E s" by simp
  then show ?case
    by (auto simp: wp_rules intro!: Cons.IH Cons.prems elim!: wp_mono)
qed (simp add: wp_rules)

section \<open>Modes\<close>

text \<open>The channel id that stands for all downstream connections in aggregated mode.\<close>

definition AGGREGATED_CHANNEL_ID :: channel_id where
  "AGGREGATED_CHANNEL_ID = - 1"

datatype tproxy_mode = Aggregated | NonAggregated

definition tproxy_mode_from :: "bool \<Rightarrow> tproxy_mode" where
  "tproxy_mode_from b = (if b then Aggregated else NonAggregated)"

definition is_aggregated :: "tproxy_mode \<Rightarrow> bool" where
  "is_aggregated m = (m = Aggregated)"

definition is_non_aggregated :: "tproxy_mode \<Rightarrow> bool" where
  "is_non_aggregated m = (m = NonAggregated)"

datatype aggregated_state = NoChannel | Pending | Connected

lemma mode_simps [simp]:
  "is_aggregated Aggregated" "\<not> is_aggregated NonAggregated"
  "is_non_aggregated NonAggregated" "\<not> is_non_aggregated Aggregated"
  by (simp_all add: is_aggregated_def is_non_aggregated_def)

lemma not_aggregated_iff: "\<not> is_aggregated m \<longleftrightarrow> is_non_aggregated m"
  by (cases m) simp_all

record downstream_difficulty_config =
  dc_min_individual_miner_hashrate :: f32
  dc_shares_per_minute :: f32
  dc_enable_vardiff :: bool
  dc_job_keepalive_interval_secs :: u16

section \<open>SV1 messages\<close>

text \<open>
  A JSON-RPC message: the proxy reads the method of requests and notifications only; all else is
  the payload.
\<close>

datatype 'j json_message =
    StandardRequest string 'j
  | Notification string 'j
  | Response 'j

definition is_mining_authorize :: "'j json_message \<Rightarrow> bool" where
  "is_mining_authorize m = (case m of
     StandardRequest method _ \<Rightarrow> method = ''mining.authorize''
   | _ \<Rightarrow> False)"

record notify =
  nf_job_id :: string
  nf_prev_hash :: bytes
  nf_coin_base1 :: bytes
  nf_coin_base2 :: bytes
  nf_merkle_branch :: "bytes list"
  nf_version :: u32
  nf_bits :: u32
  nf_time :: u32
  nf_clean_jobs :: bool

record submit =
  sb_user_name :: string
  sb_job_id :: string
  sb_extra_nonce2 :: bytes
  sb_time :: u32
  sb_nonce :: u32
  sb_version_bits :: "u32 option"

record submit_share_with_channel_id =
  ssw_channel_id :: channel_id
  ssw_downstream_id :: downstream_id
  ssw_share :: submit
  ssw_extranonce :: bytes
  ssw_extranonce2_len :: nat
  ssw_version_rolling_mask :: "u32 option"
  ssw_job_version :: "u32 option"

datatype sv1_error =
    Sv1UnknownID u64
  | Sv1UnexpectedMessage string
  | Sv1Other string

text \<open>
  The protocol crate handles a message of a miner by calling back the methods of the trait
  \<open>IsServer\<close>, which the proxy implements; it is generic in the server, so these calls are all it
  can do with it.  Its handling of one message is therefore a tree: it ends with a response, or
  calls a method and continues with the result.
\<close>

datatype (plugins only: code) is_server_call =
    CallConfigure "u32 option" "u32 option"
  | CallSubscribe
  | CallAuthorize
  | CallSubmit submit
  | CallExtranonceSubscribe
  | CallIsAuthorized string
  | CallAuthorizeWorker string
  | CallSetExtranonce1
  | CallExtranonce1
  | CallSetExtranonce2Size
  | CallExtranonce2Size
  | CallVersionRollingMask
  | CallSetVersionRollingMask "u32 option"
  | CallSetVersionRollingMinBit "u32 option"
  | CallNotify

datatype is_server_answer =
    AnsConfigure u32 u32 bool
  | AnsSubscriptions "(string \<times> string) list"
  | AnsBool bool
  | AnsUnit
  | AnsExtranonce bytes
  | AnsSize nat
  | AnsMask "u32 option"

datatype 'j dispatch =
    Done "('j option, sv1_error) result"
  | Ask is_server_call "(is_server_answer, sv1_error) result \<Rightarrow> 'j dispatch"

section \<open>Libraries\<close>

type_synonym tlv = "bytes"

record ('j, 'v) sv1_lib =
  sl_handle_message :: "'j json_message \<Rightarrow> 'j dispatch"
  sl_notify_try_from :: "string \<Rightarrow> 'j \<Rightarrow> notify option"
  sl_notify_into :: "notify \<Rightarrow> 'j json_message"
  sl_build_set_difficulty :: "target \<Rightarrow> ('j json_message, string) result"
  sl_build_notify :: "set_new_prev_hash \<Rightarrow> new_extended_mining_job \<Rightarrow> bool \<Rightarrow> (notify, string) result"
  sl_build_submit :: "submit \<Rightarrow> channel_id \<Rightarrow> u32 \<Rightarrow> u32 \<Rightarrow> u32 option
    \<Rightarrow> (submit_shares_extended, string) result"
  sl_build_open :: "u32 \<Rightarrow> string \<Rightarrow> f32 \<Rightarrow> target \<Rightarrow> u16 \<Rightarrow> (open_extended_mining_channel, string) result"
  sl_hash_rate_to_target :: "f64 \<Rightarrow> f64 \<Rightarrow> (target, string) result"
  sl_hash_rate_from_target :: "bytes \<Rightarrow> f64 \<Rightarrow> (f64, string) result"
  sl_version_rolling_params_ok :: "u32 \<Rightarrow> u32 \<Rightarrow> bool"
  sl_user_identity_tlv :: "string \<Rightarrow> (tlv option, string) result"
  sl_extranonce_try_from :: "bytes \<Rightarrow> (bytes, tproxy_error_kind) result"
  sl_u256_ok :: "bytes \<Rightarrow> bool"
  sl_merkle_root_from_path :: "bytes \<Rightarrow> bytes \<Rightarrow> bytes \<Rightarrow> bytes list \<Rightarrow> bytes option"
  sl_block_hash :: "block_header \<Rightarrow> bytes"
  sl_vardiff :: "'v vardiff_api"

section \<open>Share validation\<close>

unbundle bit_operations_syntax

definition DEFAULT_VERSION_ROLLING_MASK :: u32 where
  "DEFAULT_VERSION_ROLLING_MASK = 0x1FFFE000"

text \<open>The version a share claims: the job's version with the bits of the mask rolled.\<close>

definition rolled_version :: "u32 \<Rightarrow> u32 option \<Rightarrow> u32 option \<Rightarrow> u32" where
  "rolled_version job_version version_bits version_rolling_mask =
     (let share_version = (case version_bits of None \<Rightarrow> job_version | Some v \<Rightarrow> v);
          mask = (case version_rolling_mask of None \<Rightarrow> DEFAULT_VERSION_ROLLING_MASK | Some m \<Rightarrow> m)
      in (job_version AND NOT mask) OR (share_version AND mask))"

definition validate_sv1_share ::
  "('j, 'v) sv1_lib \<Rightarrow> submit \<Rightarrow> target \<Rightarrow> bytes \<Rightarrow> u32 option \<Rightarrow> notify
    \<Rightarrow> (bool, tproxy_error_kind) result" where
  "validate_sv1_share lib share target extranonce1 version_rolling_mask job =
     (let full_extranonce = extranonce1 @ sb_extra_nonce2 share;
          version = rolled_version (nf_version job) (sb_version_bits share) version_rolling_mask
      in if \<not> sl_u256_ok lib (nf_prev_hash job) then Err TkBinarySv2
         else (case sl_merkle_root_from_path lib (nf_coin_base1 job) (nf_coin_base2 job)
                  full_extranonce (nf_merkle_branch job) of
             None \<Rightarrow> Err TkInvalidMerkleRoot
           | Some mroot \<Rightarrow>
              (if length mroot \<noteq> 32 then Err TkInvalidMerkleRoot
               else let header = \<lparr>bh_version = version, bh_prev_blockhash = nf_prev_hash job,
                      bh_merkle_root = mroot, bh_time = sb_time share,
                      bh_bits = nf_bits job, bh_nonce = sb_nonce share\<rparr>
                    in Ok (target_from_le_bytes (sl_block_hash lib header) < target))))"

lemma rolled_version_bits:
  "bit (rolled_version v b m) i =
     (if bit (case m of None \<Rightarrow> DEFAULT_VERSION_ROLLING_MASK | Some x \<Rightarrow> x) i
      then bit (case b of None \<Rightarrow> v | Some x \<Rightarrow> x) i else bit v i)"
  by (cases "i < 32")
    (auto simp: rolled_version_def Let_def bit_and_iff bit_or_iff bit_not_iff possible_bit_word
      dest: bit_imp_le_length)

section \<open>User names\<close>

text \<open>\<open>str::is_char_boundary\<close>: the byte at the position does not continue a character.\<close>

definition is_continuation :: "char \<Rightarrow> bool" where
  "is_continuation c = (128 \<le> (of_char c :: nat) \<and> (of_char c :: nat) < 192)"

definition is_char_boundary :: "string \<Rightarrow> nat \<Rightarrow> bool" where
  "is_char_boundary s i = (i = 0 \<or> i = length s \<or> (i < length s \<and> \<not> is_continuation (s ! i)))"

definition MAX_USER_IDENTITY_BYTES :: nat where
  "MAX_USER_IDENTITY_BYTES = 32"

fun boundary_loop :: "string \<Rightarrow> nat \<Rightarrow> nat" where
  "boundary_loop s 0 = 0"
| "boundary_loop s (Suc e) = (if is_char_boundary s (Suc e) then Suc e else boundary_loop s e)"

definition tlv_compatible_username :: "string \<Rightarrow> string" where
  "tlv_compatible_username s =
     (if length s \<le> MAX_USER_IDENTITY_BYTES then s
      else take (boundary_loop s MAX_USER_IDENTITY_BYTES) s)"

section \<open>Keepalive job ids\<close>

definition KEEPALIVE_JOB_ID_DELIMITER :: char where
  "KEEPALIVE_JOB_ID_DELIMITER = CHR ''#''"

definition keepalive_job_id :: "string \<Rightarrow> u32 \<Rightarrow> string" where
  "keepalive_job_id original_job_id counter = original_job_id @ ''#'' @ dec_nat (unat counter)"

definition extract_original_job_id :: "string \<Rightarrow> string option" where
  "extract_original_job_id job_id = map_option fst (split_once KEEPALIVE_JOB_ID_DELIMITER job_id)"

definition is_keepalive_job_id :: "string \<Rightarrow> bool" where
  "is_keepalive_job_id job_id = (KEEPALIVE_JOB_ID_DELIMITER \<in> set job_id)"

lemma keepalive_iff_extract: "is_keepalive_job_id j \<longleftrightarrow> extract_original_job_id j \<noteq> None"
  by (simp add: is_keepalive_job_id_def extract_original_job_id_def split_once_None_iff)

lemma extract_keepalive_job_id:
  "\<not> is_keepalive_job_id j \<Longrightarrow> extract_original_job_id (keepalive_job_id j c) = Some j"
  by (auto simp: extract_original_job_id_def keepalive_job_id_def is_keepalive_job_id_def
      KEEPALIVE_JOB_ID_DELIMITER_def split_once_Some_iff intro!: exI [of _ "dec_nat (unat c)"])

lemma is_keepalive_keepalive_job_id [simp]: "is_keepalive_job_id (keepalive_job_id j c)"
  by (simp add: is_keepalive_job_id_def keepalive_job_id_def KEEPALIVE_JOB_ID_DELIMITER_def)

lemma keepalive_job_id_inj:
  assumes "\<not> is_keepalive_job_id i" "\<not> is_keepalive_job_id j"
  shows "keepalive_job_id i a = keepalive_job_id j b \<longleftrightarrow> i = j \<and> a = b"
proof
  assume eq: "keepalive_job_id i a = keepalive_job_id j b"
  then have "i = j"
    using assms by (metis extract_keepalive_job_id option.inject)
  with eq show "i = j \<and> a = b"
    by (simp add: keepalive_job_id_def dec_nat_inj word_unat_eq_iff)
qed simp

lemma extract_not_keepalive: "extract_original_job_id j = Some i \<Longrightarrow> \<not> is_keepalive_job_id i"
  by (auto simp: extract_original_job_id_def is_keepalive_job_id_def split_once_Some_iff)

end
