(* ===== verification/Tproxy_Channels.thy ===== *)
theory Tproxy_Channels
  imports Tproxy_Types Message_Types
begin

text \<open>
  The translator's SV2 channel manager (\<open>sv2/channel_manager/mod.rs\<close>): its state, the requests of
  the SV1 server and their translation for the upstream.  The handlers of the upstream's messages
  are in \<open>Tproxy_Upstream\<close>.

  The client side of the channel crate (\<open>ExtendedChannel\<close>, \<open>GroupChannel\<close>, \<open>ExtranonceAllocator\<close>,
  \<open>ExtranoncePrefix\<close>) is not part of the program: the types are type variables and the methods the
  translator calls are the fields of three records.  A prefix that an allocator minted is given
  back when the channel that owns it is dropped; \<open>al_release\<close> is that effect of the destructor.
\<close>

section \<open>The channel crate\<close>

record ('x, 'p) client_extended_api =
  cx_new :: "channel_id \<Rightarrow> string \<Rightarrow> 'p \<Rightarrow> target \<Rightarrow> f32 \<Rightarrow> bool \<Rightarrow> u16 \<Rightarrow> 'x"
  cx_prefix :: "'x \<Rightarrow> 'p"
  cx_get_channel_id :: "'x \<Rightarrow> channel_id"
  cx_get_extranonce_prefix :: "'x \<Rightarrow> bytes"
  cx_upstream_prefix_len :: "'x \<Rightarrow> nat option"
  cx_get_full_extranonce_size :: "'x \<Rightarrow> nat"
  cx_get_target :: "'x \<Rightarrow> target"
  cx_set_target :: "target \<Rightarrow> 'x \<Rightarrow> 'x"
  cx_set_nominal_hashrate :: "f32 \<Rightarrow> 'x \<Rightarrow> 'x"
  cx_validate_share :: "submit_shares_extended \<Rightarrow> 'x \<Rightarrow> (unit, string) result \<times> 'x"
  cx_on_share_acknowledgement :: "u32 \<Rightarrow> u64 \<Rightarrow> 'x \<Rightarrow> 'x"
  cx_on_share_rejection :: "error_code \<Rightarrow> 'x \<Rightarrow> 'x"
  cx_on_new_extended_mining_job :: "new_extended_mining_job \<Rightarrow> 'x \<Rightarrow> (unit, string) result \<times> 'x"
  cx_on_set_new_prev_hash :: "set_new_prev_hash \<Rightarrow> 'x \<Rightarrow> (unit, string) result \<times> 'x"
  cx_get_active_job :: "'x \<Rightarrow> new_extended_mining_job option"
  cx_get_future_jobs :: "'x \<Rightarrow> (u32 \<times> new_extended_mining_job) list"
  cx_get_chain_tip :: "'x \<Rightarrow> chain_tip option"
  cx_set_chain_tip :: "chain_tip \<Rightarrow> 'x \<Rightarrow> 'x"

record 'g client_group_api =
  cg_new :: "channel_id \<Rightarrow> 'g"
  cg_get_group_channel_id :: "'g \<Rightarrow> channel_id"
  cg_get_channel_ids :: "'g \<Rightarrow> channel_id list"
  cg_has_channel_id :: "'g \<Rightarrow> channel_id \<Rightarrow> bool"
  cg_is_empty :: "'g \<Rightarrow> bool"
  cg_add_channel_id :: "channel_id \<Rightarrow> nat \<Rightarrow> 'g \<Rightarrow> (unit, string) result \<times> 'g"
  cg_remove_channel_id :: "channel_id \<Rightarrow> 'g \<Rightarrow> 'g"
  cg_on_new_extended_mining_job :: "new_extended_mining_job \<Rightarrow> 'g \<Rightarrow> 'g"
  cg_on_set_new_prev_hash :: "set_new_prev_hash \<Rightarrow> 'g \<Rightarrow> (unit, string) result \<times> 'g"

record ('a, 'p) allocator_api =
  al_bytes_needed :: "u32 \<Rightarrow> u8"
  al_from_upstream_prefix :: "bytes \<Rightarrow> bytes \<Rightarrow> u8 \<Rightarrow> u32 \<Rightarrow> ('a, string) result"
  al_allocate_extended :: "nat \<Rightarrow> 'a \<Rightarrow> ('p, string) result \<times> 'a"
  al_release :: "'p \<Rightarrow> 'a \<Rightarrow> 'a"
  al_upstream_prefix :: "'a \<Rightarrow> bytes"
  al_upstream_prefix_len :: "'a \<Rightarrow> nat"
  al_rollable_extranonce_size :: "'a \<Rightarrow> nat"
  al_prefix_bytes :: "'p \<Rightarrow> bytes"
  al_prefix_from_wire :: "bytes \<Rightarrow> ('p, string) result"

text \<open>What is sent upstream: a mining message, with the user's name as TLV or without.\<close>

datatype upstream_message =
    UpMining mining_from_client
  | UpMiningTlv mining_from_client tlv
  | UpRequestExtensions u16 "u16 list"

record ('x, 'g, 'a, 'p) tproxy_lib =
  tl_extended :: "('x, 'p) client_extended_api"
  tl_group :: "'g client_group_api"
  tl_allocator :: "('a, 'p) allocator_api"
  tl_as_utf8_or_hex :: "string \<Rightarrow> string"
  tl_fits_str0255 :: "nat \<Rightarrow> bool"
  tl_fits_b032 :: "nat \<Rightarrow> bool"
  tl_encode :: "upstream_message \<Rightarrow> (unit, tproxy_error_kind) result"
  tl_tlv_type :: "tlv \<Rightarrow> u16 \<times> u8"
  tl_extension_type_worker_hashrate_tracking :: u16
  tl_field_type_user_identity :: u8
  tl_is_op_return :: "bytes \<Rightarrow> bool"
  tl_decode_outputs :: "bytes \<Rightarrow> (tx_out list, string) result"
  tl_message_types :: message_types
  tl_show_u16_list :: "u16 list \<Rightarrow> string"

section \<open>State\<close>

definition AGGREGATED_TPROXY_MAX_CHANNELS :: u32 where
  "AGGREGATED_TPROXY_MAX_CHANNELS = 65536"

definition AGGREGATED_TPROXY_LOCAL_PREFIX_BYTES :: "('x, 'g, 'a, 'p) tproxy_lib \<Rightarrow> u8" where
  "AGGREGATED_TPROXY_LOCAL_PREFIX_BYTES lib = al_bytes_needed (tl_allocator lib) AGGREGATED_TPROXY_MAX_CHANNELS"

definition NON_AGGREGATED_TPROXY_MAX_CHANNELS :: u32 where
  "NON_AGGREGATED_TPROXY_MAX_CHANNELS = 1"

text \<open>
  \<open>tm_to_upstream\<close> and \<open>tm_to_sv1\<close> are the messages handed to the upstream task and to the SV1
  server, in order.  \<open>tm_expected_payout\<close> is empty until it is set once.
\<close>

record ('x, 'g, 'a) tproxy_manager =
  tm_supported_extensions :: "u16 list"
  tm_required_extensions :: "u16 list"
  tm_pending_downstream_channels :: "(downstream_id, string \<times> f32 \<times> nat) shared_map"
  tm_extended_channels :: "(channel_id, 'x) shared_map"
  tm_group_channels :: "(channel_id, 'g) shared_map"
  tm_share_sequence_counters :: "(u32, u32) shared_map"
  tm_negotiated_extensions :: "u16 list"
  tm_allocator :: "'a option"
  tm_aggregated_state :: aggregated_state
  tm_expected_payout :: "payout_mode option option"
  tm_mode :: tproxy_mode
  tm_to_upstream :: "upstream_message list"
  tm_to_sv1 :: "mining list"

text \<open>Which of the two output queues are open.\<close>

record tm_env =
  tv_upstream_ok :: bool
  tv_sv1_ok :: bool

definition tproxy_manager_new ::
  "u16 list \<Rightarrow> u16 list \<Rightarrow> tproxy_mode \<Rightarrow> ('x, 'g, 'a) tproxy_manager" where
  "tproxy_manager_new supported required mode =
     \<lparr>tm_supported_extensions = supported, tm_required_extensions = required,
      tm_pending_downstream_channels = sm_new, tm_extended_channels = sm_new, tm_group_channels = sm_new,
      tm_share_sequence_counters = sm_new, tm_negotiated_extensions = [], tm_allocator = None,
      tm_aggregated_state = NoChannel, tm_expected_payout = None, tm_mode = mode,
      tm_to_upstream = [], tm_to_sv1 = []\<rparr>"

definition reset_state :: "('x, 'g, 'a) tproxy_manager \<Rightarrow> ('x, 'g, 'a) tproxy_manager" where
  "reset_state tm =
     tm\<lparr>tm_pending_downstream_channels := sm_clear (tm_pending_downstream_channels tm),
        tm_extended_channels := sm_clear (tm_extended_channels tm),
        tm_group_channels := sm_clear (tm_group_channels tm),
        tm_share_sequence_counters := sm_clear (tm_share_sequence_counters tm),
        tm_negotiated_extensions := [], tm_allocator := None, tm_aggregated_state := NoChannel\<rparr>"

definition set_expected_payout_distribution ::
  "payout_mode option \<Rightarrow> (('x, 'g, 'a) tproxy_manager, unit) tcomp" where
  "set_expected_payout_distribution payout_mode tm =
     (if tm_expected_payout tm = None then (Ok (), tm\<lparr>tm_expected_payout := Some payout_mode\<rparr>)
      else (Err TpPanic, tm))"

section \<open>Channels\<close>

definition get_channel :: "channel_id \<Rightarrow> ('x, 'g, 'a) tproxy_manager \<Rightarrow> 'x option" where
  "get_channel c tm = sm_get_cloned (tm_extended_channels tm) c"

definition put_channel :: "channel_id \<Rightarrow> 'x \<Rightarrow> ('x, 'g, 'a) tproxy_manager \<Rightarrow> ('x, 'g, 'a) tproxy_manager" where
  "put_channel c x tm = tm\<lparr>tm_extended_channels := snd (sm_insert c x (tm_extended_channels tm))\<rparr>"

definition change_channel ::
  "channel_id \<Rightarrow> ('x \<Rightarrow> 'x) \<Rightarrow> ('x, 'g, 'a) tproxy_manager \<Rightarrow> ('x, 'g, 'a) tproxy_manager" where
  "change_channel c f tm =
     tm\<lparr>tm_extended_channels := snd (sm_with_mut (tm_extended_channels tm) c (\<lambda>x. ((), f x)))\<rparr>"

text \<open>Dropping a prefix gives its slot back to the allocator, when that is still there.\<close>

definition drop_prefix ::
  "('x, 'g, 'a, 'p) tproxy_lib \<Rightarrow> 'p \<Rightarrow> ('x, 'g, 'a) tproxy_manager \<Rightarrow> ('x, 'g, 'a) tproxy_manager" where
  "drop_prefix lib p tm = tm\<lparr>tm_allocator := map_option (al_release (tl_allocator lib) p) (tm_allocator tm)\<rparr>"

definition drop_channel ::
  "('x, 'g, 'a, 'p) tproxy_lib \<Rightarrow> 'x option \<Rightarrow> ('x, 'g, 'a) tproxy_manager \<Rightarrow> ('x, 'g, 'a) tproxy_manager" where
  "drop_channel lib x tm = (case x of None \<Rightarrow> tm | Some x \<Rightarrow> drop_prefix lib (cx_prefix (tl_extended lib) x) tm)"

definition insert_channel ::
  "('x, 'g, 'a, 'p) tproxy_lib \<Rightarrow> channel_id \<Rightarrow> 'x \<Rightarrow> ('x, 'g, 'a) tproxy_manager \<Rightarrow> ('x, 'g, 'a) tproxy_manager" where
  "insert_channel lib c x tm = drop_channel lib (get_channel c tm) (put_channel c x tm)"

definition remove_channel ::
  "('x, 'g, 'a, 'p) tproxy_lib \<Rightarrow> channel_id \<Rightarrow> ('x, 'g, 'a) tproxy_manager \<Rightarrow> ('x, 'g, 'a) tproxy_manager" where
  "remove_channel lib c tm = drop_channel lib (get_channel c tm)
     (tm\<lparr>tm_extended_channels := snd (sm_remove c (tm_extended_channels tm))\<rparr>)"

definition remove_from_groups ::
  "('x, 'g, 'a, 'p) tproxy_lib \<Rightarrow> channel_id \<Rightarrow> ('x, 'g, 'a) tproxy_manager \<Rightarrow> ('x, 'g, 'a) tproxy_manager" where
  "remove_from_groups lib c tm = tm\<lparr>tm_group_channels := map (\<lambda>(k, g).
     (k, if cg_has_channel_id (tl_group lib) g c then cg_remove_channel_id (tl_group lib) c g else g))
     (tm_group_channels tm)\<rparr>"

section \<open>Sending\<close>

definition send_upstream ::
  "('x, 'g, 'a, 'p) tproxy_lib \<Rightarrow> tm_env \<Rightarrow> upstream_message \<Rightarrow> (('x, 'g, 'a) tproxy_manager, unit) tcomp" where
  "send_upstream lib env m = c_bind (t_try (map_err tp_shutdown (tl_encode lib m))) (\<lambda>_.
     if tv_upstream_ok env then c_modify (\<lambda>tm. tm\<lparr>tm_to_upstream := tm_to_upstream tm @ [m]\<rparr>)
     else t_raise (tp_fallback TkChannelErrorSender))"

definition send_sv1 :: "tm_env \<Rightarrow> mining \<Rightarrow> (('x, 'g, 'a) tproxy_manager, unit) tcomp" where
  "send_sv1 env m = (if tv_sv1_ok env then c_modify (\<lambda>tm. tm\<lparr>tm_to_sv1 := tm_to_sv1 tm @ [m]\<rparr>)
     else t_raise (tp_shutdown TkChannelErrorSender))"

section \<open>Opening channels\<close>

text \<open>The identity under which the shared upstream channel is opened.\<close>

definition translator_identity :: "string \<Rightarrow> string" where
  "translator_identity user_identity =
     (if prefix ''sri/'' user_identity then user_identity
      else if CHR ''.'' \<in> set user_identity
           then takeWhile (\<lambda>c. c \<noteq> CHR ''.'') user_identity @ ''.translator-proxy''
           else user_identity @ ''.translator-proxy'')"

definition tm_next_channel_id :: "('x, 'g, 'a) tproxy_manager \<Rightarrow> channel_id" where
  "tm_next_channel_id tm =
     foldl max 0 (filter (\<lambda>c. c \<noteq> AGGREGATED_CHANNEL_ID) (sm_keys (tm_extended_channels tm))) + 1"

text \<open>
  A new downstream channel starts from the state of the shared one; the result is the job the SV1
  server announces.
\<close>

definition initialize_channel ::
  "('x, 'g, 'a, 'p) tproxy_lib \<Rightarrow> channel_id \<Rightarrow> ('x, 'g, 'a) tproxy_manager
    \<Rightarrow> new_extended_mining_job option \<times> ('x, 'g, 'a) tproxy_manager" where
  "initialize_channel lib c tm = (case get_channel AGGREGATED_CHANNEL_ID tm of
     None \<Rightarrow> (None, tm)
   | Some shared \<Rightarrow>
      (let api = tl_extended lib;
           add_job = (\<lambda>job x. snd (cx_on_new_extended_mining_job api (job\<lparr>nxj_channel_id := c\<rparr>) x));
           tip = (\<lambda>x. case cx_get_chain_tip api shared of None \<Rightarrow> x | Some t \<Rightarrow> cx_set_chain_tip api t x);
           active = (\<lambda>x. case cx_get_active_job api shared of None \<Rightarrow> x | Some j \<Rightarrow> add_job j x);
           future = (\<lambda>x. foldl (\<lambda>x (_, j). add_job j x) x (cx_get_future_jobs api shared))
       in (map_option (\<lambda>j. j\<lparr>nxj_channel_id := AGGREGATED_CHANNEL_ID\<rparr>) (cx_get_active_job api shared),
           change_channel c (\<lambda>x. future (active (tip x))) tm)))"

definition open_aggregated_channel ::
  "('x, 'g, 'a, 'p) tproxy_lib \<Rightarrow> tm_env \<Rightarrow> u32 \<Rightarrow> string \<Rightarrow> f32 \<Rightarrow> nat \<Rightarrow> target \<Rightarrow> 'p
    \<Rightarrow> (('x, 'g, 'a) tproxy_manager, unit) tcomp" where
  "open_aggregated_channel lib env request_id user_identity hashrate min_extranonce_size t p =
     (let bs = al_prefix_bytes (tl_allocator lib) p in
      c_bind (c_get tm_next_channel_id) (\<lambda>c.
      c_bind (c_modify (insert_channel lib c (cx_new (tl_extended lib) c user_identity p t hashrate True
         (word_of_nat min_extranonce_size)))) (\<lambda>_.
      c_bind (if tl_fits_b032 lib (length bs) then c_return () else t_raise (tp_shutdown TkBinarySv2)) (\<lambda>_.
      c_bind (send_sv1 env (OpenExtendedMiningChannelSuccess
         \<lparr>ocs_request_id = request_id, ocs_channel_id = c, ocs_target = target_to_le_bytes t,
          ocs_extranonce_prefix = bs, ocs_group_channel_id = 0\<rparr> (word_of_nat min_extranonce_size))) (\<lambda>_.
      c_bind (\<lambda>tm. let (job, tm) = initialize_channel lib c tm in (Ok job, tm)) (\<lambda>job. case job of
        None \<Rightarrow> c_return ()
      | Some job \<Rightarrow> send_sv1 env (NewExtendedMiningJob job)))))))"

definition handle_downstream_channel_request_in_aggregated_mode ::
  "('x, 'g, 'a, 'p) tproxy_lib \<Rightarrow> tm_env \<Rightarrow> u32 \<Rightarrow> string \<Rightarrow> f32 \<Rightarrow> nat
    \<Rightarrow> (('x, 'g, 'a) tproxy_manager, unit) tcomp" where
  "handle_downstream_channel_request_in_aggregated_mode lib env request_id user_identity hashrate min_extranonce_size =
     c_bind (c_get (get_channel AGGREGATED_CHANNEL_ID)) (\<lambda>shared.
     c_bind (t_expect (map_option (cx_get_target (tl_extended lib)) shared)) (\<lambda>t.
     c_bind (c_get tm_allocator) (\<lambda>a. case a of
       None \<Rightarrow> c_return ()
     | Some a \<Rightarrow>
        (let (allocation, a') = al_allocate_extended (tl_allocator lib) min_extranonce_size a in
         c_bind (c_modify (\<lambda>tm. tm\<lparr>tm_allocator := Some a'\<rparr>)) (\<lambda>_. case allocation of
           Inl _ \<Rightarrow> c_return ()
         | Inr p \<Rightarrow>
            (if al_rollable_extranonce_size (tl_allocator lib) a = min_extranonce_size
             then open_aggregated_channel lib env request_id user_identity hashrate min_extranonce_size t p
             else c_modify (drop_prefix lib p)))))))"

text \<open>The request of the SV1 server that is passed on, with the room the translator needs.\<close>

definition open_upstream ::
  "('x, 'g, 'a, 'p) tproxy_lib \<Rightarrow> tm_env \<Rightarrow> open_extended_mining_channel \<Rightarrow> nat
    \<Rightarrow> (('x, 'g, 'a) tproxy_manager, unit) tcomp" where
  "open_upstream lib env m size_upstream =
     send_upstream lib env (UpMining (OpenExtendedMiningChannel
       (m\<lparr>oem_min_extranonce_size := word_of_nat size_upstream\<rparr>)))"

definition handle_open_request ::
  "('x, 'g, 'a, 'p) tproxy_lib \<Rightarrow> tm_env \<Rightarrow> open_extended_mining_channel
    \<Rightarrow> (('x, 'g, 'a) tproxy_manager, unit) tcomp" where
  "handle_open_request lib env m =
     (let user_identity = tl_as_utf8_or_hex lib (oem_user_identity m);
          hashrate = oem_nominal_hash_rate m; min_extranonce_size = unat (oem_min_extranonce_size m);
          enqueue = c_modify (\<lambda>tm. tm\<lparr>tm_pending_downstream_channels := snd (sm_insert (unat (oem_request_id m))
             (user_identity, hashrate, min_extranonce_size) (tm_pending_downstream_channels tm))\<rparr>) in
      c_bind (c_get id) (\<lambda>tm.
      if is_aggregated (tm_mode tm) then (case tm_aggregated_state tm of
          Connected \<Rightarrow> handle_downstream_channel_request_in_aggregated_mode lib env (oem_request_id m)
            user_identity hashrate min_extranonce_size
        | Pending \<Rightarrow> enqueue
        | NoChannel \<Rightarrow>
            c_bind (c_modify (\<lambda>tm. tm\<lparr>tm_aggregated_state := Pending\<rparr>)) (\<lambda>_.
            c_bind enqueue (\<lambda>_.
            if \<not> tl_fits_str0255 lib (length (translator_identity user_identity)) then c_fail TpPanic
            else open_upstream lib env (m\<lparr>oem_user_identity := translator_identity user_identity\<rparr>)
                   (min_extranonce_size + unat (AGGREGATED_TPROXY_LOCAL_PREFIX_BYTES lib)))))
      else c_bind enqueue (\<lambda>_. open_upstream lib env m min_extranonce_size)))"

section \<open>Shares\<close>

definition next_share_sequence_number :: "u32 \<Rightarrow> (('x, 'g, 'a) tproxy_manager, u32) tcomp" where
  "next_share_sequence_number counter_key tm =
     (let counter = (case sm_get_cloned (tm_share_sequence_counters tm) counter_key of None \<Rightarrow> 0 | Some n \<Rightarrow> n) + 1
      in (Ok counter, tm\<lparr>tm_share_sequence_counters :=
            snd (sm_insert counter_key counter (tm_share_sequence_counters tm))\<rparr>))"

text \<open>
  The extranonce as the upstream expects it: the bytes of the prefix that are the translator's own,
  then those of the miner.  Slicing beyond the prefix would panic.
\<close>

definition rewrite_extranonce ::
  "('x, 'g, 'a, 'p) tproxy_lib \<Rightarrow> bytes \<Rightarrow> nat \<Rightarrow> submit_shares_extended
    \<Rightarrow> (('x, 'g, 'a) tproxy_manager, submit_shares_extended) tcomp" where
  "rewrite_extranonce lib downstream_prefix upstream_prefix_len m =
     (if length downstream_prefix < upstream_prefix_len then c_fail TpPanic
      else let e = drop upstream_prefix_len downstream_prefix @ sse_extranonce m in
        if tl_fits_b032 lib (length e) then c_return (m\<lparr>sse_extranonce := e\<rparr>)
        else t_raise (tp_shutdown TkBinarySv2))"

definition validate_on_channel ::
  "('x, 'g, 'a, 'p) tproxy_lib \<Rightarrow> channel_id \<Rightarrow> submit_shares_extended \<Rightarrow> (('x, 'g, 'a) tproxy_manager, bool) tcomp" where
  "validate_on_channel lib c m tm = (case get_channel c tm of
     None \<Rightarrow> (Ok False, tm)
   | Some x \<Rightarrow> (let (r, x') = cx_validate_share (tl_extended lib) m x in (Ok (is_ok r), put_channel c x' tm)))"

definition aggregated_share ::
  "('x, 'g, 'a, 'p) tproxy_lib \<Rightarrow> submit_shares_extended
    \<Rightarrow> (('x, 'g, 'a) tproxy_manager, submit_shares_extended option) tcomp" where
  "aggregated_share lib m = c_bind (c_get id) (\<lambda>tm.
     let downstream_prefix = map_option (cx_get_extranonce_prefix (tl_extended lib)) (get_channel (sse_channel_id m) tm);
         upstream_prefix_len = map_option (al_upstream_prefix_len (tl_allocator lib)) (tm_allocator tm) in
     c_bind (case (downstream_prefix, upstream_prefix_len) of
               (Some p, Some n) \<Rightarrow> rewrite_extranonce lib p n m
             | _ \<Rightarrow> c_return m) (\<lambda>m.
     c_bind (t_expect (map_option (cx_get_channel_id (tl_extended lib)) (get_channel AGGREGATED_CHANNEL_ID tm))) (\<lambda>c.
     let m = m\<lparr>sse_channel_id := c\<rparr> in
     c_bind (validate_on_channel lib AGGREGATED_CHANNEL_ID m) (\<lambda>valid.
     if valid then c_bind (next_share_sequence_number c) (\<lambda>n. c_return (Some (m\<lparr>sse_sequence_number := n\<rparr>)))
     else c_return None))))"

definition own_channel_share ::
  "('x, 'g, 'a, 'p) tproxy_lib \<Rightarrow> submit_shares_extended
    \<Rightarrow> (('x, 'g, 'a) tproxy_manager, submit_shares_extended option) tcomp" where
  "own_channel_share lib m =
     c_bind (validate_on_channel lib (sse_channel_id m) m) (\<lambda>valid.
     if valid then
       c_bind (next_share_sequence_number (sse_channel_id m)) (\<lambda>n.
       c_bind (c_get (get_channel (sse_channel_id m))) (\<lambda>x.
       let m = m\<lparr>sse_sequence_number := n\<rparr>; api = tl_extended lib in
       case x of
         None \<Rightarrow> c_return (Some m)
       | Some x \<Rightarrow> (case cx_upstream_prefix_len api x of
           None \<Rightarrow> c_return (Some m)
         | Some k \<Rightarrow> c_bind (rewrite_extranonce lib (cx_get_extranonce_prefix api x) k m)
             (\<lambda>m. c_return (Some m)))))
     else c_return None)"

definition is_user_identity_tlv :: "('x, 'g, 'a, 'p) tproxy_lib \<Rightarrow> tlv \<Rightarrow> bool" where
  "is_user_identity_tlv lib t =
     (tl_tlv_type lib t = (tl_extension_type_worker_hashrate_tracking lib, tl_field_type_user_identity lib))"

definition forward_share ::
  "('x, 'g, 'a, 'p) tproxy_lib \<Rightarrow> tm_env \<Rightarrow> submit_shares_extended \<Rightarrow> tlv list option
    \<Rightarrow> (('x, 'g, 'a) tproxy_manager, unit) tcomp" where
  "forward_share lib env m tlv_fields = c_bind (c_get tm_negotiated_extensions) (\<lambda>negotiated.
     let user_identity_tlv =
       (if tl_extension_type_worker_hashrate_tracking lib \<in> set negotiated
        then (case tlv_fields of None \<Rightarrow> None | Some tlvs \<Rightarrow> find (is_user_identity_tlv lib) tlvs) else None)
     in send_upstream lib env (case user_identity_tlv of
          Some t \<Rightarrow> UpMiningTlv (SubmitSharesExtended m) t
        | None \<Rightarrow> UpMining (SubmitSharesExtended m)))"

definition handle_share ::
  "('x, 'g, 'a, 'p) tproxy_lib \<Rightarrow> tm_env \<Rightarrow> submit_shares_extended \<Rightarrow> tlv list option
    \<Rightarrow> (('x, 'g, 'a) tproxy_manager, unit) tcomp" where
  "handle_share lib env m tlv_fields = c_bind (c_get id) (\<lambda>tm.
     c_bind (if is_aggregated (tm_mode tm) \<and> sm_contains_key (tm_extended_channels tm) AGGREGATED_CHANNEL_ID
             then aggregated_share lib m else own_channel_share lib m) (\<lambda>share. case share of
       None \<Rightarrow> c_return ()
     | Some m \<Rightarrow> forward_share lib env m tlv_fields))"

section \<open>Updates and closing\<close>

definition handle_update_request ::
  "('x, 'g, 'a, 'p) tproxy_lib \<Rightarrow> tm_env \<Rightarrow> update_channel \<Rightarrow> (('x, 'g, 'a) tproxy_manager, unit) tcomp" where
  "handle_update_request lib env m = c_bind (c_get id) (\<lambda>tm.
     let api = tl_extended lib; set_hashrate = cx_set_nominal_hashrate api (uc_nominal_hash_rate m) in
     if is_aggregated (tm_mode tm) then (case get_channel AGGREGATED_CHANNEL_ID tm of
         None \<Rightarrow> c_return ()
       | Some x \<Rightarrow> c_bind (c_modify (put_channel AGGREGATED_CHANNEL_ID (set_hashrate x))) (\<lambda>_.
           send_upstream lib env (UpMining (UpdateChannel
             (m\<lparr>uc_channel_id := cx_get_channel_id api (set_hashrate x)\<rparr>)))))
     else c_bind (c_modify (change_channel (uc_channel_id m) set_hashrate)) (\<lambda>_.
       send_upstream lib env (UpMining (UpdateChannel m))))"

definition handle_close_request ::
  "('x, 'g, 'a, 'p) tproxy_lib \<Rightarrow> tm_env \<Rightarrow> channel_id \<Rightarrow> string \<Rightarrow> (('x, 'g, 'a) tproxy_manager, unit) tcomp" where
  "handle_close_request lib env c reason = c_bind (c_get (\<lambda>tm. is_aggregated (tm_mode tm))) (\<lambda>aggregated.
     if aggregated \<and> c = AGGREGATED_CHANNEL_ID then c_return ()
     else c_bind (c_modify (\<lambda>tm. remove_from_groups lib c (remove_channel lib c tm))) (\<lambda>_.
       if aggregated then c_return ()
       else send_upstream lib env (UpMining (CloseChannelRequest c reason))))"

text \<open>A message of the SV1 server; \<^const>\<open>None\<close> is a closed queue.\<close>

definition tm_handle_downstream_message ::
  "('x, 'g, 'a, 'p) tproxy_lib \<Rightarrow> tm_env \<Rightarrow> (mining_from_client \<times> tlv list option) option
    \<Rightarrow> (('x, 'g, 'a) tproxy_manager, unit) tcomp" where
  "tm_handle_downstream_message lib env received = (case received of
     None \<Rightarrow> t_raise (tp_shutdown TkChannelErrorReceiver)
   | Some (message, tlv_fields) \<Rightarrow> (case message of
       OpenExtendedMiningChannel m \<Rightarrow> handle_open_request lib env m
     | SubmitSharesExtended m \<Rightarrow> handle_share lib env m tlv_fields
     | UpdateChannel m \<Rightarrow> handle_update_request lib env m
     | CloseChannelRequest c reason \<Rightarrow> handle_close_request lib env c reason
     | _ \<Rightarrow> c_return ()))"

end
