(* ===== verification/Tproxy_Instance.thy ===== *)
theory Tproxy_Instance
  imports Tproxy_Types
begin

text \<open>
  What the SV1 crates document, as far as theorems rely on it, and a concrete library that
  satisfies it, on which the theorems about the translator are evaluated.
\<close>

text \<open>
  The built difficulty message is a \<open>mining.set_difficulty\<close>, and a job becomes a \<open>mining.notify\<close>
  from which it can be read back.
\<close>

definition sv1_messages_ok :: "('j, 'v) sv1_lib \<Rightarrow> bool" where
  "sv1_messages_ok lib \<longleftrightarrow>
     (\<forall>t m. sl_build_set_difficulty lib t = Ok m \<longrightarrow> (\<exists>p. m = Notification ''mining.set_difficulty'' p)) \<and>
     (\<forall>n. \<exists>p. sl_notify_into lib n = Notification ''mining.notify'' p \<and>
        sl_notify_try_from lib ''mining.notify'' p = Some n)"

text \<open>
  A library whose JSON payloads are the values themselves.  The vardiff state is the hash rate the
  next adjustment asks for; the hash of a header is its nonce.
\<close>

datatype demo_json =
    DjNotify notify
  | DjTarget target
  | DjSubmit submit
  | DjName string
  | DjBool bool

definition demo_dispatch :: "demo_json json_message \<Rightarrow> demo_json dispatch" where
  "demo_dispatch m = (case m of
     StandardRequest _ (DjSubmit s) \<Rightarrow> Ask (CallIsAuthorized (sb_user_name s)) (\<lambda>r.
       if r = Ok (AnsBool True)
       then Ask (CallSubmit s) (\<lambda>r. Done (Ok (Some (DjBool (r = Ok (AnsBool True))))))
       else Done (Ok (Some (DjBool False))))
   | StandardRequest _ (DjName name) \<Rightarrow> Ask CallAuthorize (\<lambda>_.
       Ask (CallAuthorizeWorker name) (\<lambda>_. Done (Ok (Some (DjBool True)))))
   | _ \<Rightarrow> Done (Ok None))"

definition demo_notify :: notify where
  "demo_notify = \<lparr>nf_job_id = ''1'', nf_prev_hash = replicate 32 0, nf_coin_base1 = [], nf_coin_base2 = [],
     nf_merkle_branch = [], nf_version = 0x20000000, nf_bits = 0, nf_time = 1000, nf_clean_jobs = True\<rparr>"

definition demo_difficulty :: "target \<Rightarrow> demo_json json_message" where
  "demo_difficulty t = Notification ''mining.set_difficulty'' (DjTarget t)"

definition demo_sv1_lib :: "(demo_json, f32 option) sv1_lib" where
  "demo_sv1_lib =
     \<lparr>sl_handle_message = demo_dispatch,
      sl_notify_try_from = (\<lambda>_ p. case p of DjNotify n \<Rightarrow> Some n | _ \<Rightarrow> None),
      sl_notify_into = (\<lambda>n. Notification ''mining.notify'' (DjNotify n)),
      sl_build_set_difficulty = (\<lambda>t. Ok (demo_difficulty t)),
      sl_build_notify = (\<lambda>p m c. Ok \<lparr>nf_job_id = dec_nat (unat (nxj_job_id m)), nf_prev_hash = snp_prev_hash p,
         nf_coin_base1 = nxj_coinbase_tx_prefix m, nf_coin_base2 = nxj_coinbase_tx_suffix m,
         nf_merkle_branch = nxj_merkle_path m, nf_version = nxj_version m, nf_bits = snp_nbits p,
         nf_time = (case nxj_min_ntime m of None \<Rightarrow> snp_min_ntime p | Some t \<Rightarrow> t), nf_clean_jobs = c\<rparr>),
      sl_build_submit = (\<lambda>s c n v k. Ok \<lparr>sse_channel_id = c, sse_sequence_number = n, sse_job_id = 0,
         sse_nonce = sb_nonce s, sse_ntime = sb_time s, sse_version = rolled_version v (sb_version_bits s) k,
         sse_extranonce = sb_extra_nonce2 s\<rparr>),
      sl_build_open = (\<lambda>r u h t e. Ok \<lparr>oem_request_id = r, oem_user_identity = u, oem_nominal_hash_rate = h,
         oem_max_target = target_to_le_bytes t, oem_min_extranonce_size = e\<rparr>),
      sl_hash_rate_to_target = (\<lambda>h _. case h of Fin q \<Rightarrow> Ok (1000 - word_of_int \<lfloor>q\<rfloor>) | _ \<Rightarrow> Err []),
      sl_hash_rate_from_target = (\<lambda>_ _. Err []),
      sl_version_rolling_params_ok = (\<lambda>_ _. True),
      sl_user_identity_tlv = (\<lambda>s. if length s \<le> 32 then Ok (Some (str_bytes s)) else Err ''too long''),
      sl_extranonce_try_from = (\<lambda>b. if length b \<le> 32 then Ok b else Err TkSV1Error),
      sl_u256_ok = (\<lambda>b. length b = 32),
      sl_merkle_root_from_path = (\<lambda>_ _ _ _. Some (replicate 32 0)),
      sl_block_hash = (\<lambda>h. le_bytes 32 (unat (bh_nonce h))),
      sl_vardiff = \<lparr>vd_try_vardiff = (\<lambda>_ _ _ v. (Ok v, v)),
        vd_increment_shares_since_last_update = (\<lambda>v. v)\<rparr>\<rparr>"

lemma demo_sv1_lib_simps:
  "sl_build_set_difficulty demo_sv1_lib t = Ok (demo_difficulty t)"
  "sl_notify_into demo_sv1_lib n = Notification ''mining.notify'' (DjNotify n)"
  "sl_notify_try_from demo_sv1_lib m (DjNotify n) = Some n"
  "sl_version_rolling_params_ok demo_sv1_lib v b"
  "sl_handle_message demo_sv1_lib = demo_dispatch"
  "sl_hash_rate_to_target demo_sv1_lib (Fin q) s = Ok (1000 - word_of_int \<lfloor>q\<rfloor>)"
  "sl_u256_ok demo_sv1_lib bs \<longleftrightarrow> length bs = 32"
  "sl_merkle_root_from_path demo_sv1_lib x y z path = Some (replicate 32 0)"
  "sl_block_hash demo_sv1_lib h = le_bytes 32 (unat (bh_nonce h))"
  "vd_try_vardiff (sl_vardiff demo_sv1_lib) r tb spm w = (Ok w, w)"
  "vd_increment_shares_since_last_update (sl_vardiff demo_sv1_lib) w = w"
  "sl_user_identity_tlv demo_sv1_lib u = (if length u \<le> 32 then Ok (Some (str_bytes u)) else Err ''too long'')"
  by (simp_all add: demo_sv1_lib_def)

lemma demo_build_notify_id:
  "sl_build_notify demo_sv1_lib p j c = Ok n \<Longrightarrow> nf_job_id n = dec_nat (unat (nxj_job_id j))"
  by (auto simp: demo_sv1_lib_def)

lemma demo_build_submit:
  "sl_build_submit demo_sv1_lib s c n v k = Ok \<lparr>sse_channel_id = c, sse_sequence_number = n, sse_job_id = 0,
     sse_nonce = sb_nonce s, sse_ntime = sb_time s, sse_version = rolled_version v (sb_version_bits s) k,
     sse_extranonce = sb_extra_nonce2 s\<rparr>"
  by (simp add: demo_sv1_lib_def)

lemma demo_messages_ok: "sv1_messages_ok demo_sv1_lib"
  by (simp add: sv1_messages_ok_def demo_sv1_lib_simps demo_difficulty_def)

end
