(* ===== verification/Sv1_Downstream.thy ===== *)
theory Sv1_Downstream
  imports Tproxy_Instance
begin

text \<open>
  One SV1 miner connected to the translator (\<open>sv1/downstream.rs\<close>): its data, the task that hands
  the messages of the SV1 server to the miner, and the end of the SV1 handshake.

  \<open>dn_to_miner\<close> is the list of the messages handed to the connection, in order; \<open>dn_to_server\<close> the
  list of the messages of the miner handed to the SV1 server.  All queues are unbounded, so a send
  never waits; it fails when the receiver is closed, which is an input of each operation.
\<close>

record 'j downstream_data =
  dd_channel_id :: "channel_id option"
  dd_extranonce1 :: bytes
  dd_extranonce2_len :: nat
  dd_target :: target
  dd_hashrate :: "f32 option"
  dd_version_rolling_mask :: "u32 option"
  dd_version_rolling_min_bit :: "u32 option"
  dd_last_job_version_field :: "u32 option"
  dd_authorized_worker_name :: string
  dd_user_identity :: string
  dd_cached_set_difficulty :: "'j json_message option"
  dd_cached_notify :: "'j json_message option"
  dd_pending_target :: "target option"
  dd_pending_hashrate :: "f32 option"
  dd_stable_hashrate :: bool
  dd_queued_sv1_handshake_messages :: "'j json_message list"
  dd_pending_share :: "submit_share_with_channel_id option"
  dd_upstream_target :: "target option"
  dd_last_job_received_time :: "nat option"

record 'j sv1_downstream =
  dn_downstream_id :: downstream_id
  dn_data :: "'j downstream_data"
  dn_sv1_handshake_complete :: bool
  dn_cancelled :: bool
  dn_to_miner :: "'j json_message list"
  dn_to_server :: "(downstream_id \<times> 'j json_message) list"

definition downstream_data_new :: "f32 option \<Rightarrow> target \<Rightarrow> 'j downstream_data" where
  "downstream_data_new hashrate target =
     \<lparr>dd_channel_id = None, dd_extranonce1 = replicate 8 0, dd_extranonce2_len = 4,
      dd_target = target, dd_hashrate = hashrate, dd_version_rolling_mask = None,
      dd_version_rolling_min_bit = None, dd_last_job_version_field = None,
      dd_authorized_worker_name = [], dd_user_identity = [], dd_cached_set_difficulty = None,
      dd_cached_notify = None, dd_pending_target = None, dd_pending_hashrate = None,
      dd_stable_hashrate = False, dd_queued_sv1_handshake_messages = [], dd_pending_share = None,
      dd_upstream_target = None, dd_last_job_received_time = None\<rparr>"

definition set_pending_target :: "target \<Rightarrow> 'j downstream_data \<Rightarrow> 'j downstream_data" where
  "set_pending_target t d = d\<lparr>dd_pending_target := Some t\<rparr>"

definition set_pending_hashrate :: "f32 option \<Rightarrow> 'j downstream_data \<Rightarrow> 'j downstream_data" where
  "set_pending_hashrate h d = d\<lparr>dd_pending_hashrate := h\<rparr>"

definition set_upstream_target :: "target \<Rightarrow> 'j downstream_data \<Rightarrow> 'j downstream_data" where
  "set_upstream_target t d = d\<lparr>dd_upstream_target := Some t\<rparr>"

definition sv1_downstream_new :: "downstream_id \<Rightarrow> target \<Rightarrow> f32 option \<Rightarrow> 'j sv1_downstream" where
  "sv1_downstream_new d target hashrate =
     \<lparr>dn_downstream_id = d, dn_data = downstream_data_new hashrate target,
      dn_sv1_handshake_complete = False, dn_cancelled = False, dn_to_miner = [], dn_to_server = []\<rparr>"

text \<open>\<open>downstream_data.super_safe_lock\<close> with a closure that changes the data.\<close>

definition on_data :: "('j downstream_data \<Rightarrow> 'j downstream_data) \<Rightarrow> 'j sv1_downstream \<Rightarrow> 'j sv1_downstream" where
  "on_data f n = n\<lparr>dn_data := f (dn_data n)\<rparr>"

text \<open>Sending to the miner; \<open>ok\<close> is whether the connection's queue is open.\<close>

definition send_to_miner :: "bool \<Rightarrow> 'j json_message \<Rightarrow> ('j sv1_downstream, unit) tcomp" where
  "send_to_miner ok m = c_bind (c_get dn_downstream_id) (\<lambda>d.
     if ok then c_modify (\<lambda>n. n\<lparr>dn_to_miner := dn_to_miner n @ [m]\<rparr>)
     else t_raise (tp_disconnect TkChannelErrorSender d))"

definition opt_send :: "bool \<Rightarrow> 'j json_message option \<Rightarrow> ('j sv1_downstream, unit) tcomp" where
  "opt_send ok m = (case m of None \<Rightarrow> c_return () | Some x \<Rightarrow> send_to_miner ok x)"

text \<open>The target and hash rate that go with an announced difficulty become current.\<close>

definition apply_pending :: "'j downstream_data \<Rightarrow> 'j downstream_data" where
  "apply_pending d =
     d\<lparr>dd_target := (case dd_pending_target d of None \<Rightarrow> dd_target d | Some t \<Rightarrow> t),
       dd_pending_target := None,
       dd_hashrate := (case dd_pending_hashrate d of None \<Rightarrow> dd_hashrate d | Some h \<Rightarrow> Some h),
       dd_pending_hashrate := None\<rparr>"

text \<open>
  The data after a notification of a job, and what is sent for it: the cached difficulty first,
  then the job, with \<open>clean_jobs\<close> set when the difficulty changes.
\<close>

definition prepare_notify ::
  "nat \<Rightarrow> notify option \<Rightarrow> 'j downstream_data
    \<Rightarrow> ('j json_message option \<times> notify option) \<times> 'j downstream_data" where
  "prepare_notify now notify_result d =
     (let cached = dd_cached_set_difficulty d; d = d\<lparr>dd_cached_set_difficulty := None\<rparr> in
      case notify_result of
        None \<Rightarrow> ((cached, None), d)
      | Some notify \<Rightarrow>
         (let notify = (if cached \<noteq> None then notify\<lparr>nf_clean_jobs := True\<rparr> else notify);
              d = d\<lparr>dd_last_job_version_field := Some (nf_version notify)\<rparr>;
              d = (if cached \<noteq> None then apply_pending d else d)
          in ((cached, Some notify), d\<lparr>dd_last_job_received_time := Some now\<rparr>)))"

definition handle_sv1_server_message ::
  "('j, 'v) sv1_lib \<Rightarrow> bool \<Rightarrow> nat \<Rightarrow> 'j json_message option \<Rightarrow> ('j sv1_downstream, unit) tcomp" where
  "handle_sv1_server_message lib ok now received = (case received of
     None \<Rightarrow> c_bind (c_get dn_downstream_id) (\<lambda>d. t_raise (tp_disconnect TkChannelErrorReceiver d))
   | Some message \<Rightarrow> c_bind (c_get dn_sv1_handshake_complete) (\<lambda>handshake_complete.
      case message of
        Notification method payload \<Rightarrow>
         (if handshake_complete then
            (if method = ''mining.set_difficulty''
             then c_modify (on_data (\<lambda>d. d\<lparr>dd_cached_set_difficulty := Some message\<rparr>))
             else if method = ''mining.notify''
             then c_bind (\<lambda>n. let (r, d) = prepare_notify now (sl_notify_try_from lib method payload) (dn_data n)
                              in (Ok r, n\<lparr>dn_data := d\<rparr>)) (\<lambda>(pending_set_difficulty, notify_opt).
                  c_bind (opt_send ok pending_set_difficulty) (\<lambda>_.
                  opt_send ok (map_option (sl_notify_into lib) notify_opt)))
             else send_to_miner ok message)
          else
            (if method = ''mining.set_difficulty''
             then c_modify (on_data (\<lambda>d. d\<lparr>dd_cached_set_difficulty := Some message\<rparr>))
             else if method = ''mining.notify''
             then c_bind (c_modify (on_data (\<lambda>d. d\<lparr>dd_cached_notify := Some message\<rparr>))) (\<lambda>_.
                  c_bind (t_expect (sl_notify_try_from lib method payload)) (\<lambda>notify.
                  c_modify (on_data (\<lambda>d. d\<lparr>dd_last_job_version_field := Some (nf_version notify)\<rparr>))))
             else c_return ()))
      | _ \<Rightarrow> c_return ()))"

text \<open>A message of the miner is handed to the SV1 server; \<open>ok\<close> is whether its queue is open.\<close>

definition forward_miner_message ::
  "bool \<Rightarrow> 'j json_message option \<Rightarrow> ('j sv1_downstream, unit) tcomp" where
  "forward_miner_message ok received = c_bind (c_get dn_downstream_id) (\<lambda>d. case received of
     None \<Rightarrow> t_raise (tp_disconnect TkChannelErrorReceiver d)
   | Some m \<Rightarrow>
      (if ok then c_modify (\<lambda>n. n\<lparr>dn_to_server := dn_to_server n @ [(d, m)]\<rparr>)
       else t_raise (tp_shutdown TkChannelErrorSender)))"

definition handle_sv1_handshake_completion ::
  "bool \<Rightarrow> nat \<Rightarrow> ('j sv1_downstream, unit) tcomp" where
  "handle_sv1_handshake_completion ok now =
     c_bind (c_get (\<lambda>n. (dd_cached_set_difficulty (dn_data n), dd_cached_notify (dn_data n))))
       (\<lambda>(cached_set_difficulty, cached_notify).
     c_bind (c_modify (\<lambda>n. on_data (\<lambda>d. d\<lparr>dd_cached_set_difficulty := None, dd_cached_notify := None\<rparr>)
               (n\<lparr>dn_sv1_handshake_complete := True\<rparr>))) (\<lambda>_.
     c_bind (case cached_set_difficulty of
               None \<Rightarrow> c_return ()
             | Some m \<Rightarrow> c_bind (send_to_miner ok m) (\<lambda>_. c_modify (on_data apply_pending))) (\<lambda>_.
     case cached_notify of
       None \<Rightarrow> c_return ()
     | Some m \<Rightarrow> c_bind (send_to_miner ok m) (\<lambda>_.
         c_modify (on_data (\<lambda>d. d\<lparr>dd_last_job_received_time := Some now\<rparr>))))))"

text \<open>
  The action of an error in the task's loop: whether the loop ends, whether the global token is
  cancelled, and the connection.
\<close>

definition dn_handle_error_action ::
  "bool \<Rightarrow> bool \<Rightarrow> tproxy_error \<Rightarrow> 'j sv1_downstream \<Rightarrow> loop_control \<times> bool \<times> 'j sv1_downstream" where
  "dn_handle_error_action cancelled fallback e n =
     (if cancelled then (LoopContinue, cancelled, n)
      else if fallback then (LoopContinue, cancelled, n)
      else (case te_action e of
              TpLog \<Rightarrow> (LoopContinue, cancelled, n)
            | TpDisconnect _ \<Rightarrow> (LoopBreak, cancelled, n\<lparr>dn_cancelled := True\<rparr>)
            | TpShutdown \<Rightarrow> (LoopBreak, True, n)
            | TpFallback \<Rightarrow> (LoopContinue, cancelled, n)))"

lemmas downstream_op_defs =
  send_to_miner_def opt_send_def on_data_def c_bind_def c_get_def c_modify_def c_return_def
  t_raise_def t_expect_def c_fail_def

section \<open>Difficulty and jobs at the miner\<close>

definition is_set_difficulty :: "'j json_message \<Rightarrow> bool" where
  "is_set_difficulty m = (case m of Notification method _ \<Rightarrow> method = ''mining.set_difficulty'' | _ \<Rightarrow> False)"

text \<open>The difficulty message the miner received last.\<close>

definition announced_difficulty :: "'j sv1_downstream \<Rightarrow> 'j json_message option" where
  "announced_difficulty n = find is_set_difficulty (rev (dn_to_miner n))"

text \<open>
  The life of a connection as the server drives it, with each difficulty message following the
  change of the pending target it belongs to.
\<close>

datatype dn_event =
    DnDifficulty target "f32 option"
  | DnJob notify nat
  | DnHandshake nat

definition dn_step :: "('j, 'v) sv1_lib \<Rightarrow> 'j sv1_downstream \<Rightarrow> dn_event \<Rightarrow> 'j sv1_downstream" where
  "dn_step lib n ev = (case ev of
     DnDifficulty t h \<Rightarrow>
       (let n = on_data (set_pending_hashrate h) (on_data (set_pending_target t) n) in
        case sl_build_set_difficulty lib t of
          Inl _ \<Rightarrow> n
        | Inr m \<Rightarrow> snd (handle_sv1_server_message lib True 0 (Some m) n))
   | DnJob job now \<Rightarrow> snd (handle_sv1_server_message lib True now (Some (sl_notify_into lib job)) n)
   | DnHandshake now \<Rightarrow> snd (handle_sv1_handshake_completion True now n))"

definition difficulty_synced :: "('j, 'v) sv1_lib \<Rightarrow> target \<Rightarrow> 'j sv1_downstream \<Rightarrow> bool" where
  "difficulty_synced lib first_target n \<longleftrightarrow>
     (case dd_cached_set_difficulty (dn_data n) of
        None \<Rightarrow> dd_pending_target (dn_data n) = None
      | Some m \<Rightarrow> (\<exists>t. dd_pending_target (dn_data n) = Some t \<and> sl_build_set_difficulty lib t = Ok m)) \<and>
     (case dd_cached_notify (dn_data n) of None \<Rightarrow> True | Some m \<Rightarrow> \<not> is_set_difficulty m) \<and>
     (case announced_difficulty n of
        None \<Rightarrow> dd_target (dn_data n) = first_target
      | Some m \<Rightarrow> sl_build_set_difficulty lib (dd_target (dn_data n)) = Ok m)"

lemma announced_send:
  "announced_difficulty (n\<lparr>dn_to_miner := dn_to_miner n @ [m]\<rparr>) =
     (if is_set_difficulty m then Some m else announced_difficulty n)"
  "announced_difficulty (n\<lparr>dn_to_miner := ms @ [m]\<rparr>) =
     (if is_set_difficulty m then Some m else find is_set_difficulty (rev ms))"
  by (simp_all add: announced_difficulty_def)

lemma announced_data [simp]:
  "announced_difficulty (on_data f n) = announced_difficulty n"
  "announced_difficulty (n\<lparr>dn_data := d\<rparr>) = announced_difficulty n"
  "announced_difficulty (n\<lparr>dn_sv1_handshake_complete := b\<rparr>) = announced_difficulty n"
  by (simp_all add: announced_difficulty_def on_data_def)

lemma is_set_difficulty_simps [simp]:
  "is_set_difficulty (Notification method p) \<longleftrightarrow> method = ''mining.set_difficulty''"
  "\<not> is_set_difficulty (Response p)" "\<not> is_set_difficulty (StandardRequest method p)"
  by (simp_all add: is_set_difficulty_def)

lemma messages_okD:
  assumes "sv1_messages_ok lib"
  obtains p where "sl_notify_into lib job = Notification ''mining.notify'' p"
    "sl_notify_try_from lib ''mining.notify'' p = Some job"
  using assms unfolding sv1_messages_ok_def by blast

lemma notify_not_set_difficulty: "sv1_messages_ok lib \<Longrightarrow> \<not> is_set_difficulty (sl_notify_into lib job)"
  by (erule messages_okD [where job = job]) simp

lemma built_is_set_difficulty:
  "sv1_messages_ok lib \<Longrightarrow> sl_build_set_difficulty lib t = Ok m \<Longrightarrow> is_set_difficulty m"
  unfolding sv1_messages_ok_def by (metis is_set_difficulty_simps(1))

lemma dn_step_synced:
  assumes "sv1_messages_ok lib" "difficulty_synced lib t0 n"
    and "\<And>t h. ev = DnDifficulty t h \<Longrightarrow> is_ok (sl_build_set_difficulty lib t)"
  shows "difficulty_synced lib t0 (dn_step lib n ev)"
proof (cases ev)
  case (DnDifficulty t h)
  with assms(3) obtain m where m: "sl_build_set_difficulty lib t = Ok m"
    by (cases "sl_build_set_difficulty lib t") auto
  with assms(1) obtain p where "m = Notification ''mining.set_difficulty'' p"
    unfolding sv1_messages_ok_def by blast
  with assms(2) DnDifficulty m show ?thesis
    by (auto simp: dn_step_def difficulty_synced_def handle_sv1_server_message_def downstream_op_defs
        set_pending_target_def set_pending_hashrate_def Let_def split: option.splits)
next
  case (DnJob job now)
  obtain p where p: "sl_notify_into lib job = Notification ''mining.notify'' p"
      "sl_notify_try_from lib ''mining.notify'' p = Some job"
    using messages_okD [OF assms(1)] .
  show ?thesis
    using assms(2) DnJob p notify_not_set_difficulty [OF assms(1)] built_is_set_difficulty [OF assms(1)]
    by (auto simp: dn_step_def difficulty_synced_def handle_sv1_server_message_def downstream_op_defs
        prepare_notify_def apply_pending_def Let_def announced_difficulty_def split: option.splits)
next
  case (DnHandshake now)
  then show ?thesis
    using assms(2) built_is_set_difficulty [OF assms(1)]
    by (auto simp: dn_step_def difficulty_synced_def handle_sv1_handshake_completion_def downstream_op_defs
        apply_pending_def announced_difficulty_def split: option.splits)
qed


lemmas dn_run_defs =
  dn_step_def handle_sv1_server_message_def handle_sv1_handshake_completion_def downstream_op_defs
  prepare_notify_def apply_pending_def set_pending_target_def set_pending_hashrate_def
  sv1_downstream_new_def downstream_data_new_def announced_difficulty_def Let_def


end
