(* ===== verification/Sv1_Server.thy ===== *)
theory Sv1_Server
  imports Sv1_Downstream
begin

text \<open>
  The SV1 server of the translator (\<open>sv1/sv1_server/mod.rs\<close>, \<open>downstream_message_handler.rs\<close> and
  \<open>difficulty_manager.rs\<close>): the methods of \<open>IsServer\<close>, share submission, channel opening, messages
  of the channel manager, difficulty management, keepalive jobs, disconnection and cleanup.

  The server is one task; each handler runs to its end before the next (all queues are unbounded,
  so no send waits).  \<open>ss_to_downstream\<close> and \<open>ss_to_cm\<close> are the messages handed to the tasks of the
  connections and to the channel manager, in order.  The telemetry map of the monitoring feature
  is left out.
\<close>

record pending_target_update =
  ptu_downstream_id :: downstream_id
  ptu_new_target :: target

record ('j, 'v) sv1_server =
  ss_config :: downstream_difficulty_config
  ss_downstream_extranonce2_size :: u16
  ss_mode :: tproxy_mode
  ss_sequence_counter :: u32
  ss_miner_counter :: u32
  ss_keepalive_job_id_counter :: u32
  ss_downstream_id_factory :: nat
  ss_request_id_factory :: u32
  ss_downstreams :: "(downstream_id, 'j sv1_downstream) shared_map"
  ss_senders :: "(downstream_id, unit) shared_map"
  ss_request_id_to_downstream_id :: "(u32, downstream_id) shared_map"
  ss_channel_id_to_downstream_id :: "(channel_id, downstream_id) shared_map"
  ss_vardiff :: "(downstream_id, 'v) shared_map"
  ss_prevhashes :: "(channel_id, set_new_prev_hash) shared_map"
  ss_pending_target_updates :: "pending_target_update list"
  ss_valid_sv1_jobs :: "(channel_id, notify list) shared_map"
  ss_user_identity :: "string option"
  ss_to_downstream :: "(downstream_id \<times> 'j json_message) list"
  ss_to_cm :: "(mining_from_client \<times> tlv list option) list"

text \<open>The inputs of one event: the clock in milliseconds and which queues are open.\<close>

record sv1_env =
  se_now :: nat
  se_miner_ok :: "downstream_id \<Rightarrow> bool"
  se_task_ok :: "downstream_id \<Rightarrow> bool"
  se_cm_ok :: bool

section \<open>Construction and access\<close>

definition sv1_server_new ::
  "downstream_difficulty_config \<Rightarrow> u16 \<Rightarrow> tproxy_mode \<Rightarrow> ('j, 'v) sv1_server" where
  "sv1_server_new config extranonce2_size mode =
     \<lparr>ss_config = config, ss_downstream_extranonce2_size = extranonce2_size, ss_mode = mode,
      ss_sequence_counter = 1, ss_miner_counter = 0, ss_keepalive_job_id_counter = 0,
      ss_downstream_id_factory = 1, ss_request_id_factory = 1, ss_downstreams = sm_new,
      ss_senders = sm_new, ss_request_id_to_downstream_id = sm_new,
      ss_channel_id_to_downstream_id = sm_new, ss_vardiff = sm_new, ss_prevhashes = sm_new,
      ss_pending_target_updates = [], ss_valid_sv1_jobs = sm_new, ss_user_identity = None,
      ss_to_downstream = [], ss_to_cm = []\<rparr>"

definition vardiff_enabled :: "('j, 'v) sv1_server \<Rightarrow> bool" where
  "vardiff_enabled ss = dc_enable_vardiff (ss_config ss)"

definition get_downstream :: "downstream_id \<Rightarrow> ('j, 'v) sv1_server \<Rightarrow> 'j sv1_downstream option" where
  "get_downstream d ss = sm_get_cloned (ss_downstreams ss) d"

text \<open>An operation on one connection of the map, and a change of its data.\<close>

definition run_on_downstream ::
  "downstream_id \<Rightarrow> ('j sv1_downstream, 'r) tcomp \<Rightarrow> (('j, 'v) sv1_server, 'r option) tcomp" where
  "run_on_downstream d m ss = (case get_downstream d ss of
     None \<Rightarrow> (Ok None, ss)
   | Some n \<Rightarrow> (let (r, n') = m n in
       (case r of Inl e \<Rightarrow> Err e | Inr x \<Rightarrow> Ok (Some x),
        ss\<lparr>ss_downstreams := snd (sm_insert d n' (ss_downstreams ss))\<rparr>)))"

definition update_data ::
  "downstream_id \<Rightarrow> ('j downstream_data \<Rightarrow> 'j downstream_data) \<Rightarrow> ('j, 'v) sv1_server \<Rightarrow> ('j, 'v) sv1_server" where
  "update_data d f ss =
     ss\<lparr>ss_downstreams := snd (sm_with_mut (ss_downstreams ss) d (\<lambda>n. ((), on_data f n)))\<rparr>"

definition data_of :: "downstream_id \<Rightarrow> ('j, 'v) sv1_server \<Rightarrow> 'j downstream_data option" where
  "data_of d ss = map_option dn_data (get_downstream d ss)"

section \<open>Sending\<close>

text \<open>
  To the task of a connection: nothing is sent when the connection has no sender any more; the
  result says whether a message was sent.
\<close>

definition send_to_task ::
  "sv1_env \<Rightarrow> downstream_id \<Rightarrow> 'j json_message \<Rightarrow> ('j, 'v) sv1_server \<Rightarrow> bool option \<times> ('j, 'v) sv1_server" where
  "send_to_task env d m ss =
     (if \<not> sm_contains_key (ss_senders ss) d then (None, ss)
      else if se_task_ok env d then (Some True, ss\<lparr>ss_to_downstream := ss_to_downstream ss @ [(d, m)]\<rparr>)
      else (Some False, ss))"

definition send_to_task_quiet ::
  "sv1_env \<Rightarrow> downstream_id \<Rightarrow> 'j json_message \<Rightarrow> ('j, 'v) sv1_server \<Rightarrow> ('j, 'v) sv1_server" where
  "send_to_task_quiet env d m ss = snd (send_to_task env d m ss)"

definition send_to_cm_quiet ::
  "sv1_env \<Rightarrow> mining_from_client \<Rightarrow> tlv list option \<Rightarrow> ('j, 'v) sv1_server \<Rightarrow> ('j, 'v) sv1_server" where
  "send_to_cm_quiet env m tlvs ss =
     (if se_cm_ok env then ss\<lparr>ss_to_cm := ss_to_cm ss @ [(m, tlvs)]\<rparr> else ss)"

definition send_to_cm ::
  "sv1_env \<Rightarrow> mining_from_client \<Rightarrow> tlv list option \<Rightarrow> (('j, 'v) sv1_server, unit) tcomp" where
  "send_to_cm env m tlvs =
     (if se_cm_ok env then c_modify (send_to_cm_quiet env m tlvs)
      else t_raise (tp_shutdown TkChannelErrorSender))"

definition send_to_channel ::
  "sv1_env \<Rightarrow> channel_id \<Rightarrow> 'j json_message \<Rightarrow> ('j, 'v) sv1_server \<Rightarrow> ('j, 'v) sv1_server" where
  "send_to_channel env channel_id m ss =
     (if channel_id = AGGREGATED_CHANNEL_ID
      then foldl (\<lambda>ss d. send_to_task_quiet env d m ss) ss (sm_keys (ss_senders ss))
      else (case sm_get_cloned (ss_channel_id_to_downstream_id ss) channel_id of
              None \<Rightarrow> ss
            | Some d \<Rightarrow> send_to_task_quiet env d m ss))"

section \<open>The methods of \<open>IsServer\<close>\<close>

text \<open>An access to the connection's data, or the error for an unknown connection.\<close>

definition with_data ::
  "downstream_id \<Rightarrow> ('j downstream_data \<Rightarrow> 'r \<times> 'j downstream_data)
    \<Rightarrow> (('j, 'v) sv1_server, ('r, sv1_error) result) tcomp" where
  "with_data d f ss = (case data_of d ss of
     None \<Rightarrow> (Ok (Err (Sv1UnknownID (word_of_nat d))), ss)
   | Some data \<Rightarrow> (let (r, data') = f data in (Ok (Ok r), update_data d (\<lambda>_. data') ss)))"

definition read_data ::
  "downstream_id \<Rightarrow> ('j downstream_data \<Rightarrow> 'r) \<Rightarrow> (('j, 'v) sv1_server, ('r, sv1_error) result) tcomp" where
  "read_data d f = with_data d (\<lambda>data. (f data, data))"

definition handle_configure ::
  "('j, 'v) sv1_lib \<Rightarrow> downstream_id \<Rightarrow> u32 option \<Rightarrow> u32 option
    \<Rightarrow> (('j, 'v) sv1_server, (is_server_answer, sv1_error) result) tcomp" where
  "handle_configure lib d msk min_bit =
     (let negotiated = map_option (\<lambda>m. m AND 0x1FFFE000) msk;
          m = (case negotiated of None \<Rightarrow> 0 | Some x \<Rightarrow> x); b = (case min_bit of None \<Rightarrow> 0 | Some x \<Rightarrow> x)
      in c_bind (with_data d (\<lambda>data. ((), data\<lparr>dd_version_rolling_mask := negotiated,
                   dd_version_rolling_min_bit := min_bit\<rparr>))) (\<lambda>r. case r of
           Inl e \<Rightarrow> c_return (Err e)
         | Inr _ \<Rightarrow> (if sl_version_rolling_params_ok lib m b then c_return (Ok (AnsConfigure m b False))
                    else c_fail TpPanic)))"

definition handle_subscribe :: "downstream_id \<Rightarrow> (string \<times> string) list" where
  "handle_subscribe d =
     [(''mining.set_difficulty'', dec_nat d), (''mining.notify'', ''ae6812eb4cd7735a302a8a9dd95cf71f'')]"

definition find_job :: "('j, 'v) sv1_server \<Rightarrow> channel_id \<Rightarrow> string \<Rightarrow> notify option" where
  "find_job ss channel_id job_id = (case sm_get_cloned (ss_valid_sv1_jobs ss) channel_id of
     None \<Rightarrow> None | Some jobs \<Rightarrow> find (\<lambda>j. nf_job_id j = job_id) jobs)"

definition handle_submit ::
  "('j, 'v) sv1_lib \<Rightarrow> downstream_id \<Rightarrow> submit
    \<Rightarrow> (('j, 'v) sv1_server, (bool, sv1_error) result) tcomp" where
  "handle_submit lib d request ss = (case data_of d ss of
     None \<Rightarrow> (Ok (Err (Sv1UnknownID (word_of_nat d))), ss)
   | Some data \<Rightarrow> (case dd_channel_id data of
       None \<Rightarrow> (Ok (Ok False), ss)
     | Some channel_id \<Rightarrow>
        (case find_job ss (if is_aggregated (ss_mode ss) then AGGREGATED_CHANNEL_ID else channel_id)
                (sb_job_id request) of
           None \<Rightarrow> (Ok (Ok False), ss)
         | Some job \<Rightarrow>
            (if validate_sv1_share lib request (dd_target data) (dd_extranonce1 data)
                  (dd_version_rolling_mask data) job \<noteq> Ok True
             then (Ok (Ok False), ss)
             else (Ok (Ok True), update_data d (\<lambda>data. data\<lparr>dd_pending_share :=
               Some \<lparr>ssw_channel_id = channel_id, ssw_downstream_id = d, ssw_share = request,
                 ssw_extranonce = dd_extranonce1 data, ssw_extranonce2_len = dd_extranonce2_len data,
                 ssw_version_rolling_mask = dd_version_rolling_mask data,
                 ssw_job_version = dd_last_job_version_field data\<rparr>\<rparr>) ss)))))"

definition is_authorized ::
  "downstream_id \<Rightarrow> string \<Rightarrow> (('j, 'v) sv1_server, (bool, sv1_error) result) tcomp" where
  "is_authorized d name = read_data d (\<lambda>data. dd_authorized_worker_name data = name)"

definition authorize ::
  "downstream_id \<Rightarrow> string \<Rightarrow> (('j, 'v) sv1_server, (unit, sv1_error) result) tcomp" where
  "authorize d name = c_bind (is_authorized d name) (\<lambda>r. case r of
     Inl e \<Rightarrow> c_return (Err e)
   | Inr authorized \<Rightarrow> with_data d (\<lambda>data. ((),
       data\<lparr>dd_authorized_worker_name := (if authorized then dd_authorized_worker_name data else name),
            dd_user_identity := tlv_compatible_username name\<rparr>)))"

definition answer :: "('r \<Rightarrow> is_server_answer) \<Rightarrow> (('j, 'v) sv1_server, ('r, sv1_error) result) tcomp
    \<Rightarrow> (('j, 'v) sv1_server, (is_server_answer, sv1_error) result) tcomp" where
  "answer f m = c_bind m (\<lambda>r. c_return (case r of Inl e \<Rightarrow> Err e | Inr x \<Rightarrow> Ok (f x)))"

fun is_server_step ::
  "('j, 'v) sv1_lib \<Rightarrow> downstream_id \<Rightarrow> is_server_call
    \<Rightarrow> (('j, 'v) sv1_server, (is_server_answer, sv1_error) result) tcomp" where
  "is_server_step lib d (CallConfigure msk min_bit) = handle_configure lib d msk min_bit"
| "is_server_step lib d CallSubscribe = c_return (Ok (AnsSubscriptions (handle_subscribe d)))"
| "is_server_step lib d CallAuthorize = c_return (Ok (AnsBool True))"
| "is_server_step lib d (CallSubmit request) = answer AnsBool (handle_submit lib d request)"
| "is_server_step lib d CallExtranonceSubscribe = c_return (Ok AnsUnit)"
| "is_server_step lib d (CallIsAuthorized name) = answer AnsBool (is_authorized d name)"
| "is_server_step lib d (CallAuthorizeWorker name) = answer (\<lambda>_. AnsUnit) (authorize d name)"
| "is_server_step lib d CallSetExtranonce1 = answer AnsExtranonce (read_data d dd_extranonce1)"
| "is_server_step lib d CallExtranonce1 = answer AnsExtranonce (read_data d dd_extranonce1)"
| "is_server_step lib d CallSetExtranonce2Size = answer AnsSize (read_data d dd_extranonce2_len)"
| "is_server_step lib d CallExtranonce2Size = answer AnsSize (read_data d dd_extranonce2_len)"
| "is_server_step lib d CallVersionRollingMask = answer AnsMask (read_data d dd_version_rolling_mask)"
| "is_server_step lib d (CallSetVersionRollingMask msk) =
     answer (\<lambda>_. AnsUnit) (with_data d (\<lambda>data. ((), data\<lparr>dd_version_rolling_mask := msk\<rparr>)))"
| "is_server_step lib d (CallSetVersionRollingMinBit msk) =
     answer (\<lambda>_. AnsUnit) (with_data d (\<lambda>data. ((), data\<lparr>dd_version_rolling_min_bit := msk\<rparr>)))"
| "is_server_step lib d CallNotify = c_return (Err (Sv1UnexpectedMessage ''notify''))"

text \<open>The protocol crate's handling of one message of the miner, run on the server.\<close>

primrec run_dispatch ::
  "('j, 'v) sv1_lib \<Rightarrow> downstream_id \<Rightarrow> 'j dispatch
    \<Rightarrow> (('j, 'v) sv1_server, ('j option, sv1_error) result) tcomp" where
  "run_dispatch lib d (Done r) = c_return r"
| "run_dispatch lib d (Ask c k) = c_bind (is_server_step lib d c) (\<lambda>r. run_dispatch lib d (k r))"

section \<open>Messages of the miners\<close>

text \<open>
  A message of a miner whose channel is open: the response goes to the miner; a response to
  \<open>mining.authorize\<close> ends the handshake.
\<close>

definition process_sv1_message ::
  "('j, 'v) sv1_lib \<Rightarrow> sv1_env \<Rightarrow> downstream_id \<Rightarrow> 'j json_message \<Rightarrow> (('j, 'v) sv1_server, unit) tcomp" where
  "process_sv1_message lib env d message =
     c_bind (run_dispatch lib d (sl_handle_message lib message)) (\<lambda>response. case response of
       Inl e \<Rightarrow> t_raise (tp_disconnect TkSV1Error d)
     | Inr None \<Rightarrow> c_return ()
     | Inr (Some response_msg) \<Rightarrow>
        c_bind (run_on_downstream d (send_to_miner (se_miner_ok env d) (Response response_msg))) (\<lambda>_.
        if is_mining_authorize message
        then c_bind (run_on_downstream d (handle_sv1_handshake_completion (se_miner_ok env d) (se_now env)))
               (\<lambda>_. c_return ())
        else c_return ()))"

definition handle_submit_shares ::
  "('j, 'v) sv1_lib \<Rightarrow> sv1_env \<Rightarrow> submit_share_with_channel_id \<Rightarrow> (('j, 'v) sv1_server, unit) tcomp" where
  "handle_submit_shares lib env message =
     c_bind (c_modify (\<lambda>ss. if vardiff_enabled ss
       then ss\<lparr>ss_vardiff := snd (sm_with_mut (ss_vardiff ss) (ssw_downstream_id message)
              (\<lambda>v. ((), vd_increment_shares_since_last_update (sl_vardiff lib) v)))\<rparr>
       else ss)) (\<lambda>_. case ssw_job_version message of
       None \<Rightarrow> c_return ()
     | Some job_version \<Rightarrow>
        (let job_id = sb_job_id (ssw_share message);
             original = (if is_keepalive_job_id job_id then extract_original_job_id job_id else Some job_id)
         in case original of
           None \<Rightarrow> c_return ()
         | Some original_job_id \<Rightarrow>
            (let share = (ssw_share message)\<lparr>sb_job_id := original_job_id\<rparr> in
             c_bind (c_get ss_sequence_counter) (\<lambda>sequence_number.
             c_bind (c_modify (\<lambda>ss. ss\<lparr>ss_sequence_counter := sequence_number + 1\<rparr>)) (\<lambda>_.
             c_bind (t_try (map_err (\<lambda>_. tp_shutdown TkSV1Error)
                (sl_build_submit lib share (ssw_channel_id message) sequence_number job_version
                   (ssw_version_rolling_mask message)))) (\<lambda>submit_share_extended.
             c_bind (c_get id) (\<lambda>ss.
               if is_non_aggregated (ss_mode ss)
               then (case data_of (ssw_downstream_id message) ss of
                       None \<Rightarrow> c_return ()
                     | Some data \<Rightarrow>
                        c_bind (t_try (map_err (\<lambda>e. tp_disconnect (TkGeneral e) (ssw_downstream_id message))
                           (sl_user_identity_tlv lib (dd_user_identity data)))) (\<lambda>tlv.
                        send_to_cm env (SubmitSharesExtended submit_share_extended)
                          (map_option (\<lambda>t. [t]) tlv)))
               else send_to_cm env (SubmitSharesExtended submit_share_extended) None)))))))"

definition open_extended_mining_channel ::
  "('j, 'v) sv1_lib \<Rightarrow> sv1_env \<Rightarrow> u32 \<Rightarrow> downstream_id \<Rightarrow> (('j, 'v) sv1_server, unit) tcomp" where
  "open_extended_mining_channel lib env request_id d = c_bind (c_get id) (\<lambda>ss.
     if data_of d ss = None then c_return ()
     else let config = ss_config ss;
              hashrate = f32_as_f64 (dc_min_individual_miner_hashrate config);
              shares_per_min = f32_as_f64 (dc_shares_per_minute config) in
       c_bind (if dc_enable_vardiff config
               then t_expect (case sl_hash_rate_to_target lib hashrate shares_per_min of
                                Inl _ \<Rightarrow> None | Inr t \<Rightarrow> Some t)
               else c_return (target_from_le_bytes (replicate 32 0xFF))) (\<lambda>max_target.
       c_bind (c_modify (\<lambda>ss. ss\<lparr>ss_miner_counter := ss_miner_counter ss + 1\<rparr>)) (\<lambda>_.
       c_bind (t_expect (ss_user_identity ss)) (\<lambda>identity.
       let user_identity = (if prefix ''sri/'' identity then identity
             else identity @ ''.miner'' @ dec_nat (unat (ss_miner_counter ss + 1))) in
       c_bind (c_modify (update_data d (\<lambda>data. data\<lparr>dd_user_identity := user_identity\<rparr>))) (\<lambda>_.
       case sl_build_open lib request_id user_identity (f64_as_f32 hashrate) max_target
              (ss_downstream_extranonce2_size ss) of
         Inl _ \<Rightarrow> c_return ()
       | Inr m \<Rightarrow> send_to_cm env (OpenExtendedMiningChannel m) None)))))"

definition handle_open_channel_request ::
  "('j, 'v) sv1_lib \<Rightarrow> sv1_env \<Rightarrow> downstream_id \<Rightarrow> (('j, 'v) sv1_server, unit) tcomp" where
  "handle_open_channel_request lib env d =
     c_bind (c_get ss_request_id_factory) (\<lambda>request_id.
     c_bind (c_modify (\<lambda>ss. ss\<lparr>ss_request_id_factory := request_id + 1,
        ss_request_id_to_downstream_id := snd (sm_insert request_id d (ss_request_id_to_downstream_id ss))\<rparr>)) (\<lambda>_.
     c_bind (c_get (get_downstream d)) (\<lambda>n.
       if n = None then t_raise (tp_disconnect (TkDownstreamNotFound (word_of_nat d)) d)
       else open_extended_mining_channel lib env request_id d)))"

text \<open>
  A message of a miner: until its channel is open messages are queued, and the first one opens the
  channel.
\<close>

definition sv1_handle_downstream_message ::
  "('j, 'v) sv1_lib \<Rightarrow> sv1_env \<Rightarrow> (downstream_id \<times> 'j json_message) option
    \<Rightarrow> (('j, 'v) sv1_server, unit) tcomp" where
  "sv1_handle_downstream_message lib env received = (case received of
     None \<Rightarrow> t_raise (tp_shutdown TkChannelErrorReceiver)
   | Some (d, message) \<Rightarrow> c_bind (c_get (data_of d)) (\<lambda>data. case data of
       None \<Rightarrow> c_return ()
     | Some data \<Rightarrow>
        (if dd_channel_id data = None then
           c_bind (if dd_queued_sv1_handshake_messages data = []
                   then handle_open_channel_request lib env d else c_return ()) (\<lambda>_.
           c_modify (update_data d (\<lambda>data. data\<lparr>dd_queued_sv1_handshake_messages :=
             dd_queued_sv1_handshake_messages data @ [message]\<rparr>)))
         else
           c_bind (process_sv1_message lib env d message) (\<lambda>_.
           c_bind (c_get (data_of d)) (\<lambda>data. case data of
               None \<Rightarrow> c_return ()
             | Some data \<Rightarrow>
                c_bind (c_modify (update_data d (\<lambda>data. data\<lparr>dd_pending_share := None\<rparr>))) (\<lambda>_.
                case dd_pending_share data of
                  None \<Rightarrow> c_return ()
                | Some share \<Rightarrow> handle_submit_shares lib env share))))))"

section \<open>Difficulty management\<close>

text \<open>
  One connection in the vardiff round.  The first list collects the difficulties to be sent at
  once, the second all updates.
\<close>

type_synonym vardiff_updates =
  "(channel_id \<times> downstream_id \<times> target) list \<times> (downstream_id \<times> channel_id \<times> target \<times> f32) list"

definition vardiff_new_target ::
  "('j, 'v) sv1_lib \<Rightarrow> downstream_id \<Rightarrow> vardiff_updates \<Rightarrow> target option \<Rightarrow> channel_id \<Rightarrow> target \<Rightarrow> f32
    \<Rightarrow> (('j, 'v) sv1_server, vardiff_updates) tcomp" where
  "vardiff_new_target lib d upd upstream_target_opt channel_id new_target new_hashrate =
     c_bind (c_modify (update_data d (\<lambda>data. (set_pending_hashrate (Some new_hashrate)
        (set_pending_target new_target data))\<lparr>dd_stable_hashrate := False\<rparr>))) (\<lambda>_.
     let all_updates = snd upd @ [(d, channel_id, new_target, new_hashrate)];
         immediate_updates = fst upd @ [(channel_id, d, new_target)] in
     case upstream_target_opt of
       Some upstream_target \<Rightarrow>
        (if upstream_target \<le> new_target then c_return (immediate_updates, all_updates)
         else c_bind (c_modify (\<lambda>ss. ss\<lparr>ss_pending_target_updates := ss_pending_target_updates ss @
                [\<lparr>ptu_downstream_id = d, ptu_new_target = new_target\<rparr>]\<rparr>))
              (\<lambda>_. c_return (fst upd, all_updates)))
     | None \<Rightarrow> c_return (immediate_updates, all_updates))"

definition vardiff_outcome ::
  "('j, 'v) sv1_lib \<Rightarrow> downstream_id \<Rightarrow> vardiff_updates \<Rightarrow> target option \<Rightarrow> channel_id \<Rightarrow> f32
    \<Rightarrow> (f32 option, string) result \<Rightarrow> (('j, 'v) sv1_server, vardiff_updates) tcomp" where
  "vardiff_outcome lib d upd upstream_target channel_id shares_per_minute new_hashrate_opt =
     (case new_hashrate_opt of
        Inl _ \<Rightarrow> c_return upd
      | Inr None \<Rightarrow> c_bind (c_modify (update_data d (\<lambda>data. data\<lparr>dd_stable_hashrate := True\<rparr>)))
          (\<lambda>_. c_return upd)
      | Inr (Some new_hashrate) \<Rightarrow>
         (case sl_hash_rate_to_target lib (f32_as_f64 new_hashrate) (f32_as_f64 shares_per_minute) of
            Inl _ \<Rightarrow> c_return upd
          | Inr new_target \<Rightarrow> vardiff_new_target lib d upd upstream_target channel_id new_target new_hashrate))"

definition vardiff_update_one ::
  "('j, 'v) sv1_lib \<Rightarrow> downstream_id \<Rightarrow> vardiff_updates \<Rightarrow> (('j, 'v) sv1_server, vardiff_updates) tcomp" where
  "vardiff_update_one lib d upd = c_bind (c_get id) (\<lambda>ss.
     case (data_of d ss, sm_get_cloned (ss_vardiff ss) d) of
       (Some data, Some vardiff) \<Rightarrow>
        c_bind (t_expect (dd_hashrate data)) (\<lambda>hashrate. case dd_channel_id data of
          None \<Rightarrow> c_return upd
        | Some channel_id \<Rightarrow>
           (let shares_per_minute = dc_shares_per_minute (ss_config ss);
                (new_hashrate_opt, vardiff') = vd_try_vardiff (sl_vardiff lib) hashrate
                   (target_to_le_bytes (dd_target data)) shares_per_minute vardiff in
            c_bind (c_modify (\<lambda>ss. ss\<lparr>ss_vardiff := snd (sm_insert d vardiff' (ss_vardiff ss))\<rparr>)) (\<lambda>_.
            vardiff_outcome lib d upd (dd_upstream_target data) channel_id shares_per_minute new_hashrate_opt)))
     | _ \<Rightarrow> c_return upd)"

fun vardiff_loop ::
  "('j, 'v) sv1_lib \<Rightarrow> downstream_id list \<Rightarrow> vardiff_updates \<Rightarrow> (('j, 'v) sv1_server, vardiff_updates) tcomp" where
  "vardiff_loop lib [] upd = c_return upd"
| "vardiff_loop lib (d # ds) upd = c_bind (vardiff_update_one lib d upd) (vardiff_loop lib ds)"

text \<open>The smallest target and the sum of the hash rates of all connections.\<close>

definition effective_target :: "'j downstream_data \<Rightarrow> target" where
  "effective_target d = (case dd_pending_target d of None \<Rightarrow> dd_target d | Some t \<Rightarrow> t)"

definition effective_hashrate :: "'j downstream_data \<Rightarrow> f32 option" where
  "effective_hashrate d = (case dd_pending_hashrate d of None \<Rightarrow> dd_hashrate d | Some h \<Rightarrow> Some h)"

fun aggregate_loop ::
  "(downstream_id \<times> 'j sv1_downstream) list \<Rightarrow> target option \<Rightarrow> f32 \<Rightarrow> (target option \<times> f32) option" where
  "aggregate_loop [] min_target total_hashrate = Some (min_target, total_hashrate)"
| "aggregate_loop ((d, n) # ns) min_target total_hashrate = (case effective_hashrate (dn_data n) of
     None \<Rightarrow> None
   | Some h \<Rightarrow> aggregate_loop ns
       (Some (case min_target of None \<Rightarrow> effective_target (dn_data n)
                             | Some t \<Rightarrow> min t (effective_target (dn_data n))))
       (f32_add total_hashrate h))"

definition send_aggregated_update_channel ::
  "sv1_env \<Rightarrow> (downstream_id \<times> channel_id \<times> target \<times> f32) list \<Rightarrow> (('j, 'v) sv1_server, unit) tcomp" where
  "send_aggregated_update_channel env all_updates = (case all_updates of
     [] \<Rightarrow> c_return ()
   | (_, channel_id, _, _) # _ \<Rightarrow> c_bind (c_get ss_downstreams) (\<lambda>downstreams.
       if downstreams = [] then c_return ()
       else c_bind (t_expect (aggregate_loop downstreams None 0)) (\<lambda>(min_target, total_hashrate).
            c_bind (t_expect min_target) (\<lambda>min_target.
            c_modify (send_to_cm_quiet env (UpdateChannel \<lparr>uc_channel_id = channel_id,
               uc_nominal_hash_rate = total_hashrate,
               uc_maximum_target = target_to_le_bytes min_target\<rparr>) None)))))"

definition send_non_aggregated_update_channels ::
  "sv1_env \<Rightarrow> (downstream_id \<times> channel_id \<times> target \<times> f32) list \<Rightarrow> ('j, 'v) sv1_server \<Rightarrow> ('j, 'v) sv1_server" where
  "send_non_aggregated_update_channels env all_updates ss =
     foldl (\<lambda>ss (_, channel_id, new_target, new_hashrate).
       send_to_cm_quiet env (UpdateChannel \<lparr>uc_channel_id = channel_id,
         uc_nominal_hash_rate = new_hashrate,
         uc_maximum_target = target_to_le_bytes new_target\<rparr>) None ss) ss all_updates"

definition send_update_channel_messages ::
  "sv1_env \<Rightarrow> (downstream_id \<times> channel_id \<times> target \<times> f32) list \<Rightarrow> (('j, 'v) sv1_server, unit) tcomp" where
  "send_update_channel_messages env all_updates = c_bind (c_get ss_mode) (\<lambda>mode.
     if is_aggregated mode then send_aggregated_update_channel env all_updates
     else c_modify (send_non_aggregated_update_channels env all_updates))"

definition send_set_difficulty_quiet ::
  "('j, 'v) sv1_lib \<Rightarrow> sv1_env \<Rightarrow> downstream_id \<Rightarrow> target \<Rightarrow> ('j, 'v) sv1_server \<Rightarrow> ('j, 'v) sv1_server" where
  "send_set_difficulty_quiet lib env d t ss = (case sl_build_set_difficulty lib t of
     Inl _ \<Rightarrow> ss | Inr m \<Rightarrow> send_to_task_quiet env d m ss)"

definition handle_vardiff_updates ::
  "('j, 'v) sv1_lib \<Rightarrow> sv1_env \<Rightarrow> (('j, 'v) sv1_server, unit) tcomp" where
  "handle_vardiff_updates lib env =
     c_bind (c_get (\<lambda>ss. sm_keys (ss_vardiff ss))) (\<lambda>ds.
     c_bind (vardiff_loop lib ds ([], [])) (\<lambda>(immediate_updates, all_updates).
     c_bind (if all_updates \<noteq> [] then send_update_channel_messages env all_updates
             else c_return ()) (\<lambda>_.
     c_modify (\<lambda>ss. foldl (\<lambda>ss (_, d, t). send_set_difficulty_quiet lib env d t ss) ss
       immediate_updates))))"

text \<open>
  Pending updates that a new upstream target allows; all examined updates leave the list.
\<close>

definition get_pending_difficulty_updates ::
  "target \<Rightarrow> downstream_id option \<Rightarrow> ('j, 'v) sv1_server
    \<Rightarrow> pending_target_update list \<times> ('j, 'v) sv1_server" where
  "get_pending_difficulty_updates new_upstream_target d ss =
     (let should_process = (\<lambda>p. case d of None \<Rightarrow> True | Some d \<Rightarrow> ptu_downstream_id p = d) in
      (filter (\<lambda>p. should_process p \<and> new_upstream_target \<le> ptu_new_target p) (ss_pending_target_updates ss),
       ss\<lparr>ss_pending_target_updates := filter (\<lambda>p. \<not> should_process p) (ss_pending_target_updates ss)\<rparr>))"

definition send_pending_set_difficulty_messages ::
  "('j, 'v) sv1_lib \<Rightarrow> sv1_env \<Rightarrow> pending_target_update list \<Rightarrow> ('j, 'v) sv1_server \<Rightarrow> ('j, 'v) sv1_server" where
  "send_pending_set_difficulty_messages lib env updates ss =
     foldl (\<lambda>ss u. send_set_difficulty_quiet lib env (ptu_downstream_id u) (ptu_new_target u) ss) ss updates"

definition handle_aggregated_set_target ::
  "('j, 'v) sv1_lib \<Rightarrow> sv1_env \<Rightarrow> target \<Rightarrow> ('j, 'v) sv1_server \<Rightarrow> ('j, 'v) sv1_server" where
  "handle_aggregated_set_target lib env t ss =
     (let ss = ss\<lparr>ss_downstreams := map (\<lambda>(d, n). (d, on_data (set_upstream_target t) n)) (ss_downstreams ss)\<rparr>;
          (updates, ss) = get_pending_difficulty_updates t None ss
      in send_pending_set_difficulty_messages lib env updates ss)"

definition handle_non_aggregated_set_target ::
  "('j, 'v) sv1_lib \<Rightarrow> sv1_env \<Rightarrow> channel_id \<Rightarrow> target \<Rightarrow> ('j, 'v) sv1_server \<Rightarrow> ('j, 'v) sv1_server" where
  "handle_non_aggregated_set_target lib env channel_id t ss =
     (case sm_get_cloned (ss_channel_id_to_downstream_id ss) channel_id of
        None \<Rightarrow> ss
      | Some d \<Rightarrow>
         (if data_of d ss = None then ss
          else let ss = update_data d (set_upstream_target t) ss;
                   (updates, ss) = get_pending_difficulty_updates t (Some d) ss
               in send_pending_set_difficulty_messages lib env updates ss))"

definition handle_set_target_message ::
  "('j, 'v) sv1_lib \<Rightarrow> sv1_env \<Rightarrow> channel_id \<Rightarrow> bytes \<Rightarrow> ('j, 'v) sv1_server \<Rightarrow> ('j, 'v) sv1_server" where
  "handle_set_target_message lib env channel_id maximum_target ss =
     (let t = target_from_le_bytes maximum_target in
      if is_aggregated (ss_mode ss) then handle_aggregated_set_target lib env t ss
      else handle_non_aggregated_set_target lib env channel_id t ss)"

definition send_update_channel_on_downstream_state_change ::
  "sv1_env \<Rightarrow> (('j, 'v) sv1_server, unit) tcomp" where
  "send_update_channel_on_downstream_state_change env = c_bind (c_get id) (\<lambda>ss.
     if is_non_aggregated (ss_mode ss) then c_return ()
     else if ss_downstreams ss = []
     then c_modify (send_to_cm_quiet env (UpdateChannel \<lparr>uc_channel_id = 0,
            uc_nominal_hash_rate = 0, uc_maximum_target = replicate 32 0xFF\<rparr>) None)
     else c_bind (t_expect (aggregate_loop (ss_downstreams ss) None 0)) (\<lambda>(min_target, total_hashrate).
          c_bind (t_expect min_target) (\<lambda>min_target.
          c_modify (send_to_cm_quiet env (UpdateChannel \<lparr>uc_channel_id = 0,
             uc_nominal_hash_rate = total_hashrate,
             uc_maximum_target = target_to_le_bytes min_target\<rparr>) None))))"

section \<open>Targets of the upstream without vardiff\<close>

definition send_set_difficulty ::
  "('j, 'v) sv1_lib \<Rightarrow> sv1_env \<Rightarrow> target \<Rightarrow> downstream_id \<Rightarrow> (('j, 'v) sv1_server, unit) tcomp" where
  "send_set_difficulty lib env t d =
     c_bind (t_try (map_err (\<lambda>e. tp_shutdown (TkTranslatorCore e)) (sl_build_set_difficulty lib t))) (\<lambda>m.
     c_bind (\<lambda>ss. let (sent, ss) = send_to_task env d m ss in (Ok sent, ss)) (\<lambda>sent.
     if sent = Some False then t_raise (tp_shutdown TkChannelErrorSender) else c_return ()))"

definition set_upstream_difficulty :: "target \<Rightarrow> f64 option \<Rightarrow> 'j downstream_data \<Rightarrow> 'j downstream_data" where
  "set_upstream_difficulty t derived_hashrate d =
     (let d = set_pending_target t (set_upstream_target t d) in
      case derived_hashrate of None \<Rightarrow> d | Some hr \<Rightarrow> set_pending_hashrate (Some (f64_as_f32 hr)) d)"

definition send_set_difficulty_to_all_downstreams ::
  "('j, 'v) sv1_lib \<Rightarrow> sv1_env \<Rightarrow> target \<Rightarrow> f64 option \<Rightarrow> (('j, 'v) sv1_server, unit) tcomp" where
  "send_set_difficulty_to_all_downstreams lib env t derived_hashrate =
     c_bind (c_get (\<lambda>ss. map fst (filter (\<lambda>(d, n). dd_channel_id (dn_data n) \<noteq> None) (ss_downstreams ss)))) (\<lambda>ds.
     c_bind (c_modify (\<lambda>ss. ss\<lparr>ss_downstreams := map (\<lambda>(d, n).
        (d, if dd_channel_id (dn_data n) \<noteq> None
            then on_data (set_upstream_difficulty t derived_hashrate) n else n)) (ss_downstreams ss)\<rparr>)) (\<lambda>_.
     c_bind (c_get ss_senders) (\<lambda>senders.
     t_for (filter (sm_contains_key senders) ds) (send_set_difficulty lib env t))))"

definition downstream_disconnected :: string where
  "downstream_disconnected = ''downstream disconnected''"

definition send_set_difficulty_to_specific_downstream ::
  "('j, 'v) sv1_lib \<Rightarrow> sv1_env \<Rightarrow> channel_id \<Rightarrow> target \<Rightarrow> f64 option \<Rightarrow> (('j, 'v) sv1_server, unit) tcomp" where
  "send_set_difficulty_to_specific_downstream lib env channel_id t derived_hashrate =
     c_bind (c_get (\<lambda>ss. sm_get_cloned (ss_channel_id_to_downstream_id ss) channel_id)) (\<lambda>owner. case owner of
       None \<Rightarrow> c_bind (send_to_cm env (CloseChannelRequest channel_id downstream_disconnected) None)
         (\<lambda>_. t_raise (tp_log (TkDownstreamNotFoundWithChannelId channel_id)))
     | Some d \<Rightarrow> c_bind (c_get (data_of d)) (\<lambda>data.
         if data = None then c_return ()
         else c_bind (c_modify (update_data d (set_upstream_difficulty t derived_hashrate))) (\<lambda>_.
              send_set_difficulty lib env t d)))"

definition handle_set_target_without_vardiff ::
  "('j, 'v) sv1_lib \<Rightarrow> sv1_env \<Rightarrow> channel_id \<Rightarrow> bytes \<Rightarrow> (('j, 'v) sv1_server, unit) tcomp" where
  "handle_set_target_without_vardiff lib env channel_id maximum_target = c_bind (c_get id) (\<lambda>ss.
     let new_target = target_from_le_bytes maximum_target;
         derived_hashrate = (case sl_hash_rate_from_target lib maximum_target
             (f32_as_f64 (dc_shares_per_minute (ss_config ss))) of Inl _ \<Rightarrow> None | Inr hr \<Rightarrow> Some hr)
     in if is_aggregated (ss_mode ss)
        then send_set_difficulty_to_all_downstreams lib env new_target derived_hashrate
        else send_set_difficulty_to_specific_downstream lib env channel_id new_target derived_hashrate)"

section \<open>Messages of the channel manager\<close>

definition channel_opened ::
  "open_channel_success \<Rightarrow> u16 \<Rightarrow> bytes \<Rightarrow> 'j downstream_data \<Rightarrow> 'j downstream_data" where
  "channel_opened m extranonce_size extranonce1 d = set_upstream_target (target_from_le_bytes (ocs_target m))
     (d\<lparr>dd_extranonce1 := extranonce1, dd_extranonce2_len := unat extranonce_size,
        dd_channel_id := Some (ocs_channel_id m)\<rparr>)"

definition handle_open_success ::
  "('j, 'v) sv1_lib \<Rightarrow> sv1_env \<Rightarrow> target \<Rightarrow> open_channel_success \<Rightarrow> u16 \<Rightarrow> (('j, 'v) sv1_server, unit) tcomp" where
  "handle_open_success lib env first_target m extranonce_size =
     c_bind (c_get (\<lambda>ss. sm_get_cloned (ss_request_id_to_downstream_id ss) (ocs_request_id m))) (\<lambda>owner.
     c_bind (c_modify (\<lambda>ss. ss\<lparr>ss_request_id_to_downstream_id :=
        snd (sm_remove (ocs_request_id m) (ss_request_id_to_downstream_id ss))\<rparr>)) (\<lambda>_. case owner of
       None \<Rightarrow> t_raise (tp_log (TkDownstreamNotFound (ocs_request_id m)))
     | Some d \<Rightarrow> c_bind (c_get (data_of d)) (\<lambda>data. case data of
         None \<Rightarrow> c_return ()
       | Some data \<Rightarrow>
          c_bind (t_try (map_err tp_fallback (sl_extranonce_try_from lib (ocs_extranonce_prefix m)))) (\<lambda>extranonce1.
          c_bind (c_modify (\<lambda>ss. (update_data d (channel_opened m extranonce_size extranonce1) ss)\<lparr>
             ss_channel_id_to_downstream_id := snd (sm_insert (ocs_channel_id m) d
                (ss_channel_id_to_downstream_id ss))\<rparr>)) (\<lambda>_.
          c_bind (c_modify (update_data d (\<lambda>data. data\<lparr>dd_queued_sv1_handshake_messages := []\<rparr>))) (\<lambda>_.
          c_bind (t_for (dd_queued_sv1_handshake_messages data) (process_sv1_message lib env d)) (\<lambda>_.
          c_bind (t_try (map_err (\<lambda>e. tp_shutdown (TkTranslatorCore e))
             (sl_build_set_difficulty lib first_target))) (\<lambda>set_difficulty.
          c_bind (\<lambda>ss. let (sent, ss) = send_to_task env d set_difficulty ss in (Ok sent, ss)) (\<lambda>sent.
          if sent = Some False then t_raise (tp_disconnect TkChannelErrorSender d)
          else c_return ())))))))))"

definition store_job :: "bool \<Rightarrow> notify \<Rightarrow> notify list \<Rightarrow> notify list" where
  "store_job clean_jobs job jobs = (if clean_jobs then [] else jobs) @ [job]"

definition handle_new_job ::
  "('j, 'v) sv1_lib \<Rightarrow> sv1_env \<Rightarrow> new_extended_mining_job \<Rightarrow> (('j, 'v) sv1_server, unit) tcomp" where
  "handle_new_job lib env m =
     c_bind (c_get (\<lambda>ss. sm_get_cloned (ss_prevhashes ss) (nxj_channel_id m))) (\<lambda>prevhash. case prevhash of
       None \<Rightarrow> c_return ()
     | Some prevhash \<Rightarrow>
        (let clean_jobs = (nxj_job_id m = snp_job_id prevhash) in
         c_bind (t_try (map_err (\<lambda>e. tp_shutdown (TkTranslatorCore e))
           (sl_build_notify lib prevhash m clean_jobs))) (\<lambda>notify.
         c_modify (\<lambda>ss.
           let job_channel_id = (if is_non_aggregated (ss_mode ss) then nxj_channel_id m
                                 else AGGREGATED_CHANNEL_ID);
               ss = ss\<lparr>ss_valid_sv1_jobs := snd (sm_with_mut_or_insert_with (ss_valid_sv1_jobs ss)
                      job_channel_id [] (\<lambda>jobs. ((), store_job clean_jobs notify jobs)))\<rparr>
           in send_to_channel env job_channel_id (sl_notify_into lib notify) ss))))"

definition sv1_handle_upstream_message ::
  "('j, 'v) sv1_lib \<Rightarrow> sv1_env \<Rightarrow> target \<Rightarrow> mining option \<Rightarrow> (('j, 'v) sv1_server, unit) tcomp" where
  "sv1_handle_upstream_message lib env first_target received = (case received of
     None \<Rightarrow> t_raise (tp_shutdown TkChannelErrorReceiver)
   | Some message \<Rightarrow> (case message of
       OpenExtendedMiningChannelSuccess m extranonce_size \<Rightarrow>
         handle_open_success lib env first_target m extranonce_size
     | NewExtendedMiningJob m \<Rightarrow> handle_new_job lib env m
     | SetNewPrevHash m \<Rightarrow> c_modify (\<lambda>ss.
         ss\<lparr>ss_prevhashes := snd (sm_insert (snp_channel_id m) m (ss_prevhashes ss))\<rparr>)
     | SetTarget channel_id maximum_target \<Rightarrow> c_bind (c_get vardiff_enabled) (\<lambda>enabled.
         if enabled then c_modify (handle_set_target_message lib env channel_id maximum_target)
         else handle_set_target_without_vardiff lib env channel_id maximum_target)
     | _ \<Rightarrow> c_fail TpPanic))"

section \<open>Connections\<close>

text \<open>
  A new connection.  \<open>vardiff\<close> is the outcome of \<open>VardiffState::new\<close>.
\<close>

definition sv1_accept :: "target \<Rightarrow> 'v option \<Rightarrow> (('j, 'v) sv1_server, unit) tcomp" where
  "sv1_accept first_target vardiff =
     c_bind (c_get ss_downstream_id_factory) (\<lambda>d.
     c_bind (c_modify (\<lambda>ss. ss\<lparr>ss_downstream_id_factory := d + 1,
        ss_senders := snd (sm_insert d () (ss_senders ss)),
        ss_downstreams := snd (sm_insert d (sv1_downstream_new d first_target
            (Some (dc_min_individual_miner_hashrate (ss_config ss)))) (ss_downstreams ss))\<rparr>)) (\<lambda>_.
     c_bind (c_get vardiff_enabled) (\<lambda>enabled.
     if enabled then c_bind (t_expect vardiff) (\<lambda>v.
       c_modify (\<lambda>ss. ss\<lparr>ss_vardiff := snd (sm_insert d v (ss_vardiff ss))\<rparr>))
     else c_return ())))"

text \<open>
  A connection ends: its entries are removed, then the channel manager is told.
\<close>

definition announce_disconnect ::
  "sv1_env \<Rightarrow> 'j downstream_data \<Rightarrow> (('j, 'v) sv1_server, unit) tcomp" where
  "announce_disconnect env data =
     c_bind (c_get vardiff_enabled) (\<lambda>enabled.
     c_bind (if enabled then send_update_channel_on_downstream_state_change env else c_return ()) (\<lambda>_.
     case dd_channel_id data of
       None \<Rightarrow> c_return ()
     | Some channel_id \<Rightarrow> c_modify (\<lambda>ss. send_to_cm_quiet env
         (CloseChannelRequest channel_id downstream_disconnected) None
         (ss\<lparr>ss_channel_id_to_downstream_id := snd (sm_remove channel_id
            (ss_channel_id_to_downstream_id ss))\<rparr>))))"

definition handle_downstream_disconnect ::
  "sv1_env \<Rightarrow> downstream_id \<Rightarrow> (('j, 'v) sv1_server, unit) tcomp" where
  "handle_downstream_disconnect env d =
     c_bind (c_modify (\<lambda>ss. if vardiff_enabled ss
        then ss\<lparr>ss_vardiff := snd (sm_remove d (ss_vardiff ss))\<rparr> else ss)) (\<lambda>_.
     c_bind (c_modify (\<lambda>ss. ss\<lparr>ss_senders := snd (sm_remove d (ss_senders ss))\<rparr>)) (\<lambda>_.
     c_bind (c_get (data_of d)) (\<lambda>data.
     c_bind (c_modify (\<lambda>ss. ss\<lparr>ss_downstreams := snd (sm_remove d (ss_downstreams ss))\<rparr>)) (\<lambda>_.
     case data of
       None \<Rightarrow> c_return ()
     | Some data \<Rightarrow> announce_disconnect env data))))"

definition sv1_cleanup :: "('j, 'v) sv1_server \<Rightarrow> ('j, 'v) sv1_server" where
  "sv1_cleanup ss =
     ss\<lparr>ss_prevhashes := sm_clear (ss_prevhashes ss),
        ss_valid_sv1_jobs := sm_clear (ss_valid_sv1_jobs ss),
        ss_vardiff := (if vardiff_enabled ss then sm_clear (ss_vardiff ss) else ss_vardiff ss),
        ss_downstreams := sm_clear (ss_downstreams ss),
        ss_channel_id_to_downstream_id := sm_clear (ss_channel_id_to_downstream_id ss),
        ss_request_id_to_downstream_id := sm_clear (ss_request_id_to_downstream_id ss),
        ss_pending_target_updates := [],
        ss_senders := sm_clear (ss_senders ss)\<rparr>"

section \<open>Keepalive jobs\<close>

definition MAX_FUTURE_BLOCK_TIME :: u32 where
  "MAX_FUTURE_BLOCK_TIME = 2 * 60 * 60"

definition job_list_channel :: "('j, 'v) sv1_server \<Rightarrow> channel_id option \<Rightarrow> channel_id option" where
  "job_list_channel ss channel_id =
     (if is_aggregated (ss_mode ss) then Some AGGREGATED_CHANNEL_ID else channel_id)"

definition channel_jobs :: "('j, 'v) sv1_server \<Rightarrow> channel_id option \<Rightarrow> notify list option" where
  "channel_jobs ss channel_id = (case job_list_channel ss channel_id of
     None \<Rightarrow> None | Some c \<Rightarrow> sm_get_cloned (ss_valid_sv1_jobs ss) c)"

definition get_last_job :: "('j, 'v) sv1_server \<Rightarrow> channel_id option \<Rightarrow> notify option" where
  "get_last_job ss channel_id = (case channel_jobs ss channel_id of
     None \<Rightarrow> None | Some jobs \<Rightarrow> (if jobs = [] then None else Some (List.last jobs)))"

definition get_original_job :: "('j, 'v) sv1_server \<Rightarrow> string \<Rightarrow> channel_id option \<Rightarrow> notify option" where
  "get_original_job ss job_id channel_id = (case channel_jobs ss channel_id of
     None \<Rightarrow> None | Some jobs \<Rightarrow> find (\<lambda>j. nf_job_id j = job_id) jobs)"

text \<open>The time of the next keepalive of a job.\<close>

definition keepalive_time :: "u16 \<Rightarrow> u32 \<Rightarrow> u32 \<Rightarrow> u32" where
  "keepalive_time interval base_time last_time =
     min (saturating_add last_time (ucast interval)) (saturating_add base_time MAX_FUTURE_BLOCK_TIME)"

definition make_keepalive_job ::
  "channel_id option \<Rightarrow> ('j, 'v) sv1_server \<Rightarrow> notify option \<times> ('j, 'v) sv1_server" where
  "make_keepalive_job channel_id ss = (case get_last_job ss channel_id of
     None \<Rightarrow> (None, ss)
   | Some last_job \<Rightarrow>
      (let original_job_id = (case extract_original_job_id (nf_job_id last_job) of
              None \<Rightarrow> nf_job_id last_job | Some j \<Rightarrow> j);
           base_time = (case get_original_job ss original_job_id channel_id of
              None \<Rightarrow> nf_time last_job | Some j \<Rightarrow> nf_time j);
           new_time = keepalive_time (dc_job_keepalive_interval_secs (ss_config ss)) base_time (nf_time last_job)
       in if new_time = nf_time last_job then (None, ss)
          else let counter = ss_keepalive_job_id_counter ss;
                   job = last_job\<lparr>nf_job_id := keepalive_job_id original_job_id counter, nf_time := new_time\<rparr>;
                   ss = ss\<lparr>ss_keepalive_job_id_counter := counter + 1\<rparr>
               in (Some job, (case job_list_channel ss channel_id of
                     None \<Rightarrow> ss
                   | Some c \<Rightarrow> ss\<lparr>ss_valid_sv1_jobs := snd (sm_with_mut (ss_valid_sv1_jobs ss) c
                       (\<lambda>jobs. ((), jobs @ [job])))\<rparr>))))"

definition needs_keepalive :: "nat \<Rightarrow> u16 \<Rightarrow> 'j sv1_downstream \<Rightarrow> bool" where
  "needs_keepalive now interval n =
     (dn_sv1_handshake_complete n \<and>
      (case dd_last_job_received_time (dn_data n) of
         None \<Rightarrow> False | Some last_time \<Rightarrow> unat interval * 1000 \<le> now - last_time))"

definition send_keepalive ::
  "('j, 'v) sv1_lib \<Rightarrow> sv1_env \<Rightarrow> downstream_id \<times> channel_id option \<Rightarrow> ('j, 'v) sv1_server \<Rightarrow> ('j, 'v) sv1_server" where
  "send_keepalive lib env tgt ss = (case tgt of (d, channel_id) \<Rightarrow>
     (case make_keepalive_job channel_id ss of
        (None, ss) \<Rightarrow> ss
      | (Some job, ss) \<Rightarrow>
         (let (sent, ss) = send_to_task env d (sl_notify_into lib job) ss in
          if sent = Some True
          then update_data d (\<lambda>data. data\<lparr>dd_last_job_received_time := Some (se_now env)\<rparr>) ss
          else ss)))"

text \<open>One round of the keepalive loop.\<close>

definition job_keepalive_round ::
  "('j, 'v) sv1_lib \<Rightarrow> sv1_env \<Rightarrow> ('j, 'v) sv1_server \<Rightarrow> ('j, 'v) sv1_server" where
  "job_keepalive_round lib env ss =
     (let targets = map (\<lambda>(d, n). (d, dd_channel_id (dn_data n)))
            (filter (\<lambda>(d, n). needs_keepalive (se_now env) (dc_job_keepalive_interval_secs (ss_config ss)) n)
              (ss_downstreams ss))
      in foldl (\<lambda>ss t. send_keepalive lib env t ss) ss targets)"

definition keepalive_check_interval :: "u16 \<Rightarrow> nat" where
  "keepalive_check_interval interval = max (unat interval div 2) 5"

section \<open>The event loop\<close>

text \<open>
  What a task does with an error; the two flags are the global token and the fallback token.
\<close>

record loop_tokens =
  lt_cancelled :: bool
  lt_fallback :: bool

definition sv1_handle_error_action ::
  "sv1_env \<Rightarrow> tproxy_error \<Rightarrow> loop_tokens \<Rightarrow> (('j, 'v) sv1_server, loop_control \<times> loop_tokens) tcomp" where
  "sv1_handle_error_action env e tok =
     (if lt_cancelled tok \<or> lt_fallback tok then c_return (LoopContinue, tok)
      else (case te_action e of
              TpLog \<Rightarrow> c_return (LoopContinue, tok)
            | TpDisconnect d \<Rightarrow> c_bind (handle_downstream_disconnect env d) (\<lambda>_. c_return (LoopContinue, tok))
            | TpFallback \<Rightarrow> c_return (LoopBreak, tok\<lparr>lt_fallback := True\<rparr>)
            | TpShutdown \<Rightarrow> c_return (LoopBreak, tok\<lparr>lt_cancelled := True\<rparr>)))"

datatype ('j, 'v) sv1_event =
    SvAccept "'v option"
  | SvMiner "(downstream_id \<times> 'j json_message) option"
  | SvUpstream "mining option"
  | SvVardiff
  | SvKeepalive

definition sv1_handle_event ::
  "('j, 'v) sv1_lib \<Rightarrow> sv1_env \<Rightarrow> target \<Rightarrow> ('j, 'v) sv1_event \<Rightarrow> (('j, 'v) sv1_server, unit) tcomp" where
  "sv1_handle_event lib env first_target ev = (case ev of
     SvAccept vardiff \<Rightarrow> sv1_accept first_target vardiff
   | SvMiner received \<Rightarrow> sv1_handle_downstream_message lib env received
   | SvUpstream received \<Rightarrow> sv1_handle_upstream_message lib env first_target received
   | SvVardiff \<Rightarrow> c_bind (c_get vardiff_enabled) (\<lambda>b.
       if b then handle_vardiff_updates lib env else c_return ())
   | SvKeepalive \<Rightarrow> c_modify (\<lambda>ss. if dc_job_keepalive_interval_secs (ss_config ss) > 0
       then job_keepalive_round lib env ss else ss))"

text \<open>
  A turn of the loop: it ends, after a cleanup, when a token is cancelled or an error demands it.
\<close>

definition sv1_step ::
  "('j, 'v) sv1_lib \<Rightarrow> sv1_env \<Rightarrow> target \<Rightarrow> loop_tokens \<Rightarrow> ('j, 'v) sv1_event
    \<Rightarrow> (('j, 'v) sv1_server, loop_control \<times> loop_tokens) tcomp" where
  "sv1_step lib env first_target tok ev =
     (if lt_cancelled tok \<or> lt_fallback tok
      then c_bind (c_modify sv1_cleanup) (\<lambda>_. c_return (LoopBreak, tok))
      else (\<lambda>ss. case sv1_handle_event lib env first_target ev ss of
        (Inr _, ss) \<Rightarrow> (Ok (LoopContinue, tok), ss)
      | (Inl TpPanic, ss) \<Rightarrow> (Err TpPanic, ss)
      | (Inl (TpRaised e), ss) \<Rightarrow>
          c_bind (sv1_handle_error_action env e tok) (\<lambda>(control, tok).
            if control = LoopBreak then c_bind (c_modify sv1_cleanup) (\<lambda>_. c_return (control, tok))
            else c_return (control, tok)) ss))"

text \<open>
  The task of one connection: a message of the server, or of the miner.  When its loop ends, the
  connection is removed from the server.
\<close>

datatype 'j task_event =
    TaskServer "'j json_message option"
  | TaskMiner "'j json_message option" bool

definition task_handle_event ::
  "('j, 'v) sv1_lib \<Rightarrow> sv1_env \<Rightarrow> 'j task_event \<Rightarrow> ('j sv1_downstream, unit) tcomp" where
  "task_handle_event lib env ev = (case ev of
     TaskServer received \<Rightarrow> c_bind (c_get dn_downstream_id) (\<lambda>d.
       handle_sv1_server_message lib (se_miner_ok env d) (se_now env) received)
   | TaskMiner received ok \<Rightarrow> forward_miner_message ok received)"

definition task_on_error ::
  "sv1_env \<Rightarrow> downstream_id \<Rightarrow> loop_tokens \<Rightarrow> tproxy_error
    \<Rightarrow> (('j, 'v) sv1_server, loop_control \<times> loop_tokens) tcomp" where
  "task_on_error env d tok e = c_bind (c_get (get_downstream d)) (\<lambda>n. case n of
     None \<Rightarrow> c_return (LoopBreak, tok)
   | Some n \<Rightarrow> (case dn_handle_error_action (lt_cancelled tok) (lt_fallback tok) e n of
       (LoopContinue, _, _) \<Rightarrow> c_return (LoopContinue, tok)
     | (LoopBreak, cancelled, _) \<Rightarrow> c_bind (handle_downstream_disconnect env d) (\<lambda>_.
         c_return (LoopBreak, tok\<lparr>lt_cancelled := cancelled\<rparr>))))"

definition task_step ::
  "('j, 'v) sv1_lib \<Rightarrow> sv1_env \<Rightarrow> downstream_id \<Rightarrow> loop_tokens \<Rightarrow> 'j task_event
    \<Rightarrow> (('j, 'v) sv1_server, loop_control \<times> loop_tokens) tcomp" where
  "task_step lib env d tok ev =
     (if lt_cancelled tok \<or> lt_fallback tok
      then c_bind (handle_downstream_disconnect env d) (\<lambda>_. c_return (LoopBreak, tok))
      else (\<lambda>ss. case run_on_downstream d (task_handle_event lib env ev) ss of
        (Inr _, ss) \<Rightarrow> (Ok (LoopContinue, tok), ss)
      | (Inl TpPanic, ss) \<Rightarrow> (Err TpPanic, ss)
      | (Inl (TpRaised e), ss) \<Rightarrow> task_on_error env d tok e ss))"

end
