(* ===== verification/Tproxy_Upstream.thy ===== *)
theory Tproxy_Upstream
  imports Tproxy_Channels Sv1_Server
begin

text \<open>
  The messages of the upstream at the translator's channel manager
  (\<open>sv2/channel_manager/mining_message_handler.rs\<close>, \<open>extensions_message_handler.rs\<close>), the routing of
  frames, and the manager's event loop (\<open>sv2/channel_manager/mod.rs\<close>).
\<close>

section \<open>Loops that collect messages\<close>

fun t_collect :: "'k list \<Rightarrow> ('k \<Rightarrow> ('c, 'm list) tcomp) \<Rightarrow> ('c, 'm list) tcomp" where
  "t_collect [] f = c_return []"
| "t_collect (x # xs) f = c_bind (f x) (\<lambda>ms. c_bind (t_collect xs f) (\<lambda>ns. c_return (ms @ ns)))"

text \<open>A fallible method of one channel, or of one group; an absent one and a failure are errors.\<close>

definition on_channel ::
  "channel_id \<Rightarrow> tproxy_error \<Rightarrow> tproxy_error_kind \<Rightarrow> ('x \<Rightarrow> (unit, string) result \<times> 'x)
    \<Rightarrow> (('x, 'g, 'a) tproxy_manager, 'x) tcomp" where
  "on_channel c absent failed f tm = (case get_channel c tm of
     None \<Rightarrow> (Err (TpRaised absent), tm)
   | Some x \<Rightarrow> (let (r, x') = f x in
       (if is_ok r then Ok x' else Err (TpRaised (tp_fallback failed)), put_channel c x' tm)))"

definition put_group :: "channel_id \<Rightarrow> 'g \<Rightarrow> ('x, 'g, 'a) tproxy_manager \<Rightarrow> ('x, 'g, 'a) tproxy_manager" where
  "put_group c g tm = tm\<lparr>tm_group_channels := snd (sm_insert c g (tm_group_channels tm))\<rparr>"

definition get_group :: "channel_id \<Rightarrow> ('x, 'g, 'a) tproxy_manager \<Rightarrow> 'g option" where
  "get_group c tm = sm_get_cloned (tm_group_channels tm) c"

section \<open>Opened channels\<close>

text \<open>The group of a channel that was opened; it is created when it is new.\<close>

definition join_group ::
  "('x, 'g, 'a, 'p) tproxy_lib \<Rightarrow> channel_id \<Rightarrow> channel_id \<Rightarrow> nat \<Rightarrow> (('x, 'g, 'a) tproxy_manager, unit) tcomp" where
  "join_group lib group_id c full_extranonce_size tm =
     (case get_group group_id tm of
        Some g \<Rightarrow> (let (r, g') = cg_add_channel_id (tl_group lib) c full_extranonce_size g in
          (map_err (\<lambda>e. TpRaised (tp_fallback (TkFailedToAddChannelIdToGroupChannel e))) r, put_group group_id g' tm))
      | None \<Rightarrow> (let (r, g') = cg_add_channel_id (tl_group lib) c full_extranonce_size (cg_new (tl_group lib) group_id) in
          (case r of
             Inl e \<Rightarrow> (Err (TpRaised (tp_fallback (TkFailedToAddChannelIdToGroupChannel e))), tm)
           | Inr _ \<Rightarrow> (Ok (), put_group group_id g' tm))))"

text \<open>
  The allocator over the extranonce space that the upstream granted, and its first prefix; what is
  left over is padding.  The sizes are added as bytes, as the code does.
\<close>

definition mint_prefix ::
  "('x, 'g, 'a, 'p) tproxy_lib \<Rightarrow> bytes \<Rightarrow> u16 \<Rightarrow> nat \<Rightarrow> u32 \<Rightarrow> ('a \<times> 'p, tproxy_error) result" where
  "mint_prefix lib upstream_prefix extranonce_size downstream_len max_channels =
     (let al = tl_allocator lib; failed = (\<lambda>_. tp_fallback TkOpenMiningChannelError);
          full_extranonce_size = (word_of_nat (length upstream_prefix) + ucast extranonce_size :: u8);
          padding = unat extranonce_size - unat (al_bytes_needed al max_channels) - downstream_len in
      rbind (map_err failed (al_from_upstream_prefix al upstream_prefix (replicate padding 0)
               full_extranonce_size max_channels)) (\<lambda>a.
      let (allocation, a') = al_allocate_extended al downstream_len a in
      rbind (map_err failed allocation) (\<lambda>p. Ok (a', p))))"

definition success_for_sv1 ::
  "('x, 'g, 'a, 'p) tproxy_lib \<Rightarrow> open_channel_success \<Rightarrow> channel_id \<Rightarrow> bytes \<Rightarrow> nat
    \<Rightarrow> (('x, 'g, 'a) tproxy_manager, mining) tcomp" where
  "success_for_sv1 lib m c prefix_bytes downstream_len =
     (if tl_fits_b032 lib (length prefix_bytes)
      then c_return (OpenExtendedMiningChannelSuccess
        (m\<lparr>ocs_channel_id := c, ocs_extranonce_prefix := prefix_bytes\<rparr>) (word_of_nat downstream_len))
      else t_raise (tp_shutdown TkBinarySv2))"

definition opened_aggregated ::
  "('x, 'g, 'a, 'p) tproxy_lib \<Rightarrow> open_channel_success \<Rightarrow> u16 \<Rightarrow> string \<Rightarrow> f32 \<Rightarrow> nat
    \<Rightarrow> (('x, 'g, 'a) tproxy_manager, mining) tcomp" where
  "opened_aggregated lib m extranonce_size user_identity hashrate downstream_len =
     (if unat extranonce_size < unat (AGGREGATED_TPROXY_LOCAL_PREFIX_BYTES lib) + downstream_len
      then t_raise (tp_fallback TkOpenMiningChannelError)
      else
        c_bind (t_try (mint_prefix lib (ocs_extranonce_prefix m) extranonce_size downstream_len
           AGGREGATED_TPROXY_MAX_CHANNELS)) (\<lambda>(a, p).
        c_bind (t_expect (case al_prefix_from_wire (tl_allocator lib) (al_upstream_prefix (tl_allocator lib) a) of
             Inl _ \<Rightarrow> None | Inr q \<Rightarrow> Some q)) (\<lambda>q.
        let t = target_from_le_bytes (ocs_target m); new = cx_new (tl_extended lib) in
        c_bind (c_modify (insert_channel lib AGGREGATED_CHANNEL_ID
           (new (ocs_channel_id m) user_identity q t hashrate True extranonce_size))) (\<lambda>_.
        c_bind (c_modify (insert_channel lib 1
           (new 1 user_identity p t hashrate True (word_of_nat downstream_len)))) (\<lambda>_.
        c_bind (c_modify (\<lambda>tm. tm\<lparr>tm_allocator := Some a, tm_aggregated_state := Connected\<rparr>)) (\<lambda>_.
        success_for_sv1 lib m 1 (al_prefix_bytes (tl_allocator lib) p) downstream_len))))))"

text \<open>A channel of its own: without room to spare the upstream's prefix is the miner's.\<close>

definition own_channel_prefix ::
  "('x, 'g, 'a, 'p) tproxy_lib \<Rightarrow> open_channel_success \<Rightarrow> u16 \<Rightarrow> nat \<Rightarrow> ('p \<times> bytes, tproxy_error) result" where
  "own_channel_prefix lib m extranonce_size downstream_len =
     (let al = tl_allocator lib in
      if unat extranonce_size < downstream_len then Err (tp_fallback TkOpenMiningChannelError)
      else if unat extranonce_size = downstream_len
      then rbind (map_err (\<lambda>_. tp_shutdown TkOpenMiningChannelError)
             (al_prefix_from_wire al (ocs_extranonce_prefix m))) (\<lambda>p. Ok (p, ocs_extranonce_prefix m))
      else if unat extranonce_size < unat (al_bytes_needed al NON_AGGREGATED_TPROXY_MAX_CHANNELS) + downstream_len
      then Err (tp_fallback TkOpenMiningChannelError)
      else rbind (mint_prefix lib (ocs_extranonce_prefix m) extranonce_size downstream_len
             NON_AGGREGATED_TPROXY_MAX_CHANNELS) (\<lambda>(_, p). Ok (p, al_prefix_bytes al p)))"

definition opened_own ::
  "('x, 'g, 'a, 'p) tproxy_lib \<Rightarrow> open_channel_success \<Rightarrow> u16 \<Rightarrow> string \<Rightarrow> f32 \<Rightarrow> nat
    \<Rightarrow> (('x, 'g, 'a) tproxy_manager, mining) tcomp" where
  "opened_own lib m extranonce_size user_identity hashrate downstream_len =
     c_bind (t_try (own_channel_prefix lib m extranonce_size downstream_len)) (\<lambda>(p, prefix_bytes).
     c_bind (c_modify (insert_channel lib (ocs_channel_id m)
        (cx_new (tl_extended lib) (ocs_channel_id m) user_identity p (target_from_le_bytes (ocs_target m))
           hashrate True (word_of_nat downstream_len)))) (\<lambda>_.
     success_for_sv1 lib m (ocs_channel_id m) prefix_bytes downstream_len))"

text \<open>Requests that waited for the shared channel are served once it is open.\<close>

definition serve_pending ::
  "('x, 'g, 'a, 'p) tproxy_lib \<Rightarrow> tm_env \<Rightarrow> (('x, 'g, 'a) tproxy_manager, unit) tcomp" where
  "serve_pending lib env =
     c_bind (c_get tm_pending_downstream_channels) (\<lambda>pending.
     c_bind (c_modify (\<lambda>tm. tm\<lparr>tm_pending_downstream_channels := sm_clear (tm_pending_downstream_channels tm)\<rparr>)) (\<lambda>_.
     t_for pending (\<lambda>(req_id, user_identity, hashrate, min_extranonce_size).
       handle_downstream_channel_request_in_aggregated_mode lib env (word_of_nat req_id) user_identity hashrate
         min_extranonce_size)))"

definition handle_open_extended_mining_channel_success ::
  "('x, 'g, 'a, 'p) tproxy_lib \<Rightarrow> tm_env \<Rightarrow> open_channel_success \<Rightarrow> u16
    \<Rightarrow> (('x, 'g, 'a) tproxy_manager, unit) tcomp" where
  "handle_open_extended_mining_channel_success lib env m extranonce_size =
     c_bind (c_get (\<lambda>tm. sm_get_cloned (tm_pending_downstream_channels tm) (unat (ocs_request_id m)))) (\<lambda>pending.
     c_bind (c_modify (\<lambda>tm. tm\<lparr>tm_pending_downstream_channels :=
        snd (sm_remove (unat (ocs_request_id m)) (tm_pending_downstream_channels tm))\<rparr>)) (\<lambda>_. case pending of
       None \<Rightarrow> t_raise (tp_log (TkPendingChannelNotFound (ocs_request_id m)))
     | Some (user_identity, hashrate, downstream_len) \<Rightarrow>
        c_bind (join_group lib (ocs_group_channel_id m) (ocs_channel_id m)
           (unat extranonce_size + length (ocs_extranonce_prefix m))) (\<lambda>_.
        c_bind (c_get (\<lambda>tm. is_aggregated (tm_mode tm))) (\<lambda>aggregated.
        c_bind (if aggregated then opened_aggregated lib m extranonce_size user_identity hashrate downstream_len
                else opened_own lib m extranonce_size user_identity hashrate downstream_len) (\<lambda>success.
        c_bind (send_sv1 env success) (\<lambda>_.
        if aggregated then serve_pending lib env else c_return ()))))))"

section \<open>Closed channels and shares\<close>

definition tm_handle_close_channel ::
  "('x, 'g, 'a, 'p) tproxy_lib \<Rightarrow> channel_id \<Rightarrow> (('x, 'g, 'a) tproxy_manager, unit) tcomp" where
  "tm_handle_close_channel lib c = c_bind (c_get id) (\<lambda>tm.
     if is_aggregated (tm_mode tm) then t_raise (tp_fallback TkAggregatedChannelClosed)
     else (case get_group c tm of
         Some g \<Rightarrow> c_modify (\<lambda>tm. foldl (\<lambda>tm x. remove_channel lib x tm)
           (tm\<lparr>tm_group_channels := snd (sm_remove c (tm_group_channels tm))\<rparr>) (cg_get_channel_ids (tl_group lib) g))
       | None \<Rightarrow>
          (if sm_contains_key (tm_extended_channels tm) c
           then c_modify (\<lambda>tm. remove_from_groups lib c (remove_channel lib c tm))
           else t_raise (tp_log TkChannelNotFound))))"

definition accounting_channel :: "channel_id \<Rightarrow> ('x, 'g, 'a) tproxy_manager \<Rightarrow> channel_id" where
  "accounting_channel c tm = (if is_aggregated (tm_mode tm) then AGGREGATED_CHANNEL_ID else c)"

definition handle_submit_shares_success ::
  "('x, 'g, 'a, 'p) tproxy_lib \<Rightarrow> submit_shares_success \<Rightarrow> ('x, 'g, 'a) tproxy_manager \<Rightarrow> ('x, 'g, 'a) tproxy_manager" where
  "handle_submit_shares_success lib m tm = change_channel (accounting_channel (ssu_channel_id m) tm)
     (cx_on_share_acknowledgement (tl_extended lib) (ssu_new_submits_accepted_count m) (ssu_new_shares_sum m)) tm"

definition handle_submit_shares_error ::
  "('x, 'g, 'a, 'p) tproxy_lib \<Rightarrow> channel_id \<Rightarrow> error_code \<Rightarrow> ('x, 'g, 'a) tproxy_manager \<Rightarrow> ('x, 'g, 'a) tproxy_manager" where
  "handle_submit_shares_error lib c code tm = change_channel (accounting_channel c tm)
     (cx_on_share_rejection (tl_extended lib) code) tm"

section \<open>Jobs, previous hashes and targets\<close>

text \<open>Whether a message is for the shared channel, or the group it belongs to.\<close>

definition for_aggregated_channel ::
  "('x, 'g, 'a, 'p) tproxy_lib \<Rightarrow> channel_id \<Rightarrow> (('x, 'g, 'a) tproxy_manager, unit) tcomp" where
  "for_aggregated_channel lib c = c_bind (c_get id) (\<lambda>tm.
     case get_channel AGGREGATED_CHANNEL_ID tm of
       None \<Rightarrow> t_raise (tp_fallback TkChannelNotFound)
     | Some x \<Rightarrow> (case tm_group_channels tm of
         [] \<Rightarrow> t_raise (tp_fallback TkChannelNotFound)
       | (_, g) # _ \<Rightarrow>
          (if cx_get_channel_id (tl_extended lib) x = c \<or> cg_get_group_channel_id (tl_group lib) g = c
           then c_return () else t_raise (tp_log TkChannelNotFound))))"

definition verify_payout ::
  "('x, 'g, 'a, 'p) tproxy_lib \<Rightarrow> bytes \<Rightarrow> (('x, 'g, 'a) tproxy_manager, unit) tcomp" where
  "verify_payout lib coinbase_tx_suffix =
     c_bind (c_get tm_expected_payout) (\<lambda>expected. c_bind (t_expect expected) (\<lambda>expected. case expected of
       None \<Rightarrow> c_return ()
     | Some payout \<Rightarrow> t_try (map_err (\<lambda>e. tp_fallback (TkPayoutVerificationFailed (display_payout_validation_error e)))
         (validate_coinbase_tx_suffix (tl_is_op_return lib) (tl_decode_outputs lib) payout coinbase_tx_suffix))))"

definition announced :: "new_extended_mining_job \<Rightarrow> new_extended_mining_job list" where
  "announced job = (if nxj_min_ntime job = None then [] else [job])"

definition job_on_channels ::
  "('x, 'g, 'a, 'p) tproxy_lib \<Rightarrow> new_extended_mining_job
    \<Rightarrow> (('x, 'g, 'a) tproxy_manager, new_extended_mining_job list) tcomp" where
  "job_on_channels lib m = c_bind (c_get id) (\<lambda>tm.
     let add = cx_on_new_extended_mining_job (tl_extended lib); failed = TkFailedToProcessNewExtendedMiningJob;
         absent = tp_fallback TkChannelNotFound in
     if is_aggregated (tm_mode tm) then
       c_bind (for_aggregated_channel lib (nxj_channel_id m)) (\<lambda>_.
       c_bind (t_for (sm_keys (tm_extended_channels tm)) (\<lambda>c.
         c_bind (on_channel c absent failed (add m)) (\<lambda>_. c_return ()))) (\<lambda>_.
       c_return (announced (m\<lparr>nxj_channel_id := AGGREGATED_CHANNEL_ID\<rparr>))))
     else (case get_group (nxj_channel_id m) tm of
         Some g \<Rightarrow> (let g' = cg_on_new_extended_mining_job (tl_group lib) m g in
           c_bind (c_modify (put_group (nxj_channel_id m) g')) (\<lambda>_.
           t_collect (cg_get_channel_ids (tl_group lib) g') (\<lambda>c. let job = m\<lparr>nxj_channel_id := c\<rparr> in
             c_bind (on_channel c absent failed (add job)) (\<lambda>_. c_return (announced job)))))
       | None \<Rightarrow> c_bind (on_channel (nxj_channel_id m) (tp_log TkChannelNotFound) failed (add m))
           (\<lambda>_. c_return (announced m))))"

definition handle_new_extended_mining_job ::
  "('x, 'g, 'a, 'p) tproxy_lib \<Rightarrow> tm_env \<Rightarrow> new_extended_mining_job \<Rightarrow> (('x, 'g, 'a) tproxy_manager, unit) tcomp" where
  "handle_new_extended_mining_job lib env m =
     c_bind (verify_payout lib (nxj_coinbase_tx_suffix m)) (\<lambda>_.
     c_bind (job_on_channels lib m) (\<lambda>jobs. t_for jobs (\<lambda>job. send_sv1 env (NewExtendedMiningJob job))))"

text \<open>A previous hash activates a job; both are for the SV1 server.\<close>

definition activate_on ::
  "('x, 'g, 'a, 'p) tproxy_lib \<Rightarrow> tproxy_error \<Rightarrow> set_new_prev_hash \<Rightarrow> channel_id
    \<Rightarrow> (('x, 'g, 'a) tproxy_manager, (set_new_prev_hash \<times> new_extended_mining_job) list) tcomp" where
  "activate_on lib absent m c =
     c_bind (on_channel c absent TkFailedToProcessSetNewPrevHash (cx_on_set_new_prev_hash (tl_extended lib) m)) (\<lambda>x.
     c_bind (t_expect (cx_get_active_job (tl_extended lib) x)) (\<lambda>job.
     c_return [(m\<lparr>snp_channel_id := c\<rparr>, job)]))"

definition prev_hash_on_channels ::
  "('x, 'g, 'a, 'p) tproxy_lib \<Rightarrow> set_new_prev_hash
    \<Rightarrow> (('x, 'g, 'a) tproxy_manager, (set_new_prev_hash \<times> new_extended_mining_job) list) tcomp" where
  "prev_hash_on_channels lib m = c_bind (c_get id) (\<lambda>tm.
     let absent = tp_fallback TkChannelNotFound; failed = TkFailedToProcessSetNewPrevHash in
     if is_aggregated (tm_mode tm) then
       c_bind (for_aggregated_channel lib (snp_channel_id m)) (\<lambda>_.
       c_bind (t_for (sm_keys (tm_extended_channels tm)) (\<lambda>c.
         c_bind (on_channel c absent failed (cx_on_set_new_prev_hash (tl_extended lib) m)) (\<lambda>_. c_return ()))) (\<lambda>_.
       c_bind (c_get (get_channel AGGREGATED_CHANNEL_ID)) (\<lambda>x. c_bind (t_expect x) (\<lambda>x.
       c_bind (t_expect (cx_get_active_job (tl_extended lib) x)) (\<lambda>job.
       c_return [(m\<lparr>snp_channel_id := AGGREGATED_CHANNEL_ID\<rparr>, job\<lparr>nxj_channel_id := AGGREGATED_CHANNEL_ID\<rparr>)])))))
     else (case get_group (snp_channel_id m) tm of
         Some g \<Rightarrow> (let (r, g') = cg_on_set_new_prev_hash (tl_group lib) m g in
           c_bind (c_modify (put_group (snp_channel_id m) g')) (\<lambda>_.
           c_bind (t_try (map_err (\<lambda>_. tp_fallback failed) r)) (\<lambda>_.
           t_collect (cg_get_channel_ids (tl_group lib) g') (activate_on lib absent m))))
       | None \<Rightarrow> activate_on lib (tp_log TkChannelNotFound) m (snp_channel_id m)))"

definition tm_handle_set_new_prev_hash ::
  "('x, 'g, 'a, 'p) tproxy_lib \<Rightarrow> tm_env \<Rightarrow> set_new_prev_hash \<Rightarrow> (('x, 'g, 'a) tproxy_manager, unit) tcomp" where
  "tm_handle_set_new_prev_hash lib env m =
     c_bind (prev_hash_on_channels lib m) (\<lambda>activated.
     c_bind (t_for (map fst activated) (\<lambda>p. send_sv1 env (SetNewPrevHash p))) (\<lambda>_.
     t_for (map snd activated) (\<lambda>job. send_sv1 env (NewExtendedMiningJob job))))"

definition target_on_channels ::
  "('x, 'g, 'a, 'p) tproxy_lib \<Rightarrow> channel_id \<Rightarrow> bytes \<Rightarrow> (('x, 'g, 'a) tproxy_manager, channel_id list) tcomp" where
  "target_on_channels lib channel_id maximum_target = c_bind (c_get id) (\<lambda>tm.
     let set_tgt = cx_set_target (tl_extended lib) (target_from_le_bytes maximum_target);
         on = (\<lambda>absent c. c_bind (on_channel c absent TkChannelNotFound (\<lambda>x. (Ok (), set_tgt x)))
            (\<lambda>_. c_return [c])) in
     if is_aggregated (tm_mode tm) then
       c_bind (for_aggregated_channel lib channel_id) (\<lambda>_.
       c_bind (c_modify (\<lambda>tm. tm\<lparr>tm_extended_channels :=
          map (\<lambda>(c, x). (c, set_tgt x)) (tm_extended_channels tm)\<rparr>)) (\<lambda>_. c_return [AGGREGATED_CHANNEL_ID]))
     else (case get_group channel_id tm of
         Some g \<Rightarrow> t_collect (cg_get_channel_ids (tl_group lib) g) (on (tp_fallback TkChannelNotFound))
       | None \<Rightarrow> on (tp_log TkChannelNotFound) channel_id))"

definition handle_set_target ::
  "('x, 'g, 'a, 'p) tproxy_lib \<Rightarrow> tm_env \<Rightarrow> channel_id \<Rightarrow> bytes \<Rightarrow> (('x, 'g, 'a) tproxy_manager, unit) tcomp" where
  "handle_set_target lib env channel_id maximum_target =
     c_bind (target_on_channels lib channel_id maximum_target) (\<lambda>cs.
     t_for cs (\<lambda>c. send_sv1 env (SetTarget c maximum_target)))"

section \<open>Groups\<close>

text \<open>
  The channels of the message leave every group; groups that end up empty are removed, and the
  named group has exactly the channels of the message.
\<close>

definition leave_groups ::
  "('x, 'g, 'a, 'p) tproxy_lib \<Rightarrow> channel_id list \<Rightarrow> ('x, 'g, 'a) tproxy_manager \<Rightarrow> ('x, 'g, 'a) tproxy_manager" where
  "leave_groups lib cs tm = tm\<lparr>tm_group_channels := filter (\<lambda>(_, g). \<not> cg_is_empty (tl_group lib) g)
     (map (\<lambda>(k, g). (k, foldl (\<lambda>g c. cg_remove_channel_id (tl_group lib) c g) g cs)) (tm_group_channels tm))\<rparr>"

definition group_add ::
  "('x, 'g, 'a, 'p) tproxy_lib \<Rightarrow> ('x, 'g, 'a) tproxy_manager \<Rightarrow> channel_id \<Rightarrow> ('g, unit) tcomp" where
  "group_add lib tm c g = (case get_channel c tm of
     None \<Rightarrow> (Err (TpRaised (tp_fallback TkChannelNotFound)), g)
   | Some x \<Rightarrow> (let (r, g') = cg_add_channel_id (tl_group lib) c (cx_get_full_extranonce_size (tl_extended lib) x) g in
       (map_err (\<lambda>e. TpRaised (tp_fallback (TkFailedToAddChannelIdToGroupChannel e))) r, g')))"

definition handle_set_group_channel ::
  "('x, 'g, 'a, 'p) tproxy_lib \<Rightarrow> channel_id \<Rightarrow> channel_id list \<Rightarrow> (('x, 'g, 'a) tproxy_manager, unit) tcomp" where
  "handle_set_group_channel lib group_id cs tm =
     (let tm = leave_groups lib cs tm; api = tl_group lib in
      case get_group group_id tm of
        Some g \<Rightarrow>
         (let g = foldl (\<lambda>g c. if c \<in> set cs then g else cg_remove_channel_id api c g) g (cg_get_channel_ids api g);
              (r, g') = t_for cs (group_add lib tm) g
          in (r, put_group group_id g' tm))
      | None \<Rightarrow>
         (case t_for cs (group_add lib tm) (cg_new api group_id) of
            (Inl e, _) \<Rightarrow> (Err e, tm)
          | (Inr _, g') \<Rightarrow> (Ok (), put_group group_id g' tm)))"

section \<open>Extensions\<close>

datatype extensions_from_server =
    ExtensionsSuccess "u16 list"
  | ExtensionsError u16 "u16 list" "u16 list"

definition handle_request_extensions_success ::
  "('x, 'g, 'a, 'p) tproxy_lib \<Rightarrow> u16 list \<Rightarrow> (('x, 'g, 'a) tproxy_manager, unit) tcomp" where
  "handle_request_extensions_success lib supported = c_bind (c_get tm_required_extensions) (\<lambda>required.
     let missing_required = filter (\<lambda>e. e \<notin> set supported) required in
     if missing_required \<noteq> []
     then t_raise (tp_fallback (TkGeneral
       (''Server does not support required extensions: '' @ tl_show_u16_list lib missing_required)))
     else c_modify (\<lambda>tm. tm\<lparr>tm_negotiated_extensions := supported\<rparr>))"

definition handle_request_extensions_error ::
  "('x, 'g, 'a, 'p) tproxy_lib \<Rightarrow> tm_env \<Rightarrow> u16 \<Rightarrow> u16 list \<Rightarrow> u16 list
    \<Rightarrow> (('x, 'g, 'a) tproxy_manager, unit) tcomp" where
  "handle_request_extensions_error lib env request_id unsupported required_by_server = c_bind (c_get id) (\<lambda>tm.
     let missing_required = filter (\<lambda>e. e \<in> set unsupported) (tm_required_extensions tm);
         can_support = filter (\<lambda>e. e \<in> set (tm_supported_extensions tm)) required_by_server;
         cannot_support = filter (\<lambda>e. e \<notin> set (tm_supported_extensions tm)) required_by_server in
     if missing_required \<noteq> [] then t_raise (tp_fallback (TkRequiredExtensionsNotSupported missing_required))
     else if required_by_server = [] then c_return ()
     else if cannot_support \<noteq> [] then t_raise (tp_fallback (TkServerRequiresUnsupportedExtensions cannot_support))
     else send_upstream lib env (UpRequestExtensions (request_id + 1) can_support))"

section \<open>Frames and the event loop\<close>

definition tm_handle_mining_message ::
  "('x, 'g, 'a, 'p) tproxy_lib \<Rightarrow> tm_env \<Rightarrow> mining \<Rightarrow> (('x, 'g, 'a) tproxy_manager, unit) tcomp" where
  "tm_handle_mining_message lib env m =
     (let unexpected = (\<lambda>n. t_raise (tp_log (TkUnexpectedMessage 0 (mt_number (tl_message_types lib) n)))) in case m of
       OpenStandardMiningChannelSuccess _ \<Rightarrow> unexpected M_OPEN_STANDARD_MINING_CHANNEL_SUCCESS
     | OpenExtendedMiningChannelSuccess m extranonce_size \<Rightarrow>
         handle_open_extended_mining_channel_success lib env m extranonce_size
     | OpenMiningChannelError _ _ \<Rightarrow> t_raise (tp_fallback TkOpenMiningChannelError)
     | NewMiningJob _ \<Rightarrow> c_return ()
     | NewExtendedMiningJob m \<Rightarrow> handle_new_extended_mining_job lib env m
     | SetNewPrevHash m \<Rightarrow> tm_handle_set_new_prev_hash lib env m
     | SetTarget c t \<Rightarrow> handle_set_target lib env c t
     | UpdateChannelError _ _ \<Rightarrow> c_return ()
     | CloseChannel c _ \<Rightarrow> tm_handle_close_channel lib c
     | SubmitSharesSuccess m \<Rightarrow> c_modify (handle_submit_shares_success lib m)
     | SubmitSharesError c _ code \<Rightarrow> c_modify (handle_submit_shares_error lib c code)
     | SetCustomMiningJobSuccess _ _ _ \<Rightarrow> unexpected M_SET_CUSTOM_MINING_JOB_SUCCESS
     | SetCustomMiningJobError _ _ _ \<Rightarrow> unexpected M_SET_CUSTOM_MINING_JOB_ERROR
     | SetExtranoncePrefix _ _ \<Rightarrow> c_return ()
     | SetGroupChannel group_id cs \<Rightarrow> handle_set_group_channel lib group_id cs)"

definition handle_extensions_message ::
  "('x, 'g, 'a, 'p) tproxy_lib \<Rightarrow> tm_env \<Rightarrow> extensions_from_server \<Rightarrow> (('x, 'g, 'a) tproxy_manager, unit) tcomp" where
  "handle_extensions_message lib env m = (case m of
     ExtensionsSuccess supported \<Rightarrow> handle_request_extensions_success lib supported
   | ExtensionsError request_id unsupported required \<Rightarrow>
       handle_request_extensions_error lib env request_id unsupported required)"

text \<open>
  A frame: its header, absent when it has none, and what the parsers of the protocol crates make of
  its payload under the negotiated extensions.
\<close>

record upstream_frame =
  uf_header :: "(u16 \<times> u8) option"
  uf_parse_mining :: "u16 list \<Rightarrow> (mining, tproxy_error_kind) result"
  uf_parse_extensions :: "u16 list \<Rightarrow> (extensions_from_server, tproxy_error_kind) result"

definition handle_upstream_frame ::
  "('x, 'g, 'a, 'p) tproxy_lib \<Rightarrow> tm_env \<Rightarrow> upstream_frame option \<Rightarrow> (('x, 'g, 'a) tproxy_manager, unit) tcomp" where
  "handle_upstream_frame lib env received = (case received of
     None \<Rightarrow> t_raise (tp_fallback TkChannelErrorReceiver)
   | Some f \<Rightarrow> (case uf_header f of
       None \<Rightarrow> t_raise (tp_fallback TkFramingSv2)
     | Some (ext, ty) \<Rightarrow> c_bind (c_get tm_negotiated_extensions) (\<lambda>negotiated.
         case protocol_message_type (tl_message_types lib) ext ty of
           TypeMining \<Rightarrow> c_bind (t_try (map_err tp_log (uf_parse_mining f negotiated)))
             (tm_handle_mining_message lib env)
         | TypeExtensions \<Rightarrow> c_bind (t_try (map_err tp_log (uf_parse_extensions f negotiated)))
             (handle_extensions_message lib env)
         | _ \<Rightarrow> t_raise (tp_fallback (TkUnexpectedMessage ext ty)))))"

definition tm_handle_error_action :: "tproxy_error \<Rightarrow> loop_tokens \<Rightarrow> loop_control \<times> loop_tokens" where
  "tm_handle_error_action e tok =
     (if lt_cancelled tok \<or> lt_fallback tok then (LoopContinue, tok)
      else (case te_action e of
              TpLog \<Rightarrow> (LoopContinue, tok)
            | TpFallback \<Rightarrow> (LoopBreak, tok\<lparr>lt_fallback := True\<rparr>)
            | TpShutdown \<Rightarrow> (LoopBreak, tok\<lparr>lt_cancelled := True\<rparr>)
            | TpDisconnect _ \<Rightarrow> (LoopContinue, tok)))"

datatype tm_event =
    TmUpstream "upstream_frame option"
  | TmSv1 "(mining_from_client \<times> tlv list option) option"

definition tm_handle_event ::
  "('x, 'g, 'a, 'p) tproxy_lib \<Rightarrow> tm_env \<Rightarrow> tm_event \<Rightarrow> (('x, 'g, 'a) tproxy_manager, unit) tcomp" where
  "tm_handle_event lib env ev = (case ev of
     TmUpstream received \<Rightarrow> handle_upstream_frame lib env received
   | TmSv1 received \<Rightarrow> tm_handle_downstream_message lib env received)"

text \<open>A turn of the loop.  The state is cleared when a token was cancelled, not on a fatal error.\<close>

definition tm_step ::
  "('x, 'g, 'a, 'p) tproxy_lib \<Rightarrow> tm_env \<Rightarrow> loop_tokens \<Rightarrow> tm_event
    \<Rightarrow> (('x, 'g, 'a) tproxy_manager, loop_control \<times> loop_tokens) tcomp" where
  "tm_step lib env tok ev tm =
     (if lt_cancelled tok \<or> lt_fallback tok then (Ok (LoopBreak, tok), reset_state tm)
      else (case tm_handle_event lib env ev tm of
        (Inr _, tm) \<Rightarrow> (Ok (LoopContinue, tok), tm)
      | (Inl TpPanic, tm) \<Rightarrow> (Err TpPanic, tm)
      | (Inl (TpRaised e), tm) \<Rightarrow> (Ok (tm_handle_error_action e tok), tm)))"

end
