(* ===== verification/Tproxy_Channel_Instance.thy ===== *)
theory Tproxy_Channel_Instance
  imports Tproxy_Channels
begin

text \<open>
  A concrete channel crate for the translator's channel manager, on which the theorems about it are
  evaluated.  Its allocator counts upwards and never reuses a slot; a share is valid unless its
  nonce is zero.
\<close>

record demo_channel =
  dch_id :: channel_id
  dch_prefix :: "bytes \<times> nat option"
  dch_target :: target
  dch_active :: "new_extended_mining_job option"
  dch_future :: "(u32 \<times> new_extended_mining_job) list"
  dch_size :: u16

record demo_allocator =
  dal_upstream :: bytes
  dal_padding :: bytes
  dal_next :: nat

type_synonym demo_prefix = "bytes \<times> nat option"
type_synonym demo_group = "channel_id \<times> channel_id list"

definition demo_extended_api :: "(demo_channel, demo_prefix) client_extended_api" where
  "demo_extended_api =
     \<lparr>cx_new = (\<lambda>c _ p t _ _ s. \<lparr>dch_id = c, dch_prefix = p, dch_target = t, dch_active = None, dch_future = [], dch_size = s\<rparr>),
      cx_prefix = dch_prefix, cx_get_channel_id = dch_id,
      cx_get_extranonce_prefix = (\<lambda>x. fst (dch_prefix x)),
      cx_upstream_prefix_len = (\<lambda>x. case snd (dch_prefix x) of None \<Rightarrow> None
        | Some k \<Rightarrow> if k \<le> length (fst (dch_prefix x)) then Some k else None),
      cx_get_full_extranonce_size = (\<lambda>x. length (fst (dch_prefix x)) + unat (dch_size x)),
      cx_get_target = dch_target, cx_set_target = (\<lambda>t x. x\<lparr>dch_target := t\<rparr>),
      cx_set_nominal_hashrate = (\<lambda>_ x. x),
      cx_validate_share = (\<lambda>m x. (if sse_nonce m = 0 then Err ''invalid share'' else Ok (), x)),
      cx_on_share_acknowledgement = (\<lambda>_ _ x. x), cx_on_share_rejection = (\<lambda>_ x. x),
      cx_on_new_extended_mining_job = (\<lambda>j x. (Ok (), if nxj_min_ntime j = None
         then x\<lparr>dch_future := dch_future x @ [(nxj_job_id j, j)]\<rparr> else x\<lparr>dch_active := Some j\<rparr>)),
      cx_on_set_new_prev_hash = (\<lambda>m x. case map_of (dch_future x) (snp_job_id m) of
         None \<Rightarrow> (Err ''no such job'', x)
       | Some j \<Rightarrow> (Ok (), x\<lparr>dch_active := Some j, dch_future := []\<rparr>)),
      cx_get_active_job = dch_active, cx_get_future_jobs = dch_future,
      cx_get_chain_tip = (\<lambda>_. None), cx_set_chain_tip = (\<lambda>_ x. x)\<rparr>"

definition demo_group_api :: "demo_group client_group_api" where
  "demo_group_api =
     \<lparr>cg_new = (\<lambda>c. (c, [])), cg_get_group_channel_id = fst, cg_get_channel_ids = snd,
      cg_has_channel_id = (\<lambda>g c. c \<in> set (snd g)), cg_is_empty = (\<lambda>g. snd g = []),
      cg_add_channel_id = (\<lambda>c _ g. (Ok (), (fst g, if c \<in> set (snd g) then snd g else snd g @ [c]))),
      cg_remove_channel_id = (\<lambda>c g. (fst g, filter (\<lambda>d. d \<noteq> c) (snd g))),
      cg_on_new_extended_mining_job = (\<lambda>_ g. g), cg_on_set_new_prev_hash = (\<lambda>_ g. (Ok (), g))\<rparr>"

definition demo_allocator_api :: "(demo_allocator, demo_prefix) allocator_api" where
  "demo_allocator_api =
     \<lparr>al_bytes_needed = (\<lambda>n. if n = 1 then 0 else 2),
      al_from_upstream_prefix = (\<lambda>up pad _ _. Ok \<lparr>dal_upstream = up, dal_padding = pad, dal_next = 0\<rparr>),
      al_allocate_extended = (\<lambda>_ a. if dal_next a < 65536
         then (Ok (dal_upstream a @ dal_padding a @ le_bytes 2 (dal_next a), Some (length (dal_upstream a))),
               a\<lparr>dal_next := dal_next a + 1\<rparr>)
         else (Err ''no slot left'', a)),
      al_release = (\<lambda>_ a. a),
      al_upstream_prefix = dal_upstream, al_upstream_prefix_len = (\<lambda>a. length (dal_upstream a)),
      al_rollable_extranonce_size = (\<lambda>_. 4),
      al_prefix_bytes = fst, al_prefix_from_wire = (\<lambda>b. Ok (b, None))\<rparr>"

definition demo_live :: "demo_allocator \<Rightarrow> bytes set" where
  "demo_live a = (\<lambda>i. dal_upstream a @ dal_padding a @ le_bytes 2 i) ` {i. i < dal_next a \<and> i < 65536}"

definition demo_tproxy_lib :: "(demo_channel, demo_group, demo_allocator, demo_prefix) tproxy_lib" where
  "demo_tproxy_lib =
     \<lparr>tl_extended = demo_extended_api, tl_group = demo_group_api, tl_allocator = demo_allocator_api,
      tl_as_utf8_or_hex = (\<lambda>s. s), tl_fits_str0255 = (\<lambda>n. n < 256), tl_fits_b032 = (\<lambda>n. n < 33),
      tl_encode = (\<lambda>_. Ok ()), tl_tlv_type = (\<lambda>_. (2, 1)), tl_extension_type_worker_hashrate_tracking = 2,
      tl_field_type_user_identity = 1, tl_is_op_return = (\<lambda>_. False), tl_decode_outputs = (\<lambda>_. Err []),
      tl_message_types = sv2_message_types, tl_show_u16_list = (\<lambda>_. [])\<rparr>"

lemma demo_tproxy_simps [simp]:
  "tl_extended demo_tproxy_lib = demo_extended_api" "tl_group demo_tproxy_lib = demo_group_api"
  "tl_allocator demo_tproxy_lib = demo_allocator_api" "tl_as_utf8_or_hex demo_tproxy_lib s = s"
  "tl_fits_str0255 demo_tproxy_lib n \<longleftrightarrow> n < 256" "tl_fits_b032 demo_tproxy_lib n \<longleftrightarrow> n < 33"
  "tl_encode demo_tproxy_lib u = Ok ()" "tl_message_types demo_tproxy_lib = sv2_message_types"
  by (simp_all add: demo_tproxy_lib_def)

definition demo_tm_env :: tm_env where
  "demo_tm_env = \<lparr>tv_upstream_ok = True, tv_sv1_ok = True\<rparr>"

definition demo_open :: "u32 \<Rightarrow> open_extended_mining_channel" where
  "demo_open r = \<lparr>oem_request_id = r, oem_user_identity = ''alice.miner1'', oem_nominal_hash_rate = 0,
     oem_max_target = replicate 32 255, oem_min_extranonce_size = 4\<rparr>"

text \<open>The upstream's answer: channel 7 of group 9, a prefix of four bytes and eight to roll.\<close>

definition demo_open_success :: "u32 \<Rightarrow> open_channel_success" where
  "demo_open_success r = \<lparr>ocs_request_id = r, ocs_channel_id = 7, ocs_target = replicate 32 255,
     ocs_extranonce_prefix = [1, 2, 3, 4], ocs_group_channel_id = 9\<rparr>"

end
