(* ===== verification/Tproxy_Loop.thy ===== *)
theory Tproxy_Loop
  imports Tproxy_Upstream Tproxy_Channel_Instance
begin

text \<open>
  The states the translator's channel manager reaches.  In aggregated mode all miners share one
  upstream channel, which is opened once; the miners' channels are told apart by the extranonce
  prefixes the translator allocates, which stay distinct; and the manager does not panic, except
  on one overlong identity.
\<close>

section \<open>What the channel crate documents\<close>

text \<open>
  Prefixes: an allocator hands out prefixes that extend the upstream's and are not in use; dropping
  a prefix frees at most that one.  \<open>live\<close> is the set of prefixes in use.
\<close>

definition allocator_ok :: "('a, 'p) allocator_api \<Rightarrow> ('a \<Rightarrow> bytes set) \<Rightarrow> bool" where
  "allocator_ok al live \<longleftrightarrow>
     (\<forall>up pad full k a. al_from_upstream_prefix al up pad full k = Ok a \<longrightarrow>
        al_upstream_prefix al a = up \<and> (\<exists>q. al_prefix_from_wire al up = Ok q)) \<and>
     (\<forall>n a p a'. al_allocate_extended al n a = (Ok p, a') \<longrightarrow>
        al_upstream_prefix al a' = al_upstream_prefix al a \<and> prefix (al_upstream_prefix al a) (al_prefix_bytes al p) \<and>
        al_prefix_bytes al p \<notin> live a \<and> live a' = insert (al_prefix_bytes al p) (live a)) \<and>
     (\<forall>n a e a'. al_allocate_extended al n a = (Err e, a') \<longrightarrow>
        al_upstream_prefix al a' = al_upstream_prefix al a \<and> live a' = live a) \<and>
     (\<forall>p a. al_upstream_prefix al (al_release al p a) = al_upstream_prefix al a \<and>
        live a - {al_prefix_bytes al p} \<subseteq> live (al_release al p a)) \<and>
     (\<forall>a. al_upstream_prefix_len al a = length (al_upstream_prefix al a)) \<and>
     (\<forall>b q. al_prefix_from_wire al b = Ok q \<longrightarrow> al_prefix_bytes al q = b)"

text \<open>
  Channels: a channel owns the prefix it was made with, whatever happens to it, and has an active
  job once it has accepted a previous hash.
\<close>

definition keeps_identity :: "('x, 'p) client_extended_api \<Rightarrow> ('x \<Rightarrow> 'x) \<Rightarrow> bool" where
  "keeps_identity api f \<longleftrightarrow>
     (\<forall>x. cx_prefix api (f x) = cx_prefix api x \<and> cx_get_channel_id api (f x) = cx_get_channel_id api x)"

definition client_channels_ok :: "('x, 'p) client_extended_api \<Rightarrow> ('p \<Rightarrow> bytes) \<Rightarrow> bool" where
  "client_channels_ok api prefix_bytes \<longleftrightarrow>
     (\<forall>c u p t h b s. cx_prefix api (cx_new api c u p t h b s) = p \<and> cx_get_channel_id api (cx_new api c u p t h b s) = c) \<and>
     (\<forall>x. cx_get_extranonce_prefix api x = prefix_bytes (cx_prefix api x)) \<and>
     (\<forall>x k. cx_upstream_prefix_len api x = Some k \<longrightarrow> k \<le> length (cx_get_extranonce_prefix api x)) \<and>
     (\<forall>t. keeps_identity api (cx_set_target api t)) \<and>
     (\<forall>h. keeps_identity api (cx_set_nominal_hashrate api h)) \<and>
     (\<forall>m. keeps_identity api (\<lambda>x. snd (cx_validate_share api m x))) \<and>
     (\<forall>n s. keeps_identity api (cx_on_share_acknowledgement api n s)) \<and>
     (\<forall>e. keeps_identity api (cx_on_share_rejection api e)) \<and>
     (\<forall>j. keeps_identity api (\<lambda>x. snd (cx_on_new_extended_mining_job api j x))) \<and>
     (\<forall>p. keeps_identity api (\<lambda>x. snd (cx_on_set_new_prev_hash api p x))) \<and>
     (\<forall>t. keeps_identity api (cx_set_chain_tip api t)) \<and>
     (\<forall>m x x'. cx_on_set_new_prev_hash api m x = (Ok (), x') \<longrightarrow> cx_get_active_job api x' \<noteq> None)"

definition tproxy_lib_ok :: "('x, 'g, 'a, 'p) tproxy_lib \<Rightarrow> ('a \<Rightarrow> bytes set) \<Rightarrow> bool" where
  "tproxy_lib_ok lib live \<longleftrightarrow> allocator_ok (tl_allocator lib) live \<and>
     client_channels_ok (tl_extended lib) (al_prefix_bytes (tl_allocator lib))"

lemma lib_prefix_kept:
  assumes "tproxy_lib_ok lib live"
  shows "cx_prefix (tl_extended lib) (cx_set_target (tl_extended lib) t x) = cx_prefix (tl_extended lib) x"
    "cx_prefix (tl_extended lib) (cx_set_nominal_hashrate (tl_extended lib) h x) = cx_prefix (tl_extended lib) x"
    "cx_prefix (tl_extended lib) (cx_on_share_acknowledgement (tl_extended lib) n s x) = cx_prefix (tl_extended lib) x"
    "cx_prefix (tl_extended lib) (cx_on_share_rejection (tl_extended lib) e x) = cx_prefix (tl_extended lib) x"
    "cx_prefix (tl_extended lib) (cx_set_chain_tip (tl_extended lib) tip x) = cx_prefix (tl_extended lib) x"
    "cx_prefix (tl_extended lib) (snd (cx_validate_share (tl_extended lib) m x)) = cx_prefix (tl_extended lib) x"
    "cx_prefix (tl_extended lib) (snd (cx_on_new_extended_mining_job (tl_extended lib) j x)) = cx_prefix (tl_extended lib) x"
    "cx_prefix (tl_extended lib) (snd (cx_on_set_new_prev_hash (tl_extended lib) p x)) = cx_prefix (tl_extended lib) x"
  using assms by (simp_all add: tproxy_lib_ok_def client_channels_ok_def keeps_identity_def)

lemma lib_channels:
  assumes "tproxy_lib_ok lib live"
  shows "cx_prefix (tl_extended lib) (cx_new (tl_extended lib) c u p t h b s) = p"
    and "cx_get_channel_id (tl_extended lib) (cx_new (tl_extended lib) c u p t h b s) = c"
    and "cx_get_extranonce_prefix (tl_extended lib) x = al_prefix_bytes (tl_allocator lib) (cx_prefix (tl_extended lib) x)"
    and "cx_upstream_prefix_len (tl_extended lib) x = Some k \<Longrightarrow> k \<le> length (cx_get_extranonce_prefix (tl_extended lib) x)"
    and "cx_on_set_new_prev_hash (tl_extended lib) m x = (Ok (), x') \<Longrightarrow> \<exists>j. cx_get_active_job (tl_extended lib) x' = Some j"
  using assms by (auto simp: tproxy_lib_ok_def client_channels_ok_def)

lemma lib_allocator:
  assumes "tproxy_lib_ok lib live"
  shows "al_from_upstream_prefix (tl_allocator lib) up pad full k = Ok a \<Longrightarrow>
      al_upstream_prefix (tl_allocator lib) a = up \<and> (\<exists>q. al_prefix_from_wire (tl_allocator lib) up = Ok q)"
    and "al_allocate_extended (tl_allocator lib) n a = (Ok p, a') \<Longrightarrow>
        al_upstream_prefix (tl_allocator lib) a' = al_upstream_prefix (tl_allocator lib) a \<and>
        prefix (al_upstream_prefix (tl_allocator lib) a) (al_prefix_bytes (tl_allocator lib) p) \<and>
        al_prefix_bytes (tl_allocator lib) p \<notin> live a \<and> live a' = insert (al_prefix_bytes (tl_allocator lib) p) (live a)"
    and "al_allocate_extended (tl_allocator lib) n a = (Err e, a') \<Longrightarrow>
        al_upstream_prefix (tl_allocator lib) a' = al_upstream_prefix (tl_allocator lib) a \<and> live a' = live a"
    and "al_upstream_prefix (tl_allocator lib) (al_release (tl_allocator lib) p a) = al_upstream_prefix (tl_allocator lib) a"
    and "live a - {al_prefix_bytes (tl_allocator lib) p} \<subseteq> live (al_release (tl_allocator lib) p a)"
    and "al_upstream_prefix_len (tl_allocator lib) a = length (al_upstream_prefix (tl_allocator lib) a)"
    and "al_prefix_from_wire (tl_allocator lib) b = Ok q \<Longrightarrow> al_prefix_bytes (tl_allocator lib) q = b"
  using assms unfolding tproxy_lib_ok_def allocator_ok_def by blast+

section \<open>The invariant\<close>

definition is_open_message :: "upstream_message \<Rightarrow> bool" where
  "is_open_message m = (case m of UpMining (OpenExtendedMiningChannel _) \<Rightarrow> True | _ \<Rightarrow> False)"

definition upstream_opens :: "('x, 'g, 'a) tproxy_manager \<Rightarrow> nat" where
  "upstream_opens tm = length (filter is_open_message (tm_to_upstream tm))"

definition channel_prefixes :: "('x, 'g, 'a, 'p) tproxy_lib \<Rightarrow> ('x, 'g, 'a) tproxy_manager \<Rightarrow> (channel_id \<times> bytes) list" where
  "channel_prefixes lib tm = map (\<lambda>(c, x).
     (c, al_prefix_bytes (tl_allocator lib) (cx_prefix (tl_extended lib) x))) (tm_extended_channels tm)"

text \<open>
  The miners' prefixes: they extend the upstream's prefix, are in use, and no two channels share one.
\<close>

definition prefixes_ok :: "('a, 'p) allocator_api \<Rightarrow> ('a \<Rightarrow> bytes set) \<Rightarrow> 'a \<Rightarrow> (channel_id \<times> bytes) list \<Rightarrow> bool" where
  "prefixes_ok al live a ps \<longleftrightarrow>
     (\<forall>(c, b) \<in> set ps. prefix (al_upstream_prefix al a) b) \<and>
     (\<forall>(c, b) \<in> set ps. c \<noteq> AGGREGATED_CHANNEL_ID \<longrightarrow> b \<in> live a) \<and>
     (\<forall>(c, b) \<in> set ps. \<forall>(c', b') \<in> set ps.
        c \<noteq> AGGREGATED_CHANNEL_ID \<and> c' \<noteq> AGGREGATED_CHANNEL_ID \<and> b = b' \<longrightarrow> c = c')"

definition tm_inv :: "('x, 'g, 'a, 'p) tproxy_lib \<Rightarrow> ('a \<Rightarrow> bytes set) \<Rightarrow> ('x, 'g, 'a) tproxy_manager \<Rightarrow> bool" where
  "tm_inv lib live tm \<longleftrightarrow>
     sm_invar (tm_extended_channels tm) \<and> sm_invar (tm_pending_downstream_channels tm) \<and> tm_expected_payout tm \<noteq> None \<and>
     (if is_aggregated (tm_mode tm)
      then upstream_opens tm \<le> 1 \<and>
        (case tm_allocator tm of
           None \<Rightarrow> tm_aggregated_state tm \<noteq> Connected \<and> tm_extended_channels tm = [] \<and>
             (tm_aggregated_state tm = NoChannel \<longrightarrow> upstream_opens tm = 0)
         | Some a \<Rightarrow> tm_aggregated_state tm = Connected \<and> tm_pending_downstream_channels tm = [] \<and>
             AGGREGATED_CHANNEL_ID \<in> sm_dom (tm_extended_channels tm) \<and>
             prefixes_ok (tl_allocator lib) live a (channel_prefixes lib tm))
      else tm_allocator tm = None \<and> tm_aggregated_state tm = NoChannel)"

definition tm_core ::
  "('x, 'g, 'a, 'p) tproxy_lib \<Rightarrow> ('x, 'g, 'a) tproxy_manager \<Rightarrow> _" where
  "tm_core lib tm = (channel_prefixes lib tm, tm_allocator tm, tm_aggregated_state tm, tm_mode tm,
     tm_pending_downstream_channels tm, tm_expected_payout tm, upstream_opens tm)"

lemma channel_prefixes_keys: "map fst (channel_prefixes lib tm) = map fst (tm_extended_channels tm)"
  by (simp add: channel_prefixes_def case_prod_beta' comp_def)

lemma inv_core:
  assumes "tm_core lib tm = tm_core lib tm'"
  shows "tm_inv lib live tm = tm_inv lib live tm'"
proof -
  from assms have "map fst (channel_prefixes lib tm) = map fst (channel_prefixes lib tm')"
    by (simp add: tm_core_def)
  then have keys: "map fst (tm_extended_channels tm) = map fst (tm_extended_channels tm')"
    by (simp only: channel_prefixes_keys)
  then have "sm_invar (tm_extended_channels tm) = sm_invar (tm_extended_channels tm')"
    "sm_dom (tm_extended_channels tm) = sm_dom (tm_extended_channels tm')"
    "(tm_extended_channels tm = []) = (tm_extended_channels tm' = [])"
    by (simp_all only: sm_invar_def sm_dom_def sm_keys_def) (metis map_is_Nil_conv)
  with assms show ?thesis
    by (simp add: tm_core_def tm_inv_def cong: option.case_cong)
qed

text \<open>Changes of one channel, or of other fields, that leave the core alone.\<close>

lemma core_frame [simp]:
  "tm_core lib (tm\<lparr>tm_group_channels := g\<rparr>) = tm_core lib tm"
  "tm_core lib (tm\<lparr>tm_share_sequence_counters := n\<rparr>) = tm_core lib tm"
  "tm_core lib (tm\<lparr>tm_negotiated_extensions := es\<rparr>) = tm_core lib tm"
  "tm_core lib (tm\<lparr>tm_to_sv1 := ms\<rparr>) = tm_core lib tm"
  by (simp_all add: tm_core_def channel_prefixes_def upstream_opens_def)

lemma core_send: "\<not> is_open_message m \<Longrightarrow> tm_core lib (tm\<lparr>tm_to_upstream := tm_to_upstream tm @ [m]\<rparr>) = tm_core lib tm"
  by (simp add: tm_core_def channel_prefixes_def upstream_opens_def)

lemma prefixes_update:
  "sm_invar m \<Longrightarrow> map_of m c = Some x \<Longrightarrow> f y = f x \<Longrightarrow>
     map (\<lambda>(c, x). (c, f x)) (AList.update c y m) = map (\<lambda>(c, x). (c, f x)) m"
  by (induction m) (auto simp: sm_invar_def)

lemma core_put_channel:
  assumes "sm_invar (tm_extended_channels tm)" "get_channel c tm = Some x"
    and "cx_prefix (tl_extended lib) y = cx_prefix (tl_extended lib) x"
  shows "tm_core lib (put_channel c y tm) = tm_core lib tm"
  using assms by (simp add: tm_core_def channel_prefixes_def upstream_opens_def put_channel_def get_channel_def
      sm_get_cloned_def prefixes_update)

lemma core_change_channel:
  assumes "sm_invar (tm_extended_channels tm)"
    and "\<And>x. cx_prefix (tl_extended lib) (f x) = cx_prefix (tl_extended lib) x"
  shows "tm_core lib (change_channel c f tm) = tm_core lib tm"
  using assms
  by (cases "map_of (tm_extended_channels tm) c")
    (simp_all add: tm_core_def channel_prefixes_def upstream_opens_def change_channel_def sm_with_mut_def
      prefixes_update)

lemma inv_invar: "tm_inv lib live tm \<Longrightarrow> sm_invar (tm_extended_channels tm)"
  by (simp add: tm_inv_def)

lemma inv_change_channel:
  assumes "tm_inv lib live tm" "\<And>x. cx_prefix (tl_extended lib) (f x) = cx_prefix (tl_extended lib) x"
  shows "tm_inv lib live (change_channel c f tm)"
  using inv_core [OF core_change_channel [OF inv_invar [OF assms(1)] assms(2)]] assms(1) by simp

lemma inv_put_channel:
  assumes "tm_inv lib live tm" "get_channel c tm = Some x" "cx_prefix (tl_extended lib) y = cx_prefix (tl_extended lib) x"
  shows "tm_inv lib live (put_channel c y tm)"
  using inv_core [OF core_put_channel [OF inv_invar [OF assms(1)] assms(2,3)]] assms(1) by simp

lemma inv_frame [simp]:
  "tm_inv lib live (tm\<lparr>tm_group_channels := g\<rparr>) = tm_inv lib live tm"
  "tm_inv lib live (tm\<lparr>tm_share_sequence_counters := n\<rparr>) = tm_inv lib live tm"
  "tm_inv lib live (tm\<lparr>tm_negotiated_extensions := es\<rparr>) = tm_inv lib live tm"
  "tm_inv lib live (tm\<lparr>tm_to_sv1 := ms\<rparr>) = tm_inv lib live tm"
  "tm_inv lib live (put_group k gr tm) = tm_inv lib live tm"
  "tm_inv lib live (remove_from_groups lib c tm) = tm_inv lib live tm"
  "tm_inv lib live (leave_groups lib cs tm) = tm_inv lib live tm"
  by (simp_all add: put_group_def remove_from_groups_def leave_groups_def inv_core [OF core_frame(1)]
      inv_core [OF core_frame(2)] inv_core [OF core_frame(3)] inv_core [OF core_frame(4)])

section \<open>Computations that keep it\<close>

text \<open>
  After an error that ends the loop nothing is claimed: the state is cleared before it is used again.
\<close>

definition tm_fault_ok ::
  "('x, 'g, 'a, 'p) tproxy_lib \<Rightarrow> ('a \<Rightarrow> bytes set) \<Rightarrow> tp_fault \<Rightarrow> ('x, 'g, 'a) tproxy_manager \<Rightarrow> bool" where
  "tm_fault_ok lib live e tm = (case e of
     TpPanic \<Rightarrow> False
   | TpRaised err \<Rightarrow> te_action err \<in> {TpFallback, TpShutdown} \<or> tm_inv lib live tm)"

definition tm_keeps ::
  "('x, 'g, 'a, 'p) tproxy_lib \<Rightarrow> ('a \<Rightarrow> bytes set) \<Rightarrow> (('x, 'g, 'a) tproxy_manager, 'r) tcomp \<Rightarrow> bool" where
  "tm_keeps lib live m \<longleftrightarrow>
     (\<forall>tm. tm_inv lib live tm \<longrightarrow> c_wp m (\<lambda>_. tm_inv lib live) (tm_fault_ok lib live) tm)"

named_theorems tm_rules \<open>computations of the translator's channel manager that keep its invariant\<close>

lemma tm_fault_simps [simp]:
  "tm_fault_ok lib live (TpRaised (tp_fallback k)) tm"
  "tm_fault_ok lib live (TpRaised (tp_shutdown k)) tm"
  "tm_fault_ok lib live (TpRaised (tp_log k)) tm = tm_inv lib live tm"
  "\<not> tm_fault_ok lib live TpPanic tm"
  by (simp_all add: tm_fault_ok_def)

lemma tm_fault_of_inv: "tm_inv lib live tm \<Longrightarrow> tm_fault_ok lib live (TpRaised e) tm"
  by (simp add: tm_fault_ok_def)

lemma tm_keeps_basic [tm_rules]:
  "tm_keeps lib live (c_return x)" "tm_keeps lib live (c_get f)" "tm_keeps lib live (t_try r)"
  "tm_keeps lib live (t_raise e)"
  by (auto simp: tm_keeps_def wp_rules tm_fault_of_inv split: sum.splits)

lemma tm_keeps_bind [tm_rules]: "tm_keeps lib live m \<Longrightarrow> (\<And>x. tm_keeps lib live (f x)) \<Longrightarrow> tm_keeps lib live (c_bind m f)"
  by (auto simp: tm_keeps_def wp_rules elim!: wp_mono)

lemma tm_keeps_get:
  "(\<And>tm. tm_inv lib live tm \<Longrightarrow> tm_keeps lib live (m (f tm))) \<Longrightarrow> tm_keeps lib live (c_bind (c_get f) m)"
  by (auto simp: tm_keeps_def wp_rules)

lemma tm_keeps_get_at:
  "(\<And>tm. tm_inv lib live tm \<Longrightarrow> c_wp (m (f tm)) (\<lambda>_. tm_inv lib live) (tm_fault_ok lib live) tm) \<Longrightarrow>
     tm_keeps lib live (c_bind (c_get f) m)"
  by (auto simp: tm_keeps_def wp_rules)

lemma tm_keeps_get_if:
  "(\<And>tm. tm_inv lib live tm \<Longrightarrow> b tm \<Longrightarrow> c_wp (m tm) (\<lambda>_. tm_inv lib live) (tm_fault_ok lib live) tm) \<Longrightarrow>
   (\<And>tm. tm_inv lib live tm \<Longrightarrow> \<not> b tm \<Longrightarrow> c_wp (n tm) (\<lambda>_. tm_inv lib live) (tm_fault_ok lib live) tm) \<Longrightarrow>
     tm_keeps lib live (c_bind (c_get id) (\<lambda>tm. if b tm then m tm else n tm))"
  by (auto simp: tm_keeps_def wp_rules)

lemma tm_keeps_bind_at:
  "c_wp m (\<lambda>_. tm_inv lib live) (tm_fault_ok lib live) tm \<Longrightarrow> (\<And>x. tm_keeps lib live (f x)) \<Longrightarrow>
     c_wp (c_bind m f) (\<lambda>_. tm_inv lib live) (tm_fault_ok lib live) tm"
  by (auto simp: tm_keeps_def wp_rules elim!: wp_mono)

lemma tm_keeps_at: "tm_keeps lib live m \<Longrightarrow> tm_inv lib live tm \<Longrightarrow> c_wp m (\<lambda>_. tm_inv lib live) (tm_fault_ok lib live) tm"
  by (simp add: tm_keeps_def)

lemma tm_keeps_modify [tm_rules]:
  "(\<And>tm. tm_inv lib live tm \<Longrightarrow> tm_inv lib live (g tm)) \<Longrightarrow> tm_keeps lib live (c_modify g)"
  by (auto simp: tm_keeps_def wp_rules)

lemma tm_keeps_for [tm_rules]: "(\<And>x. tm_keeps lib live (f x)) \<Longrightarrow> tm_keeps lib live (t_for xs f)"
  unfolding tm_keeps_def by (blast intro: wp_for)

lemma tm_keeps_collect [tm_rules]: "(\<And>x. tm_keeps lib live (f x)) \<Longrightarrow> tm_keeps lib live (t_collect xs f)"
  by (induction xs) (auto intro!: tm_rules)

lemma tm_keeps_if [tm_rules]:
  "(b \<Longrightarrow> tm_keeps lib live m) \<Longrightarrow> (\<not> b \<Longrightarrow> tm_keeps lib live n) \<Longrightarrow> tm_keeps lib live (if b then m else n)"
  by simp

lemma tm_keeps_option [tm_rules]:
  "(v = None \<Longrightarrow> tm_keeps lib live m) \<Longrightarrow> (\<And>x. v = Some x \<Longrightarrow> tm_keeps lib live (f x)) \<Longrightarrow>
     tm_keeps lib live (case v of None \<Rightarrow> m | Some x \<Rightarrow> f x)"
  by (cases v) simp_all

lemma tm_keeps_sv1 [tm_rules]: "tm_keeps lib live (send_sv1 env m)"
  by (auto simp: send_sv1_def intro!: tm_rules)

lemma tm_keeps_upstream [tm_rules]: "\<not> is_open_message m \<Longrightarrow> tm_keeps lib live (send_upstream lib env m)"
  by (auto simp: send_upstream_def inv_core [OF core_send] intro!: tm_rules)

lemma tm_keeps_on_channel [tm_rules]:
  assumes "\<And>x. cx_prefix (tl_extended lib) (snd (f x)) = cx_prefix (tl_extended lib) x"
  shows "tm_keeps lib live (on_channel c absent failed f)"
  unfolding tm_keeps_def
proof (intro allI impI)
  fix tm assume inv: "tm_inv lib live tm"
  have "tm_inv lib live (put_channel c (snd (f x)) tm)" if "get_channel c tm = Some x" for x
    by (rule inv_put_channel [OF inv that assms])
  with inv show "c_wp (on_channel c absent failed f) (\<lambda>_. tm_inv lib live) (tm_fault_ok lib live) tm"
    by (auto simp: c_wp_def on_channel_def tm_fault_of_inv case_prod_beta split: option.splits)
qed

section \<open>Shares, updates and closing\<close>

lemma tm_keeps_sequence [tm_rules]: "tm_keeps lib live (next_share_sequence_number k)"
  by (simp add: tm_keeps_def c_wp_def next_share_sequence_number_def Let_def)

lemma tm_keeps_rewrite:
  "n \<le> length p \<Longrightarrow> tm_keeps lib live (rewrite_extranonce lib p n m)"
  by (auto simp: rewrite_extranonce_def Let_def intro!: tm_rules)

lemma tm_keeps_expect: "x \<noteq> None \<Longrightarrow> tm_keeps lib live (t_expect x)"
  by (cases x) (auto simp: t_expect_def intro!: tm_rules)

lemma tm_keeps_validate [tm_rules]:
  assumes "tproxy_lib_ok lib live"
  shows "tm_keeps lib live (validate_on_channel lib c m)"
proof -
  have "tm_inv lib live (put_channel c (snd (cx_validate_share (tl_extended lib) m x)) tm)"
    if "tm_inv lib live tm" "get_channel c tm = Some x" for tm x
    by (rule inv_put_channel [OF that]) (simp add: lib_prefix_kept [OF assms])
  then show ?thesis
    by (auto simp: tm_keeps_def c_wp_def validate_on_channel_def case_prod_beta split: option.splits)
qed

lemma tm_keeps_forward [tm_rules]: "tm_keeps lib live (forward_share lib env m tlvs)"
  by (auto simp: forward_share_def Let_def is_open_message_def split: option.splits intro!: tm_rules)

lemma prefix_in_channel_prefixes:
  "get_channel c tm = Some x \<Longrightarrow>
     (c, al_prefix_bytes (tl_allocator lib) (cx_prefix (tl_extended lib) x)) \<in> set (channel_prefixes lib tm)"
  by (auto simp: get_channel_def sm_get_cloned_def channel_prefixes_def dest!: map_of_SomeD intro: rev_image_eqI)

lemma inv_prefix_length:
  assumes "tproxy_lib_ok lib live" "tm_inv lib live tm" "tm_allocator tm = Some a" "get_channel c tm = Some x"
  shows "prefix (al_upstream_prefix (tl_allocator lib) a) (cx_get_extranonce_prefix (tl_extended lib) x)"
proof -
  have "prefixes_ok (tl_allocator lib) live a (channel_prefixes lib tm)"
    using assms(2,3) by (simp add: tm_inv_def split: if_splits)
  then show ?thesis
    using prefix_in_channel_prefixes [OF assms(4), of lib] lib_channels(3) [OF assms(1)]
    by (auto simp: prefixes_ok_def)
qed

lemma tm_keeps_aggregated_share:
  assumes "tproxy_lib_ok lib live" "tm_inv lib live tm" "get_channel AGGREGATED_CHANNEL_ID tm \<noteq> None"
  shows "c_wp (aggregated_share lib m) (\<lambda>_. tm_inv lib live) (tm_fault_ok lib live) tm"
proof -
  have "tm_keeps lib live (rewrite_extranonce lib (cx_get_extranonce_prefix (tl_extended lib) x)
      (al_upstream_prefix_len (tl_allocator lib) a) m)"
    if "get_channel (sse_channel_id m) tm = Some x" "tm_allocator tm = Some a" for x a
    using inv_prefix_length [OF assms(1,2) that(2,1)]
    by (intro tm_keeps_rewrite) (simp add: lib_allocator(6) [OF assms(1)] prefix_length_le)
  then have rewrite: "tm_keeps lib live (case (map_option (cx_get_extranonce_prefix (tl_extended lib)) (get_channel (sse_channel_id m) tm),
      map_option (al_upstream_prefix_len (tl_allocator lib)) (tm_allocator tm)) of
        (Some p, Some n) \<Rightarrow> rewrite_extranonce lib p n m | _ \<Rightarrow> c_return m)"
    by (auto split: option.splits intro!: tm_rules)
  have "c_wp (aggregated_share lib m) Q E tm = c_wp (c_bind (case (map_option (cx_get_extranonce_prefix (tl_extended lib))
        (get_channel (sse_channel_id m) tm), map_option (al_upstream_prefix_len (tl_allocator lib)) (tm_allocator tm)) of
        (Some p, Some n) \<Rightarrow> rewrite_extranonce lib p n m | _ \<Rightarrow> c_return m) (\<lambda>m.
      c_bind (t_expect (map_option (cx_get_channel_id (tl_extended lib)) (get_channel AGGREGATED_CHANNEL_ID tm))) (\<lambda>c.
      let m = m\<lparr>sse_channel_id := c\<rparr> in
      c_bind (validate_on_channel lib AGGREGATED_CHANNEL_ID m) (\<lambda>valid.
      if valid then c_bind (next_share_sequence_number c) (\<lambda>n. c_return (Some (m\<lparr>sse_sequence_number := n\<rparr>)))
      else c_return None)))) Q E tm" for Q E
    by (simp add: aggregated_share_def c_wp_def c_bind_def c_get_def)
  then show ?thesis
    using assms(1,3) unfolding Let_def
    by (simp only:) (intro tm_keeps_at [OF _ assms(2)] tm_rules rewrite tm_keeps_expect; simp)
qed

lemma tm_keeps_own_share [tm_rules]:
  assumes "tproxy_lib_ok lib live"
  shows "tm_keeps lib live (own_channel_share lib m)"
  unfolding own_channel_share_def Let_def
  by (intro tm_rules tm_keeps_rewrite assms) (erule lib_channels(4) [OF assms])

lemma tm_keeps_share [tm_rules]:
  assumes "tproxy_lib_ok lib live"
  shows "tm_keeps lib live (handle_share lib env m tlvs)"
  unfolding handle_share_def
proof (rule tm_keeps_get_at, rule tm_keeps_bind_at)
  fix tm assume inv: "tm_inv lib live tm"
  then show "c_wp (if is_aggregated (tm_mode (id tm)) \<and> sm_contains_key (tm_extended_channels (id tm)) AGGREGATED_CHANNEL_ID
      then aggregated_share lib m else own_channel_share lib m) (\<lambda>_. tm_inv lib live) (tm_fault_ok lib live) tm"
    using tm_keeps_aggregated_share [OF assms inv] tm_keeps_own_share [OF assms]
    by (auto simp: tm_keeps_def get_channel_def sm_get_cloned_def sm_contains_key_def)
  show "tm_keeps lib live (case share of None \<Rightarrow> c_return () | Some m \<Rightarrow> forward_share lib env m tlvs)" for share
    by (intro tm_rules)
qed

lemma tm_keeps_update [tm_rules]:
  assumes "tproxy_lib_ok lib live"
  shows "tm_keeps lib live (handle_update_request lib env m)"
proof -
  let ?f = "cx_set_nominal_hashrate (tl_extended lib) (uc_nominal_hash_rate m)"
  have "tm_inv lib live (put_channel c (?f x) tm)" if "tm_inv lib live tm" "get_channel c tm = Some x" for c tm x
    by (rule inv_put_channel [OF that]) (simp add: lib_prefix_kept [OF assms])
  moreover have "tm_inv lib live (change_channel c ?f tm)" if "tm_inv lib live tm" for c tm
    by (rule inv_change_channel [OF that]) (simp add: lib_prefix_kept [OF assms])
  moreover have "tm_keeps lib live (send_upstream lib env (UpMining (UpdateChannel u)))" for u
    by (intro tm_rules) (simp add: is_open_message_def)
  ultimately show ?thesis
    by (auto simp: tm_keeps_def handle_update_request_def Let_def wp_bind wp_generic wp_modify split: option.splits)
qed

text \<open>Dropping a miner's channel gives back its own prefix only.\<close>

lemma channel_prefixes_delete:
  "channel_prefixes lib (tm\<lparr>tm_extended_channels := AList.delete c (tm_extended_channels tm)\<rparr>) =
     filter (\<lambda>(k, _). k \<noteq> c) (channel_prefixes lib tm)"
  by (simp add: channel_prefixes_def AList.delete_eq filter_map comp_def case_prod_beta' eq_commute [of c])

lemma prefixes_ok_release:
  assumes "tproxy_lib_ok lib live" "prefixes_ok (tl_allocator lib) live a ps" "(c, al_prefix_bytes (tl_allocator lib) p) \<in> set ps"
    "c \<noteq> AGGREGATED_CHANNEL_ID"
  shows "prefixes_ok (tl_allocator lib) live (al_release (tl_allocator lib) p a) (filter (\<lambda>(k, _). k \<noteq> c) ps)"
proof -
  let ?b = "al_prefix_bytes (tl_allocator lib) p"
  have "b \<in> live (al_release (tl_allocator lib) p a)"
    if "(k, b) \<in> set ps" "k \<noteq> c" "k \<noteq> AGGREGATED_CHANNEL_ID" for k b
  proof -
    have "b \<noteq> ?b" and "b \<in> live a" using assms(2-4) that unfolding prefixes_ok_def by blast+
    then show ?thesis using lib_allocator(5) [OF assms(1), of a p] by blast
  qed
  then show ?thesis
    using assms(2) by (auto simp: prefixes_ok_def lib_allocator(4) [OF assms(1)])
qed

lemma inv_remove_channel:
  assumes lib: "tproxy_lib_ok lib live" and inv: "tm_inv lib live tm"
    and c: "\<not> (is_aggregated (tm_mode tm) \<and> c = AGGREGATED_CHANNEL_ID)"
  shows "tm_inv lib live (remove_channel lib c tm)"
proof (cases "tm_allocator tm")
  case None
  with inv show ?thesis
    by (auto simp: remove_channel_def drop_channel_def drop_prefix_def tm_inv_def upstream_opens_def split: option.splits if_splits)
next
  case (Some a)
  with inv have agg: "is_aggregated (tm_mode tm)" by (auto simp: tm_inv_def split: if_splits)
  with Some inv have ok: "prefixes_ok (tl_allocator lib) live a (channel_prefixes lib tm)"
    by (simp add: tm_inv_def)
  note del = channel_prefixes_delete [where lib = lib and tm = tm and c = c]
  show ?thesis
  proof (cases "get_channel c tm")
    case None
    then have "AList.delete c (tm_extended_channels tm) = tm_extended_channels tm"
      by (simp add: get_channel_def sm_get_cloned_def map_of_eq_None_iff delete_id)
    with inv None show ?thesis by (simp add: remove_channel_def drop_channel_def)
  next
    case (Some x)
    have "prefixes_ok (tl_allocator lib) live (al_release (tl_allocator lib) (cx_prefix (tl_extended lib) x) a)
        (channel_prefixes lib (tm\<lparr>tm_extended_channels := AList.delete c (tm_extended_channels tm)\<rparr>))"
      using prefixes_ok_release [OF lib ok prefix_in_channel_prefixes [OF Some]] c agg by (simp add: del)
    then show ?thesis
      using inv \<open>tm_allocator tm = Some a\<close> Some c agg
      by (simp add: remove_channel_def drop_channel_def drop_prefix_def tm_inv_def upstream_opens_def channel_prefixes_def)
  qed
qed

lemma tm_keeps_close [tm_rules]:
  assumes "tproxy_lib_ok lib live"
  shows "tm_keeps lib live (handle_close_request lib env c reason)"
  unfolding handle_close_request_def
proof (rule tm_keeps_get_at)
  fix tm assume inv: "tm_inv lib live tm"
  have "tm_keeps lib live (if is_aggregated (tm_mode tm) then c_return ()
      else send_upstream lib env (UpMining (CloseChannelRequest c reason)))"
    by (intro tm_rules) (simp add: is_open_message_def)
  with inv show "c_wp (if is_aggregated (tm_mode tm) \<and> c = AGGREGATED_CHANNEL_ID then c_return ()
      else c_bind (c_modify (\<lambda>tm. remove_from_groups lib c (remove_channel lib c tm))) (\<lambda>_.
        if is_aggregated (tm_mode tm) then c_return ()
        else send_upstream lib env (UpMining (CloseChannelRequest c reason))))
      (\<lambda>_. tm_inv lib live) (tm_fault_ok lib live) tm"
    by (auto simp: wp_generic wp_bind wp_modify tm_keeps_def inv_remove_channel [OF assms] simp del: split_paired_All
        split: if_splits)
qed

lemma inv_foldl_remove:
  assumes "tproxy_lib_ok lib live" "tm_inv lib live tm" "\<not> is_aggregated (tm_mode tm)"
  shows "tm_inv lib live (foldl (\<lambda>tm x. remove_channel lib x tm) tm cs)"
  using assms
proof (induction cs arbitrary: tm)
  case (Cons c cs)
  have "tm_mode (remove_channel lib c tm) = tm_mode tm"
    by (simp add: remove_channel_def drop_channel_def drop_prefix_def split: option.splits)
  with Cons show ?case by (simp add: inv_remove_channel)
qed simp

lemma tm_keeps_close_channel [tm_rules]:
  assumes "tproxy_lib_ok lib live"
  shows "tm_keeps lib live (tm_handle_close_channel lib c)"
  unfolding tm_handle_close_channel_def
  by (rule tm_keeps_get_at)
    (auto simp: wp_rules inv_foldl_remove [OF assms] inv_remove_channel [OF assms] tm_fault_of_inv split: option.splits)

section \<open>Messages of the upstream\<close>

lemma inv_acknowledge [simp]:
  assumes "tproxy_lib_ok lib live" "tm_inv lib live tm"
  shows "tm_inv lib live (handle_submit_shares_success lib m tm)" "tm_inv lib live (handle_submit_shares_error lib c code tm)"
  unfolding handle_submit_shares_success_def handle_submit_shares_error_def
  by (rule inv_change_channel [OF assms(2)], simp add: lib_prefix_kept [OF assms(1)])+

lemma tm_keeps_for_aggregated [tm_rules]: "tm_keeps lib live (for_aggregated_channel lib c)"
  unfolding for_aggregated_channel_def
  by (intro tm_rules) (auto intro!: tm_rules split: list.splits)

lemma inv_expected: "tm_inv lib live tm \<Longrightarrow> tm_expected_payout tm \<noteq> None"
  by (simp add: tm_inv_def)

lemma tm_keeps_verify [tm_rules]: "tm_keeps lib live (verify_payout lib suf)"
  unfolding verify_payout_def by (intro tm_keeps_get tm_rules tm_keeps_expect inv_expected)

lemma tm_keeps_job [tm_rules]:
  assumes "tproxy_lib_ok lib live"
  shows "tm_keeps lib live (handle_new_extended_mining_job lib env m)"
  unfolding handle_new_extended_mining_job_def job_on_channels_def Let_def
  by (intro tm_rules) (simp_all add: lib_prefix_kept [OF assms])

lemma tm_keeps_set_target [tm_rules]:
  assumes "tproxy_lib_ok lib live"
  shows "tm_keeps lib live (handle_set_target lib env c t)"
proof -
  have "tm_inv lib live (tm\<lparr>tm_extended_channels :=
      map (\<lambda>(c, x). (c, cx_set_target (tl_extended lib) u x)) (tm_extended_channels tm)\<rparr>)" if "tm_inv lib live tm" for tm u
  proof -
    have "tm_core lib (tm\<lparr>tm_extended_channels :=
      map (\<lambda>(c, x). (c, cx_set_target (tl_extended lib) u x)) (tm_extended_channels tm)\<rparr>) = tm_core lib tm"
      by (simp add: tm_core_def channel_prefixes_def upstream_opens_def comp_def case_prod_beta' lib_prefix_kept [OF assms])
    then show ?thesis by (rule inv_core [THEN iffD2, OF _ that])
  qed
  then show ?thesis
    unfolding handle_set_target_def target_on_channels_def Let_def
    by (intro tm_rules) (simp_all add: lib_prefix_kept [OF assms])
qed

lemma group_add_raises: "fst (t_for xs (group_add lib tm) g) = Err e \<Longrightarrow> \<exists>err. e = TpRaised err"
  by (induction xs arbitrary: g)
    (auto simp: c_return_def c_bind_def group_add_def Let_def map_err_def split: prod.splits sum.splits option.splits)

lemma tm_keeps_set_group [tm_rules]: "tm_keeps lib live (handle_set_group_channel lib k cs)"
  unfolding tm_keeps_def
proof (intro allI impI)
  fix tm assume inv: "tm_inv lib live tm"
  show "c_wp (handle_set_group_channel lib k cs) (\<lambda>_. tm_inv lib live) (tm_fault_ok lib live) tm"
  proof (cases "get_group k (leave_groups lib cs tm)")
    case None
    obtain r g where "t_for cs (group_add lib (leave_groups lib cs tm)) (cg_new (tl_group lib) k) = (r, g)" by fastforce
    with None inv group_add_raises [of cs lib "leave_groups lib cs tm" "cg_new (tl_group lib) k"] show ?thesis
      by (cases r) (auto simp: c_wp_def handle_set_group_channel_def Let_def tm_fault_of_inv)
  next
    case (Some g0)
    let ?g = "foldl (\<lambda>g c. if c \<in> set cs then g else cg_remove_channel_id (tl_group lib) c g) g0
      (cg_get_channel_ids (tl_group lib) g0)"
    obtain r g where "t_for cs (group_add lib (leave_groups lib cs tm)) ?g = (r, g)" by fastforce
    with Some inv group_add_raises [of cs lib "leave_groups lib cs tm" ?g] show ?thesis
      by (cases r) (auto simp: c_wp_def handle_set_group_channel_def Let_def tm_fault_of_inv)
  qed
qed

lemma tm_keeps_extensions [tm_rules]: "tm_keeps lib live (handle_extensions_message lib env m)"
  unfolding handle_extensions_message_def handle_request_extensions_success_def handle_request_extensions_error_def Let_def
  by (cases m) (auto simp: is_open_message_def intro!: tm_rules)

definition has_active :: "('x, 'g, 'a, 'p) tproxy_lib \<Rightarrow> ('x, 'g, 'a) tproxy_manager \<Rightarrow> channel_id \<Rightarrow> bool" where
  "has_active lib tm c \<longleftrightarrow> (\<exists>x j. get_channel c tm = Some x \<and> cx_get_active_job (tl_extended lib) x = Some j)"

lemma get_put_channel [simp]: "get_channel c' (put_channel c x tm) = (if c' = c then Some x else get_channel c' tm)"
  by (simp add: get_channel_def put_channel_def sm_get_cloned_def map_of_update)

lemma wp_activate:
  assumes lib: "tproxy_lib_ok lib live" and inv: "tm_inv lib live tm"
  shows "c_wp (on_channel c absent failed (cx_on_set_new_prev_hash (tl_extended lib) m))
     (\<lambda>x tm'. tm_inv lib live tm' \<and> (\<exists>j. cx_get_active_job (tl_extended lib) x = Some j) \<and> has_active lib tm' c \<and>
        (\<forall>k. has_active lib tm k \<longrightarrow> has_active lib tm' k)) (tm_fault_ok lib live) tm"
proof (cases "get_channel c tm")
  case (Some x)
  obtain r x' where r: "cx_on_set_new_prev_hash (tl_extended lib) m x = (r, x')" by fastforce
  then have "cx_prefix (tl_extended lib) x' = cx_prefix (tl_extended lib) x"
    using lib_prefix_kept(8) [OF lib, of m x] by simp
  from inv_put_channel [OF inv Some this] Some r lib_channels(5) [OF lib, of m x x'] show ?thesis
    by (cases r) (auto simp: c_wp_def on_channel_def has_active_def tm_fault_of_inv)
qed (simp add: c_wp_def on_channel_def tm_fault_of_inv inv)

lemma wp_activate_all:
  assumes lib: "tproxy_lib_ok lib live" and inv: "tm_inv lib live tm"
  shows "c_wp (t_for cs (\<lambda>c. c_bind (on_channel c absent failed (cx_on_set_new_prev_hash (tl_extended lib) m)) (\<lambda>_. c_return ())))
     (\<lambda>_ tm'. tm_inv lib live tm' \<and> (\<forall>k. k \<in> set cs \<or> has_active lib tm k \<longrightarrow> has_active lib tm' k)) (tm_fault_ok lib live) tm"
  using inv
proof (induction cs arbitrary: tm)
  case (Cons c cs)
  show ?case
    by (simp add: wp_bind wp_generic)
      (rule wp_mono [OF wp_activate [OF lib Cons.prems, of c absent failed m]],
        auto simp: wp_generic intro: wp_mono [OF Cons.IH])
qed (simp add: wp_generic)

lemma wp_for_aggregated:
  assumes "get_channel AGGREGATED_CHANNEL_ID tm \<noteq> None \<Longrightarrow> Q () tm" "\<And>e. E (TpRaised e) tm"
  shows "c_wp (for_aggregated_channel lib c) Q E tm"
  using assms by (auto simp: for_aggregated_channel_def wp_bind wp_generic wp_tproxy split: option.splits list.splits)

lemma tm_keeps_activate [tm_rules]:
  assumes "tproxy_lib_ok lib live"
  shows "tm_keeps lib live (activate_on lib absent m c)"
  unfolding tm_keeps_def activate_on_def
  by (auto simp: wp_bind wp_generic wp_tproxy intro: wp_mono [OF wp_activate [OF assms]])

lemma tm_keeps_prev_hash [tm_rules]:
  assumes lib: "tproxy_lib_ok lib live"
  shows "tm_keeps lib live (tm_handle_set_new_prev_hash lib env m)"
proof -
  let ?loop = "\<lambda>tm. t_for (sm_keys (tm_extended_channels tm)) (\<lambda>c. c_bind (on_channel c (tp_fallback TkChannelNotFound)
      TkFailedToProcessSetNewPrevHash (cx_on_set_new_prev_hash (tl_extended lib) m)) (\<lambda>_. c_return ()))"
  have active: "c_wp (?loop tm) (\<lambda>_ tm'. tm_inv lib live tm' \<and> has_active lib tm' AGGREGATED_CHANNEL_ID) (tm_fault_ok lib live) tm"
    if "tm_inv lib live tm" "get_channel AGGREGATED_CHANNEL_ID tm \<noteq> None" for tm
  proof -
    have "AGGREGATED_CHANNEL_ID \<in> set (sm_keys (tm_extended_channels tm))"
      using that(2) by (simp add: get_channel_def sm_get_cloned_def sm_dom_iff [symmetric] sm_dom_def del: not_None_eq)
    then show ?thesis
      by (intro wp_mono [OF wp_activate_all [OF lib that(1)]]) auto
  qed
  have "tm_keeps lib live (prev_hash_on_channels lib m)"
    unfolding prev_hash_on_channels_def Let_def
  proof (rule tm_keeps_get_if)
    fix tm assume inv: "tm_inv lib live tm"
    show "c_wp (c_bind (for_aggregated_channel lib (snp_channel_id m)) (\<lambda>_. c_bind (?loop tm) (\<lambda>_.
       c_bind (c_get (get_channel AGGREGATED_CHANNEL_ID)) (\<lambda>x. c_bind (t_expect x) (\<lambda>x.
       c_bind (t_expect (cx_get_active_job (tl_extended lib) x)) (\<lambda>job.
       c_return [(m\<lparr>snp_channel_id := AGGREGATED_CHANNEL_ID\<rparr>, job\<lparr>nxj_channel_id := AGGREGATED_CHANNEL_ID\<rparr>)])))))) 
      (\<lambda>_. tm_inv lib live) (tm_fault_ok lib live) tm"
      unfolding wp_bind
      by (rule wp_for_aggregated)
        (auto simp: wp_generic wp_tproxy has_active_def tm_fault_of_inv inv intro!: wp_mono [OF active [OF inv]]
          simp del: not_None_eq)
    show "c_wp (case get_group (snp_channel_id m) tm of
         Some g \<Rightarrow> (case cg_on_set_new_prev_hash (tl_group lib) m g of (r, g') \<Rightarrow>
           c_bind (c_modify (put_group (snp_channel_id m) g')) (\<lambda>_.
           c_bind (t_try (map_err (\<lambda>_. tp_fallback TkFailedToProcessSetNewPrevHash) r)) (\<lambda>_.
           t_collect (cg_get_channel_ids (tl_group lib) g') (activate_on lib (tp_fallback TkChannelNotFound) m))))
       | None \<Rightarrow> activate_on lib (tp_log TkChannelNotFound) m (snp_channel_id m))
      (\<lambda>_. tm_inv lib live) (tm_fault_ok lib live) tm"
      by (rule tm_keeps_at [OF _ inv]) (auto split: prod.splits intro!: tm_rules lib)
  qed
  then show ?thesis
    unfolding tm_handle_set_new_prev_hash_def by (intro tm_rules)
qed

section \<open>Opening channels\<close>

text \<open>Room for so many more channel ids below the one that stands for the shared channel.\<close>

definition id_room :: "nat \<Rightarrow> ('x, 'g, 'a) tproxy_manager \<Rightarrow> bool" where
  "id_room n tm \<longleftrightarrow> n + 1 < 2 ^ 32 \<and>
     (\<forall>c \<in> sm_dom (tm_extended_channels tm). c \<noteq> AGGREGATED_CHANNEL_ID \<longrightarrow> unat c + n + 1 < 2 ^ 32)"

lemma foldl_max_bounds:
  fixes a :: "'b :: linorder"
  shows "foldl max a xs \<in> insert a (set xs) \<and> (\<forall>x \<in> insert a (set xs). x \<le> foldl max a xs)"
proof (induction xs arbitrary: a)
  case (Cons x xs)
  from Cons.IH [of "max a x"] show ?case by (auto simp: max_def split: if_splits)
qed simp

lemma unat_aggregated: "unat AGGREGATED_CHANNEL_ID = 2 ^ 32 - 1"
  by (simp add: AGGREGATED_CHANNEL_ID_def unsigned_minus_1_eq_mask mask_eq_exp_minus_1)

lemma next_channel_id_fresh:
  assumes "id_room (Suc n) tm"
  shows "tm_next_channel_id tm \<noteq> AGGREGATED_CHANNEL_ID" "tm_next_channel_id tm \<notin> sm_dom (tm_extended_channels tm)"
    "unat (tm_next_channel_id tm) + n + 1 < 2 ^ 32"
proof -
  let ?ids = "filter (\<lambda>c. c \<noteq> AGGREGATED_CHANNEL_ID) (sm_keys (tm_extended_channels tm))"
  define M where "M = foldl max 0 ?ids"
  have M: "M \<in> insert 0 (set ?ids)" "\<forall>c \<in> set ?ids. c \<le> M"
    using foldl_max_bounds [of 0 ?ids] by (simp_all add: M_def)
  then have "unat M + Suc n + 1 < 2 ^ 32" using assms by (auto simp: id_room_def sm_dom_def)
  then have u: "unat (M + 1) = unat M + 1" by (simp add: unat_add_no_wrap)
  have next_id: "tm_next_channel_id tm = M + 1" by (simp add: tm_next_channel_id_def M_def)
  show "unat (tm_next_channel_id tm) + n + 1 < 2 ^ 32" using \<open>unat M + Suc n + 1 < 2 ^ 32\<close> u by (simp add: next_id)
  then show other: "tm_next_channel_id tm \<noteq> AGGREGATED_CHANNEL_ID" using unat_aggregated by auto
  show "tm_next_channel_id tm \<notin> sm_dom (tm_extended_channels tm)"
  proof
    assume "tm_next_channel_id tm \<in> sm_dom (tm_extended_channels tm)"
    with other M(2) have "M + 1 \<le> M" by (auto simp: sm_dom_def next_id)
    then show False using u by (simp add: word_le_nat_alt)
  qed
qed

lemma inv_Some:
  "tm_allocator tm = Some a \<Longrightarrow> tm_inv lib live tm \<longleftrightarrow> sm_invar (tm_extended_channels tm) \<and> tm_expected_payout tm \<noteq> None \<and>
     is_aggregated (tm_mode tm) \<and> upstream_opens tm \<le> 1 \<and> tm_aggregated_state tm = Connected \<and>
     tm_pending_downstream_channels tm = [] \<and> AGGREGATED_CHANNEL_ID \<in> sm_dom (tm_extended_channels tm) \<and>
     prefixes_ok (tl_allocator lib) live a (channel_prefixes lib tm)"
  by (auto simp: tm_inv_def)

lemma inv_allocator:
  assumes "tm_allocator tm = Some a" "tm_inv lib live tm" "live a \<subseteq> live a'"
    "al_upstream_prefix (tl_allocator lib) a' = al_upstream_prefix (tl_allocator lib) a"
  shows "tm_inv lib live (tm\<lparr>tm_allocator := Some a'\<rparr>)"
proof -
  have "prefixes_ok (tl_allocator lib) live a' ps" if "prefixes_ok (tl_allocator lib) live a ps" for ps
    using that assms(3,4) unfolding prefixes_ok_def by auto
  then show ?thesis
    using assms(2) by (simp add: inv_Some [OF assms(1)] inv_Some [where a = a'] channel_prefixes_def upstream_opens_def)
qed

lemma update_fresh: "c \<notin> sm_dom m \<Longrightarrow> AList.update c x m = m @ [(c, x)]"
  by (induction m) (auto simp: sm_dom_def sm_keys_def)

lemma set_channel_prefixes_put:
  "c \<notin> sm_dom (tm_extended_channels tm) \<Longrightarrow> set (channel_prefixes lib (put_channel c x tm)) =
     insert (c, al_prefix_bytes (tl_allocator lib) (cx_prefix (tl_extended lib) x)) (set (channel_prefixes lib tm))"
  by (auto simp: channel_prefixes_def put_channel_def update_fresh)

lemma prefixes_ok_insert:
  assumes lib: "tproxy_lib_ok lib live" and ok: "prefixes_ok (tl_allocator lib) live a ps"
    and new: "al_allocate_extended (tl_allocator lib) n a = (Ok p, a')"
    and ps': "set ps' = insert (c, al_prefix_bytes (tl_allocator lib) p) (set ps)"
  shows "prefixes_ok (tl_allocator lib) live a' ps'"
proof -
  note al = lib_allocator(2) [OF lib new]
  have "b \<noteq> al_prefix_bytes (tl_allocator lib) p" if "(k, b) \<in> set ps" "k \<noteq> AGGREGATED_CHANNEL_ID" for k b
    using ok al that unfolding prefixes_ok_def by blast
  with ok al show ?thesis
    unfolding prefixes_ok_def ps' by auto
qed

lemma inv_open_channel:
  assumes lib: "tproxy_lib_ok lib live" and inv: "tm_inv lib live tm" and a: "tm_allocator tm = Some a"
    and new: "al_allocate_extended (tl_allocator lib) n a = (Ok p, a')" and x: "cx_prefix (tl_extended lib) x = p"
    and c: "c \<notin> sm_dom (tm_extended_channels tm)"
  shows "tm_inv lib live (insert_channel lib c x (tm\<lparr>tm_allocator := Some a'\<rparr>))"
proof -
  let ?tm = "put_channel c x (tm\<lparr>tm_allocator := Some a'\<rparr>)"
  have "get_channel c (tm\<lparr>tm_allocator := Some a'\<rparr>) = None"
    using c by (simp add: get_channel_def sm_get_cloned_def sm_dom_iff)
  moreover have "prefixes_ok (tl_allocator lib) live a' (channel_prefixes lib ?tm)"
    using inv a set_channel_prefixes_put [of c "tm\<lparr>tm_allocator := Some a'\<rparr>" lib x] c
    by (intro prefixes_ok_insert [OF lib _ new, where ps = "channel_prefixes lib tm" and c = c])
      (simp_all add: inv_Some x channel_prefixes_def)
  ultimately show ?thesis
    using inv a by (simp add: insert_channel_def drop_channel_def inv_Some put_channel_def upstream_opens_def)
qed

lemma inv_unused_prefix:
  assumes lib: "tproxy_lib_ok lib live" and inv: "tm_inv lib live tm" and a: "tm_allocator tm = Some a"
    and new: "al_allocate_extended (tl_allocator lib) n a = (Ok p, a')"
  shows "tm_inv lib live (drop_prefix lib p (tm\<lparr>tm_allocator := Some a'\<rparr>))"
proof -
  note al = lib_allocator(2) [OF lib new]
  have "live a \<subseteq> live (al_release (tl_allocator lib) p a')" using lib_allocator(5) [OF lib, of a' p] al by blast
  then have "tm_inv lib live (tm\<lparr>tm_allocator := Some (al_release (tl_allocator lib) p a')\<rparr>)"
    using al by (intro inv_allocator [OF a inv]) (simp_all add: lib_allocator(4) [OF lib])
  then show ?thesis by (simp add: drop_prefix_def)
qed

lemma wp_send_sv1: "c_wp (send_sv1 env m) Q E tm =
   (if tv_sv1_ok env then Q () (tm\<lparr>tm_to_sv1 := tm_to_sv1 tm @ [m]\<rparr>) else E (TpRaised (tp_shutdown TkChannelErrorSender)) tm)"
  by (simp add: send_sv1_def wp_rules)

lemma update_same: "map_of m c = Some x \<Longrightarrow> AList.update c x m = m"
  by (induction m) (auto split: if_splits)

lemma initialize_channel_changes:
  assumes "tproxy_lib_ok lib live"
  obtains f where "snd (initialize_channel lib c tm) = change_channel c f tm"
    "\<And>x. cx_prefix (tl_extended lib) (f x) = cx_prefix (tl_extended lib) x"
proof -
  have id: "change_channel c (\<lambda>x. x) tm = tm"
    by (cases "map_of (tm_extended_channels tm) c")
      (simp_all add: change_channel_def sm_with_mut_def update_same)
  have jobs: "cx_prefix (tl_extended lib) (foldl (\<lambda>x (_, j). snd (cx_on_new_extended_mining_job (tl_extended lib)
      (j\<lparr>nxj_channel_id := c\<rparr>) x)) x js) = cx_prefix (tl_extended lib) x" for x js
    by (induction js arbitrary: x) (auto simp: lib_prefix_kept [OF assms])
  show thesis
  proof (cases "get_channel AGGREGATED_CHANNEL_ID tm")
    case None
    then show thesis using that [of "\<lambda>x. x"] by (simp add: initialize_channel_def id)
  next
    case (Some shared)
    show thesis
      by (rule that, simp add: initialize_channel_def Some Let_def)
        (simp add: jobs lib_prefix_kept [OF assms] split: option.splits)
  qed
qed

lemma change_channel_frame [simp]:
  "tm_allocator (change_channel c f tm) = tm_allocator tm"
  "id_room n (change_channel c f tm) = id_room n tm"
  "id_room n (tm\<lparr>tm_to_sv1 := ms\<rparr>) = id_room n tm"
  "id_room n (tm\<lparr>tm_allocator := al\<rparr>) = id_room n tm"
  by (simp_all add: change_channel_def id_room_def sm_dom_def sm_keys_def sm_with_mut_keys)

definition serving ::
  "('x, 'g, 'a, 'p) tproxy_lib \<Rightarrow> ('a \<Rightarrow> bytes set) \<Rightarrow> nat \<Rightarrow> ('x, 'g, 'a) tproxy_manager \<Rightarrow> bool" where
  "serving lib live n tm \<longleftrightarrow> tm_inv lib live tm \<and> tm_allocator tm \<noteq> None \<and> id_room n tm"

lemma serving_frame [simp]:
  "serving lib live n (tm\<lparr>tm_to_sv1 := ms\<rparr>) = serving lib live n tm"
  by (simp add: serving_def)

lemma serving_change_channel:
  "serving lib live n tm \<Longrightarrow> (\<And>x. cx_prefix (tl_extended lib) (f x) = cx_prefix (tl_extended lib) x) \<Longrightarrow>
     serving lib live n (change_channel c f tm)"
  by (simp add: serving_def inv_change_channel)

lemma wp_open_aggregated:
  assumes lib: "tproxy_lib_ok lib live" and s: "serving lib live (Suc n) tm" and a: "tm_allocator tm = Some a"
    and new: "al_allocate_extended (tl_allocator lib) k a = (Ok p, a')"
  shows "c_wp (open_aggregated_channel lib env r u h k t p) (\<lambda>_. serving lib live n) (tm_fault_ok lib live)
    (tm\<lparr>tm_allocator := Some a'\<rparr>)"
proof -
  let ?c = "tm_next_channel_id tm" and ?x = "cx_new (tl_extended lib) (tm_next_channel_id tm) u p t h True (word_of_nat k)"
  let ?tm = "insert_channel lib ?c ?x (tm\<lparr>tm_allocator := Some a'\<rparr>)"
  note fresh = next_channel_id_fresh [of n tm]
  have room: "id_room (Suc n) tm" and inv: "tm_inv lib live tm" using s by (simp_all add: serving_def)
  have "get_channel ?c tm = None"
    using fresh(2) [OF room] by (simp add: get_channel_def sm_get_cloned_def sm_dom_iff)
  then have tm: "?tm = (put_channel ?c ?x tm)\<lparr>tm_allocator := Some a'\<rparr>"
    by (simp add: insert_channel_def drop_channel_def put_channel_def get_channel_def)
  have "tm_inv lib live ?tm"
    by (rule inv_open_channel [OF lib inv a new _ fresh(2) [OF room]]) (simp add: lib_channels(1) [OF lib])
  moreover have "id_room n ?tm"
    using room fresh(3) [OF room] unfolding tm by (auto simp: id_room_def put_channel_def)
  ultimately have s': "serving lib live n ?tm" by (simp add: serving_def tm)
  have "serving lib live n (snd (initialize_channel lib ?c (?tm\<lparr>tm_to_sv1 := ms\<rparr>)))" for ms
    using s' by (rule_tac initialize_channel_changes [OF lib, of ?c "?tm\<lparr>tm_to_sv1 := ms\<rparr>"])
      (simp add: serving_change_channel)
  moreover have "tm_next_channel_id (tm\<lparr>tm_allocator := Some a'\<rparr>) = ?c" by (simp add: tm_next_channel_id_def)
  ultimately show ?thesis
    by (simp add: open_aggregated_channel_def Let_def wp_bind wp_generic wp_modify wp_tproxy wp_send_sv1)
      (auto simp: c_wp_def send_sv1_def c_modify_def c_return_def t_raise_def case_prod_beta split: option.splits)
qed

lemma wp_channel_request:
  assumes lib: "tproxy_lib_ok lib live" and s: "serving lib live (Suc n) tm"
  shows "c_wp (handle_downstream_channel_request_in_aggregated_mode lib env r u h k) (\<lambda>_. serving lib live n)
    (tm_fault_ok lib live) tm"
proof -
  obtain a where a: "tm_allocator tm = Some a" using s by (auto simp: serving_def)
  then have "AGGREGATED_CHANNEL_ID \<in> sm_dom (tm_extended_channels tm)"
    using s by (simp add: serving_def inv_Some)
  then obtain x where x: "get_channel AGGREGATED_CHANNEL_ID tm = Some x"
    by (auto simp: get_channel_def sm_get_cloned_def sm_dom_iff)
  have weaken: "id_room n tm" using s by (auto simp: serving_def id_room_def)
  obtain r' a' where al: "al_allocate_extended (tl_allocator lib) k a = (r', a')" by fastforce
  show ?thesis
  proof (cases r')
    case (Inl e)
    note al' = lib_allocator(3) [OF lib al [unfolded Inl]]
    have "serving lib live n (tm\<lparr>tm_allocator := Some a'\<rparr>)"
      using s weaken al' inv_allocator [OF a, of lib live a'] by (simp add: serving_def)
    then show ?thesis
      by (simp add: handle_downstream_channel_request_in_aggregated_mode_def wp_bind wp_generic wp_tproxy wp_modify x a al Inl)
  next
    case (Inr p)
    have "serving lib live n (drop_prefix lib p (tm\<lparr>tm_allocator := Some a'\<rparr>))"
      using inv_unused_prefix [OF lib _ a al [unfolded Inr]] s weaken
      by (simp add: serving_def drop_prefix_def)
    with wp_open_aggregated [OF lib s a al [unfolded Inr]] show ?thesis
      by (simp add: handle_downstream_channel_request_in_aggregated_mode_def wp_bind wp_generic wp_tproxy wp_modify wp_if x a al Inr)
  qed
qed

lemma wp_serve_requests:
  assumes lib: "tproxy_lib_ok lib live"
  shows "serving lib live (length reqs) tm \<Longrightarrow>
    c_wp (t_for reqs (\<lambda>(r, u, h, k). handle_downstream_channel_request_in_aggregated_mode lib env (word_of_nat r) u h k))
      (\<lambda>_. serving lib live 0) (tm_fault_ok lib live) tm"
proof (induction reqs arbitrary: tm)
  case (Cons q reqs)
  obtain r u h k where q: "q = (r, u, h, k)" by (cases q) auto
  show ?case
    using Cons.prems by (auto simp: q wp_bind intro!: wp_mono [OF wp_channel_request [OF lib]] Cons.IH)
qed (simp add: wp_generic)

lemma mint_prefix_ok:
  assumes lib: "tproxy_lib_ok lib live" and m: "mint_prefix lib up s k j = Ok (a, p)"
  obtains a0 n q where "al_allocate_extended (tl_allocator lib) n a0 = (Ok p, a)" "al_upstream_prefix (tl_allocator lib) a0 = up"
    "al_prefix_from_wire (tl_allocator lib) (al_upstream_prefix (tl_allocator lib) a) = Ok q"
proof -
  let ?f = "al_from_upstream_prefix (tl_allocator lib) up
     (replicate (unat s - unat (al_bytes_needed (tl_allocator lib) j) - k) 0) (word_of_nat (length up) + ucast s) j"
  obtain a0 where a0: "?f = Ok a0"
    using m by (cases ?f) (auto simp: mint_prefix_def Let_def)
  obtain r a' where r: "al_allocate_extended (tl_allocator lib) k a0 = (r, a')" by fastforce
  with m a0 have "al_allocate_extended (tl_allocator lib) k a0 = (Ok p, a)"
    by (cases r) (auto simp: mint_prefix_def Let_def)
  with lib_allocator(1) [OF lib a0] lib_allocator(2) [OF lib this] show thesis by (auto intro: that)
qed

lemma rbind_map_err_Err: "rbind (map_err (\<lambda>_. x) r) f = Err e \<Longrightarrow> e = x \<or> (\<exists>a. f a = Err e)"
  by (cases r) auto

lemma mint_prefix_fatal: "mint_prefix lib up s k j = Err e \<Longrightarrow> te_action e = TpFallback"
  unfolding mint_prefix_def Let_def by (drule rbind_map_err_Err) (auto simp: case_prod_beta dest!: rbind_map_err_Err)

lemma wp_opened_aggregated:
  assumes lib: "tproxy_lib_ok lib live" and agg: "is_aggregated (tm_mode tm)" and empty: "tm_extended_channels tm = []"
    "tm_allocator tm = None" and rest: "tm_expected_payout tm \<noteq> None" "upstream_opens tm \<le> 1"
  shows "c_wp (opened_aggregated lib m s u h k) (\<lambda>_ tm'. tm_inv lib live (tm'\<lparr>tm_pending_downstream_channels := []\<rparr>) \<and>
      tm_pending_downstream_channels tm' = tm_pending_downstream_channels tm \<and> tm_allocator tm' \<noteq> None \<and>
      sm_dom (tm_extended_channels tm') = {AGGREGATED_CHANNEL_ID, 1}) (tm_fault_ok lib live) tm"
proof (cases "mint_prefix lib (ocs_extranonce_prefix m) s k AGGREGATED_TPROXY_MAX_CHANNELS")
  case (Inl e)
  have "te_action e = TpFallback"
    by (rule mint_prefix_fatal [OF Inl])
  with Inl have "c_wp (opened_aggregated lib m s u h k) Q (tm_fault_ok lib live) tm" for Q
    by (simp add: opened_aggregated_def wp_bind wp_tproxy tm_fault_ok_def wp_if)
  then show ?thesis .
next
  case (Inr ap)
  obtain a p where ap: "ap = (a, p)" by fastforce
  obtain a0 n q where al: "al_allocate_extended (tl_allocator lib) n a0 = (Ok p, a)"
    "al_upstream_prefix (tl_allocator lib) a0 = ocs_extranonce_prefix m"
    "al_prefix_from_wire (tl_allocator lib) (al_upstream_prefix (tl_allocator lib) a) = Ok q"
    by (rule mint_prefix_ok [OF lib Inr [unfolded ap]])
  note new = lib_allocator(2) [OF lib al(1)] lib_allocator(7) [OF lib al(3)]
  have one: "AGGREGATED_CHANNEL_ID \<noteq> 1" by (simp add: AGGREGATED_CHANNEL_ID_def)
  define tm' where "tm' = tm\<lparr>tm_extended_channels :=
      [(AGGREGATED_CHANNEL_ID, cx_new (tl_extended lib) (ocs_channel_id m) u q (target_from_le_bytes (ocs_target m)) h True s),
       (1, cx_new (tl_extended lib) 1 u p (target_from_le_bytes (ocs_target m)) h True (word_of_nat k))],
     tm_allocator := Some a, tm_aggregated_state := Connected\<rparr>"
  have "prefixes_ok (tl_allocator lib) live a (channel_prefixes lib tm')"
    using new one by (auto simp: tm'_def prefixes_ok_def channel_prefixes_def lib_channels(1) [OF lib])
  then have inv: "tm_inv lib live (tm'\<lparr>tm_pending_downstream_channels := []\<rparr>)"
    using agg rest one by (simp add: inv_Some [where a = a] tm'_def upstream_opens_def sm_invar_def sm_dom_def sm_keys_def
        channel_prefixes_def)
  have eq: "c_wp (opened_aggregated lib m s u h k) Q E tm =
      (if unat s < unat (AGGREGATED_TPROXY_LOCAL_PREFIX_BYTES lib) + k then E (TpRaised (tp_fallback TkOpenMiningChannelError)) tm
       else c_wp (success_for_sv1 lib m 1 (al_prefix_bytes (tl_allocator lib) p) k) Q E tm')" for Q E
    using empty one by (simp add: opened_aggregated_def wp_bind wp_generic wp_tproxy wp_modify Inr ap al(3) Let_def tm'_def
        insert_channel_def drop_channel_def get_channel_def put_channel_def sm_get_cloned_def)
  show ?thesis
    unfolding eq success_for_sv1_def wp_if wp_generic wp_tproxy
    using inv by (auto simp: tm'_def sm_dom_def sm_keys_def)
qed

lemma join_group_wp:
  assumes "\<And>k g. Q () (put_group k g tm)" "\<And>k tm. E (TpRaised (tp_fallback k)) tm"
  shows "c_wp (join_group lib gid c n) Q E tm"
  using assms by (auto simp: c_wp_def join_group_def case_prod_beta map_err_def split: option.splits sum.splits)

lemma own_prefix_fatal:
  "own_channel_prefix lib m s k = Err e \<Longrightarrow> te_action e \<in> {TpFallback, TpShutdown}"
  by (cases "mint_prefix lib (ocs_extranonce_prefix m) s k NON_AGGREGATED_TPROXY_MAX_CHANNELS")
    (auto simp: own_channel_prefix_def Let_def dest!: rbind_map_err_Err mint_prefix_fatal split: if_splits)

lemma inv_own_channel:
  assumes "tm_inv lib live tm" "\<not> is_aggregated (tm_mode tm)"
  shows "tm_inv lib live (insert_channel lib c x tm)"
  using assms by (auto simp: insert_channel_def drop_channel_def drop_prefix_def put_channel_def tm_inv_def split: option.splits)

lemma wp_opened_own:
  assumes "tm_inv lib live tm" "\<not> is_aggregated (tm_mode tm)"
  shows "c_wp (opened_own lib m s u h k) (\<lambda>_. tm_inv lib live) (tm_fault_ok lib live) tm"
proof (cases "own_channel_prefix lib m s k")
  case (Inl e)
  with own_prefix_fatal [OF this] show ?thesis by (simp add: opened_own_def wp_bind wp_tproxy tm_fault_ok_def)
next
  case (Inr pb)
  then show ?thesis
    using inv_own_channel [OF assms] by (cases pb) (simp add: opened_own_def success_for_sv1_def wp_bind wp_tproxy wp_generic wp_modify wp_if)
qed

lemma inv_remove_pending:
  "tm_inv lib live tm \<Longrightarrow> tm_inv lib live (tm\<lparr>tm_pending_downstream_channels := AList.delete r (tm_pending_downstream_channels tm)\<rparr>)"
  by (auto simp: tm_inv_def upstream_opens_def channel_prefixes_def split: option.splits if_splits)

text \<open>Room for the requests that wait and one more.\<close>

definition requests_room :: "('x, 'g, 'a) tproxy_manager \<Rightarrow> bool" where
  "requests_room tm = id_room (length (tm_pending_downstream_channels tm) + 1) tm"

lemma wp_open_success_aggregated:
  assumes lib: "tproxy_lib_ok lib live" and inv: "tm_inv lib live tm" and agg: "is_aggregated (tm_mode tm)"
    and none: "tm_allocator tm = None" and room: "length (tm_pending_downstream_channels tm) + 2 < 2 ^ 32"
  shows "c_wp (c_bind (opened_aggregated lib m s u h k) (\<lambda>success. c_bind (send_sv1 env success) (\<lambda>_. serve_pending lib env)))
    (\<lambda>_. tm_inv lib live) (tm_fault_ok lib live) tm"
proof -
  have "serving lib live (length (tm_pending_downstream_channels tm)) (tm'\<lparr>tm_to_sv1 := ms, tm_pending_downstream_channels := []\<rparr>)"
    if "tm_inv lib live (tm'\<lparr>tm_pending_downstream_channels := []\<rparr>)" "tm_allocator tm' \<noteq> None"
      "sm_dom (tm_extended_channels tm') = {AGGREGATED_CHANNEL_ID, 1}" for tm' ms
  proof -
    have eq: "tm'\<lparr>tm_to_sv1 := ms, tm_pending_downstream_channels := []\<rparr> = (tm'\<lparr>tm_pending_downstream_channels := []\<rparr>)\<lparr>tm_to_sv1 := ms\<rparr>"
      by simp
    show ?thesis unfolding eq using that room by (auto simp: serving_def id_room_def)
  qed
  then have serve: "c_wp (serve_pending lib env) (\<lambda>_. tm_inv lib live) (tm_fault_ok lib live) (tm'\<lparr>tm_to_sv1 := ms\<rparr>)"
    if "tm_inv lib live (tm'\<lparr>tm_pending_downstream_channels := []\<rparr>)" "tm_allocator tm' \<noteq> None"
      "sm_dom (tm_extended_channels tm') = {AGGREGATED_CHANNEL_ID, 1}"
      "tm_pending_downstream_channels tm' = tm_pending_downstream_channels tm" for tm' ms
    using that by (auto simp: serve_pending_def wp_bind wp_generic wp_modify sm_clear_def serving_def
        simp del: not_None_eq intro!: wp_mono [OF wp_serve_requests [OF lib]])
  have "tm_extended_channels tm = []" "tm_expected_payout tm \<noteq> None" "upstream_opens tm \<le> 1"
    using inv agg none by (simp_all add: tm_inv_def)
  from wp_opened_aggregated [OF lib agg this(1) none this(2,3)] show ?thesis
    unfolding wp_bind [of "opened_aggregated lib m s u h k"]
    by (rule wp_mono) (auto simp: wp_bind wp_send_sv1 serve simp del: not_None_eq)
qed

lemma wp_open_success:
  assumes lib: "tproxy_lib_ok lib live" and inv: "tm_inv lib live tm" and room: "requests_room tm"
  shows "c_wp (handle_open_extended_mining_channel_success lib env m s) (\<lambda>_. tm_inv lib live) (tm_fault_ok lib live) tm"
proof -
  let ?r = "unat (ocs_request_id m)"
  define tm1 where "tm1 = tm\<lparr>tm_pending_downstream_channels := AList.delete ?r (tm_pending_downstream_channels tm)\<rparr>"
  have inv1: "tm_inv lib live tm1" using inv_remove_pending [OF inv] by (simp add: tm1_def)
  show ?thesis
  proof (cases "map_of (tm_pending_downstream_channels tm) ?r")
    case None
    with inv1 show ?thesis
      by (simp add: handle_open_extended_mining_channel_success_def wp_bind wp_generic wp_modify wp_tproxy sm_get_cloned_def tm1_def)
  next
    case (Some uhk)
    obtain u h k where uhk: "uhk = (u, h, k)" by (cases uhk) auto
    have inv2: "tm_inv lib live (put_group i g tm1)" for i g using inv1 by simp
    have fields: "tm_mode (put_group i g tm1) = tm_mode tm" "tm_allocator (put_group i g tm1) = tm_allocator tm"
      "tm_pending_downstream_channels (put_group i g tm1) = AList.delete ?r (tm_pending_downstream_channels tm)" for i g
      by (simp_all add: put_group_def tm1_def)
    have len: "length (AList.delete ?r (tm_pending_downstream_channels tm)) \<le> length (tm_pending_downstream_channels tm)"
      by (rule length_delete_le)
    have none: "tm_allocator tm = None" if "is_aggregated (tm_mode tm)"
    proof (cases "tm_allocator tm")
      case (Some a)
      then show ?thesis using inv \<open>map_of (tm_pending_downstream_channels tm) ?r = Some uhk\<close> by (simp add: inv_Some)
    qed
    have "c_wp (c_bind (c_get (\<lambda>tm. is_aggregated (tm_mode tm))) (\<lambda>aggregated.
        c_bind (if aggregated then opened_aggregated lib m s u h k else opened_own lib m s u h k) (\<lambda>success.
        c_bind (send_sv1 env success) (\<lambda>_. if aggregated then serve_pending lib env else c_return ()))))
      (\<lambda>_. tm_inv lib live) (tm_fault_ok lib live) (put_group i g tm1)" for i g
    proof (cases "is_aggregated (tm_mode tm)")
      case True
      have "length (tm_pending_downstream_channels (put_group i g tm1)) + 2 < 2 ^ 32"
        using room len by (simp add: fields requests_room_def id_room_def)
      from wp_open_success_aggregated [OF lib inv2 _ _ this] True none show ?thesis
        by (simp add: wp_bind wp_generic fields)
    next
      case False
      have "tm_keeps lib live (c_bind (send_sv1 env success) (\<lambda>_. c_return ()))" for success by (intro tm_rules)
      then show ?thesis
        using False
        by (auto simp: wp_bind wp_generic fields tm_keeps_def intro!: wp_mono [OF wp_opened_own [OF inv2]])
    qed
    then have "c_wp (join_group lib (ocs_group_channel_id m) (ocs_channel_id m) (unat s + length (ocs_extranonce_prefix m)))
        (\<lambda>_. c_wp (c_bind (c_get (\<lambda>tm. is_aggregated (tm_mode tm))) (\<lambda>aggregated.
        c_bind (if aggregated then opened_aggregated lib m s u h k else opened_own lib m s u h k) (\<lambda>success.
        c_bind (send_sv1 env success) (\<lambda>_. if aggregated then serve_pending lib env else c_return ()))))
      (\<lambda>_. tm_inv lib live) (tm_fault_ok lib live)) (tm_fault_ok lib live) tm1"
      by (intro join_group_wp) simp_all
    then show ?thesis
      unfolding handle_open_extended_mining_channel_success_def
      by (simp add: wp_bind [of "c_get _"] wp_bind [of "c_modify _"] wp_bind [of "join_group _ _ _ _"] wp_generic(3) wp_modify
          sm_get_cloned_def Some uhk tm1_def)
  qed
qed

text \<open>A request of the SV1 server; the one panic is an identity too long to be extended.\<close>

definition identity_fits :: "('x, 'g, 'a, 'p) tproxy_lib \<Rightarrow> open_extended_mining_channel \<Rightarrow> bool" where
  "identity_fits lib m = tl_fits_str0255 lib (length (translator_identity (tl_as_utf8_or_hex lib (oem_user_identity m))))"

lemma wp_open_upstream: "c_wp (open_upstream lib env m n) Q E tm = (case tl_encode lib (UpMining (OpenExtendedMiningChannel
     (m\<lparr>oem_min_extranonce_size := word_of_nat n\<rparr>))) of
     Inl e \<Rightarrow> E (TpRaised (tp_shutdown e)) tm
   | Inr _ \<Rightarrow> (if tv_upstream_ok env then Q () (tm\<lparr>tm_to_upstream := tm_to_upstream tm @ [UpMining
         (OpenExtendedMiningChannel (m\<lparr>oem_min_extranonce_size := word_of_nat n\<rparr>))]\<rparr>)
       else E (TpRaised (tp_fallback TkChannelErrorSender)) tm))"
  by (auto simp: open_upstream_def send_upstream_def wp_rules split: sum.splits)

definition enqueue_request ::
  "('x, 'g, 'a, 'p) tproxy_lib \<Rightarrow> open_extended_mining_channel \<Rightarrow> ('x, 'g, 'a) tproxy_manager \<Rightarrow> ('x, 'g, 'a) tproxy_manager" where
  "enqueue_request lib m tm = tm\<lparr>tm_pending_downstream_channels := AList.update (unat (oem_request_id m))
     (tl_as_utf8_or_hex lib (oem_user_identity m), oem_nominal_hash_rate m, unat (oem_min_extranonce_size m))
     (tm_pending_downstream_channels tm)\<rparr>"

lemma inv_enqueue:
  assumes "tm_inv lib live tm" "tm_allocator tm = None"
  shows "tm_inv lib live (enqueue_request lib m tm)"
  using assms by (auto simp: tm_inv_def enqueue_request_def upstream_opens_def split: if_splits)

lemma inv_first_request:
  assumes "tm_inv lib live tm" "is_aggregated (tm_mode tm)" "tm_aggregated_state tm = NoChannel"
  shows "tm_inv lib live ((enqueue_request lib m (tm\<lparr>tm_aggregated_state := Pending\<rparr>))\<lparr>tm_to_upstream :=
      tm_to_upstream tm @ [u]\<rparr>)"
  using assms by (cases "tm_allocator tm") (simp_all add: tm_inv_def enqueue_request_def upstream_opens_def)

lemma inv_own_request:
  assumes "tm_inv lib live tm" "\<not> is_aggregated (tm_mode tm)"
  shows "tm_inv lib live ((enqueue_request lib m tm)\<lparr>tm_to_upstream := tm_to_upstream tm @ [u]\<rparr>)"
  using assms by (simp add: tm_inv_def enqueue_request_def)

lemma wp_open_request:
  assumes lib: "tproxy_lib_ok lib live" and inv: "tm_inv lib live tm" and room: "requests_room tm"
    and fits: "is_aggregated (tm_mode tm) \<Longrightarrow> tm_aggregated_state tm = NoChannel \<Longrightarrow> identity_fits lib m"
  shows "c_wp (handle_open_request lib env m) (\<lambda>_. tm_inv lib live) (tm_fault_ok lib live) tm"
proof (cases "is_aggregated (tm_mode tm)")
  case agg: True
  show ?thesis
  proof (cases "tm_aggregated_state tm")
    case NoChannel
    with agg fits inv_first_request [OF inv] show ?thesis
      by (auto simp: handle_open_request_def Let_def wp_bind wp_generic wp_modify wp_open_upstream identity_fits_def wp_if
          enqueue_request_def split: sum.splits)
  next
    case Pending
    then have "tm_allocator tm = None" using inv agg by (cases "tm_allocator tm") (simp_all add: tm_inv_def)
    with agg Pending inv_enqueue [OF inv] show ?thesis
      by (simp add: handle_open_request_def Let_def wp_bind wp_generic wp_modify enqueue_request_def)
  next
    case Connected
    then obtain a where a: "tm_allocator tm = Some a" using inv agg by (cases "tm_allocator tm") (simp_all add: tm_inv_def)
    then have "serving lib live (Suc 0) tm" using inv room by (simp add: serving_def requests_room_def inv_Some)
    from agg Connected show ?thesis
      by (auto simp: handle_open_request_def Let_def wp_bind wp_generic serving_def
          intro!: wp_mono [OF wp_channel_request [OF lib \<open>serving lib live (Suc 0) tm\<close>]])
  qed
next
  case False
  with inv_own_request [OF inv] show ?thesis
    by (auto simp: handle_open_request_def Let_def wp_bind wp_generic wp_modify wp_open_upstream enqueue_request_def
        split: sum.splits)
qed

section \<open>The event loop\<close>

definition overlong_identity ::
  "('x, 'g, 'a, 'p) tproxy_lib \<Rightarrow> ('x, 'g, 'a) tproxy_manager \<Rightarrow> tm_event \<Rightarrow> bool" where
  "overlong_identity lib tm ev = (case ev of
     TmSv1 (Some (OpenExtendedMiningChannel m, _)) \<Rightarrow>
       is_aggregated (tm_mode tm) \<and> tm_aggregated_state tm = NoChannel \<and> \<not> identity_fits lib m
   | _ \<Rightarrow> False)"

lemma wp_mining_message:
  assumes lib: "tproxy_lib_ok lib live" and inv: "tm_inv lib live tm" and room: "requests_room tm"
  shows "c_wp (tm_handle_mining_message lib env m) (\<lambda>_. tm_inv lib live) (tm_fault_ok lib live) tm"
proof (cases m)
  case (OpenExtendedMiningChannelSuccess m s)
  then show ?thesis using wp_open_success [OF lib inv room] by (simp add: tm_handle_mining_message_def)
qed (simp_all add: tm_handle_mining_message_def Let_def tm_keeps_at [OF _ inv] tm_keeps_job [OF lib] tm_keeps_prev_hash [OF lib]
    tm_keeps_set_target [OF lib] tm_keeps_close_channel [OF lib] tm_keeps_set_group wp_rules lib inv)

lemma wp_event:
  assumes lib: "tproxy_lib_ok lib live" and inv: "tm_inv lib live tm" and room: "requests_room tm"
    and fits: "\<not> overlong_identity lib tm ev"
  shows "c_wp (tm_handle_event lib env ev) (\<lambda>_. tm_inv lib live) (tm_fault_ok lib live) tm"
proof (cases ev)
  case (TmUpstream received)
  have raise: "c_wp (t_raise e) (\<lambda>_. tm_inv lib live) (tm_fault_ok lib live) tm" for e
    using inv by (simp add: wp_rules tm_fault_of_inv)
  have mining: "c_wp (c_bind (t_try r) (tm_handle_mining_message lib env)) (\<lambda>_. tm_inv lib live) (tm_fault_ok lib live) tm" for r
    using wp_mining_message [OF lib inv room] inv by (simp add: wp_rules tm_fault_of_inv split: sum.splits)
  have extensions: "c_wp (c_bind (t_try r) (handle_extensions_message lib env)) (\<lambda>_. tm_inv lib live) (tm_fault_ok lib live) tm" for r
    using tm_keeps_at [OF tm_keeps_extensions inv] inv by (simp add: wp_rules tm_fault_of_inv split: sum.splits)
  show ?thesis
    unfolding TmUpstream tm_handle_event_def tm_event.case handle_upstream_frame_def
    by (auto simp: wp_bind [of "c_get _"] wp_generic(3) raise mining extensions split: option.splits message_type.splits)
next
  case (TmSv1 received)
  note handlers = tm_keeps_at [OF tm_keeps_share [OF lib] inv] tm_keeps_at [OF tm_keeps_update [OF lib] inv]
    tm_keeps_at [OF tm_keeps_close [OF lib] inv] wp_open_request [OF lib inv room]
  show ?thesis
    using fits handlers inv
    by (auto simp: TmSv1 tm_handle_event_def tm_handle_downstream_message_def overlong_identity_def wp_generic wp_tproxy
        split: option.splits mining_from_client.splits)
qed

text \<open>
  The states reached from the start, once the expected payout is set.  A turn of the loop needs
  room for the channel ids it may give out.
\<close>

inductive tm_reachable :: "('x, 'g, 'a, 'p) tproxy_lib \<Rightarrow> loop_tokens \<Rightarrow> ('x, 'g, 'a) tproxy_manager \<Rightarrow> bool"
  for lib :: "('x, 'g, 'a, 'p) tproxy_lib" where
  start: "set_expected_payout_distribution payout (tproxy_manager_new supported required mode) = (Ok (), tm) \<Longrightarrow>
    tm_reachable lib \<lparr>lt_cancelled = False, lt_fallback = False\<rparr> tm"
| turn: "tm_reachable lib tok tm \<Longrightarrow> requests_room tm \<Longrightarrow>
    tm_step lib env tok ev tm = (Ok (control, tok'), tm') \<Longrightarrow> tm_reachable lib tok' tm'"

definition running :: "loop_tokens \<Rightarrow> bool" where
  "running tok \<longleftrightarrow> \<not> lt_cancelled tok \<and> \<not> lt_fallback tok"

lemma overlong_panics:
  "overlong_identity lib tm ev \<Longrightarrow> fst (tm_handle_event lib env ev tm) = Err TpPanic"
  by (auto simp: overlong_identity_def tm_handle_event_def tm_handle_downstream_message_def handle_open_request_def Let_def
      identity_fits_def c_bind_def c_get_def c_modify_def c_fail_def
      split: tm_event.splits option.splits mining_from_client.splits)

lemma step_panics_iff:
  assumes lib: "tproxy_lib_ok lib live" and inv: "running tok \<Longrightarrow> tm_inv lib live tm" and room: "requests_room tm"
  shows "fst (tm_step lib env tok ev tm) = Err TpPanic \<longleftrightarrow> running tok \<and> overlong_identity lib tm ev"
proof (cases "running tok")
  case True
  show ?thesis
  proof (cases "overlong_identity lib tm ev")
    case True
    from overlong_panics [OF this, of env] this \<open>running tok\<close> show ?thesis
      by (auto simp: tm_step_def running_def split: prod.splits)
  next
    case False
    from wp_event [OF lib inv [OF \<open>running tok\<close>] room False, of env] False \<open>running tok\<close> show ?thesis
      by (auto simp: c_wp_def tm_step_def running_def split: prod.splits sum.splits tp_fault.splits)
  qed
qed (auto simp: tm_step_def running_def)

lemma step_inv:
  assumes lib: "tproxy_lib_ok lib live" and inv: "running tok \<Longrightarrow> tm_inv lib live tm" and room: "requests_room tm"
    and step: "tm_step lib env tok ev tm = (Ok (control, tok'), tm')" and run: "running tok'"
  shows "tm_inv lib live tm'"
proof (cases "running tok")
  case True
  have "fst (tm_step lib env tok ev tm) \<noteq> Err TpPanic" using step by simp
  with step_panics_iff [OF lib _ room, of tok env ev] inv True have "\<not> overlong_identity lib tm ev" by blast
  from wp_event [OF lib inv [OF True] room this, of env] True step run show ?thesis
    by (auto simp: c_wp_def tm_step_def running_def tm_fault_ok_def tm_handle_error_action_def
        split: prod.splits sum.splits tp_fault.splits tproxy_action.splits)
next
  case False
  with step run show ?thesis by (simp add: tm_step_def running_def)
qed

lemma tm_reachable_inv:
  assumes "tproxy_lib_ok lib live"
  shows "tm_reachable lib tok tm \<Longrightarrow> running tok \<Longrightarrow> tm_inv lib live tm"
proof (induction rule: tm_reachable.induct)
  case (start payout supported required mode tm)
  then show ?case
    by (auto simp: set_expected_payout_distribution_def tproxy_manager_new_def tm_inv_def upstream_opens_def sm_new_def)
next
  case (turn tok tm env ev control tok' tm')
  then show ?case by (blast intro: step_inv [OF assms])
qed

text \<open>
  C19. The translator's channel manager keeps its miners apart.  In every state its loop reaches, in
  aggregated mode: the upstream channel is opened at most once; the manager counts as connected
  exactly when it has the shared channel; every miner's extranonce prefix extends the upstream's, and
  no two channels have the same prefix, so no two miners ever search the same space.  In any such
  state a turn of the loop panics exactly for the first request with an identity that does not fit
  once the translator's suffix is added.
\<close>

theorem translator_miners_disjoint:
  assumes "tproxy_lib_ok lib live" "tm_reachable lib tok tm" "running tok" "is_aggregated (tm_mode tm)"
  shows "upstream_opens tm \<le> 1 \<and>
    (tm_aggregated_state tm = Connected \<longleftrightarrow> get_channel AGGREGATED_CHANNEL_ID tm \<noteq> None) \<and>
    (\<forall>c x a. get_channel c tm = Some x \<longrightarrow> tm_allocator tm = Some a \<longrightarrow>
       prefix (al_upstream_prefix (tl_allocator lib) a) (cx_get_extranonce_prefix (tl_extended lib) x)) \<and>
    (\<forall>c c' x x'. get_channel c tm = Some x \<longrightarrow> get_channel c' tm = Some x' \<longrightarrow> c \<noteq> c' \<longrightarrow>
       c \<noteq> AGGREGATED_CHANNEL_ID \<longrightarrow> c' \<noteq> AGGREGATED_CHANNEL_ID \<longrightarrow>
       cx_get_extranonce_prefix (tl_extended lib) x \<noteq> cx_get_extranonce_prefix (tl_extended lib) x') \<and>
    (requests_room tm \<longrightarrow>
       (fst (tm_step lib env tok ev tm) = Err TpPanic \<longleftrightarrow> overlong_identity lib tm ev))"
proof -
  have inv: "tm_inv lib live tm" by (rule tm_reachable_inv [OF assms(1-3)])
  have conn: "tm_aggregated_state tm = Connected \<longleftrightarrow> get_channel AGGREGATED_CHANNEL_ID tm \<noteq> None"
    using inv assms(4) by (cases "tm_allocator tm") (auto simp: tm_inv_def get_channel_def sm_get_cloned_def sm_dom_iff)
  have distinct: "cx_get_extranonce_prefix (tl_extended lib) x \<noteq> cx_get_extranonce_prefix (tl_extended lib) x'"
    if "get_channel c tm = Some x" "get_channel c' tm = Some x'" "c \<noteq> c'" "c \<noteq> AGGREGATED_CHANNEL_ID" "c' \<noteq> AGGREGATED_CHANNEL_ID"
    for c c' x x'
  proof (cases "tm_allocator tm")
    case None
    then show ?thesis using inv assms(4) that(1) by (simp add: tm_inv_def get_channel_def sm_get_cloned_def)
  next
    case (Some a)
    then show ?thesis
      using inv that prefix_in_channel_prefixes [OF that(1), of lib] prefix_in_channel_prefixes [OF that(2), of lib]
      unfolding inv_Some [OF Some] prefixes_ok_def lib_channels(3) [OF assms(1)] by blast
  qed
  have "upstream_opens tm \<le> 1" using inv assms(4) by (simp add: tm_inv_def)
  with conn distinct inv_prefix_length [OF assms(1) inv] step_panics_iff [OF assms(1) inv] assms(3) show ?thesis
    by blast
qed

lemma demo_tproxy_lib_ok: "tproxy_lib_ok demo_tproxy_lib demo_live"
proof -
  have "allocator_ok demo_allocator_api demo_live"
    by (auto simp: allocator_ok_def demo_allocator_api_def demo_live_def le_bytes_inj less_Suc_eq split: if_splits)
  moreover have "client_channels_ok demo_extended_api (al_prefix_bytes demo_allocator_api)"
    by (auto simp: client_channels_ok_def keeps_identity_def demo_extended_api_def demo_allocator_api_def
        split: option.splits if_splits)
  ultimately show ?thesis by (simp add: tproxy_lib_ok_def)
qed

definition demo_start :: "tproxy_mode \<Rightarrow> (demo_channel, demo_group, demo_allocator) tproxy_manager" where
  "demo_start mode = snd (set_expected_payout_distribution None (tproxy_manager_new [] [] mode))"

definition demo_tokens :: loop_tokens where
  "demo_tokens = \<lparr>lt_cancelled = False, lt_fallback = False\<rparr>"

definition demo_turn :: "tm_event \<Rightarrow> (demo_channel, demo_group, demo_allocator) tproxy_manager
    \<Rightarrow> (demo_channel, demo_group, demo_allocator) tproxy_manager" where
  "demo_turn ev tm = snd (tm_step demo_tproxy_lib demo_tm_env demo_tokens ev tm)"

definition demo_request :: "u32 \<Rightarrow> tm_event" where
  "demo_request r = TmSv1 (Some (OpenExtendedMiningChannel (demo_open r), None))"

definition demo_answer :: "u32 \<Rightarrow> tm_event" where
  "demo_answer r = TmUpstream (Some \<lparr>uf_header = Some (0, mt_number sv2_message_types M_OPEN_EXTENDED_MINING_CHANNEL_SUCCESS),
     uf_parse_mining = (\<lambda>_. Ok (OpenExtendedMiningChannelSuccess (demo_open_success r) 8)),
     uf_parse_extensions = (\<lambda>_. Err TkTimeout)\<rparr>)"

text \<open>Two miners: the second one waits for the shared channel.\<close>

definition demo_shared :: "(demo_channel, demo_group, demo_allocator) tproxy_manager" where
  "demo_shared = demo_turn (demo_answer 1) (demo_turn (demo_request 2) (demo_turn (demo_request 1) (demo_start Aggregated)))"

lemmas demo_turn_defs = demo_turn_def demo_request_def demo_answer_def demo_open_def demo_open_success_def demo_tokens_def
  demo_tm_env_def tm_step_def tm_handle_event_def tm_handle_downstream_message_def handle_open_request_def Let_def
  c_bind_def c_get_def c_modify_def c_return_def c_fail_def t_try_def t_raise_def t_expect_def sm_clear_def
  open_upstream_def send_upstream_def send_sv1_def sm_get_cloned_def

lemma demo_requests:
  "demo_turn (demo_request 2) (demo_turn (demo_request 1) (demo_start Aggregated)) =
     (demo_start Aggregated)\<lparr>tm_aggregated_state := Pending,
       tm_pending_downstream_channels := [(1, ''alice.miner1'', 0, 4), (2, ''alice.miner1'', 0, 4)],
       tm_to_upstream := [UpMining (OpenExtendedMiningChannel
         \<lparr>oem_request_id = 1, oem_user_identity = ''alice.translator-proxy'', oem_nominal_hash_rate = 0,
          oem_max_target = replicate 32 255, oem_min_extranonce_size = 6\<rparr>)]\<rparr>"
  by (simp add: demo_turn_defs demo_start_def set_expected_payout_distribution_def tproxy_manager_new_def sm_new_def
      translator_identity_def AGGREGATED_TPROXY_LOCAL_PREFIX_BYTES_def AGGREGATED_TPROXY_MAX_CHANNELS_def demo_allocator_api_def)

lemma demo_answer_class: "protocol_message_type sv2_message_types 0 (mt_number sv2_message_types M_OPEN_EXTENDED_MINING_CHANNEL_SUCCESS) = TypeMining"
  by code_simp

definition demo_miner :: "channel_id \<Rightarrow> bytes \<times> nat option \<Rightarrow> u16 \<Rightarrow> demo_channel" where
  "demo_miner c p s = \<lparr>dch_id = c, dch_prefix = p, dch_target = target_from_le_bytes (replicate 32 255), dch_active = None,
     dch_future = [], dch_size = s\<rparr>"

lemma aggregated_id_distinct [simp]: "AGGREGATED_CHANNEL_ID \<noteq> 1" "AGGREGATED_CHANNEL_ID \<noteq> 2" "1 \<noteq> AGGREGATED_CHANNEL_ID"
  by (simp_all add: AGGREGATED_CHANNEL_ID_def)

lemma demo_bytes: "le_bytes 2 0 = [0, 0]" "le_bytes 2 (Suc 0) = [1, 0]" "le_bytes 2 1 = [1, 0]"
    "replicate 2 (0 :: u8) = [0, 0]" "Suc (Suc 0) = 2" "Suc (Suc 2) = 4"
  by (simp_all add: numeral_2_eq_2)

lemma demo_mint:
  "mint_prefix demo_tproxy_lib [1, 2, 3, 4] 8 4 AGGREGATED_TPROXY_MAX_CHANNELS =
     Ok (\<lparr>dal_upstream = [1, 2, 3, 4], dal_padding = [0, 0], dal_next = 1\<rparr>, ([1, 2, 3, 4, 0, 0, 0, 0], Some 4))"
  by (simp add: mint_prefix_def demo_allocator_api_def AGGREGATED_TPROXY_MAX_CHANNELS_def demo_bytes Let_def)

lemma demo_opened:
  assumes "tm_extended_channels tm = []"
  shows "opened_aggregated demo_tproxy_lib (demo_open_success 1) 8 u h 4 tm =
    (Ok (OpenExtendedMiningChannelSuccess ((demo_open_success 1)\<lparr>ocs_channel_id := 1, ocs_extranonce_prefix := [1, 2, 3, 4, 0, 0, 0, 0]\<rparr>) 4),
     tm\<lparr>tm_extended_channels := [(AGGREGATED_CHANNEL_ID, demo_miner 7 ([1, 2, 3, 4], None) 8),
          (1, demo_miner 1 ([1, 2, 3, 4, 0, 0, 0, 0], Some 4) 4)],
       tm_allocator := Some \<lparr>dal_upstream = [1, 2, 3, 4], dal_padding = [0, 0], dal_next = 1\<rparr>,
       tm_aggregated_state := Connected\<rparr>)"
proof -
  have "ocs_extranonce_prefix (demo_open_success 1) = [1, 2, 3, 4]" by (simp add: demo_open_success_def)
  then show ?thesis
    using assms demo_mint
    by (simp add: opened_aggregated_def AGGREGATED_TPROXY_LOCAL_PREFIX_BYTES_def AGGREGATED_TPROXY_MAX_CHANNELS_def c_bind_def
        t_try_def t_expect_def c_return_def c_modify_def Let_def insert_channel_def put_channel_def get_channel_def
        drop_channel_def sm_get_cloned_def success_for_sv1_def demo_miner_def demo_open_success_def demo_allocator_api_def
        demo_extended_api_def)
qed

lemma demo_second:
  assumes "tm_extended_channels tm = [(AGGREGATED_CHANNEL_ID, demo_miner 7 ([1, 2, 3, 4], None) 8),
          (1, demo_miner 1 ([1, 2, 3, 4, 0, 0, 0, 0], Some 4) 4)]"
    "tm_allocator tm = Some \<lparr>dal_upstream = [1, 2, 3, 4], dal_padding = [0, 0], dal_next = 1\<rparr>"
  shows "handle_downstream_channel_request_in_aggregated_mode demo_tproxy_lib demo_tm_env 2 u h 4 tm = (Ok (),
    tm\<lparr>tm_extended_channels := tm_extended_channels tm @ [(2, demo_miner 2 ([1, 2, 3, 4, 0, 0, 1, 0], Some 4) 4)],
       tm_allocator := Some \<lparr>dal_upstream = [1, 2, 3, 4], dal_padding = [0, 0], dal_next = 2\<rparr>,
       tm_to_sv1 := tm_to_sv1 tm @ [OpenExtendedMiningChannelSuccess \<lparr>ocs_request_id = 2, ocs_channel_id = 2,
          ocs_target = target_to_le_bytes (target_from_le_bytes (replicate 32 255)),
          ocs_extranonce_prefix = [1, 2, 3, 4, 0, 0, 1, 0], ocs_group_channel_id = 0\<rparr> 4]\<rparr>)"
  using assms
  by (simp add: handle_downstream_channel_request_in_aggregated_mode_def open_aggregated_channel_def tm_next_channel_id_def sm_keys_def
      initialize_channel_def change_channel_def sm_with_mut_def c_bind_def c_get_def t_expect_def c_return_def c_modify_def Let_def
      insert_channel_def put_channel_def get_channel_def drop_channel_def sm_get_cloned_def send_sv1_def demo_tm_env_def
      demo_miner_def demo_allocator_api_def demo_extended_api_def demo_bytes)

lemma demo_send: "send_sv1 demo_tm_env m tm = (Ok (), tm\<lparr>tm_to_sv1 := tm_to_sv1 tm @ [m]\<rparr>)"
  by (simp add: send_sv1_def demo_tm_env_def c_modify_def)

definition demo_miners :: "(channel_id, demo_channel) shared_map" where
  "demo_miners = [(AGGREGATED_CHANNEL_ID, demo_miner 7 ([1, 2, 3, 4], None) 8),
     (1, demo_miner 1 ([1, 2, 3, 4, 0, 0, 0, 0], Some 4) 4), (2, demo_miner 2 ([1, 2, 3, 4, 0, 0, 1, 0], Some 4) 4)]"

definition demo_is_shared :: "(demo_channel, demo_group, demo_allocator) tproxy_manager \<Rightarrow> bool" where
  "demo_is_shared tm \<longleftrightarrow> is_aggregated (tm_mode tm) \<and> tm_extended_channels tm = demo_miners \<and>
     tm_pending_downstream_channels tm = [] \<and> tm_to_sv1 tm \<noteq> [] \<and> map is_open_message (tm_to_upstream tm) = [True] \<and>
     tm_share_sequence_counters tm = [] \<and>
     tm_allocator tm = Some \<lparr>dal_upstream = [1, 2, 3, 4], dal_padding = [0, 0], dal_next = 2\<rparr>"

lemma demo_serve:
  assumes "tm_extended_channels tm = [(AGGREGATED_CHANNEL_ID, demo_miner 7 ([1, 2, 3, 4], None) 8),
          (1, demo_miner 1 ([1, 2, 3, 4, 0, 0, 0, 0], Some 4) 4)]"
    "tm_allocator tm = Some \<lparr>dal_upstream = [1, 2, 3, 4], dal_padding = [0, 0], dal_next = 1\<rparr>"
    "tm_pending_downstream_channels tm = [(2, u, h, 4)]" "is_aggregated (tm_mode tm)"
    "map is_open_message (tm_to_upstream tm) = [True]" "tm_share_sequence_counters tm = []"
  shows "fst (serve_pending demo_tproxy_lib demo_tm_env tm) = Ok () \<and>
    demo_is_shared (snd (serve_pending demo_tproxy_lib demo_tm_env tm))"
  using assms
  by (simp add: serve_pending_def c_bind_def c_get_def c_modify_def sm_clear_def demo_second c_return_def demo_is_shared_def
      demo_miners_def)

lemma demo_shared_step:
  "tm_step demo_tproxy_lib demo_tm_env demo_tokens (demo_answer 1)
     (demo_turn (demo_request 2) (demo_turn (demo_request 1) (demo_start Aggregated))) =
   (Ok (LoopContinue, demo_tokens), demo_shared)" (is ?step)
  "demo_is_shared demo_shared"
proof -
  let ?tm = "demo_turn (demo_request 2) (demo_turn (demo_request 1) (demo_start Aggregated))"
  let ?run = "handle_open_extended_mining_channel_success demo_tproxy_lib demo_tm_env (demo_open_success 1) 8 ?tm"
  have fields: "ocs_request_id (demo_open_success 1) = 1" "ocs_group_channel_id (demo_open_success 1) = 9"
    by (simp_all add: demo_open_success_def)
  have start: "tm_extended_channels (demo_start Aggregated) = []" "tm_mode (demo_start Aggregated) = Aggregated"
    "tm_group_channels (demo_start Aggregated) = []" "tm_share_sequence_counters (demo_start Aggregated) = []"
    by (simp_all add: demo_start_def set_expected_payout_distribution_def tproxy_manager_new_def sm_new_def)
  have run: "fst ?run = Ok () \<and> demo_is_shared (snd ?run)"
    unfolding demo_requests handle_open_extended_mining_channel_success_def
    by (simp add: c_bind_def [of "c_get _"] c_get_def c_bind_def [of "c_modify _"] c_modify_def fields sm_get_cloned_def sm_remove_def
        c_bind_def [of "join_group _ _ _ _"] join_group_def demo_group_api_def start get_group_def put_group_def Let_def
        c_bind_def [of "opened_aggregated _ _ _ _ _ _"] demo_opened c_bind_def [of "send_sv1 _ _"] demo_send demo_serve
        is_open_message_def)
  have "tm_handle_event demo_tproxy_lib demo_tm_env (demo_answer 1) ?tm = ?run"
    by (simp add: tm_handle_event_def demo_answer_def handle_upstream_frame_def demo_answer_class c_bind_def c_get_def t_try_def
        c_return_def tm_handle_mining_message_def)
  with run show ?step and "demo_is_shared demo_shared"
    by (cases ?run; simp add: demo_shared_def [unfolded demo_turn_def [of "demo_answer 1"]] tm_step_def demo_tokens_def)+
qed

lemma demo_shared_facts:
  "get_channel AGGREGATED_CHANNEL_ID demo_shared = Some (demo_miner 7 ([1, 2, 3, 4], None) 8)"
  "get_channel 1 demo_shared = Some (demo_miner 1 ([1, 2, 3, 4, 0, 0, 0, 0], Some 4) 4)"
  "get_channel 2 demo_shared = Some (demo_miner 2 ([1, 2, 3, 4, 0, 0, 1, 0], Some 4) 4)"
  "is_aggregated (tm_mode demo_shared)"
  "tm_allocator demo_shared = Some \<lparr>dal_upstream = [1, 2, 3, 4], dal_padding = [0, 0], dal_next = 2\<rparr>"
  "requests_room demo_shared" "tm_to_sv1 demo_shared \<noteq> []"
  using demo_shared_step(2)
  by (simp_all add: demo_is_shared_def demo_miners_def get_channel_def sm_get_cloned_def requests_room_def id_room_def sm_dom_def sm_keys_def)

lemma demo_steps:
  "tm_step demo_tproxy_lib demo_tm_env demo_tokens (demo_request 1) (demo_start Aggregated) =
     (Ok (LoopContinue, demo_tokens), demo_turn (demo_request 1) (demo_start Aggregated))"
  "tm_step demo_tproxy_lib demo_tm_env demo_tokens (demo_request 2) (demo_turn (demo_request 1) (demo_start Aggregated)) =
     (Ok (LoopContinue, demo_tokens), demo_turn (demo_request 2) (demo_turn (demo_request 1) (demo_start Aggregated)))"
  by (simp_all add: demo_turn_defs demo_start_def set_expected_payout_distribution_def tproxy_manager_new_def sm_new_def
      translator_identity_def AGGREGATED_TPROXY_LOCAL_PREFIX_BYTES_def AGGREGATED_TPROXY_MAX_CHANNELS_def demo_allocator_api_def)

lemma demo_rooms:
  "requests_room (demo_start Aggregated)" "requests_room (demo_turn (demo_request 1) (demo_start Aggregated))"
  "requests_room (demo_turn (demo_request 2) (demo_turn (demo_request 1) (demo_start Aggregated)))"
  by (simp_all add: demo_requests requests_room_def id_room_def demo_turn_defs demo_start_def
      set_expected_payout_distribution_def tproxy_manager_new_def sm_new_def
      translator_identity_def AGGREGATED_TPROXY_LOCAL_PREFIX_BYTES_def AGGREGATED_TPROXY_MAX_CHANNELS_def demo_allocator_api_def)

lemma demo_shared_reachable: "tm_reachable demo_tproxy_lib demo_tokens demo_shared"
proof -
  have "tm_reachable demo_tproxy_lib demo_tokens (demo_start Aggregated)"
    unfolding demo_tokens_def
    by (rule tm_reachable.start [of None "[]" "[]" Aggregated])
      (simp add: demo_start_def set_expected_payout_distribution_def tproxy_manager_new_def)
  note tm_reachable.turn [OF this demo_rooms(1) demo_steps(1)]
  note tm_reachable.turn [OF this demo_rooms(2) demo_steps(2)]
  then show ?thesis by (rule tm_reachable.turn [OF _ demo_rooms(3) demo_shared_step(1)])
qed

theorem translator_miners_disjoint_witness:
  "tproxy_lib_ok demo_tproxy_lib demo_live \<and> tm_reachable demo_tproxy_lib demo_tokens demo_shared \<and>
   upstream_opens demo_shared \<le> 1 \<and>
   get_channel 1 demo_shared = Some (demo_miner 1 ([1, 2, 3, 4, 0, 0, 0, 0], Some 4) 4) \<and>
   get_channel 2 demo_shared = Some (demo_miner 2 ([1, 2, 3, 4, 0, 0, 1, 0], Some 4) 4)"
proof -
  have "running demo_tokens" by (simp add: running_def demo_tokens_def)
  from translator_miners_disjoint [OF demo_tproxy_lib_ok demo_shared_reachable this demo_shared_facts(4)] show ?thesis
    using demo_tproxy_lib_ok demo_shared_reachable demo_shared_facts(2,3) by blast
qed

end
