(* ===== verification/Sv1_Loop.thy ===== *)
theory Sv1_Loop
  imports Sv1_Server
begin

text \<open>
  The SV1 server with the tasks of its connections: the reachable states of the event loops, the
  invariant they keep, and the absence of panics.
\<close>

section \<open>Invariant\<close>

text \<open>
  A keepalive job in a job list is a copy of a job of the same list with another id and time; the
  id leads back to the original, and the time stays within the consensus limit of a job with that
  id.
\<close>

definition keepalive_ok :: "notify list \<Rightarrow> notify \<Rightarrow> bool" where
  "keepalive_ok jobs j \<longleftrightarrow> (is_keepalive_job_id (nf_job_id j) \<longrightarrow>
     (\<exists>orig \<in> set jobs. \<exists>base \<in> set jobs.
        \<not> is_keepalive_job_id (nf_job_id orig) \<and>
        extract_original_job_id (nf_job_id j) = Some (nf_job_id orig) \<and>
        j = orig\<lparr>nf_job_id := nf_job_id j, nf_time := nf_time j\<rparr> \<and>
        nf_job_id base = nf_job_id orig \<and>
        nf_time j \<le> saturating_add (nf_time base) MAX_FUTURE_BLOCK_TIME))"

definition downstream_ok :: "downstream_id \<Rightarrow> 'j sv1_downstream \<Rightarrow> bool" where
  "downstream_ok d n \<longleftrightarrow> dn_downstream_id n = d \<and> dd_hashrate (dn_data n) \<noteq> None"

definition sv1_inv :: "downstream_difficulty_config \<Rightarrow> ('j, 'v) sv1_server \<Rightarrow> bool" where
  "sv1_inv cfg ss \<longleftrightarrow>
     sm_invar (ss_downstreams ss) \<and> sm_invar (ss_senders ss) \<and> sm_invar (ss_vardiff ss) \<and>
     sm_dom (ss_senders ss) = sm_dom (ss_downstreams ss) \<and>
     sm_dom (ss_vardiff ss) = (if vardiff_enabled ss then sm_dom (ss_downstreams ss) else {}) \<and>
     (\<forall>d \<in> sm_dom (ss_downstreams ss). d < ss_downstream_id_factory ss) \<and>
     (\<forall>d n. (d, n) \<in> set (ss_downstreams ss) \<longrightarrow> downstream_ok d n) \<and>
     (\<forall>c jobs. (c, jobs) \<in> set (ss_valid_sv1_jobs ss) \<longrightarrow> (\<forall>j \<in> set jobs. keepalive_ok jobs j)) \<and>
     ss_user_identity ss \<noteq> None \<and> ss_config ss = cfg"

lemma sv1_inv_frame [simp]:
  "sv1_inv cfg (ss\<lparr>ss_to_cm := a\<rparr>) = sv1_inv cfg ss"
  "sv1_inv cfg (ss\<lparr>ss_to_downstream := b\<rparr>) = sv1_inv cfg ss"
  "sv1_inv cfg (ss\<lparr>ss_sequence_counter := c\<rparr>) = sv1_inv cfg ss"
  "sv1_inv cfg (ss\<lparr>ss_miner_counter := c\<rparr>) = sv1_inv cfg ss"
  "sv1_inv cfg (ss\<lparr>ss_keepalive_job_id_counter := c\<rparr>) = sv1_inv cfg ss"
  "sv1_inv cfg (ss\<lparr>ss_request_id_factory := c\<rparr>) = sv1_inv cfg ss"
  "sv1_inv cfg (ss\<lparr>ss_request_id_to_downstream_id := e\<rparr>) = sv1_inv cfg ss"
  "sv1_inv cfg (ss\<lparr>ss_channel_id_to_downstream_id := f\<rparr>) = sv1_inv cfg ss"
  "sv1_inv cfg (ss\<lparr>ss_prevhashes := g\<rparr>) = sv1_inv cfg ss"
  "sv1_inv cfg (ss\<lparr>ss_pending_target_updates := h\<rparr>) = sv1_inv cfg ss"
  by (simp_all add: sv1_inv_def vardiff_enabled_def)

lemma set_update_subset: "set (AList.update k v m) \<subseteq> insert (k, v) (set m)"
  by (induction m) auto

lemma inv_insert_downstream:
  assumes "sv1_inv cfg ss" "d \<in> sm_dom (ss_downstreams ss)" "downstream_ok d n"
  shows "sv1_inv cfg (ss\<lparr>ss_downstreams := AList.update d n (ss_downstreams ss)\<rparr>)"
  using assms set_update_subset [of d n "ss_downstreams ss"]
  by (auto simp: sv1_inv_def vardiff_enabled_def insert_absorb)

lemma map_values_keys: "map fst (map (\<lambda>(k, v). (k, f k v)) m) = map fst m"
  by (induction m) auto

lemma sm_invar_map_values: "sm_invar (map (\<lambda>(k, v). (k, f k v)) m) = sm_invar m"
  by (simp only: sm_invar_def map_values_keys)

lemma sm_dom_map_values: "sm_dom (map (\<lambda>(k, v). (k, f k v)) m) = sm_dom m"
  by (simp only: sm_dom_def sm_keys_def map_values_keys)

lemma inv_map_downstreams:
  assumes "sv1_inv cfg ss" "\<And>d n. downstream_ok d n \<Longrightarrow> downstream_ok d (f d n)"
  shows "sv1_inv cfg (ss\<lparr>ss_downstreams := map (\<lambda>(d, n). (d, f d n)) (ss_downstreams ss)\<rparr>)"
  using assms by (auto simp: sv1_inv_def vardiff_enabled_def sm_invar_map_values sm_dom_map_values)

lemma downstream_okD: "sv1_inv cfg ss \<Longrightarrow> get_downstream d ss = Some n \<Longrightarrow> downstream_ok d n"
  by (auto simp: sv1_inv_def get_downstream_def sm_get_cloned_def dest: map_of_SomeD)

lemma get_downstream_dom: "get_downstream d ss = Some n \<Longrightarrow> d \<in> sm_dom (ss_downstreams ss)"
  by (simp add: get_downstream_def sm_get_cloned_def sm_dom_iff)

lemma inv_update_data:
  assumes "sv1_inv cfg ss" "\<And>data. dd_hashrate data \<noteq> None \<Longrightarrow> dd_hashrate (f data) \<noteq> None"
  shows "sv1_inv cfg (update_data d f ss)"
proof (cases "get_downstream d ss")
  case None
  then show ?thesis using assms by (simp add: update_data_def get_downstream_def sm_get_cloned_def sm_with_mut_def)
next
  case (Some n)
  have "downstream_ok d (on_data f n)"
    using assms(2) downstream_okD [OF assms(1) Some] by (simp add: downstream_ok_def on_data_def)
  then show ?thesis
    using inv_insert_downstream [OF assms(1) get_downstream_dom [OF Some]] Some
    by (simp add: update_data_def get_downstream_def sm_get_cloned_def sm_with_mut_def)
qed

section \<open>Computations that keep the invariant\<close>

definition keeps :: "downstream_difficulty_config \<Rightarrow> (('j, 'v) sv1_server, 'r) tcomp \<Rightarrow> bool" where
  "keeps cfg m \<longleftrightarrow> (\<forall>ss. sv1_inv cfg ss \<longrightarrow> c_wp m (\<lambda>_. sv1_inv cfg) (\<lambda>e s. e \<noteq> TpPanic \<and> sv1_inv cfg s) ss)"

named_theorems keeps_rules \<open>computations that keep the invariant and do not panic\<close>

lemma sv1_keeps_basic [keeps_rules]:
  "keeps cfg (c_return x)" "keeps cfg (c_get f)" "keeps cfg (t_raise e)" "keeps cfg (t_try r)"
  by (auto simp: keeps_def wp_rules split: sum.splits)

lemma sv1_keeps_bind [keeps_rules]: "keeps cfg m \<Longrightarrow> (\<And>x. keeps cfg (f x)) \<Longrightarrow> keeps cfg (c_bind m f)"
  unfolding keeps_def wp_bind by (blast intro: wp_mono)

lemma keeps_bind_get: "(\<And>ss. sv1_inv cfg ss \<Longrightarrow> keeps cfg (m (f ss))) \<Longrightarrow> keeps cfg (c_bind (c_get f) m)"
  by (simp add: keeps_def wp_rules)

lemma keeps_modify [keeps_rules]: "(\<And>ss. sv1_inv cfg ss \<Longrightarrow> sv1_inv cfg (g ss)) \<Longrightarrow> keeps cfg (c_modify g)"
  by (simp add: keeps_def wp_rules)

lemma keeps_for [keeps_rules]: "(\<And>x. x \<in> set xs \<Longrightarrow> keeps cfg (f x)) \<Longrightarrow> keeps cfg (t_for xs f)"
  unfolding keeps_def by (blast intro: wp_for)

lemma sv1_keeps_if [keeps_rules]: "(b \<Longrightarrow> keeps cfg m) \<Longrightarrow> (\<not> b \<Longrightarrow> keeps cfg n) \<Longrightarrow> keeps cfg (if b then m else n)"
  by simp

lemma keeps_option [keeps_rules]:
  "(x = None \<Longrightarrow> keeps cfg m) \<Longrightarrow> (\<And>y. x = Some y \<Longrightarrow> keeps cfg (f y)) \<Longrightarrow>
   keeps cfg (case x of None \<Rightarrow> m | Some y \<Rightarrow> f y)"
  by (cases x) auto

lemma keeps_sum [keeps_rules]:
  "(\<And>e. x = Inl e \<Longrightarrow> keeps cfg (g e)) \<Longrightarrow> (\<And>y. x = Inr y \<Longrightarrow> keeps cfg (f y)) \<Longrightarrow>
   keeps cfg (case x of Inl e \<Rightarrow> g e | Inr y \<Rightarrow> f y)"
  by (cases x) auto

lemma keeps_send [keeps_rules]:
  "keeps cfg (\<lambda>ss. let (sent, ss) = send_to_task env d m ss in (Ok sent, ss))"
  by (auto simp: keeps_def c_wp_def send_to_task_def)

lemma inv_sends [simp]:
  "sv1_inv cfg (send_to_task_quiet env d m ss) = sv1_inv cfg ss"
  "sv1_inv cfg (send_to_cm_quiet env c tlvs ss) = sv1_inv cfg ss"
  by (auto simp: send_to_task_quiet_def send_to_task_def send_to_cm_quiet_def)

lemma keeps_send_to_cm [keeps_rules]: "keeps cfg (send_to_cm env m tlvs)"
  by (auto simp: send_to_cm_def intro!: keeps_rules)

section \<open>Messages of the miners\<close>

lemma hashrate_kept [simp]:
  "dd_hashrate (set_pending_target t data) = dd_hashrate data"
  "dd_hashrate (set_pending_hashrate h data) = dd_hashrate data"
  "dd_hashrate (set_upstream_target t data) = dd_hashrate data"
  "dd_hashrate (set_upstream_difficulty t r data) = dd_hashrate data"
  "dd_hashrate (channel_opened m x e data) = dd_hashrate data"
  by (simp_all add: set_pending_target_def set_pending_hashrate_def set_upstream_target_def
      set_upstream_difficulty_def channel_opened_def Let_def split: option.splits)

lemma keeps_with_data [keeps_rules]:
  assumes "\<And>data. dd_hashrate data \<noteq> None \<Longrightarrow> dd_hashrate (snd (f data)) \<noteq> None"
  shows "keeps cfg (with_data d f)"
proof -
  have "sv1_inv cfg (update_data d (\<lambda>_. snd (f data)) ss)" if "sv1_inv cfg ss" "data_of d ss = Some data" for ss data
  proof (rule inv_update_data [OF that(1)])
    from that obtain n where n: "get_downstream d ss = Some n" "data = dn_data n"
      by (auto simp: data_of_def)
    then have "dd_hashrate data \<noteq> None" using downstream_okD [OF that(1) n(1)] by (simp add: downstream_ok_def)
    then show "dd_hashrate (snd (f data)) \<noteq> None" by (rule assms)
  qed
  then show ?thesis
    by (auto simp: keeps_def c_wp_def with_data_def case_prod_unfold Let_def split: option.splits)
qed

lemma keeps_read_data [keeps_rules]: "keeps cfg (read_data d f)"
  unfolding read_data_def by (rule keeps_with_data) simp

lemma keeps_answer [keeps_rules]: "keeps cfg m \<Longrightarrow> keeps cfg (answer f m)"
  unfolding answer_def by (intro keeps_rules)

lemma keeps_handle_submit [keeps_rules]: "keeps cfg (handle_submit lib d request)"
  by (auto simp: keeps_def c_wp_def handle_submit_def split: option.splits intro!: inv_update_data)

lemma keeps_is_authorized [keeps_rules]: "keeps cfg (is_authorized d name)"
  unfolding is_authorized_def by (rule keeps_rules)

lemma keeps_authorize [keeps_rules]: "keeps cfg (authorize d name)"
  unfolding authorize_def by (intro keeps_rules) auto

text \<open>The protocol crate accepts the negotiated version-rolling parameters.\<close>

definition sv1_lib_ok :: "('j, 'v) sv1_lib \<Rightarrow> bool" where
  "sv1_lib_ok lib \<longleftrightarrow> sv1_messages_ok lib \<and>
     (\<forall>p m c n. sl_build_notify lib p m c = Ok n \<longrightarrow> \<not> is_keepalive_job_id (nf_job_id n)) \<and>
     (\<forall>m b. m AND 0x1FFFE000 = m \<longrightarrow> sl_version_rolling_params_ok lib m b)"

lemma keeps_handle_configure [keeps_rules]:
  assumes "sv1_lib_ok lib"
  shows "keeps cfg (handle_configure lib d msk min_bit)"
proof -
  have "sl_version_rolling_params_ok lib (case map_option (\<lambda>m. m AND 0x1FFFE000) msk of None \<Rightarrow> 0 | Some x \<Rightarrow> x) b" for b
    using assms by (cases msk) (simp_all add: sv1_lib_ok_def and.assoc)
  then show ?thesis
    unfolding handle_configure_def Let_def by (simp only: if_True) (intro keeps_rules, auto)
qed

lemma keeps_is_server_step [keeps_rules]: "sv1_lib_ok lib \<Longrightarrow> keeps cfg (is_server_step lib d c)"
  by (cases c) (auto intro!: keeps_rules)

lemma keeps_run_dispatch [keeps_rules]: "sv1_lib_ok lib \<Longrightarrow> keeps cfg (run_dispatch lib d t)"
  by (induction t) (auto intro!: keeps_rules)

lemma keeps_run_on_downstream:
  assumes "\<And>n. downstream_ok d n \<Longrightarrow>
    c_wp m (\<lambda>_. downstream_ok d) (\<lambda>e n. e \<noteq> TpPanic \<and> downstream_ok d n) n"
  shows "keeps cfg (run_on_downstream d m :: (('j, 'v) sv1_server, 'r option) tcomp)"
  unfolding keeps_def
proof (intro allI impI)
  fix ss :: "('j, 'v) sv1_server"
  assume inv: "sv1_inv cfg ss"
  show "c_wp (run_on_downstream d m) (\<lambda>_. sv1_inv cfg) (\<lambda>e s. e \<noteq> TpPanic \<and> sv1_inv cfg s) ss"
  proof (cases "get_downstream d ss")
    case None
    then show ?thesis using inv by (simp add: c_wp_def run_on_downstream_def)
  next
    case (Some n)
    obtain r n' where mn: "m n = (r, n')" by (cases "m n")
    have ok: "downstream_ok d n'" "\<forall>e. r = Inl e \<longrightarrow> e \<noteq> TpPanic"
      using assms [OF downstream_okD [OF inv Some]] mn by (auto simp: c_wp_def split: sum.splits)
    show ?thesis
      using Some mn ok inv_insert_downstream [OF inv get_downstream_dom [OF Some] ok(1)]
      by (cases r) (simp_all add: c_wp_def run_on_downstream_def)
  qed
qed

lemma downstream_ok_simps [simp]:
  "downstream_ok d (n\<lparr>dn_to_miner := x\<rparr>) = downstream_ok d n"
  "downstream_ok d (n\<lparr>dn_to_server := y\<rparr>) = downstream_ok d n"
  "downstream_ok d (n\<lparr>dn_sv1_handshake_complete := b\<rparr>) = downstream_ok d n"
  by (simp_all add: downstream_ok_def)

lemma downstream_ok_on_data:
  "downstream_ok d n \<Longrightarrow> (dd_hashrate (dn_data n) \<noteq> None \<Longrightarrow> dd_hashrate (f (dn_data n)) \<noteq> None) \<Longrightarrow>
   downstream_ok d (on_data f n)"
  by (simp add: downstream_ok_def on_data_def)

definition dn_keeps :: "downstream_id \<Rightarrow> ('j sv1_downstream, 'r) tcomp \<Rightarrow> bool" where
  "dn_keeps d m \<longleftrightarrow> (\<forall>n. downstream_ok d n \<longrightarrow>
     c_wp m (\<lambda>_. downstream_ok d) (\<lambda>e n. e \<noteq> TpPanic \<and> downstream_ok d n) n)"

lemma dn_keeps_basic [keeps_rules]:
  "dn_keeps d (c_return x)" "dn_keeps d (c_get g)" "dn_keeps d (t_raise e)"
  by (auto simp: dn_keeps_def wp_rules)

lemma dn_keeps_bind [keeps_rules]: "dn_keeps d m \<Longrightarrow> (\<And>x. dn_keeps d (f x)) \<Longrightarrow> dn_keeps d (c_bind m f)"
  unfolding dn_keeps_def wp_bind by (blast intro: wp_mono)

lemma dn_keeps_modify [keeps_rules]:
  "(\<And>n. downstream_ok d n \<Longrightarrow> downstream_ok d (g n)) \<Longrightarrow> dn_keeps d (c_modify g)"
  by (simp add: dn_keeps_def wp_rules)

lemma dn_keeps_if [keeps_rules]:
  "(b \<Longrightarrow> dn_keeps d m) \<Longrightarrow> (\<not> b \<Longrightarrow> dn_keeps d n) \<Longrightarrow> dn_keeps d (if b then m else n)"
  by simp

lemma dn_keeps_option [keeps_rules]:
  "(x = None \<Longrightarrow> dn_keeps d m) \<Longrightarrow> (\<And>y. x = Some y \<Longrightarrow> dn_keeps d (f y)) \<Longrightarrow>
   dn_keeps d (case x of None \<Rightarrow> m | Some y \<Rightarrow> f y)"
  by (cases x) auto

lemma dn_keeps_send [keeps_rules]: "dn_keeps d (send_to_miner ok m)" "dn_keeps d (opt_send ok x)"
proof -
  show *: "dn_keeps d (send_to_miner ok m)" for m
    unfolding send_to_miner_def by (intro keeps_rules) simp
  show "dn_keeps d (opt_send ok x)"
    unfolding opt_send_def by (intro keeps_rules *)
qed

lemma dn_keeps_handshake [keeps_rules]: "dn_keeps d (handle_sv1_handshake_completion ok now)"
  unfolding handle_sv1_handshake_completion_def case_prod_unfold
  by (intro keeps_rules downstream_ok_on_data) (auto simp: apply_pending_def intro!: downstream_ok_on_data split: option.splits)

lemma keeps_run_dn [keeps_rules]: "dn_keeps d m \<Longrightarrow> keeps cfg (run_on_downstream d m)"
  by (rule keeps_run_on_downstream) (simp add: dn_keeps_def)

lemma keeps_process [keeps_rules]: "sv1_lib_ok lib \<Longrightarrow> keeps cfg (process_sv1_message lib env d message)"
  unfolding process_sv1_message_def by (intro keeps_rules)

section \<open>Shares and channels\<close>

lemma inv_vardiff_update:
  "sv1_inv cfg ss \<Longrightarrow> sv1_inv cfg (ss\<lparr>ss_vardiff := snd (sm_with_mut (ss_vardiff ss) d f)\<rparr>)"
  using sm_with_mut_keys [of "ss_vardiff ss" d f]
  by (simp add: sv1_inv_def vardiff_enabled_def sm_dom_def sm_keys_def)

lemma inv_vardiff_insert:
  assumes "sv1_inv cfg ss" "d \<in> sm_dom (ss_vardiff ss)"
  shows "sv1_inv cfg (ss\<lparr>ss_vardiff := AList.update d v (ss_vardiff ss)\<rparr>)"
  using assms by (auto simp: sv1_inv_def vardiff_enabled_def insert_absorb)

lemma keeps_handle_submit_shares [keeps_rules]: "keeps cfg (handle_submit_shares lib env message)"
  unfolding handle_submit_shares_def Let_def
  by (intro keeps_rules) (auto intro: inv_vardiff_update)

text \<open>The configured hash rate and share rate give a target.\<close>

definition config_target :: "('j, 'v) sv1_lib \<Rightarrow> downstream_difficulty_config \<Rightarrow> (target, string) result" where
  "config_target lib cfg = sl_hash_rate_to_target lib
     (f32_as_f64 (dc_min_individual_miner_hashrate cfg)) (f32_as_f64 (dc_shares_per_minute cfg))"

lemma keeps_expect: "x \<noteq> None \<Longrightarrow> keeps cfg (t_expect x)"
  by (auto simp: keeps_def wp_rules)

lemma inv_identity_config: "sv1_inv cfg ss \<Longrightarrow> ss_user_identity ss \<noteq> None" "sv1_inv cfg ss \<Longrightarrow> ss_config ss = cfg"
  by (simp_all add: sv1_inv_def)

lemma keeps_open_channel [keeps_rules]:
  assumes "is_ok (config_target lib cfg)"
  shows "keeps cfg (open_extended_mining_channel lib env request_id d)"
  unfolding open_extended_mining_channel_def
  apply (rule keeps_bind_get)
  subgoal for ss
    unfolding id_apply Let_def
    by (intro keeps_rules keeps_expect inv_identity_config(1) inv_update_data)
      (use assms in \<open>auto simp: is_ok_def config_target_def inv_identity_config(2) split: sum.splits\<close>)
  done

lemma keeps_open_request [keeps_rules]:
  "is_ok (config_target lib cfg) \<Longrightarrow> keeps cfg (handle_open_channel_request lib env d)"
  unfolding handle_open_channel_request_def by (intro keeps_rules) simp_all

lemma keeps_miner_message [keeps_rules]:
  "sv1_lib_ok lib \<Longrightarrow> is_ok (config_target lib cfg) \<Longrightarrow> keeps cfg (sv1_handle_downstream_message lib env received)"
  unfolding sv1_handle_downstream_message_def
  by (cases received) (auto intro!: keeps_rules inv_update_data)

section \<open>Difficulty\<close>

lemma data_hashrate: "sv1_inv cfg ss \<Longrightarrow> data_of d ss = Some data \<Longrightarrow> dd_hashrate data \<noteq> None"
  by (auto simp: data_of_def downstream_ok_def dest: downstream_okD)

lemma keeps_at: "keeps cfg m \<Longrightarrow> sv1_inv cfg ss \<Longrightarrow> c_wp m (\<lambda>_. sv1_inv cfg) (\<lambda>e s. e \<noteq> TpPanic \<and> sv1_inv cfg s) ss"
  by (simp add: keeps_def)

lemma keeps_vardiff_outcome [keeps_rules]: "keeps cfg (vardiff_outcome lib d upd u c spm r)"
  unfolding vardiff_outcome_def vardiff_new_target_def Let_def
  by (intro keeps_rules inv_update_data) auto

lemma keeps_vardiff_one [keeps_rules]: "keeps cfg (vardiff_update_one lib d upd)"
  unfolding keeps_def vardiff_update_one_def wp_bind wp_generic id_apply
proof (intro allI impI)
  fix ss :: "('a, 'b) sv1_server"
  assume inv: "sv1_inv cfg ss"
  have "sv1_inv cfg (ss\<lparr>ss_vardiff := AList.update d v (ss_vardiff ss)\<rparr>)"
    if "sm_get_cloned (ss_vardiff ss) d = Some w" for v w
    using that by (intro inv_vardiff_insert inv) (simp add: sm_get_cloned_def sm_dom_iff)
  with inv show "c_wp (case (data_of d ss, sm_get_cloned (ss_vardiff ss) d) of
       (Some data, Some vardiff) \<Rightarrow>
        c_bind (t_expect (dd_hashrate data)) (\<lambda>hashrate. case dd_channel_id data of
          None \<Rightarrow> c_return upd
        | Some channel_id \<Rightarrow>
           (let shares_per_minute = dc_shares_per_minute (ss_config ss);
                (new_hashrate_opt, vardiff') = vd_try_vardiff (sl_vardiff lib) hashrate
                   (target_to_le_bytes (dd_target data)) shares_per_minute vardiff in
            c_bind (c_modify (\<lambda>ss. ss\<lparr>ss_vardiff := snd (sm_insert d vardiff' (ss_vardiff ss))\<rparr>)) (\<lambda>_.
            vardiff_outcome lib d upd (dd_upstream_target data) channel_id shares_per_minute new_hashrate_opt)))
     | _ \<Rightarrow> c_return upd) (\<lambda>_. sv1_inv cfg) (\<lambda>e s. e \<noteq> TpPanic \<and> sv1_inv cfg s) ss"
    using data_hashrate [OF inv, of d]
    by (auto simp: wp_rules Let_def case_prod_unfold intro!: keeps_at keeps_vardiff_outcome split: option.splits)
qed

lemma keeps_vardiff_loop [keeps_rules]: "keeps cfg (vardiff_loop lib ds upd)"
  by (induction ds arbitrary: upd) (auto intro!: keeps_rules)

lemma effective_hashrate_None:
  "effective_hashrate data = None \<longleftrightarrow> dd_pending_hashrate data = None \<and> dd_hashrate data = None"
  by (auto simp: effective_hashrate_def split: option.splits)

lemma aggregate_some:
  assumes "\<And>d n. (d, n) \<in> set ns \<Longrightarrow> dd_hashrate (dn_data n) \<noteq> None" "ns \<noteq> [] \<or> t \<noteq> None"
  shows "\<exists>mt h'. aggregate_loop ns t h = Some (Some mt, h')"
  using assms
proof (induction ns arbitrary: t h)
  case (Cons x ns)
  obtain d n where x: "x = (d, n)" by (cases x)
  then obtain y where "effective_hashrate (dn_data n) = Some y"
    using Cons.prems(1) [of d n] effective_hashrate_None [of "dn_data n"] by auto
  moreover have "\<And>d n. (d, n) \<in> set ns \<Longrightarrow> dd_hashrate (dn_data n) \<noteq> None"
    using Cons.prems(1) by (meson list.set_intros(2))
  ultimately show ?case using x Cons.IH by simp
qed auto

lemma inv_aggregate:
  assumes "sv1_inv cfg ss" "ss_downstreams ss \<noteq> []"
  obtains mt h where "aggregate_loop (ss_downstreams ss) None 0 = Some (Some mt, h)"
  using aggregate_some [of "ss_downstreams ss" None 0] assms
  by (auto simp: sv1_inv_def downstream_ok_def simp del: not_None_eq)

lemma keeps_send_aggregate:
  assumes "sv1_inv cfg ss" "ss_downstreams ss \<noteq> []"
  shows "keeps cfg (c_bind (t_expect (aggregate_loop (ss_downstreams ss) None 0)) (\<lambda>(mt, h).
      c_bind (t_expect mt) (\<lambda>mt. c_modify (send_to_cm_quiet env (f mt h) None))))"
proof -
  obtain mt h where "aggregate_loop (ss_downstreams ss) None 0 = Some (Some mt, h)"
    using inv_aggregate [OF assms] .
  then show ?thesis by (simp add: keeps_def wp_rules)
qed

lemma keeps_send_aggregated [keeps_rules]: "keeps cfg (send_aggregated_update_channel env upds)"
proof (cases upds)
  case (Cons u us)
  then show ?thesis
    unfolding send_aggregated_update_channel_def
    by (cases u) (auto intro!: keeps_bind_get sv1_keeps_if keeps_send_aggregate sv1_keeps_basic)
qed (simp add: send_aggregated_update_channel_def sv1_keeps_basic)

lemma inv_foldl: "sv1_inv cfg ss \<Longrightarrow> (\<And>x ss. sv1_inv cfg ss \<Longrightarrow> sv1_inv cfg (f ss x)) \<Longrightarrow> sv1_inv cfg (foldl f ss xs)"
  by (induction xs arbitrary: ss) auto

lemma inv_set_difficulty [simp]: "sv1_inv cfg (send_set_difficulty_quiet lib env d t ss) = sv1_inv cfg ss"
  by (simp add: send_set_difficulty_quiet_def split: sum.splits)

lemma keeps_send_update_channels [keeps_rules]: "keeps cfg (send_update_channel_messages env upds)"
  unfolding send_update_channel_messages_def send_non_aggregated_update_channels_def
  by (intro keeps_rules inv_foldl) (auto split: prod.splits)

lemma keeps_vardiff [keeps_rules]: "keeps cfg (handle_vardiff_updates lib env)"
  unfolding handle_vardiff_updates_def case_prod_unfold
  by (intro keeps_rules inv_foldl) auto

lemma inv_pending_updates:
  "sv1_inv cfg ss \<Longrightarrow> sv1_inv cfg (snd (get_pending_difficulty_updates t d ss))"
  by (simp add: get_pending_difficulty_updates_def)

lemma inv_send_pending: "sv1_inv cfg ss \<Longrightarrow> sv1_inv cfg (send_pending_set_difficulty_messages lib env us ss)"
  unfolding send_pending_set_difficulty_messages_def by (erule inv_foldl) simp

lemma inv_set_target: "sv1_inv cfg ss \<Longrightarrow> sv1_inv cfg (handle_set_target_message lib env c b ss)"
  unfolding handle_set_target_message_def handle_aggregated_set_target_def handle_non_aggregated_set_target_def
    Let_def case_prod_unfold
  by (auto split: option.splits
      intro!: inv_send_pending inv_pending_updates inv_update_data
        inv_map_downstreams [unfolded case_prod_unfold] downstream_ok_on_data)

lemma keeps_state_change [keeps_rules]: "keeps cfg (send_update_channel_on_downstream_state_change env)"
  unfolding send_update_channel_on_downstream_state_change_def
  by (auto intro!: keeps_bind_get sv1_keeps_if keeps_send_aggregate sv1_keeps_basic keeps_modify)

lemma keeps_send_set_difficulty [keeps_rules]: "keeps cfg (send_set_difficulty lib env t d)"
  unfolding send_set_difficulty_def by (intro keeps_rules)

lemma keeps_set_target_without_vardiff [keeps_rules]:
  "keeps cfg (handle_set_target_without_vardiff lib env c b)"
  unfolding handle_set_target_without_vardiff_def send_set_difficulty_to_all_downstreams_def
    send_set_difficulty_to_specific_downstream_def Let_def
  by (intro keeps_rules inv_map_downstreams inv_update_data) (auto intro: downstream_ok_on_data)

section \<open>Messages of the channel manager\<close>

lemma keeps_open_success [keeps_rules]:
  "sv1_lib_ok lib \<Longrightarrow> keeps cfg (handle_open_success lib env t m x)"
  unfolding handle_open_success_def
  by (intro keeps_rules) (auto intro: inv_update_data)

lemma keepalive_ok_append: "keepalive_ok jobs j \<Longrightarrow> keepalive_ok (jobs @ [x]) j"
  unfolding keepalive_ok_def by auto

lemma inv_job_lists:
  assumes "sv1_inv cfg ss" "\<And>jobs. (\<forall>j \<in> set jobs. keepalive_ok jobs j) \<Longrightarrow> (\<forall>j \<in> set (f jobs). keepalive_ok (f jobs) j)"
  shows "sv1_inv cfg (ss\<lparr>ss_valid_sv1_jobs := snd (sm_with_mut_or_insert_with (ss_valid_sv1_jobs ss) c []
      (\<lambda>jobs. ((), f jobs)))\<rparr>)"
proof -
  let ?jobs = "case map_of (ss_valid_sv1_jobs ss) c of None \<Rightarrow> [] | Some v \<Rightarrow> v"
  have "\<forall>j \<in> set ?jobs. keepalive_ok ?jobs j"
    using assms(1) by (auto simp: sv1_inv_def split: option.splits dest!: map_of_SomeD)
  then have "\<forall>j \<in> set (f ?jobs). keepalive_ok (f ?jobs) j" by (rule assms(2))
  then show ?thesis
    using assms(1) set_update_subset [of c "f ?jobs" "ss_valid_sv1_jobs ss"]
    by (fastforce simp: sv1_inv_def vardiff_enabled_def sm_with_mut_or_insert_with_def)
qed

lemma store_job_ok:
  "\<forall>j \<in> set jobs. keepalive_ok jobs j \<Longrightarrow> \<not> is_keepalive_job_id (nf_job_id job) \<Longrightarrow>
   j \<in> set (store_job clean job jobs) \<Longrightarrow> keepalive_ok (store_job clean job jobs) j"
  by (auto simp: store_job_def keepalive_ok_append) (auto simp: keepalive_ok_def)

lemma inv_send_to_channel: "sv1_inv cfg ss \<Longrightarrow> sv1_inv cfg (send_to_channel env c m ss)"
  by (auto simp: send_to_channel_def split: option.splits intro!: inv_foldl)

lemma keeps_new_job [keeps_rules]:
  assumes "sv1_lib_ok lib"
  shows "keeps cfg (handle_new_job lib env m)"
proof -
  have "\<not> is_keepalive_job_id (nf_job_id n)" if "sl_build_notify lib p m c = Inr n" for p c n
    using assms that by (auto simp: sv1_lib_ok_def)
  then show ?thesis
    unfolding handle_new_job_def Let_def keeps_def
    by (auto simp: wp_rules map_err_def split: option.splits sum.splits
        intro!: inv_send_to_channel inv_job_lists store_job_ok)
qed

text \<open>The channel manager hands the server only these messages.\<close>

definition sv1_upstream_ok :: "mining option \<Rightarrow> bool" where
  "sv1_upstream_ok received = (case received of
     None \<Rightarrow> True
   | Some m \<Rightarrow> (case m of
       OpenExtendedMiningChannelSuccess _ _ \<Rightarrow> True | NewExtendedMiningJob _ \<Rightarrow> True
     | SetNewPrevHash _ \<Rightarrow> True | SetTarget _ _ \<Rightarrow> True | _ \<Rightarrow> False))"

lemma keeps_upstream [keeps_rules]:
  "sv1_lib_ok lib \<Longrightarrow> sv1_upstream_ok received \<Longrightarrow> keeps cfg (sv1_handle_upstream_message lib env t received)"
  unfolding sv1_handle_upstream_message_def sv1_upstream_ok_def
  by (auto split: option.splits mining.splits intro!: keeps_rules inv_set_target)

section \<open>Connections\<close>

lemma keeps_accept [keeps_rules]: "vardiff \<noteq> None \<Longrightarrow> keeps cfg (sv1_accept first_target vardiff)"
proof (elim not_None_eq [THEN iffD1, THEN exE])
  fix v
  assume "vardiff = Some v"
  moreover have "downstream_ok d (sv1_downstream_new d t (Some h) :: 'j sv1_downstream)" for d t h
    by (simp add: downstream_ok_def sv1_downstream_new_def downstream_data_new_def)
  ultimately show ?thesis
    unfolding sv1_accept_def keeps_def
    by (auto simp: wp_rules sv1_inv_def vardiff_enabled_def dest!: set_mp [OF set_update_subset]
        intro: less_SucI)
qed

lemma set_delete_subset: "set (AList.delete k m) \<subseteq> set m"
  by (induction m) auto

text \<open>The state after a connection's entries are removed.\<close>

definition without_downstream :: "downstream_id \<Rightarrow> ('j, 'v) sv1_server \<Rightarrow> ('j, 'v) sv1_server" where
  "without_downstream d ss =
     ss\<lparr>ss_vardiff := (if vardiff_enabled ss then AList.delete d (ss_vardiff ss) else ss_vardiff ss),
        ss_senders := AList.delete d (ss_senders ss), ss_downstreams := AList.delete d (ss_downstreams ss)\<rparr>"

lemma inv_without_downstream: "sv1_inv cfg ss \<Longrightarrow> sv1_inv cfg (without_downstream d ss)"
  using set_delete_subset [of d "ss_downstreams ss"]
  by (auto simp: sv1_inv_def vardiff_enabled_def without_downstream_def)

lemma keeps_announce [keeps_rules]: "keeps cfg (announce_disconnect env data)"
  unfolding announce_disconnect_def by (intro keeps_rules) simp

lemma disconnect_eq:
  "handle_downstream_disconnect env d ss =
     (case data_of d ss of
        None \<Rightarrow> (Ok (), without_downstream d ss)
      | Some data \<Rightarrow> announce_disconnect env data (without_downstream d ss))"
  by (auto simp: handle_downstream_disconnect_def without_downstream_def c_bind_def c_modify_def c_get_def
      c_return_def data_of_def get_downstream_def vardiff_enabled_def split: option.splits)

lemma wp_disconnect:
  "c_wp (handle_downstream_disconnect env d) Q E ss =
     (case data_of d ss of
        None \<Rightarrow> Q () (without_downstream d ss)
      | Some data \<Rightarrow> c_wp (announce_disconnect env data) Q E (without_downstream d ss))"
  by (simp add: c_wp_def disconnect_eq split: option.splits)

lemma keeps_disconnect [keeps_rules]: "keeps cfg (handle_downstream_disconnect env d)"
  unfolding keeps_def wp_disconnect
  by (auto intro!: inv_without_downstream keeps_at [OF keeps_announce] split: option.splits)

section \<open>Keepalive jobs\<close>

lemma keepalive_time_le: "keepalive_time i b l \<le> saturating_add b MAX_FUTURE_BLOCK_TIME"
  by (simp add: keepalive_time_def)

lemma keepalive_job_ok:
  assumes ok: "\<forall>j \<in> set jobs. keepalive_ok jobs j" and jobs: "jobs \<noteq> []"
    and orig: "original = (case extract_original_job_id (nf_job_id (List.last jobs)) of
                 None \<Rightarrow> nf_job_id (List.last jobs) | Some j \<Rightarrow> j)"
    and time: "t \<le> saturating_add (case find (\<lambda>j. nf_job_id j = original) jobs of
                 None \<Rightarrow> nf_time (List.last jobs) | Some j \<Rightarrow> nf_time j) MAX_FUTURE_BLOCK_TIME"
  shows "keepalive_ok (jobs @ [x]) ((List.last jobs)\<lparr>nf_job_id := keepalive_job_id original c, nf_time := t\<rparr>)"
proof -
  let ?last = "List.last jobs"
  have last: "?last \<in> set jobs" using jobs by simp
  obtain o' where o': "o' \<in> set jobs" "\<not> is_keepalive_job_id (nf_job_id o')" "nf_job_id o' = original"
      "?last = o'\<lparr>nf_job_id := nf_job_id ?last, nf_time := nf_time ?last\<rparr>"
  proof (cases "is_keepalive_job_id (nf_job_id ?last)")
    case True
    with ok last show ?thesis
      unfolding keepalive_ok_def using orig that by (metis option.simps(5))
  next
    case False
    then have "original = nf_job_id ?last"
      using orig by (simp add: keepalive_iff_extract)
    with False last show ?thesis by (intro that [of ?last]) auto
  qed
  then have "find (\<lambda>j. nf_job_id j = original) jobs \<noteq> None" by (auto simp: find_None_iff)
  then obtain b where b: "find (\<lambda>j. nf_job_id j = original) jobs = Some b" by blast
  then have "b \<in> set jobs" "nf_job_id b = original" by (auto simp: find_Some_iff)
  moreover have "extract_original_job_id (keepalive_job_id original c) = Some original"
    using o' by (auto intro: extract_keepalive_job_id)
  moreover have "?last\<lparr>nf_job_id := i, nf_time := s\<rparr> = o'\<lparr>nf_job_id := i, nf_time := s\<rparr>" for i s
    by (subst o'(4)) simp
  ultimately show ?thesis
    using o'(1,2,3) b time unfolding keepalive_ok_def
    by (intro impI bexI [of _ o'] bexI [of _ b]) auto
qed

lemma inv_push_job:
  assumes "sv1_inv cfg ss" "ss_valid_sv1_jobs ss = m"
    and "\<And>jobs. sm_get_cloned m c = Some jobs \<Longrightarrow> keepalive_ok (jobs @ [job]) job"
  shows "sv1_inv cfg (ss\<lparr>ss_valid_sv1_jobs := snd (sm_with_mut m c (\<lambda>jobs. ((), jobs @ [job])))\<rparr>)"
proof (cases "map_of m c")
  case None
  then show ?thesis using assms(1,2) by (auto simp: sm_with_mut_def)
next
  case (Some jobs)
  then have "\<forall>j \<in> set (jobs @ [job]). keepalive_ok (jobs @ [job]) j"
    using assms by (auto simp: sv1_inv_def sm_get_cloned_def intro!: keepalive_ok_append dest!: map_of_SomeD)
  then show ?thesis
    using assms(1,2) Some set_update_subset [of c "jobs @ [job]" m]
    by (fastforce simp: sv1_inv_def vardiff_enabled_def sm_with_mut_def)
qed

lemma inv_keepalive_job:
  assumes inv: "sv1_inv cfg ss"
  shows "sv1_inv cfg (snd (make_keepalive_job channel_id ss))"
proof (cases "job_list_channel ss channel_id")
  case None
  then show ?thesis using inv by (simp add: make_keepalive_job_def get_last_job_def channel_jobs_def)
next
  case (Some c)
  show ?thesis
  proof (cases "sm_get_cloned (ss_valid_sv1_jobs ss) c")
    case None
    then show ?thesis using inv Some by (simp add: make_keepalive_job_def get_last_job_def channel_jobs_def)
  next
    case jobs: (Some jobs)
    have ok: "\<forall>j \<in> set jobs. keepalive_ok jobs j"
      using inv jobs by (auto simp: sv1_inv_def sm_get_cloned_def dest!: map_of_SomeD)
    have chan: "job_list_channel (ss\<lparr>ss_keepalive_job_id_counter := n\<rparr>) channel_id = Some c" for n
      using Some by (simp add: job_list_channel_def)
    show ?thesis
      using inv Some jobs chan
      by (auto simp: make_keepalive_job_def get_last_job_def get_original_job_def channel_jobs_def Let_def
          intro!: inv_push_job keepalive_job_ok [OF ok _ refl] keepalive_time_le)
  qed
qed

lemma inv_send_keepalive:
  assumes "sv1_inv cfg ss"
  shows "sv1_inv cfg (send_keepalive lib env tgt ss)"
proof -
  obtain d c where tgt: "tgt = (d, c)" by (cases tgt)
  obtain j ss' where mk: "make_keepalive_job c ss = (j, ss')" by (cases "make_keepalive_job c ss")
  then have "sv1_inv cfg ss'" using inv_keepalive_job [OF assms, of c] by simp
  then show ?thesis
    by (auto simp: send_keepalive_def tgt mk send_to_task_def intro: inv_update_data split: option.splits)
qed

lemma inv_keepalive_round: "sv1_inv cfg ss \<Longrightarrow> sv1_inv cfg (job_keepalive_round lib env ss)"
  unfolding job_keepalive_round_def Let_def by (erule inv_foldl) (rule inv_send_keepalive)

section \<open>Reachable states\<close>

definition sv1_event_ok :: "('j, 'v) sv1_event \<Rightarrow> bool" where
  "sv1_event_ok ev = (case ev of
     SvAccept vardiff \<Rightarrow> vardiff \<noteq> None | SvUpstream received \<Rightarrow> sv1_upstream_ok received | _ \<Rightarrow> True)"

text \<open>The messages the server hands to a task can be read back when they are jobs.\<close>

definition task_event_ok :: "('j, 'v) sv1_lib \<Rightarrow> 'j task_event \<Rightarrow> bool" where
  "task_event_ok lib ev = (case ev of
     TaskServer (Some (Notification method p)) \<Rightarrow>
       method = ''mining.notify'' \<longrightarrow> sl_notify_try_from lib method p \<noteq> None
   | _ \<Rightarrow> True)"

inductive sv1_reachable ::
  "('j, 'v) sv1_lib \<Rightarrow> downstream_difficulty_config \<Rightarrow> u16 \<Rightarrow> tproxy_mode \<Rightarrow> target
    \<Rightarrow> ('j, 'v) sv1_server \<Rightarrow> loop_tokens \<Rightarrow> bool"
  for lib cfg x mode t0 where
  start: "sv1_reachable lib cfg x mode t0 ((sv1_server_new cfg x mode)\<lparr>ss_user_identity := Some u\<rparr>)
      \<lparr>lt_cancelled = False, lt_fallback = False\<rparr>"
| server: "sv1_reachable lib cfg x mode t0 ss tok \<Longrightarrow> sv1_event_ok ev \<Longrightarrow>
     sv1_step lib env t0 tok ev ss = (Ok (control, tok'), ss') \<Longrightarrow>
     sv1_reachable lib cfg x mode t0 ss' tok'"
| task: "sv1_reachable lib cfg x mode t0 ss tok \<Longrightarrow> task_event_ok lib ev \<Longrightarrow>
     task_step lib env d tok ev ss = (Ok (control, tok'), ss') \<Longrightarrow>
     sv1_reachable lib cfg x mode t0 ss' tok'"

lemma keeps_handle_event [keeps_rules]:
  assumes "sv1_lib_ok lib" "is_ok (config_target lib cfg)" "sv1_event_ok ev"
  shows "keeps cfg (sv1_handle_event lib env t0 ev)"
  using assms unfolding sv1_handle_event_def sv1_event_ok_def
  by (cases ev) (auto intro!: keeps_rules inv_keepalive_round simp del: not_None_eq)

lemma inv_cleanup: "sv1_inv cfg ss \<Longrightarrow> sv1_inv cfg (sv1_cleanup ss)"
  by (auto simp: sv1_inv_def sv1_cleanup_def vardiff_enabled_def sm_clear_def)

lemma keeps_error_action [keeps_rules]: "keeps cfg (sv1_handle_error_action env e tok)"
  unfolding sv1_handle_error_action_def
  by (cases "te_action e") (auto intro!: keeps_rules)

text \<open>A computation whose error is handled: \<open>match r { Err(e) => ... }\<close> around a handler.\<close>

lemma keeps_catch:
  fixes m :: "(('j, 'v) sv1_server, 'a) tcomp"
  assumes "keeps cfg m" "\<And>e. keeps cfg (h e)"
  shows "keeps cfg (\<lambda>ss. case m ss of (Inr _, ss) \<Rightarrow> (Ok y, ss) | (Inl TpPanic, ss) \<Rightarrow> (Err TpPanic, ss)
      | (Inl (TpRaised e), ss) \<Rightarrow> h e ss)"
  unfolding keeps_def
proof (intro allI impI)
  fix ss :: "('j, 'v) sv1_server"
  assume inv: "sv1_inv cfg ss"
  obtain r ss' where m: "m ss = (r, ss')" by (cases "m ss")
  have ok: "r \<noteq> Inl TpPanic" "sv1_inv cfg ss'"
    using keeps_at [OF assms(1) inv] m by (auto simp: c_wp_def split: sum.splits)
  show "c_wp (\<lambda>ss. case m ss of (Inr _, ss) \<Rightarrow> (Ok y, ss) | (Inl TpPanic, ss) \<Rightarrow> (Err TpPanic, ss)
      | (Inl (TpRaised e), ss) \<Rightarrow> h e ss) (\<lambda>_. sv1_inv cfg) (\<lambda>e s. e \<noteq> TpPanic \<and> sv1_inv cfg s) ss"
    using m ok keeps_at [OF assms(2) ok(2)]
    by (cases r) (auto simp: c_wp_def split: tp_fault.splits)
qed

lemma keeps_sv1_step:
  assumes "sv1_lib_ok lib" "is_ok (config_target lib cfg)" "sv1_event_ok ev"
  shows "keeps cfg (sv1_step lib env t0 tok ev)"
  unfolding sv1_step_def case_prod_unfold
  by (intro sv1_keeps_if keeps_catch [unfolded case_prod_unfold] sv1_keeps_bind keeps_rules assms inv_cleanup)

lemma dn_keeps_task:
  assumes "task_event_ok lib ev"
  shows "dn_keeps d (task_handle_event lib env ev)"
proof -
  have prep: "dn_keeps d (\<lambda>n. let (r, data) = prepare_notify now nf (dn_data n) in (Ok r, n\<lparr>dn_data := data\<rparr>))" for now nf
    by (auto simp: dn_keeps_def c_wp_def prepare_notify_def Let_def downstream_ok_def apply_pending_def
        split: option.splits)
  have exp: "dn_keeps d (c_bind (t_expect y) f)" if "y \<noteq> None" "\<And>x. dn_keeps d (f x)" for y f
    using that by (auto simp: dn_keeps_def wp_rules)
  show ?thesis
    using assms unfolding task_handle_event_def handle_sv1_server_message_def forward_miner_message_def task_event_ok_def
    by (auto intro!: keeps_rules prep exp downstream_ok_on_data simp: case_prod_unfold
        split: task_event.splits option.splits json_message.splits)
qed

lemma keeps_task_on_error: "keeps cfg (task_on_error env d tok e)"
  unfolding task_on_error_def by (auto intro!: keeps_rules split: prod.splits loop_control.splits)

lemma keeps_task_step:
  assumes "task_event_ok lib ev"
  shows "keeps cfg (task_step lib env d tok ev)"
  unfolding task_step_def
  by (intro sv1_keeps_if keeps_catch keeps_task_on_error sv1_keeps_bind keeps_rules dn_keeps_task assms)

lemma sv1_reachable_inv:
  assumes "sv1_reachable lib cfg x mode t0 ss tok" "sv1_lib_ok lib" "is_ok (config_target lib cfg)"
  shows "sv1_inv cfg ss"
  using assms(1)
proof induction
  case (start u)
  then show ?case by (simp add: sv1_inv_def sv1_server_new_def vardiff_enabled_def sm_new_def)
next
  case (server ss tok ev env control tok' ss')
  then show ?case
    using wp_result [OF keeps_at [OF keeps_sv1_step [OF assms(2,3)]]] by blast
next
  case (task ss tok ev env d control tok' ss')
  then show ?case
    using wp_result [OF keeps_at [OF keeps_task_step]] by blast
qed

lemma keeps_no_panic: "keeps cfg m \<Longrightarrow> sv1_inv cfg ss \<Longrightarrow> fst (m ss) \<noteq> Err TpPanic"
  by (cases "m ss") (auto dest!: keeps_at simp: c_wp_def split: sum.splits)


definition demo_config :: downstream_difficulty_config where
  "demo_config = \<lparr>dc_min_individual_miner_hashrate = 0, dc_shares_per_minute = 0, dc_enable_vardiff = True,
     dc_job_keepalive_interval_secs = 60\<rparr>"

definition demo_server :: "tproxy_mode \<Rightarrow> (demo_json, f32 option) sv1_server" where
  "demo_server mode = (sv1_server_new demo_config 4 mode)\<lparr>ss_user_identity := Some ''user''\<rparr>"

definition no_tokens :: loop_tokens where
  "no_tokens = \<lparr>lt_cancelled = False, lt_fallback = False\<rparr>"

lemma demo_reachable: "sv1_reachable demo_sv1_lib demo_config 4 mode t0 (demo_server mode) no_tokens"
  unfolding demo_server_def no_tokens_def by (rule sv1_reachable.start)

lemma demo_lib_ok: "sv1_lib_ok demo_sv1_lib"
proof -
  have "CHR ''#'' \<notin> set (dec_nat n)" for n
    using dec_nat_digits [of "CHR ''#''" n] by (auto simp: is_digit_def)
  then show ?thesis
    by (auto simp: sv1_lib_ok_def demo_messages_ok demo_sv1_lib_simps is_keepalive_job_id_def
        KEEPALIVE_JOB_ID_DELIMITER_def dest!: demo_build_notify_id)
qed

lemma f32_decode_zero [simp]: "f32_decode 0 = Fin 0"
  by (simp add: f32_decode_def Let_def)

lemma demo_config_ok: "is_ok (config_target demo_sv1_lib demo_config)"
  by (simp add: config_target_def demo_sv1_lib_simps demo_config_def f32_as_f64_def)


end
