(* ===== verification/Sv1_Properties.thy ===== *)
theory Sv1_Properties
  imports Sv1_Loop
begin

text \<open>
  What the SV1 server does for its miners: user names, keepalive jobs, the aggregated channel
  update, difficulty changes, shares and disconnections.
\<close>

section \<open>User names\<close>

text \<open>A valid string is a sequence of characters, each a lead byte and at most three continuation bytes.\<close>

definition utf8_char :: "string \<Rightarrow> bool" where
  "utf8_char c \<longleftrightarrow> c \<noteq> [] \<and> length c \<le> 4 \<and> \<not> is_continuation (hd c) \<and> (\<forall>b \<in> set (tl c). is_continuation b)"

definition valid_utf8 :: "string \<Rightarrow> bool" where
  "valid_utf8 s \<longleftrightarrow> (\<exists>cs. s = concat cs \<and> (\<forall>c \<in> set cs. utf8_char c))"

lemma boundary_loop_props:
  "boundary_loop s e \<le> e"
  "is_char_boundary s (boundary_loop s e)"
  "k \<le> e \<Longrightarrow> is_char_boundary s k \<Longrightarrow> k \<le> boundary_loop s e"
  by (induction e) (auto simp: is_char_boundary_def le_Suc_eq)

text \<open>Cutting a valid string at a character boundary keeps it valid.\<close>

lemma take_at_boundary:
  assumes "\<forall>c \<in> set cs. utf8_char c" "is_char_boundary (concat cs) i" "i \<le> length (concat cs)"
  shows "\<exists>ds. take i (concat cs) = concat ds \<and> (\<forall>c \<in> set ds. utf8_char c)"
  using assms
proof (induction cs arbitrary: i)
  case (Cons c cs)
  show ?case
  proof (cases "i < length c")
    case True
    have "i = 0"
    proof (rule ccontr)
      assume "i \<noteq> 0"
      then have "c ! i \<in> set (tl c)"
        using True by (cases c) (auto simp: nth_Cons')
      then have "is_continuation (c ! i)" using Cons.prems(1) by (simp add: utf8_char_def)
      then show False
        using Cons.prems(2) True \<open>i \<noteq> 0\<close> by (simp add: is_char_boundary_def nth_append)
    qed
    then show ?thesis by (intro exI [of _ "[]"]) simp
  next
    case False
    then have "is_char_boundary (concat cs) (i - length c)"
      using Cons.prems(2) by (auto simp: is_char_boundary_def nth_append)
    moreover have "i - length c \<le> length (concat cs)" using Cons.prems(3) False by (simp add: le_diff_conv)
    ultimately obtain ds where "take (i - length c) (concat cs) = concat ds" "\<forall>c \<in> set ds. utf8_char c"
      using Cons.IH [of "i - length c"] Cons.prems False by auto
    with False Cons.prems(1) show ?thesis by (intro exI [of _ "c # ds"]) simp
  qed
qed (auto intro: exI [of _ "[]"])

text \<open>Among any four consecutive positions of a valid string one is a boundary.\<close>

lemma boundary_near:
  assumes "\<forall>c \<in> set cs. utf8_char c" "i \<le> length (concat cs)"
  shows "\<exists>k \<le> i. i < k + 4 \<and> is_char_boundary (concat cs) k"
  using assms
proof (induction cs arbitrary: i)
  case (Cons c cs)
  have c: "length c \<le> 4" using Cons.prems(1) by (simp add: utf8_char_def)
  show ?case
  proof (cases "i < length c")
    case True
    with c show ?thesis by (intro exI [of _ 0]) (simp add: is_char_boundary_def)
  next
    case False
    then have "i - length c \<le> length (concat cs)" using Cons.prems(2) by (simp add: le_diff_conv)
    then obtain k where "k \<le> i - length c" "i - length c < k + 4" "is_char_boundary (concat cs) k"
      using Cons.IH [of "i - length c"] Cons.prems by auto
    with False show ?thesis
    proof (cases "k = 0 \<and> cs \<noteq> []")
      case True
      then obtain c' cs' where cs: "cs = c' # cs'" by (cases cs) auto
      then have "c' \<noteq> []" "\<not> is_continuation (hd c')" using Cons.prems(1) by (auto simp: utf8_char_def)
      then have "is_char_boundary (concat (c # cs)) (length c)"
        by (auto simp: cs is_char_boundary_def nth_append hd_conv_nth)
      with True False \<open>i - length c < k + 4\<close> show ?thesis by (intro exI [of _ "length c"]) auto
    next
      case no: False
      with False \<open>k \<le> i - length c\<close> \<open>i - length c < k + 4\<close> \<open>is_char_boundary (concat cs) k\<close>
      show ?thesis by (intro exI [of _ "length c + k"]) (auto simp: is_char_boundary_def nth_append)
    qed
  qed
qed (auto simp: is_char_boundary_def)

text \<open>
  The user name the translator reports to the pool is a prefix of the miner's name that fits
  the 32 bytes of the TLV field, is valid UTF-8, and is cut by at most three bytes more than
  needed; a name that fits is reported unchanged.
\<close>

theorem reported_username:
  assumes "valid_utf8 s"
  shows "prefix (tlv_compatible_username s) s \<and> valid_utf8 (tlv_compatible_username s) \<and>
    length (tlv_compatible_username s) \<le> 32 \<and>
    (if length s \<le> 32 then tlv_compatible_username s = s
     else 29 \<le> length (tlv_compatible_username s))"
proof (cases "length s \<le> 32")
  case True
  with assms show ?thesis by (simp add: tlv_compatible_username_def MAX_USER_IDENTITY_BYTES_def)
next
  case False
  let ?e = "boundary_loop s 32"
  obtain cs where cs: "s = concat cs" "\<forall>c \<in> set cs. utf8_char c"
    using assms by (auto simp: valid_utf8_def)
  have eq: "tlv_compatible_username s = take ?e s"
    using False by (simp add: tlv_compatible_username_def MAX_USER_IDENTITY_BYTES_def)
  have e: "?e \<le> 32" "is_char_boundary s ?e" by (rule boundary_loop_props)+
  obtain k where "k \<le> 32" "32 < k + 4" "is_char_boundary s k"
    using boundary_near [OF cs(2), of 32] cs(1) False by auto
  then have "29 \<le> ?e" using boundary_loop_props(3) [of k 32 s] by simp
  moreover have "valid_utf8 (take ?e s)"
    using take_at_boundary [OF cs(2)] e False unfolding valid_utf8_def cs(1) [symmetric] by simp
  ultimately show ?thesis
    using e False by (simp add: eq take_is_prefix)
qed

theorem reported_username_witness:
  "let s = replicate 31 (CHR ''a'') @ [CHR 0xC3, CHR 0xA9]
   in length (tlv_compatible_username s) = 31 \<and> valid_utf8 (tlv_compatible_username s)"
proof -
  let ?s = "replicate 31 (CHR ''a'') @ [CHR 0xC3, CHR 0xA9]"
  have "?s = concat (replicate 31 ''a'' @ [[CHR 0xC3, CHR 0xA9]])"
    by (simp add: concat_replicate_single)
  then have "valid_utf8 ?s"
    unfolding valid_utf8_def by (intro exI [of _ "replicate 31 ''a'' @ [[CHR 0xC3, CHR 0xA9]]"])
      (simp add: utf8_char_def is_continuation_def)
  moreover have "length (tlv_compatible_username ?s) = 31" by code_simp
  ultimately show ?thesis using reported_username [of ?s] by (simp add: Let_def)
qed

section \<open>The aggregated channel update\<close>

lemma aggregate_loop_eq:
  assumes "\<And>d n. (d, n) \<in> set ns \<Longrightarrow> effective_hashrate (dn_data n) \<noteq> None"
  shows "aggregate_loop ns t h = Some
    (fold (\<lambda>x a. Some (case a of None \<Rightarrow> x | Some y \<Rightarrow> min y x)) (map (\<lambda>(d, n). effective_target (dn_data n)) ns) t,
     foldl f32_add h (map (\<lambda>(d, n). the (effective_hashrate (dn_data n))) ns))"
  using assms
proof (induction ns arbitrary: t h)
  case (Cons x ns)
  obtain d n where x: "x = (d, n)" by (cases x)
  obtain y where "effective_hashrate (dn_data n) = Some y" using Cons.prems [of d n] x by auto
  moreover have "\<And>d n. (d, n) \<in> set ns \<Longrightarrow> effective_hashrate (dn_data n) \<noteq> None"
    using Cons.prems by (meson list.set_intros(2))
  ultimately show ?case using x by (simp add: Cons.IH)
qed simp

lemma fold_min_option:
  fixes t :: "'a::linorder"
  shows "fold (\<lambda>x a. Some (case a of None \<Rightarrow> x | Some y \<Rightarrow> min y x)) xs (Some t) = Some (fold min xs t)"
  by (induction xs arbitrary: t) (auto simp: min.commute)

lemma fold_min_eq_Min:
  fixes xs :: "'a::linorder list"
  shows "xs \<noteq> [] \<Longrightarrow> fold (\<lambda>x a. Some (case a of None \<Rightarrow> x | Some y \<Rightarrow> min y x)) xs None = Some (Min (set xs))"
  by (cases xs) (simp_all add: fold_min_option Min.set_eq_fold [symmetric])

text \<open>
  In aggregated mode the update sent upstream asks for the smallest target of all connected
  miners (the pending one where a change is under way), whatever the order in which the map is
  iterated, so that no miner works on an easier target than the upstream grants; the hash rate is
  the sum of the hash rates.  It is sent once, and only when there are updates and miners.
\<close>

theorem aggregated_update_asks_minimum:
  assumes "sv1_inv cfg ss" "ss_downstreams ss \<noteq> []" "se_cm_ok env"
  shows "send_aggregated_update_channel env ((d, channel_id, t, h) # us) ss =
    (Ok (), ss\<lparr>ss_to_cm := ss_to_cm ss @ [(UpdateChannel
      \<lparr>uc_channel_id = channel_id,
       uc_nominal_hash_rate = foldl f32_add 0 (map (\<lambda>(d, n). the (effective_hashrate (dn_data n))) (ss_downstreams ss)),
       uc_maximum_target = target_to_le_bytes
         (Min ((\<lambda>(d, n). effective_target (dn_data n)) ` set (ss_downstreams ss)))\<rparr>, None)]\<rparr>)"
proof -
  have "\<And>d n. (d, n) \<in> set (ss_downstreams ss) \<Longrightarrow> effective_hashrate (dn_data n) \<noteq> None"
    using assms(1) by (auto simp: sv1_inv_def downstream_ok_def effective_hashrate_None)
  from aggregate_loop_eq [OF this, where t = None and h = 0] assms(2,3) show ?thesis
    by (simp add: send_aggregated_update_channel_def c_bind_def c_get_def c_return_def c_modify_def
        t_expect_def send_to_cm_quiet_def fold_min_eq_Min)
qed

definition demo_downstream :: "downstream_id \<Rightarrow> target \<Rightarrow> demo_json sv1_downstream" where
  "demo_downstream d t = sv1_downstream_new d t (Some 0)"

definition demo_two_miners :: "tproxy_mode \<Rightarrow> (demo_json, f32 option) sv1_server" where
  "demo_two_miners mode = (demo_server mode)\<lparr>ss_downstreams := [(1, demo_downstream 1 7), (2, demo_downstream 2 5)],
     ss_senders := [(1, ()), (2, ())], ss_vardiff := [(1, None), (2, None)], ss_downstream_id_factory := 3\<rparr>"

lemma demo_two_miners_inv: "sv1_inv demo_config (demo_two_miners mode)"
  by (auto simp: sv1_inv_def demo_two_miners_def demo_server_def sv1_server_new_def demo_downstream_def
      sv1_downstream_new_def downstream_data_new_def downstream_ok_def vardiff_enabled_def demo_config_def
      sm_invar_def sm_dom_def sm_keys_def sm_new_def)

definition demo_env :: sv1_env where
  "demo_env = \<lparr>se_now = 0, se_miner_ok = (\<lambda>_. True), se_task_ok = (\<lambda>_. True), se_cm_ok = True\<rparr>"

lemma demo_env_ok [simp]: "se_cm_ok demo_env" "se_task_ok demo_env d" "se_miner_ok demo_env d"
  by (simp_all add: demo_env_def)

theorem aggregated_update_asks_minimum_witness:
  "map (\<lambda>(m, _). case m of UpdateChannel u \<Rightarrow> target_from_le_bytes (uc_maximum_target u) | _ \<Rightarrow> 0)
     (ss_to_cm (snd (send_aggregated_update_channel demo_env [(1, 3, 7, 0)] (demo_two_miners Aggregated)))) = [5]"
  using aggregated_update_asks_minimum [OF demo_two_miners_inv, of Aggregated demo_env 1 3 7 0 "[]"]
  by (simp add: demo_two_miners_def demo_env_def demo_server_def sv1_server_new_def demo_downstream_def
      sv1_downstream_new_def downstream_data_new_def effective_target_def)

section \<open>Disconnection\<close>

definition is_update_channel :: "mining_from_client \<Rightarrow> bool" where
  "is_update_channel m = (case m of UpdateChannel _ \<Rightarrow> True | _ \<Rightarrow> False)"

lemma state_change_sends:
  assumes inv: "sv1_inv cfg ss" and ok: "se_cm_ok env"
  shows "\<exists>ms. send_update_channel_on_downstream_state_change env ss = (Ok (), ss\<lparr>ss_to_cm := ss_to_cm ss @ ms\<rparr>) \<and>
    list_all (is_update_channel \<circ> fst) ms"
proof -
  consider (own) "is_non_aggregated (ss_mode ss)" | (empty) "\<not> is_non_aggregated (ss_mode ss)" "ss_downstreams ss = []"
    | (miners) mt h where "\<not> is_non_aggregated (ss_mode ss)" "ss_downstreams ss \<noteq> []"
        "aggregate_loop (ss_downstreams ss) None 0 = Some (Some mt, h)"
    using inv_aggregate [OF inv] by blast
  then show ?thesis
  proof cases
    case own
    then show ?thesis
      by (intro exI [of _ "[]"]) (simp add: send_update_channel_on_downstream_state_change_def c_bind_def c_get_def c_return_def)
  next
    case empty
    with ok show ?thesis
      by (simp add: send_update_channel_on_downstream_state_change_def c_bind_def c_get_def c_modify_def
          send_to_cm_quiet_def)
        (intro exI conjI, rule refl, simp add: is_update_channel_def)
  next
    case miners
    with ok show ?thesis
      by (simp add: send_update_channel_on_downstream_state_change_def c_bind_def c_get_def c_return_def
          c_modify_def t_expect_def send_to_cm_quiet_def)
        (intro exI conjI, rule refl, simp add: is_update_channel_def)
  qed
qed

text \<open>
  When a miner disconnects, its connection, its sender and its vardiff state are removed, its
  channel is unmapped and exactly one close request for it is sent to the channel manager; but the
  jobs and the previous hash stored for its channel, its pending difficulty updates and the
  requests it has open are all kept.
\<close>

theorem disconnect_residue:
  assumes inv: "sv1_inv cfg ss" and data: "data_of d ss = Some data" and ok: "se_cm_ok env"
    and step: "handle_downstream_disconnect env d ss = (r, ss')"
  shows "r = Ok () \<and>
    d \<notin> sm_dom (ss_downstreams ss') \<union> sm_dom (ss_senders ss') \<union> sm_dom (ss_vardiff ss') \<and>
    (case dd_channel_id data of
       None \<Rightarrow> True
     | Some c \<Rightarrow> c \<notin> sm_dom (ss_channel_id_to_downstream_id ss') \<and>
         List.last (ss_to_cm ss') = (CloseChannelRequest c downstream_disconnected, None)) \<and>
    ss_valid_sv1_jobs ss' = ss_valid_sv1_jobs ss \<and> ss_prevhashes ss' = ss_prevhashes ss \<and>
    ss_pending_target_updates ss' = ss_pending_target_updates ss \<and>
    ss_request_id_to_downstream_id ss' = ss_request_id_to_downstream_id ss"
proof -
  let ?ss = "without_downstream d ss"
  have inv': "sv1_inv cfg ?ss" by (rule inv_without_downstream [OF inv])
  have gone: "d \<notin> sm_dom (ss_downstreams ?ss) \<union> sm_dom (ss_senders ?ss) \<union> sm_dom (ss_vardiff ?ss)"
    using inv by (auto simp: without_downstream_def sv1_inv_def)
  obtain m where m: "(if vardiff_enabled ?ss then send_update_channel_on_downstream_state_change env
      else c_return ()) ?ss = (Ok (), ?ss\<lparr>ss_to_cm := m\<rparr>)"
    using state_change_sends [OF inv' ok] by (cases "vardiff_enabled ?ss") (auto simp: c_return_def intro: that [of "ss_to_cm ?ss"])
  have "announce_disconnect env data ?ss = (Ok (), case dd_channel_id data of
      None \<Rightarrow> ?ss\<lparr>ss_to_cm := m\<rparr>
    | Some c \<Rightarrow> ?ss\<lparr>ss_to_cm := m @ [(CloseChannelRequest c downstream_disconnected, None)],
        ss_channel_id_to_downstream_id := AList.delete c (ss_channel_id_to_downstream_id ?ss)\<rparr>)"
    using ok by (simp add: announce_disconnect_def c_bind_def [of "c_get _"] c_get_def c_bind_def [of "if _ then _ else _"]
        m c_return_def c_modify_def send_to_cm_quiet_def split: option.splits)
  with step data have r: "r = Ok ()" and ss': "ss' = (case dd_channel_id data of
      None \<Rightarrow> ?ss\<lparr>ss_to_cm := m\<rparr>
    | Some c \<Rightarrow> ?ss\<lparr>ss_to_cm := m @ [(CloseChannelRequest c downstream_disconnected, None)],
        ss_channel_id_to_downstream_id := AList.delete c (ss_channel_id_to_downstream_id ?ss)\<rparr>)"
    by (simp_all add: disconnect_eq)
  show ?thesis
    using gone by (cases "dd_channel_id data") (simp_all add: r ss' without_downstream_def)
qed

theorem disconnect_residue_witness:
  "fst (handle_downstream_disconnect demo_env 1 (demo_two_miners NonAggregated)) = Ok ()"
proof -
  have "data_of 1 (demo_two_miners NonAggregated) = Some (dn_data (demo_downstream 1 7))"
    by (simp add: data_of_def get_downstream_def sm_get_cloned_def demo_two_miners_def)
  from disconnect_residue [OF demo_two_miners_inv this demo_env_ok(1) prod.collapse [symmetric]]
  show ?thesis by simp
qed

section \<open>Difficulty changes\<close>

text \<open>
  C25. The target in force can differ from the difficulty the miner was told.  A vardiff round that
  finds a target below the upstream's keeps the difficulty message back until the upstream agrees,
  but stores the new target as pending at once; when the miner still has an earlier difficulty
  message waiting, the next job delivers that earlier difficulty and makes the new target current.
  From then on the miner mines at one difficulty and its shares are checked against another.
\<close>

theorem delayed_target_applied_early:
  assumes conn: "get_downstream d ss = Some n" "dn_sv1_handshake_complete n"
    and data: "dd_channel_id (dn_data n) = Some c" "dd_hashrate (dn_data n) = Some h"
      "dd_upstream_target (dn_data n) = Some u" "dd_cached_set_difficulty (dn_data n) = Some m"
    and mode: "ss_mode ss = NonAggregated" and vd: "ss_vardiff ss = [(d, v)]"
    and vtry: "vd_try_vardiff (sl_vardiff lib) h (target_to_le_bytes (dd_target (dn_data n)))
        (dc_shares_per_minute (ss_config ss)) v = (Ok (Some h'), v')"
    and tgt: "sl_hash_rate_to_target lib (f32_as_f64 h') (f32_as_f64 (dc_shares_per_minute (ss_config ss))) = Ok t"
      "t < u"
    and job: "sl_notify_try_from lib ''mining.notify'' p = Some job"
  shows "let ss1 = snd (handle_vardiff_updates lib env ss);
             ss2 = snd (run_on_downstream d (handle_sv1_server_message lib True now
                     (Some (Notification ''mining.notify'' p))) ss1)
         in \<exists>n2. get_downstream d ss2 = Some n2 \<and>
              dn_to_miner n2 = dn_to_miner n @ [m, sl_notify_into lib (job\<lparr>nf_clean_jobs := True\<rparr>)] \<and>
              dd_target (dn_data n2) = t"
proof -
  let ?d1 = "(set_pending_hashrate (Some h') (set_pending_target t (dn_data n)))\<lparr>dd_stable_hashrate := False\<rparr>"
  have gd: "data_of d ss = Some (dn_data n)" using conn by (simp add: data_of_def)
  have look: "map_of (ss_downstreams ss) d = Some n" using conn by (simp add: get_downstream_def sm_get_cloned_def)
  define ss1 where "ss1 = snd (handle_vardiff_updates lib env ss)"
  have "get_downstream d ss1 = Some (n\<lparr>dn_data := ?d1\<rparr>)"
    using gd look mode vd vtry tgt data
    by (simp add: ss1_def handle_vardiff_updates_def sm_keys_def vardiff_update_one_def vardiff_outcome_def
        vardiff_new_target_def c_bind_def c_get_def c_modify_def c_return_def t_expect_def sm_get_cloned_def
        update_data_def sm_with_mut_def get_downstream_def data_of_def on_data_def
        send_update_channel_messages_def send_non_aggregated_update_channels_def send_to_cm_quiet_def
        not_le[symmetric])
  then show ?thesis
    using conn data job unfolding ss1_def [symmetric] Let_def
    by (simp add: run_on_downstream_def handle_sv1_server_message_def prepare_notify_def apply_pending_def
        downstream_op_defs Let_def set_pending_target_def set_pending_hashrate_def get_downstream_def
        sm_get_cloned_def)
qed

definition demo_waiting :: "(demo_json, f32 option) sv1_server" where
  "demo_waiting = (demo_server NonAggregated)\<lparr>ss_downstreams := [(1, (demo_downstream 1 2000)
       \<lparr>dn_sv1_handshake_complete := True, dn_data := (dn_data (demo_downstream 1 2000))
          \<lparr>dd_channel_id := Some 3, dd_upstream_target := Some 2000,
            dd_cached_set_difficulty := Some (demo_difficulty 3000), dd_pending_target := Some 3000\<rparr>\<rparr>)],
     ss_senders := [(1, ())], ss_vardiff := [(1, Some 0)]\<rparr>"

theorem delayed_target_applied_early_witness:
  "let ss1 = snd (handle_vardiff_updates demo_sv1_lib demo_env demo_waiting);
       ss2 = snd (run_on_downstream 1 (handle_sv1_server_message demo_sv1_lib True 0
               (Some (Notification ''mining.notify'' (DjNotify demo_notify)))) ss1)
   in \<exists>n2. get_downstream 1 ss2 = Some n2 \<and> announced_difficulty n2 = Some (demo_difficulty 3000) \<and>
        dd_target (dn_data n2) = 1000"
proof -
  have "\<exists>n2. get_downstream 1 (snd (run_on_downstream 1 (handle_sv1_server_message demo_sv1_lib True 0
               (Some (Notification ''mining.notify'' (DjNotify demo_notify))))
          (snd (handle_vardiff_updates demo_sv1_lib demo_env demo_waiting)))) = Some n2 \<and>
      dn_to_miner n2 = dn_to_miner (demo_downstream 1 2000) @
        [demo_difficulty 3000, sl_notify_into demo_sv1_lib (demo_notify\<lparr>nf_clean_jobs := True\<rparr>)] \<and>
      dd_target (dn_data n2) = 1000"
    using delayed_target_applied_early [of 1 demo_waiting "(demo_downstream 1 2000)
       \<lparr>dn_sv1_handshake_complete := True, dn_data := (dn_data (demo_downstream 1 2000))
          \<lparr>dd_channel_id := Some 3, dd_upstream_target := Some 2000,
            dd_cached_set_difficulty := Some (demo_difficulty 3000), dd_pending_target := Some 3000\<rparr>\<rparr>"
       3 0 2000 "demo_difficulty 3000" "Some 0" demo_sv1_lib 0 "Some 0" 1000 "DjNotify demo_notify" demo_notify demo_env 0]
    by (simp add: demo_waiting_def demo_server_def sv1_server_new_def get_downstream_def sm_get_cloned_def
        demo_downstream_def sv1_downstream_new_def downstream_data_new_def demo_sv1_lib_simps f32_as_f64_def Let_def
        demo_config_def)
  then show ?thesis
    unfolding Let_def by (elim exE, intro exI) (auto simp: announced_difficulty_def demo_sv1_lib_simps demo_difficulty_def)
qed

end
