(* ===== verification/Tproxy_Traffic.thy ===== *)
theory Tproxy_Traffic
  imports Tproxy_Loop Sv1_Properties
begin

text \<open>
  What the translator's channel manager sends.  The locale \<open>tm_traffic\<close> is the interface: a property
  of the messages sent and of the share counters that every way of sending keeps holds in every state
  of the loop.  It is interpreted twice, for the messages to the SV1 server and for the numbers
  of the shares sent upstream.
\<close>

section \<open>Messages and counters\<close>

definition upstream_share :: "upstream_message \<Rightarrow> submit_shares_extended option" where
  "upstream_share u = (case u of
     UpMining (SubmitSharesExtended m) \<Rightarrow> Some m
   | UpMiningTlv (SubmitSharesExtended m) _ \<Rightarrow> Some m
   | _ \<Rightarrow> None)"

definition share_counter :: "u32 \<Rightarrow> ('x, 'g, 'a) tproxy_manager \<Rightarrow> u32" where
  "share_counter c tm = (case sm_get_cloned (tm_share_sequence_counters tm) c of None \<Rightarrow> 0 | Some n \<Rightarrow> n)"

definition traffic :: "('x, 'g, 'a) tproxy_manager \<Rightarrow> mining list \<times> upstream_message list \<times> (u32, u32) shared_map" where
  "traffic tm = (tm_to_sv1 tm, tm_to_upstream tm, tm_share_sequence_counters tm)"

lemma traffic_frame [simp]:
  "traffic (tm\<lparr>tm_extended_channels := es\<rparr>) = traffic tm"
  "traffic (tm\<lparr>tm_group_channels := gs\<rparr>) = traffic tm"
  "traffic (tm\<lparr>tm_pending_downstream_channels := ps\<rparr>) = traffic tm"
  "traffic (tm\<lparr>tm_negotiated_extensions := ns\<rparr>) = traffic tm"
  "traffic (tm\<lparr>tm_allocator := al\<rparr>) = traffic tm"
  "traffic (tm\<lparr>tm_aggregated_state := st\<rparr>) = traffic tm"
  by (simp_all add: traffic_def)

lemma traffic_operations [simp]:
  "traffic (put_channel c x tm) = traffic tm" "traffic (change_channel c f tm) = traffic tm"
  "traffic (insert_channel lib c x tm) = traffic tm" "traffic (remove_channel lib c tm) = traffic tm"
  "traffic (drop_prefix lib p tm) = traffic tm" "traffic (remove_from_groups lib c tm) = traffic tm"
  "traffic (leave_groups lib cs tm) = traffic tm" "traffic (put_group k g tm) = traffic tm"
  "traffic (handle_submit_shares_success lib sh tm) = traffic tm" "traffic (handle_submit_shares_error lib c code tm) = traffic tm"
  by (simp_all add: put_channel_def change_channel_def insert_channel_def remove_channel_def drop_channel_def drop_prefix_def
      remove_from_groups_def leave_groups_def put_group_def handle_submit_shares_success_def handle_submit_shares_error_def
      split: option.splits)

lemma traffic_foldl: "(\<And>x tm. traffic (f tm x) = traffic tm) \<Longrightarrow> traffic (foldl f tm xs) = traffic tm"
  by (induction xs arbitrary: tm) auto

lemma traffic_initialize: "traffic (snd (initialize_channel lib c tm)) = traffic tm"
  by (simp add: initialize_channel_def Let_def split: option.splits)

text \<open>A share that took the next number of its channel and is about to be sent.\<close>

definition numbered :: "('x, 'g, 'a) tproxy_manager \<Rightarrow> submit_shares_extended option \<Rightarrow> ('x, 'g, 'a) tproxy_manager \<Rightarrow> bool" where
  "numbered tm share tm' = (case share of
     None \<Rightarrow> traffic tm' = traffic tm
   | Some s \<Rightarrow> sse_sequence_number s = share_counter (sse_channel_id s) tm + 1 \<and>
       traffic tm' = (tm_to_sv1 tm, tm_to_upstream tm,
         AList.update (sse_channel_id s) (sse_sequence_number s) (tm_share_sequence_counters tm)))"

definition stops :: "tp_fault \<Rightarrow> bool" where
  "stops e = (case e of TpPanic \<Rightarrow> True | TpRaised err \<Rightarrow> te_action err \<in> {TpFallback, TpShutdown})"

lemma stops_simps [simp]:
  "stops TpPanic" "stops (TpRaised (tp_fallback k))" "stops (TpRaised (tp_shutdown k))"
  by (simp_all add: stops_def)

lemma aggregated_share_numbered: "c_wp (aggregated_share lib m) (numbered tm) (\<lambda>e _. stops e) tm"
  by (auto simp: aggregated_share_def rewrite_extranonce_def validate_on_channel_def next_share_sequence_number_def Let_def
      c_wp_def c_bind_def c_get_def c_fail_def c_return_def t_raise_def t_expect_def numbered_def traffic_def put_channel_def
      share_counter_def split: option.splits prod.splits if_splits)

lemma own_channel_share_numbered: "c_wp (own_channel_share lib m) (numbered tm) (\<lambda>e _. stops e) tm"
  by (auto simp: own_channel_share_def rewrite_extranonce_def validate_on_channel_def next_share_sequence_number_def Let_def
      c_wp_def c_bind_def c_get_def c_fail_def c_return_def t_raise_def numbered_def traffic_def put_channel_def
      share_counter_def split: option.splits prod.splits if_splits)

lemma wp_send_upstream: "c_wp (send_upstream lib env u) Q E tm = (case tl_encode lib u of
     Inl e \<Rightarrow> E (TpRaised (tp_shutdown e)) tm
   | Inr _ \<Rightarrow> (if tv_upstream_ok env then Q () (tm\<lparr>tm_to_upstream := tm_to_upstream tm @ [u]\<rparr>)
       else E (TpRaised (tp_fallback TkChannelErrorSender)) tm))"
  by (auto simp: send_upstream_def wp_rules split: sum.splits)

lemma wp_forward_share:
  assumes "\<And>u. upstream_share u = Some s \<Longrightarrow> c_wp (send_upstream lib env u) Q E tm"
  shows "c_wp (forward_share lib env s tlvs) Q E tm"
  using assms by (auto simp: forward_share_def Let_def wp_bind wp_generic upstream_share_def split: option.splits)

section \<open>The interface\<close>

locale tm_traffic =
  fixes I :: "('x, 'g, 'a) tproxy_manager \<Rightarrow> bool"
  assumes start: "traffic tm = ([], [], []) \<Longrightarrow> I tm"
    and frame: "traffic tm = traffic tm' \<Longrightarrow> I tm = I tm'"
    and to_sv1: "sv1_upstream_ok (Some m) \<Longrightarrow> I tm \<Longrightarrow> I (tm\<lparr>tm_to_sv1 := tm_to_sv1 tm @ [m]\<rparr>)"
    and to_upstream: "upstream_share u = None \<Longrightarrow> I tm \<Longrightarrow> I (tm\<lparr>tm_to_upstream := tm_to_upstream tm @ [u]\<rparr>)"
    and share: "upstream_share u = Some s \<Longrightarrow> I tm \<Longrightarrow> sse_sequence_number s = share_counter (sse_channel_id s) tm + 1 \<Longrightarrow>
      traffic tm' = (tm_to_sv1 tm, tm_to_upstream tm @ [u],
        AList.update (sse_channel_id s) (sse_sequence_number s) (tm_share_sequence_counters tm)) \<Longrightarrow> I tm'"
begin

definition tr_keeps :: "(('x, 'g, 'a) tproxy_manager, 'r) tcomp \<Rightarrow> bool" where
  "tr_keeps m \<longleftrightarrow> (\<forall>tm. I tm \<longrightarrow> c_wp m (\<lambda>_. I) (\<lambda>e tm'. stops e \<or> I tm') tm)"

lemma tr_basic:
  "tr_keeps (c_return x)" "tr_keeps (c_get f)" "tr_keeps (t_try r)" "tr_keeps (t_raise e)" "tr_keeps (t_expect y)"
  "tr_keeps (c_fail e')"
  by (auto simp: tr_keeps_def wp_rules split: sum.splits option.splits)

lemma tr_bind: "tr_keeps m \<Longrightarrow> (\<And>x. tr_keeps (f x)) \<Longrightarrow> tr_keeps (c_bind m f)"
  unfolding tr_keeps_def wp_bind by (blast intro: wp_mono)

lemma tr_same:
  assumes "\<And>tm. traffic (snd (m tm)) = traffic tm"
  shows "tr_keeps m"
proof -
  have "I (snd (m tm))" if "I tm" for tm using frame [OF assms, of tm] that by simp
  then show ?thesis by (auto simp: tr_keeps_def c_wp_def case_prod_beta split: sum.splits)
qed

lemma tr_modify: "(\<And>tm. traffic (g tm) = traffic tm) \<Longrightarrow> tr_keeps (c_modify g)"
  by (rule tr_same) (simp add: c_modify_def)

lemma tr_if: "(b \<Longrightarrow> tr_keeps m) \<Longrightarrow> (\<not> b \<Longrightarrow> tr_keeps n) \<Longrightarrow> tr_keeps (if b then m else n)"
  by simp

lemma tr_option: "(v = None \<Longrightarrow> tr_keeps m) \<Longrightarrow> (\<And>x. v = Some x \<Longrightarrow> tr_keeps (f x)) \<Longrightarrow>
    tr_keeps (case v of None \<Rightarrow> m | Some x \<Rightarrow> f x)"
  by (cases v) simp_all

lemma tr_for: "(\<And>x. tr_keeps (f x)) \<Longrightarrow> tr_keeps (t_for xs f)"
  unfolding tr_keeps_def by (blast intro: wp_for)

lemma tr_collect: "(\<And>x. tr_keeps (f x)) \<Longrightarrow> tr_keeps (t_collect xs f)"
  by (induction xs) (auto intro!: tr_bind tr_basic)

lemma tr_sv1: "sv1_upstream_ok (Some m) \<Longrightarrow> tr_keeps (send_sv1 env m)"
  by (auto simp: send_sv1_def tr_keeps_def wp_rules to_sv1)

lemma tr_upstream: "upstream_share u = None \<Longrightarrow> tr_keeps (send_upstream lib env u)"
  by (auto simp: send_upstream_def tr_keeps_def wp_rules to_upstream split: sum.splits)

lemmas tr_rules = tr_basic tr_bind tr_modify tr_if tr_option tr_for tr_collect tr_sv1 tr_upstream

lemma tr_on_channel: "tr_keeps (on_channel c absent failed f)"
  by (rule tr_same) (simp add: on_channel_def case_prod_beta split: option.splits)

lemma tr_join_group: "tr_keeps (join_group lib k c n)"
  by (rule tr_same) (simp add: join_group_def case_prod_beta Let_def split: option.splits sum.splits)

lemma tr_set_group: "tr_keeps (handle_set_group_channel lib k cs)"
  by (rule tr_same) (simp add: handle_set_group_channel_def case_prod_beta Let_def split: option.splits sum.splits)

lemma tr_request_aggregated:
  "tr_keeps (handle_downstream_channel_request_in_aggregated_mode lib env r u h n)"
proof -
  have init: "tr_keeps (\<lambda>tm. let (job, tm) = initialize_channel lib c tm in (Ok job, tm))" for c
    by (rule tr_same) (simp add: case_prod_beta traffic_initialize)
  have "tr_keeps (open_aggregated_channel lib env r u h n t p)" for t p
    unfolding open_aggregated_channel_def Let_def
    by (intro tr_rules init [unfolded Let_def]) (simp_all add: sv1_upstream_ok_def)
  then show ?thesis
    unfolding handle_downstream_channel_request_in_aggregated_mode_def
    by (auto simp: case_prod_beta Let_def split: sum.splits intro!: tr_rules)
qed

lemma tr_open_request: "tr_keeps (handle_open_request lib env m)"
  unfolding handle_open_request_def open_upstream_def Let_def
  by (intro tr_bind tr_basic)
    (auto split: aggregated_state.splits simp: upstream_share_def intro!: tr_rules tr_request_aggregated)

lemma tr_share: "tr_keeps (handle_share lib env m tlvs)"
  unfolding tr_keeps_def
proof (intro allI impI)
  fix tm assume inv: "I tm"
  have forward: "c_wp (forward_share lib env s tlvs) (\<lambda>_. I) (\<lambda>e tm'. stops e \<or> I tm') tm1"
    if "numbered tm (Some s) tm1" for s tm1
  proof -
    have "I (tm1\<lparr>tm_to_upstream := tm_to_upstream tm1 @ [u]\<rparr>)" if "upstream_share u = Some s" for u
      using share [OF that inv, of "tm1\<lparr>tm_to_upstream := tm_to_upstream tm1 @ [u]\<rparr>"] \<open>numbered tm (Some s) tm1\<close>
      by (simp add: numbered_def traffic_def)
    then show ?thesis
      by (auto simp: wp_send_upstream split: sum.splits intro!: wp_forward_share)
  qed
  have rest: "c_wp (case s of None \<Rightarrow> c_return () | Some m \<Rightarrow> forward_share lib env m tlvs) (\<lambda>_. I) (\<lambda>e tm'. stops e \<or> I tm') tm1"
    if "numbered tm s tm1" for s tm1
    using that forward inv frame [of tm1 tm] by (cases s) (auto simp: numbered_def wp_rules)
  show "c_wp (handle_share lib env m tlvs) (\<lambda>_. I) (\<lambda>e tm'. stops e \<or> I tm') tm"
    unfolding handle_share_def
    by (auto simp: wp_bind wp_generic intro: rest wp_mono [OF aggregated_share_numbered] wp_mono [OF own_channel_share_numbered])
qed

lemma tr_update: "tr_keeps (handle_update_request lib env m)"
  unfolding handle_update_request_def Let_def
  by (intro tr_rules) (simp_all add: upstream_share_def)

lemma tr_close_request: "tr_keeps (handle_close_request lib env c reason)"
  unfolding handle_close_request_def
  by (intro tr_rules) (simp_all add: upstream_share_def)

lemma tr_close_channel: "tr_keeps (tm_handle_close_channel lib c)"
  unfolding tm_handle_close_channel_def
  by (intro tr_rules) (simp_all add: traffic_foldl)

lemma tr_for_aggregated: "tr_keeps (for_aggregated_channel lib c)"
  unfolding for_aggregated_channel_def by (intro tr_bind tr_basic tr_option) (auto split: list.splits intro!: tr_rules)

lemma tr_job: "tr_keeps (handle_new_extended_mining_job lib env m)"
proof -
  have "tr_keeps (verify_payout lib b)" for b
    unfolding verify_payout_def by (intro tr_rules)
  moreover have "tr_keeps (job_on_channels lib m)"
    unfolding job_on_channels_def Let_def by (intro tr_rules tr_for_aggregated tr_on_channel) simp_all
  ultimately show ?thesis
    unfolding handle_new_extended_mining_job_def by (intro tr_rules) (simp_all add: sv1_upstream_ok_def)
qed

definition tr_result :: "('r \<Rightarrow> bool) \<Rightarrow> (('x, 'g, 'a) tproxy_manager, 'r) tcomp \<Rightarrow> bool" where
  "tr_result P m \<longleftrightarrow> (\<forall>tm. I tm \<longrightarrow> c_wp m (\<lambda>r tm'. P r \<and> I tm') (\<lambda>e tm'. stops e \<or> I tm') tm)"

lemma tr_result_bind: "tr_keeps m \<Longrightarrow> (\<And>x. tr_result P (f x)) \<Longrightarrow> tr_result P (c_bind m f)"
  unfolding tr_keeps_def tr_result_def wp_bind by (blast intro: wp_mono)

lemma tr_bind_result: "tr_result P m \<Longrightarrow> (\<And>x. P x \<Longrightarrow> tr_keeps (f x)) \<Longrightarrow> tr_keeps (c_bind m f)"
  unfolding tr_keeps_def tr_result_def wp_bind by (blast intro: wp_mono)

lemma tr_success: "tr_result (\<lambda>r. sv1_upstream_ok (Some r)) (success_for_sv1 lib m c bs n)"
  by (auto simp: tr_result_def success_for_sv1_def wp_rules sv1_upstream_ok_def)

lemma tr_opened:
  "tr_result (\<lambda>r. sv1_upstream_ok (Some r)) (opened_aggregated lib m s u h k)"
  "tr_result (\<lambda>r. sv1_upstream_ok (Some r)) (opened_own lib m s u h k)"
proof -
  have "tr_result (\<lambda>r. sv1_upstream_ok (Some r)) (t_raise e)" for e
    by (simp add: tr_result_def wp_rules)
  then show "tr_result (\<lambda>r. sv1_upstream_ok (Some r)) (opened_aggregated lib m s u h k)"
    by (auto simp: opened_aggregated_def Let_def intro!: tr_result_bind tr_basic tr_success tr_modify)
  show "tr_result (\<lambda>r. sv1_upstream_ok (Some r)) (opened_own lib m s u h k)"
    by (auto simp: opened_own_def intro!: tr_result_bind tr_basic tr_success tr_modify)
qed

lemma tr_open_success: "tr_keeps (handle_open_extended_mining_channel_success lib env m s)"
proof -
  have serve: "tr_keeps (serve_pending lib env)"
    unfolding serve_pending_def by (auto intro!: tr_rules tr_request_aggregated)
  have "tr_keeps (c_bind (c_get (\<lambda>tm. is_aggregated (tm_mode tm))) (\<lambda>aggregated.
      c_bind (if aggregated then opened_aggregated lib m s u h k else opened_own lib m s u h k) (\<lambda>success.
      c_bind (send_sv1 env success) (\<lambda>_. if aggregated then serve_pending lib env else c_return ()))))" for u h k
    by (rule tr_bind [OF tr_basic(2)], rule tr_bind_result [where P = "\<lambda>r. sv1_upstream_ok (Some r)"])
      (auto simp: tr_opened intro!: tr_rules serve)
  note rest = tr_bind [OF tr_join_group this]
  show ?thesis
    unfolding handle_open_extended_mining_channel_success_def
    by (rule tr_bind [OF tr_basic(2)], rule tr_bind [OF tr_modify]) (auto split: option.splits intro: rest tr_basic)
qed

lemma tr_prev_hash: "tr_keeps (tm_handle_set_new_prev_hash lib env m)"
proof -
  have activate: "tr_keeps (activate_on lib absent m c)" for absent c
    unfolding activate_on_def by (intro tr_rules tr_on_channel)
  have "tr_keeps (prev_hash_on_channels lib m)"
    unfolding prev_hash_on_channels_def Let_def case_prod_beta
    by (intro tr_rules tr_for_aggregated tr_on_channel activate) simp_all
  then show ?thesis
    unfolding tm_handle_set_new_prev_hash_def by (intro tr_rules) (simp_all add: sv1_upstream_ok_def)
qed

lemma tr_set_target: "tr_keeps (handle_set_target lib env c t)"
proof -
  have "tr_keeps (target_on_channels lib c t)"
    unfolding target_on_channels_def Let_def
    by (intro tr_rules tr_for_aggregated tr_on_channel) simp_all
  then show ?thesis
    unfolding handle_set_target_def by (intro tr_rules) (simp_all add: sv1_upstream_ok_def)
qed

lemma tr_extensions: "tr_keeps (handle_extensions_message lib env m)"
  unfolding handle_extensions_message_def handle_request_extensions_success_def handle_request_extensions_error_def Let_def
  by (cases m) (auto simp: upstream_share_def intro!: tr_rules)

lemma tr_mining: "tr_keeps (tm_handle_mining_message lib env m)"
  unfolding tm_handle_mining_message_def Let_def
  by (cases m) (auto intro!: tr_basic tr_modify tr_open_success tr_job tr_prev_hash tr_set_target tr_close_channel tr_set_group)

lemma tr_event: "tr_keeps (tm_handle_event lib env ev)"
  unfolding tm_handle_event_def handle_upstream_frame_def tm_handle_downstream_message_def
  by (auto split: tm_event.splits option.splits prod.splits message_type.splits mining_from_client.splits
      intro!: tr_bind tr_basic tr_mining tr_extensions tr_open_request tr_share tr_update tr_close_request)

lemma reachable_keeps:
  assumes "tm_reachable lib tok tm" "running tok"
  shows "I tm"
  using assms
proof (induction rule: tm_reachable.induct)
  case (start payout supported required mode tm)
  then show ?case
    by (auto simp: set_expected_payout_distribution_def tproxy_manager_new_def traffic_def sm_new_def intro!: tm_traffic.start [OF tm_traffic_axioms])
next
  case (turn tok tm env ev control tok' tm')
  show ?case
  proof (cases "running tok")
    case True
    with turn have "I tm" by simp
    with tr_event [of lib env ev] have "c_wp (tm_handle_event lib env ev) (\<lambda>_. I) (\<lambda>e tm'. stops e \<or> I tm') tm"
      unfolding tr_keeps_def by blast
    with True turn.hyps(3) turn.prems show ?thesis
      by (auto simp: c_wp_def tm_step_def running_def stops_def tm_handle_error_action_def
          split: prod.splits sum.splits tp_fault.splits tproxy_action.splits)
  next
    case False
    with turn show ?thesis by (simp add: tm_step_def running_def)
  qed
qed

end

section \<open>Messages to the SV1 server\<close>

definition for_sv1_server :: "('x, 'g, 'a) tproxy_manager \<Rightarrow> bool" where
  "for_sv1_server tm = list_all (\<lambda>m. sv1_upstream_ok (Some m)) (tm_to_sv1 tm)"

interpretation for_sv1: tm_traffic for_sv1_server
  by unfold_locales (auto simp: for_sv1_server_def traffic_def)

text \<open>
  C22. The two halves of the translator fit together.  The SV1 server treats a message of any other
  kind than the four it expects as unreachable code, which would abort it: the channel manager never
  sends one.  In every state its loop reaches, each message it has put into the queue to the SV1
  server is handled there, by a server in any state of its own loop, without a panic.
\<close>

theorem sv1_server_messages_reachable:
  assumes "tm_reachable tlib ttok tm" "running ttok" "m \<in> set (tm_to_sv1 tm)"
    and "sv1_reachable lib cfg x mode t0 ss tok" "sv1_lib_ok lib" "is_ok (config_target lib cfg)"
  shows "fst (sv1_step lib env t0 tok (SvUpstream (Some m)) ss) \<noteq> Err TpPanic"
proof -
  have "sv1_upstream_ok (Some m)"
    using for_sv1.reachable_keeps [OF assms(1,2)] assms(3) by (auto simp: for_sv1_server_def list_all_iff)
  then have "sv1_event_ok (SvUpstream (Some m))" by (simp add: sv1_event_ok_def)
  then show ?thesis
    by (intro keeps_no_panic [OF _ sv1_reachable_inv [OF assms(4-6)]] keeps_sv1_step [OF assms(5,6)])
qed

section \<open>The numbers of shares\<close>

definition shares_sent :: "u32 \<Rightarrow> ('x, 'g, 'a) tproxy_manager \<Rightarrow> submit_shares_extended list" where
  "shares_sent c tm = filter (\<lambda>s. sse_channel_id s = c) (List.map_filter upstream_share (tm_to_upstream tm))"

definition numbering_ok :: "('x, 'g, 'a) tproxy_manager \<Rightarrow> bool" where
  "numbering_ok tm = (\<forall>c. map sse_sequence_number (shares_sent c tm) = map word_of_nat [1..<Suc (length (shares_sent c tm))] \<and>
     share_counter c tm = word_of_nat (length (shares_sent c tm)))"

lemma shares_sent_append:
  "tm_to_upstream tm' = tm_to_upstream tm @ [u] \<Longrightarrow> shares_sent c tm' = shares_sent c tm @
     (case upstream_share u of None \<Rightarrow> [] | Some s \<Rightarrow> if sse_channel_id s = c then [s] else [])"
  by (simp add: shares_sent_def List.map_filter_def split: option.splits)

lemma numbering_step:
  assumes "upstream_share u = Some s" "numbering_ok tm" "sse_sequence_number s = share_counter (sse_channel_id s) tm + 1"
    "traffic tm' = (tm_to_sv1 tm, tm_to_upstream tm @ [u],
        AList.update (sse_channel_id s) (sse_sequence_number s) (tm_share_sequence_counters tm))"
  shows "numbering_ok tm'"
proof -
  have sent: "shares_sent c tm' = shares_sent c tm @ (if sse_channel_id s = c then [s] else [])" for c
    using shares_sent_append [of tm' tm u c] assms(1,4) by (simp add: traffic_def)
  have counter: "share_counter c tm' = (if sse_channel_id s = c then sse_sequence_number s else share_counter c tm)" for c
    using assms(4) by (simp add: traffic_def share_counter_def sm_get_cloned_def update_conv')
  show ?thesis
    using assms(2,3) by (auto simp: numbering_ok_def sent counter)
qed

lemma numbering_start: "traffic tm = ([], [], []) \<Longrightarrow> numbering_ok tm"
  by (simp add: numbering_ok_def shares_sent_def List.map_filter_def share_counter_def sm_get_cloned_def traffic_def)

lemma numbering_frame: "traffic tm = traffic tm' \<Longrightarrow> numbering_ok tm = numbering_ok tm'"
  by (simp add: numbering_ok_def shares_sent_def share_counter_def traffic_def)

lemma numbering_other:
  "upstream_share u = None \<Longrightarrow> numbering_ok tm \<Longrightarrow> numbering_ok (tm\<lparr>tm_to_upstream := tm_to_upstream tm @ [u]\<rparr>)"
  using shares_sent_append [of "tm\<lparr>tm_to_upstream := tm_to_upstream tm @ [u]\<rparr>" tm u]
  by (simp add: numbering_ok_def share_counter_def)

lemma numbering_sv1: "numbering_ok tm \<Longrightarrow> numbering_ok (tm\<lparr>tm_to_sv1 := tm_to_sv1 tm @ [m]\<rparr>)"
  by (simp add: numbering_ok_def shares_sent_def share_counter_def)

interpretation numbering: tm_traffic numbering_ok
  by (unfold_locales; (rule numbering_start numbering_frame numbering_sv1 numbering_other numbering_step; assumption))

text \<open>
  C21. The shares of a channel are numbered without gaps.  In every state the channel manager's loop
  reaches, the shares it has sent upstream for one channel carry the numbers 1, 2, 3 and so on, in
  the order they were sent, whatever numbers the miners gave them; after \<open>2 ^ 32\<close> shares the numbers
  wrap.
\<close>

theorem share_numbers_consecutive:
  assumes "tm_reachable lib tok tm" "running tok"
  shows "map sse_sequence_number (shares_sent c tm) = map word_of_nat [1..<Suc (length (shares_sent c tm))]"
  using numbering.reachable_keeps [OF assms] by (simp add: numbering_ok_def)

definition demo_found :: submit_shares_extended where
  "demo_found = \<lparr>sse_channel_id = 2, sse_sequence_number = 0, sse_job_id = 5, sse_nonce = 77, sse_ntime = 0, sse_version = 1,
     sse_extranonce = [9, 9, 9, 9]\<rparr>"

lemma demo_found_sent:
  "fst (handle_share demo_tproxy_lib demo_tm_env demo_found None demo_shared) = Ok () \<and>
   tm_to_upstream (snd (handle_share demo_tproxy_lib demo_tm_env demo_found None demo_shared)) = tm_to_upstream demo_shared @
     [UpMining (SubmitSharesExtended (demo_found\<lparr>sse_channel_id := 7, sse_sequence_number := 1,
        sse_extranonce := [0, 0, 1, 0, 9, 9, 9, 9]\<rparr>))]"
  using demo_shared_facts(1,3-5) demo_shared_step(2)
  by (simp add: handle_share_def aggregated_share_def forward_share_def send_upstream_def c_bind_def c_get_def c_return_def c_modify_def
      t_try_def t_expect_def rewrite_extranonce_def validate_on_channel_def next_share_sequence_number_def Let_def demo_found_def
      demo_miner_def demo_extended_api_def demo_allocator_api_def demo_tm_env_def sm_contains_key_def get_channel_def sm_get_cloned_def
      put_channel_def demo_is_shared_def)

lemmas demo_found_ok = demo_found_sent [THEN conjunct1]

theorem sv1_server_messages_reachable_witness:
  "\<exists>m \<in> set (tm_to_sv1 demo_shared).
     fst (sv1_step demo_sv1_lib demo_env 9 no_tokens (SvUpstream (Some m)) (demo_server Aggregated)) \<noteq> Err TpPanic"
proof
  have "running demo_tokens" by (simp add: running_def demo_tokens_def)
  then show "fst (sv1_step demo_sv1_lib demo_env 9 no_tokens (SvUpstream (Some (hd (tm_to_sv1 demo_shared)))) (demo_server Aggregated)) \<noteq> Err TpPanic"
    using sv1_server_messages_reachable [OF demo_shared_reachable _ _ demo_reachable demo_lib_ok demo_config_ok]
      demo_shared_facts(7) by simp
qed (simp add: demo_shared_facts(7))

theorem share_numbers_consecutive_witness:
  "map sse_sequence_number (shares_sent 7 (demo_turn (TmSv1 (Some (SubmitSharesExtended demo_found, None))) demo_shared)) = [1]"
proof -
  let ?tm = "demo_turn (TmSv1 (Some (SubmitSharesExtended demo_found, None))) demo_shared"
  have handled: "tm_handle_event demo_tproxy_lib demo_tm_env (TmSv1 (Some (SubmitSharesExtended demo_found, None))) demo_shared =
      handle_share demo_tproxy_lib demo_tm_env demo_found None demo_shared"
    by (simp add: tm_handle_event_def tm_handle_downstream_message_def)
  have step: "tm_step demo_tproxy_lib demo_tm_env demo_tokens (TmSv1 (Some (SubmitSharesExtended demo_found, None))) demo_shared =
      (Ok (LoopContinue, demo_tokens), ?tm)" and tm: "?tm = snd (handle_share demo_tproxy_lib demo_tm_env demo_found None demo_shared)"
    using demo_found_ok
    by (cases "handle_share demo_tproxy_lib demo_tm_env demo_found None demo_shared";
        simp add: demo_turn_def tm_step_def demo_tokens_def handled)+
  have "length (shares_sent 7 ?tm) = 1"
    using demo_found_sent demo_shared_step(2) shares_sent_append [of ?tm demo_shared _ 7]
    by (auto simp: tm shares_sent_def demo_is_shared_def List.map_filter_def upstream_share_def is_open_message_def
        split: upstream_message.splits mining_from_client.splits)
  with share_numbers_consecutive [OF tm_reachable.turn [OF demo_shared_reachable demo_shared_facts(6) step], of 7] show ?thesis
    by (simp add: running_def demo_tokens_def)
qed

end
