(* ===== verification/Tproxy_Properties.thy ===== *)
theory Tproxy_Properties
  imports Tproxy_Traffic
begin

text \<open>
  What the translator's channel manager does with single messages: the shares it forwards, the group
  channels it is told of, the channels the upstream closes, and the requests of miners that are gone.
\<close>

section \<open>Shares\<close>

text \<open>A miner's share as the shared upstream channel has it.\<close>

definition shared_share ::
  "('x, 'g, 'a, 'p) tproxy_lib \<Rightarrow> 'a \<Rightarrow> 'x \<Rightarrow> 'x \<Rightarrow> submit_shares_extended \<Rightarrow> submit_shares_extended" where
  "shared_share lib a shared x m = m\<lparr>
     sse_extranonce := drop (length (al_upstream_prefix (tl_allocator lib) a)) (cx_get_extranonce_prefix (tl_extended lib) x)
       @ sse_extranonce m,
     sse_channel_id := cx_get_channel_id (tl_extended lib) shared\<rparr>"

lemma forward_share_ok:
  assumes "forward_share lib env m tlvs tm = (Ok (), tm')"
  shows "\<exists>u. tm_to_upstream tm' = tm_to_upstream tm @ [u] \<and> upstream_share u = Some m"
  using assms
  by (auto simp: forward_share_def c_bind_def c_get_def Let_def send_upstream_def t_try_def c_modify_def t_raise_def c_fail_def
      c_return_def upstream_share_def split: if_splits option.splits sum.splits)

lemma put_channel_frame [simp]:
  "tm_to_upstream (put_channel c x tm) = tm_to_upstream tm"
  "tm_share_sequence_counters (put_channel c x tm) = tm_share_sequence_counters tm"
  by (simp_all add: put_channel_def)

lemma aggregated_share_ok:
  assumes "aggregated_share lib m tm = (Ok share, tm')" "get_channel AGGREGATED_CHANNEL_ID tm = Some shared"
    "tm_allocator tm = Some a" "get_channel (sse_channel_id m) tm = Some x"
    "al_upstream_prefix_len (tl_allocator lib) a = length (al_upstream_prefix (tl_allocator lib) a)"
  shows "tm_to_upstream tm' = tm_to_upstream tm \<and>
    share = (if is_ok (fst (cx_validate_share (tl_extended lib) (shared_share lib a shared x m) shared))
      then Some ((shared_share lib a shared x m)\<lparr>sse_sequence_number :=
        share_counter (cx_get_channel_id (tl_extended lib) shared) tm + 1\<rparr>) else None)"
  using assms
  by (auto simp: aggregated_share_def c_bind_def c_get_def Let_def rewrite_extranonce_def t_expect_def c_return_def
      validate_on_channel_def next_share_sequence_number_def shared_share_def share_counter_def c_fail_def t_raise_def
      split: if_splits prod.splits sum.splits)

text \<open>
  C20. A miner's share goes upstream as the work it is.  In aggregated mode, in every state the loop
  reaches, a share of one of the miners is checked on the shared channel and, when it is valid there,
  exactly one message is sent upstream: the same share, with the upstream's channel id, the next
  number of that channel, and an extranonce that, after the upstream's own prefix, spells the miner's
  whole extranonce.  A share that is not valid there is not sent.
\<close>

theorem forwarded_share_extranonce:
  assumes "tproxy_lib_ok lib live" "tm_reachable lib tok tm" "running tok" "is_aggregated (tm_mode tm)"
    and "get_channel (sse_channel_id m) tm = Some x"
    and "handle_share lib env m tlvs tm = (Ok (), tm')"
  shows "\<exists>shared a s.
    get_channel AGGREGATED_CHANNEL_ID tm = Some shared \<and> tm_allocator tm = Some a \<and> s = shared_share lib a shared x m \<and>
    al_upstream_prefix (tl_allocator lib) a @ sse_extranonce s = cx_get_extranonce_prefix (tl_extended lib) x @ sse_extranonce m \<and>
    (if is_ok (fst (cx_validate_share (tl_extended lib) s shared))
     then \<exists>u. tm_to_upstream tm' = tm_to_upstream tm @ [u] \<and>
       upstream_share u = Some (s\<lparr>sse_sequence_number := share_counter (cx_get_channel_id (tl_extended lib) shared) tm + 1\<rparr>)
     else tm_to_upstream tm' = tm_to_upstream tm)"
proof -
  have inv: "tm_inv lib live tm" by (rule tm_reachable_inv [OF assms(1-3)])
  obtain a where a: "tm_allocator tm = Some a"
    using inv assms(4,5) by (cases "tm_allocator tm") (simp_all add: tm_inv_def get_channel_def sm_get_cloned_def)
  then obtain shared where shared: "get_channel AGGREGATED_CHANNEL_ID tm = Some shared"
    using inv assms(4) by (auto simp: tm_inv_def get_channel_def sm_get_cloned_def sm_dom_iff)
  have extranonce: "al_upstream_prefix (tl_allocator lib) a @ sse_extranonce (shared_share lib a shared x m) =
      cx_get_extranonce_prefix (tl_extended lib) x @ sse_extranonce m"
    using inv_prefix_length [OF assms(1) inv a assms(5)] by (auto simp: shared_share_def prefix_def)
  obtain share tm1 where first: "aggregated_share lib m tm = (Ok share, tm1)"
    and rest: "(case share of None \<Rightarrow> c_return () | Some m \<Rightarrow> forward_share lib env m tlvs) tm1 = (Ok (), tm')"
    using assms(4,6) shared
    by (auto simp: handle_share_def c_bind_def c_get_def get_channel_def sm_get_cloned_def sm_contains_key_def
        split: prod.splits sum.splits)
  from aggregated_share_ok [OF first shared a assms(5) lib_allocator(6) [OF assms(1)]] rest a shared extranonce show ?thesis
    by (auto simp: c_return_def split: if_splits dest!: forward_share_ok)
qed

theorem forwarded_share_extranonce_witness:
  "\<exists>u. tm_to_upstream (snd (handle_share demo_tproxy_lib demo_tm_env demo_found None demo_shared)) =
      tm_to_upstream demo_shared @ [u] \<and>
    map_option sse_extranonce (upstream_share u) = Some [0, 0, 1, 0, 9, 9, 9, 9]"
proof -
  have run: "running demo_tokens" by (simp add: running_def demo_tokens_def)
  have channel: "get_channel (sse_channel_id demo_found) demo_shared = Some (demo_miner 2 ([1, 2, 3, 4, 0, 0, 1, 0], Some 4) 4)"
    using demo_shared_facts(3) by (simp add: demo_found_def)
  have "handle_share demo_tproxy_lib demo_tm_env demo_found None demo_shared =
      (Ok (), snd (handle_share demo_tproxy_lib demo_tm_env demo_found None demo_shared))"
    by (metis demo_found_ok prod.collapse)
  from forwarded_share_extranonce [OF demo_tproxy_lib_ok demo_shared_reachable run demo_shared_facts(4) channel this]
  show ?thesis
    using demo_shared_facts(1,5)
    by (auto simp: shared_share_def demo_extended_api_def demo_allocator_api_def demo_miner_def demo_found_def)
qed

section \<open>Groups and closed channels\<close>

lemma group_add_unknown:
  assumes "c \<in> set cs" "get_channel c tm = None"
  shows "\<exists>e g'. t_for cs (group_add lib tm) g = (Err (TpRaised e), g') \<and> te_action e = TpFallback"
  using assms(1)
proof (induction cs arbitrary: g)
  case (Cons d cs)
  show ?case
  proof (cases "d = c")
    case True
    with assms(2) show ?thesis by (simp add: c_bind_def group_add_def tp_fallback_def)
  next
    case False
    obtain r g' where r: "group_add lib tm d g = (r, g')" by fastforce
    show ?thesis
    proof (cases r)
      case (Inl e)
      with r have "\<exists>err. e = TpRaised err \<and> te_action err = TpFallback"
        by (auto simp: group_add_def tp_fallback_def map_err_def split: option.splits prod.splits sum.splits)
      with Inl r show ?thesis by (auto simp: c_bind_def)
    next
      case (Inr y)
      with r False Cons show ?thesis by (simp add: c_bind_def)
    qed
  qed
qed simp

text \<open>
  C26. In aggregated mode a change of groups brings the translator down.  The upstream knows the
  shared channel by the id it gave it, but the manager keeps it under an id of its own.  A
  \<open>SetGroupChannel\<close> that names the shared channel finds no channel, unless a miner's local id happens
  to be the same: the loop ends and asks the translator to fall back, which ends every miner's
  connection.
\<close>

theorem aggregated_set_group_falls_back:
  assumes "running tok" "get_channel AGGREGATED_CHANNEL_ID tm = Some shared"
    and "cx_get_channel_id (tl_extended lib) shared \<in> set cs" "get_channel (cx_get_channel_id (tl_extended lib) shared) tm = None"
    and "uf_header f = Some (ext, ty)" "protocol_message_type (tl_message_types lib) ext ty = TypeMining"
    and "uf_parse_mining f (tm_negotiated_extensions tm) = Ok (SetGroupChannel group_id cs)"
  shows "\<exists>tm'. tm_step lib env tok (TmUpstream (Some f)) tm = (Ok (LoopBreak, tok\<lparr>lt_fallback := True\<rparr>), tm')"
proof -
  have "get_channel (cx_get_channel_id (tl_extended lib) shared) (leave_groups lib cs tm) = None"
    using assms(4) by (simp add: leave_groups_def get_channel_def)
  note unknown = group_add_unknown [OF assms(3) this, of lib]
  have "\<exists>e tm'. handle_set_group_channel lib group_id cs tm = (Err (TpRaised e), tm') \<and> te_action e = TpFallback"
  proof (cases "get_group group_id (leave_groups lib cs tm)")
    case None
    with unknown [of "cg_new (tl_group lib) group_id"] show ?thesis by (auto simp: handle_set_group_channel_def Let_def)
  next
    case (Some g)
    with unknown [of "foldl (\<lambda>g c. if c \<in> set cs then g else cg_remove_channel_id (tl_group lib) c g) g
        (cg_get_channel_ids (tl_group lib) g)"] show ?thesis
      by (auto simp: handle_set_group_channel_def Let_def)
  qed
  then obtain e tm' where e: "handle_set_group_channel lib group_id cs tm = (Err (TpRaised e), tm')" "te_action e = TpFallback"
    by blast
  have "tm_handle_event lib env (TmUpstream (Some f)) tm = (Err (TpRaised e), tm')"
    using assms(5-7) e(1)
    by (simp add: tm_handle_event_def handle_upstream_frame_def c_bind_def c_get_def t_try_def c_return_def
        tm_handle_mining_message_def)
  with assms(1) e(2) show ?thesis
    by (simp add: tm_step_def running_def tm_handle_error_action_def)
qed

definition closed_channels :: "('x, 'g, 'a, 'p) tproxy_lib \<Rightarrow> channel_id \<Rightarrow> ('x, 'g, 'a) tproxy_manager \<Rightarrow> channel_id set" where
  "closed_channels lib c tm = (case get_group c tm of None \<Rightarrow> {c} | Some g \<Rightarrow> set (cg_get_channel_ids (tl_group lib) g))"

lemma remove_channel_facts [simp]:
  "get_channel d (remove_channel lib c tm) = (if d = c then None else get_channel d tm)"
  "tm_mode (remove_channel lib c tm) = tm_mode tm" "tm_to_sv1 (remove_channel lib c tm) = tm_to_sv1 tm"
  by (simp_all add: remove_channel_def drop_channel_def drop_prefix_def get_channel_def sm_get_cloned_def delete_conv'
      split: option.splits)

lemma remove_channels_facts:
  "get_channel d (foldl (\<lambda>tm x. remove_channel lib x tm) tm cs) = (if d \<in> set cs then None else get_channel d tm)"
  "tm_mode (foldl (\<lambda>tm x. remove_channel lib x tm) tm cs) = tm_mode tm"
  "tm_to_sv1 (foldl (\<lambda>tm x. remove_channel lib x tm) tm cs) = tm_to_sv1 tm"
  by (induction cs arbitrary: tm) auto

lemma remove_from_groups_facts [simp]:
  "get_channel d (remove_from_groups lib c tm) = get_channel d tm"
  "tm_mode (remove_from_groups lib c tm) = tm_mode tm" "tm_to_sv1 (remove_from_groups lib c tm) = tm_to_sv1 tm"
  by (simp_all add: remove_from_groups_def get_channel_def)

lemma unknown_channel_share:
  assumes "\<not> is_aggregated (tm_mode tm)" "get_channel (sse_channel_id m) tm = None"
  shows "handle_share lib env m tlvs tm = (Ok (), tm)"
  using assms by (simp add: handle_share_def own_channel_share_def validate_on_channel_def c_bind_def c_get_def c_return_def)

text \<open>
  A channel that the upstream closes goes silent.  When it closes a channel, or all channels of a
  group, outside aggregated mode, the manager forgets them but tells nobody: no message goes to the
  SV1 server, whose miners keep their connections, and every share they submit afterwards is
  dropped without an answer and without a trace.
\<close>

theorem closed_channel_swallows_shares:
  assumes "\<not> is_aggregated (tm_mode tm)" "tm_handle_close_channel lib c tm = (Ok (), tm')"
    and "sse_channel_id m \<in> closed_channels lib c tm"
  shows "tm_to_sv1 tm' = tm_to_sv1 tm \<and> handle_share lib env m tlvs tm' = (Ok (), tm')"
proof -
  have "get_channel (sse_channel_id m) tm' = None \<and> tm_mode tm' = tm_mode tm \<and> tm_to_sv1 tm' = tm_to_sv1 tm"
    using assms
    by (auto simp: tm_handle_close_channel_def closed_channels_def c_bind_def c_get_def c_modify_def t_raise_def c_fail_def
        remove_channels_facts split: option.splits if_splits)
  with unknown_channel_share [of tm' m lib env tlvs] assms(1) show ?thesis by simp
qed

section \<open>Miners that leave early\<close>

definition is_close_request :: "mining_from_client \<Rightarrow> bool" where
  "is_close_request m = (case m of CloseChannelRequest _ _ \<Rightarrow> True | _ \<Rightarrow> False)"

text \<open>
  A channel whose miner leaves before it is opened is never closed.  When a miner disconnects
  while its request for a channel is still open, the upstream's answer finds no connection: the SV1
  server drops it, and between the disconnection and the end of the answer it sends the channel
  manager no request to close a channel.  The channel stays open, and in aggregated mode its share
  of the extranonce space stays taken.
\<close>

theorem orphaned_channel_stays_open:
  assumes "sv1_inv cfg ss" "se_cm_ok env" "data_of d ss = Some data" "dd_channel_id data = None"
    and "sm_get_cloned (ss_request_id_to_downstream_id ss) (ocs_request_id m) = Some d"
  shows "\<exists>ss1 ss2. handle_downstream_disconnect env d ss = (Ok (), ss1) \<and>
    handle_open_success lib env' t m s ss1 = (Ok (), ss2) \<and>
    filter (is_close_request \<circ> fst) (ss_to_cm ss2) = filter (is_close_request \<circ> fst) (ss_to_cm ss) \<and>
    ss_channel_id_to_downstream_id ss2 = ss_channel_id_to_downstream_id ss"
proof -
  let ?ss = "without_downstream d ss"
  obtain ms where ms: "(if vardiff_enabled ?ss then send_update_channel_on_downstream_state_change env else c_return ()) ?ss =
      (Ok (), ?ss\<lparr>ss_to_cm := ss_to_cm ?ss @ ms\<rparr>)" "list_all (is_update_channel \<circ> fst) ms"
    using state_change_sends [OF inv_without_downstream [OF assms(1)] assms(2)]
    by (cases "vardiff_enabled ?ss") (auto simp: c_return_def intro: that [of "[]"])
  have "filter (is_close_request \<circ> fst) ms = []"
    using ms(2) by (induction ms) (auto simp: is_update_channel_def is_close_request_def split: mining_from_client.splits)
  moreover have "handle_downstream_disconnect env d ss = (Ok (), ?ss\<lparr>ss_to_cm := ss_to_cm ?ss @ ms\<rparr>)"
    using assms(3,4) ms(1)
    by (simp add: disconnect_eq announce_disconnect_def c_bind_def [of "c_get _"] c_get_def c_bind_def [of "if _ then _ else _"] c_return_def)
  moreover have "data_of d ?ss = None"
    using assms(1) by (simp add: data_of_def get_downstream_def without_downstream_def sm_get_cloned_def sm_remove_def sv1_inv_def delete_conv')
  ultimately show ?thesis
    using assms(5)
    by (simp add: handle_open_success_def c_bind_def c_get_def c_modify_def c_return_def data_of_def get_downstream_def without_downstream_def)
qed

definition demo_regroup :: upstream_frame where
  "demo_regroup = \<lparr>uf_header = Some (0, mt_number sv2_message_types M_SET_GROUP_CHANNEL),
     uf_parse_mining = (\<lambda>_. Ok (SetGroupChannel 9 [7])), uf_parse_extensions = (\<lambda>_. Err TkTimeout)\<rparr>"

lemma demo_regroup_class: "protocol_message_type sv2_message_types 0 (mt_number sv2_message_types M_SET_GROUP_CHANNEL) = TypeMining"
  by code_simp

theorem aggregated_set_group_falls_back_witness:
  "\<exists>tm'. tm_step demo_tproxy_lib demo_tm_env demo_tokens (TmUpstream (Some demo_regroup)) demo_shared =
     (Ok (LoopBreak, demo_tokens\<lparr>lt_fallback := True\<rparr>), tm')"
proof -
  have run: "running demo_tokens" by (simp add: running_def demo_tokens_def)
  have shared_id: "cx_get_channel_id (tl_extended demo_tproxy_lib) (demo_miner 7 ([1, 2, 3, 4], None) 8) = 7"
    by (simp add: demo_extended_api_def demo_miner_def)
  have unknown: "get_channel 7 demo_shared = None"
    using demo_shared_step(2) by (simp add: demo_is_shared_def demo_miners_def get_channel_def sm_get_cloned_def AGGREGATED_CHANNEL_ID_def)
  show ?thesis
    using aggregated_set_group_falls_back [OF run demo_shared_facts(1), of demo_tproxy_lib "[7]" demo_regroup 0
        "mt_number sv2_message_types M_SET_GROUP_CHANNEL" 9 demo_tm_env]
      unknown demo_regroup_class
    unfolding shared_id by (auto simp: demo_regroup_def)
qed

definition demo_own :: "(demo_channel, demo_group, demo_allocator) tproxy_manager" where
  "demo_own = (demo_start NonAggregated)\<lparr>tm_extended_channels := [(2, demo_miner 2 ([1, 2], None) 4)]\<rparr>"

theorem closed_channel_swallows_shares_witness:
  "handle_share demo_tproxy_lib demo_tm_env demo_found None (snd (tm_handle_close_channel demo_tproxy_lib 2 demo_own)) =
     (Ok (), snd (tm_handle_close_channel demo_tproxy_lib 2 demo_own))"
proof -
  have own: "\<not> is_aggregated (tm_mode demo_own)" "get_group 2 demo_own = None" "sm_contains_key (tm_extended_channels demo_own) 2"
    by (simp_all add: demo_own_def demo_start_def set_expected_payout_distribution_def tproxy_manager_new_def sm_new_def
        get_group_def sm_get_cloned_def sm_contains_key_def)
  then have "tm_handle_close_channel demo_tproxy_lib 2 demo_own = (Ok (), snd (tm_handle_close_channel demo_tproxy_lib 2 demo_own))"
    by (simp add: tm_handle_close_channel_def c_bind_def c_get_def c_modify_def)
  from closed_channel_swallows_shares [OF own(1) this, of demo_found] own(2) show ?thesis
    by (simp add: closed_channels_def demo_found_def)
qed

theorem orphaned_channel_stays_open_witness:
  "\<exists>ss1 ss2. handle_downstream_disconnect demo_env 1
      ((demo_two_miners Aggregated)\<lparr>ss_request_id_to_downstream_id := [(1, 1)]\<rparr>) = (Ok (), ss1) \<and>
    handle_open_success demo_sv1_lib demo_env 9 (demo_open_success 1) 4 ss1 = (Ok (), ss2) \<and>
    filter (is_close_request \<circ> fst) (ss_to_cm ss2) = []"
proof -
  let ?ss = "(demo_two_miners Aggregated)\<lparr>ss_request_id_to_downstream_id := [(1, 1)]\<rparr>"
  have "sv1_inv demo_config ?ss"
    using demo_two_miners_inv [of Aggregated] by (simp add: sv1_inv_def vardiff_enabled_def)
  moreover have "data_of 1 ?ss = Some (dn_data (demo_downstream 1 7))" "dd_channel_id (dn_data (demo_downstream 1 7)) = None"
    "sm_get_cloned (ss_request_id_to_downstream_id ?ss) (ocs_request_id (demo_open_success 1)) = Some 1" "ss_to_cm ?ss = []"
    by (simp_all add: data_of_def get_downstream_def sm_get_cloned_def demo_two_miners_def demo_downstream_def sv1_downstream_new_def
        downstream_data_new_def demo_open_success_def demo_server_def sv1_server_new_def)
  ultimately show ?thesis
    using orphaned_channel_stays_open [of demo_config ?ss demo_env 1 _ "demo_open_success 1" demo_sv1_lib demo_env 9 4] demo_env_ok(1)
    by fastforce
qed

end
