(* ===== verification/Jdc_Types.thy ===== *)
theory Jdc_Types
  imports Mining_Handler Message_Types
begin

text \<open>
  The job declarator client (\<open>miner-apps/jd-client/src/lib\<close>): it stands between miners, which open
  standard and extended channels with it, and a pool with its job declaration server, and takes its
  templates from a node of its own.  This theory has the errors (\<open>error.rs\<close>), the modes
  (\<open>jd_mode.rs\<close>), the requests and the share cache of \<open>utils.rs\<close>, the state of the channel manager
  and the parameters that stand for other crates.

  The server side of the channel crate is the one of the pool (\<open>Pool_Types\<close>).  What only this
  program uses are the records \<open>upstream_api\<close> (the client side of the channel with the pool),
  \<open>job_factory_api\<close> and the constructors in \<open>jdc_lib\<close>.  Locks are plain values: only a panic inside
  a closure poisons one, and a panic ends the manager's task.
\<close>

section \<open>Errors\<close>

datatype (plugins only: code) jdc_error_kind =
    JkBinarySv2
  | JkFramingSv2
  | JkParser
  | JkChannelErrorReceiver
  | JkChannelErrorSender
  | JkUnexpectedMessage u16 u8
  | JkBitcoinEncodeError
  | JkLastDeclareJobNotFound u32
  | JkTemplateNotFound u64
  | JkDownstreamNotFound downstream_id
  | JkFutureTemplateNotPresent
  | JkLastNewPrevhashNotFound
  | JkTxDataError
  | JkFailedToCreateCustomJob
  | JkChannelManagerHasBadCoinbaseOutputs
  | JkDeclaredJobHasBadCoinbaseOutputs
  | JkExtranonceSizeTooLarge
  | JkExtranonceSizeTooSmall
  | JkChannelSv2 channel_sv2_error
  | JkClientChannel string
  | JkInvalidUnsupportedExtensionsSequence
  | JkInvalidRequiredExtensionsSequence
  | JkInvalidSupportedExtensionsSequence
  | JkRequiredExtensionsNotSupported "u16 list"
  | JkServerRequiresUnsupportedExtensions "u16 list"
  | JkSetupConnectionError
  | JkDeclareMiningJobError
  | JkOpenMiningChannelError
  | JkOpenStandardMiningChannelError
  | JkCloseChannel
  | JkCustomJobError
  | JkUpstreamNotFound

datatype jdc_action = JcLog | JcDisconnect downstream_id | JcFallback | JcShutdown

record jdc_error =
  jce_kind :: jdc_error_kind
  jce_action :: jdc_action

definition jdc_log :: "jdc_error_kind \<Rightarrow> jdc_error" where
  "jdc_log k = \<lparr>jce_kind = k, jce_action = JcLog\<rparr>"

definition jdc_disconnect :: "jdc_error_kind \<Rightarrow> downstream_id \<Rightarrow> jdc_error" where
  "jdc_disconnect k d = \<lparr>jce_kind = k, jce_action = JcDisconnect d\<rparr>"

definition jdc_fallback :: "jdc_error_kind \<Rightarrow> jdc_error" where
  "jdc_fallback k = \<lparr>jce_kind = k, jce_action = JcFallback\<rparr>"

definition jdc_shutdown :: "jdc_error_kind \<Rightarrow> jdc_error" where
  "jdc_shutdown k = \<lparr>jce_kind = k, jce_action = JcShutdown\<rparr>"

lemma jdc_error_action [simp]:
  "jce_action (jdc_log k) = JcLog" "jce_action (jdc_disconnect k d) = JcDisconnect d"
  "jce_action (jdc_fallback k) = JcFallback" "jce_action (jdc_shutdown k) = JcShutdown"
  by (simp_all add: jdc_log_def jdc_disconnect_def jdc_fallback_def jdc_shutdown_def)

section \<open>Computations\<close>

datatype jdc_fault = JcPanic | JcRaised jdc_error

type_synonym ('c, 'r) jcomp = "('c, 'r, jdc_fault) computation"

definition j_try :: "('r, jdc_error) result \<Rightarrow> ('c, 'r) jcomp" where
  "j_try r s = (map_err JcRaised r, s)"

definition j_raise :: "jdc_error \<Rightarrow> ('c, 'r) jcomp" where
  "j_raise e s = (Err (JcRaised e), s)"

definition j_panic :: "('c, 'r) jcomp" where
  "j_panic s = (Err JcPanic, s)"

definition j_expect :: "'r option \<Rightarrow> ('c, 'r) jcomp" where
  "j_expect x = (case x of None \<Rightarrow> j_panic | Some y \<Rightarrow> c_return y)"

text \<open>A library method whose error is converted.\<close>

definition j_call :: "('err \<Rightarrow> jdc_error) \<Rightarrow> ('c \<Rightarrow> ('r, 'err) result \<times> 'c) \<Rightarrow> ('c, 'r) jcomp" where
  "j_call f op s = (let (r, s') = op s in (map_err (\<lambda>e. JcRaised (f e)) r, s'))"

definition j_guard :: "bool \<Rightarrow> jdc_error \<Rightarrow> ('c, unit) jcomp" where
  "j_guard b e = (if b then c_return () else j_raise e)"

text \<open>A loop that stops at the first fault.\<close>

fun j_for :: "'k list \<Rightarrow> ('k \<Rightarrow> ('c, unit) jcomp) \<Rightarrow> ('c, unit) jcomp" where
  "j_for [] f = c_return ()"
| "j_for (x # xs) f = c_bind (f x) (\<lambda>_. j_for xs f)"

lemma wp_jdc [wp_rules]:
  "c_wp (j_try r) Q E s = (case r of Inl e \<Rightarrow> E (JcRaised e) s | Inr x \<Rightarrow> Q x s)"
  "c_wp (j_raise e) Q E s = E (JcRaised e) s"
  "c_wp j_panic Q E s = E JcPanic s"
  "c_wp (j_expect y) Q E s = (case y of None \<Rightarrow> E JcPanic s | Some x \<Rightarrow> Q x s)"
  by (simp_all add: c_wp_def j_try_def j_raise_def j_expect_def j_panic_def c_return_def
      split: sum.splits option.splits)

lemma wp_j_guard [wp_rules]:
  "c_wp (j_guard b e) Q E s = (if b then Q () s else E (JcRaised e) s)"
  by (simp add: j_guard_def wp_rules)

lemma wp_j_call [wp_rules]:
  "c_wp (j_call f op) Q E s = (case op s of (Inl e, s') \<Rightarrow> E (JcRaised (f e)) s' | (Inr x, s') \<Rightarrow> Q x s')"
  by (auto simp: c_wp_def j_call_def split: prod.splits sum.splits)

lemma wp_j_for:
  assumes "\<And>x s. x \<in> set xs \<Longrightarrow> I s \<Longrightarrow> c_wp (f x) (\<lambda>_. I) E s" "I s"
  shows "c_wp (j_for xs f) (\<lambda>_. I) E s"
  using assms
proof (induction xs arbitrary: s)
  case (Cons x xs)
  then have "c_wp (f x) (\<lambda>_. I) E s" by simp
  then show ?case
    by (auto simp: wp_rules intro!: Cons.IH Cons.prems elim!: wp_mono)
qed (simp add: wp_rules)

section \<open>Modes\<close>

datatype config_jdc_mode = FullTemplate | CoinbaseOnly | SoloMining

record jd_mode =
  jm_inner :: config_jdc_mode
  jm_config_mode :: config_jdc_mode

definition jd_mode_new :: "config_jdc_mode \<Rightarrow> jd_mode" where
  "jd_mode_new config_mode = \<lparr>jm_inner = SoloMining, jm_config_mode = config_mode\<rparr>"

definition jd_mode_activate :: "jd_mode \<Rightarrow> jd_mode" where
  "jd_mode_activate m = m\<lparr>jm_inner := jm_config_mode m\<rparr>"

definition set_solo_mining :: "jd_mode \<Rightarrow> jd_mode" where
  "set_solo_mining m = m\<lparr>jm_inner := SoloMining\<rparr>"

definition is_solo_mining :: "jd_mode \<Rightarrow> bool" where
  "is_solo_mining m = (jm_inner m = SoloMining)"

definition is_full_template :: "jd_mode \<Rightarrow> bool" where
  "is_full_template m = (jm_inner m = FullTemplate)"

definition is_coinbase_only :: "jd_mode \<Rightarrow> bool" where
  "is_coinbase_only m = (jm_inner m = CoinbaseOnly)"

section \<open>Upstream state and pending requests\<close>

datatype upstream_state = UpNoChannel | UpPending | UpConnected | UpSoloMining

datatype pending_channel_request =
    PendingExtended downstream_id open_extended_mining_channel
  | PendingStandard downstream_id open_standard_mining_channel

definition pending_downstream_id :: "pending_channel_request \<Rightarrow> downstream_id" where
  "pending_downstream_id r = (case r of PendingExtended d _ \<Rightarrow> d | PendingStandard d _ \<Rightarrow> d)"

definition pending_message :: "pending_channel_request \<Rightarrow> mining_from_client" where
  "pending_message r = (case r of
     PendingExtended _ m \<Rightarrow> OpenExtendedMiningChannel m
   | PendingStandard _ m \<Rightarrow> OpenStandardMiningChannel m)"

definition pending_hashrate :: "pending_channel_request \<Rightarrow> f32" where
  "pending_hashrate r = (case r of
     PendingExtended _ m \<Rightarrow> oem_nominal_hash_rate m
   | PendingStandard _ m \<Rightarrow> osm_nominal_hash_rate m)"

end
