(* ===== verification/Jdc_Cache.thy ===== *)
theory Jdc_Cache
  imports Jdc_Types "HOL-Library.Multiset"
begin

text \<open>
  The cache of shares that wait for the pool's answer to their custom job (\<open>utils.rs\<close>): at most
  \<open>CACHED_SHARES_CAPACITY\<close> shares per template, in a binary heap whose root is the worst share.

  A \<open>BinaryHeap\<close> is the list of its elements in the order in which it would pop them; among equal
  hashes that order is not specified, and the order of an iteration never is (it is a parameter
  where the manager iterates).  The order of the hashes is the one of the type \<open>sha256d::Hash\<close>,
  given by a key.

  The locale \<open>worst_first\<close> is the contract of such a heap; the bound on what the cache keeps is proved
  there once and used through its interpretation on the list.
\<close>

section \<open>Heaps\<close>

record share_by_diff =
  sbd_share :: submit_shares_extended
  sbd_share_hash :: bytes

type_synonym share_heap = "share_by_diff list"

definition heap_rank :: "(bytes \<Rightarrow> nat) \<Rightarrow> share_by_diff \<Rightarrow> int" where
  "heap_rank key e = - int (key (sbd_share_hash e))"

definition heap_push :: "(bytes \<Rightarrow> nat) \<Rightarrow> share_by_diff \<Rightarrow> share_heap \<Rightarrow> share_heap" where
  "heap_push key e h = insort_key (heap_rank key) e h"

definition heap_peek :: "share_heap \<Rightarrow> share_by_diff option" where
  "heap_peek h = (case h of [] \<Rightarrow> None | e # _ \<Rightarrow> Some e)"

definition heap_pop :: "share_heap \<Rightarrow> share_heap" where
  "heap_pop h = tl h"

definition CACHED_SHARES_CAPACITY :: nat where
  "CACHED_SHARES_CAPACITY = 100"

definition add_share_to_cache :: "(bytes \<Rightarrow> nat) \<Rightarrow> share_by_diff \<Rightarrow> share_heap \<Rightarrow> share_heap" where
  "add_share_to_cache key e h =
     (if length h < CACHED_SHARES_CAPACITY then heap_push key e h
      else (case heap_peek h of
              None \<Rightarrow> h
            | Some worst \<Rightarrow>
                if key (sbd_share_hash e) < key (sbd_share_hash worst)
                then heap_push key e (heap_pop h) else h))"

section \<open>The best elements of a sequence\<close>

text \<open>Adding an element to the \<open>n\<close> least ones of a list keeps the \<open>n\<close> least ones.\<close>

lemma take_insort_take:
  fixes xs :: "nat list"
  shows "take n (insort x (take n xs)) = take n (insort x xs)"
proof (induction xs arbitrary: n)
  case (Cons y xs)
  show ?case
  proof (cases n)
    case (Suc k)
    then show ?thesis using Cons.IH [of k] by (cases k) auto
  qed simp
qed simp

lemma take_sort_Cons:
  fixes xs :: "nat list"
  shows "take n (sort (x # xs)) = take n (insort x (take n (sort xs)))"
  by (simp add: take_insort_take)

lemma sort_snoc: "sort (xs @ [x]) = insort x (sort (xs :: nat list))"
proof -
  have "mset (sort (xs @ [x])) = mset (insort x (sort xs))" by simp
  then show ?thesis by (intro properties_for_sort) (simp_all add: sorted_insort)
qed

lemma insort_append_less: "(x::nat) < w \<Longrightarrow> insort x (r @ [w]) = insort x r @ [w]"
  by (induction r) auto

lemma sorted_mset_eq: "sorted xs \<Longrightarrow> sorted ys \<Longrightarrow> mset xs = mset (ys :: nat list) \<Longrightarrow> xs = ys"
  by (metis properties_for_sort)

lemma insort_append_ge:
  assumes "(w::nat) \<le> x" "sorted (r @ [w])"
  shows "insort x (r @ [w]) = r @ [w, x]"
  by (rule sorted_mset_eq) (use assms in \<open>auto simp: sorted_insort sorted_append\<close>)

section \<open>The contract of the heap\<close>

locale worst_first =
  fixes push :: "'e \<Rightarrow> 'h \<Rightarrow> 'h" and peek :: "'h \<Rightarrow> 'e option" and pop :: "'h \<Rightarrow> 'h"
    and items :: "'h \<Rightarrow> 'e multiset" and invar :: "'h \<Rightarrow> bool" and key :: "'e \<Rightarrow> nat"
  assumes items_push: "invar h \<Longrightarrow> items (push e h) = add_mset e (items h)"
    and invar_push: "invar h \<Longrightarrow> invar (push e h)"
    and peek_None: "invar h \<Longrightarrow> peek h = None \<longleftrightarrow> items h = {#}"
    and peek_worst: "invar h \<Longrightarrow> peek h = Some w \<Longrightarrow> w \<in># items h \<and> (\<forall>e \<in># items h. key e \<le> key w)"
    and items_pop: "invar h \<Longrightarrow> peek h = Some w \<Longrightarrow> items (pop h) = items h - {#w#}"
    and invar_pop: "invar h \<Longrightarrow> invar (pop h)"
begin

lemma keys_pop:
  assumes "invar h" "peek h = Some w"
  shows "image_mset key (items h) = add_mset (key w) (image_mset key (items (pop h)))"
proof -
  have "items h = add_mset w (items (pop h))" using peek_worst [OF assms] items_pop [OF assms] by simp
  then show ?thesis by simp
qed

text \<open>The worst key is the last one of the sorted keys.\<close>

lemma sorted_keys_worst:
  assumes "invar h" "peek h = Some w" "sorted ks" "mset ks = image_mset key (items h)"
  shows "ks = sorted_list_of_multiset (image_mset key (items (pop h))) @ [key w]"
proof -
  let ?r = "sorted_list_of_multiset (image_mset key (items (pop h)))"
  have "set ?r \<subseteq> key ` set_mset (items h)" using items_pop [OF assms(1,2)] by (auto dest: in_diffD)
  then have "sorted (?r @ [key w])" using peek_worst [OF assms(1,2)]
    by (auto simp: sorted_append)
  moreover have "mset (?r @ [key w]) = mset ks" using keys_pop [OF assms(1,2)] assms(4) by simp
  ultimately show ?thesis using assms(3) by (metis properties_for_sort)
qed

text \<open>
  One step of a bounded cache on the keys: with the \<open>n\<close> least keys of what was offered before, it
  keeps the \<open>n\<close> least keys of what was offered now.
\<close>

lemma bounded_step:
  assumes inv: "invar h" and n: "0 < n" and keys: "mset (take n (sort ks)) = image_mset key (items h)"
    and sz: "size (items h) = min n (length ks)"
    and step: "h' = (if size (items h) < n then push e h
       else (case peek h of None \<Rightarrow> h | Some w \<Rightarrow> if key e < key w then push e (pop h) else h))"
  shows "invar h' \<and> mset (take n (sort (ks @ [key e]))) = image_mset key (items h') \<and>
    size (items h') = min n (Suc (length ks))"
proof (cases "size (items h) < n")
  case True
  then have "take n (sort ks) = sort ks" "take n (insort (key e) (sort ks)) = insort (key e) (sort ks)"
    using sz by simp_all
  moreover have "h' = push e h" using True step by simp
  ultimately show ?thesis using True inv keys sz
    by (auto simp: sort_snoc items_push invar_push)
next
  case False
  then have len: "size (items h) = n" "n \<le> length ks" using sz by auto
  obtain w where w: "peek h = Some w" using peek_None [OF inv] len n by fastforce
  let ?t = "take n (sort ks)" and ?r = "sorted_list_of_multiset (image_mset key (items (pop h)))"
  have t: "?t = ?r @ [key w]"
    by (rule sorted_keys_worst [OF inv w]) (use keys in \<open>simp_all add: sorted_wrt_take\<close>)
  have "length (take n (sort ks)) = n" using len by simp
  then have lr: "length ?r = n - 1" unfolding t by simp
  have ins: "take n (sort (ks @ [key e])) = take n (insort (key e) ?t)"
    by (simp add: sort_snoc take_insort_take)
  have sorted_t: "sorted (?r @ [key w])" unfolding t [symmetric] by (simp add: sorted_wrt_take)
  show ?thesis
  proof (cases "key e < key w")
    case lt: True
    have "insort (key e) (?r @ [key w]) = insort (key e) ?r @ [key w]"
      using lt by (rule insort_append_less)
    then have "take n (insort (key e) ?t) = insort (key e) ?r" using t lr n by simp
    moreover have "h' = push e (pop h)" using step False w lt by simp
    moreover have "size (items (pop h)) = n - 1" using items_pop [OF inv w] peek_worst [OF inv w] len
      by (simp add: size_Diff_singleton)
    ultimately show ?thesis using ins inv n len by (simp add: items_push invar_push invar_pop)
  next
    case ge: False
    have "insort (key e) (?r @ [key w]) = ?r @ [key w, key e]"
      using ge sorted_t by (intro insort_append_ge) simp_all
    then have "take n (insort (key e) ?t) = ?t" using t lr n by simp
    moreover have "h' = h" using step False w ge by simp
    ultimately show ?thesis using ins inv keys len by simp
  qed
qed

end


section \<open>The list heap\<close>

lemma mset_insort_key [simp]: "mset (insort_key f x xs) = add_mset x (mset xs)"
  by (induction xs) simp_all

lemma heap_root_worst:
  assumes "sorted (map (heap_rank key) (w # h))" "e \<in> set (w # h)"
  shows "key (sbd_share_hash e) \<le> key (sbd_share_hash w)"
  using assms by (auto simp: heap_rank_def)

interpretation list_heap: worst_first "heap_push key" heap_peek heap_pop mset
  "\<lambda>h. sorted (map (heap_rank key) h)" "\<lambda>e. key (sbd_share_hash e)"
proof (unfold_locales, goal_cases)
  case (4 h w)
  then show ?case using heap_root_worst [of key w "tl h"] by (cases h) (auto simp: heap_peek_def)
qed (auto simp: heap_push_def heap_peek_def heap_pop_def sorted_insort_key sorted_tl map_tl split: list.splits)

lemma fold_add_share:
  "sorted (map (heap_rank key) (fold (add_share_to_cache key) es [])) \<and>
   mset (take CACHED_SHARES_CAPACITY (sort (map (\<lambda>e. key (sbd_share_hash e)) es))) =
     image_mset (\<lambda>e. key (sbd_share_hash e)) (mset (fold (add_share_to_cache key) es [])) \<and>
   size (mset (fold (add_share_to_cache key) es [])) = min CACHED_SHARES_CAPACITY (length es)"
proof (induction es rule: rev_induct)
  case (snoc e es)
  let ?h = "fold (add_share_to_cache key) es []"
  have step: "add_share_to_cache key e ?h = (if size (mset ?h) < CACHED_SHARES_CAPACITY then heap_push key e ?h
      else (case heap_peek ?h of None \<Rightarrow> ?h | Some w \<Rightarrow>
        if key (sbd_share_hash e) < key (sbd_share_hash w) then heap_push key e (heap_pop ?h) else ?h))"
    by (subst add_share_to_cache_def) (simp only: size_mset)
  have "0 < CACHED_SHARES_CAPACITY" by (simp add: CACHED_SHARES_CAPACITY_def)
  from list_heap.bounded_step [where ks = "map (\<lambda>e. key (sbd_share_hash e)) es", OF _ this _ _ step] snoc.IH
  show ?case by simp
qed (simp add: CACHED_SHARES_CAPACITY_def)

text \<open>
  C29. The share cache keeps the best shares.  Whatever shares are offered for a template, in
  whatever order, the cache afterwards holds shares whose hashes are exactly the hundred least of
  all the hashes offered (all of them when there were fewer), as a multiset; the loop that inserts,
  compares with the root and evicts is equivalent to sorting everything and keeping the first
  hundred.
\<close>

theorem cached_shares_best:
  "mset (map (\<lambda>e. key (sbd_share_hash e)) (fold (add_share_to_cache key) es [])) =
     mset (take 100 (sort (map (\<lambda>e. key (sbd_share_hash e)) es)))"
  using fold_add_share [of key es] by (simp add: CACHED_SHARES_CAPACITY_def)

end
