(* ===== verification/Jdc_Manager.thy ===== *)
theory Jdc_Manager
  imports Jdc_Cache
begin

text \<open>
  The state of the job declarator client's channel manager (\<open>channel_manager/mod.rs\<close>), the queues it
  writes to (\<open>RouteMessageTo\<close> of \<open>downstream_message_handler.rs\<close>) and the operations on it that are
  not handlers of a message: construction, reset, connections, tokens and vardiff.

  Slots of the extranonce allocator are freed whenever some channel is dropped, which may happen in
  another task: the allocator in the state is the one that was built (its prefix and sizes), and its
  answers are inputs, numbered by the allocations made so far.
\<close>

section \<open>Other crates\<close>

datatype client_share_result = UpstreamShareValid bytes | UpstreamBlockFound bytes

datatype client_extended_error = ClientChainTipMismatch | ClientChannelOther string

text \<open>The client side of the extended channel with the pool.\<close>

record ('u, 'p) upstream_api =
  ux_new :: "channel_id \<Rightarrow> string \<Rightarrow> 'p \<Rightarrow> bytes \<Rightarrow> f32 \<Rightarrow> bool \<Rightarrow> u16 \<Rightarrow> 'u"
  ux_get_channel_id :: "'u \<Rightarrow> channel_id"
  ux_get_extranonce_prefix :: "'u \<Rightarrow> bytes"
  ux_get_rollable_extranonce_size :: "'u \<Rightarrow> u16"
  ux_get_full_extranonce_size :: "'u \<Rightarrow> nat"
  ux_set_nominal_hashrate :: "f32 \<Rightarrow> 'u \<Rightarrow> 'u"
  ux_set_target :: "bytes \<Rightarrow> 'u \<Rightarrow> 'u"
  ux_set_extranonce_prefix :: "'p \<Rightarrow> 'u \<Rightarrow> (unit, string) result \<times> 'u"
  ux_validate_share :: "submit_shares_extended \<Rightarrow> 'u
    \<Rightarrow> (client_share_result, share_validation_error) result \<times> 'u"
  ux_on_share_acknowledgement :: "u32 \<Rightarrow> u64 \<Rightarrow> 'u \<Rightarrow> 'u"
  ux_on_share_rejection :: "error_code \<Rightarrow> 'u \<Rightarrow> 'u"
  ux_on_chain_tip_update :: "tdp_set_new_prev_hash \<Rightarrow> 'u \<Rightarrow> 'u"
  ux_on_set_custom_mining_job_success :: "set_custom_mining_job \<Rightarrow> channel_id \<times> u32 \<times> u32 \<Rightarrow> 'u
    \<Rightarrow> (unit, client_extended_error) result \<times> 'u"

record 'f job_factory_api =
  jf_new :: "bool \<Rightarrow> string option \<Rightarrow> string option \<Rightarrow> 'f"
  jf_new_custom_job :: "channel_id \<Rightarrow> u32 \<Rightarrow> bytes \<Rightarrow> tdp_set_new_prev_hash \<Rightarrow> new_template \<Rightarrow> tx_out list
    \<Rightarrow> nat \<Rightarrow> 'f \<Rightarrow> (set_custom_mining_job, string) result"
  jf_new_coinbase_tx_prefix_and_suffix :: "new_template \<Rightarrow> tx_out list \<Rightarrow> nat \<Rightarrow> 'f
    \<Rightarrow> (bytes \<times> bytes, string) result \<times> 'f"

text \<open>
  \<open>jl_hash_key\<close> orders share hashes as their type does, \<open>jl_heap_order\<close> is the order in which a
  heap is iterated, \<open>jl_encode\<close> tells which messages fit a frame.
\<close>

record ('s, 'x, 'g, 'v, 'u, 'f, 'a, 'p) jdc_lib =
  jl_standard :: "('s, 'p) standard_api"
  jl_extended :: "('x, 'p) extended_api"
  jl_group :: "'g group_api"
  jl_vardiff :: "'v vardiff_api"
  jl_upstream :: "('u, 'p) upstream_api"
  jl_job_factory :: "'f job_factory_api"
  jl_standard_new :: "channel_id \<Rightarrow> string \<Rightarrow> 'p \<Rightarrow> bytes \<Rightarrow> f32 \<Rightarrow> nat \<Rightarrow> f32 \<Rightarrow> string option \<Rightarrow> string
    \<Rightarrow> ('s, standard_channel_error) result"
  jl_extended_new :: "channel_id \<Rightarrow> string \<Rightarrow> 'p \<Rightarrow> bytes \<Rightarrow> f32 \<Rightarrow> bool \<Rightarrow> u16 \<Rightarrow> nat \<Rightarrow> f32 \<Rightarrow> string option
    \<Rightarrow> string \<Rightarrow> ('x, extended_channel_error) result"
  jl_group_new :: "channel_id \<Rightarrow> nat \<Rightarrow> string option \<Rightarrow> string \<Rightarrow> ('g, string) result"
  jl_standard_set_extranonce_prefix :: "'p \<Rightarrow> 's \<Rightarrow> (unit, standard_channel_error) result \<times> 's"
  jl_extended_set_extranonce_prefix :: "'p \<Rightarrow> 'x \<Rightarrow> (unit, extended_channel_error) result \<times> 'x"
  jl_group_set_full_extranonce_size :: "nat \<Rightarrow> 'g \<Rightarrow> 'g"
  jl_bytes_needed :: "u32 \<Rightarrow> u8"
  jl_allocator_new :: "bytes \<Rightarrow> u8 \<Rightarrow> u32 \<Rightarrow> ('a, string) result"
  jl_allocator_from_upstream_prefix :: "bytes \<Rightarrow> bytes \<Rightarrow> u8 \<Rightarrow> u32 \<Rightarrow> ('a, string) result"
  jl_prefix_from_wire :: "bytes \<Rightarrow> ('p, string) result"
  jl_prefix_bytes :: "'p \<Rightarrow> bytes"
  jl_max_extranonce_len :: nat
  jl_deserialize_outputs :: "bytes \<Rightarrow> tx_out list option"
  jl_consensus_deserialize_outputs :: "bytes \<Rightarrow> tx_out list option"
  jl_serialize_outputs :: "tx_out list \<Rightarrow> bytes"
  jl_transaction_wtxid :: "bytes \<Rightarrow> bytes option"
  jl_tx_metrics :: tx_metrics
  jl_limits :: sv2_limits
  jl_fits_b032 :: "nat \<Rightarrow> bool"
  jl_as_utf8_or_hex :: "string \<Rightarrow> string"
  jl_fits_str0255 :: "nat \<Rightarrow> bool"
  jl_encode :: "mining_from_client \<Rightarrow> bool"
  jl_encode_extensions :: "u16 \<Rightarrow> u16 list \<Rightarrow> bool"
  jl_hash_key :: "bytes \<Rightarrow> nat"
  jl_heap_order :: "share_heap \<Rightarrow> share_heap"
  jl_message_types :: message_types

section \<open>State\<close>

text \<open>What the manager sends to the job declaration server.\<close>

datatype jdc_request =
    RequestToken string u32
  | RequestDeclare declare_mining_job
  | RequestMissing provide_missing_transactions_success
  | RequestPush push_solution

datatype jdc_route =
    ToUpstream mining_from_client
  | ToUpstreamExtensions u16 "u16 list"
  | ToJobDeclarator jdc_request
  | ToTemplateProvider tdp_message
  | ToDownstream downstream_id mining

record job_token =
  jt_request_id :: u32
  jt_mining_job_token :: bytes
  jt_coinbase_outputs :: bytes

record declared_job =
  dj_declare_mining_job :: "declare_mining_job option"
  dj_template :: new_template
  dj_prev_hash :: "tdp_set_new_prev_hash option"
  dj_set_custom_mining_job :: "set_custom_mining_job option"
  dj_coinbase_output :: bytes
  dj_tx_list :: "bytes list"

record ('s, 'x, 'g) jdc_downstream =
  jn_require_std_job :: bool
  jn_group_channel :: 'g
  jn_extended_channels :: "(channel_id, 'x) shared_map"
  jn_standard_channels :: "(channel_id, 's) shared_map"
  jn_channel_id_factory :: u32
  jn_negotiated_extensions :: "u16 list"
  jn_supported_extensions :: "u16 list"
  jn_required_extensions :: "u16 list"

text \<open>
  \<open>jc_sent\<close> are the messages handed to the queues, in order; \<open>jc_allocations\<close> numbers the answers of
  the extranonce allocator.
\<close>

record ('s, 'x, 'g, 'v, 'u, 'f, 'a) jdc_manager =
  jc_downstream :: "(downstream_id, ('s, 'x, 'g) jdc_downstream) shared_map"
  jc_downstream_sender :: "(downstream_id, unit) shared_map"
  jc_extranonce_allocator :: 'a
  jc_request_id_factory :: u32
  jc_downstream_id_factory :: nat
  jc_sequence_number_factory :: u32
  jc_last_future_template :: "new_template option"
  jc_last_new_prev_hash :: "tdp_set_new_prev_hash option"
  jc_allocate_tokens :: "job_token list"
  jc_template_store :: "(u64, new_template) shared_map"
  jc_last_declare_job_store :: "(u32, declared_job) shared_map"
  jc_template_to_upstream_job :: "(u64, u32) shared_map"
  jc_job_to_template :: "(downstream_id \<times> channel_id \<times> u32, u64) shared_map"
  jc_coinbase_outputs :: bytes
  jc_upstream_channel :: "'u option"
  jc_pool_tag_string :: "string option"
  jc_pending_downstream_requests :: "pending_channel_request list"
  jc_job_factory :: "'f option"
  jc_vardiff :: "(downstream_id \<times> channel_id, 'v) shared_map"
  jc_negotiated_extensions :: "u16 list"
  jc_supported_extensions :: "u16 list"
  jc_required_extensions :: "u16 list"
  jc_cached_shares :: "(u64, share_heap) shared_map"
  jc_miner_tag_string :: string
  jc_share_batch_size :: nat
  jc_shares_per_minute :: f32
  jc_user_identity :: "string option"
  jc_reserved_downstream_rollable :: u8
  jc_upstream_state :: upstream_state
  jc_mode :: jd_mode
  jc_sent :: "jdc_route list"
  jc_allocations :: nat

text \<open>Inputs of one event: which queues have a receiver, and the answers of the allocator.\<close>

record ('v, 'a, 'p) jdc_env =
  jw_upstream_ok :: bool
  jw_jd_ok :: bool
  jw_tp_ok :: bool
  jw_downstream_ok :: "downstream_id \<Rightarrow> bool"
  jw_allocate_standard :: "'a \<Rightarrow> nat \<Rightarrow> ('p, string) result"
  jw_allocate_extended :: "'a \<Rightarrow> nat \<Rightarrow> nat \<Rightarrow> ('p, string) result"
  jw_vardiff_new :: "('v, string) result"

record jdc_config =
  jcf_share_batch_size :: nat
  jcf_shares_per_minute :: f32
  jcf_jdc_signature :: string
  jcf_reserved_downstream_rollable :: u8

definition JDC_MAX_CHANNELS :: u32 where
  "JDC_MAX_CHANNELS = 65536"

definition JDC_LOCAL_PREFIX_BYTES :: "('s, 'x, 'g, 'v, 'u, 'f, 'a, 'p) jdc_lib \<Rightarrow> u8" where
  "JDC_LOCAL_PREFIX_BYTES lib = jl_bytes_needed lib JDC_MAX_CHANNELS"

definition SOLO_FULL_EXTRANONCE_SIZE :: u8 where
  "SOLO_FULL_EXTRANONCE_SIZE = 20"

definition jdc_manager_new ::
  "('s, 'x, 'g, 'v, 'u, 'f, 'a, 'p) jdc_lib \<Rightarrow> jdc_config \<Rightarrow> bytes \<Rightarrow> u16 list \<Rightarrow> u16 list \<Rightarrow> jd_mode
    \<Rightarrow> (('s, 'x, 'g, 'v, 'u, 'f, 'a) jdc_manager, jdc_error) result" where
  "jdc_manager_new lib config coinbase_outputs supported required mode =
     rbind (map_err (\<lambda>e. jdc_shutdown (JkChannelSv2 (ExtranonceError e)))
       (jl_allocator_new lib [] SOLO_FULL_EXTRANONCE_SIZE JDC_MAX_CHANNELS)) (\<lambda>allocator.
     Ok \<lparr>jc_downstream = sm_new, jc_downstream_sender = sm_new, jc_extranonce_allocator = allocator,
         jc_request_id_factory = 0, jc_downstream_id_factory = 0, jc_sequence_number_factory = 1,
         jc_last_future_template = None, jc_last_new_prev_hash = None, jc_allocate_tokens = [],
         jc_template_store = sm_new, jc_last_declare_job_store = sm_new, jc_template_to_upstream_job = sm_new,
         jc_job_to_template = sm_new, jc_coinbase_outputs = coinbase_outputs, jc_upstream_channel = None,
         jc_pool_tag_string = None, jc_pending_downstream_requests = [], jc_job_factory = None, jc_vardiff = sm_new,
         jc_negotiated_extensions = [], jc_supported_extensions = supported, jc_required_extensions = required,
         jc_cached_shares = sm_new, jc_miner_tag_string = jcf_jdc_signature config,
         jc_share_batch_size = jcf_share_batch_size config, jc_shares_per_minute = jcf_shares_per_minute config,
         jc_user_identity = None, jc_reserved_downstream_rollable = jcf_reserved_downstream_rollable config,
         jc_upstream_state = UpSoloMining, jc_mode = mode, jc_sent = [], jc_allocations = 0\<rparr>)"

definition reset_runtime_state ::
  "('s, 'x, 'g, 'v, 'u, 'f, 'a, 'p) jdc_lib \<Rightarrow> bytes \<Rightarrow> (('s, 'x, 'g, 'v, 'u, 'f, 'a) jdc_manager, unit) jcomp" where
  "reset_runtime_state lib coinbase_outputs =
     c_bind (c_modify (\<lambda>cm. cm\<lparr>jc_downstream := sm_clear (jc_downstream cm),
         jc_template_store := sm_clear (jc_template_store cm),
         jc_last_declare_job_store := sm_clear (jc_last_declare_job_store cm),
         jc_template_to_upstream_job := sm_clear (jc_template_to_upstream_job cm),
         jc_job_to_template := sm_clear (jc_job_to_template cm), jc_pending_downstream_requests := [],
         jc_cached_shares := sm_clear (jc_cached_shares cm), jc_allocate_tokens := [],
         jc_upstream_channel := None, jc_pool_tag_string := None, jc_job_factory := None,
         jc_last_future_template := None, jc_last_new_prev_hash := None, jc_negotiated_extensions := [],
         jc_coinbase_outputs := coinbase_outputs, jc_request_id_factory := 0, jc_downstream_id_factory := 0,
         jc_sequence_number_factory := 1, jc_vardiff := sm_clear (jc_vardiff cm)\<rparr>)) (\<lambda>_.
     c_bind (j_expect (case jl_allocator_new lib [] SOLO_FULL_EXTRANONCE_SIZE JDC_MAX_CHANNELS of
         Inl _ \<Rightarrow> None | Inr a \<Rightarrow> Some a)) (\<lambda>allocator.
     c_modify (\<lambda>cm. cm\<lparr>jc_extranonce_allocator := allocator\<rparr>)))"

definition set_user_identity :: "string \<Rightarrow> (('s, 'x, 'g, 'v, 'u, 'f, 'a) jdc_manager, unit) jcomp" where
  "set_user_identity identity cm =
     (if jc_user_identity cm = None then (Ok (), cm\<lparr>jc_user_identity := Some identity\<rparr>) else (Err JcPanic, cm))"

definition user_identity :: "(('s, 'x, 'g, 'v, 'u, 'f, 'a) jdc_manager, string) jcomp" where
  "user_identity = c_bind (c_get jc_user_identity) j_expect"

section \<open>Queues\<close>

text \<open>
  A message for a connection that is gone is dropped; a message that does not fit a frame or whose
  queue is closed is not handed over.  The callers of \<open>forward\<close> only log a failure.
\<close>

definition jdc_delivered ::
  "('s, 'x, 'g, 'v, 'u, 'f, 'a, 'p) jdc_lib \<Rightarrow> ('w, 'b, 'q) jdc_env \<Rightarrow> jdc_route
    \<Rightarrow> ('s, 'x, 'g, 'v, 'u, 'f, 'a) jdc_manager \<Rightarrow> bool" where
  "jdc_delivered lib env m cm = (case m of
     ToDownstream d _ \<Rightarrow> sm_contains_key (jc_downstream_sender cm) d \<and> jw_downstream_ok env d
   | ToUpstream msg \<Rightarrow> jl_encode lib msg \<and> jw_upstream_ok env
   | ToUpstreamExtensions i exts \<Rightarrow> jl_encode_extensions lib i exts \<and> jw_upstream_ok env
   | ToJobDeclarator _ \<Rightarrow> jw_jd_ok env
   | ToTemplateProvider _ \<Rightarrow> jw_tp_ok env)"

definition jdc_forward ::
  "('s, 'x, 'g, 'v, 'u, 'f, 'a, 'p) jdc_lib \<Rightarrow> ('w, 'b, 'q) jdc_env \<Rightarrow> jdc_route
    \<Rightarrow> ('s, 'x, 'g, 'v, 'u, 'f, 'a) jdc_manager \<Rightarrow> ('s, 'x, 'g, 'v, 'u, 'f, 'a) jdc_manager" where
  "jdc_forward lib env m cm = (if jdc_delivered lib env m cm then cm\<lparr>jc_sent := jc_sent cm @ [m]\<rparr> else cm)"

definition jdc_forward_each ::
  "('s, 'x, 'g, 'v, 'u, 'f, 'a, 'p) jdc_lib \<Rightarrow> ('w, 'b, 'q) jdc_env \<Rightarrow> jdc_route list
    \<Rightarrow> (('s, 'x, 'g, 'v, 'u, 'f, 'a) jdc_manager, unit) jcomp" where
  "jdc_forward_each lib env ms = c_modify (fold (jdc_forward lib env) ms)"

text \<open>Sends whose failure is an error of the handler.\<close>

definition jdc_send_upstream ::
  "('s, 'x, 'g, 'v, 'u, 'f, 'a, 'p) jdc_lib \<Rightarrow> ('w, 'b, 'q) jdc_env \<Rightarrow> mining_from_client
    \<Rightarrow> (('s, 'x, 'g, 'v, 'u, 'f, 'a) jdc_manager, unit) jcomp" where
  "jdc_send_upstream lib env m =
     c_bind (j_guard (jl_encode lib m) (jdc_shutdown JkParser)) (\<lambda>_.
     c_bind (j_guard (jw_upstream_ok env) (jdc_fallback JkChannelErrorSender)) (\<lambda>_.
     c_modify (\<lambda>cm. cm\<lparr>jc_sent := jc_sent cm @ [ToUpstream m]\<rparr>)))"

definition jdc_send_jd ::
  "('w, 'b, 'q) jdc_env \<Rightarrow> jdc_request \<Rightarrow> (('s, 'x, 'g, 'v, 'u, 'f, 'a) jdc_manager, unit) jcomp" where
  "jdc_send_jd env m =
     c_bind (j_guard (jw_jd_ok env) (jdc_fallback JkChannelErrorSender)) (\<lambda>_.
     c_modify (\<lambda>cm. cm\<lparr>jc_sent := jc_sent cm @ [ToJobDeclarator m]\<rparr>))"

definition jdc_send_tp ::
  "('w, 'b, 'q) jdc_env \<Rightarrow> tdp_message \<Rightarrow> (('s, 'x, 'g, 'v, 'u, 'f, 'a) jdc_manager, unit) jcomp" where
  "jdc_send_tp env m =
     c_bind (j_guard (jw_tp_ok env) (jdc_shutdown JkChannelErrorSender)) (\<lambda>_.
     c_modify (\<lambda>cm. cm\<lparr>jc_sent := jc_sent cm @ [ToTemplateProvider m]\<rparr>))"

text \<open>A call whose error is ignored (\<open>_ = ...\<close>); a panic is not.\<close>

definition j_ignore :: "('c, unit) jcomp \<Rightarrow> ('c, unit) jcomp" where
  "j_ignore m s = (case m s of (Inl (JcRaised _), s') \<Rightarrow> (Ok (), s') | r \<Rightarrow> r)"

lemma wp_j_ignore [wp_rules]:
  "c_wp (j_ignore m) Q E s = c_wp m Q (\<lambda>e t. case e of JcPanic \<Rightarrow> E JcPanic t | JcRaised _ \<Rightarrow> Q () t) s"
  by (auto simp: c_wp_def j_ignore_def split: prod.splits sum.splits jdc_fault.splits)

text \<open>The outputs the manager pays, with the template's value in the first one: an empty list panics.\<close>

definition set_first_value :: "u64 \<Rightarrow> tx_out list \<Rightarrow> ('c, tx_out list) jcomp" where
  "set_first_value amount outs = (case outs of
     [] \<Rightarrow> j_panic
   | first # rest \<Rightarrow> c_return (first\<lparr>txout_value := amount\<rparr> # rest))"

definition jdc_outputs ::
  "('s, 'x, 'g, 'v, 'u, 'f, 'a, 'p) jdc_lib \<Rightarrow> jdc_error_kind
    \<Rightarrow> (('s, 'x, 'g, 'v, 'u, 'f, 'a) jdc_manager, tx_out list) jcomp" where
  "jdc_outputs lib k = c_bind (c_get jc_coinbase_outputs)
     (\<lambda>bs. j_try (ok_or (jdc_shutdown k) (jl_deserialize_outputs lib bs)))"

section \<open>Connections\<close>

definition jdc_with_registered ::
  "downstream_id \<Rightarrow> (('s, 'x, 'g) jdc_downstream \<Rightarrow> (('s, 'x, 'g, 'v, 'u, 'f, 'a) jdc_manager, 'r) jcomp)
    \<Rightarrow> (('s, 'x, 'g, 'v, 'u, 'f, 'a) jdc_manager, 'r) jcomp" where
  "jdc_with_registered d f = c_bind (c_get (\<lambda>cm. sm_get_cloned (jc_downstream cm) d)) (\<lambda>ds. case ds of
     Some ds \<Rightarrow> f ds
   | None \<Rightarrow> j_raise (jdc_disconnect (JkDownstreamNotFound d) d))"

text \<open>An access to the interior of a connection, whose entry guard is held, and to one channel.\<close>

definition jdc_on ::
  "downstream_id \<Rightarrow> (('s, 'x, 'g) jdc_downstream, 'r) jcomp \<Rightarrow> (('s, 'x, 'g, 'v, 'u, 'f, 'a) jdc_manager, 'r) jcomp" where
  "jdc_on d f cm = (case sm_get_cloned (jc_downstream cm) d of
     Some ds \<Rightarrow> (let (r, ds') = f ds in (r, cm\<lparr>jc_downstream := snd (sm_insert d ds' (jc_downstream cm))\<rparr>))
   | None \<Rightarrow> j_raise (jdc_disconnect (JkDownstreamNotFound d) d) cm)"

definition jdc_on_group :: "('g, 'r) jcomp \<Rightarrow> (('s, 'x, 'g) jdc_downstream, 'r) jcomp" where
  "jdc_on_group f ds = (let (r, g) = f (jn_group_channel ds) in (r, ds\<lparr>jn_group_channel := g\<rparr>))"

definition jdc_on_standard :: "channel_id \<Rightarrow> ('s, 'r) jcomp \<Rightarrow> (('s, 'x, 'g) jdc_downstream, 'r option) jcomp" where
  "jdc_on_standard c f ds = (case sm_get_cloned (jn_standard_channels ds) c of
     None \<Rightarrow> (Ok None, ds)
   | Some ch \<Rightarrow> (let (r, ch') = f ch in (rbind r (\<lambda>x. Ok (Some x)),
       ds\<lparr>jn_standard_channels := snd (sm_insert c ch' (jn_standard_channels ds))\<rparr>)))"

definition jdc_on_extended :: "channel_id \<Rightarrow> ('x, 'r) jcomp \<Rightarrow> (('s, 'x, 'g) jdc_downstream, 'r option) jcomp" where
  "jdc_on_extended c f ds = (case sm_get_cloned (jn_extended_channels ds) c of
     None \<Rightarrow> (Ok None, ds)
   | Some ch \<Rightarrow> (let (r, ch') = f ch in (rbind r (\<lambda>x. Ok (Some x)),
       ds\<lparr>jn_extended_channels := snd (sm_insert c ch' (jn_extended_channels ds))\<rparr>)))"

definition jdc_remove_downstream ::
  "downstream_id \<Rightarrow> ('s, 'x, 'g, 'v, 'u, 'f, 'a) jdc_manager \<Rightarrow> ('s, 'x, 'g, 'v, 'u, 'f, 'a) jdc_manager" where
  "jdc_remove_downstream d cm =
     cm\<lparr>jc_downstream := snd (sm_remove d (jc_downstream cm)),
        jc_job_to_template := sm_retain (\<lambda>key _. fst key \<noteq> d) (jc_job_to_template cm),
        jc_vardiff := sm_retain (\<lambda>key _. fst key \<noteq> d) (jc_vardiff cm),
        jc_downstream_sender := snd (sm_remove d (jc_downstream_sender cm))\<rparr>"

text \<open>
  The reaction to an error: the control of the loop, the cancellation and fallback tokens, and the
  manager.
\<close>

definition jdc_handle_error_action ::
  "bool \<Rightarrow> bool \<Rightarrow> jdc_error \<Rightarrow> ('s, 'x, 'g, 'v, 'u, 'f, 'a) jdc_manager
    \<Rightarrow> loop_control \<times> bool \<times> bool \<times> ('s, 'x, 'g, 'v, 'u, 'f, 'a) jdc_manager" where
  "jdc_handle_error_action cancelled falling_back e cm =
     (if cancelled \<or> falling_back then (LoopContinue, cancelled, falling_back, cm)
      else (case jce_action e of
              JcLog \<Rightarrow> (LoopContinue, cancelled, falling_back, cm)
            | JcFallback \<Rightarrow> (LoopBreak, cancelled, True, cm)
            | JcShutdown \<Rightarrow> (LoopBreak, True, falling_back, cm)
            | JcDisconnect d \<Rightarrow> (LoopContinue, cancelled, falling_back, jdc_remove_downstream d cm)))"

text \<open>
  The group channel of a new connection; \<^const>\<open>None\<close> when it cannot be set up.  A missing template
  or previous hash is \<open>unreachable!\<close>.
\<close>

definition jdc_bootstrap_group_channel ::
  "('s, 'x, 'g, 'v, 'u, 'f, 'a, 'p) jdc_lib \<Rightarrow> channel_id
    \<Rightarrow> (('s, 'x, 'g, 'v, 'u, 'f, 'a) jdc_manager, 'g option) jcomp" where
  "jdc_bootstrap_group_channel lib channel_id = c_bind (c_get id) (\<lambda>cm.
     let full_extranonce_size = (case jc_upstream_channel cm of
           Some u \<Rightarrow> ux_get_full_extranonce_size (jl_upstream lib) u
         | None \<Rightarrow> unat SOLO_FULL_EXTRANONCE_SIZE) in
     c_bind (j_expect (jc_last_future_template cm)) (\<lambda>template.
     c_bind (j_expect (jc_last_new_prev_hash cm)) (\<lambda>prev_hash.
     case jl_group_new lib channel_id full_extranonce_size (jc_pool_tag_string cm) (jc_miner_tag_string cm) of
       Inl _ \<Rightarrow> c_return None
     | Inr group_channel \<Rightarrow>
       (case jl_deserialize_outputs lib (jc_coinbase_outputs cm) of
          None \<Rightarrow> c_return None
        | Some outs \<Rightarrow>
          c_bind (set_first_value (nt_coinbase_tx_value_remaining template) outs) (\<lambda>outs.
          case grp_on_new_template (jl_group lib) template outs group_channel of
            (Inl _, _) \<Rightarrow> c_return None
          | (Inr _, group_channel) \<Rightarrow>
            (case grp_on_set_new_prev_hash (jl_group lib) prev_hash group_channel of
               (Inl _, _) \<Rightarrow> c_return None
             | (Inr _, group_channel) \<Rightarrow> c_return (Some group_channel)))))))"

definition jdc_downstream_new :: "u32 \<Rightarrow> 'g \<Rightarrow> u16 list \<Rightarrow> u16 list \<Rightarrow> ('s, 'x, 'g) jdc_downstream" where
  "jdc_downstream_new channel_id_factory group_channel supported required =
     \<lparr>jn_require_std_job = False, jn_group_channel = group_channel, jn_extended_channels = sm_new,
      jn_standard_channels = sm_new, jn_channel_id_factory = channel_id_factory, jn_negotiated_extensions = [],
      jn_supported_extensions = supported, jn_required_extensions = required\<rparr>"

text \<open>
  The task of an accepted connection after the handshake, up to its own loop.  \<^const>\<open>None\<close> cancels the
  global token; the identifier is consumed all the same.
\<close>

definition jdc_accept_downstream ::
  "('s, 'x, 'g, 'v, 'u, 'f, 'a, 'p) jdc_lib
    \<Rightarrow> (('s, 'x, 'g, 'v, 'u, 'f, 'a) jdc_manager, downstream_id option) jcomp" where
  "jdc_accept_downstream lib =
     c_bind (c_get jc_downstream_id_factory) (\<lambda>d.
     c_bind (c_modify (\<lambda>cm. cm\<lparr>jc_downstream_id_factory := d + 1\<rparr>)) (\<lambda>_.
     c_bind (jdc_bootstrap_group_channel lib 1) (\<lambda>g. case g of
       None \<Rightarrow> c_return None
     | Some group_channel \<Rightarrow>
       c_bind (c_modify (\<lambda>cm. cm\<lparr>
           jc_downstream_sender := snd (sm_insert d () (jc_downstream_sender cm)),
           jc_downstream := snd (sm_insert d
             (jdc_downstream_new 2 group_channel (jc_supported_extensions cm) (jc_required_extensions cm))
             (jc_downstream cm))\<rparr>)) (\<lambda>_. c_return (Some d)))))"

section \<open>Tokens\<close>

definition next_request_id :: "(('s, 'x, 'g, 'v, 'u, 'f, 'a) jdc_manager, u32) jcomp" where
  "next_request_id cm = (Ok (jc_request_id_factory cm), cm\<lparr>jc_request_id_factory := jc_request_id_factory cm + 1\<rparr>)"

definition pop_token :: "(('s, 'x, 'g, 'v, 'u, 'f, 'a) jdc_manager, job_token option) jcomp" where
  "pop_token cm = (case jc_allocate_tokens cm of
     [] \<Rightarrow> (Ok None, cm)
   | t # ts \<Rightarrow> (Ok (Some t), cm\<lparr>jc_allocate_tokens := ts\<rparr>))"

fun allocate_tokens ::
  "('s, 'x, 'g, 'v, 'u, 'f, 'a, 'p) jdc_lib \<Rightarrow> ('w, 'b, 'q) jdc_env \<Rightarrow> nat
    \<Rightarrow> (('s, 'x, 'g, 'v, 'u, 'f, 'a) jdc_manager, unit) jcomp" where
  "allocate_tokens lib env 0 = c_return ()"
| "allocate_tokens lib env (Suc n) =
     c_bind next_request_id (\<lambda>request_id.
     c_bind user_identity (\<lambda>identity.
     c_bind (if jl_fits_str0255 lib (length identity) then c_return () else j_panic) (\<lambda>_.
     c_bind (jdc_send_jd env (RequestToken identity request_id)) (\<lambda>_.
     allocate_tokens lib env n))))"

definition jdc_coinbase_output_constraints ::
  "('s, 'x, 'g, 'v, 'u, 'f, 'a, 'p) jdc_lib \<Rightarrow> ('w, 'b, 'q) jdc_env \<Rightarrow> tx_out list
    \<Rightarrow> (('s, 'x, 'g, 'v, 'u, 'f, 'a) jdc_manager, unit) jcomp" where
  "jdc_coinbase_output_constraints lib env coinbase_outputs =
     jdc_send_tp env (CoinbaseOutputConstraints (coinbase_output_constraints_message (jl_tx_metrics lib) coinbase_outputs))"

end
