(* ===== verification/Jdc_Downstream.thy ===== *)
theory Jdc_Downstream
  imports Jdc_Manager
begin

text \<open>
  The messages of the miners (\<open>channel_manager/downstream_message_handler.rs\<close>): opening, updating and
  closing channels and shares, with the vardiff cycle of \<open>channel_manager/mod.rs\<close>.  A share that is valid
  for the miner's channel is translated for the channel with the pool; it is sent when the pool has
  acknowledged the job, and kept in the cache of its template until then.
\<close>

section \<open>Closing a channel\<close>

definition jdc_get_negotiated_extensions_with_client ::
  "downstream_id \<Rightarrow> (('s, 'x, 'g, 'v, 'u, 'f, 'a) jdc_manager, u16 list) jcomp" where
  "jdc_get_negotiated_extensions_with_client d =
     jdc_with_registered d (\<lambda>ds. c_return (jn_negotiated_extensions ds))"

definition jdc_handle_close_channel ::
  "('s, 'x, 'g, 'v, 'u, 'f, 'a, 'p) jdc_lib \<Rightarrow> downstream_id \<Rightarrow> channel_id
    \<Rightarrow> (('s, 'x, 'g, 'v, 'u, 'f, 'a) jdc_manager, unit) jcomp" where
  "jdc_handle_close_channel lib d channel_id =
     c_bind (jdc_with_registered d (\<lambda>_. jdc_on d (c_modify (\<lambda>ds. ds\<lparr>
        jn_group_channel := (if grp_has_channel_id (jl_group lib) (jn_group_channel ds) channel_id
           then grp_remove_channel_id (jl_group lib) channel_id (jn_group_channel ds) else jn_group_channel ds),
        jn_extended_channels := snd (sm_remove channel_id (jn_extended_channels ds)),
        jn_standard_channels := snd (sm_remove channel_id (jn_standard_channels ds))\<rparr>)))) (\<lambda>_.
     c_modify (\<lambda>cm. cm\<lparr>jc_vardiff := snd (sm_remove (d, channel_id) (jc_vardiff cm))\<rparr>))"

section \<open>Opening a channel\<close>

definition jdc_next_channel_id :: "(('s, 'x, 'g) jdc_downstream, channel_id) jcomp" where
  "jdc_next_channel_id ds = (Ok (jn_channel_id_factory ds), ds\<lparr>jn_channel_id_factory := jn_channel_id_factory ds + 1\<rparr>)"

definition jdc_allocate_standard ::
  "('v, 'a, 'p) jdc_env \<Rightarrow> (('s, 'x, 'g, 'w, 'u, 'f, 'a) jdc_manager, ('p, string) result) jcomp" where
  "jdc_allocate_standard env cm =
     (Ok (jw_allocate_standard env (jc_extranonce_allocator cm) (jc_allocations cm)),
      cm\<lparr>jc_allocations := jc_allocations cm + 1\<rparr>)"

definition jdc_allocate_extended ::
  "('v, 'a, 'p) jdc_env \<Rightarrow> nat \<Rightarrow> (('s, 'x, 'g, 'w, 'u, 'f, 'a) jdc_manager, ('p, string) result) jcomp" where
  "jdc_allocate_extended env min_size cm =
     (Ok (jw_allocate_extended env (jc_extranonce_allocator cm) min_size (jc_allocations cm)),
      cm\<lparr>jc_allocations := jc_allocations cm + 1\<rparr>)"

definition standard_shutdown :: "standard_channel_error \<Rightarrow> jdc_error" where
  "standard_shutdown e = jdc_shutdown (JkChannelSv2 (StandardChannelServerSide e))"

definition extended_shutdown :: "extended_channel_error \<Rightarrow> jdc_error" where
  "extended_shutdown e = jdc_shutdown (JkChannelSv2 (ExtendedChannelServerSide e))"

definition group_shutdown :: "string \<Rightarrow> jdc_error" where
  "group_shutdown e = jdc_shutdown (JkChannelSv2 (GroupChannelServerSide e))"

definition jdc_insert_vardiff ::
  "('v, 'b, 'q) jdc_env \<Rightarrow> downstream_id \<Rightarrow> channel_id \<Rightarrow> (('s, 'x, 'g, 'v, 'u, 'f, 'a) jdc_manager, unit) jcomp" where
  "jdc_insert_vardiff env d channel_id =
     c_bind (j_expect (case jw_vardiff_new env of Inl _ \<Rightarrow> None | Inr v \<Rightarrow> Some v)) (\<lambda>v.
     c_modify (\<lambda>cm. cm\<lparr>jc_vardiff := snd (sm_insert (d, channel_id) v (jc_vardiff cm))\<rparr>))"

definition map_job ::
  "downstream_id \<Rightarrow> channel_id \<Rightarrow> u32 \<Rightarrow> u64 \<Rightarrow> ('s, 'x, 'g, 'v, 'u, 'f, 'a) jdc_manager
    \<Rightarrow> ('s, 'x, 'g, 'v, 'u, 'f, 'a) jdc_manager" where
  "map_job d channel_id job_id template_id cm =
     cm\<lparr>jc_job_to_template := snd (sm_insert (d, channel_id, job_id) template_id (jc_job_to_template cm))\<rparr>"

text \<open>The first job of a channel and its activation: the job's id and the two messages.\<close>

definition jdc_open_standard_jobs ::
  "('s, 'x, 'g, 'v, 'u, 'f, 'a, 'p) jdc_lib \<Rightarrow> downstream_id \<Rightarrow> channel_id \<Rightarrow> new_template \<Rightarrow> tdp_set_new_prev_hash
    \<Rightarrow> tx_out list \<Rightarrow> ('s, u32 \<times> jdc_route list) jcomp" where
  "jdc_open_standard_jobs lib d channel_id template prev_hash outputs =
     (let api = jl_standard lib in
      c_bind (j_call standard_shutdown (sc_on_new_template api template outputs)) (\<lambda>_.
      c_bind (c_get (\<lambda>c. sc_get_future_job_id_from_template_id api c (nt_template_id template))) (\<lambda>i.
      c_bind (j_expect i) (\<lambda>job_id.
      c_bind (c_get (\<lambda>c. sc_get_future_job api c job_id)) (\<lambda>j.
      c_bind (j_expect j) (\<lambda>job.
      c_bind (j_call standard_shutdown (sc_on_set_new_prev_hash api prev_hash)) (\<lambda>_.
      c_return (job_id, [ToDownstream d (NewMiningJob (sj_job_message job)),
                         ToDownstream d (prev_hash_message channel_id job_id prev_hash)]))))))))"

definition jdc_open_extended_jobs ::
  "('s, 'x, 'g, 'v, 'u, 'f, 'a, 'p) jdc_lib \<Rightarrow> downstream_id \<Rightarrow> channel_id \<Rightarrow> new_template \<Rightarrow> tdp_set_new_prev_hash
    \<Rightarrow> tx_out list \<Rightarrow> ('x, u32 \<times> jdc_route list) jcomp" where
  "jdc_open_extended_jobs lib d channel_id template prev_hash outputs =
     (let api = jl_extended lib in
      c_bind (j_call extended_shutdown (xc_on_new_template api template outputs)) (\<lambda>_.
      c_bind (c_get (\<lambda>c. xc_get_future_job_id_from_template_id api c (nt_template_id template))) (\<lambda>i.
      c_bind (j_expect i) (\<lambda>job_id.
      c_bind (c_get (\<lambda>c. xc_get_future_job api c job_id)) (\<lambda>j.
      c_bind (j_expect j) (\<lambda>job.
      c_bind (j_call extended_shutdown (xc_on_set_new_prev_hash api prev_hash)) (\<lambda>_.
      c_return (job_id, [ToDownstream d (NewExtendedMiningJob (xj_job_message job)),
                         ToDownstream d (prev_hash_message channel_id job_id prev_hash)]))))))))"

text \<open>What happens once the standard channel exists.\<close>

definition jdc_open_standard_register ::
  "('s, 'x, 'g, 'v, 'u, 'f, 'a, 'p) jdc_lib \<Rightarrow> ('v, 'a, 'p) jdc_env \<Rightarrow> downstream_id \<Rightarrow> bool \<Rightarrow> u32 \<Rightarrow> channel_id
    \<Rightarrow> new_template \<Rightarrow> tdp_set_new_prev_hash \<Rightarrow> tx_out list \<Rightarrow> channel_id \<Rightarrow> 's
    \<Rightarrow> (('s, 'x, 'g, 'v, 'u, 'f, 'a) jdc_manager, jdc_route list) jcomp" where
  "jdc_open_standard_register lib env d require_std_job request_id group_channel_id template prev_hash outputs channel_id channel =
     (let api = jl_standard lib; extranonce_prefix = sc_get_extranonce_prefix api channel;
          success = ToDownstream d (OpenStandardMiningChannelSuccess
            \<lparr>ocs_request_id = request_id, ocs_channel_id = channel_id, ocs_target = sc_get_target api channel,
             ocs_extranonce_prefix = extranonce_prefix, ocs_group_channel_id = group_channel_id\<rparr>) in
      c_bind (j_guard (jl_fits_b032 lib (length extranonce_prefix)) (jdc_shutdown JkBinarySv2)) (\<lambda>_.
      (let (r, channel) = jdc_open_standard_jobs lib d channel_id template prev_hash outputs channel in
       c_bind (c_result r) (\<lambda>(job_id, jobs).
       c_bind (jdc_insert_vardiff env d channel_id) (\<lambda>_.
       c_bind (jdc_on d (c_modify (\<lambda>ds.
          ds\<lparr>jn_standard_channels := snd (sm_insert channel_id channel (jn_standard_channels ds))\<rparr>))) (\<lambda>_.
       c_bind (c_modify (map_job d channel_id job_id (nt_template_id template))) (\<lambda>_.
       c_bind (if require_std_job then c_return ()
               else jdc_on d (jdc_on_group (j_call group_shutdown
                 (grp_add_channel_id (jl_group lib) channel_id (length extranonce_prefix))))) (\<lambda>_.
       c_return (success # jobs)))))))))"

definition jdc_open_standard ::
  "('s, 'x, 'g, 'v, 'u, 'f, 'a, 'p) jdc_lib \<Rightarrow> ('v, 'a, 'p) jdc_env \<Rightarrow> downstream_id \<Rightarrow> open_standard_mining_channel
    \<Rightarrow> new_template \<Rightarrow> tdp_set_new_prev_hash \<Rightarrow> tx_out list \<Rightarrow> ('s, 'x, 'g) jdc_downstream
    \<Rightarrow> (('s, 'x, 'g, 'v, 'u, 'f, 'a) jdc_manager, jdc_route list) jcomp" where
  "jdc_open_standard lib env d msg template prev_hash outputs ds =
     (let group_channel_id = grp_get_group_channel_id (jl_group lib) (jn_group_channel ds) in
      c_bind (jdc_on d jdc_next_channel_id) (\<lambda>channel_id.
      c_bind (jdc_allocate_standard env) (\<lambda>allocation.
      c_bind (j_try (map_err (\<lambda>e. jdc_shutdown (JkChannelSv2 (ExtranonceError e))) allocation)) (\<lambda>extranonce_prefix.
      c_bind (c_get (\<lambda>cm. jl_standard_new lib channel_id (jl_as_utf8_or_hex lib (osm_user_identity msg)) extranonce_prefix
                (osm_max_target msg) (osm_nominal_hash_rate msg) (jc_share_batch_size cm) (jc_shares_per_minute cm)
                (jc_pool_tag_string cm) (jc_miner_tag_string cm))) (\<lambda>new. case new of
        Inr channel \<Rightarrow> jdc_open_standard_register lib env d (jn_require_std_job ds) (osm_request_id msg) group_channel_id
          template prev_hash outputs channel_id channel
      | Inl (StdOpenChannelInvalidNominalHashrate code) \<Rightarrow>
          c_return [ToDownstream d (OpenMiningChannelError (osm_request_id msg) code)]
      | Inl e \<Rightarrow> j_raise (jdc_disconnect (JkChannelSv2 (StandardChannelServerSide e)) d))))))"

definition jdc_handle_open_standard ::
  "('s, 'x, 'g, 'v, 'u, 'f, 'a, 'p) jdc_lib \<Rightarrow> ('v, 'a, 'p) jdc_env \<Rightarrow> downstream_id \<Rightarrow> open_standard_mining_channel
    \<Rightarrow> (('s, 'x, 'g, 'v, 'u, 'f, 'a) jdc_manager, unit) jcomp" where
  "jdc_handle_open_standard lib env d msg =
     c_bind (jdc_outputs lib JkChannelManagerHasBadCoinbaseOutputs) (\<lambda>outputs.
     c_bind (c_get jc_last_future_template) (\<lambda>t.
     c_bind (j_try (ok_or (jdc_disconnect JkFutureTemplateNotPresent d) t)) (\<lambda>template.
     c_bind (c_get jc_last_new_prev_hash) (\<lambda>p.
     c_bind (j_try (ok_or (jdc_disconnect JkLastNewPrevhashNotFound d) p)) (\<lambda>prev_hash.
     c_bind (set_first_value (nt_coinbase_tx_value_remaining template) outputs) (\<lambda>outputs.
     c_bind (jdc_with_registered d (jdc_open_standard lib env d msg template prev_hash outputs))
       (jdc_forward_each lib env)))))))"

definition jdc_open_extended_register ::
  "('s, 'x, 'g, 'v, 'u, 'f, 'a, 'p) jdc_lib \<Rightarrow> ('v, 'a, 'p) jdc_env \<Rightarrow> downstream_id \<Rightarrow> u32 \<Rightarrow> channel_id
    \<Rightarrow> new_template \<Rightarrow> tdp_set_new_prev_hash \<Rightarrow> channel_id \<Rightarrow> 'x
    \<Rightarrow> (('s, 'x, 'g, 'v, 'u, 'f, 'a) jdc_manager, jdc_route list) jcomp" where
  "jdc_open_extended_register lib env d request_id group_channel_id template prev_hash channel_id channel =
     (let api = jl_extended lib; extranonce_prefix = xc_get_extranonce_prefix api channel;
          full_extranonce_size = xc_get_full_extranonce_size api channel;
          success = ToDownstream d (OpenExtendedMiningChannelSuccess
            \<lparr>ocs_request_id = request_id, ocs_channel_id = channel_id, ocs_target = xc_get_target api channel,
             ocs_extranonce_prefix = extranonce_prefix, ocs_group_channel_id = group_channel_id\<rparr>
            (xc_get_rollable_extranonce_size api channel)) in
      c_bind (if jl_fits_b032 lib (length extranonce_prefix) then c_return () else j_panic) (\<lambda>_.
      c_bind (jdc_outputs lib JkChannelManagerHasBadCoinbaseOutputs) (\<lambda>outputs.
      c_bind (set_first_value (nt_coinbase_tx_value_remaining template) outputs) (\<lambda>outputs.
      (let (r, channel) = jdc_open_extended_jobs lib d channel_id template prev_hash outputs channel in
       c_bind (c_result r) (\<lambda>(job_id, jobs).
       c_bind (jdc_on d (c_modify (\<lambda>ds.
          ds\<lparr>jn_extended_channels := snd (sm_insert channel_id channel (jn_extended_channels ds))\<rparr>))) (\<lambda>_.
       c_bind (c_modify (map_job d channel_id job_id (nt_template_id template))) (\<lambda>_.
       c_bind (jdc_insert_vardiff env d channel_id) (\<lambda>_.
       c_bind (jdc_on d (jdc_on_group (j_call group_shutdown
                 (grp_add_channel_id (jl_group lib) channel_id full_extranonce_size)))) (\<lambda>_.
       c_return (success # jobs)))))))))))"

text \<open>\<open>full_extranonce_size - prefix.len()\<close> wraps, and is cut to sixteen bits.\<close>

definition jdc_open_extended ::
  "('s, 'x, 'g, 'v, 'u, 'f, 'a, 'p) jdc_lib \<Rightarrow> ('v, 'a, 'p) jdc_env \<Rightarrow> downstream_id \<Rightarrow> open_extended_mining_channel
    \<Rightarrow> new_template \<Rightarrow> tdp_set_new_prev_hash \<Rightarrow> ('s, 'x, 'g) jdc_downstream
    \<Rightarrow> (('s, 'x, 'g, 'v, 'u, 'f, 'a) jdc_manager, jdc_route list) jcomp" where
  "jdc_open_extended lib env d msg template prev_hash ds =
     (let refuse = (\<lambda>code. c_return [ToDownstream d (OpenMiningChannelError (oem_request_id msg) code)]) in
      if jn_require_std_job ds then refuse EC_OPEN_MINING_CHANNEL_EXTENDED_CHANNELS_NOT_SUPPORTED_FOR_STANDARD_JOBS
      else
      c_bind (jdc_on d jdc_next_channel_id) (\<lambda>channel_id.
      c_bind (jdc_allocate_extended env (unat (oem_min_extranonce_size msg))) (\<lambda>allocation. case allocation of
        Inl _ \<Rightarrow> refuse EC_OPEN_MINING_CHANNEL_MIN_EXTRANONCE_SIZE_TOO_LARGE
      | Inr extranonce_prefix \<Rightarrow>
      c_bind (c_get id) (\<lambda>cm.
      let full_extranonce_size = (case jc_upstream_channel cm of
            Some u \<Rightarrow> ux_get_full_extranonce_size (jl_upstream lib) u
          | None \<Rightarrow> unat SOLO_FULL_EXTRANONCE_SIZE);
          rollable = word_of_int (int full_extranonce_size - int (length (jl_prefix_bytes lib extranonce_prefix))) in
      case jl_extended_new lib channel_id (jl_as_utf8_or_hex lib (oem_user_identity msg)) extranonce_prefix
             (oem_max_target msg) (oem_nominal_hash_rate msg) True rollable (jc_share_batch_size cm)
             (jc_shares_per_minute cm) (jc_pool_tag_string cm) (jc_miner_tag_string cm) of
        Inr channel \<Rightarrow> jdc_open_extended_register lib env d (oem_request_id msg)
          (grp_get_group_channel_id (jl_group lib) (jn_group_channel ds)) template prev_hash channel_id channel
      | Inl (ExtOpenChannelInvalidNominalHashrate code) \<Rightarrow> refuse code
      | Inl e \<Rightarrow> j_raise (jdc_disconnect (JkChannelSv2 (ExtendedChannelServerSide e)) d)))))"

definition jdc_handle_open_extended ::
  "('s, 'x, 'g, 'v, 'u, 'f, 'a, 'p) jdc_lib \<Rightarrow> ('v, 'a, 'p) jdc_env \<Rightarrow> downstream_id \<Rightarrow> open_extended_mining_channel
    \<Rightarrow> (('s, 'x, 'g, 'v, 'u, 'f, 'a) jdc_manager, unit) jcomp" where
  "jdc_handle_open_extended lib env d msg =
     c_bind (c_get jc_last_future_template) (\<lambda>t.
     c_bind (j_try (ok_or (jdc_disconnect JkFutureTemplateNotPresent d) t)) (\<lambda>template.
     c_bind (c_get jc_last_new_prev_hash) (\<lambda>p.
     c_bind (j_try (ok_or (jdc_disconnect JkLastNewPrevhashNotFound d) p)) (\<lambda>prev_hash.
     c_bind (jdc_with_registered d (jdc_open_extended lib env d msg template prev_hash))
       (jdc_forward_each lib env)))))"

section \<open>Shares\<close>

text \<open>A closure's result as a value, while a panic goes on.\<close>

definition j_attempt :: "('c, 'r) jcomp \<Rightarrow> ('c, ('r, jdc_error) result) jcomp" where
  "j_attempt m s = (case m s of
     (Inl JcPanic, s') \<Rightarrow> (Err JcPanic, s')
   | (Inl (JcRaised e), s') \<Rightarrow> (Ok (Inl e), s')
   | (Inr x, s') \<Rightarrow> (Ok (Inr x), s'))"

lemma wp_j_attempt [wp_rules]:
  "c_wp (j_attempt m) Q E s =
     c_wp m (\<lambda>x. Q (Inr x)) (\<lambda>e t. case e of JcPanic \<Rightarrow> E JcPanic t | JcRaised e \<Rightarrow> Q (Inl e) t) s"
  by (auto simp: c_wp_def j_attempt_def split: prod.splits sum.splits jdc_fault.splits)

definition next_sequence_number :: "(('s, 'x, 'g, 'v, 'u, 'f, 'a) jdc_manager, u32) jcomp" where
  "next_sequence_number cm =
     (Ok (jc_sequence_number_factory cm), cm\<lparr>jc_sequence_number_factory := jc_sequence_number_factory cm + 1\<rparr>)"

definition share_push_solution :: "bytes \<Rightarrow> submit_shares_extended \<Rightarrow> tdp_set_new_prev_hash \<Rightarrow> push_solution" where
  "share_push_solution extranonce m p =
     \<lparr>ps_extranonce = extranonce, ps_prev_hash = tph_prev_hash p, ps_nonce = sse_nonce m, ps_ntime = sse_ntime m,
      ps_nbits = tph_n_bits p, ps_version = sse_version m\<rparr>"

text \<open>
  A share whose job the pool has acknowledged: it is checked once more on the channel with the pool
  and sent with the next sequence number; a block is also pushed to the job declaration server.  An
  error that the code does not expect is \<open>unreachable!\<close>.
\<close>

definition submit_upstream ::
  "('s, 'x, 'g, 'v, 'u, 'f, 'a, 'p) jdc_lib \<Rightarrow> (share_validation_error \<Rightarrow> error_code option) \<Rightarrow> bytes
    \<Rightarrow> tdp_set_new_prev_hash \<Rightarrow> submit_shares_extended \<Rightarrow> 'u
    \<Rightarrow> (('s, 'x, 'g, 'v, 'u, 'f, 'a) jdc_manager, jdc_route list) jcomp" where
  "submit_upstream lib code_of push_extranonce prev_hash m u =
     (let (res, u) = ux_validate_share (jl_upstream lib) m u in
      c_bind (c_modify (\<lambda>cm. cm\<lparr>jc_upstream_channel := Some u\<rparr>)) (\<lambda>_. case res of
        Inr (UpstreamShareValid _) \<Rightarrow>
          c_bind next_sequence_number (\<lambda>n.
          c_return [ToUpstream (SubmitSharesExtended (m\<lparr>sse_sequence_number := n\<rparr>))])
      | Inr (UpstreamBlockFound _) \<Rightarrow>
          c_bind next_sequence_number (\<lambda>n.
          c_bind (j_guard (jl_fits_b032 lib (length push_extranonce)) (jdc_shutdown JkBinarySv2)) (\<lambda>_.
          c_return [ToJobDeclarator (RequestPush (share_push_solution push_extranonce m prev_hash)),
                    ToUpstream (SubmitSharesExtended (m\<lparr>sse_sequence_number := n\<rparr>))]))
      | Inl e \<Rightarrow> c_bind (j_expect (code_of e)) (\<lambda>_. c_return [])))"

definition cache_share ::
  "('s, 'x, 'g, 'v, 'u, 'f, 'a, 'p) jdc_lib \<Rightarrow> u64 option \<Rightarrow> bytes \<Rightarrow> submit_shares_extended
    \<Rightarrow> (('s, 'x, 'g, 'v, 'u, 'f, 'a) jdc_manager, jdc_route list) jcomp" where
  "cache_share lib template_id share_hash m =
     c_bind (c_modify (\<lambda>cm. case template_id of
       None \<Rightarrow> cm
     | Some t \<Rightarrow> cm\<lparr>jc_cached_shares := snd (sm_with_mut_or_insert_with (jc_cached_shares cm) t []
         (\<lambda>h. ((), add_share_to_cache (jl_hash_key lib) \<lparr>sbd_share = m, sbd_share_hash = share_hash\<rparr> h)))\<rparr>))
       (\<lambda>_. c_return [])"

text \<open>The template of a share's job, and the pool's job for that template.\<close>

definition job_template_id ::
  "('s, 'x, 'g, 'v, 'u, 'f, 'a) jdc_manager \<Rightarrow> downstream_id \<Rightarrow> channel_id \<Rightarrow> u32 \<Rightarrow> u64 option" where
  "job_template_id cm d channel_id job_id = sm_get_cloned (jc_job_to_template cm) (d, channel_id, job_id)"

definition upstream_job_id :: "('s, 'x, 'g, 'v, 'u, 'f, 'a) jdc_manager \<Rightarrow> u64 option \<Rightarrow> u32 option" where
  "upstream_job_id cm template_id = (case template_id of
     None \<Rightarrow> None | Some t \<Rightarrow> sm_get_cloned (jc_template_to_upstream_job cm) t)"

definition standard_share_upstream ::
  "('s, 'x, 'g, 'v, 'u, 'f, 'a, 'p) jdc_lib \<Rightarrow> downstream_id \<Rightarrow> submit_shares_standard \<Rightarrow> tdp_set_new_prev_hash
    \<Rightarrow> bytes \<Rightarrow> bytes \<Rightarrow> (('s, 'x, 'g, 'v, 'u, 'f, 'a) jdc_manager, jdc_route list) jcomp" where
  "standard_share_upstream lib d msg prev_hash extranonce_prefix share_hash = c_bind (c_get id) (\<lambda>cm.
     let template_id = job_template_id cm d (sss_channel_id msg) (sss_job_id msg) in
     case jc_upstream_channel cm of
       None \<Rightarrow> c_return []
     | Some u \<Rightarrow>
       (let upstream_len = length (ux_get_extranonce_prefix (jl_upstream lib) u);
            extranonce = drop upstream_len extranonce_prefix;
            m = \<lparr>sse_channel_id = ux_get_channel_id (jl_upstream lib) u, sse_sequence_number = 0, sse_job_id = 0,
                 sse_nonce = sss_nonce msg, sse_ntime = sss_ntime msg, sse_version = sss_version msg,
                 sse_extranonce = extranonce\<rparr> in
        if length extranonce_prefix < upstream_len then j_panic
        else c_bind (j_guard (jl_fits_b032 lib (length extranonce)) (jdc_shutdown JkBinarySv2)) (\<lambda>_.
          case upstream_job_id cm template_id of
            Some job_id \<Rightarrow> submit_upstream lib standard_share_error_code extranonce_prefix prev_hash
              (m\<lparr>sse_job_id := job_id\<rparr>) u
          | None \<Rightarrow> cache_share lib template_id share_hash m)))"

definition extended_share_upstream ::
  "('s, 'x, 'g, 'v, 'u, 'f, 'a, 'p) jdc_lib \<Rightarrow> downstream_id \<Rightarrow> submit_shares_extended \<Rightarrow> tdp_set_new_prev_hash
    \<Rightarrow> bytes \<Rightarrow> bytes \<Rightarrow> (('s, 'x, 'g, 'v, 'u, 'f, 'a) jdc_manager, jdc_route list) jcomp" where
  "extended_share_upstream lib d msg prev_hash extranonce_prefix share_hash = c_bind (c_get id) (\<lambda>cm.
     let template_id = job_template_id cm d (sse_channel_id msg) (sse_job_id msg) in
     case jc_upstream_channel cm of
       None \<Rightarrow> c_return []
     | Some u \<Rightarrow>
       (let upstream_prefix = ux_get_extranonce_prefix (jl_upstream lib) u;
            extranonce = drop (length upstream_prefix) extranonce_prefix @ sse_extranonce msg;
            m = msg\<lparr>sse_channel_id := ux_get_channel_id (jl_upstream lib) u, sse_sequence_number := 0,
                    sse_extranonce := extranonce\<rparr> in
        if length extranonce_prefix < length upstream_prefix then j_panic
        else c_bind (j_guard (jl_fits_b032 lib (length extranonce)) (jdc_disconnect JkBinarySv2 d)) (\<lambda>_.
          case upstream_job_id cm template_id of
            Some job_id \<Rightarrow> submit_upstream lib extended_share_error_code (upstream_prefix @ extranonce) prev_hash
              (m\<lparr>sse_job_id := job_id\<rparr>) u
          | None \<Rightarrow> cache_share lib template_id share_hash m)))"

text \<open>A block of a template the provider knows is handed to it before the share is acknowledged.\<close>

definition jdc_block_messages ::
  "('s, 'x, 'g, 'v, 'u, 'f, 'a, 'p) jdc_lib \<Rightarrow> u64 option \<Rightarrow> (u64 \<Rightarrow> submit_solution) \<Rightarrow> ('c, jdc_route list) jcomp" where
  "jdc_block_messages lib template_id solution = (case template_id of
     None \<Rightarrow> c_return []
   | Some t \<Rightarrow> c_bind (j_guard (fits_b064k (jl_limits lib) (length (sol_coinbase_tx (solution t))))
       (jdc_shutdown JkBinarySv2)) (\<lambda>_. c_return [ToTemplateProvider (SubmitSolution (solution t))]))"

text \<open>The verdict of the miner's channel, and what follows for a valid share.\<close>

definition share_verdict ::
  "('s, 'x, 'g, 'v, 'u, 'f, 'a, 'p) jdc_lib \<Rightarrow> downstream_id \<Rightarrow> channel_id \<Rightarrow> u32
    \<Rightarrow> (share_validation_error \<Rightarrow> error_code option) \<Rightarrow> (u64 \<Rightarrow> bytes \<Rightarrow> submit_solution)
    \<Rightarrow> (bytes \<Rightarrow> (('s, 'x, 'g, 'v, 'u, 'f, 'a) jdc_manager, jdc_route list) jcomp)
    \<Rightarrow> (share_validation_result, share_validation_error) result \<Rightarrow> share_accounting
    \<Rightarrow> (('s, 'x, 'g, 'v, 'u, 'f, 'a) jdc_manager, jdc_route list) jcomp" where
  "share_verdict lib d channel_id sequence_number code_of solution upstream res accounting =
     (let success = ToDownstream d (share_success channel_id accounting) in case res of
        Inl e \<Rightarrow> c_bind (j_expect (code_of e)) (\<lambda>code.
          c_return [ToDownstream d (SubmitSharesError channel_id sequence_number code)])
      | Inr (ShareValid h) \<Rightarrow> c_bind (upstream h) (\<lambda>up.
          c_return ((if sacc_should_acknowledge accounting then [success] else []) @ up))
      | Inr (BlockFound h template_id coinbase) \<Rightarrow>
          c_bind (jdc_block_messages lib template_id (\<lambda>t. solution t coinbase)) (\<lambda>found.
          c_bind (upstream h) (\<lambda>up. c_return (found @ [success] @ up))))"

definition submit_standard_closure ::
  "('s, 'x, 'g, 'v, 'u, 'f, 'a, 'p) jdc_lib \<Rightarrow> downstream_id \<Rightarrow> submit_shares_standard \<Rightarrow> tdp_set_new_prev_hash
    \<Rightarrow> (('s, 'x, 'g, 'v, 'u, 'f, 'a) jdc_manager, jdc_route list option) jcomp" where
  "submit_standard_closure lib d msg prev_hash =
     (let api = jl_standard lib in
      c_bind (jdc_on d (jdc_on_standard (sss_channel_id msg) (\<lambda>c. let (res, c) = sc_validate_share api msg c in
         (Ok (res, sc_get_share_accounting api c, sc_get_extranonce_prefix api c), c)))) (\<lambda>v. case v of
        None \<Rightarrow> c_return None
      | Some (res, accounting, extranonce_prefix) \<Rightarrow>
        c_bind (share_verdict lib d (sss_channel_id msg) (sss_sequence_number msg) standard_share_error_code
          (\<lambda>t c. \<lparr>sol_template_id = t, sol_version = sss_version msg, sol_header_timestamp = sss_ntime msg,
             sol_header_nonce = sss_nonce msg, sol_coinbase_tx = c\<rparr>)
          (standard_share_upstream lib d msg prev_hash extranonce_prefix) res accounting) (\<lambda>ms. c_return (Some ms))))"

definition submit_extended_closure ::
  "('s, 'x, 'g, 'v, 'u, 'f, 'a, 'p) jdc_lib \<Rightarrow> downstream_id \<Rightarrow> submit_shares_extended \<Rightarrow> tdp_set_new_prev_hash
    \<Rightarrow> (('s, 'x, 'g, 'v, 'u, 'f, 'a) jdc_manager, jdc_route list option) jcomp" where
  "submit_extended_closure lib d msg prev_hash =
     (let api = jl_extended lib in
      c_bind (jdc_on d (jdc_on_extended (sse_channel_id msg) (\<lambda>c. let (res, c) = xc_validate_share api msg c in
         (Ok (res, xc_get_share_accounting api c, xc_get_extranonce_prefix api c), c)))) (\<lambda>v. case v of
        None \<Rightarrow> c_return None
      | Some (res, accounting, extranonce_prefix) \<Rightarrow>
        c_bind (share_verdict lib d (sse_channel_id msg) (sse_sequence_number msg) extended_share_error_code
          (\<lambda>t c. \<lparr>sol_template_id = t, sol_version = sse_version msg, sol_header_timestamp = sse_ntime msg,
             sol_header_nonce = sse_nonce msg, sol_coinbase_tx = c\<rparr>)
          (extended_share_upstream lib d msg prev_hash extranonce_prefix) res accounting) (\<lambda>ms. c_return (Some ms))))"

text \<open>
  The part around that closure: the share counts for vardiff whatever its verdict is, and a channel
  without vardiff state is closed instead of the answer.
\<close>

definition share_reply ::
  "('s, 'x, 'g, 'v, 'u, 'f, 'a, 'p) jdc_lib \<Rightarrow> downstream_id \<Rightarrow> channel_id \<Rightarrow> u32
    \<Rightarrow> (('s, 'x, 'g, 'v, 'u, 'f, 'a) jdc_manager, jdc_route list option) jcomp
    \<Rightarrow> (('s, 'x, 'g, 'v, 'u, 'f, 'a) jdc_manager, jdc_route list) jcomp" where
  "share_reply lib d channel_id sequence_number closure =
     c_bind (j_attempt closure) (\<lambda>validation. case validation of
       Inr None \<Rightarrow> c_return [ToDownstream d (SubmitSharesError channel_id sequence_number EC_SUBMIT_SHARES_INVALID_CHANNEL_ID)]
     | _ \<Rightarrow>
       c_bind (c_get (\<lambda>cm. sm_contains_key (jc_vardiff cm) (d, channel_id))) (\<lambda>tracked.
       if \<not> tracked then c_return [ToDownstream d (CloseChannel channel_id (EC_OTHER ''invalid-channel-id''))]
       else c_bind (c_modify (\<lambda>cm. cm\<lparr>jc_vardiff := snd (sm_with_mut (jc_vardiff cm) (d, channel_id)
              (\<lambda>v. ((), vd_increment_shares_since_last_update (jl_vardiff lib) v)))\<rparr>)) (\<lambda>_.
            case validation of Inl e \<Rightarrow> j_raise e | Inr (Some ms) \<Rightarrow> c_return ms | Inr None \<Rightarrow> c_return [])))"

definition jdc_handle_submit_shares_standard ::
  "('s, 'x, 'g, 'v, 'u, 'f, 'a, 'p) jdc_lib \<Rightarrow> ('w, 'b, 'q) jdc_env \<Rightarrow> downstream_id \<Rightarrow> submit_shares_standard
    \<Rightarrow> (('s, 'x, 'g, 'v, 'u, 'f, 'a) jdc_manager, unit) jcomp" where
  "jdc_handle_submit_shares_standard lib env d msg =
     c_bind (c_get jc_last_new_prev_hash) (\<lambda>p.
     c_bind (j_try (ok_or (jdc_disconnect JkLastNewPrevhashNotFound d) p)) (\<lambda>prev_hash.
     c_bind (jdc_with_registered d (\<lambda>_. share_reply lib d (sss_channel_id msg) (sss_sequence_number msg)
         (submit_standard_closure lib d msg prev_hash)))
       (jdc_forward_each lib env)))"

definition jdc_handle_submit_shares_extended ::
  "('s, 'x, 'g, 'v, 'u, 'f, 'a, 'p) jdc_lib \<Rightarrow> ('w, 'b, 'q) jdc_env \<Rightarrow> downstream_id \<Rightarrow> submit_shares_extended
    \<Rightarrow> (('s, 'x, 'g, 'v, 'u, 'f, 'a) jdc_manager, unit) jcomp" where
  "jdc_handle_submit_shares_extended lib env d msg =
     c_bind (c_get jc_last_new_prev_hash) (\<lambda>p.
     c_bind (j_try (ok_or (jdc_disconnect JkLastNewPrevhashNotFound d) p)) (\<lambda>prev_hash.
     c_bind (jdc_with_registered d (\<lambda>_. share_reply lib d (sse_channel_id msg) (sse_sequence_number msg)
         (submit_extended_closure lib d msg prev_hash)))
       (jdc_forward_each lib env)))"

section \<open>Updates and vardiff\<close>

definition jdc_update_code :: "error_code \<Rightarrow> mining \<Rightarrow> downstream_id \<Rightarrow> channel_id \<Rightarrow> jdc_route list" where
  "jdc_update_code code set_target d channel_id =
     (if code \<noteq> EC_OTHER ''internal-error'' then [ToDownstream d (UpdateChannelError channel_id code)]
      else [ToDownstream d set_target])"

definition jdc_update_standard ::
  "('s, 'p) standard_api \<Rightarrow> downstream_id \<Rightarrow> update_channel \<Rightarrow> ('s, jdc_route list) jcomp" where
  "jdc_update_standard api d msg channel =
     (let (r, channel) = sc_update_channel api (uc_nominal_hash_rate msg) (Some (uc_maximum_target msg)) channel;
          set_target = SetTarget (uc_channel_id msg) (sc_get_target api channel)
      in (Ok (case r of
            Inr _ \<Rightarrow> [ToDownstream d set_target]
          | Inl (StdUpdateChannelInvalidNominalHashrate code) \<Rightarrow> jdc_update_code code set_target d (uc_channel_id msg)
          | Inl _ \<Rightarrow> jdc_update_code (EC_OTHER ''internal-error'') set_target d (uc_channel_id msg)), channel))"

definition jdc_update_extended ::
  "('x, 'p) extended_api \<Rightarrow> downstream_id \<Rightarrow> update_channel \<Rightarrow> ('x, jdc_route list) jcomp" where
  "jdc_update_extended api d msg channel =
     (let (r, channel) = xc_update_channel api (uc_nominal_hash_rate msg) (Some (uc_maximum_target msg)) channel;
          set_target = SetTarget (uc_channel_id msg) (xc_get_target api channel)
      in (Ok (case r of
            Inr _ \<Rightarrow> [ToDownstream d set_target]
          | Inl (ExtUpdateChannelInvalidNominalHashrate code) \<Rightarrow> jdc_update_code code set_target d (uc_channel_id msg)
          | Inl _ \<Rightarrow> jdc_update_code (EC_OTHER ''internal-error'') set_target d (uc_channel_id msg)), channel))"

definition jdc_update_on_downstream ::
  "('s, 'x, 'g, 'v, 'u, 'f, 'a, 'p) jdc_lib \<Rightarrow> downstream_id \<Rightarrow> update_channel
    \<Rightarrow> (('s, 'x, 'g) jdc_downstream, jdc_route list) jcomp" where
  "jdc_update_on_downstream lib d msg =
     c_bind (jdc_on_standard (uc_channel_id msg) (jdc_update_standard (jl_standard lib) d msg)) (\<lambda>r. case r of
       Some ms \<Rightarrow> c_return ms
     | None \<Rightarrow> c_bind (jdc_on_extended (uc_channel_id msg) (jdc_update_extended (jl_extended lib) d msg)) (\<lambda>r. case r of
         Some ms \<Rightarrow> c_return ms
       | None \<Rightarrow> c_return [ToDownstream d (UpdateChannelError (uc_channel_id msg) EC_UPDATE_CHANNEL_INVALID_CHANNEL_ID)]))"

text \<open>
  The hash rates and targets of all miners' channels, as a channel update for the pool.  Targets are
  their 32 little endian bytes; one caller takes the least target as a number, the other one compares
  the byte arrays.
\<close>

fun bytes_less :: "bytes \<Rightarrow> bytes \<Rightarrow> bool" where
  "bytes_less [] ys = (ys \<noteq> [])"
| "bytes_less (x # xs) [] = False"
| "bytes_less (x # xs) (y # ys) = (x < y \<or> (x = y \<and> bytes_less xs ys))"

definition min_target_number :: "bytes \<Rightarrow> bytes \<Rightarrow> bytes" where
  "min_target_number t m = (if le_value m < le_value t then m else t)"

definition min_target_bytes :: "bytes \<Rightarrow> bytes \<Rightarrow> bytes" where
  "min_target_bytes t m = (if bytes_less m t then m else t)"

definition downstream_rates ::
  "('s, 'x, 'g, 'v, 'u, 'f, 'a, 'p) jdc_lib \<Rightarrow> ('s, 'x, 'g, 'v, 'u, 'f, 'a) jdc_manager \<Rightarrow> (f32 \<times> bytes) list" where
  "downstream_rates lib cm = concat (map (\<lambda>(_, ds).
     map (\<lambda>(_, c). (sc_get_nominal_hashrate (jl_standard lib) c, sc_get_target (jl_standard lib) c)) (jn_standard_channels ds) @
     map (\<lambda>(_, c). (xc_get_nominal_hashrate (jl_extended lib) c, xc_get_target (jl_extended lib) c)) (jn_extended_channels ds))
     (jc_downstream cm))"

definition aggregate_rates :: "(bytes \<Rightarrow> bytes \<Rightarrow> bytes) \<Rightarrow> (f32 \<times> bytes) list \<Rightarrow> f32 \<times> bytes" where
  "aggregate_rates least rates =
     foldl (\<lambda>(h, m) (hashrate, t). (f32_add h hashrate, least t m)) (0, replicate 32 255) rates"

definition update_upstream ::
  "('s, 'x, 'g, 'v, 'u, 'f, 'a, 'p) jdc_lib \<Rightarrow> (bytes \<Rightarrow> bytes \<Rightarrow> bytes)
    \<Rightarrow> (('s, 'x, 'g, 'v, 'u, 'f, 'a) jdc_manager, jdc_route list) jcomp" where
  "update_upstream lib least = c_bind (c_get id) (\<lambda>cm.
     let (hashrate, t) = aggregate_rates least (downstream_rates lib cm); api = jl_upstream lib in
     case jc_upstream_channel cm of
       None \<Rightarrow> c_return []
     | Some u \<Rightarrow> c_bind (c_modify (\<lambda>cm. cm\<lparr>jc_upstream_channel := Some (ux_set_nominal_hashrate api hashrate u)\<rparr>)) (\<lambda>_.
         c_return [ToUpstream (UpdateChannel
           \<lparr>uc_channel_id = ux_get_channel_id api (ux_set_nominal_hashrate api hashrate u),
            uc_nominal_hash_rate = hashrate, uc_maximum_target = t\<rparr>)]))"

definition jdc_handle_update_channel ::
  "('s, 'x, 'g, 'v, 'u, 'f, 'a, 'p) jdc_lib \<Rightarrow> ('w, 'b, 'q) jdc_env \<Rightarrow> downstream_id \<Rightarrow> update_channel
    \<Rightarrow> (('s, 'x, 'g, 'v, 'u, 'f, 'a) jdc_manager, unit) jcomp" where
  "jdc_handle_update_channel lib env d msg =
     c_bind (jdc_with_registered d (\<lambda>_. jdc_on d (jdc_update_on_downstream lib d msg))) (\<lambda>messages.
     c_bind (update_upstream lib min_target_number) (\<lambda>up. jdc_forward_each lib env (messages @ up)))"

text \<open>One channel: the new target is announced only when the channel accepted the new hash rate.\<close>

definition jdc_vardiff_extended ::
  "('x, 'p) extended_api \<Rightarrow> 'v vardiff_api \<Rightarrow> downstream_id \<Rightarrow> channel_id \<Rightarrow> 'v \<Rightarrow> 'x \<Rightarrow> ('v \<times> jdc_route list) \<times> 'x" where
  "jdc_vardiff_extended api vd d channel_id vardiff_state channel =
     (case vd_try_vardiff vd (xc_get_nominal_hashrate api channel) (xc_get_target api channel)
             (xc_get_shares_per_minute api channel) vardiff_state of
        (Inl _, vardiff_state) \<Rightarrow> ((vardiff_state, []), channel)
      | (Inr None, vardiff_state) \<Rightarrow> ((vardiff_state, []), xc_set_stable_hashrate api True channel)
      | (Inr (Some new_hashrate), vardiff_state) \<Rightarrow>
        (case xc_update_channel api new_hashrate None (xc_set_stable_hashrate api False channel) of
           (Inl _, channel) \<Rightarrow> ((vardiff_state, []), channel)
         | (Inr _, channel) \<Rightarrow> ((vardiff_state,
             [ToDownstream d (SetTarget channel_id (xc_get_target api channel))]), channel)))"

definition jdc_vardiff_standard ::
  "('s, 'p) standard_api \<Rightarrow> 'v vardiff_api \<Rightarrow> downstream_id \<Rightarrow> channel_id \<Rightarrow> 'v \<Rightarrow> 's \<Rightarrow> ('v \<times> jdc_route list) \<times> 's" where
  "jdc_vardiff_standard api vd d channel_id vardiff_state channel =
     (case vd_try_vardiff vd (sc_get_nominal_hashrate api channel) (sc_get_target api channel)
             (sc_get_shares_per_minute api channel) vardiff_state of
        (Inl _, vardiff_state) \<Rightarrow> ((vardiff_state, []), channel)
      | (Inr None, vardiff_state) \<Rightarrow> ((vardiff_state, []), sc_set_stable_hashrate api True channel)
      | (Inr (Some new_hashrate), vardiff_state) \<Rightarrow>
        (case sc_update_channel api new_hashrate None (sc_set_stable_hashrate api False channel) of
           (Inl _, channel) \<Rightarrow> ((vardiff_state, []), channel)
         | (Inr _, channel) \<Rightarrow> ((vardiff_state,
             [ToDownstream d (SetTarget channel_id (sc_get_target api channel))]), channel)))"

text \<open>One key: the standard channel of that identifier, then the extended one.\<close>

definition jdc_vardiff_key ::
  "('s, 'x, 'g, 'v, 'u, 'f, 'a, 'p) jdc_lib \<Rightarrow> downstream_id \<times> channel_id
    \<Rightarrow> jdc_route list \<times> ('s, 'x, 'g, 'v, 'u, 'f, 'a) jdc_manager
    \<Rightarrow> jdc_route list \<times> ('s, 'x, 'g, 'v, 'u, 'f, 'a) jdc_manager" where
  "jdc_vardiff_key lib key = (\<lambda>(messages, cm). (let d = fst key; channel_id = snd key in
     case sm_get_cloned (jc_downstream cm) d of
       None \<Rightarrow> (messages, cm\<lparr>jc_vardiff := snd (sm_remove key (jc_vardiff cm))\<rparr>)
     | Some ds \<Rightarrow>
       (case sm_get_cloned (jc_vardiff cm) key of
          None \<Rightarrow> (messages, cm)
        | Some v \<Rightarrow>
          (let (r, standard) = sm_with_mut (jn_standard_channels ds) channel_id
                 (jdc_vardiff_standard (jl_standard lib) (jl_vardiff lib) d channel_id v);
               (v, ms) = (case r of None \<Rightarrow> (v, []) | Some w \<Rightarrow> w);
               (r, extended) = sm_with_mut (jn_extended_channels ds) channel_id
                 (jdc_vardiff_extended (jl_extended lib) (jl_vardiff lib) d channel_id v);
               (v, ms') = (case r of None \<Rightarrow> (v, []) | Some w \<Rightarrow> w);
               ds = ds\<lparr>jn_standard_channels := standard, jn_extended_channels := extended\<rparr>
           in (messages @ ms @ ms', cm\<lparr>jc_downstream := snd (sm_insert d ds (jc_downstream cm)),
                 jc_vardiff := snd (sm_insert key v (jc_vardiff cm))\<rparr>)))))"

definition jdc_run_vardiff ::
  "('s, 'x, 'g, 'v, 'u, 'f, 'a, 'p) jdc_lib \<Rightarrow> ('w, 'b, 'q) jdc_env
    \<Rightarrow> (('s, 'x, 'g, 'v, 'u, 'f, 'a) jdc_manager, unit) jcomp" where
  "jdc_run_vardiff lib env =
     c_bind (\<lambda>cm. let (messages, cm) = fold (jdc_vardiff_key lib) (sm_keys (jc_vardiff cm)) ([], cm) in (Ok messages, cm))
       (\<lambda>messages. if messages = [] then c_return ()
         else c_bind (update_upstream lib min_target_bytes) (\<lambda>up. jdc_forward_each lib env (messages @ up)))"

section \<open>Dispatch\<close>

definition jdc_handle_mining_message_from_client ::
  "('s, 'x, 'g, 'v, 'u, 'f, 'a, 'p) jdc_lib \<Rightarrow> ('v, 'a, 'p) jdc_env \<Rightarrow> downstream_id \<Rightarrow> mining_from_client
    \<Rightarrow> (('s, 'x, 'g, 'v, 'u, 'f, 'a) jdc_manager, unit) jcomp" where
  "jdc_handle_mining_message_from_client lib env d m = (case m of
     CloseChannelRequest channel_id _ \<Rightarrow> jdc_handle_close_channel lib d channel_id
   | OpenStandardMiningChannel msg \<Rightarrow> jdc_handle_open_standard lib env d msg
   | OpenExtendedMiningChannel msg \<Rightarrow> jdc_handle_open_extended lib env d msg
   | SubmitSharesStandard msg \<Rightarrow> jdc_handle_submit_shares_standard lib env d msg
   | SubmitSharesExtended msg \<Rightarrow> jdc_handle_submit_shares_extended lib env d msg
   | UpdateChannel msg \<Rightarrow> jdc_handle_update_channel lib env d msg
   | SetCustomMiningJob _ \<Rightarrow> j_raise (jdc_log (JkUnexpectedMessage 0
       (mt_number (jl_message_types lib) M_SET_CUSTOM_MINING_JOB))))"

text \<open>
  A miner's message.  The first request to open a channel opens the channel with the pool, sized
  for the allocator's own bytes and for what later miners may need; requests wait until it is open.
\<close>

definition open_upstream_channel ::
  "('s, 'x, 'g, 'v, 'u, 'f, 'a, 'p) jdc_lib \<Rightarrow> ('w, 'b, 'q) jdc_env \<Rightarrow> jdc_fault \<Rightarrow> f32 \<Rightarrow> bytes \<Rightarrow> nat
    \<Rightarrow> (('s, 'x, 'g, 'v, 'u, 'f, 'a) jdc_manager, unit) jcomp" where
  "open_upstream_channel lib env too_long hashrate max_target downstream_min =
     c_bind (c_modify (\<lambda>cm. cm\<lparr>jc_upstream_state := UpPending\<rparr>)) (\<lambda>_.
     c_bind user_identity (\<lambda>identity.
     c_bind (if jl_fits_str0255 lib (length identity) then c_return () else c_fail too_long) (\<lambda>_.
     c_bind (c_get (\<lambda>cm. unat (JDC_LOCAL_PREFIX_BYTES lib) + max (unat (jc_reserved_downstream_rollable cm)) downstream_min)) (\<lambda>n.
     jdc_send_upstream lib env (OpenExtendedMiningChannel
       \<lparr>oem_request_id = 1, oem_user_identity = identity, oem_nominal_hash_rate = hashrate,
        oem_max_target = max_target, oem_min_extranonce_size = word_of_nat n\<rparr>)))))"

definition jdc_handle_downstream_message ::
  "('s, 'x, 'g, 'v, 'u, 'f, 'a, 'p) jdc_lib \<Rightarrow> ('v, 'a, 'p) jdc_env \<Rightarrow> (downstream_id \<times> mining_from_client) option
    \<Rightarrow> (('s, 'x, 'g, 'v, 'u, 'f, 'a) jdc_manager, unit) jcomp" where
  "jdc_handle_downstream_message lib env received = (case received of
     None \<Rightarrow> j_raise (jdc_shutdown JkChannelErrorReceiver)
   | Some (d, message) \<Rightarrow>
     (let push_front = (\<lambda>r. c_modify (\<lambda>cm. cm\<lparr>jc_pending_downstream_requests := r # jc_pending_downstream_requests cm\<rparr>));
          push_back = (\<lambda>r. c_modify (\<lambda>cm. cm\<lparr>jc_pending_downstream_requests := jc_pending_downstream_requests cm @ [r]\<rparr>)) in
      c_bind (c_get jc_upstream_state) (\<lambda>st. case message of
        OpenExtendedMiningChannel m \<Rightarrow> (case st of
            UpNoChannel \<Rightarrow> c_bind (push_front (PendingExtended d m)) (\<lambda>_.
              open_upstream_channel lib env (JcRaised (jdc_shutdown JkBinarySv2)) (oem_nominal_hash_rate m)
                (oem_max_target m) (unat (oem_min_extranonce_size m)))
          | UpPending \<Rightarrow> push_back (PendingExtended d m)
          | _ \<Rightarrow> jdc_handle_mining_message_from_client lib env d message)
      | OpenStandardMiningChannel m \<Rightarrow> (case st of
            UpNoChannel \<Rightarrow> c_bind (push_front (PendingStandard d m)) (\<lambda>_.
              open_upstream_channel lib env JcPanic (osm_nominal_hash_rate m) (osm_max_target m) 0)
          | UpPending \<Rightarrow> push_back (PendingStandard d m)
          | _ \<Rightarrow> jdc_handle_mining_message_from_client lib env d message)
      | _ \<Rightarrow> jdc_handle_mining_message_from_client lib env d message)))"

end
