(* ===== verification/Jdc_Template.thy ===== *)
theory Jdc_Template
  imports Jdc_Downstream
begin

text \<open>
  The messages of the template provider (\<open>channel_manager/template_message_handler.rs\<close>) and of the job
  declaration server (\<open>channel_manager/jd_message_handler.rs\<close>).  A template becomes a job of every
  miner's channel at once; for the pool it is declared first (full template mode) or sent as a custom
  job with a token (coinbase only mode).
\<close>

text \<open>A loop that collects messages and stops at the first fault.\<close>

fun j_collect :: "'k list \<Rightarrow> ('k \<Rightarrow> ('c, 'm list) jcomp) \<Rightarrow> ('c, 'm list) jcomp" where
  "j_collect [] f = c_return []"
| "j_collect (x # xs) f = c_bind (f x) (\<lambda>ms. c_bind (j_collect xs f) (\<lambda>ns. c_return (ms @ ns)))"

lemma wp_j_collect:
  assumes "\<And>x s. x \<in> set xs \<Longrightarrow> I s \<Longrightarrow> c_wp (f x) (\<lambda>ms s'. I s' \<and> P ms) E s" "I s"
    and P: "P []" "\<And>ms ns. P ms \<Longrightarrow> P ns \<Longrightarrow> P (ms @ ns)"
  shows "c_wp (j_collect xs f) (\<lambda>ms s'. I s' \<and> P ms) E s"
  using assms(1,2)
proof (induction xs arbitrary: s)
  case (Cons x xs)
  have head: "c_wp (f x) (\<lambda>ms s'. I s' \<and> P ms) E s" using Cons.prems by simp
  have rest: "I t \<Longrightarrow> c_wp (j_collect xs f) (\<lambda>ms s'. I s' \<and> P ms) E t" for t
    using Cons.IH Cons.prems(1) by simp
  show ?case
    by (auto simp: wp_rules intro!: wp_mono [OF head] wp_mono [OF rest] P(2))
qed (simp add: wp_rules P)

section \<open>New templates\<close>

definition each_standard ::
  "downstream_id \<Rightarrow> (channel_id \<Rightarrow> (('s, 'x, 'g, 'v, 'u, 'f, 'a) jdc_manager, jdc_route list) jcomp)
    \<Rightarrow> (('s, 'x, 'g, 'v, 'u, 'f, 'a) jdc_manager, jdc_route list) jcomp" where
  "each_standard d f = jdc_with_registered d (\<lambda>ds. j_collect (sm_keys (jn_standard_channels ds)) f)"

definition each_extended ::
  "downstream_id \<Rightarrow> (channel_id \<Rightarrow> (('s, 'x, 'g, 'v, 'u, 'f, 'a) jdc_manager, jdc_route list) jcomp)
    \<Rightarrow> (('s, 'x, 'g, 'v, 'u, 'f, 'a) jdc_manager, jdc_route list) jcomp" where
  "each_extended d f = jdc_with_registered d (\<lambda>ds. j_collect (sm_keys (jn_extended_channels ds)) f)"

definition jdc_template_on_group ::
  "('s, 'x, 'g, 'v, 'u, 'f, 'a, 'p) jdc_lib \<Rightarrow> new_template \<Rightarrow> tx_out list \<Rightarrow> ('g, extended_job) jcomp" where
  "jdc_template_on_group lib msg outputs =
     (let api = jl_group lib in
      c_bind (j_call group_shutdown (grp_on_new_template api msg outputs)) (\<lambda>_.
      c_bind (c_get (\<lambda>g. if nt_future_template msg
          then (case grp_get_future_job_id_from_template_id api g (nt_template_id msg) of
                  None \<Rightarrow> None | Some job_id \<Rightarrow> grp_get_future_job api g job_id)
          else grp_get_active_job api g)) j_expect))"

text \<open>A custom job for the pool, kept in the store of declared jobs.\<close>

definition new_custom_job ::
  "('s, 'x, 'g, 'v, 'u, 'f, 'a, 'p) jdc_lib \<Rightarrow> 'f \<Rightarrow> channel_id \<Rightarrow> nat \<Rightarrow> job_token \<Rightarrow> tdp_set_new_prev_hash
    \<Rightarrow> new_template \<Rightarrow> tx_out list \<Rightarrow> (('s, 'x, 'g, 'v, 'u, 'f, 'a) jdc_manager, set_custom_mining_job option) jcomp" where
  "new_custom_job lib job_factory channel_id full_extranonce_size token prev_hash template outputs =
     c_bind next_request_id (\<lambda>request_id.
     case jf_new_custom_job (jl_job_factory lib) channel_id request_id (jt_mining_job_token token) prev_hash template
            outputs full_extranonce_size job_factory of
       Inl _ \<Rightarrow> c_return None
     | Inr custom_job \<Rightarrow>
         c_bind (c_modify (\<lambda>cm. cm\<lparr>jc_last_declare_job_store := snd (sm_insert request_id
             \<lparr>dj_declare_mining_job = None, dj_template = template, dj_prev_hash = Some prev_hash,
              dj_set_custom_mining_job = Some custom_job, dj_coinbase_output = jc_coinbase_outputs cm, dj_tx_list = []\<rparr>
             (jc_last_declare_job_store cm))\<rparr>)) (\<lambda>_. c_return (Some custom_job)))"

text \<open>The channel with the pool: its identifier and full extranonce size.\<close>

definition upstream_info ::
  "('s, 'x, 'g, 'v, 'u, 'f, 'a, 'p) jdc_lib \<Rightarrow> ('s, 'x, 'g, 'v, 'u, 'f, 'a) jdc_manager \<Rightarrow> (channel_id \<times> nat) option" where
  "upstream_info lib cm = map_option (\<lambda>u. (ux_get_channel_id (jl_upstream lib) u,
     ux_get_full_extranonce_size (jl_upstream lib) u)) (jc_upstream_channel cm)"

definition coinbase_only_job ::
  "('s, 'x, 'g, 'v, 'u, 'f, 'a, 'p) jdc_lib \<Rightarrow> job_token option \<Rightarrow> new_template \<Rightarrow> tx_out list
    \<Rightarrow> (('s, 'x, 'g, 'v, 'u, 'f, 'a) jdc_manager, jdc_route list) jcomp" where
  "coinbase_only_job lib token msg outputs = c_bind (c_get id) (\<lambda>cm.
     case (token, upstream_info lib cm, jc_last_new_prev_hash cm) of
       (Some token, Some (channel_id, full_extranonce_size), Some prev_hash) \<Rightarrow>
         c_bind (j_expect (jc_job_factory cm)) (\<lambda>job_factory.
         c_bind (new_custom_job lib job_factory channel_id full_extranonce_size token prev_hash msg outputs) (\<lambda>j.
         c_return (case j of None \<Rightarrow> [] | Some custom_job \<Rightarrow> [ToUpstream (SetCustomMiningJob custom_job)])))
     | _ \<Rightarrow> c_return [])"

definition jdc_template_on_standard ::
  "('s, 'x, 'g, 'v, 'u, 'f, 'a, 'p) jdc_lib \<Rightarrow> downstream_id \<Rightarrow> bool \<Rightarrow> new_template \<Rightarrow> tx_out list \<Rightarrow> extended_job
    \<Rightarrow> channel_id \<Rightarrow> (('s, 'x, 'g, 'v, 'u, 'f, 'a) jdc_manager, jdc_route list) jcomp" where
  "jdc_template_on_standard lib d requires_standard_jobs msg outputs group_job channel_id =
     (let api = jl_standard lib in
      if \<not> requires_standard_jobs then
        c_bind (c_modify (map_job d channel_id (xj_job_id group_job) (nt_template_id msg))) (\<lambda>_.
        c_bind (jdc_on d (jdc_on_standard channel_id (j_call standard_shutdown (sc_on_group_channel_job api group_job)))) (\<lambda>_.
        c_return []))
      else
        c_bind (jdc_on d (jdc_on_standard channel_id (
          c_bind (j_call standard_shutdown (sc_on_new_template api msg outputs)) (\<lambda>_.
          if nt_future_template msg
          then c_bind (c_get (\<lambda>c. sc_get_future_job_id_from_template_id api c (nt_template_id msg))) (\<lambda>i.
               c_bind (j_expect i) (\<lambda>job_id.
               c_bind (c_get (\<lambda>c. sc_get_future_job api c job_id)) (\<lambda>j.
               c_bind (j_expect j) (\<lambda>job. c_return (job_id, job)))))
          else c_bind (c_get (sc_get_active_job api)) (\<lambda>j.
               c_bind (j_expect j) (\<lambda>job. c_return (sj_job_id job, job))))))) (\<lambda>r. case r of
          None \<Rightarrow> c_return []
        | Some (job_id, job) \<Rightarrow>
          c_bind (c_modify (map_job d channel_id job_id (nt_template_id msg))) (\<lambda>_.
          c_return [ToDownstream d (NewMiningJob (sj_job_message job))])))"

definition jdc_template_on_extended ::
  "('s, 'x, 'g, 'v, 'u, 'f, 'a, 'p) jdc_lib \<Rightarrow> downstream_id \<Rightarrow> new_template \<Rightarrow> extended_job
    \<Rightarrow> channel_id \<Rightarrow> (('s, 'x, 'g, 'v, 'u, 'f, 'a) jdc_manager, jdc_route list) jcomp" where
  "jdc_template_on_extended lib d msg group_job channel_id =
     c_bind (c_modify (map_job d channel_id (xj_job_id group_job) (nt_template_id msg))) (\<lambda>_.
     c_bind (jdc_on d (jdc_on_extended channel_id
       (j_call extended_shutdown (xc_on_group_channel_job (jl_extended lib) group_job)))) (\<lambda>_.
     c_return []))"

definition jdc_template_on_downstream ::
  "('s, 'x, 'g, 'v, 'u, 'f, 'a, 'p) jdc_lib \<Rightarrow> job_token option \<Rightarrow> new_template \<Rightarrow> tx_out list \<Rightarrow> downstream_id
    \<Rightarrow> (('s, 'x, 'g, 'v, 'u, 'f, 'a) jdc_manager, jdc_route list) jcomp" where
  "jdc_template_on_downstream lib token msg outputs d =
     c_bind (jdc_on d (jdc_on_group (jdc_template_on_group lib msg outputs))) (\<lambda>group_job.
     c_bind (coinbase_only_job lib token msg outputs) (\<lambda>custom.
     c_bind (jdc_on d (c_get (\<lambda>ds. (jn_require_std_job ds, grp_is_empty (jl_group lib) (jn_group_channel ds)))))
       (\<lambda>(requires_standard_jobs, empty_group).
     c_bind (each_standard d (jdc_template_on_standard lib d requires_standard_jobs msg outputs group_job)) (\<lambda>standard.
     c_bind (each_extended d (jdc_template_on_extended lib d msg group_job)) (\<lambda>extended.
     c_return (custom @ (if \<not> requires_standard_jobs \<and> \<not> empty_group
         then [ToDownstream d (NewExtendedMiningJob (xj_job_message group_job))] else []) @ standard @ extended))))))"

text \<open>The token that a non-future template consumes in coinbase only mode, when all else is there.\<close>

definition coinbase_only_token ::
  "new_template \<Rightarrow> (('s, 'x, 'g, 'v, 'u, 'f, 'a) jdc_manager, job_token option) jcomp" where
  "coinbase_only_token msg = c_bind (c_get id) (\<lambda>cm.
     if \<not> nt_future_template msg \<and> is_coinbase_only (jc_mode cm) \<and> jc_upstream_channel cm \<noteq> None \<and>
        jc_last_new_prev_hash cm \<noteq> None \<and> jc_job_factory cm \<noteq> None
     then pop_token else c_return None)"

definition jdc_handle_new_template ::
  "('s, 'x, 'g, 'v, 'u, 'f, 'a, 'p) jdc_lib \<Rightarrow> ('w, 'b, 'q) jdc_env \<Rightarrow> new_template
    \<Rightarrow> (('s, 'x, 'g, 'v, 'u, 'f, 'a) jdc_manager, unit) jcomp" where
  "jdc_handle_new_template lib env msg =
     c_bind (c_modify (\<lambda>cm. cm\<lparr>jc_template_store := snd (sm_insert (nt_template_id msg) msg (jc_template_store cm)),
        jc_last_future_template := (if nt_future_template msg then Some msg else jc_last_future_template cm)\<rparr>)) (\<lambda>_.
     c_bind (jdc_outputs lib JkChannelManagerHasBadCoinbaseOutputs) (\<lambda>outputs.
     c_bind (set_first_value (nt_coinbase_tx_value_remaining msg) outputs) (\<lambda>outputs.
     c_bind (c_get (\<lambda>cm. is_full_template (jc_mode cm))) (\<lambda>full.
     c_bind (if full then jdc_send_tp env (RequestTransactionData (nt_template_id msg)) else c_return ()) (\<lambda>_.
     c_bind (coinbase_only_token msg) (\<lambda>token.
     c_bind (c_get (\<lambda>cm. sm_keys (jc_downstream cm))) (\<lambda>ds.
     c_bind (j_collect ds (jdc_template_on_downstream lib token msg outputs)) (\<lambda>messages.
     c_bind (if token \<noteq> None then j_ignore (allocate_tokens lib env 1) else c_return ()) (\<lambda>_.
     jdc_forward_each lib env messages)))))))))"

section \<open>Transaction data\<close>

definition jdc_handle_request_tx_data_error :: "error_code \<Rightarrow> ('c, unit) jcomp" where
  "jdc_handle_request_tx_data_error code =
     (if code \<in> {EC_REQUEST_TRANSACTION_DATA_TEMPLATE_ID_NOT_FOUND, EC_REQUEST_TRANSACTION_DATA_STALE_TEMPLATE_ID}
      then c_return () else j_raise (jdc_log JkTxDataError))"

text \<open>The declaration of a template, kept in the store of declared jobs; \<^const>\<open>None\<close> when it cannot be built.\<close>

definition declare_template ::
  "('s, 'x, 'g, 'v, 'u, 'f, 'a, 'p) jdc_lib \<Rightarrow> u32 \<Rightarrow> job_token \<Rightarrow> new_template \<Rightarrow> tdp_set_new_prev_hash option
    \<Rightarrow> tx_out list \<Rightarrow> bytes list \<Rightarrow> bytes \<Rightarrow> bytes list
    \<Rightarrow> (('s, 'x, 'g, 'v, 'u, 'f, 'a) jdc_manager, declare_mining_job option) jcomp" where
  "declare_template lib request_id token template prev_hash outputs wtx_ids excess_data txs = c_bind (c_get id) (\<lambda>cm.
     case (upstream_info lib cm, jc_job_factory cm) of
       (Some (_, full_extranonce_size), Some job_factory) \<Rightarrow>
         (let (r, job_factory) = jf_new_coinbase_tx_prefix_and_suffix (jl_job_factory lib) template outputs
                full_extranonce_size job_factory in
          c_bind (c_modify (\<lambda>cm. cm\<lparr>jc_job_factory := Some job_factory\<rparr>)) (\<lambda>_. case r of
            Inl _ \<Rightarrow> c_return None
          | Inr (coinbase_prefix, coinbase_suffix) \<Rightarrow>
              (if \<not> fits_b064k (jl_limits lib) (length coinbase_prefix) \<or> \<not> fits_b064k (jl_limits lib) (length coinbase_suffix)
               then j_panic
               else (let declare_job = \<lparr>dmj_request_id = request_id, dmj_mining_job_token = jt_mining_job_token token,
                       dmj_version = nt_version template, dmj_coinbase_tx_prefix = coinbase_prefix,
                       dmj_coinbase_tx_suffix = coinbase_suffix, dmj_wtxid_list = wtx_ids, dmj_excess_data = excess_data\<rparr> in
                 c_bind (c_modify (\<lambda>cm. cm\<lparr>jc_last_declare_job_store := snd (sm_insert request_id
                   \<lparr>dj_declare_mining_job = Some declare_job, dj_template = template, dj_prev_hash = prev_hash,
                    dj_set_custom_mining_job = None, dj_coinbase_output = jl_serialize_outputs lib outputs, dj_tx_list = txs\<rparr>
                   (jc_last_declare_job_store cm))\<rparr>)) (\<lambda>_. c_return (Some declare_job))))))
     | _ \<Rightarrow> c_return None)"

text \<open>The wtxids of raw transactions: one that does not decode panics.\<close>

definition transaction_wtxids :: "('s, 'x, 'g, 'v, 'u, 'f, 'a, 'p) jdc_lib \<Rightarrow> bytes list \<Rightarrow> bytes list option" where
  "transaction_wtxids lib txs = those (map (jl_transaction_wtxid lib) txs)"

definition jdc_handle_request_tx_data_success ::
  "('s, 'x, 'g, 'v, 'u, 'f, 'a, 'p) jdc_lib \<Rightarrow> ('w, 'b, 'q) jdc_env \<Rightarrow> u64 \<Rightarrow> bytes \<Rightarrow> bytes list
    \<Rightarrow> (('s, 'x, 'g, 'v, 'u, 'f, 'a) jdc_manager, unit) jcomp" where
  "jdc_handle_request_tx_data_success lib env template_id excess_data txs =
     c_bind (jdc_outputs lib JkChannelManagerHasBadCoinbaseOutputs) (\<lambda>outputs.
     c_bind pop_token (\<lambda>token.
     c_bind (c_get (\<lambda>cm. sm_get_cloned (jc_template_store cm) template_id)) (\<lambda>template.
     c_bind (c_modify (\<lambda>cm. cm\<lparr>jc_template_store := snd (sm_remove template_id (jc_template_store cm))\<rparr>)) (\<lambda>_.
     c_bind next_request_id (\<lambda>request_id.
     c_bind (c_get jc_last_new_prev_hash) (\<lambda>prev_hash.
     c_bind (j_ignore (allocate_tokens lib env 1)) (\<lambda>_. case token of
       None \<Rightarrow> c_return ()
     | Some token \<Rightarrow>
       c_bind (j_try (ok_or (jdc_log (JkTemplateNotFound template_id)) template)) (\<lambda>template.
       c_bind (set_first_value (nt_coinbase_tx_value_remaining template) outputs) (\<lambda>outputs.
       c_bind (j_expect (transaction_wtxids lib txs)) (\<lambda>wtx_ids.
       c_bind (j_guard (fits_seq064k (jl_limits lib) (length wtx_ids)) (jdc_shutdown JkBinarySv2)) (\<lambda>_.
       c_bind (declare_template lib request_id token template prev_hash outputs wtx_ids excess_data txs) (\<lambda>declare_job.
       if nt_future_template template \<and>
          (case prev_hash of None \<Rightarrow> True | Some p \<Rightarrow> tph_template_id p \<noteq> nt_template_id template)
       then c_return ()
       else (case declare_job of
           None \<Rightarrow> c_return ()
         | Some j \<Rightarrow> j_ignore (jdc_send_jd env (RequestDeclare j)))))))))))))))"

section \<open>New previous hashes\<close>

definition group_fallback :: "string \<Rightarrow> jdc_error" where
  "group_fallback e = jdc_fallback (JkChannelSv2 (GroupChannelServerSide e))"

definition jdc_prev_hash_on_group ::
  "('s, 'x, 'g, 'v, 'u, 'f, 'a, 'p) jdc_lib \<Rightarrow> tdp_set_new_prev_hash \<Rightarrow> ('g, channel_id \<times> u32 \<times> bool) jcomp" where
  "jdc_prev_hash_on_group lib msg =
     (let api = jl_group lib in
      c_bind (j_call group_fallback (grp_on_set_new_prev_hash api msg)) (\<lambda>_.
      c_bind (c_get (grp_get_active_job api)) (\<lambda>j.
      c_bind (j_expect j) (\<lambda>job.
      c_get (\<lambda>g. (grp_get_group_channel_id api g, xj_job_id job, grp_is_empty api g))))))"

definition jdc_prev_hash_on_standard ::
  "('s, 'x, 'g, 'v, 'u, 'f, 'a, 'p) jdc_lib \<Rightarrow> downstream_id \<Rightarrow> bool \<Rightarrow> tdp_set_new_prev_hash
    \<Rightarrow> channel_id \<Rightarrow> (('s, 'x, 'g, 'v, 'u, 'f, 'a) jdc_manager, jdc_route list) jcomp" where
  "jdc_prev_hash_on_standard lib d requires_standard_jobs msg channel_id =
     (let api = jl_standard lib in
      c_bind (jdc_on d (jdc_on_standard channel_id (
        c_bind (j_call (\<lambda>e. jdc_fallback (JkChannelSv2 (StandardChannelServerSide e)))
                  (sc_on_set_new_prev_hash api msg)) (\<lambda>_.
        if requires_standard_jobs
        then c_bind (c_get (sc_get_active_job api)) (\<lambda>j. c_bind (j_expect j) (\<lambda>job. c_return (Some (sj_job_id job))))
        else c_return None)))) (\<lambda>r. case r of
        Some (Some job_id) \<Rightarrow>
          c_bind (c_modify (map_job d channel_id job_id (tph_template_id msg))) (\<lambda>_.
          c_return [ToDownstream d (prev_hash_message channel_id job_id msg)])
      | _ \<Rightarrow> c_return []))"

definition jdc_prev_hash_on_extended ::
  "('s, 'x, 'g, 'v, 'u, 'f, 'a, 'p) jdc_lib \<Rightarrow> downstream_id \<Rightarrow> tdp_set_new_prev_hash
    \<Rightarrow> channel_id \<Rightarrow> (('s, 'x, 'g, 'v, 'u, 'f, 'a) jdc_manager, jdc_route list) jcomp" where
  "jdc_prev_hash_on_extended lib d msg channel_id =
     c_bind (jdc_on d (jdc_on_extended channel_id
       (j_call (\<lambda>e. jdc_fallback (JkChannelSv2 (ExtendedChannelServerSide e)))
          (xc_on_set_new_prev_hash (jl_extended lib) msg)))) (\<lambda>_. c_return [])"

definition jdc_prev_hash_on_downstream ::
  "('s, 'x, 'g, 'v, 'u, 'f, 'a, 'p) jdc_lib \<Rightarrow> tdp_set_new_prev_hash \<Rightarrow> downstream_id
    \<Rightarrow> (('s, 'x, 'g, 'v, 'u, 'f, 'a) jdc_manager, jdc_route list) jcomp" where
  "jdc_prev_hash_on_downstream lib msg d =
     c_bind (jdc_on d (jdc_on_group (jdc_prev_hash_on_group lib msg))) (\<lambda>(group_channel_id, job_id, empty_group).
     c_bind (jdc_on d (c_get jn_require_std_job)) (\<lambda>requires_standard_jobs.
     let grouped = \<not> requires_standard_jobs \<and> \<not> empty_group;
         map_channel = (\<lambda>c. c_bind (c_modify (map_job d c job_id (tph_template_id msg))) (\<lambda>_. c_return [])) in
     c_bind (if grouped then each_standard d map_channel else c_return []) (\<lambda>_.
     c_bind (if grouped then each_extended d map_channel else c_return []) (\<lambda>_.
     c_bind (each_standard d (jdc_prev_hash_on_standard lib d requires_standard_jobs msg)) (\<lambda>standard.
     c_bind (each_extended d (jdc_prev_hash_on_extended lib d msg)) (\<lambda>_.
     c_return ((if grouped then [ToDownstream d (prev_hash_message group_channel_id job_id msg)] else []) @ standard)))))))"

text \<open>The declaration of the last future template, if one is in the store.\<close>

definition future_declaration :: "('s, 'x, 'g, 'v, 'u, 'f, 'a) jdc_manager \<Rightarrow> declare_mining_job option option" where
  "future_declaration cm = sm_for_each (\<lambda>acc _ j.
     if Some (nt_template_id (dj_template j)) = map_option nt_template_id (jc_last_future_template cm)
     then Some (dj_declare_mining_job j) else acc) None (jc_last_declare_job_store cm)"

text \<open>Declared jobs of the template that the new previous hash activates.\<close>

definition activate_declared :: "tdp_set_new_prev_hash \<Rightarrow> declared_job \<Rightarrow> declared_job" where
  "activate_declared msg j =
     (if nt_future_template (dj_template j) \<and> nt_template_id (dj_template j) = tph_template_id msg
      then j\<lparr>dj_prev_hash := Some msg, dj_template := (dj_template j)\<lparr>nt_future_template := False\<rparr>\<rparr> else j)"

text \<open>
  The custom job of coinbase only mode for the template that is activated: whether a token was
  used for it, and the message.
\<close>

definition prev_hash_custom_job ::
  "('s, 'x, 'g, 'v, 'u, 'f, 'a, 'p) jdc_lib \<Rightarrow> tx_out list \<Rightarrow> new_template option \<Rightarrow> tdp_set_new_prev_hash
    \<Rightarrow> (('s, 'x, 'g, 'v, 'u, 'f, 'a) jdc_manager, bool \<times> jdc_route list) jcomp" where
  "prev_hash_custom_job lib outputs future_template msg = c_bind (c_get id) (\<lambda>cm.
     case (is_coinbase_only (jc_mode cm), future_template) of
       (True, Some template) \<Rightarrow> c_bind pop_token (\<lambda>token.
         case (token, upstream_info lib cm) of
           (Some token, Some (channel_id, full_extranonce_size)) \<Rightarrow>
             c_bind (j_expect (jc_job_factory cm)) (\<lambda>job_factory.
             c_bind (new_custom_job lib job_factory channel_id full_extranonce_size token msg template outputs) (\<lambda>j.
             c_return (True, case j of None \<Rightarrow> [] | Some custom_job \<Rightarrow> [ToUpstream (SetCustomMiningJob custom_job)])))
         | _ \<Rightarrow> c_return (False, []))
     | _ \<Rightarrow> c_return (False, []))"

definition jdc_handle_set_new_prev_hash ::
  "('s, 'x, 'g, 'v, 'u, 'f, 'a, 'p) jdc_lib \<Rightarrow> ('w, 'b, 'q) jdc_env \<Rightarrow> tdp_set_new_prev_hash
    \<Rightarrow> (('s, 'x, 'g, 'v, 'u, 'f, 'a) jdc_manager, unit) jcomp" where
  "jdc_handle_set_new_prev_hash lib env msg =
     c_bind (jdc_outputs lib JkChannelManagerHasBadCoinbaseOutputs) (\<lambda>outputs.
     c_bind (c_modify (\<lambda>cm. cm\<lparr>jc_cached_shares := sm_clear (jc_cached_shares cm),
        jc_upstream_channel := map_option (ux_on_chain_tip_update (jl_upstream lib) msg) (jc_upstream_channel cm)\<rparr>)) (\<lambda>_.
     c_bind (c_get id) (\<lambda>cm.
     c_bind (case (is_full_template (jc_mode cm), future_declaration cm) of
         (True, Some (Some job)) \<Rightarrow> jdc_send_jd env (RequestDeclare job)
       | _ \<Rightarrow> c_return ()) (\<lambda>_.
     c_bind (c_modify (\<lambda>cm. cm\<lparr>jc_last_new_prev_hash := Some msg,
        jc_last_declare_job_store := map (\<lambda>(k, j). (k, activate_declared msg j)) (jc_last_declare_job_store cm)\<rparr>)) (\<lambda>_.
     c_bind (prev_hash_custom_job lib outputs (jc_last_future_template cm) msg) (\<lambda>(token_consumed, custom).
     c_bind (j_collect (sm_keys (jc_downstream cm)) (jdc_prev_hash_on_downstream lib msg)) (\<lambda>messages.
     c_bind (if token_consumed then j_ignore (allocate_tokens lib env 1) else c_return ()) (\<lambda>_.
     jdc_forward_each lib env (custom @ messages)))))))))"

text \<open>
  Messages that only a client sends are refused by the dispatcher of the handler crate, which names
  their extension and message type; the error is logged.
\<close>

definition jdc_handle_template_message ::
  "('s, 'x, 'g, 'v, 'u, 'f, 'a, 'p) jdc_lib \<Rightarrow> (tdp_message \<Rightarrow> u16 \<times> u8) \<Rightarrow> ('w, 'b, 'q) jdc_env \<Rightarrow> tdp_message option
    \<Rightarrow> (('s, 'x, 'g, 'v, 'u, 'f, 'a) jdc_manager, unit) jcomp" where
  "jdc_handle_template_message lib message_type env received = (case received of
     None \<Rightarrow> j_raise (jdc_shutdown JkChannelErrorReceiver)
   | Some m \<Rightarrow> (case m of
       NewTemplate msg \<Rightarrow> jdc_handle_new_template lib env msg
     | TdpSetNewPrevHash msg \<Rightarrow> jdc_handle_set_new_prev_hash lib env msg
     | RequestTransactionDataError _ code \<Rightarrow> jdc_handle_request_tx_data_error code
     | RequestTransactionDataSuccess template_id excess_data txs \<Rightarrow>
         jdc_handle_request_tx_data_success lib env template_id excess_data txs
     | _ \<Rightarrow> j_raise (jdc_log (case message_type m of (ext, ty) \<Rightarrow> JkUnexpectedMessage ext ty))))"

section \<open>The job declaration server\<close>

definition jdc_handle_allocate_success ::
  "('s, 'x, 'g, 'v, 'u, 'f, 'a, 'p) jdc_lib \<Rightarrow> ('w, 'b, 'q) jdc_env \<Rightarrow> job_token
    \<Rightarrow> (('s, 'x, 'g, 'v, 'u, 'f, 'a) jdc_manager, unit) jcomp" where
  "jdc_handle_allocate_success lib env token =
     c_bind (c_get (\<lambda>cm. jc_coinbase_outputs cm \<noteq> jt_coinbase_outputs token)) (\<lambda>coinbase_changed.
     c_bind (c_modify (\<lambda>cm. cm\<lparr>jc_coinbase_outputs := jt_coinbase_outputs token,
        jc_allocate_tokens := jc_allocate_tokens cm @ [token]\<rparr>)) (\<lambda>_.
     if coinbase_changed
     then c_bind (j_try (ok_or (jdc_shutdown JkBitcoinEncodeError)
            (jl_consensus_deserialize_outputs lib (jt_coinbase_outputs token)))) (\<lambda>outs.
          jdc_send_tp env (CoinbaseOutputConstraints
            \<lparr>coc_max_additional_size = word_of_nat (sum_list (map (tm_size (jl_tx_metrics lib)) outs)),
             coc_max_additional_sigops = word_of_nat (tm_total_sigop_cost (jl_tx_metrics lib) (dummy_coinbase outs))\<rparr>))
     else c_return ()))"

definition jdc_handle_declare_error :: "error_code \<Rightarrow> ('c, unit) jcomp" where
  "jdc_handle_declare_error code =
     (if code = EC_DECLARE_MINING_JOB_STALE_CHAIN_TIP then c_return ()
      else j_raise (jdc_fallback JkDeclareMiningJobError))"

definition jdc_handle_declare_success ::
  "('s, 'x, 'g, 'v, 'u, 'f, 'a, 'p) jdc_lib \<Rightarrow> ('w, 'b, 'q) jdc_env \<Rightarrow> u32 \<Rightarrow> bytes
    \<Rightarrow> (('s, 'x, 'g, 'v, 'u, 'f, 'a) jdc_manager, unit) jcomp" where
  "jdc_handle_declare_success lib env request_id new_token =
     c_bind (c_get id) (\<lambda>cm.
     c_bind (j_try (ok_or (jdc_log (JkLastDeclareJobNotFound request_id))
        (sm_get_cloned (jc_last_declare_job_store cm) request_id))) (\<lambda>job.
     c_bind (j_try (ok_or (jdc_log JkLastNewPrevhashNotFound) (dj_prev_hash job))) (\<lambda>prev_hash.
     c_bind (j_try (ok_or (jdc_shutdown JkChannelManagerHasBadCoinbaseOutputs)
        (jl_deserialize_outputs lib (dj_coinbase_output job)))) (\<lambda>outputs.
     case (upstream_info lib cm, jc_job_factory cm) of
       (Some (channel_id, full_extranonce_size), Some job_factory) \<Rightarrow>
         (case jf_new_custom_job (jl_job_factory lib) channel_id request_id new_token prev_hash (dj_template job) outputs
                 full_extranonce_size job_factory of
            Inl _ \<Rightarrow> j_raise (jdc_log JkFailedToCreateCustomJob)
          | Inr custom_job \<Rightarrow>
              c_bind (c_modify (\<lambda>cm. cm\<lparr>jc_last_declare_job_store := snd (sm_insert request_id
                (job\<lparr>dj_set_custom_mining_job := Some custom_job\<rparr>) (jc_last_declare_job_store cm))\<rparr>)) (\<lambda>_.
              jdc_send_upstream lib env (SetCustomMiningJob custom_job)))
     | _ \<Rightarrow> j_raise (jdc_log JkFailedToCreateCustomJob)))))"

definition missing_transactions :: "bytes list \<Rightarrow> u16 list \<Rightarrow> bytes list" where
  "missing_transactions txs positions =
     List.map_filter (\<lambda>p. if unat p < length txs then Some (txs ! unat p) else None) positions"

definition jdc_handle_provide_missing ::
  "('s, 'x, 'g, 'v, 'u, 'f, 'a, 'p) jdc_lib \<Rightarrow> ('w, 'b, 'q) jdc_env \<Rightarrow> u32 \<Rightarrow> u16 list
    \<Rightarrow> (('s, 'x, 'g, 'v, 'u, 'f, 'a) jdc_manager, unit) jcomp" where
  "jdc_handle_provide_missing lib env request_id positions =
     c_bind (c_get (\<lambda>cm. sm_get_cloned (jc_last_declare_job_store cm) request_id)) (\<lambda>entry.
     c_bind (j_try (ok_or (jdc_log (JkLastDeclareJobNotFound request_id)) entry)) (\<lambda>job.
     c_bind (j_guard (list_all (\<lambda>tx. fits_b016m (jl_limits lib) (length tx)) (dj_tx_list job)) (jdc_shutdown JkBinarySv2)) (\<lambda>_.
     (let missing = missing_transactions (dj_tx_list job) positions in
      c_bind (j_guard (fits_seq064k (jl_limits lib) (length missing)) (jdc_shutdown JkBinarySv2)) (\<lambda>_.
      jdc_send_jd env (RequestMissing \<lparr>pmt_request_id = request_id, pmt_transaction_list = missing\<rparr>))))))"

definition jdc_handle_jds_message ::
  "('s, 'x, 'g, 'v, 'u, 'f, 'a, 'p) jdc_lib \<Rightarrow> ('w, 'b, 'q) jdc_env \<Rightarrow> jdp_message option
    \<Rightarrow> (('s, 'x, 'g, 'v, 'u, 'f, 'a) jdc_manager, unit) jcomp" where
  "jdc_handle_jds_message lib env received = (case received of
     None \<Rightarrow> j_raise (jdc_fallback JkChannelErrorReceiver)
   | Some (AllocateMiningJobTokenSuccess request_id token outputs) \<Rightarrow> jdc_handle_allocate_success lib env
       \<lparr>jt_request_id = request_id, jt_mining_job_token = token, jt_coinbase_outputs = outputs\<rparr>
   | Some (DeclareMiningJobSuccess request_id token) \<Rightarrow> jdc_handle_declare_success lib env request_id token
   | Some (DeclareMiningJobError _ code _) \<Rightarrow> jdc_handle_declare_error code
   | Some (ProvideMissingTransactions request_id positions) \<Rightarrow> jdc_handle_provide_missing lib env request_id positions)"

end
