(* ===== verification/Jdc_Upstream.thy ===== *)
theory Jdc_Upstream
  imports Jdc_Template
begin

text \<open>
  The messages of the pool (\<open>channel_manager/upstream_message_handler.rs\<close>,
  \<open>channel_manager/extensions_message_handler.rs\<close>), cached shares (\<open>utils.rs\<close>), and the event loop of the
  channel manager (\<open>channel_manager/mod.rs\<close>).
\<close>

section \<open>The channel with the pool\<close>

text \<open>The channel cannot be used: the state goes back and the pool is told to close it.\<close>

definition abandon_channel ::
  "('s, 'x, 'g, 'v, 'u, 'f, 'a, 'p) jdc_lib \<Rightarrow> ('w, 'b, 'q) jdc_env \<Rightarrow> channel_id
    \<Rightarrow> (('s, 'x, 'g, 'v, 'u, 'f, 'a) jdc_manager, unit) jcomp" where
  "abandon_channel lib env channel_id =
     c_bind (c_modify (\<lambda>cm. cm\<lparr>jc_upstream_state := UpNoChannel\<rparr>)) (\<lambda>_.
     jdc_send_upstream lib env (CloseChannelRequest channel_id ''downstream not available''))"

text \<open>The custom job that is sent with a new channel, when there was a job factory before.\<close>

definition open_success_custom_job ::
  "('s, 'x, 'g, 'v, 'u, 'f, 'a, 'p) jdc_lib \<Rightarrow> 'f \<Rightarrow> 'u \<Rightarrow> tx_out list
    \<Rightarrow> (('s, 'x, 'g, 'v, 'u, 'f, 'a) jdc_manager, set_custom_mining_job option) jcomp" where
  "open_success_custom_job lib job_factory u outputs = c_bind (c_get id) (\<lambda>cm.
     case (is_coinbase_only (jc_mode cm) \<and> jc_job_factory cm \<noteq> None, jc_last_future_template cm, jc_last_new_prev_hash cm) of
       (True, Some template, Some prev_hash) \<Rightarrow> c_bind pop_token (\<lambda>token. case token of
         None \<Rightarrow> c_return None
       | Some token \<Rightarrow> new_custom_job lib job_factory (ux_get_channel_id (jl_upstream lib) u)
           (ux_get_full_extranonce_size (jl_upstream lib) u) token prev_hash template outputs)
     | _ \<Rightarrow> c_return None)"

text \<open>The requests that waited are handled in order; the first error ends the loop.\<close>

definition serve_pending_requests ::
  "('s, 'x, 'g, 'v, 'u, 'f, 'a, 'p) jdc_lib \<Rightarrow> ('v, 'a, 'p) jdc_env
    \<Rightarrow> (('s, 'x, 'g, 'v, 'u, 'f, 'a) jdc_manager, unit) jcomp" where
  "serve_pending_requests lib env =
     c_bind (c_get jc_pending_downstream_requests) (\<lambda>pending.
     c_bind (c_modify (\<lambda>cm. cm\<lparr>jc_pending_downstream_requests := []\<rparr>)) (\<lambda>_.
     j_for pending (\<lambda>r. jdc_handle_mining_message_from_client lib env (pending_downstream_id r) (pending_message r))))"

text \<open>What follows once the channel object exists.\<close>

definition connect_upstream ::
  "('s, 'x, 'g, 'v, 'u, 'f, 'a, 'p) jdc_lib \<Rightarrow> ('v, 'a, 'p) jdc_env \<Rightarrow> 'a \<Rightarrow> 'f \<Rightarrow> 'u \<Rightarrow> tx_out list
    \<Rightarrow> (('s, 'x, 'g, 'v, 'u, 'f, 'a) jdc_manager, unit) jcomp" where
  "connect_upstream lib env allocator job_factory u outputs =
     c_bind (open_success_custom_job lib job_factory u outputs) (\<lambda>set_custom_job.
     c_bind (c_modify (\<lambda>cm. cm\<lparr>jc_extranonce_allocator := allocator, jc_upstream_channel := Some u,
        jc_job_factory := Some job_factory, jc_upstream_state := UpConnected,
        jc_downstream := map (\<lambda>(d, ds). (d, ds\<lparr>jn_group_channel := jl_group_set_full_extranonce_size lib
          (ux_get_full_extranonce_size (jl_upstream lib) u) (jn_group_channel ds)\<rparr>)) (jc_downstream cm)\<rparr>)) (\<lambda>_.
     c_bind (c_get id) (\<lambda>cm.
     c_bind (case (is_full_template (jc_mode cm), jc_last_future_template cm) of
         (True, Some template) \<Rightarrow> jdc_send_tp env (RequestTransactionData (nt_template_id template))
       | _ \<Rightarrow> c_return ()) (\<lambda>_.
     c_bind (case (is_coinbase_only (jc_mode cm), set_custom_job) of
         (True, Some custom_job) \<Rightarrow> c_bind (jdc_send_upstream lib env (SetCustomMiningJob custom_job)) (\<lambda>_.
            j_ignore (allocate_tokens lib env 1))
       | _ \<Rightarrow> c_return ()) (\<lambda>_.
     serve_pending_requests lib env)))))"

text \<open>\<open>total_len\<close> is computed in sixteen bits and cut to eight.\<close>

definition jdc_handle_open_extended_success ::
  "('s, 'x, 'g, 'v, 'u, 'f, 'a, 'p) jdc_lib \<Rightarrow> ('v, 'a, 'p) jdc_env \<Rightarrow> open_channel_success \<Rightarrow> u16
    \<Rightarrow> (('s, 'x, 'g, 'v, 'u, 'f, 'a) jdc_manager, unit) jcomp" where
  "jdc_handle_open_extended_success lib env msg extranonce_size =
     c_bind (jdc_outputs lib JkDeclaredJobHasBadCoinbaseOutputs) (\<lambda>outputs.
     c_bind (c_get id) (\<lambda>cm.
     c_bind (j_guard (\<not> extranonce_size < ucast (JDC_LOCAL_PREFIX_BYTES lib) + ucast (jc_reserved_downstream_rollable cm))
       (jdc_fallback JkExtranonceSizeTooSmall)) (\<lambda>_.
     case jc_pending_downstream_requests cm of
       [] \<Rightarrow> abandon_channel lib env (ocs_channel_id msg)
     | first # _ \<Rightarrow>
       (let prefix_bytes = ocs_extranonce_prefix msg; total_len = (word_of_nat (length prefix_bytes) + extranonce_size :: u16) in
        case jl_allocator_from_upstream_prefix lib prefix_bytes [] (ucast total_len) JDC_MAX_CHANNELS of
          Inl _ \<Rightarrow> abandon_channel lib env (ocs_channel_id msg)
        | Inr allocator \<Rightarrow>
          c_bind (j_expect (case jl_prefix_from_wire lib prefix_bytes of Inl _ \<Rightarrow> None | Inr p \<Rightarrow> Some p)) (\<lambda>extranonce_prefix.
          c_bind user_identity (\<lambda>identity.
          let u = ux_new (jl_upstream lib) (ocs_channel_id msg) identity extranonce_prefix (ocs_target msg)
                    (pending_hashrate first) True extranonce_size;
              u = (case jc_last_new_prev_hash cm of None \<Rightarrow> u | Some p \<Rightarrow> ux_on_chain_tip_update (jl_upstream lib) p u) in
          connect_upstream lib env allocator
            (jf_new (jl_job_factory lib) True (jc_pool_tag_string cm) (Some (jc_miner_tag_string cm))) u outputs))))))"

definition on_upstream ::
  "('u \<Rightarrow> 'u) \<Rightarrow> ('s, 'x, 'g, 'v, 'u, 'f, 'a) jdc_manager \<Rightarrow> ('s, 'x, 'g, 'v, 'u, 'f, 'a) jdc_manager" where
  "on_upstream f cm = cm\<lparr>jc_upstream_channel := map_option f (jc_upstream_channel cm)\<rparr>"

definition jdc_upstream_close :: "(('s, 'x, 'g, 'v, 'u, 'f, 'a) jdc_manager, unit) jcomp" where
  "jdc_upstream_close = c_bind (c_modify (\<lambda>cm. cm\<lparr>jc_upstream_channel := None\<rparr>)) (\<lambda>_.
     j_raise (jdc_fallback JkCloseChannel))"

section \<open>A new extranonce prefix\<close>

text \<open>
  The new prefix of a miner's channel: the message that announces it, or nothing when a step fails,
  since the results that are errors are dropped.
\<close>

definition renew_standard ::
  "('s, 'x, 'g, 'v, 'u, 'f, 'a, 'p) jdc_lib \<Rightarrow> ('w, 'a, 'p) jdc_env \<Rightarrow> downstream_id
    \<Rightarrow> channel_id \<Rightarrow> (('s, 'x, 'g, 'v, 'u, 'f, 'a) jdc_manager, jdc_route list) jcomp" where
  "renew_standard lib env d channel_id =
     c_bind (jdc_allocate_standard env) (\<lambda>allocation. case allocation of
       Inl _ \<Rightarrow> c_return []
     | Inr minted \<Rightarrow>
       c_bind (jdc_on d (jdc_on_standard channel_id (\<lambda>c.
         let (r, c) = jl_standard_set_extranonce_prefix lib minted c in (Ok (is_ok r), c)))) (\<lambda>changed.
       c_return (if changed = Some True \<and> jl_fits_b032 lib (length (jl_prefix_bytes lib minted))
         then [ToDownstream d (SetExtranoncePrefix channel_id (jl_prefix_bytes lib minted))] else [])))"

definition renew_extended ::
  "('s, 'x, 'g, 'v, 'u, 'f, 'a, 'p) jdc_lib \<Rightarrow> ('w, 'a, 'p) jdc_env \<Rightarrow> downstream_id
    \<Rightarrow> channel_id \<Rightarrow> (('s, 'x, 'g, 'v, 'u, 'f, 'a) jdc_manager, jdc_route list) jcomp" where
  "renew_extended lib env d channel_id =
     c_bind (jdc_on d (jdc_on_extended channel_id (c_get (xc_get_rollable_extranonce_size (jl_extended lib))))) (\<lambda>rollable.
     c_bind (jdc_allocate_extended env (case rollable of None \<Rightarrow> 0 | Some n \<Rightarrow> unat n)) (\<lambda>allocation. case allocation of
       Inl _ \<Rightarrow> c_return []
     | Inr minted \<Rightarrow>
       c_bind (jdc_on d (jdc_on_extended channel_id (\<lambda>c.
         let (r, c) = jl_extended_set_extranonce_prefix lib minted c in (Ok (is_ok r), c)))) (\<lambda>changed.
       c_return (if changed = Some True \<and> jl_fits_b032 lib (length (jl_prefix_bytes lib minted))
         then [ToDownstream d (SetExtranoncePrefix channel_id (jl_prefix_bytes lib minted))] else []))))"

definition renew_downstream ::
  "('s, 'x, 'g, 'v, 'u, 'f, 'a, 'p) jdc_lib \<Rightarrow> ('w, 'a, 'p) jdc_env \<Rightarrow> downstream_id
    \<Rightarrow> (('s, 'x, 'g, 'v, 'u, 'f, 'a) jdc_manager, jdc_route list) jcomp" where
  "renew_downstream lib env d =
     c_bind (each_standard d (renew_standard lib env d)) (\<lambda>standard.
     c_bind (each_extended d (renew_extended lib env d)) (\<lambda>extended. c_return (standard @ extended)))"

definition jdc_handle_set_extranonce_prefix ::
  "('s, 'x, 'g, 'v, 'u, 'f, 'a, 'p) jdc_lib \<Rightarrow> ('w, 'a, 'p) jdc_env \<Rightarrow> bytes
    \<Rightarrow> (('s, 'x, 'g, 'v, 'u, 'f, 'a) jdc_manager, unit) jcomp" where
  "jdc_handle_set_extranonce_prefix lib env new_prefix = c_bind (c_get id) (\<lambda>cm.
     case jc_upstream_channel cm of
       None \<Rightarrow> c_return ()
     | Some u \<Rightarrow>
       c_bind (j_try (map_err (\<lambda>_. jdc_fallback JkExtranonceSizeTooLarge) (jl_prefix_from_wire lib new_prefix))) (\<lambda>prefix.
       (let (r, u) = ux_set_extranonce_prefix (jl_upstream lib) prefix u;
            full_extranonce_size = length new_prefix + unat (ux_get_rollable_extranonce_size (jl_upstream lib) u) in
        c_bind (c_modify (\<lambda>cm. cm\<lparr>jc_upstream_channel := Some u\<rparr>)) (\<lambda>_.
        c_bind (j_try (map_err (\<lambda>e. jdc_fallback (JkClientChannel e)) r)) (\<lambda>_.
        c_bind (j_guard (\<not> full_extranonce_size > jl_max_extranonce_len lib) (jdc_fallback JkExtranonceSizeTooLarge)) (\<lambda>_.
        c_bind (j_try (map_err (\<lambda>e. jdc_fallback (JkChannelSv2 (ExtranonceError e)))
          (jl_allocator_from_upstream_prefix lib new_prefix [] (word_of_nat full_extranonce_size) JDC_MAX_CHANNELS))) (\<lambda>allocator.
        c_bind (c_modify (\<lambda>cm. cm\<lparr>jc_extranonce_allocator := allocator\<rparr>)) (\<lambda>_.
        c_bind (j_collect (sm_keys (jc_downstream cm)) (renew_downstream lib env))
          (jdc_forward_each lib env)))))))))"

section \<open>Custom jobs\<close>

text \<open>A cached share, once its job is known to the pool.\<close>

definition validate_cached_share ::
  "('s, 'x, 'g, 'v, 'u, 'f, 'a, 'p) jdc_lib \<Rightarrow> tdp_set_new_prev_hash \<Rightarrow> submit_shares_extended
    \<Rightarrow> (('s, 'x, 'g, 'v, 'u, 'f, 'a) jdc_manager, jdc_route list) jcomp" where
  "validate_cached_share lib prev_hash m = c_bind (c_get jc_upstream_channel) (\<lambda>up. case up of
     None \<Rightarrow> c_return []
   | Some u \<Rightarrow>
     (let (res, u) = ux_validate_share (jl_upstream lib) m u;
          extranonce = ux_get_extranonce_prefix (jl_upstream lib) u @ sse_extranonce m in
      c_bind (c_modify (\<lambda>cm. cm\<lparr>jc_upstream_channel := Some u\<rparr>)) (\<lambda>_. case res of
        Inr (UpstreamShareValid _) \<Rightarrow>
          c_bind next_sequence_number (\<lambda>n.
          c_return [ToUpstream (SubmitSharesExtended (m\<lparr>sse_sequence_number := n\<rparr>))])
      | Inr (UpstreamBlockFound _) \<Rightarrow>
          c_bind next_sequence_number (\<lambda>n.
          if \<not> jl_fits_b032 lib (length extranonce) then j_panic
          else c_return [ToJobDeclarator (RequestPush (share_push_solution extranonce m prev_hash)),
                         ToUpstream (SubmitSharesExtended (m\<lparr>sse_sequence_number := n\<rparr>))])
      | Inl e \<Rightarrow> c_bind (j_expect (extended_share_error_code e)) (\<lambda>_. c_return []))))"

definition custom_job_error :: "client_extended_error \<Rightarrow> jdc_error" where
  "custom_job_error e = (case e of
     ClientChainTipMismatch \<Rightarrow> jdc_log (JkClientChannel ''chain tip mismatch'')
   | ClientChannelOther s \<Rightarrow> jdc_fallback (JkClientChannel s))"

definition jdc_handle_custom_job_success ::
  "('s, 'x, 'g, 'v, 'u, 'f, 'a, 'p) jdc_lib \<Rightarrow> ('w, 'b, 'q) jdc_env \<Rightarrow> channel_id \<Rightarrow> u32 \<Rightarrow> u32
    \<Rightarrow> (('s, 'x, 'g, 'v, 'u, 'f, 'a) jdc_manager, unit) jcomp" where
  "jdc_handle_custom_job_success lib env channel_id request_id job_id = c_bind (c_get id) (\<lambda>cm.
     c_bind (j_try (ok_or (jdc_fallback (JkLastDeclareJobNotFound request_id))
        (sm_get_cloned (jc_last_declare_job_store cm) request_id))) (\<lambda>job.
     let template_id = nt_template_id (dj_template job) in
     c_bind (c_modify (\<lambda>cm. cm\<lparr>
        jc_last_declare_job_store := snd (sm_remove request_id (jc_last_declare_job_store cm)),
        jc_template_to_upstream_job := snd (sm_insert template_id job_id (jc_template_to_upstream_job cm)),
        jc_cached_shares := snd (sm_remove template_id (jc_cached_shares cm))\<rparr>)) (\<lambda>_.
     c_bind (j_try (ok_or (jdc_log JkUpstreamNotFound) (jc_upstream_channel cm))) (\<lambda>u.
     c_bind (j_try (ok_or (jdc_shutdown JkCustomJobError) (dj_set_custom_mining_job job))) (\<lambda>custom_job.
     (let (r, u) = ux_on_set_custom_mining_job_success (jl_upstream lib) custom_job (channel_id, request_id, job_id) u in
      c_bind (c_modify (\<lambda>cm. cm\<lparr>jc_upstream_channel := Some u\<rparr>)) (\<lambda>_.
      c_bind (j_try (map_err custom_job_error r)) (\<lambda>_.
      c_bind (case (jc_last_new_prev_hash cm, sm_get_cloned (jc_cached_shares cm) template_id) of
          (Some prev_hash, Some shares) \<Rightarrow> j_collect (jl_heap_order lib shares)
            (\<lambda>share. validate_cached_share lib prev_hash ((sbd_share share)\<lparr>sse_job_id := job_id\<rparr>))
        | _ \<Rightarrow> c_return []) (jdc_forward_each lib env)))))))))"

definition jdc_handle_custom_job_error ::
  "u32 \<Rightarrow> error_code \<Rightarrow> (('s, 'x, 'g, 'v, 'u, 'f, 'a) jdc_manager, unit) jcomp" where
  "jdc_handle_custom_job_error request_id code =
     (if code = EC_SET_CUSTOM_MINING_JOB_STALE_CHAIN_TIP
      then c_modify (\<lambda>cm. case sm_get_cloned (jc_last_declare_job_store cm) request_id of
          None \<Rightarrow> cm
        | Some job \<Rightarrow> cm\<lparr>jc_last_declare_job_store := snd (sm_remove request_id (jc_last_declare_job_store cm)),
            jc_cached_shares := snd (sm_remove (nt_template_id (dj_template job)) (jc_cached_shares cm))\<rparr>)
      else j_raise (jdc_fallback JkCustomJobError))"

section \<open>Extensions\<close>

datatype jdc_extensions_message =
    JdcExtensionsSuccess "u16 list"
  | JdcExtensionsError u16 "u16 list" "u16 list"

definition jdc_extensions_success :: "u16 list \<Rightarrow> (('s, 'x, 'g, 'v, 'u, 'f, 'a) jdc_manager, unit) jcomp" where
  "jdc_extensions_success supported = c_bind (c_get jc_required_extensions) (\<lambda>required.
     let missing_required = filter (\<lambda>e. e \<notin> set supported) required in
     if missing_required \<noteq> [] then j_raise (jdc_fallback (JkRequiredExtensionsNotSupported missing_required))
     else c_modify (\<lambda>cm. cm\<lparr>jc_negotiated_extensions := supported\<rparr>))"

definition jdc_extensions_error ::
  "('s, 'x, 'g, 'v, 'u, 'f, 'a, 'p) jdc_lib \<Rightarrow> ('w, 'b, 'q) jdc_env \<Rightarrow> u16 \<Rightarrow> u16 list \<Rightarrow> u16 list
    \<Rightarrow> (('s, 'x, 'g, 'v, 'u, 'f, 'a) jdc_manager, unit) jcomp" where
  "jdc_extensions_error lib env request_id unsupported required_by_server = c_bind (c_get id) (\<lambda>cm.
     let missing_required = filter (\<lambda>e. e \<in> set unsupported) (jc_required_extensions cm);
         can_support = filter (\<lambda>e. e \<in> set (jc_supported_extensions cm)) required_by_server;
         cannot_support = filter (\<lambda>e. e \<notin> set (jc_supported_extensions cm)) required_by_server in
     if missing_required \<noteq> [] then j_raise (jdc_fallback (JkRequiredExtensionsNotSupported missing_required))
     else if required_by_server = [] then c_return ()
     else if cannot_support \<noteq> [] then j_raise (jdc_fallback (JkServerRequiresUnsupportedExtensions cannot_support))
     else c_bind (if fits_seq064k (jl_limits lib) (length can_support) then c_return () else j_panic) (\<lambda>_.
          c_bind (j_guard (jl_encode_extensions lib (request_id + 1) can_support) (jdc_shutdown JkParser)) (\<lambda>_.
          c_bind (j_guard (jw_upstream_ok env) (jdc_fallback JkChannelErrorSender)) (\<lambda>_.
          c_modify (\<lambda>cm. cm\<lparr>jc_sent := jc_sent cm @ [ToUpstreamExtensions (request_id + 1) can_support]\<rparr>)))))"

section \<open>Dispatch and the event loop\<close>

definition jdc_handle_mining_message_from_server ::
  "('s, 'x, 'g, 'v, 'u, 'f, 'a, 'p) jdc_lib \<Rightarrow> ('v, 'a, 'p) jdc_env \<Rightarrow> mining
    \<Rightarrow> (('s, 'x, 'g, 'v, 'u, 'f, 'a) jdc_manager, unit) jcomp" where
  "jdc_handle_mining_message_from_server lib env m = (case m of
     OpenStandardMiningChannelSuccess _ \<Rightarrow> j_raise (jdc_fallback JkOpenStandardMiningChannelError)
   | OpenExtendedMiningChannelSuccess msg extranonce_size \<Rightarrow> jdc_handle_open_extended_success lib env msg extranonce_size
   | OpenMiningChannelError _ _ \<Rightarrow> j_raise (jdc_fallback JkOpenMiningChannelError)
   | UpdateChannelError _ _ \<Rightarrow> c_return ()
   | CloseChannel _ _ \<Rightarrow> jdc_upstream_close
   | SetExtranoncePrefix _ new_prefix \<Rightarrow> jdc_handle_set_extranonce_prefix lib env new_prefix
   | SubmitSharesSuccess s \<Rightarrow> c_modify (on_upstream (ux_on_share_acknowledgement (jl_upstream lib)
       (ssu_new_submits_accepted_count s) (ssu_new_shares_sum s)))
   | SubmitSharesError _ _ code \<Rightarrow> c_modify (on_upstream (ux_on_share_rejection (jl_upstream lib) code))
   | NewMiningJob _ \<Rightarrow> c_return ()
   | NewExtendedMiningJob _ \<Rightarrow> c_return ()
   | SetNewPrevHash _ \<Rightarrow> c_return ()
   | SetCustomMiningJobSuccess channel_id request_id job_id \<Rightarrow>
       jdc_handle_custom_job_success lib env channel_id request_id job_id
   | SetCustomMiningJobError request_id _ code \<Rightarrow> jdc_handle_custom_job_error request_id code
   | SetTarget _ t \<Rightarrow> c_modify (on_upstream (ux_set_target (jl_upstream lib) t))
   | SetGroupChannel _ _ \<Rightarrow> c_return ())"

text \<open>A frame: its header, absent when it has none, and what the parsers make of its payload.\<close>

record jdc_frame =
  jfr_header :: "(u16 \<times> u8) option"
  jfr_parse_mining :: "u16 list \<Rightarrow> (mining, jdc_error_kind) result"
  jfr_parse_extensions :: "u16 list \<Rightarrow> (jdc_extensions_message, jdc_error_kind) result"

definition jdc_handle_pool_message_frame ::
  "('s, 'x, 'g, 'v, 'u, 'f, 'a, 'p) jdc_lib \<Rightarrow> ('v, 'a, 'p) jdc_env \<Rightarrow> jdc_frame option
    \<Rightarrow> (('s, 'x, 'g, 'v, 'u, 'f, 'a) jdc_manager, unit) jcomp" where
  "jdc_handle_pool_message_frame lib env received = (case received of
     None \<Rightarrow> j_raise (jdc_fallback JkChannelErrorReceiver)
   | Some f \<Rightarrow> (case jfr_header f of
       None \<Rightarrow> j_raise (jdc_fallback JkFramingSv2)
     | Some (ext, ty) \<Rightarrow> c_bind (c_get jc_negotiated_extensions) (\<lambda>negotiated.
         case protocol_message_type (jl_message_types lib) ext ty of
           TypeMining \<Rightarrow> c_bind (j_try (map_err jdc_log (jfr_parse_mining f negotiated)))
             (jdc_handle_mining_message_from_server lib env)
         | TypeExtensions \<Rightarrow> c_bind (j_try (map_err jdc_log (jfr_parse_extensions f negotiated))) (\<lambda>m. case m of
             JdcExtensionsSuccess supported \<Rightarrow> jdc_extensions_success supported
           | JdcExtensionsError request_id unsupported required \<Rightarrow>
               jdc_extensions_error lib env request_id unsupported required)
         | _ \<Rightarrow> j_raise (jdc_log (JkUnexpectedMessage ext ty)))))"

datatype jdc_event =
    EvJds "jdp_message option"
  | EvPool "jdc_frame option"
  | EvTemplateProvider "tdp_message option"
  | EvMiner "(downstream_id \<times> mining_from_client) option"
  | EvVardiff
  | EvAccept
  | EvDisconnected downstream_id

record jdc_tokens =
  jtk_cancelled :: bool
  jtk_fallback :: bool

definition jdc_handle_event ::
  "('s, 'x, 'g, 'v, 'u, 'f, 'a, 'p) jdc_lib \<Rightarrow> (tdp_message \<Rightarrow> u16 \<times> u8) \<Rightarrow> ('v, 'a, 'p) jdc_env \<Rightarrow> jdc_event
    \<Rightarrow> (('s, 'x, 'g, 'v, 'u, 'f, 'a) jdc_manager, unit) jcomp" where
  "jdc_handle_event lib message_type env ev = (case ev of
     EvJds received \<Rightarrow> jdc_handle_jds_message lib env received
   | EvPool received \<Rightarrow> jdc_handle_pool_message_frame lib env received
   | EvTemplateProvider received \<Rightarrow> jdc_handle_template_message lib message_type env received
   | EvMiner received \<Rightarrow> jdc_handle_downstream_message lib env received
   | EvVardiff \<Rightarrow> j_ignore (jdc_run_vardiff lib env)
   | EvAccept \<Rightarrow> c_return ()
   | EvDisconnected d \<Rightarrow> c_modify (jdc_remove_downstream d))"

text \<open>
  A turn of the manager's loop: a cancelled token ends it, a fallback clears the state first; the
  messages of the pool and its job declarator are not read in solo mode.  Accepted and lost
  connections change the manager from their own tasks: a group channel that cannot be set up cancels
  the token, and a panic there ends that task only.
\<close>

definition jdc_step ::
  "('s, 'x, 'g, 'v, 'u, 'f, 'a, 'p) jdc_lib \<Rightarrow> (tdp_message \<Rightarrow> u16 \<times> u8) \<Rightarrow> ('v, 'a, 'p) jdc_env \<Rightarrow> bytes \<Rightarrow> jdc_tokens
    \<Rightarrow> jdc_event \<Rightarrow> (('s, 'x, 'g, 'v, 'u, 'f, 'a) jdc_manager, loop_control \<times> jdc_tokens) jcomp" where
  "jdc_step lib message_type env coinbase_outputs tok ev cm =
     (if jtk_cancelled tok then (Ok (LoopBreak, tok), cm)
      else if jtk_fallback tok then
        c_bind (reset_runtime_state lib coinbase_outputs) (\<lambda>_. c_return (LoopBreak, tok))
          (cm\<lparr>jc_upstream_state := UpSoloMining\<rparr>)
      else if is_solo_mining (jc_mode cm) \<and> (case ev of EvJds _ \<Rightarrow> True | EvPool _ \<Rightarrow> True | _ \<Rightarrow> False)
      then (Ok (LoopContinue, tok), cm)
      else case ev of EvAccept \<Rightarrow> (case jdc_accept_downstream lib cm of
          (Inr None, cm) \<Rightarrow> (Ok (LoopContinue, tok\<lparr>jtk_cancelled := True\<rparr>), cm)
        | (_, cm) \<Rightarrow> (Ok (LoopContinue, tok), cm))
      | _ \<Rightarrow> (case jdc_handle_event lib message_type env ev cm of
        (Inr _, cm) \<Rightarrow> (Ok (LoopContinue, tok), cm)
      | (Inl JcPanic, cm) \<Rightarrow> (Err JcPanic, cm)
      | (Inl (JcRaised e), cm) \<Rightarrow>
          (let (c, cancelled, falling_back, cm) = jdc_handle_error_action (jtk_cancelled tok) (jtk_fallback tok) e cm
           in (Ok (c, \<lparr>jtk_cancelled = cancelled, jtk_fallback = falling_back\<rparr>), cm))))"

end
