(* ===== verification/Jdc_Rules.thy ===== *)
theory Jdc_Rules
  imports Jdc_Upstream
begin

text \<open>
  How the handlers of the job declarator client treat the messages they send.  \<open>jdc_invariant\<close> is the
  interface between an invariant of the manager's queues and the handlers: an invariant that depends
  on a small view of the manager, that no ordinary message breaks, and that a share breaks only when
  its job is not among those the pool acknowledged.  Inside it, every handler that neither asks for
  tokens nor sends custom jobs is shown to keep the invariant, once for all its instances.
\<close>

section \<open>Weakest preconditions of the accesses\<close>

lemma wp_jdc_with_registered [wp_rules]:
  "c_wp (jdc_with_registered d f) Q E s = (case sm_get_cloned (jc_downstream s) d of
     None \<Rightarrow> E (JcRaised (jdc_disconnect (JkDownstreamNotFound d) d)) s
   | Some ds \<Rightarrow> c_wp (f ds) Q E s)"
  by (simp add: jdc_with_registered_def wp_rules split: option.splits)

lemma wp_jdc_on [wp_rules]:
  "c_wp (jdc_on d f) Q E s = (case sm_get_cloned (jc_downstream s) d of
     None \<Rightarrow> E (JcRaised (jdc_disconnect (JkDownstreamNotFound d) d)) s
   | Some ds \<Rightarrow> c_wp f (\<lambda>x ds'. Q x (s\<lparr>jc_downstream := snd (sm_insert d ds' (jc_downstream s))\<rparr>))
       (\<lambda>e ds'. E e (s\<lparr>jc_downstream := snd (sm_insert d ds' (jc_downstream s))\<rparr>)) ds)"
  by (auto simp: jdc_on_def c_wp_def j_raise_def Let_def split: option.splits prod.splits sum.splits)

lemma wp_jdc_on_standard [wp_rules]:
  "c_wp (jdc_on_standard c f) Q E ds = (case sm_get_cloned (jn_standard_channels ds) c of
     None \<Rightarrow> Q None ds
   | Some ch \<Rightarrow> c_wp f
       (\<lambda>x ch'. Q (Some x) (ds\<lparr>jn_standard_channels := snd (sm_insert c ch' (jn_standard_channels ds))\<rparr>))
       (\<lambda>e ch'. E e (ds\<lparr>jn_standard_channels := snd (sm_insert c ch' (jn_standard_channels ds))\<rparr>)) ch)"
  by (auto simp: jdc_on_standard_def c_wp_def Let_def split: option.splits prod.splits sum.splits)

lemma wp_jdc_on_extended [wp_rules]:
  "c_wp (jdc_on_extended c f) Q E ds = (case sm_get_cloned (jn_extended_channels ds) c of
     None \<Rightarrow> Q None ds
   | Some ch \<Rightarrow> c_wp f
       (\<lambda>x ch'. Q (Some x) (ds\<lparr>jn_extended_channels := snd (sm_insert c ch' (jn_extended_channels ds))\<rparr>))
       (\<lambda>e ch'. E e (ds\<lparr>jn_extended_channels := snd (sm_insert c ch' (jn_extended_channels ds))\<rparr>)) ch)"
  by (auto simp: jdc_on_extended_def c_wp_def Let_def split: option.splits prod.splits sum.splits)

section \<open>Invariants of the queues\<close>

text \<open>Messages that carry neither a share, a custom job nor a request for a token.\<close>

definition plain_message :: "jdc_route \<Rightarrow> bool" where
  "plain_message m = (case m of
     ToUpstream (SubmitSharesExtended _) \<Rightarrow> False
   | ToUpstream (SetCustomMiningJob _) \<Rightarrow> False
   | ToJobDeclarator (RequestToken _ _) \<Rightarrow> False
   | _ \<Rightarrow> True)"

lemma plain_messages [simp]:
  "plain_message (ToDownstream d m)" "plain_message (ToTemplateProvider t)" "plain_message (ToUpstreamExtensions i xs)"
  "plain_message (ToUpstream (UpdateChannel u))" "plain_message (ToUpstream (OpenExtendedMiningChannel o'))"
  "plain_message (ToUpstream (CloseChannelRequest c why))" "plain_message (ToJobDeclarator (RequestPush p))"
  "plain_message (ToJobDeclarator (RequestDeclare j))" "plain_message (ToJobDeclarator (RequestMissing p'))"
  by (simp_all add: plain_message_def)

locale jdc_invariant =
  fixes J :: "('s, 'x, 'g, 'v, 'u, 'f, 'a) jdc_manager \<Rightarrow> bool" and okm :: "jdc_route \<Rightarrow> bool"
  assumes view: "J cm \<Longrightarrow> jc_sent cm' = jc_sent cm \<Longrightarrow> jc_allocate_tokens cm' = jc_allocate_tokens cm \<Longrightarrow>
      jc_mode cm' = jc_mode cm \<Longrightarrow> jc_template_to_upstream_job cm' = jc_template_to_upstream_job cm \<Longrightarrow> J cm'"
    and append: "J cm \<Longrightarrow> okm m \<Longrightarrow> J (cm\<lparr>jc_sent := jc_sent cm @ [m]\<rparr>)"
    and plain: "plain_message m \<Longrightarrow> okm m"
    and share: "J cm \<Longrightarrow> sm_get_cloned (jc_template_to_upstream_job cm) t = Some (sse_job_id sh) \<Longrightarrow>
      okm (ToUpstream (SubmitSharesExtended sh))"
begin

definition jkeeps :: "(('s, 'x, 'g, 'v, 'u, 'f, 'a) jdc_manager, 'r) jcomp \<Rightarrow> ('r \<Rightarrow> bool) \<Rightarrow> bool" where
  "jkeeps m P = (\<forall>cm. J cm \<longrightarrow> c_wp m (\<lambda>x cm'. J cm' \<and> P x) (\<lambda>_. J) cm)"

lemma jkeepsD: "jkeeps m P \<Longrightarrow> J cm \<Longrightarrow> c_wp m (\<lambda>x cm'. J cm' \<and> P x) (\<lambda>_. J) cm"
  by (simp add: jkeeps_def)

lemma jk_weaken: "jkeeps m P \<Longrightarrow> (\<And>x. P x \<Longrightarrow> Q x) \<Longrightarrow> jkeeps m Q"
  unfolding jkeeps_def by (blast intro: wp_mono)

lemma jk_bind: "jkeeps m P \<Longrightarrow> (\<And>x. P x \<Longrightarrow> jkeeps (f x) Q) \<Longrightarrow> jkeeps (c_bind m f) Q"
  unfolding jkeeps_def wp_rules by (blast intro: wp_mono)

lemma jk_bind_any: "jkeeps m (\<lambda>_. True) \<Longrightarrow> (\<And>x. jkeeps (f x) Q) \<Longrightarrow> jkeeps (c_bind m f) Q"
  by (rule jk_bind)

lemma jk_bind_messages:
  "jkeeps m (list_all okm) \<Longrightarrow> (\<And>ms. list_all okm ms \<Longrightarrow> jkeeps (f ms) Q) \<Longrightarrow> jkeeps (c_bind m f) Q"
  by (rule jk_bind)

lemma jk_bind_get: "(\<And>cm. J cm \<Longrightarrow> jkeeps (f (g cm)) Q) \<Longrightarrow> jkeeps (c_bind (c_get g) f) Q"
  by (simp add: jkeeps_def wp_rules)

lemma jk_basic:
  "P x \<Longrightarrow> jkeeps (c_return x) P" "jkeeps (c_fail e) P" "jkeeps (j_raise e') P" "jkeeps j_panic P"
  "(\<And>x. r = Inr x \<Longrightarrow> P x) \<Longrightarrow> jkeeps (j_try r) P" "(\<And>x. y = Some x \<Longrightarrow> P x) \<Longrightarrow> jkeeps (j_expect y) P"
  "(\<And>x. q = Inr x \<Longrightarrow> P x) \<Longrightarrow> jkeeps (c_result q) P"
  by (auto simp: jkeeps_def wp_rules split: sum.splits option.splits)

lemma jk_guard: "(b \<Longrightarrow> P ()) \<Longrightarrow> jkeeps (j_guard b e) P"
  by (simp add: jkeeps_def wp_rules)

lemma jk_get: "(\<And>cm. J cm \<Longrightarrow> P (f cm)) \<Longrightarrow> jkeeps (c_get f) P"
  by (simp add: jkeeps_def wp_rules)

lemma jk_modify: "(\<And>cm. J cm \<Longrightarrow> J (f cm)) \<Longrightarrow> P () \<Longrightarrow> jkeeps (c_modify f) P"
  by (simp add: jkeeps_def wp_rules)

lemma jk_split:
  "(b \<Longrightarrow> jkeeps m P) \<Longrightarrow> (\<not> b \<Longrightarrow> jkeeps n P) \<Longrightarrow> jkeeps (if b then m else n) P"
  "(opt = None \<Longrightarrow> jkeeps m P) \<Longrightarrow> (\<And>y. opt = Some y \<Longrightarrow> jkeeps (h y) P) \<Longrightarrow>
    jkeeps (case opt of None \<Rightarrow> m | Some y \<Rightarrow> h y) P"
  "(\<And>x. r = Inl x \<Longrightarrow> jkeeps (i x) P) \<Longrightarrow> (\<And>y. r = Inr y \<Longrightarrow> jkeeps (k y) P) \<Longrightarrow>
    jkeeps (case r of Inl x \<Rightarrow> i x | Inr y \<Rightarrow> k y) P"
  "(\<And>x y. p = (x, y) \<Longrightarrow> jkeeps (l x y) P) \<Longrightarrow> jkeeps (case p of (x, y) \<Rightarrow> l x y) P"
  "(c \<Longrightarrow> jkeeps m P) \<Longrightarrow> (\<not> c \<Longrightarrow> jkeeps n P) \<Longrightarrow> jkeeps (case c of True \<Rightarrow> m | False \<Rightarrow> n) P"
  "jkeeps (w v) P \<Longrightarrow> jkeeps (Let v w) P"
  by (simp_all split: option.split sum.split prod.split bool.split)

lemma jk_registered: "(\<And>ds. jkeeps (f ds) P) \<Longrightarrow> jkeeps (jdc_with_registered d f) P"
  by (simp add: jkeeps_def wp_rules split: option.splits)

lemma jk_on:
  assumes "\<And>ds. c_wp f (\<lambda>x _. P x) (\<lambda>_ _. True) ds"
  shows "jkeeps (jdc_on d f) P"
proof -
  have J: "J (cm\<lparr>jc_downstream := m\<rparr>)" if "J cm" for cm m using that by (rule view) simp_all
  have "c_wp f (\<lambda>x ds'. J (cm\<lparr>jc_downstream := snd (sm_insert d ds' (jc_downstream cm))\<rparr>) \<and> P x)
      (\<lambda>e ds'. J (cm\<lparr>jc_downstream := snd (sm_insert d ds' (jc_downstream cm))\<rparr>)) ds" if "J cm" for cm ds
    by (rule wp_mono [OF assms]) (simp_all add: J that)
  then show ?thesis by (simp add: jkeeps_def wp_rules split: option.splits)
qed

lemma wp_top: "c_wp f (\<lambda>_ _. True) (\<lambda>_ _. True) s"
  by (simp add: c_wp_def split: prod.split sum.split)

lemma jk_on_any: "jkeeps (jdc_on d f) (\<lambda>_. True)"
  by (rule jk_on) (rule wp_top)

lemma jk_ignore: "jkeeps m (\<lambda>_. True) \<Longrightarrow> P () \<Longrightarrow> jkeeps (j_ignore m) P"
  unfolding jkeeps_def wp_rules by (auto elim!: wp_mono split: jdc_fault.splits)

lemma jk_attempt:
  "jkeeps m Q \<Longrightarrow> (\<And>x. Q x \<Longrightarrow> P (Inr x)) \<Longrightarrow> (\<And>e. P (Inl e)) \<Longrightarrow> jkeeps (j_attempt m) P"
  unfolding jkeeps_def wp_rules by (auto elim!: wp_mono split: jdc_fault.splits)

lemma jk_for: "(\<And>x. x \<in> set xs \<Longrightarrow> jkeeps (f x) (\<lambda>_. True)) \<Longrightarrow> jkeeps (j_for xs f) (\<lambda>_. True)"
  by (induction xs) (simp_all add: jk_basic jk_bind_any)

lemma jk_collect: "(\<And>x. x \<in> set xs \<Longrightarrow> jkeeps (f x) (list_all okm)) \<Longrightarrow> jkeeps (j_collect xs f) (list_all okm)"
proof (induction xs)
  case (Cons x xs)
  then show ?case by (auto intro!: jk_bind_messages jk_basic)
qed (simp add: jk_basic)

lemma forward_keeps: "J cm \<Longrightarrow> okm m \<Longrightarrow> J (jdc_forward lib env m cm)"
  by (simp add: jdc_forward_def append)

lemma forward_all_keeps: "J cm \<Longrightarrow> list_all okm ms \<Longrightarrow> J (fold (jdc_forward lib env) ms cm)"
  by (induction ms arbitrary: cm) (simp_all add: forward_keeps)

lemma jk_forward_each: "list_all okm ms \<Longrightarrow> jkeeps (jdc_forward_each lib env ms) (\<lambda>_. True)"
  by (simp add: jdc_forward_each_def jk_modify forward_all_keeps)

lemma jk_sends:
  "okm (ToUpstream m) \<Longrightarrow> jkeeps (jdc_send_upstream lib env m) (\<lambda>_. True)"
  "okm (ToJobDeclarator q) \<Longrightarrow> jkeeps (jdc_send_jd env q) (\<lambda>_. True)"
  "jkeeps (jdc_send_tp env t) (\<lambda>_. True)"
  by (simp_all add: jdc_send_upstream_def jdc_send_jd_def jdc_send_tp_def jk_bind_any jk_guard jk_modify append plain)

lemma jk_outputs: "jkeeps (jdc_outputs lib k) (\<lambda>_. True)" "jkeeps (set_first_value v outs) (\<lambda>_. True)"
  "jkeeps user_identity (\<lambda>_. True)"
  by (auto simp: jdc_outputs_def set_first_value_def user_identity_def intro!: jk_bind_get jk_basic split: list.split)

lemma jk_counters:
  "jkeeps next_request_id (\<lambda>_. True)" "jkeeps next_sequence_number (\<lambda>_. True)"
  "jkeeps (jdc_allocate_standard env) (\<lambda>_. True)" "jkeeps (jdc_allocate_extended env n) (\<lambda>_. True)"
  by (auto simp: jkeeps_def c_wp_def next_request_id_def next_sequence_number_def jdc_allocate_standard_def
      jdc_allocate_extended_def elim!: view)

lemmas jk_intros = jk_bind_get jk_bind_messages jk_bind_any jk_basic jk_guard jk_get jk_split
  jk_registered jk_on_any jk_outputs jk_counters jk_sends jk_forward_each

end

section \<open>Messages of the miners\<close>

context jdc_invariant
begin

lemma set_keeps [simp]:
  "J cm \<Longrightarrow> J (cm\<lparr>jc_upstream_channel := u\<rparr>)" "J cm \<Longrightarrow> J (cm\<lparr>jc_cached_shares := c\<rparr>)"
  "J cm \<Longrightarrow> J (cm\<lparr>jc_vardiff := v\<rparr>)" "J cm \<Longrightarrow> J (cm\<lparr>jc_downstream := ds\<rparr>)"
  "J cm \<Longrightarrow> J (cm\<lparr>jc_pending_downstream_requests := p\<rparr>)" "J cm \<Longrightarrow> J (cm\<lparr>jc_upstream_state := st\<rparr>)"
  "J cm \<Longrightarrow> J (cm\<lparr>jc_extranonce_allocator := al\<rparr>)" "J cm \<Longrightarrow> J (cm\<lparr>jc_negotiated_extensions := xs\<rparr>)"
  "J cm \<Longrightarrow> J (cm\<lparr>jc_last_declare_job_store := js\<rparr>)" "J cm \<Longrightarrow> J (cm\<lparr>jc_job_factory := jf\<rparr>)"
  "J cm \<Longrightarrow> J (cm\<lparr>jc_template_store := ts\<rparr>)" "J cm \<Longrightarrow> J (cm\<lparr>jc_last_future_template := lt\<rparr>)"
  "J cm \<Longrightarrow> J (cm\<lparr>jc_last_new_prev_hash := ph\<rparr>)" "J cm \<Longrightarrow> J (cm\<lparr>jc_downstream_id_factory := n\<rparr>)"
  "J cm \<Longrightarrow> J (cm\<lparr>jc_downstream_sender := sd\<rparr>)" "J cm \<Longrightarrow> J (cm\<lparr>jc_job_to_template := jt\<rparr>)"
  "J cm \<Longrightarrow> J (cm\<lparr>jc_coinbase_outputs := co\<rparr>)"
  "J cm \<Longrightarrow> J (map_job d ch i t cm)" "J cm \<Longrightarrow> J (on_upstream fu cm)" "J cm \<Longrightarrow> J (jdc_remove_downstream d cm)"
  by (auto simp: map_job_def on_upstream_def jdc_remove_downstream_def elim!: view)

lemma plain_list [simp]: "list_all plain_message ms \<Longrightarrow> list_all okm ms"
  using plain by (auto simp: list_all_iff)

lemma jk_submit_upstream:
  assumes "J cm0" "sm_get_cloned (jc_template_to_upstream_job cm0) t = Some (sse_job_id sh)"
  shows "jkeeps (submit_upstream lib code_of ext ph sh u) (list_all okm)"
proof -
  have "okm (ToUpstream (SubmitSharesExtended (sh\<lparr>sse_sequence_number := n\<rparr>)))" for n
    using share [OF assms(1)] assms(2) by simp
  then show ?thesis unfolding submit_upstream_def
    by (intro jk_intros jk_modify; (split client_share_result.split)?; auto intro!: jk_intros simp: plain)
qed

lemma jk_cache_share: "jkeeps (cache_share lib t h sh) (list_all okm)"
  unfolding cache_share_def by (intro jk_intros jk_modify) (auto split: option.split)

lemma upstream_job_known:
  "upstream_job_id cm t = Some j \<Longrightarrow> \<exists>t'. sm_get_cloned (jc_template_to_upstream_job cm) t' = Some j"
  by (auto simp: upstream_job_id_def split: option.splits)

lemma jk_standard_share_upstream: "jkeeps (standard_share_upstream lib d msg ph pre h) (list_all okm)"
  unfolding standard_share_upstream_def
  by (intro jk_intros jk_cache_share) (auto dest!: upstream_job_known intro: jk_submit_upstream)

lemma jk_extended_share_upstream: "jkeeps (extended_share_upstream lib d msg ph pre h) (list_all okm)"
  unfolding extended_share_upstream_def
  by (intro jk_intros jk_cache_share) (auto dest!: upstream_job_known intro: jk_submit_upstream)

lemma jk_share_verdict:
  assumes "\<And>h. jkeeps (up h) (list_all okm)"
  shows "jkeeps (share_verdict lib d c n code_of sol up res acc) (list_all okm)"
proof -
  have blocks: "jkeeps (jdc_block_messages lib t s) (list_all okm)" for t s
    unfolding jdc_block_messages_def by (intro jk_intros) (simp_all add: plain)
  show ?thesis
  proof (cases res)
    case (Inl e)
    show ?thesis unfolding share_verdict_def Inl Let_def sum.case by (intro jk_intros) (simp_all add: plain)
  next
    case (Inr v)
    show ?thesis unfolding share_verdict_def Inr Let_def sum.case
      by (cases v; simp only: share_validation_result.case; intro jk_intros assms blocks) (simp_all add: plain)
  qed
qed

lemma jk_share_reply:
  assumes "jkeeps closure (\<lambda>r. case r of None \<Rightarrow> True | Some ms \<Rightarrow> list_all okm ms)"
  shows "jkeeps (share_reply lib d c n closure) (list_all okm)"
  unfolding share_reply_def
  by (rule jk_bind [OF jk_attempt [OF assms,
        where P = "\<lambda>v. case v of Inr (Some ms) \<Rightarrow> list_all okm ms | _ \<Rightarrow> True"]])
    (auto intro!: jk_intros jk_modify simp: plain split: sum.splits option.splits)

lemma jk_submit_standard_closure:
  "jkeeps (submit_standard_closure lib d msg ph) (\<lambda>r. case r of None \<Rightarrow> True | Some ms \<Rightarrow> list_all okm ms)"
  unfolding submit_standard_closure_def Let_def
  by (intro jk_intros jk_share_verdict jk_standard_share_upstream) simp_all

lemma jk_submit_extended_closure:
  "jkeeps (submit_extended_closure lib d msg ph) (\<lambda>r. case r of None \<Rightarrow> True | Some ms \<Rightarrow> list_all okm ms)"
  unfolding submit_extended_closure_def Let_def
  by (intro jk_intros jk_share_verdict jk_extended_share_upstream) simp_all

lemma jk_submit_shares:
  "jkeeps (jdc_handle_submit_shares_standard lib env d sm) (\<lambda>_. True)"
  "jkeeps (jdc_handle_submit_shares_extended lib env d xm) (\<lambda>_. True)"
  unfolding jdc_handle_submit_shares_standard_def jdc_handle_submit_shares_extended_def
  by (intro jk_intros jk_share_reply jk_submit_standard_closure jk_submit_extended_closure; simp)+

lemma jk_close_channel: "jkeeps (jdc_handle_close_channel lib d c) (\<lambda>_. True)"
  unfolding jdc_handle_close_channel_def by (intro jk_intros jk_modify) simp_all

lemma wp_update_on_downstream:
  "c_wp (jdc_update_on_downstream lib d msg) (\<lambda>ms _. list_all okm ms) (\<lambda>_ _. True) ds"
  by (auto simp: jdc_update_on_downstream_def wp_rules c_wp_def jdc_update_standard_def jdc_update_extended_def Let_def
      jdc_update_code_def jdc_on_standard_def jdc_on_extended_def c_bind_def c_return_def plain
      split: option.splits prod.splits sum.splits standard_channel_error.splits extended_channel_error.splits)

lemma jk_update_upstream: "jkeeps (update_upstream lib least) (list_all okm)"
  unfolding update_upstream_def by (intro jk_intros jk_modify) (auto simp: plain)

lemma jk_update_channel: "jkeeps (jdc_handle_update_channel lib env d msg) (\<lambda>_. True)"
  unfolding jdc_handle_update_channel_def
  by (intro jk_intros jk_update_upstream jk_on wp_update_on_downstream) simp

text \<open>The first jobs of a channel are messages for the miner.\<close>

lemma open_standard_jobs_plain:
  "jdc_open_standard_jobs lib d c t p outs ch = (Ok (i, jobs), ch') \<Longrightarrow> list_all okm jobs"
  by (auto simp: jdc_open_standard_jobs_def Let_def bind_eq_Ok_iff c_return_def plain)

lemma open_extended_jobs_plain:
  "jdc_open_extended_jobs lib d c t p outs ch = (Ok (i, jobs), ch') \<Longrightarrow> list_all okm jobs"
  by (auto simp: jdc_open_extended_jobs_def Let_def bind_eq_Ok_iff c_return_def plain)

lemma jk_bind_jobs:
  "(\<And>i jobs. r = Ok (i, jobs) \<Longrightarrow> list_all okm jobs) \<Longrightarrow> (\<And>i jobs. list_all okm jobs \<Longrightarrow> jkeeps (f (i, jobs)) Q) \<Longrightarrow>
    jkeeps (c_bind (c_result r) f) Q"
  by (rule jk_bind [OF jk_basic(7), where P = "\<lambda>(i, jobs). list_all okm jobs"]) auto

lemma jk_insert_vardiff: "jkeeps (jdc_insert_vardiff env d c) (\<lambda>_. True)"
  unfolding jdc_insert_vardiff_def by (intro jk_intros jk_modify) simp_all

lemma jk_open_standard_register:
  "jkeeps (jdc_open_standard_register lib env d std i g t p outs c ch) (list_all okm)"
  unfolding jdc_open_standard_register_def
  by (intro jk_bind_jobs jk_intros jk_modify jk_insert_vardiff)
    (auto simp: plain dest: open_standard_jobs_plain)

lemma jk_open_extended_register:
  "jkeeps (jdc_open_extended_register lib env d i g t p c ch) (list_all okm)"
  unfolding jdc_open_extended_register_def
  by (intro jk_bind_jobs jk_intros jk_modify jk_insert_vardiff)
    (auto simp: plain dest: open_extended_jobs_plain)

lemma jk_open_standard: "jkeeps (jdc_open_standard lib env d msg t p outs ds) (list_all okm)"
  unfolding jdc_open_standard_def
  by (intro jk_intros jk_open_standard_register; (split standard_channel_error.split)?; auto intro!: jk_basic simp: plain)

lemma jk_open_extended: "jkeeps (jdc_open_extended lib env d msg t p ds) (list_all okm)"
  unfolding jdc_open_extended_def
  by (intro jk_intros jk_open_extended_register; (split extended_channel_error.split)?; auto intro!: jk_basic simp: plain)

lemma jk_handle_open:
  "jkeeps (jdc_handle_open_standard lib env d sm) (\<lambda>_. True)" "jkeeps (jdc_handle_open_extended lib env d xm) (\<lambda>_. True)"
  unfolding jdc_handle_open_standard_def jdc_handle_open_extended_def
  by (intro jk_intros jk_open_standard jk_open_extended; simp)+

lemma jk_from_client: "jkeeps (jdc_handle_mining_message_from_client lib env d m) (\<lambda>_. True)"
  unfolding jdc_handle_mining_message_from_client_def
  by (cases m) (simp_all add: jk_close_channel jk_handle_open jk_submit_shares jk_update_channel jk_basic)

lemma jk_open_upstream: "jkeeps (open_upstream_channel lib env f h t n) (\<lambda>_. True)"
  unfolding open_upstream_channel_def by (intro jk_intros jk_modify) (simp_all add: plain)

lemma jk_downstream_message: "jkeeps (jdc_handle_downstream_message lib env received) (\<lambda>_. True)"
proof (cases received)
  case (Some r)
  obtain d m where r: "r = (d, m)" by (cases r)
  have st: "jkeeps (case st of UpNoChannel \<Rightarrow> a | UpPending \<Rightarrow> b | UpConnected \<Rightarrow> c | UpSoloMining \<Rightarrow> c') (\<lambda>_. True)"
    if "jkeeps a (\<lambda>_. True)" "jkeeps b (\<lambda>_. True)" "jkeeps c (\<lambda>_. True)" "jkeeps c' (\<lambda>_. True)" for st a b c c'
    using that by (simp split: upstream_state.split)
  show ?thesis unfolding jdc_handle_downstream_message_def Some r option.case prod.case Let_def
    by (rule jk_bind_get; cases m; simp; intro st jk_intros jk_modify jk_from_client jk_open_upstream; simp)
qed (simp add: jdc_handle_downstream_message_def jk_basic)

lemma vardiff_key_keeps:
  assumes "J cm" "list_all okm ms" "jdc_vardiff_key lib key (ms, cm) = (ms', cm')"
  shows "J cm' \<and> list_all okm ms'"
  using assms
  by (auto simp: jdc_vardiff_key_def Let_def jdc_vardiff_standard_def jdc_vardiff_extended_def sm_with_mut_def plain
      split: option.splits prod.splits sum.splits)

lemma vardiff_fold_keeps:
  "J cm \<Longrightarrow> list_all okm ms \<Longrightarrow> fold (jdc_vardiff_key lib) keys (ms, cm) = (ms', cm') \<Longrightarrow> J cm' \<and> list_all okm ms'"
proof (induction keys arbitrary: ms cm)
  case (Cons k keys)
  obtain ms1 cm1 where e: "jdc_vardiff_key lib k (ms, cm) = (ms1, cm1)" by fastforce
  from vardiff_key_keeps [OF Cons.prems(1,2) e] show ?case using Cons.IH [of cm1 ms1] Cons.prems(3) by (simp add: e)
qed simp

lemma jk_run_vardiff: "jkeeps (jdc_run_vardiff lib env) (\<lambda>_. True)"
proof -
  have "jkeeps (\<lambda>cm. let (ms, cm) = fold (jdc_vardiff_key lib) (sm_keys (jc_vardiff cm)) ([], cm) in (Ok ms, cm)) (list_all okm)"
    by (auto simp: jkeeps_def c_wp_def Let_def dest!: vardiff_fold_keeps [rotated 2] split: prod.splits)
  then show ?thesis unfolding jdc_run_vardiff_def
    by (intro jk_intros jk_update_upstream) simp_all
qed

end

section \<open>Tokens, templates and the pool\<close>

text \<open>
  The part of the contract that the other handlers need: tokens may be taken from the queue, whoever
  holds one may send a custom job and ask for another token, and the pool may acknowledge the jobs that
  the invariant allows.
\<close>

locale jdc_token_invariant = jdc_invariant J okm
  for J :: "('s, 'x, 'g, 'v, 'u, 'f, 'a) jdc_manager \<Rightarrow> bool" and okm :: "jdc_route \<Rightarrow> bool" +
  fixes acked :: "u32 \<Rightarrow> bool"
  assumes pop: "J cm \<Longrightarrow> jc_allocate_tokens cm = t # ts \<Longrightarrow> J (cm\<lparr>jc_allocate_tokens := ts\<rparr>)"
    and spend: "J cm \<Longrightarrow> jc_allocate_tokens cm \<noteq> [] \<Longrightarrow>
      okm (ToUpstream (SetCustomMiningJob j)) \<and> okm (ToJobDeclarator (RequestToken i n))"
    and ack: "J cm \<Longrightarrow> acked k \<Longrightarrow>
      J (cm\<lparr>jc_template_to_upstream_job := snd (sm_insert q k (jc_template_to_upstream_job cm))\<rparr>)"
    and reset: "J cm \<Longrightarrow> J (cm\<lparr>jc_allocate_tokens := [], jc_template_to_upstream_job := []\<rparr>)"
begin

definition may_spend :: bool where
  "may_spend = (\<forall>j i n. okm (ToUpstream (SetCustomMiningJob j)) \<and> okm (ToJobDeclarator (RequestToken i n)))"

lemma may_spendD: "may_spend \<Longrightarrow> okm (ToUpstream (SetCustomMiningJob j))" "may_spend \<Longrightarrow> okm (ToJobDeclarator (RequestToken i n))"
  by (simp_all add: may_spend_def)

lemma jk_pop_token: "jkeeps pop_token (\<lambda>t. t \<noteq> None \<longrightarrow> may_spend)"
  using spend pop by (auto simp: jkeeps_def c_wp_def pop_token_def may_spend_def split: list.split)

lemma jk_bind_token:
  "(\<And>t. (t \<noteq> None \<Longrightarrow> may_spend) \<Longrightarrow> jkeeps (f t) Q) \<Longrightarrow> jkeeps (c_bind pop_token f) Q"
  using jk_bind [OF jk_pop_token] by blast

lemma jk_allocate_tokens: "may_spend \<Longrightarrow> jkeeps (allocate_tokens lib env n) (\<lambda>_. True)"
proof (induction n)
  case (Suc n)
  then show ?case unfolding allocate_tokens.simps
    by (intro jk_intros jk_modify Suc.IH) (simp_all add: may_spendD)
qed (simp add: jk_basic)

lemma jk_new_custom_job: "jkeeps (new_custom_job lib f c n tok p t outs) (\<lambda>_. True)"
  unfolding new_custom_job_def by (intro jk_intros jk_modify) simp_all

lemma jk_coinbase_only_job:
  "(tok \<noteq> None \<Longrightarrow> may_spend) \<Longrightarrow> jkeeps (coinbase_only_job lib tok msg outs) (list_all okm)"
  unfolding coinbase_only_job_def
  by (intro jk_intros jk_new_custom_job) (auto simp: may_spendD split: option.split)

lemma jk_template_on_standard: "jkeeps (jdc_template_on_standard lib d std msg outs gj c) (list_all okm)"
  unfolding jdc_template_on_standard_def
  by (intro jk_intros jk_modify) (simp_all add: plain)

lemma jk_template_on_extended: "jkeeps (jdc_template_on_extended lib d msg gj c) (list_all okm)"
  unfolding jdc_template_on_extended_def by (intro jk_intros jk_modify) simp_all

lemma jk_each:
  "(\<And>c. jkeeps (f c) (list_all okm)) \<Longrightarrow> jkeeps (each_standard d f) (list_all okm)"
  "(\<And>c. jkeeps (f c) (list_all okm)) \<Longrightarrow> jkeeps (each_extended d f) (list_all okm)"
  unfolding each_standard_def each_extended_def by (intro jk_registered jk_collect; simp)+

lemma jk_template_on_downstream:
  "(tok \<noteq> None \<Longrightarrow> may_spend) \<Longrightarrow> jkeeps (jdc_template_on_downstream lib tok msg outs d) (list_all okm)"
  unfolding jdc_template_on_downstream_def
  by (intro jk_intros jk_coinbase_only_job jk_each jk_template_on_standard jk_template_on_extended)
    (simp_all add: plain)

lemma jk_coinbase_only_token: "jkeeps (coinbase_only_token msg) (\<lambda>t. t \<noteq> None \<longrightarrow> may_spend)"
  unfolding coinbase_only_token_def by (intro jk_bind_get jk_split jk_pop_token jk_basic) simp

lemma jk_new_template: "jkeeps (jdc_handle_new_template lib env msg) (\<lambda>_. True)"
proof -
  have rest: "jkeeps (c_bind (c_get (\<lambda>cm. sm_keys (jc_downstream cm))) (\<lambda>ds.
     c_bind (j_collect ds (jdc_template_on_downstream lib tok msg outs)) (\<lambda>messages.
     c_bind (if tok \<noteq> None then j_ignore (allocate_tokens lib env 1) else c_return ()) (\<lambda>_.
     jdc_forward_each lib env messages)))) (\<lambda>_. True)" if "tok \<noteq> None \<longrightarrow> may_spend" for tok outs
    by (intro jk_intros jk_collect jk_template_on_downstream jk_ignore jk_allocate_tokens) (use that in auto)
  show ?thesis unfolding jdc_handle_new_template_def
    by (intro jk_bind [OF jk_coinbase_only_token] jk_intros jk_modify rest) simp_all
qed

lemma jk_prev_hash_on_standard: "jkeeps (jdc_prev_hash_on_standard lib d std msg c) (list_all okm)"
  unfolding jdc_prev_hash_on_standard_def by (intro jk_intros jk_modify) (simp_all add: plain)

lemma jk_prev_hash_on_extended: "jkeeps (jdc_prev_hash_on_extended lib d msg c) (list_all okm)"
  unfolding jdc_prev_hash_on_extended_def by (intro jk_intros) simp

lemma jk_prev_hash_on_downstream: "jkeeps (jdc_prev_hash_on_downstream lib msg d) (list_all okm)"
  unfolding jdc_prev_hash_on_downstream_def
  by (intro jk_intros jk_modify jk_each jk_prev_hash_on_standard jk_prev_hash_on_extended) (simp_all add: plain)

lemma jk_prev_hash_custom_job:
  "jkeeps (prev_hash_custom_job lib outs t msg) (\<lambda>(used, ms). (used \<longrightarrow> may_spend) \<and> list_all okm ms)"
  unfolding prev_hash_custom_job_def
  by (intro jk_bind_token jk_intros jk_new_custom_job) (auto simp: may_spendD split: option.split)

lemma jk_set_new_prev_hash: "jkeeps (jdc_handle_set_new_prev_hash lib env msg) (\<lambda>_. True)"
  unfolding jdc_handle_set_new_prev_hash_def
  by (intro jk_bind [OF jk_prev_hash_custom_job] jk_intros jk_modify jk_collect jk_prev_hash_on_downstream
      jk_ignore jk_allocate_tokens)
    (auto simp: plain intro: jk_sends simp del: allocate_tokens.simps)

lemma jk_serve_pending: "jkeeps (serve_pending_requests lib env) (\<lambda>_. True)"
  unfolding serve_pending_requests_def by (intro jk_intros jk_modify jk_for jk_from_client) simp_all

lemma jk_open_success_custom_job:
  "jkeeps (open_success_custom_job lib jf u outs) (\<lambda>j. j \<noteq> None \<longrightarrow> may_spend)"
  unfolding open_success_custom_job_def
  by (intro jk_bind_token jk_bind_get jk_split jk_basic jk_weaken [OF jk_new_custom_job]) simp_all

lemma jk_connect_upstream: "jkeeps (connect_upstream lib env al jf u outs) (\<lambda>_. True)"
  unfolding connect_upstream_def
  by (intro jk_bind [OF jk_open_success_custom_job] jk_intros jk_modify jk_serve_pending jk_ignore
      jk_allocate_tokens) (auto simp: may_spendD elim!: view)

lemma jk_abandon: "jkeeps (abandon_channel lib env c) (\<lambda>_. True)"
  unfolding abandon_channel_def by (intro jk_intros jk_modify) (simp_all add: plain)

lemma jk_open_extended_success: "jkeeps (jdc_handle_open_extended_success lib env msg n) (\<lambda>_. True)"
proof -
  have pending: "jkeeps (case ps of [] \<Rightarrow> a | x # xs \<Rightarrow> b x) (\<lambda>_. True)"
    if "jkeeps a (\<lambda>_. True)" "\<And>x. jkeeps (b x) (\<lambda>_. True)" for ps :: "pending_channel_request list" and a b
    using that by (simp split: list.split)
  show ?thesis unfolding jdc_handle_open_extended_success_def
    by (intro pending jk_intros jk_abandon jk_connect_upstream) simp_all
qed

lemma jk_renew_downstream: "jkeeps (renew_downstream lib env d) (list_all okm)"
proof -
  have "jkeeps (renew_standard lib env d c) (list_all okm)" "jkeeps (renew_extended lib env d c) (list_all okm)" for c
    unfolding renew_standard_def renew_extended_def by (intro jk_intros; simp add: plain)+
  then show ?thesis unfolding renew_downstream_def by (intro jk_intros jk_each) simp_all
qed

lemma jk_set_extranonce_prefix: "jkeeps (jdc_handle_set_extranonce_prefix lib env p) (\<lambda>_. True)"
  unfolding jdc_handle_set_extranonce_prefix_def
  by (intro jk_intros jk_modify jk_collect jk_renew_downstream) simp_all

lemma jk_validate_cached_share:
  assumes "J cm0" "acked (sse_job_id sh)"
  shows "jkeeps (validate_cached_share lib ph sh) (list_all okm)"
proof -
  have "okm (ToUpstream (SubmitSharesExtended (sh\<lparr>sse_sequence_number := n\<rparr>)))" for n
    using share [OF ack [OF assms, of 0], of 0 "sh\<lparr>sse_sequence_number := n\<rparr>"] by (simp add: sm_insert_def sm_get_cloned_def)
  then show ?thesis unfolding validate_cached_share_def
    by (intro jk_intros jk_modify; (split client_share_result.split)?; auto intro!: jk_intros simp: plain)
qed

lemma ack_with_store: "J cm \<Longrightarrow> acked k \<Longrightarrow> J (cm\<lparr>jc_last_declare_job_store := a,
    jc_template_to_upstream_job := snd (sm_insert q k (jc_template_to_upstream_job cm)), jc_cached_shares := b\<rparr>)"
  by (rule view [OF ack [of cm k q]]) simp_all

lemma jk_custom_job_success:
  "acked k \<Longrightarrow> jkeeps (jdc_handle_custom_job_success lib env c i k) (\<lambda>_. True)"
  unfolding jdc_handle_custom_job_success_def Let_def
  by (intro jk_intros jk_modify jk_collect jk_validate_cached_share) (simp_all add: ack_with_store [simplified])

lemma jk_custom_job_error: "jkeeps (jdc_handle_custom_job_error i code) (\<lambda>_. True)"
  unfolding jdc_handle_custom_job_error_def by (intro jk_intros jk_modify) (auto split: option.split elim!: view)

lemma jk_extensions:
  "jkeeps (jdc_extensions_success supd) (\<lambda>_. True)" "jkeeps (jdc_extensions_error lib env i uns req) (\<lambda>_. True)"
  unfolding jdc_extensions_success_def jdc_extensions_error_def
  by (intro jk_intros jk_modify; simp add: append plain)+

lemma jk_from_server:
  "(\<And>c i k. m = SetCustomMiningJobSuccess c i k \<Longrightarrow> acked k) \<Longrightarrow>
    jkeeps (jdc_handle_mining_message_from_server lib env m) (\<lambda>_. True)"
  unfolding jdc_handle_mining_message_from_server_def
  by (cases m) (auto simp: jdc_upstream_close_def jk_open_extended_success jk_set_extranonce_prefix
      jk_custom_job_success jk_custom_job_error intro!: jk_bind_any jk_basic jk_modify)

lemma jk_pool_frame:
  assumes "\<And>f exts c i k. received = Some f \<Longrightarrow> jfr_parse_mining f exts = Ok (SetCustomMiningJobSuccess c i k) \<Longrightarrow> acked k"
  shows "jkeeps (jdc_handle_pool_message_frame lib env received) (\<lambda>_. True)"
proof (cases received)
  case (Some f)
  have "jkeeps (c_bind (j_try (map_err jdc_log (jfr_parse_mining f exts))) (jdc_handle_mining_message_from_server lib env)) (\<lambda>_. True)" for exts
    by (rule jk_bind [OF jk_basic(5), where P = "\<lambda>m. \<forall>c i k. m = SetCustomMiningJobSuccess c i k \<longrightarrow> acked k"])
      (use assms [OF Some] in \<open>auto intro!: jk_from_server split: sum.splits simp: map_err_def\<close>)
  moreover have "jkeeps (c_bind (j_try r) (\<lambda>m. case m of JdcExtensionsSuccess a \<Rightarrow> jdc_extensions_success a
      | JdcExtensionsError b c e \<Rightarrow> jdc_extensions_error lib env b c e)) (\<lambda>_. True)" for r
    by (rule jk_bind_any; (split jdc_extensions_message.split)?; auto intro!: jk_basic jk_extensions)
  ultimately show ?thesis unfolding jdc_handle_pool_message_frame_def Some option.case
    by (intro jk_split jk_bind_get jk_basic) (auto intro: jk_basic split: message_type.split)
qed (simp add: jdc_handle_pool_message_frame_def jk_basic)

end

end
