(* ===== verification/Jdc_Instance.thy ===== *)
theory Jdc_Instance
  imports Jdc_Upstream Pool_Instance
begin

text \<open>
  A small instance of the libraries of the job declarator client, on which the hypotheses of the
  properties are shown to be satisfiable.  The channels of the miners are those of the pool's
  instance; the channel with the pool is its identifier and its extranonce prefix.
\<close>

definition plain_upstream_api :: "(channel_id \<times> bytes, unit) upstream_api" where
  "plain_upstream_api =
     \<lparr>ux_new = (\<lambda>c _ _ _ _ _ _. (c, [7])), ux_get_channel_id = fst, ux_get_extranonce_prefix = snd,
      ux_get_rollable_extranonce_size = (\<lambda>_. 16), ux_get_full_extranonce_size = (\<lambda>u. length (snd u) + 16),
      ux_set_nominal_hashrate = (\<lambda>_ u. u), ux_set_target = (\<lambda>_ u. u), ux_set_extranonce_prefix = (\<lambda>_ u. (Ok (), u)),
      ux_validate_share = (\<lambda>m u. (if sse_nonce m = 1 then Ok (UpstreamShareValid [1]) else Ok (UpstreamBlockFound [1]), u)),
      ux_on_share_acknowledgement = (\<lambda>_ _ u. u), ux_on_share_rejection = (\<lambda>_ u. u),
      ux_on_chain_tip_update = (\<lambda>_ u. u), ux_on_set_custom_mining_job_success = (\<lambda>_ _ u. (Ok (), u))\<rparr>"

definition plain_custom_job :: "channel_id \<Rightarrow> u32 \<Rightarrow> bytes \<Rightarrow> set_custom_mining_job" where
  "plain_custom_job channel_id request_id token =
     \<lparr>scm_channel_id = channel_id, scm_request_id = request_id, scm_token = token, scm_version = 2,
      scm_prev_hash = replicate 32 0, scm_min_ntime = 0, scm_nbits = 1, scm_coinbase_tx_version = 2,
      scm_coinbase_prefix = [], scm_coinbase_tx_input_n_sequence = 0, scm_coinbase_tx_outputs = [],
      scm_coinbase_tx_locktime = 0, scm_merkle_path = []\<rparr>"

definition plain_jdc_lib ::
  "(plain_standard, plain_extended, bool \<times> extended_job option, unit, channel_id \<times> bytes, unit, unit, unit) jdc_lib" where
  "plain_jdc_lib =
     \<lparr>jl_standard = plain_standard_api, jl_extended = plain_extended_api, jl_group = plain_group_api,
      jl_vardiff = \<lparr>vd_try_vardiff = (\<lambda>_ _ _ v. (Ok None, v)), vd_increment_shares_since_last_update = id\<rparr>,
      jl_upstream = plain_upstream_api,
      jl_job_factory = \<lparr>jf_new = (\<lambda>_ _ _. ()), jf_new_custom_job = (\<lambda>c i t _ _ _ _ _. Ok (plain_custom_job c i t)),
        jf_new_coinbase_tx_prefix_and_suffix = (\<lambda>_ _ _ f. (Ok ([1], [2]), f))\<rparr>,
      jl_standard_new = (\<lambda>c _ _ _ _ _ _ _ _. Ok (c, None)), jl_extended_new = (\<lambda>c _ _ _ _ _ _ _ _ _ _. Ok (c, None)),
      jl_group_new = (\<lambda>_ _ _ _. Ok (True, None)), jl_standard_set_extranonce_prefix = (\<lambda>_ c. (Ok (), c)),
      jl_extended_set_extranonce_prefix = (\<lambda>_ c. (Ok (), c)), jl_group_set_full_extranonce_size = (\<lambda>_ g. g),
      jl_bytes_needed = (\<lambda>_. 2), jl_allocator_new = (\<lambda>_ _ _. Ok ()),
      jl_allocator_from_upstream_prefix = (\<lambda>_ _ _ _. Ok ()), jl_prefix_from_wire = (\<lambda>_. Ok ()),
      jl_prefix_bytes = (\<lambda>_. [7]), jl_max_extranonce_len = 32,
      jl_deserialize_outputs = (\<lambda>_. Some [TxOut 0 [1]]), jl_consensus_deserialize_outputs = (\<lambda>_. Some [TxOut 0 [1]]),
      jl_serialize_outputs = (\<lambda>_. []), jl_transaction_wtxid = (\<lambda>_. Some []),
      jl_tx_metrics = \<lparr>tm_size = (\<lambda>_. 34), tm_total_sigop_cost = (\<lambda>_. 0)\<rparr>, jl_limits = wire_limits,
      jl_fits_b032 = (\<lambda>n. n < 33), jl_as_utf8_or_hex = id, jl_fits_str0255 = (\<lambda>n. n < 256), jl_encode = (\<lambda>_. True),
      jl_encode_extensions = (\<lambda>_ _. True), jl_hash_key = (\<lambda>_. 0), jl_heap_order = id,
      jl_message_types = sv2_message_types\<rparr>"

definition plain_jdc_env :: "(unit, unit, unit) jdc_env" where
  "plain_jdc_env = \<lparr>jw_upstream_ok = True, jw_jd_ok = True, jw_tp_ok = True, jw_downstream_ok = (\<lambda>_. True),
     jw_allocate_standard = (\<lambda>_ _. Ok ()), jw_allocate_extended = (\<lambda>_ _ _. Ok ()), jw_vardiff_new = Ok ()\<rparr>"

lemmas plain_jdc_defs = plain_jdc_lib_def plain_jdc_env_def plain_upstream_api_def plain_custom_job_def

text \<open>
  A manager with a template and a previous hash, whose connections each have the extended channel
  given, in the mode and with the tokens and the channel with the pool given.
\<close>

definition plain_jdc_downstream ::
  "(channel_id, plain_extended) shared_map \<Rightarrow> (plain_standard, plain_extended, bool \<times> extended_job option) jdc_downstream" where
  "plain_jdc_downstream xchannels = \<lparr>jn_require_std_job = False, jn_group_channel = (False, Some (plain_extended_job 1 plain_template [])),
     jn_extended_channels = xchannels, jn_standard_channels = [], jn_channel_id_factory = 3,
     jn_negotiated_extensions = [], jn_supported_extensions = [], jn_required_extensions = []\<rparr>"

definition plain_jdc_manager ::
  "config_jdc_mode \<Rightarrow> bytes list \<Rightarrow> (channel_id \<times> bytes) option \<Rightarrow> downstream_id list
    \<Rightarrow> (plain_standard, plain_extended, bool \<times> extended_job option, unit, channel_id \<times> bytes, unit, unit) jdc_manager" where
  "plain_jdc_manager mode tokens upstream connections =
     \<lparr>jc_downstream = map (\<lambda>d. (d, plain_jdc_downstream [(2, (2, None))])) connections,
      jc_downstream_sender = map (\<lambda>d. (d, ())) connections, jc_extranonce_allocator = (),
      jc_request_id_factory = 0, jc_downstream_id_factory = 9, jc_sequence_number_factory = 1,
      jc_last_future_template = Some plain_template, jc_last_new_prev_hash = Some plain_prev_hash,
      jc_allocate_tokens = map (\<lambda>t. \<lparr>jt_request_id = 0, jt_mining_job_token = t, jt_coinbase_outputs = []\<rparr>) tokens,
      jc_template_store = [], jc_last_declare_job_store = [], jc_template_to_upstream_job = [(5, 40)],
      jc_job_to_template = map (\<lambda>d. ((d, 2, 1), 5)) connections, jc_coinbase_outputs = [],
      jc_upstream_channel = upstream, jc_pool_tag_string = None, jc_pending_downstream_requests = [],
      jc_job_factory = Some (), jc_vardiff = map (\<lambda>d. ((d, 2), ())) connections, jc_negotiated_extensions = [],
      jc_supported_extensions = [], jc_required_extensions = [], jc_cached_shares = [], jc_miner_tag_string = [],
      jc_share_batch_size = 1, jc_shares_per_minute = 0, jc_user_identity = Some [], jc_reserved_downstream_rollable = 4,
      jc_upstream_state = UpConnected, jc_mode = jd_mode_activate (jd_mode_new mode), jc_sent = [], jc_allocations = 0\<rparr>"

end
