(* ===== verification/Jdc_Runs.thy ===== *)
theory Jdc_Runs
  imports Jdc_Rules Jdc_Instance
begin

text \<open>
  Runs of the job declarator client's channel manager, over any sequence of events, and what holds of
  all of them: the shares the pool receives name jobs that it acknowledged, and a client that is out
  of tokens in coinbase only mode never asks for one again.
\<close>

text \<open>
  A run takes for each turn of the loop the environment, the tokens that other tasks have cancelled
  meanwhile, and the event.  It ends when the loop does, or when the manager's task panics.
\<close>

type_synonym ('v, 'a, 'p) jdc_turn = "('v, 'a, 'p) jdc_env \<times> jdc_tokens \<times> jdc_event"

definition merge_tokens :: "jdc_tokens \<Rightarrow> jdc_tokens \<Rightarrow> jdc_tokens" where
  "merge_tokens a b = \<lparr>jtk_cancelled = jtk_cancelled a \<or> jtk_cancelled b, jtk_fallback = jtk_fallback a \<or> jtk_fallback b\<rparr>"

fun jdc_run ::
  "('s, 'x, 'g, 'v, 'u, 'f, 'a, 'p) jdc_lib \<Rightarrow> (tdp_message \<Rightarrow> u16 \<times> u8) \<Rightarrow> bytes \<Rightarrow> ('v, 'a, 'p) jdc_turn list \<Rightarrow> jdc_tokens
    \<Rightarrow> ('s, 'x, 'g, 'v, 'u, 'f, 'a) jdc_manager \<Rightarrow> ('s, 'x, 'g, 'v, 'u, 'f, 'a) jdc_manager" where
  "jdc_run lib mt outs [] tok cm = cm"
| "jdc_run lib mt outs ((env, cancelled, ev) # turns) tok cm =
     (case jdc_step lib mt env outs (merge_tokens tok cancelled) ev cm of
        (Inr (LoopContinue, tok), cm) \<Rightarrow> jdc_run lib mt outs turns tok cm
      | (_, cm) \<Rightarrow> cm)"

text \<open>The job that a frame of the pool acknowledges, whatever extensions are in force when it is parsed.\<close>

definition frame_acks :: "jdc_event \<Rightarrow> u32 set" where
  "frame_acks ev = {k. \<exists>f exts c i. ev = EvPool (Some f) \<and> jfr_parse_mining f exts = Ok (SetCustomMiningJobSuccess c i k)}"

text \<open>Events by which tokens reach the manager or are asked for without one.\<close>

definition token_event :: "jdc_event \<Rightarrow> bool" where
  "token_event ev = (case ev of
     EvJds _ \<Rightarrow> True
   | EvTemplateProvider (Some (RequestTransactionDataSuccess _ _ _)) \<Rightarrow> True
   | _ \<Rightarrow> False)"

context jdc_token_invariant
begin

lemma jk_accept: "jkeeps (jdc_accept_downstream lib) (\<lambda>_. True)"
proof -
  have boot: "jkeeps (jdc_bootstrap_group_channel lib c) (\<lambda>_. True)" for c
    unfolding jdc_bootstrap_group_channel_def by (intro jk_intros) simp_all
  show ?thesis unfolding jdc_accept_downstream_def by (intro jk_intros jk_modify boot) simp_all
qed

lemma jk_reset: "jkeeps (reset_runtime_state lib outs) (\<lambda>_. True)"
proof -
  have cleared: "J cm'" if "J cm" "jc_sent cm' = jc_sent cm" "jc_allocate_tokens cm' = []" "jc_mode cm' = jc_mode cm"
    "jc_template_to_upstream_job cm' = []" for cm cm'
    by (rule view [OF reset [OF that(1)]]) (simp_all add: that)
  show ?thesis unfolding reset_runtime_state_def
  proof (intro jk_bind_any jk_modify jk_basic, goal_cases)
    case (1 cm)
    then show ?case by (rule cleared) (simp_all add: sm_clear_def)
  qed simp_all
qed

lemma jk_template_message:
  assumes "\<not> token_event (EvTemplateProvider received)"
  shows "jkeeps (jdc_handle_template_message lib mt env received) (\<lambda>_. True)"
proof (cases received)
  case (Some m)
  then show ?thesis using assms
    by (cases m) (simp_all add: jdc_handle_template_message_def token_event_def jdc_handle_request_tx_data_error_def
        jk_new_template jk_set_new_prev_hash jk_basic)
qed (simp add: jdc_handle_template_message_def jk_basic)

lemma jk_event:
  assumes "\<And>k. k \<in> frame_acks ev \<Longrightarrow> acked k"
    and "\<not> token_event ev \<or> jkeeps (jdc_handle_event lib mt env ev) (\<lambda>_. True)"
  shows "jkeeps (jdc_handle_event lib mt env ev) (\<lambda>_. True)"
proof (cases "token_event ev")
  case False
  then show ?thesis
  proof (cases ev)
    case (EvPool received)
    have "acked k" if "received = Some f" "jfr_parse_mining f exts = Ok (SetCustomMiningJobSuccess c i k)" for f exts c i k
      by (rule assms(1)) (use that EvPool in \<open>auto simp: frame_acks_def\<close>)
    then show ?thesis unfolding jdc_handle_event_def EvPool jdc_event.case by (rule jk_pool_frame)
  next
    case (EvTemplateProvider received)
    then show ?thesis using False jk_template_message [of received] by (simp add: jdc_handle_event_def)
  qed (auto simp: jdc_handle_event_def token_event_def intro!: jk_downstream_message jk_ignore jk_run_vardiff
      jk_basic jk_modify)
qed (use assms(2) in simp)

lemma step_keeps:
  assumes "J cm" "jkeeps (jdc_handle_event lib mt env ev) (\<lambda>_. True)"
  shows "J (snd (jdc_step lib mt env outs tok ev cm))"
proof -
  have ev: "J cm'" if "jdc_handle_event lib mt env ev cm = (r, cm')" for r cm'
    using jkeepsD [OF assms(2,1)] that by (auto simp: c_wp_def split: sum.splits)
  have acc: "J cm'" if "jdc_accept_downstream lib cm = (r, cm')" for r cm'
    using jkeepsD [OF jk_accept [of lib] assms(1)] that by (auto simp: c_wp_def split: sum.splits)
  have res: "J (snd (c_bind (reset_runtime_state lib outs) (\<lambda>_. c_return x) (cm\<lparr>jc_upstream_state := st\<rparr>)))" for x st
  proof -
    have "jkeeps (c_bind (reset_runtime_state lib outs) (\<lambda>_. c_return x)) (\<lambda>_. True)"
      by (intro jk_bind_any jk_reset jk_basic) simp
    from jkeepsD [OF this, of "cm\<lparr>jc_upstream_state := st\<rparr>"] assms(1) show ?thesis
      by (auto simp: c_wp_def split: sum.splits prod.splits)
  qed
  have handled: "J (snd (case jdc_handle_event lib mt env ev cm of
        (Inr _, cm) \<Rightarrow> (Ok (LoopContinue, tok), cm)
      | (Inl JcPanic, cm) \<Rightarrow> (Err JcPanic, cm)
      | (Inl (JcRaised e), cm) \<Rightarrow>
          (let (c, cancelled, falling_back, cm) = jdc_handle_error_action (jtk_cancelled tok) (jtk_fallback tok) e cm
           in (Ok (c, \<lparr>jtk_cancelled = cancelled, jtk_fallback = falling_back\<rparr>), cm))))"
    using ev by (auto simp: jdc_handle_error_action_def Let_def split: prod.splits sum.splits jdc_fault.splits jdc_action.splits)
  have accepted: "J (snd (case jdc_accept_downstream lib cm of
          (Inr None, cm) \<Rightarrow> (Ok (LoopContinue, tok\<lparr>jtk_cancelled := True\<rparr>), cm)
        | (_, cm) \<Rightarrow> (Ok (LoopContinue, tok), cm)))"
    using acc by (auto split: prod.splits sum.splits option.splits)
  show ?thesis
    unfolding jdc_step_def
    by (simp only: if_split [of "\<lambda>x. J (snd x)"] jdc_event.split [of "\<lambda>x. J (snd x)"] snd_conv)
      (intro conjI impI allI; (rule res | rule handled | rule accepted | rule assms(1)))
qed

lemma run_keeps:
  assumes "J cm" "\<And>env c ev. (env, c, ev) \<in> set turns \<Longrightarrow> jkeeps (jdc_handle_event lib mt env ev) (\<lambda>_. True)"
  shows "J (jdc_run lib mt outs turns tok cm)"
  using assms
proof (induction turns arbitrary: tok cm)
  case (Cons t turns)
  obtain env c ev where t: "t = (env, c, ev)" by (cases t)
  have "J (snd (jdc_step lib mt env outs (merge_tokens tok c) ev cm))"
    by (rule step_keeps) (use Cons.prems in \<open>auto simp: t\<close>)
  moreover have "J (jdc_run lib mt outs turns tok' cm')" if "J cm'" for tok' cm'
    by (rule Cons.IH [OF that]) (rule Cons.prems(2), rule list.set_intros(2))
  ultimately show ?case
    by (auto simp: t split: prod.splits sum.splits loop_control.splits)
qed simp

end

section \<open>Shares and acknowledged jobs\<close>

text \<open>An invariant for which tokens do not matter also survives the events by which they arrive.\<close>

locale jdc_free_invariant = jdc_token_invariant J okm acked
  for J :: "('s, 'x, 'g, 'v, 'u, 'f, 'a) jdc_manager \<Rightarrow> bool" and okm :: "jdc_route \<Rightarrow> bool" and acked :: "u32 \<Rightarrow> bool" +
  assumes free: "okm (ToUpstream (SetCustomMiningJob j))" "okm (ToJobDeclarator (RequestToken i n))"
    and push: "J cm \<Longrightarrow> J (cm\<lparr>jc_allocate_tokens := ts\<rparr>)"
begin

lemma spend_allowed: "may_spend"
  by (simp add: may_spend_def free)

lemma jk_declare_template: "jkeeps (declare_template lib i tok t p outs ws e txs) (\<lambda>_. True)"
  unfolding declare_template_def by (intro jk_intros jk_modify) simp_all

lemma jk_tx_data_success: "jkeeps (jdc_handle_request_tx_data_success lib env i e txs) (\<lambda>_. True)"
  unfolding jdc_handle_request_tx_data_success_def
  by (intro jk_bind_token jk_intros jk_modify jk_ignore jk_allocate_tokens jk_declare_template spend_allowed)
    (simp_all add: plain)

lemma jk_jds: "jkeeps (jdc_handle_jds_message lib env received) (\<lambda>_. True)"
proof -
  have alloc: "jkeeps (jdc_handle_allocate_success lib env tk) (\<lambda>_. True)" for tk
    unfolding jdc_handle_allocate_success_def by (intro jk_intros jk_modify) (simp_all add: push)
  have decl: "jkeeps (jdc_handle_declare_success lib env i tk) (\<lambda>_. True)" for i tk
    unfolding jdc_handle_declare_success_def by (intro jk_intros jk_modify) (simp_all add: free)
  have miss: "jkeeps (jdc_handle_provide_missing lib env i ps) (\<lambda>_. True)" for i ps
    unfolding jdc_handle_provide_missing_def by (intro jk_intros) (simp_all add: plain)
  have err: "jkeeps (jdc_handle_declare_error code) (\<lambda>_. True)" for code
    unfolding jdc_handle_declare_error_def by (intro jk_intros) simp
  show ?thesis
    by (cases received) (simp_all add: jdc_handle_jds_message_def jk_basic alloc decl miss err split: jdp_message.split)
qed

lemma jk_any_event:
  assumes "\<And>k. k \<in> frame_acks ev \<Longrightarrow> acked k"
  shows "jkeeps (jdc_handle_event lib mt env ev) (\<lambda>_. True)"
proof (rule jk_event [OF assms])
  have "jkeeps (jdc_handle_event lib mt env ev) (\<lambda>_. True)" if "token_event ev"
    using that jk_jds jk_tx_data_success
    by (auto simp: token_event_def jdc_handle_event_def jdc_handle_template_message_def
        split: jdc_event.splits option.splits tdp_message.splits)
  then show "\<not> token_event ev \<or> jkeeps (jdc_handle_event lib mt env ev) (\<lambda>_. True)" by blast
qed

end

definition acked_message :: "u32 set \<Rightarrow> jdc_route \<Rightarrow> bool" where
  "acked_message A m = (\<forall>sh. m = ToUpstream (SubmitSharesExtended sh) \<longrightarrow> sse_job_id sh \<in> A)"

definition acked_inv :: "u32 set \<Rightarrow> ('s, 'x, 'g, 'v, 'u, 'f, 'a) jdc_manager \<Rightarrow> bool" where
  "acked_inv A cm = ((\<forall>t k. sm_get_cloned (jc_template_to_upstream_job cm) t = Some k \<longrightarrow> k \<in> A) \<and>
     (\<forall>m \<in> set (jc_sent cm). acked_message A m))"

interpretation acks: jdc_free_invariant "acked_inv A" "acked_message A" "\<lambda>k. k \<in> A" for A
proof unfold_locales
  show "plain_message m \<Longrightarrow> acked_message A m" for m
    by (auto simp: plain_message_def acked_message_def)
qed (auto simp: acked_inv_def acked_message_def sm_get_cloned_def map_of_Cons_code split: if_splits)

text \<open>
  C27. Every share that a run of the manager sends to the pool names a job that the pool
  acknowledged in that run with a SetCustomMiningJobSuccess: shares found before that are held back.
\<close>

theorem shares_name_acknowledged_jobs:
  assumes "jc_template_to_upstream_job cm = []" "jc_sent cm = []"
    and "ToUpstream (SubmitSharesExtended m) \<in> set (jc_sent (jdc_run lib mt outs turns tok cm))"
  shows "\<exists>env cancelled ev. (env, cancelled, ev) \<in> set turns \<and> sse_job_id m \<in> frame_acks ev"
proof -
  let ?A = "\<Union>(env, cancelled, ev) \<in> set turns. frame_acks ev"
  have start: "acked_inv ?A cm" using assms(1,2) by (simp add: acked_inv_def sm_get_cloned_def)
  have "acked_inv ?A (jdc_run lib mt outs turns tok cm)"
    by (rule acks.run_keeps [OF start], rule acks.jk_any_event) force
  with assms(3) have "sse_job_id m \<in> ?A" by (auto simp: acked_inv_def acked_message_def)
  then show ?thesis by auto
qed

text \<open>A share is found first and held back; the pool's acknowledgement then releases it.\<close>

definition held_share :: submit_shares_extended where
  "held_share = \<lparr>sse_channel_id = 2, sse_sequence_number = 9, sse_job_id = 1, sse_nonce = 1, sse_ntime = 3, sse_version = 4,
     sse_extranonce = [5]\<rparr>"

definition ack_frame :: jdc_frame where
  "ack_frame = \<lparr>jfr_header = Some (0, mt_number sv2_message_types M_SET_CUSTOM_MINING_JOB_SUCCESS),
     jfr_parse_mining = (\<lambda>_. Ok (SetCustomMiningJobSuccess 3 0 40)), jfr_parse_extensions = (\<lambda>_. Err JkParser)\<rparr>"

definition declared_manager where
  "declared_manager = (plain_jdc_manager FullTemplate [] (Some (3, [7])) [1])\<lparr>jc_template_to_upstream_job := [],
     jc_last_declare_job_store := [(0, \<lparr>dj_declare_mining_job = None, dj_template = plain_template,
       dj_prev_hash = Some plain_prev_hash, dj_set_custom_mining_job = Some (plain_custom_job 3 0 [8]), dj_coinbase_output = [],
       dj_tx_list = []\<rparr>)]\<rparr>"

lemmas jdc_run_defs = merge_tokens_def jdc_step_def jdc_handle_event_def jdc_handle_downstream_message_def
  jdc_handle_mining_message_from_client_def jdc_handle_submit_shares_extended_def share_reply_def submit_extended_closure_def
  share_verdict_def extended_share_upstream_def cache_share_def add_share_to_cache_def job_template_id_def upstream_job_id_def
  jdc_handle_pool_message_frame_def jdc_handle_mining_message_from_server_def jdc_handle_custom_job_success_def
  validate_cached_share_def next_sequence_number_def jdc_forward_each_def jdc_forward_def jdc_delivered_def
  jdc_with_registered_def jdc_on_def jdc_on_extended_def j_attempt_def c_bind_def c_get_def c_return_def c_modify_def j_try_def
  j_guard_def

lemma ack_frame_class: "protocol_message_type sv2_message_types 0
    (mt_number sv2_message_types M_SET_CUSTOM_MINING_JOB_SUCCESS) = TypeMining"
  by code_simp

definition undisturbed :: jdc_tokens where
  "undisturbed = \<lparr>jtk_cancelled = False, jtk_fallback = False\<rparr>"

definition held_turns :: "(unit, unit, unit) jdc_turn list" where
  "held_turns = [(plain_jdc_env, undisturbed, EvMiner (Some (1, SubmitSharesExtended held_share))),
     (plain_jdc_env, undisturbed, EvPool (Some ack_frame))]"

lemma held_then_released:
  "ToUpstream (SubmitSharesExtended (held_share\<lparr>sse_channel_id := 3, sse_sequence_number := 1, sse_job_id := 40\<rparr>))
    \<in> set (jc_sent (jdc_run plain_jdc_lib (\<lambda>_. (0, 0)) [] held_turns undisturbed declared_manager))"
  by (simp add: jdc_run_defs held_turns_def undisturbed_def held_share_def ack_frame_class ack_frame_def declared_manager_def plain_jdc_manager_def plain_jdc_defs plain_defs
      plain_jdc_downstream_def jd_mode_activate_def jd_mode_new_def is_solo_mining_def sm_get_cloned_def sm_contains_key_def
      sm_with_mut_or_insert_with_def sm_with_mut_def CACHED_SHARES_CAPACITY_def Let_def heap_push_def share_success_def)

theorem shares_name_acknowledged_jobs_witness:
  "\<exists>m env cancelled ev. ToUpstream (SubmitSharesExtended m)
      \<in> set (jc_sent (jdc_run plain_jdc_lib (\<lambda>_. (0, 0)) [] held_turns undisturbed declared_manager)) \<and>
     (env, cancelled, ev) \<in> set held_turns \<and> sse_job_id m \<in> frame_acks ev"
proof -
  have "jc_template_to_upstream_job declared_manager = []" "jc_sent declared_manager = []"
    by (simp_all add: declared_manager_def plain_jdc_manager_def)
  from shares_name_acknowledged_jobs [OF this held_then_released] held_then_released show ?thesis by blast
qed

section \<open>Out of tokens\<close>

definition spends_token :: "jdc_route \<Rightarrow> bool" where
  "spends_token m = (case m of
     ToUpstream (SetCustomMiningJob _) \<Rightarrow> True
   | ToJobDeclarator (RequestToken _ _) \<Rightarrow> True
   | _ \<Rightarrow> False)"

definition starved_inv :: "jdc_route list \<Rightarrow> ('s, 'x, 'g, 'v, 'u, 'f, 'a) jdc_manager \<Rightarrow> bool" where
  "starved_inv past cm = (jc_allocate_tokens cm = [] \<and>
     (\<exists>ms. jc_sent cm = past @ ms \<and> list_all (\<lambda>m. \<not> spends_token m) ms))"

lemma starved_append:
  assumes "starved_inv past cm" "\<not> spends_token m"
  shows "starved_inv past (cm\<lparr>jc_sent := jc_sent cm @ [m]\<rparr>)"
proof -
  obtain ms where ms: "jc_sent cm = past @ ms" "list_all (\<lambda>m. \<not> spends_token m) ms" "jc_allocate_tokens cm = []"
    using assms(1) by (auto simp: starved_inv_def)
  then show ?thesis using assms(2) by (simp add: starved_inv_def)
qed

interpretation starving: jdc_token_invariant "starved_inv past" "\<lambda>m. \<not> spends_token m" "\<lambda>_. True" for past
proof unfold_locales
  show "plain_message m \<Longrightarrow> \<not> spends_token m" for m
    by (auto simp: plain_message_def spends_token_def split: jdc_route.splits mining_from_client.splits jdc_request.splits)
qed (auto simp: starved_append spends_token_def, auto simp: starved_inv_def)

text \<open>The previous hash takes the last token; nothing that follows in its handler sends one.\<close>

lemma prev_hash_takes_last_token:
  assumes "is_coinbase_only (jc_mode cm)" "jc_upstream_channel cm = None" "jc_last_future_template cm \<noteq> None"
    and "jc_allocate_tokens cm = [t]" "jl_deserialize_outputs lib (jc_coinbase_outputs cm) = Some outs"
  shows "starved_inv (jc_sent cm) (snd (jdc_handle_set_new_prev_hash lib env p cm))"
proof -
  let ?rest = "\<lambda>ds. c_bind (j_collect ds (jdc_prev_hash_on_downstream lib p)) (\<lambda>ms. jdc_forward_each lib env ms)"
  have rest: "starving.jkeeps past (?rest ds) (\<lambda>_. True)" for past ds
    by (intro starving.jk_intros starving.jk_collect starving.jk_prev_hash_on_downstream)
  have full: "\<not> is_full_template (jc_mode cm)"
    using assms(1) by (simp add: is_full_template_def is_coinbase_only_def)
  have skip: "c_bind (c_return ()) f = f ()" for f :: "unit \<Rightarrow> ('c, 'r) jcomp"
    by (simp add: fun_eq_iff c_bind_def c_return_def)
  define cm' where "cm' = cm\<lparr>jc_cached_shares := sm_clear (jc_cached_shares cm), jc_upstream_channel := None,
    jc_last_new_prev_hash := Some p, jc_last_declare_job_store := map (\<lambda>(k, j). (k, activate_declared p j))
      (jc_last_declare_job_store cm), jc_allocate_tokens := []\<rparr>"
  have run: "jdc_handle_set_new_prev_hash lib env p cm = ?rest (sm_keys (jc_downstream cm)) cm'"
    "jc_allocate_tokens cm' = []" "jc_sent cm' = jc_sent cm"
    using assms full
    by (auto simp: jdc_handle_set_new_prev_hash_def jdc_outputs_def prev_hash_custom_job_def pop_token_def upstream_info_def
        c_bind_def c_get_def c_modify_def c_return_def j_try_def cm'_def skip split: prod.splits sum.splits)
  have "starved_inv (jc_sent cm) cm'" using run(2,3) by (simp add: starved_inv_def)
  from starving.jkeepsD [OF rest [where ds = "sm_keys (jc_downstream cm)"] this] show ?thesis
    by (auto simp: run(1) c_wp_def split: prod.splits sum.splits)
qed

text \<open>
  C30. In coinbase only mode a new previous hash consumes a token while there is no channel with the
  pool, and does not ask for another one.  When it was the last one, the client never recovers: as long
  as the job declaration server, of which nothing was asked, sends nothing, no run sends a custom job
  or asks for a token, whatever the miners, the pool and the template provider do (transaction data,
  which this mode does not ask for, apart).
\<close>

theorem tokens_run_out:
  assumes "is_coinbase_only (jc_mode cm)" "jc_upstream_channel cm = None" "jc_last_future_template cm \<noteq> None"
    and "jc_allocate_tokens cm = [t]" "jl_deserialize_outputs lib (jc_coinbase_outputs cm) \<noteq> None"
    and "\<forall>(env, cancelled, ev) \<in> set turns. \<not> token_event ev"
  shows "\<exists>ms. jc_sent (jdc_run lib mt outs ((env, undisturbed, EvTemplateProvider (Some (TdpSetNewPrevHash p))) # turns)
      undisturbed cm) = jc_sent cm @ ms \<and> list_all (\<lambda>m. \<not> spends_token m) ms"
proof -
  let ?ev = "EvTemplateProvider (Some (TdpSetNewPrevHash p))"
  obtain os where os: "jl_deserialize_outputs lib (jc_coinbase_outputs cm) = Some os" using assms(5) by auto
  have merge: "merge_tokens undisturbed undisturbed = undisturbed" by (simp add: merge_tokens_def undisturbed_def)
  have handled: "jdc_handle_event lib mt env ?ev cm = jdc_handle_set_new_prev_hash lib env p cm"
    by (simp add: jdc_handle_event_def jdc_handle_template_message_def)
  have taken: "starved_inv (jc_sent cm) (snd (jdc_handle_set_new_prev_hash lib env p cm))"
    by (rule prev_hash_takes_last_token [OF assms(1-4) os])
  have "starved_inv (jc_sent cm) (snd (jdc_step lib mt env outs undisturbed ?ev cm))"
    using taken
    by (auto simp: jdc_step_def undisturbed_def handled jdc_handle_error_action_def Let_def starved_inv_def
        jdc_remove_downstream_def split: prod.splits sum.splits jdc_fault.splits jdc_action.splits)
  moreover have "starved_inv (jc_sent cm) (jdc_run lib mt outs turns tok' cm')" if "starved_inv (jc_sent cm) cm'" for tok' cm'
    by (rule starving.run_keeps [OF that], rule starving.jk_event) (use assms(6) in auto)
  ultimately have "starved_inv (jc_sent cm) (jdc_run lib mt outs ((env, undisturbed, ?ev) # turns) undisturbed cm)"
    by (auto simp: merge split: prod.splits sum.splits loop_control.splits)
  then show ?thesis by (auto simp: starved_inv_def)
qed

theorem tokens_run_out_witness:
  "\<exists>ms. jc_sent (jdc_run plain_jdc_lib (\<lambda>_. (0, 0)) [] [(plain_jdc_env, undisturbed, EvTemplateProvider (Some (TdpSetNewPrevHash plain_prev_hash))),
      (plain_jdc_env, undisturbed, EvTemplateProvider (Some (NewTemplate plain_template))),
      (plain_jdc_env, undisturbed, EvMiner (Some (1, SubmitSharesExtended held_share)))]
      undisturbed (plain_jdc_manager CoinbaseOnly [[8]] None [1])) = ms \<and> list_all (\<lambda>m. \<not> spends_token m) ms"
proof -
  let ?cm = "plain_jdc_manager CoinbaseOnly [[8]] None [1]"
  let ?turns = "[(plain_jdc_env, undisturbed, EvTemplateProvider (Some (NewTemplate plain_template))),
      (plain_jdc_env, undisturbed, EvMiner (Some (1, SubmitSharesExtended held_share)))]"
  have "is_coinbase_only (jc_mode ?cm)" "jc_upstream_channel ?cm = None" "jc_last_future_template ?cm \<noteq> None"
    "jc_allocate_tokens ?cm = [\<lparr>jt_request_id = 0, jt_mining_job_token = [8], jt_coinbase_outputs = []\<rparr>]"
    "jl_deserialize_outputs plain_jdc_lib (jc_coinbase_outputs ?cm) \<noteq> None" "jc_sent ?cm = []"
    "\<forall>(env, cancelled, ev) \<in> set ?turns. \<not> token_event ev"
    by (simp_all add: plain_jdc_manager_def plain_jdc_lib_def is_coinbase_only_def jd_mode_activate_def jd_mode_new_def token_event_def)
  note hyps = this
  from tokens_run_out [OF hyps(1-5,7), of "\<lambda>_. (0, 0)" "[]" plain_jdc_env plain_prev_hash] show ?thesis
    unfolding hyps(6) append_Nil .
qed

end
