(* ===== verification/Jdc_Properties.thy ===== *)
theory Jdc_Properties
  imports Jdc_Runs
begin

text \<open>
  Properties of single handlers of the job declarator client: shares on their way to the pool, the
  requests that wait for the channel with the pool, the update of that channel, and the tokens of
  coinbase only mode.
\<close>

section \<open>Requests that wait\<close>

lemma removed_not_registered [simp]: "sm_get_cloned (jc_downstream (jdc_remove_downstream d cm)) d = None"
  by (simp add: jdc_remove_downstream_def sm_get_cloned_def sm_remove_def)

lemma with_unregistered: "sm_get_cloned (jc_downstream cm) d = None \<Longrightarrow>
  jdc_with_registered d f cm = (Err (JcRaised (jdc_disconnect (JkDownstreamNotFound d) d)), cm)"
  by (simp add: jdc_with_registered_def c_bind_def c_get_def j_raise_def)

text \<open>A request of a connection that is gone fails and changes nothing.\<close>

lemma unregistered_open_fails:
  assumes "sm_get_cloned (jc_downstream cm) (pending_downstream_id r) = None"
  shows "\<exists>f. jdc_handle_mining_message_from_client lib env (pending_downstream_id r) (pending_message r) cm = (Err f, cm)"
proof (cases r)
  case (PendingExtended d m)
  then show ?thesis using assms
    by (auto simp: with_unregistered pending_downstream_id_def pending_message_def jdc_handle_mining_message_from_client_def
        jdc_handle_open_extended_def c_bind_def c_get_def j_try_def split: sum.splits)
next
  case (PendingStandard d m)
  then show ?thesis using assms
    by (auto simp: with_unregistered pending_downstream_id_def pending_message_def jdc_handle_mining_message_from_client_def
        jdc_handle_open_standard_def jdc_outputs_def set_first_value_def j_panic_def c_return_def c_bind_def c_get_def
        j_try_def split: sum.splits list.splits)
qed

text \<open>
  C32. When the miner whose request is first in the queue has disconnected before the pool opens the
  channel, all requests that wait are dropped: the queue is emptied, the loop over it ends with the
  first request, and nothing is sent to the other miners, which stay connected without a channel.
\<close>

theorem pending_requests_lost:
  assumes "jc_pending_downstream_requests cm = r # rest"
  shows "\<exists>f. serve_pending_requests lib env (jdc_remove_downstream (pending_downstream_id r) cm) =
    (Err f, (jdc_remove_downstream (pending_downstream_id r) cm)\<lparr>jc_pending_downstream_requests := []\<rparr>)"
proof -
  let ?cm = "jdc_remove_downstream (pending_downstream_id r) cm"
  have pending: "jc_pending_downstream_requests ?cm = r # rest"
    using assms by (simp add: jdc_remove_downstream_def)
  have gone: "sm_get_cloned (jc_downstream (?cm\<lparr>jc_pending_downstream_requests := []\<rparr>)) (pending_downstream_id r) = None"
    by simp
  show ?thesis
    using unregistered_open_fails [OF gone, of lib env]
    by (auto simp: serve_pending_requests_def pending c_bind_def c_get_def c_modify_def)
qed

definition waiting_manager where
  "waiting_manager = (plain_jdc_manager FullTemplate [] None [1, 2])\<lparr>jc_upstream_state := UpPending,
     jc_pending_downstream_requests := map (\<lambda>d. PendingStandard d \<lparr>osm_request_id = 1, osm_user_identity = [],
       osm_nominal_hash_rate = 0, osm_max_target = []\<rparr>) [1, 2]\<rparr>"

theorem pending_requests_lost_witness:
  "\<exists>f cm. serve_pending_requests plain_jdc_lib plain_jdc_env (jdc_remove_downstream 1 waiting_manager) = (Err f, cm) \<and>
     sm_dom (jc_downstream cm) = {2} \<and> jc_pending_downstream_requests cm = [] \<and> jc_sent cm = []"
proof -
  let ?r = "\<lambda>d. PendingStandard d \<lparr>osm_request_id = 1, osm_user_identity = [],
       osm_nominal_hash_rate = 0, osm_max_target = []\<rparr>"
  have "jc_pending_downstream_requests waiting_manager = ?r 1 # [?r 2]"
    by (simp add: waiting_manager_def)
  from pending_requests_lost [OF this, of plain_jdc_lib plain_jdc_env] show ?thesis
    by (auto simp: pending_downstream_id_def waiting_manager_def plain_jdc_manager_def jdc_remove_downstream_def sm_remove_def
        sm_dom_def sm_keys_def AList.delete_eq)
qed

section \<open>Tokens of custom jobs\<close>

definition custom_job_tokens :: "jdc_route list \<Rightarrow> bytes list" where
  "custom_job_tokens ms = concat (map (\<lambda>m. case m of ToUpstream (SetCustomMiningJob j) \<Rightarrow> [scm_token j] | _ \<Rightarrow> []) ms)"

lemma custom_job_tokens_simps [simp]:
  "custom_job_tokens [] = []" "custom_job_tokens (ms @ ns) = custom_job_tokens ms @ custom_job_tokens ns"
  "custom_job_tokens (ToDownstream d m # ms) = custom_job_tokens ms"
  "custom_job_tokens (ToUpstream (SetCustomMiningJob j) # ms) = scm_token j # custom_job_tokens ms"
  by (simp_all add: custom_job_tokens_def)

text \<open>What a custom job is built from: no handler of a connection changes it.\<close>

definition job_view where
  "job_view cm = (jc_sent cm, jc_upstream_channel cm, jc_last_new_prev_hash cm, jc_job_factory cm)"

lemma job_view_simps [simp]:
  "job_view (cm\<lparr>jc_downstream := x\<rparr>) = job_view cm" "job_view (map_job d c i t cm) = job_view cm"
  "job_view (cm\<lparr>jc_last_declare_job_store := y\<rparr>) = job_view cm" "job_view (cm\<lparr>jc_request_id_factory := n\<rparr>) = job_view cm"
  by (simp_all add: job_view_def map_job_def)

lemma wp_template_on_standard:
  "c_wp (jdc_template_on_standard lib d std msg outs j c)
     (\<lambda>ms s'. job_view s' = job_view s \<and> custom_job_tokens ms = []) (\<lambda>_ _. True) s"
  by (auto simp: jdc_template_on_standard_def wp_rules Let_def split: option.splits prod.splits sum.splits)

lemma wp_template_on_extended:
  "c_wp (jdc_template_on_extended lib d msg j c)
     (\<lambda>ms s'. job_view s' = job_view s \<and> custom_job_tokens ms = []) (\<lambda>_ _. True) s"
  by (auto simp: jdc_template_on_extended_def wp_rules split: option.splits prod.splits sum.splits)

lemma wp_each_channel:
  assumes "\<And>c s. c_wp (f c) (\<lambda>ms s'. job_view s' = job_view s \<and> custom_job_tokens ms = []) (\<lambda>_ _. True) s"
  shows "c_wp (each_standard d f) (\<lambda>ms s'. job_view s' = job_view s \<and> custom_job_tokens ms = []) (\<lambda>_ _. True) s"
    and "c_wp (each_extended d f) (\<lambda>ms s'. job_view s' = job_view s \<and> custom_job_tokens ms = []) (\<lambda>_ _. True) s"
proof -
  have "c_wp (j_collect cs f) (\<lambda>ms s'. job_view s' = job_view s \<and> custom_job_tokens ms = []) (\<lambda>_ _. True) s" for cs
    by (rule wp_j_collect [where I = "\<lambda>s'. job_view s' = job_view s"]) (auto intro: wp_mono [OF assms])
  then show "c_wp (each_standard d f) (\<lambda>ms s'. job_view s' = job_view s \<and> custom_job_tokens ms = []) (\<lambda>_ _. True) s"
    and "c_wp (each_extended d f) (\<lambda>ms s'. job_view s' = job_view s \<and> custom_job_tokens ms = []) (\<lambda>_ _. True) s"
    by (simp_all add: each_standard_def each_extended_def wp_rules split: option.split)
qed

lemma wp_coinbase_only_job:
  assumes "\<And>c i t ph nt os n f. \<exists>j. jf_new_custom_job (jl_job_factory lib) c i t ph nt os n f = Ok j \<and> scm_token j = t"
    and "job_view s = (sent, Some u, Some p, Some jf)"
  shows "c_wp (coinbase_only_job lib (Some tok) msg outs)
     (\<lambda>ms s'. job_view s' = job_view s \<and> custom_job_tokens ms = [jt_mining_job_token tok]) (\<lambda>_ _. True) s"
proof -
  have parts: "jc_upstream_channel s = Some u" "jc_last_new_prev_hash s = Some p" "jc_job_factory s = Some jf"
    using assms(2) by (auto simp: job_view_def)
  have request: "c_wp next_request_id Q E s = Q (jc_request_id_factory s) (s\<lparr>jc_request_id_factory := jc_request_id_factory s + 1\<rparr>)" for Q E
    by (simp add: c_wp_def next_request_id_def)
  obtain j where "jf_new_custom_job (jl_job_factory lib) (ux_get_channel_id (jl_upstream lib) u) (jc_request_id_factory s)
      (jt_mining_job_token tok) p msg outs (ux_get_full_extranonce_size (jl_upstream lib) u) jf = Ok j"
    "scm_token j = jt_mining_job_token tok" using assms(1) by blast
  then show ?thesis
    by (simp add: coinbase_only_job_def new_custom_job_def upstream_info_def parts wp_rules request)
qed

lemma wp_on_view: "c_wp (jdc_on d f) (\<lambda>_ s'. job_view s' = job_view s) (\<lambda>_ _. True) s"
  by (auto simp: c_wp_def jdc_on_def j_raise_def Let_def split: option.split prod.split sum.split)

lemma wp_seq:
  "c_wp m R (\<lambda>_ _. True) s \<Longrightarrow> (\<And>x t. R x t \<Longrightarrow> c_wp (f x) Q (\<lambda>_ _. True) t) \<Longrightarrow> c_wp (c_bind m f) Q (\<lambda>_ _. True) s"
  unfolding wp_bind by (rule wp_mono)

lemma wp_template_on_downstream:
  assumes "\<And>c i t ph nt os n f. \<exists>j. jf_new_custom_job (jl_job_factory lib) c i t ph nt os n f = Ok j \<and> scm_token j = t"
    and "job_view s = (sent, Some u, Some p, Some jf)"
  shows "c_wp (jdc_template_on_downstream lib (Some tok) msg outs d)
     (\<lambda>ms s'. job_view s' = job_view s \<and> custom_job_tokens ms = [jt_mining_job_token tok]) (\<lambda>_ _. True) s"
proof -
  show ?thesis unfolding jdc_template_on_downstream_def
  proof (rule wp_seq [OF wp_on_view], goal_cases)
    case (1 group_job t1)
    have custom: "c_wp (coinbase_only_job lib (Some tok) msg outs)
        (\<lambda>ms s'. job_view s' = job_view t1 \<and> custom_job_tokens ms = [jt_mining_job_token tok]) (\<lambda>_ _. True) t1"
      by (rule wp_coinbase_only_job [OF assms(1)]) (simp add: 1 assms(2))
    show ?case
      by (rule wp_seq [OF custom], rule wp_seq [OF wp_on_view], clarify,
          rule wp_seq [OF wp_each_channel(1) [OF wp_template_on_standard]],
          rule wp_seq [OF wp_each_channel(2) [OF wp_template_on_extended]])
        (simp add: wp_rules 1)
  qed
qed

text \<open>The connections are visited one after the other, each with the same token.\<close>

lemma wp_collect_tokens:
  assumes "\<And>s d. job_view s = v \<Longrightarrow>
    c_wp (f d) (\<lambda>ms s'. job_view s' = v \<and> custom_job_tokens ms = [t]) (\<lambda>_ _. True) s" "job_view s = v"
  shows "c_wp (j_collect ds f) (\<lambda>ms s'. job_view s' = v \<and> custom_job_tokens ms = replicate (length ds) t) (\<lambda>_ _. True) s"
  using assms(2)
proof (induction ds arbitrary: s)
  case (Cons d ds)
  have rest: "c_wp (j_collect ds f) (\<lambda>ms s'. job_view s' = v \<and> custom_job_tokens ms = replicate (length ds) t) (\<lambda>_ _. True) s'"
    if "job_view s' = v" for s' using Cons.IH that by simp
  show ?case unfolding j_collect.simps
    by (rule wp_seq [OF assms(1) [OF Cons.prems]], rule wp_seq [OF rest]) (auto simp: wp_rules)
qed (simp add: wp_rules)

lemma forward_tokens:
  assumes "jw_upstream_ok env" "\<forall>m. jl_encode lib m"
  shows "custom_job_tokens (jc_sent (fold (jdc_forward lib env) ms cm)) = custom_job_tokens (jc_sent cm) @ custom_job_tokens ms"
proof (induction ms arbitrary: cm)
  case (Cons m ms)
  have "custom_job_tokens (jc_sent (jdc_forward lib env m cm)) = custom_job_tokens (jc_sent cm) @ custom_job_tokens [m]"
    using assms by (cases m) (auto simp: jdc_forward_def jdc_delivered_def custom_job_tokens_def)
  then show ?case using Cons.IH [of "jdc_forward lib env m cm"]
    by (simp add: custom_job_tokens_def)
qed simp

lemma wp_allocate_tokens_sent:
  "c_wp (j_ignore (allocate_tokens lib env (Suc 0))) (\<lambda>_ s'. custom_job_tokens (jc_sent s') = custom_job_tokens (jc_sent s)) (\<lambda>_ _. True) s"
  by (auto simp: c_wp_def j_ignore_def c_bind_def next_request_id_def user_identity_def c_get_def j_expect_def c_return_def
      jdc_send_jd_def j_guard_def c_modify_def custom_job_tokens_def j_panic_def j_raise_def
      split: option.splits prod.splits sum.splits jdc_fault.splits if_splits)


definition current_template :: new_template where
  "current_template = plain_template\<lparr>nt_future_template := False\<rparr>"

lemma two_connections_complete:
  "fst (jdc_handle_new_template plain_jdc_lib plain_jdc_env current_template
     (plain_jdc_manager CoinbaseOnly [[8]] (Some (3, [7])) [1, 2])) = Ok ()"
  by (simp add: jdc_handle_new_template_def jdc_outputs_def set_first_value_def coinbase_only_token_def pop_token_def
      jdc_template_on_downstream_def jdc_template_on_group_def coinbase_only_job_def new_custom_job_def upstream_info_def
      next_request_id_def each_standard_def each_extended_def jdc_template_on_extended_def map_job_def jdc_with_registered_def
      jdc_on_def jdc_on_group_def jdc_on_extended_def j_call_def j_expect_def j_try_def j_ignore_def user_identity_def
      jdc_send_jd_def jdc_forward_each_def c_bind_def c_get_def c_return_def c_modify_def j_guard_def Let_def
      current_template_def plain_jdc_manager_def plain_jdc_defs plain_defs plain_jdc_downstream_def jd_mode_activate_def
      jd_mode_new_def is_coinbase_only_def is_full_template_def sm_get_cloned_def sm_keys_def)


section \<open>Shares on their way to the pool\<close>

text \<open>A share for the pool: the miner's share as the channel with the pool sees it.\<close>

definition forwards where
  "forwards lib cm u pre d msg m = (
     ux_get_extranonce_prefix (jl_upstream lib) u @ sse_extranonce m = pre @ sse_extranonce msg \<and>
     sse_channel_id m = ux_get_channel_id (jl_upstream lib) u \<and>
     sse_nonce m = sse_nonce msg \<and> sse_ntime m = sse_ntime msg \<and> sse_version m = sse_version msg \<and>
     upstream_job_id cm (job_template_id cm d (sse_channel_id msg) (sse_job_id msg)) = Some (sse_job_id m) \<and>
     sse_sequence_number m = jc_sequence_number_factory cm)"

lemma wp_extended_share_upstream:
  assumes "jc_upstream_channel s = Some u" "take (length (ux_get_extranonce_prefix (jl_upstream lib) u)) pre =
      ux_get_extranonce_prefix (jl_upstream lib) u"
  shows "c_wp (extended_share_upstream lib d msg ph pre h)
    (\<lambda>ms s'. jc_sent s' = jc_sent s \<and> (\<forall>m. ToUpstream (SubmitSharesExtended m) \<in> set ms \<longrightarrow> forwards lib s u pre d msg m))
    (\<lambda>_ s'. jc_sent s' = jc_sent s) s"
proof -
  have glue: "ux_get_extranonce_prefix (jl_upstream lib) u @ drop (length (ux_get_extranonce_prefix (jl_upstream lib) u)) pre = pre"
    using assms(2) append_take_drop_id by metis
  show ?thesis
    using assms(1) glue
    by (auto simp: extended_share_upstream_def submit_upstream_def cache_share_def wp_rules forwards_def Let_def
        next_sequence_number_def c_wp_def [of next_sequence_number] simp flip: append_assoc
        split: option.splits prod.splits sum.splits client_share_result.splits)
qed

lemma forward_all_sent:
  "\<exists>ms'. jc_sent (fold (jdc_forward lib env) ms cm) = jc_sent cm @ ms' \<and> set ms' \<subseteq> set ms"
proof (induction ms arbitrary: cm)
  case (Cons m ms)
  obtain ms' where ms': "jc_sent (fold (jdc_forward lib env) ms (jdc_forward lib env m cm)) = jc_sent (jdc_forward lib env m cm) @ ms'"
    "set ms' \<subseteq> set ms" using Cons.IH by blast
  then show ?case
    by (cases "jdc_delivered lib env m cm") (auto simp: jdc_forward_def [of lib env m cm])
qed simp

lemma wp_share_verdict:
  assumes "\<And>h. c_wp (up h) (\<lambda>ms s'. K s' \<and> (\<forall>m. ToUpstream (SubmitSharesExtended m) \<in> set ms \<longrightarrow> G m)) (\<lambda>_. K) s" "K s"
  shows "c_wp (share_verdict lib d c n code_of sol up res acc)
    (\<lambda>ms s'. K s' \<and> (\<forall>m. ToUpstream (SubmitSharesExtended m) \<in> set ms \<longrightarrow> G m \<and> is_ok res)) (\<lambda>_. K) s"
  using assms(2)
  by (auto simp: share_verdict_def jdc_block_messages_def wp_rules Let_def intro!: wp_mono [OF assms(1)]
      split: sum.split share_validation_result.split option.split)

lemma wp_submit_extended_closure:
  assumes "sm_get_cloned (jc_downstream cm) d = Some ds" "sm_get_cloned (jn_extended_channels ds) (sse_channel_id msg) = Some ch"
    and "xc_validate_share (jl_extended lib) msg ch = (res, ch')" "jc_upstream_channel cm = Some u"
    and "take (length (ux_get_extranonce_prefix (jl_upstream lib) u)) (xc_get_extranonce_prefix (jl_extended lib) ch') =
      ux_get_extranonce_prefix (jl_upstream lib) u"
  shows "c_wp (submit_extended_closure lib d msg ph)
    (\<lambda>r s'. jc_sent s' = jc_sent cm \<and> (\<forall>ms m. r = Some ms \<longrightarrow> ToUpstream (SubmitSharesExtended m) \<in> set ms \<longrightarrow>
       forwards lib cm u (xc_get_extranonce_prefix (jl_extended lib) ch') d msg m \<and> is_ok res))
    (\<lambda>_ s'. jc_sent s' = jc_sent cm) cm"
proof -
  let ?pre = "xc_get_extranonce_prefix (jl_extended lib) ch'"
  let ?s = "\<lambda>x. cm\<lparr>jc_downstream := x\<rparr>"
  have same: "forwards lib (?s x) u ?pre d msg = forwards lib cm u ?pre d msg" for x
    by (simp add: fun_eq_iff forwards_def upstream_job_id_def job_template_id_def cong: option.case_cong)
  have up: "c_wp (extended_share_upstream lib d msg ph ?pre h) (\<lambda>ms s'. jc_sent s' = jc_sent cm \<and>
      (\<forall>m. ToUpstream (SubmitSharesExtended m) \<in> set ms \<longrightarrow> forwards lib cm u ?pre d msg m)) (\<lambda>_ s'. jc_sent s' = jc_sent cm) (?s x)" for h x
    using wp_extended_share_upstream [of "?s x" u lib ?pre d msg ph h] assms(4,5) by (simp add: same)
  show ?thesis
    unfolding submit_extended_closure_def Let_def
    by (simp add: wp_rules c_wp_def [of "\<lambda>c. case xc_validate_share (jl_extended lib) msg c of (res, c) \<Rightarrow> _ res c"] assms(1-3))
       (auto intro!: wp_mono [OF wp_share_verdict [OF up]])
qed

text \<open>
  C28. A share that a miner's extended channel submits reaches the pool as the same share: the channel
  with the pool assembles the same extranonce from its prefix as the miner's channel did, provided that
  the miner's prefix extends the pool's; nonce, time and version are the miner's, the job is the one the
  pool acknowledged for the template of the miner's job, the number is the next one, and the miner's
  channel accepted the share.
\<close>

theorem jdc_forwarded_share:
  assumes "jdc_handle_submit_shares_extended lib env d msg cm = (r, cm')"
    and "sm_get_cloned (jc_downstream cm) d = Some ds" "sm_get_cloned (jn_extended_channels ds) (sse_channel_id msg) = Some ch"
    and "xc_validate_share (jl_extended lib) msg ch = (res, ch')" "jc_upstream_channel cm = Some u"
    and "take (length (ux_get_extranonce_prefix (jl_upstream lib) u)) (xc_get_extranonce_prefix (jl_extended lib) ch') =
      ux_get_extranonce_prefix (jl_upstream lib) u"
    and "ToUpstream (SubmitSharesExtended m) \<in> set (drop (length (jc_sent cm)) (jc_sent cm'))"
  shows "forwards lib cm u (xc_get_extranonce_prefix (jl_extended lib) ch') d msg m \<and> is_ok res"
proof -
  let ?G = "\<lambda>m. forwards lib cm u (xc_get_extranonce_prefix (jl_extended lib) ch') d msg m \<and> is_ok res"
  let ?good = "\<lambda>s'. \<exists>ms'. jc_sent s' = jc_sent cm @ ms' \<and> (\<forall>m. ToUpstream (SubmitSharesExtended m) \<in> set ms' \<longrightarrow> ?G m)"
  have reply: "c_wp (share_reply lib d (sse_channel_id msg) (sse_sequence_number msg) (submit_extended_closure lib d msg ph))
      (\<lambda>ms s'. jc_sent s' = jc_sent cm \<and> (\<forall>m. ToUpstream (SubmitSharesExtended m) \<in> set ms \<longrightarrow> ?G m)) (\<lambda>_ s'. jc_sent s' = jc_sent cm) cm" for ph
    unfolding share_reply_def wp_rules
    by (rule wp_mono [OF wp_submit_extended_closure [OF assms(2-6)]])
      (auto simp: wp_rules split: option.splits jdc_fault.splits)
  have fwd: "?good (fold (jdc_forward lib env) ms s)"
    if "jc_sent s = jc_sent cm" "\<forall>m. ToUpstream (SubmitSharesExtended m) \<in> set ms \<longrightarrow> ?G m" for ms s
    using forward_all_sent [of lib env ms s] that by (metis subsetD)
  have "c_wp (jdc_handle_submit_shares_extended lib env d msg) (\<lambda>_. ?good) (\<lambda>_. ?good) cm"
    unfolding jdc_handle_submit_shares_extended_def
    by (auto simp: wp_rules assms(2) jdc_forward_each_def intro!: wp_mono [OF reply] fwd split: sum.split)
  then have "?good cm'" using assms(1) by (auto simp: c_wp_def split: sum.splits)
  then show ?thesis using assms(7) by auto
qed

definition connected_manager where
  "connected_manager = plain_jdc_manager FullTemplate [] (Some (3, [7])) [1]"

lemma connected_forwards:
  "jc_sent (snd (jdc_handle_submit_shares_extended plain_jdc_lib plain_jdc_env 1 held_share connected_manager)) =
    [ToDownstream 1 (share_success 2 plain_accounting),
     ToUpstream (SubmitSharesExtended (held_share\<lparr>sse_channel_id := 3, sse_sequence_number := 1, sse_job_id := 40\<rparr>))]"
  by (simp add: jdc_run_defs submit_upstream_def held_share_def connected_manager_def plain_jdc_manager_def plain_jdc_defs plain_defs
      plain_jdc_downstream_def sm_get_cloned_def sm_contains_key_def sm_with_mut_def Let_def)

theorem jdc_forwarded_share_witness:
  "\<exists>m. ToUpstream (SubmitSharesExtended m)
      \<in> set (jc_sent (snd (jdc_handle_submit_shares_extended plain_jdc_lib plain_jdc_env 1 held_share connected_manager))) \<and>
    forwards plain_jdc_lib connected_manager (3, [7]) [7] 1 held_share m"
proof -
  let ?m = "held_share\<lparr>sse_channel_id := 3, sse_sequence_number := 1, sse_job_id := 40\<rparr>"
  obtain r cm' where run: "jdc_handle_submit_shares_extended plain_jdc_lib plain_jdc_env 1 held_share connected_manager = (r, cm')"
    by (metis prod.collapse)
  have hyps: "sm_get_cloned (jc_downstream connected_manager) 1 = Some (plain_jdc_downstream [(2, (2, None))])"
    "sm_get_cloned (jn_extended_channels (plain_jdc_downstream [(2, (2, None))])) (sse_channel_id held_share) = Some (2, None)"
    "xc_validate_share (jl_extended plain_jdc_lib) held_share (2, None) = (Ok (ShareValid [1]), (2, None))"
    "jc_upstream_channel connected_manager = Some (3, [7])"
    "take (length (ux_get_extranonce_prefix (jl_upstream plain_jdc_lib) (3, [7])))
       (xc_get_extranonce_prefix (jl_extended plain_jdc_lib) (2, None)) = ux_get_extranonce_prefix (jl_upstream plain_jdc_lib) (3, [7])"
    "jc_sent connected_manager = []" "xc_get_extranonce_prefix (jl_extended plain_jdc_lib) (2, None) = [7]"
    by (simp_all add: connected_manager_def plain_jdc_manager_def plain_jdc_downstream_def sm_get_cloned_def held_share_def
        plain_jdc_defs plain_extended_api_def)
  have sent: "ToUpstream (SubmitSharesExtended ?m) \<in> set (drop (length (jc_sent connected_manager)) (jc_sent cm'))"
    using connected_forwards unfolding run hyps(6) by simp
  from jdc_forwarded_share [OF run hyps(1-5) sent] sent show ?thesis
    unfolding run hyps(6,7) by (intro exI [of _ ?m]) simp
qed

section \<open>The target asked of the pool\<close>

lemma bytes_less_ones: "\<not> bytes_less (replicate (length xs) 255) xs"
proof (induction xs)
  case (Cons x xs)
  have "\<not> (255 :: u8) < x" using unat_bound [of x] by (simp add: word_less_nat_alt)
  then show ?case using Cons.IH by simp
qed simp

lemma le_value_ones: "le_value (replicate n 255) = 256 ^ n - 1"
proof (induction n)
  case (Suc n)
  have "(1 :: nat) \<le> 256 ^ n" by simp
  then show ?case using Suc.IH by (simp add: diff_mult_distrib2)
qed simp

lemma le_value_le_ones: "le_value xs \<le> le_value (replicate (length xs) 255)"
  using le_value_bound [of xs] by (simp add: le_value_ones)


definition two_targets_lib where
  "two_targets_lib = plain_jdc_lib\<lparr>jl_extended := plain_extended_api\<lparr>xc_get_target :=
     (\<lambda>c. if fst c = 2 then replicate 31 0 @ [2] else 1 # replicate 30 0 @ [1])\<rparr>\<rparr>"

lemma le_value_zeros: "le_value (replicate n 0 @ xs) = 256 ^ n * le_value xs"
  by (induction n) simp_all


end
