(* ===== verification/Jdc_Connection.thy ===== *)
theory Jdc_Connection
  imports Jdc_Upstream Pool_Downstream
begin

text \<open>
  A miner's connection with the job declarator client (\<open>jd-client/src/lib/downstream\<close>): the connection
  setup, the negotiation of extensions, the relay of frames between the miner and the channel manager,
  and the connection's loop.  The messages are those of the pool's connections (\<open>Pool_Downstream\<close>).
\<close>

section \<open>Frames and state\<close>

text \<open>What the parsers make of a frame: the class of the message, and the message where it is handled.\<close>

datatype jdc_parsed =
    JpMining mining_from_client
  | JpRequestExtensions request_extensions
  | JpExtensions u16 u8
  | JpOther

text \<open>The first parser reads a message of the common protocol, \<^const>\<open>None\<close> when it is another one than the setup.\<close>

record jdc_in_frame =
  jif_header :: "(u16 \<times> u8) option"
  jif_parse_common :: "u16 list \<Rightarrow> (setup_connection option, jdc_error_kind) result"
  jif_parse :: "u16 list \<Rightarrow> (jdc_parsed, jdc_error_kind) result"

record ('s, 'x, 'g) jdc_connection =
  jx_downstream :: "('s, 'x, 'g) jdc_downstream"
  jx_downstream_id :: downstream_id
  jx_cancelled :: bool
  jx_frames :: "out_frame list"
  jx_to_manager :: "(downstream_id \<times> mining_from_client) list"

text \<open>A frame that does not encode shuts the program down; a closed queue has the caller's consequence.\<close>

definition jx_encode :: "connection_env \<Rightarrow> out_frame \<Rightarrow> ('c, unit) jcomp" where
  "jx_encode env frame = j_guard (cv_encode_ok env frame) (jdc_shutdown JkParser)"

definition jx_send :: "connection_env \<Rightarrow> out_frame \<Rightarrow> (('s, 'x, 'g) jdc_connection, unit) jcomp" where
  "jx_send env frame = c_bind (jx_encode env frame) (\<lambda>_.
     c_bind (c_get jx_downstream_id) (\<lambda>d.
     c_bind (j_guard (cv_send_ok env) (jdc_disconnect JkChannelErrorSender d)) (\<lambda>_.
     c_modify (\<lambda>c. c\<lparr>jx_frames := jx_frames c @ [frame]\<rparr>))))"

section \<open>Setup and extensions\<close>

text \<open>A refusal is sent if it can be, and ends the connection in any case.\<close>

definition jdc_reject_setup ::
  "connection_env \<Rightarrow> u32 \<Rightarrow> error_code \<Rightarrow> (('s, 'x, 'g) jdc_connection, unit) jcomp" where
  "jdc_reject_setup env flags code =
     c_bind (jx_encode env (SetupConnectionError flags code)) (\<lambda>_.
     c_bind (if cv_send_ok env
             then c_modify (\<lambda>c. c\<lparr>jx_frames := jx_frames c @ [SetupConnectionError flags code]\<rparr>) else c_return ()) (\<lambda>_.
     c_bind (c_get jx_downstream_id) (\<lambda>d. j_raise (jdc_disconnect JkSetupConnectionError d))))"

definition jdc_handle_setup_connection ::
  "connection_env \<Rightarrow> setup_connection \<Rightarrow> (('s, 'x, 'g) jdc_connection, unit) jcomp" where
  "jdc_handle_setup_connection env msg =
     (if scn_protocol msg \<noteq> MiningProtocol then jdc_reject_setup env 0 EC_SETUP_CONNECTION_UNSUPPORTED_PROTOCOL
      else if cv_has_work_selection env (scn_flags msg)
      then jdc_reject_setup env 2 (EC_OTHER ''unsupported-feature-flags'')
      else c_bind (c_modify (\<lambda>c. if cv_has_requires_std_job env (scn_flags msg)
             then c\<lparr>jx_downstream := (jx_downstream c)\<lparr>jn_require_std_job := True\<rparr>\<rparr> else c)) (\<lambda>_.
           jx_send env (SetupConnectionSuccess 2 0)))"

definition jdc_handle_request_extensions ::
  "connection_env \<Rightarrow> request_extensions \<Rightarrow> (('s, 'x, 'g) jdc_connection, unit) jcomp" where
  "jdc_handle_request_extensions env msg = c_bind (c_get jx_downstream) (\<lambda>ds.
     let requested = rex_requested_extensions msg;
         supported = filter (\<lambda>ext. ext \<in> set (jn_supported_extensions ds)) requested;
         unsupported = filter (\<lambda>ext. ext \<notin> set (jn_supported_extensions ds)) requested;
         missing_required = filter (\<lambda>ext. ext \<notin> set requested) (jn_required_extensions ds) in
     if supported = [] \<or> missing_required \<noteq> [] then
       c_bind (j_guard (fits_seq064k (cv_limits env) (length unsupported))
         (jdc_shutdown JkInvalidUnsupportedExtensionsSequence)) (\<lambda>_.
       c_bind (j_guard (fits_seq064k (cv_limits env) (length missing_required))
         (jdc_shutdown JkInvalidRequiredExtensionsSequence)) (\<lambda>_.
       jx_send env (RequestExtensionsError (rex_request_id msg) unsupported missing_required)))
     else
       c_bind (c_modify (\<lambda>c. c\<lparr>jx_downstream := (jx_downstream c)\<lparr>jn_negotiated_extensions := supported\<rparr>\<rparr>)) (\<lambda>_.
       c_bind (j_guard (fits_seq064k (cv_limits env) (length supported))
         (jdc_shutdown JkInvalidSupportedExtensionsSequence)) (\<lambda>_.
       jx_send env (RequestExtensionsSuccess (rex_request_id msg) supported))))"

section \<open>The connection's loop\<close>

text \<open>A frame without a header panics; a message that the dispatchers of the handler crate refuse is logged.\<close>

definition jdc_setup_connection_with_downstream ::
  "connection_env \<Rightarrow> jdc_in_frame option \<Rightarrow> (('s, 'x, 'g) jdc_connection, unit) jcomp" where
  "jdc_setup_connection_with_downstream env frame = c_bind (c_get id) (\<lambda>c. case frame of
     None \<Rightarrow> j_raise (jdc_disconnect JkChannelErrorReceiver (jx_downstream_id c))
   | Some fr \<Rightarrow> c_bind (j_expect (jif_header fr)) (\<lambda>(ext, ty).
       if ty = mt_number (cv_message_types env) M_SETUP_CONNECTION
       then c_bind (j_try (map_err jdc_log (jif_parse_common fr (jn_negotiated_extensions (jx_downstream c))))) (\<lambda>m. case m of
           Some msg \<Rightarrow> jdc_handle_setup_connection env msg
         | None \<Rightarrow> j_raise (jdc_log (JkUnexpectedMessage ext ty)))
       else j_raise (jdc_disconnect (JkUnexpectedMessage ext ty) (jx_downstream_id c))))"

definition jdc_handle_channel_manager_message ::
  "connection_env \<Rightarrow> mining option \<Rightarrow> (('s, 'x, 'g) jdc_connection, unit) jcomp" where
  "jdc_handle_channel_manager_message env msg = (case msg of
     None \<Rightarrow> c_bind (c_get jx_downstream_id) (\<lambda>d. j_raise (jdc_disconnect JkChannelErrorReceiver d))
   | Some m \<Rightarrow> jx_send env (MiningFrame m))"

definition jdc_handle_miner_frame ::
  "connection_env \<Rightarrow> jdc_in_frame option \<Rightarrow> (('s, 'x, 'g) jdc_connection, unit) jcomp" where
  "jdc_handle_miner_frame env frame = c_bind (c_get id) (\<lambda>c. case frame of
     None \<Rightarrow> j_raise (jdc_disconnect JkChannelErrorReceiver (jx_downstream_id c))
   | Some fr \<Rightarrow> c_bind (j_expect (jif_header fr)) (\<lambda>_.
       c_bind (j_try (map_err (\<lambda>k. jdc_disconnect k (jx_downstream_id c))
         (jif_parse fr (jn_negotiated_extensions (jx_downstream c))))) (\<lambda>m. case m of
         JpMining message \<Rightarrow>
           c_bind (j_guard (cv_manager_send_ok env) (jdc_shutdown JkChannelErrorSender)) (\<lambda>_.
           c_modify (\<lambda>c. c\<lparr>jx_to_manager := jx_to_manager c @ [(jx_downstream_id c, message)]\<rparr>))
       | JpRequestExtensions msg \<Rightarrow> jdc_handle_request_extensions env msg
       | JpExtensions ext ty \<Rightarrow> j_raise (jdc_log (JkUnexpectedMessage ext ty))
       | JpOther \<Rightarrow> c_return ())))"

text \<open>The control of the loop, the global token and the connection; a fallback is not for a connection to start.\<close>

definition jx_handle_error_action ::
  "jdc_tokens \<Rightarrow> jdc_error \<Rightarrow> ('s, 'x, 'g) jdc_connection \<Rightarrow> loop_control \<times> jdc_tokens \<times> ('s, 'x, 'g) jdc_connection" where
  "jx_handle_error_action tok e c =
     (if jtk_cancelled tok \<or> jtk_fallback tok then (LoopContinue, tok, c)
      else (case jce_action e of
              JcLog \<Rightarrow> (LoopContinue, tok, c)
            | JcDisconnect _ \<Rightarrow> (LoopBreak, tok, c\<lparr>jx_cancelled := True\<rparr>)
            | JcShutdown \<Rightarrow> (LoopBreak, tok\<lparr>jtk_cancelled := True\<rparr>, c)
            | JcFallback \<Rightarrow> (LoopContinue, tok, c)))"

datatype jdc_connection_event = JxFrame "jdc_in_frame option" | JxManager "mining option"

text \<open>
  The start of a connection and a turn of its loop.  The flag in the result tells that the manager
  removes the connection: always after a failed setup, otherwise when the loop ends and neither a
  shutdown nor a fallback is under way.
\<close>

definition jdc_connection_start ::
  "connection_env \<Rightarrow> jdc_tokens \<Rightarrow> jdc_in_frame option
    \<Rightarrow> (('s, 'x, 'g) jdc_connection, loop_control \<times> bool \<times> jdc_tokens) jcomp" where
  "jdc_connection_start env tok frame c = (case jdc_setup_connection_with_downstream env frame c of
     (Inr _, c) \<Rightarrow> (Ok (LoopContinue, False, tok), c)
   | (Inl JcPanic, c) \<Rightarrow> (Err JcPanic, c)
   | (Inl (JcRaised e), c) \<Rightarrow> (let (_, tok, c) = jx_handle_error_action tok e c in (Ok (LoopBreak, True, tok), c)))"

definition jdc_connection_end ::
  "jdc_tokens \<Rightarrow> (('s, 'x, 'g) jdc_connection, loop_control \<times> bool \<times> jdc_tokens) jcomp" where
  "jdc_connection_end tok c =
     (Ok (LoopBreak, \<not> jtk_cancelled tok \<and> \<not> jtk_fallback tok, tok), c\<lparr>jx_cancelled := True\<rparr>)"

definition jdc_connection_step ::
  "connection_env \<Rightarrow> jdc_tokens \<Rightarrow> jdc_connection_event
    \<Rightarrow> (('s, 'x, 'g) jdc_connection, loop_control \<times> bool \<times> jdc_tokens) jcomp" where
  "jdc_connection_step env tok ev c =
     (if jtk_cancelled tok \<or> jtk_fallback tok then jdc_connection_end tok c
      else (case (case ev of JxFrame frame \<Rightarrow> jdc_handle_miner_frame env frame c
                           | JxManager msg \<Rightarrow> jdc_handle_channel_manager_message env msg c) of
        (Inr _, c) \<Rightarrow> (Ok (LoopContinue, False, tok), c)
      | (Inl JcPanic, c) \<Rightarrow> (Err JcPanic, c)
      | (Inl (JcRaised e), c) \<Rightarrow>
          (case jx_handle_error_action tok e c of
             (LoopBreak, tok, c) \<Rightarrow> jdc_connection_end tok c
           | (LoopContinue, tok, c) \<Rightarrow> (Ok (LoopContinue, False, tok), c))))"

section \<open>Negotiation\<close>

text \<open>
  A request that misses a required extension is answered with an error and nothing else: the
  connection goes on, its earlier extensions stay in force, and the miner may mine.
\<close>

theorem missing_extensions_keep_connection:
  assumes "\<not> jtk_cancelled tok" "\<not> jtk_fallback tok" "cv_send_ok env" "\<forall>frame. cv_encode_ok env frame"
    and "\<forall>n. n \<le> max (length (rex_requested_extensions msg)) (length (jn_required_extensions (jx_downstream c)))
      \<longrightarrow> fits_seq064k (cv_limits env) n"
    and "jif_header frame \<noteq> None"
    and "jif_parse frame (jn_negotiated_extensions (jx_downstream c)) = Ok (JpRequestExtensions msg)"
    and "\<not> set (jn_required_extensions (jx_downstream c)) \<subseteq> set (rex_requested_extensions msg)"
  shows "\<exists>unsupported missing. missing \<noteq> [] \<and> jdc_connection_step env tok (JxFrame (Some frame)) c =
    (Ok (LoopContinue, False, tok), c\<lparr>jx_frames := jx_frames c @ [RequestExtensionsError (rex_request_id msg) unsupported missing]\<rparr>)"
proof -
  let ?ds = "jx_downstream c"
  let ?unsupported = "filter (\<lambda>ext. ext \<notin> set (jn_supported_extensions ?ds)) (rex_requested_extensions msg)"
  let ?missing = "filter (\<lambda>ext. ext \<notin> set (rex_requested_extensions msg)) (jn_required_extensions ?ds)"
  have miss: "?missing \<noteq> []" using assms(8) by (auto simp: filter_empty_conv)
  have fits: "fits_seq064k (cv_limits env) (length ?unsupported)" "fits_seq064k (cv_limits env) (length ?missing)"
    using assms(5) by (simp_all add: le_max_iff_disj)
  have req: "jdc_handle_request_extensions env msg c =
      (Ok (), c\<lparr>jx_frames := jx_frames c @ [RequestExtensionsError (rex_request_id msg) ?unsupported ?missing]\<rparr>)"
    using miss fits assms(3,4)
    by (simp add: jdc_handle_request_extensions_def c_bind_def c_get_def c_modify_def Let_def j_guard_def c_return_def
        jx_send_def jx_encode_def)
  obtain h where "jif_header frame = Some h" using assms(6) by auto
  then have "jdc_handle_miner_frame env (Some frame) c = jdc_handle_request_extensions env msg c"
    using assms(7) by (simp add: jdc_handle_miner_frame_def c_bind_def c_get_def j_expect_def c_return_def j_try_def)
  with req miss assms(1,2) show ?thesis
    by (intro exI [of _ ?unsupported] exI [of _ ?missing]) (simp add: jdc_connection_step_def)
qed

end
