(* ===== verification/Spec2Isabelle.thy ===== *)
theory Spec2Isabelle
  imports Payout Rpc_Template Gridpool Job_Declarator Pool_Loop Tproxy_Properties Jdc_Properties Jdc_Connection
begin

text \<open>
  A verification development for the GridPool fork of the Stratum V2 pool: the pool
  (\<open>src/pool-apps/pool\<close>), the job declaration server it embeds (\<open>src/pool-apps/jd-server\<close>), the
  translator that lets miners of the older protocol mine on it (\<open>src/miner-apps/translator\<close>), the job
  declarator client that lets miners mine on templates of their own (\<open>src/miner-apps/jd-client\<close>), and
  the code they share (\<open>src/stratum-apps\<close>).

  \<^bold>\<open>The program.\<close>  Miners connect to the pool (\<open>downstream\<close>), negotiate extensions and open standard or
  extended channels.  The channel manager (\<open>channel_manager\<close>) owns all connections: it turns the
  templates of a template provider into jobs of the channels, validates shares, adjusts difficulty and
  hands solved blocks back to the provider.  The provider is Bitcoin Core over JSON-RPC
  (\<open>template_receiver/bitcoin_rpc.rs\<close>).  A miner may bring its own jobs; they are declared to the job
  declarator, which validates them against the node and gives out tokens.  Who is paid follows from the
  identity of the miner (\<open>payout.rs\<close>), or, in GridPool mode, from the work selection of a GridPool node
  (\<open>gridpool.rs\<close>), whose client also runs the operator's fee window, collects telemetry and delivers
  share proofs.  The translator is a program of its own with two halves that talk over queues: an SV1
  server (\<open>sv1\<close>), which has the miners' connections, their handshakes, shares and difficulties, and a
  channel manager (\<open>sv2/channel_manager\<close>), which has the channels at the pool: one for each miner, or,
  in aggregated mode, one for all of them.  The job declarator client stands between miners, the pool,
  the pool's job declaration server and a template provider of the miner: it opens one channel at the
  pool, makes jobs from its own templates for the channels of its miners, and declares them (full
  template mode), or only asks for their coinbase (coinbase only mode), or mines without a pool.

  \<^bold>\<open>The theories.\<close>  Each one has the data, then the operations, then the lemmas and properties of one
  part.

  \<^item> \<open>Prelude\<close>: results (\<open>Ok\<close> and \<open>Err\<close> of a sum), checked and saturating arithmetic on words, byte
    strings, little-endian numbers, decimal text, the collections \<open>inv_rules\<close> and \<open>result_simps\<close>.
  \<^item> \<open>Coinbase_Output\<close> (\<open>config_helpers/coinbase_output\<close>, \<open>coinbase_output_constraints.rs\<close>) and
    \<open>Payout\<close> (\<open>payout.rs\<close>): output descriptors, payout modes, their distribution of the coinbase
    value and the validation of an upstream's coinbase.
  \<^item> \<open>Shared_Map\<close> (\<open>sync.rs\<close>): \<open>SharedLock\<close> with poisoning and \<open>SharedMap\<close>; the locale
    \<open>keyed_store\<close> is its contract.
  \<^item> \<open>Merkle\<close>: the two implementations of merkle paths and the merkle root.
  \<^item> \<open>Sv2_Messages\<close>, \<open>Message_Types\<close>: the messages of the protocol, the limits of their fields, and
    the classification of frames (\<open>protocol_message_type.rs\<close>).
  \<^item> \<open>Rpc_Template\<close> (\<open>template_receiver/bitcoin_rpc.rs\<close>): templates from \<open>getblocktemplate\<close>, the
    provider's loop as a step function over the replies of the node, block reconstruction.
  \<^item> \<open>Float64\<close>, \<open>Gridpool\<close> (\<open>gridpool.rs\<close>): the GridPool client; \<open>Float64\<close> has the parts of binary64
    arithmetic it computes the fee window and difficulties with.
  \<^item> \<open>Token_Manager\<close> (\<open>token_management/mod.rs\<close>), \<open>Job_Validation\<close> (\<open>job_validation\<close>) and
    \<open>Job_Declarator\<close> (\<open>job_declarator/mod.rs\<close>, its message handlers and clients): the job
    declaration server; the locale \<open>token_lifecycle\<close> is the contract of the tokens.
  \<^item> \<open>Pool_Types\<close> (messages, errors, records of the pool, and the computations with state, raised
    errors and panics in which the handlers are written, with their weakest preconditions),
    \<open>Pool_Instance\<close> (a small instance of the libraries for the witnesses), \<open>Channel_Manager\<close>
    (\<open>channel_manager/mod.rs\<close>), \<open>Mining_Handler\<close> (\<open>mining_message_handler.rs\<close>),
    \<open>Template_Handler\<close> (\<open>template_distribution_message_handler.rs\<close>), \<open>Pool_Downstream\<close>
    (\<open>downstream\<close>) and \<open>Pool_Loop\<close> (the event loop as steps of the whole state, and the states
    they reach).
  \<^item> \<open>Computation\<close>, \<open>Float32\<close>: computations with a state and faults, with their weakest
    preconditions; binary32 hashrates.
  \<^item> \<open>Tproxy_Types\<close> (errors, modes, share validation of \<open>utils.rs\<close>), \<open>Sv1_Downstream\<close>
    (\<open>sv1/downstream.rs\<close>), \<open>Sv1_Server\<close> (\<open>sv1/sv1_server\<close>: the server, its message handler and its
    difficulty manager), \<open>Sv1_Loop\<close> (the server's invariant and reachable states) and
    \<open>Sv1_Properties\<close>; \<open>Tproxy_Instance\<close> has a concrete SV1 crate for the witnesses.
  \<^item> \<open>Tproxy_Channels\<close> (\<open>sv2/channel_manager/mod.rs\<close>: requests of the SV1 server), \<open>Tproxy_Upstream\<close>
    (\<open>mining_message_handler.rs\<close>, \<open>extensions_message_handler.rs\<close>, the loop), \<open>Tproxy_Loop\<close> (the
    invariant and the reachable states), \<open>Tproxy_Traffic\<close> (what the manager sends: the locale
    \<open>tm_traffic\<close>, interpreted for the messages to the SV1 server and for the numbers of shares) and
    \<open>Tproxy_Properties\<close>; \<open>Tproxy_Channel_Instance\<close> has a concrete channel crate for the witnesses.
  \<^item> \<open>Jdc_Types\<close> (\<open>jd_mode.rs\<close>, \<open>error.rs\<close>, the states and requests of \<open>utils.rs\<close>), \<open>Jdc_Cache\<close> (the
    share cache of \<open>utils.rs\<close>; the locale \<open>worst_first\<close> is what it relies on of the standard
    library's heap), \<open>Jdc_Manager\<close> (\<open>channel_manager/mod.rs\<close>), \<open>Jdc_Downstream\<close>
    (\<open>downstream_message_handler.rs\<close>), \<open>Jdc_Template\<close> (\<open>template_message_handler.rs\<close> and
    \<open>jd_message_handler.rs\<close>), \<open>Jdc_Upstream\<close> (\<open>upstream_message_handler.rs\<close>,
    \<open>extensions_message_handler.rs\<close>, the loop) and \<open>Jdc_Connection\<close> (\<open>downstream\<close>): the job declarator
    client.  \<open>Jdc_Rules\<close> has the locales \<open>jdc_invariant\<close> and \<open>jdc_token_invariant\<close>, which lift a
    property of the sent messages over every handler; \<open>Jdc_Runs\<close> interprets them for runs of the
    loop; \<open>Jdc_Properties\<close> is about single handlers; \<open>Jdc_Instance\<close> has concrete libraries for the
    witnesses.

  \<^bold>\<open>Correspondence.\<close>  A struct is a record with a short prefix per type (\<open>cm_\<close> for the pool's
  \<open>ChannelManager\<close>, \<open>jc_\<close> for the one of the job declarator client, \<open>ds_\<close> for \<open>Downstream\<close>), an enum a datatype, a machine integer a word, a Rust string the list of its
  bytes, \<open>Result\<close> a sum.  A handler returns its result and the new state, which keeps what was changed
  before an error; a panic is a value of its own.  \<open>HashMap\<close> and \<open>DashMap\<close> are association lists with
  distinct keys, iterated in list order; no property depends on that order.  Floating-point fields that
  are only passed on are opaque words.  Code that is not in the repository is a parameter: the channel
  crate (records \<open>standard_api\<close>, \<open>extended_api\<close>, \<open>group_api\<close>, \<open>vardiff_api\<close>, for the translator
  \<open>client_extended_api\<close>, \<open>client_group_api\<close>, \<open>allocator_api\<close>, for the job
  declarator client \<open>upstream_api\<close> and \<open>job_factory_api\<close>), the SV1 crate (\<open>sv1_lib\<close>), miniscript and address
  parsers, hashing, consensus encoding, the numbers and limits of the wire format; so are the clock,
  the file system, HTTP replies and the success of sends.

  \<^bold>\<open>What is shown.\<close>  Money: the outputs of every payout mode and of every GridPool channel distribute
  exactly the coinbase value, also under wrap-around, and pass the client's validation; the operator's
  fee window has exactly its share of every cycle; constraints announced at the start cover the outputs
  of every channel.  Work: merkle paths are right for every coinbase and take as many rounds as the tree
  is high; submitted blocks are consistent over every run of the provider; templates and fee refreshes
  never repeat a coinbase prefix.  Jobs: a custom job is installed only if it is the declared and
  validated one, once per token; the token manager refines a single map with an unbounded counter.
  Channels: requests and shares are answered once, with the right messages in the right order; a new
  template reaches every channel once.  State: the maps of the channel manager, of the job declarator
  and of the token manager stay consistent in every reachable state, and a lost connection leaves no
  trace.  Translator: both halves stay consistent and do not panic, but for one overlong identity; the
  channel manager sends the SV1 server only messages it handles; in aggregated mode the miners' search
  spaces stay apart and their shares go upstream as the work they are, numbered without gaps; the
  difficulty a miner is checked against is the one it was told.  Job declarator client: over every run
  the shares sent to the pool name jobs that the pool acknowledged, and a miner's share arrives as the
  same work; the cache of shares that wait for an acknowledgement keeps exactly the best ones.

  Several properties state what the code does where it does not do what it means to: a lost
  first template, a cancelled tip refresh, payouts that follow the channel opened last, previous hashes
  for jobs that were never sent, difficulties applied early, groups that bring the translator down,
  channels that are closed or orphaned without notice, and in the job declarator client requests that
  are dropped with an unrelated one, tokens that are used twice or run out for good, and a least target
  that is not the least.

  \<^bold>\<open>Bounds.\<close>  No definition uses fuel except where the code has a bound of its own
  (\<open>CHAIN_TIP_REFRESH_ATTEMPTS\<close> attempts of the tip refresh); loops without a bound are inductive
  reachability over steps or recursion over the list of received events.  Token and connection counters
  that could wrap carry an explicit hypothesis that they have room.

  \<^bold>\<open>Not modelled.\<close>  The noise transport, sockets, HTTP and task management; monitoring; the IPC
  template provider and its transport, whose answers are parameters; concurrency inside one handler
  (each handler runs atomically on the maps, as the entry guards of the code enforce for the connection
  it works on), except for the cancellation of a waiting handler; the display of errors in logs; the
  translator's upstream connection and the start of its tasks; the job declarator client's connections
  to the pool, the job declaration server and the template provider, which relay frames, and the start,
  shutdown and fallback of its tasks (\<open>lib/mod.rs\<close>).
\<close>

section \<open>Constraints and channel outputs\<close>

lemma gridpool_outputs_suffix:
  assumes "gridpool_coinbase_outputs lib c now p v = Ok outs" and "gridpool_coinbase_outputs lib c now' p' v' = Ok outs'"
  shows "\<exists>t t' ts. outs = t # ts \<and> outs' = t' # ts"
  using assms by (auto simp: gridpool_coinbase_outputs_def Let_def rbind_eq_Inr_iff)

text \<open>
  C15. What the pool asks of the template provider at its start is enough for every GridPool channel:
  as long as the work selection is the one of the start, the coinbase outputs built for any miner at
  any time and for any value fit in the announced size, provided that the script in slot zero is at
  most 43 bytes larger than the one the constraints were computed with.
\<close>

theorem start_constraints_cover_channels:
  assumes "cm_gridpool cm = Some g" and "cm_start lib env outs cm = (Ok (), cm')"
    and "constraint_outputs (pl_gridpool lib) g (pv_now env) = Ok cs"
    and "gridpool_coinbase_outputs (pl_gridpool lib) g now payout v = Ok channel_outs"
    and "sum_list (map (tm_size (pl_tx_metrics lib)) cs) + 43 < 2 ^ 32"
    and "tm_size (pl_tx_metrics lib) (hd channel_outs) \<le> tm_size (pl_tx_metrics lib) (hd cs) + 43"
  shows "\<exists>c. cm_sent cm' = cm_sent cm @ [RouteTemplateProvider (CoinbaseOutputConstraints c)] \<and>
    sum_list (map (tm_size (pl_tx_metrics lib)) channel_outs) \<le> unat (coc_max_additional_size c)"
proof -
  obtain t t' ts where e: "cs = t # ts" "channel_outs = t' # ts"
    using gridpool_outputs_suffix [OF assms(3) [unfolded constraint_outputs_def] assms(4)] by blast
  have "cm_sent cm' = cm_sent cm @ [RouteTemplateProvider (CoinbaseOutputConstraints
      (coinbase_output_constraints_message_with_offset (pl_tx_metrics lib) cs))]"
    using assms(1-3) by (auto simp: cm_start_def c_bind_def c_try_def cm_coinbase_output_constraints_def c_call_def forward_def
        split: if_splits)
  moreover have "sum_list (map (tm_size (pl_tx_metrics lib)) channel_outs) \<le>
      unat (coc_max_additional_size (coinbase_output_constraints_message_with_offset (pl_tx_metrics lib) cs))"
    using constraints_cover_replacement [of "pl_tx_metrics lib" t ts t'] assms(5,6) by (simp add: e)
  ultimately show ?thesis by blast
qed

definition fee_free_client :: gridpool_client where
  "fee_free_client = sample_client\<lparr>gp_config := (gp_config sample_client)\<lparr>gc_operator_fee_address := None\<rparr>\<rparr>"

theorem start_constraints_cover_channels_witness:
  "\<exists>c. cm_sent (snd (cm_start plain_pool_lib plain_pool_env []
       (plain_manager (Some fee_free_client) (plain_downstream False False [] []) []))) =
     [RouteTemplateProvider (CoinbaseOutputConstraints c)] \<and> 68 \<le> unat (coc_max_additional_size c)"
proof -
  let ?cm = "plain_manager (Some fee_free_client) (plain_downstream False False [] []) []"
  let ?lib = "pl_gridpool plain_pool_lib" and ?p = "\<lparr>cp_payout_address = ''bc1m'', cp_username = ''u''\<rparr>"
  have net: "parse_network ''mainnet'' = Ok Bitcoin" by code_simp
  have parse: "parse_address ?lib a ''mainnet'' = Ok (str_bytes a)" if "prefix ''bc1'' a" for a
    using that by (simp add: parse_address_def net plain_pool_lib_def plain_gridpool_lib_def rbind_def map_err_def)
  have slot: "slot_zero_address ?lib fee_free_client now p = cp_payout_address p" for now p
    by (simp add: slot_zero_address_def fee_active_def fee_free_client_def)
  have work: "gp_work fee_free_client = gp_work sample_client" "ws_bitcoin_network (gp_work sample_client) = ''mainnet''"
    "ws_coinbase_outputs (gp_work sample_client) = [\<lparr>go_value = 10, go_script_pub_key_hex = ''x''\<rparr>]"
    "gc_fallback_payout_address (gp_config fee_free_client) = ''bc1f''"
    "gl_hex_decode ?lib = (\<lambda>s. Ok (str_bytes s))"
    by (simp_all add: fee_free_client_def sample_client_def plain_pool_lib_def plain_gridpool_lib_def)
  have g: "gridpool_coinbase_outputs ?lib fee_free_client now p 11 =
      Ok [TxOut 1 (str_bytes (cp_payout_address p)), TxOut 10 (str_bytes ''x'')]" if "prefix ''bc1'' (cp_payout_address p)" for now p
    using that by (simp add: gridpool_coinbase_outputs_def Let_def slot work parse checked_sum_def checked_add_def checked_sub_def)
  have c: "constraint_outputs ?lib fee_free_client (pv_now plain_pool_env) = Ok [TxOut 1 (str_bytes ''bc1f''), TxOut 10 (str_bytes ''x'')]"
    by (simp add: constraint_outputs_def work g)
  have m: "tm_size (pl_tx_metrics plain_pool_lib) = (\<lambda>_. 34)" by (simp add: plain_pool_lib_def)
  have s: "cm_gridpool ?cm = Some fee_free_client" "cm_sent ?cm = []" by (simp_all add: plain_manager_def)
  have tp: "pv_tp_send_ok plain_pool_env" by (simp add: plain_pool_env_def)
  have "\<exists>cm'. cm_start plain_pool_lib plain_pool_env [] ?cm = (Ok (), cm')"
    by (simp add: cm_start_def s c tp c_bind_def c_try_def map_err_def cm_coinbase_output_constraints_def c_call_def forward_def)
  then obtain cm' where e: "cm_start plain_pool_lib plain_pool_env [] ?cm = (Ok (), cm')" by blast
  have "gridpool_coinbase_outputs ?lib fee_free_client 0 ?p 11 = Ok [TxOut 1 (str_bytes ''bc1m''), TxOut 10 (str_bytes ''x'')]"
    by (simp add: g)
  from start_constraints_cover_channels [OF s(1) e c this] show ?thesis
    unfolding e snd_conv by (simp add: m s(2))
qed

end
